(* ===== verification/Prelude.thy ===== *)
theory Prelude
  imports Main
begin

text \<open>
  Shared vocabulary of the development: the numbers, errors, tables and loops that every
  service of the platform uses, with the generic lemmas about them.

  Amounts. The services carry money as decimal strings, compute with \<open>bignumber.js\<close> and store
  \<open>numeric(28, 8)\<close> columns. A decimal with at most eight fractional digits is modelled by the
  integer that counts its units of \<open>10 ^ (- 8)\<close>; a product of two such decimals is an
  integer of units of \<open>10 ^ (- 16)\<close>, and every rounding back to eight digits is written out.
\<close>

section \<open>Lemma collections\<close>

named_theorems table_simps \<open>facts on rows of a table after an update\<close>
named_theorems bind_simps \<open>facts on results that may carry an exception\<close>

section \<open>Numbers\<close>

type_synonym amount = int
type_synonym uuid = string
type_synonym time = nat

text \<open>\<open>numeric(28, 8)\<close>: twenty-eight digits, eight of them after the point.\<close>

definition numeric_28_8 :: "int \<Rightarrow> bool" where
  "numeric_28_8 x \<longleftrightarrow> \<bar>x\<bar> < 10 ^ 28"

lemma numeric_28_8_0 [simp]: "numeric_28_8 0"
  by (simp add: numeric_28_8_def)

section \<open>Exceptions and results\<close>

text \<open>
  What the services raise: the Nest HTTP exceptions (with their error code or message), a gRPC
  exception with its numeric code, an error of the database with its SQLSTATE, and a plain
  \<open>Error\<close>.
\<close>

datatype exc =
    BadRequestException string
  | NotFoundException string
  | ForbiddenException string
  | ConflictException string
  | UnauthorizedException string
  | RpcException int string
  | DbException string
  | PlainError string

definition connection_lost :: exc where
  "connection_lost = DbException ''08006''"

type_synonym 'a result = "exc + 'a"

definition bindR :: "'a result \<Rightarrow> ('a \<Rightarrow> 'b result) \<Rightarrow> 'b result" where
  "bindR r f = (case r of Inl e \<Rightarrow> Inl e | Inr x \<Rightarrow> f x)"

lemma bindR_Inl [simp, bind_simps]: "bindR (Inl e) f = Inl e"
  by (simp add: bindR_def)

lemma bindR_Inr [simp, bind_simps]: "bindR (Inr x) f = f x"
  by (simp add: bindR_def)

lemma bindR_eq_Inr [bind_simps]: "bindR r f = Inr y \<longleftrightarrow> (\<exists>x. r = Inr x \<and> f x = Inr y)"
  by (cases r) auto

lemma bindR_eq_Inl [bind_simps]:
  "bindR r f = Inl e \<longleftrightarrow> r = Inl e \<or> (\<exists>x. r = Inr x \<and> f x = Inl e)"
  by (cases r) auto

text \<open>A transaction of the database: the writes of a body that raises are rolled back.\<close>

definition transaction :: "('db \<Rightarrow> ('a \<times> 'db) result) \<Rightarrow> 'db \<Rightarrow> 'a result \<times> 'db" where
  "transaction body db =
     (case body db of Inl e \<Rightarrow> (Inl e, db) | Inr (x, db') \<Rightarrow> (Inr x, db'))"

lemma transaction_rollback: "fst (transaction body db) = Inl e \<Longrightarrow> snd (transaction body db) = db"
  by (auto simp: transaction_def split: sum.splits prod.splits)

section \<open>Tables\<close>

text \<open>
  A table is the list of its rows. A query with \<open>limit 1\<close> is \<open>List.find\<close>; an \<open>update\<close> maps
  the rows that satisfy its \<open>where\<close> clause.
\<close>

definition update_rows :: "('r \<Rightarrow> bool) \<Rightarrow> ('r \<Rightarrow> 'r) \<Rightarrow> 'r list \<Rightarrow> 'r list" where
  "update_rows P f rows = map (\<lambda>r. if P r then f r else r) rows"

lemma update_rows_Nil [simp]: "update_rows P f [] = []"
  by (simp add: update_rows_def)

lemma update_rows_Cons [simp]:
  "update_rows P f (r # rows) = (if P r then f r else r) # update_rows P f rows"
  by (simp add: update_rows_def)

lemma length_update_rows [simp]: "length (update_rows P f rows) = length rows"
  by (simp add: update_rows_def)

lemma map_update_rows [table_simps]:
  "(\<And>r. P r \<Longrightarrow> g (f r) = g r) \<Longrightarrow> map g (update_rows P f rows) = map g rows"
  by (induction rows) auto

lemma set_update_rows [table_simps]:
  "set (update_rows P f rows) = f ` {r \<in> set rows. P r} \<union> {r \<in> set rows. \<not> P r}"
  by (induction rows) auto

lemma update_rows_none [table_simps]:
  "(\<And>r. r \<in> set rows \<Longrightarrow> \<not> P r) \<Longrightarrow> update_rows P f rows = rows"
  by (induction rows) auto

lemma find_SomeD [dest]: "List.find P rows = Some r \<Longrightarrow> r \<in> set rows \<and> P r"
  by (auto simp: find_Some_iff)

lemma find_NoneD [dest]: "List.find P rows = None \<Longrightarrow> r \<in> set rows \<Longrightarrow> \<not> P r"
  by (auto simp: find_None_iff)

lemma find_key_Some [table_simps]:
  assumes "distinct (map k rows)" and "r \<in> set rows"
  shows "List.find (\<lambda>x. k x = k r) rows = Some r"
  using assms by (induction rows) (auto simp: image_iff)

lemma find_append: "List.find P (xs @ ys) =
    (case List.find P xs of None \<Rightarrow> List.find P ys | Some x \<Rightarrow> Some x)"
  by (induction xs) auto

lemma distinct_key_eq:
  "distinct (map k rows) \<Longrightarrow> r \<in> set rows \<Longrightarrow> r' \<in> set rows \<Longrightarrow> k r = k r' \<Longrightarrow> r = r'"
  by (metis distinct_map inj_on_def)

lemma sum_update_row:
  fixes v :: "'r \<Rightarrow> int"
  assumes "distinct (map k rows)" and "r \<in> set rows"
  shows "sum_list (map v (update_rows (\<lambda>x. k x = k r) f rows)) = sum_list (map v rows) - v r + v (f r)"
  using assms
proof (induction rows)
  case Nil
  then show ?case by simp
next
  case (Cons x rows)
  show ?case
  proof (cases "x = r")
    case True
    with Cons.prems have "update_rows (\<lambda>x. k x = k r) f rows = rows"
      by (intro update_rows_none) (auto simp: image_iff)
    with True show ?thesis by simp
  next
    case False
    with Cons.prems have "k x \<noteq> k r" by (auto simp: image_iff)
    with False Cons show ?thesis by simp
  qed
qed

section \<open>Rounding to a fixed number of decimals\<close>

text \<open>
  \<open>toFixed (8)\<close> of a value given in units of \<open>10 ^ (- 16)\<close> is an integer of units of
  \<open>10 ^ (- 8)\<close>. It belongs to \<open>bignumber.js\<close>, so it is an argument of the model; the two
  rounding modes the services run with are described by what the library documents of them.
\<close>

type_synonym rounding = "int \<Rightarrow> int"

definition rounds_down :: "rounding \<Rightarrow> bool" where
  "rounds_down fx \<longleftrightarrow> (\<forall>x\<ge>0. fx x * 10 ^ 8 \<le> x \<and> x < (fx x + 1) * 10 ^ 8)"

definition rounds_half_up :: "rounding \<Rightarrow> bool" where
  "rounds_half_up fx \<longleftrightarrow>
     (\<forall>x\<ge>0. 2 * x - 10 ^ 8 < 2 * (fx x * 10 ^ 8) \<and> 2 * (fx x * 10 ^ 8) \<le> 2 * x + 10 ^ 8)"

text \<open>Concrete instances, for the witnesses.\<close>

definition fix_down :: rounding where
  "fix_down x = x div 10 ^ 8"

definition fix_half_up :: rounding where
  "fix_half_up x = (x + 5 * 10 ^ 7) div 10 ^ 8"

lemma div_bounds:
  fixes x d :: int
  assumes "0 < d"
  shows "x div d * d \<le> x" and "x < (x div d + 1) * d"
proof -
  have eq: "x div d * d + x mod d = x" by simp
  have "0 \<le> x mod d" and "x mod d < d" using assms by simp_all
  with eq show "x div d * d \<le> x" and "x < (x div d + 1) * d"
    by (simp_all only: distrib_right)
qed

lemma rounds_down_fix_down: "rounds_down fix_down"
  unfolding rounds_down_def fix_down_def using div_bounds [of "10 ^ 8"] by simp

lemma rounds_half_up_fix_half_up: "rounds_half_up fix_half_up"
proof -
  have "2 * x - 10 ^ 8 < 2 * (fix_half_up x * 10 ^ 8) \<and>
      2 * (fix_half_up x * 10 ^ 8) \<le> 2 * x + 10 ^ 8" for x
    using div_bounds [of "10 ^ 8" "x + 5 * 10 ^ 7"]
    by (simp add: fix_half_up_def distrib_right)
  then show ?thesis by (simp add: rounds_half_up_def)
qed

lemma rounds_down_nonneg:
  assumes "rounds_down fx" and "0 \<le> x"
  shows "0 \<le> fx x"
proof -
  from assms have "x < (fx x + 1) * 10 ^ 8" by (simp add: rounds_down_def)
  with assms(2) show ?thesis by simp
qed

end
