(* ===== verification/Ledger.thy ===== *)
theory Ledger
  imports Prelude
begin

text \<open>
  The ledger of the accounts service: the tables \<open>accounts\<close> and \<open>ledger_transactions\<close>
  (\<open>apps/accounts/src/database/schema\<close>) and the operations of \<open>BalancesRepository\<close>
  (\<open>apps/accounts/src/balances/balances.repository.ts\<close>), each a transaction with its
  idempotency check, its row lock, its guarded update and its ledger row.
\<close>

section \<open>Tables\<close>

datatype ledger_type = DEPOSIT | LOCK | UNLOCK | ON_CHAIN_DEPOSIT | WITHDRAWAL | TRADE_SETTLEMENT

record account =
  account_id :: uuid
  account_userId :: uuid
  account_currency :: string
  availableBalance :: amount
  lockedBalance :: amount
  account_updatedAt :: time

record ledger_tx =
  tx_accountId :: uuid
  tx_userId :: uuid
  tx_currency :: string
  tx_type :: ledger_type
  tx_amount :: amount
  availableDelta :: amount
  lockedDelta :: amount
  balanceAfterAvailable :: amount
  balanceAfterLocked :: amount
  tx_idempotencyKey :: "string option"
  tx_referenceId :: "string option"

record processed_event =
  pe_eventId :: uuid
  pe_eventType :: string
  pe_consumerGroup :: string
  pe_processedAt :: time

record accounts_db =
  accounts :: "account list"
  ledgerTransactions :: "ledger_tx list"
  processedEvents :: "processed_event list"

text \<open>The discriminated result of a balance mutation, and its parameters.\<close>

datatype mutation_result =
    OK account
  | IDEMPOTENT_REPLAY account
  | NOT_FOUND
  | INSUFFICIENT_AVAILABLE amount
  | INSUFFICIENT_LOCKED amount
  | IDEMPOTENCY_PAYLOAD_MISMATCH

record mutation_params =
  p_userId :: uuid
  p_currency :: string
  p_amount :: amount
  p_idempotencyKey :: string
  p_referenceId :: "string option"

section \<open>The database around a transaction\<close>

text \<open>
  PostgreSQL runs the transactions of all connections at \<open>read committed\<close>: between two
  statements of one transaction others may commit. \<open>race1\<close> is what they commit between the
  idempotency check and the row lock, \<open>race2\<close> what they commit between a row lock that
  found nothing and the insert that follows. \<open>failedTx\<close> is what a query answers in a
  transaction one statement of which has failed. They belong to the database, so every
  operation takes them as an argument.
\<close>

record pg_env =
  race1 :: "accounts_db \<Rightarrow> accounts_db"
  race2 :: "accounts_db \<Rightarrow> accounts_db"
  failedTx :: "mutation_result option \<Rightarrow> mutation_result option result"

definition quiet_pg :: pg_env where
  "quiet_pg = \<lparr>race1 = (\<lambda>d. d), race2 = (\<lambda>d. d), failedTx = (\<lambda>_. Inl (DbException ''25P02''))\<rparr>"

definition unique_violation :: exc where
  "unique_violation = DbException ''23505''"

definition isIdempotencyUniqueViolation :: "exc \<Rightarrow> bool" where
  "isIdempotencyUniqueViolation err \<longleftrightarrow> err = unique_violation"

definition varchar_128 :: "string option \<Rightarrow> bool" where
  "varchar_128 s = (case s of None \<Rightarrow> True | Some k \<Rightarrow> length k \<le> 128)"

section \<open>Statements\<close>

definition findByUserAndCurrency :: "uuid \<Rightarrow> string \<Rightarrow> accounts_db \<Rightarrow> account option" where
  "findByUserAndCurrency userId currency db =
     List.find (\<lambda>a. account_userId a = userId \<and> account_currency a = currency) (accounts db)"

definition findLedgerByIdempotencyKey :: "string \<Rightarrow> accounts_db \<Rightarrow> ledger_tx option" where
  "findLedgerByIdempotencyKey key db =
     List.find (\<lambda>t. tx_idempotencyKey t = Some key) (ledgerTransactions db)"

text \<open>Insert of a zero-balance account; (user, currency) and the primary key are unique.\<close>

definition insert_account :: "uuid \<Rightarrow> uuid \<Rightarrow> string \<Rightarrow> time \<Rightarrow> accounts_db \<Rightarrow> (account \<times> accounts_db) result" where
  "insert_account newId userId currency now db =
     (if (\<exists>a\<in>set (accounts db). account_id a = newId) \<or> findByUserAndCurrency userId currency db \<noteq> None
      then Inl unique_violation
      else
        let a = \<lparr>account_id = newId, account_userId = userId, account_currency = currency,
                 availableBalance = 0, lockedBalance = 0, account_updatedAt = now\<rparr>
        in Inr (a, db\<lparr>accounts := accounts db @ [a]\<rparr>))"

text \<open>
  \<open>update accounts set available = available + dA, locked = locked + dL where id and guard
  returning\<close>; a balance that leaves \<open>numeric(28, 8)\<close> raises.
\<close>

definition update_balances ::
  "uuid \<Rightarrow> (account \<Rightarrow> bool) \<Rightarrow> amount \<Rightarrow> amount \<Rightarrow> time \<Rightarrow> accounts_db \<Rightarrow> (account option \<times> accounts_db) result" where
  "update_balances i guard dA dL now db =
     (case List.find (\<lambda>a. account_id a = i \<and> guard a) (accounts db) of
        None \<Rightarrow> Inr (None, db)
      | Some a \<Rightarrow>
          let a' = a\<lparr>availableBalance := availableBalance a + dA,
                     lockedBalance := lockedBalance a + dL, account_updatedAt := now\<rparr>
          in if numeric_28_8 (availableBalance a') \<and> numeric_28_8 (lockedBalance a')
             then Inr (Some a', db\<lparr>accounts := update_rows (\<lambda>x. account_id x = i) (\<lambda>_. a') (accounts db)\<rparr>)
             else Inl (DbException ''22003''))"

definition insert_ledger :: "ledger_tx \<Rightarrow> accounts_db \<Rightarrow> accounts_db result" where
  "insert_ledger t db =
     (if \<not> varchar_128 (tx_idempotencyKey t) \<or> \<not> varchar_128 (tx_referenceId t)
      then Inl (DbException ''22001'')
      else if \<not> (numeric_28_8 (tx_amount t) \<and> numeric_28_8 (availableDelta t) \<and> numeric_28_8 (lockedDelta t)
                 \<and> numeric_28_8 (balanceAfterAvailable t) \<and> numeric_28_8 (balanceAfterLocked t))
      then Inl (DbException ''22003'')
      else if tx_idempotencyKey t \<noteq> None
              \<and> (\<exists>u\<in>set (ledgerTransactions db). tx_idempotencyKey u = tx_idempotencyKey t)
      then Inl unique_violation
      else Inr (db\<lparr>ledgerTransactions := ledgerTransactions db @ [t]\<rparr>))"

section \<open>Operations of the repository\<close>

text \<open>\<open>findOrCreate\<close> runs outside a transaction: each query commits by itself.\<close>

definition findOrCreate ::
  "pg_env \<Rightarrow> uuid \<Rightarrow> time \<Rightarrow> uuid \<Rightarrow> string \<Rightarrow> accounts_db \<Rightarrow> account result \<times> accounts_db" where
  "findOrCreate pg newId now userId currency db =
     (case findByUserAndCurrency userId currency db of
        Some existing \<Rightarrow> (Inr existing, db)
      | None \<Rightarrow>
          let db1 = race1 pg db in
          (case insert_account newId userId currency now db1 of
             Inr (created, db') \<Rightarrow> (Inr created, db')
           | Inl _ \<Rightarrow>
               (case findByUserAndCurrency userId currency db1 of
                  Some fallback \<Rightarrow> (Inr fallback, db1)
                | None \<Rightarrow> (Inl (PlainError ''Failed to create or find account''), db1))))"

definition resolveIdempotencyReplay ::
  "ledger_type \<Rightarrow> mutation_params \<Rightarrow> accounts_db \<Rightarrow> mutation_result option" where
  "resolveIdempotencyReplay expectedType p db =
     (case findLedgerByIdempotencyKey (p_idempotencyKey p) db of
        None \<Rightarrow> None
      | Some existingTx \<Rightarrow>
          let amountMatches = tx_amount existingTx = p_amount p;
              currencyMatches = tx_currency existingTx = p_currency p;
              typeMatches = tx_type existingTx = expectedType
          in if \<not> amountMatches \<or> \<not> currencyMatches \<or> \<not> typeMatches
             then Some IDEMPOTENCY_PAYLOAD_MISMATCH
             else (case List.find (\<lambda>a. account_id a = tx_accountId existingTx) (accounts db) of
                     None \<Rightarrow> Some NOT_FOUND
                   | Some currentAccount \<Rightarrow> Some (IDEMPOTENT_REPLAY currentAccount)))"

text \<open>
  The tail all five mutations share: insert the ledger row; on a violation of the key's unique
  index ask again for a replay in the transaction that has just failed. \<open>before\<close> is the
  committed state the transaction rolls back to.
\<close>

definition record_mutation ::
  "pg_env \<Rightarrow> ledger_type \<Rightarrow> mutation_params \<Rightarrow> amount \<Rightarrow> amount \<Rightarrow> account \<Rightarrow> accounts_db \<Rightarrow> accounts_db
   \<Rightarrow> mutation_result result \<times> accounts_db" where
  "record_mutation pg ty p dA dL updated before db =
     (case insert_ledger
             \<lparr>tx_accountId = account_id updated, tx_userId = p_userId p, tx_currency = p_currency p,
              tx_type = ty, tx_amount = p_amount p, availableDelta = dA, lockedDelta = dL,
              balanceAfterAvailable = availableBalance updated,
              balanceAfterLocked = lockedBalance updated,
              tx_idempotencyKey = Some (p_idempotencyKey p),
              tx_referenceId = p_referenceId p\<rparr> db of
        Inr db' \<Rightarrow> (Inr (OK updated), db')
      | Inl err \<Rightarrow>
          (if isIdempotencyUniqueViolation err
           then (case failedTx pg (resolveIdempotencyReplay ty p db) of
                   Inl e \<Rightarrow> (Inl e, before)
                 | Inr (Some concurrentReplay) \<Rightarrow> (Inr concurrentReplay, before)
                 | Inr None \<Rightarrow> (Inl err, before))
           else (Inl err, before)))"

text \<open>
  \<open>deposit\<close> and \<open>creditDeposit\<close> are the same transaction but for the ledger type and the
  reference: the account is locked or created, then credited.
\<close>

definition credit_account ::
  "ledger_type \<Rightarrow> pg_env \<Rightarrow> uuid \<Rightarrow> time \<Rightarrow> mutation_params \<Rightarrow> accounts_db \<Rightarrow> mutation_result result \<times> accounts_db" where
  "credit_account ty pg newId now p db =
     (case resolveIdempotencyReplay ty p db of
        Some replay \<Rightarrow> (Inr replay, db)
      | None \<Rightarrow>
          let db1 = race1 pg db;
              credit = (\<lambda>before acc d.
                case update_balances (account_id acc) (\<lambda>_. True) (p_amount p) 0 now d of
                  Inl e \<Rightarrow> (Inl e, before)
                | Inr (None, d') \<Rightarrow> (Inl (PlainError ''TypeError''), before)
                | Inr (Some updated, d') \<Rightarrow> record_mutation pg ty p (p_amount p) 0 updated before d')
          in (case findByUserAndCurrency (p_userId p) (p_currency p) db1 of
                Some acc \<Rightarrow> credit db1 acc db1
              | None \<Rightarrow>
                  let db2 = race2 pg db1 in
                  (case insert_account newId (p_userId p) (p_currency p) now db2 of
                     Inr (created, d) \<Rightarrow> credit db2 created d
                   | Inl _ \<Rightarrow>
                       (case failedTx pg None of
                          Inl e \<Rightarrow> (Inl e, db2)
                        | Inr _ \<Rightarrow>
                            (case findByUserAndCurrency (p_userId p) (p_currency p) db2 of
                               None \<Rightarrow> (Inr NOT_FOUND, db2)
                             | Some lockedAccount \<Rightarrow> credit db2 lockedAccount db2)))))"

definition deposit ::
  "pg_env \<Rightarrow> uuid \<Rightarrow> time \<Rightarrow> mutation_params \<Rightarrow> accounts_db \<Rightarrow> mutation_result result \<times> accounts_db" where
  "deposit pg newId now p db = credit_account DEPOSIT pg newId now (p\<lparr>p_referenceId := None\<rparr>) db"

definition creditDeposit ::
  "pg_env \<Rightarrow> uuid \<Rightarrow> time \<Rightarrow> mutation_params \<Rightarrow> accounts_db \<Rightarrow> mutation_result result \<times> accounts_db" where
  "creditDeposit pg newId now p db = credit_account ON_CHAIN_DEPOSIT pg newId now p db"

text \<open>
  \<open>lock\<close>, \<open>unlock\<close> and \<open>debitWithdrawal\<close> share the shape below: the row is locked, updated
  under a guard, and the guard's failure is a result of its own.
\<close>

definition move_funds ::
  "ledger_type \<Rightarrow> (account \<Rightarrow> bool) \<Rightarrow> (account \<Rightarrow> mutation_result) \<Rightarrow> amount \<Rightarrow> amount
   \<Rightarrow> pg_env \<Rightarrow> time \<Rightarrow> mutation_params \<Rightarrow> accounts_db \<Rightarrow> mutation_result result \<times> accounts_db" where
  "move_funds ty guard refuse dA dL pg now p db =
     (case resolveIdempotencyReplay ty p db of
        Some replay \<Rightarrow> (Inr replay, db)
      | None \<Rightarrow>
          let db1 = race1 pg db in
          (case findByUserAndCurrency (p_userId p) (p_currency p) db1 of
             None \<Rightarrow> (Inr NOT_FOUND, db1)
           | Some acc \<Rightarrow>
               (case update_balances (account_id acc) guard dA dL now db1 of
                  Inl e \<Rightarrow> (Inl e, db1)
                | Inr (None, d) \<Rightarrow> (Inr (refuse acc), db1)
                | Inr (Some updated, d) \<Rightarrow> record_mutation pg ty p dA dL updated db1 d)))"

definition lock :: "pg_env \<Rightarrow> time \<Rightarrow> mutation_params \<Rightarrow> accounts_db \<Rightarrow> mutation_result result \<times> accounts_db" where
  "lock pg now p db =
     move_funds LOCK (\<lambda>a. p_amount p \<le> availableBalance a) (\<lambda>a. INSUFFICIENT_AVAILABLE (availableBalance a))
       (- p_amount p) (p_amount p) pg now p db"

definition unlock :: "pg_env \<Rightarrow> time \<Rightarrow> mutation_params \<Rightarrow> accounts_db \<Rightarrow> mutation_result result \<times> accounts_db" where
  "unlock pg now p db =
     move_funds UNLOCK (\<lambda>a. p_amount p \<le> lockedBalance a) (\<lambda>a. INSUFFICIENT_LOCKED (lockedBalance a))
       (p_amount p) (- p_amount p) pg now p db"

definition debitWithdrawal :: "pg_env \<Rightarrow> time \<Rightarrow> mutation_params \<Rightarrow> accounts_db \<Rightarrow> mutation_result result \<times> accounts_db" where
  "debitWithdrawal pg now p db =
     move_funds WITHDRAWAL (\<lambda>a. p_amount p \<le> lockedBalance a) (\<lambda>a. INSUFFICIENT_LOCKED (lockedBalance a))
       0 (- p_amount p) pg now p db"

end
