(* ===== verification/Ledger_Inv.thy ===== *)
theory Ledger_Inv
  imports Ledger
begin

text \<open>
  Correctness of the ledger: the invariant that ties every balance to the rows of
  \<open>ledger_transactions\<close>, its preservation by every operation of the repository under any
  interference the database allows, and the functional behaviour of each operation.
\<close>

section \<open>The invariant\<close>

definition ledger_sum :: "(ledger_tx \<Rightarrow> amount) \<Rightarrow> uuid \<Rightarrow> ledger_tx list \<Rightarrow> amount" where
  "ledger_sum delta i ts = sum_list (map delta (filter (\<lambda>t. tx_accountId t = i) ts))"

lemma ledger_sum_Nil [simp]: "ledger_sum delta i [] = 0"
  by (simp add: ledger_sum_def)

lemma ledger_sum_append [simp]:
  "ledger_sum delta i (xs @ ys) = ledger_sum delta i xs + ledger_sum delta i ys"
  by (simp add: ledger_sum_def)

lemma ledger_sum_single [simp]:
  "ledger_sum delta i [t] = (if tx_accountId t = i then delta t else 0)"
  by (simp add: ledger_sum_def)

lemma ledger_sum_unknown: "\<forall>t\<in>set ts. tx_accountId t \<noteq> i \<Longrightarrow> ledger_sum delta i ts = 0"
  by (induction ts) (auto simp: ledger_sum_def)

text \<open>Every row tells the balance its account had right after it: the audit trail.\<close>

definition audit_trail :: "ledger_tx list \<Rightarrow> bool" where
  "audit_trail ts \<longleftrightarrow>
     (\<forall>n<length ts.
        balanceAfterAvailable (ts ! n) = ledger_sum availableDelta (tx_accountId (ts ! n)) (take (Suc n) ts)
        \<and> balanceAfterLocked (ts ! n) = ledger_sum lockedDelta (tx_accountId (ts ! n)) (take (Suc n) ts))"

lemma audit_trail_snoc:
  "audit_trail (ts @ [t]) \<longleftrightarrow>
     audit_trail ts
     \<and> balanceAfterAvailable t = ledger_sum availableDelta (tx_accountId t) (ts @ [t])
     \<and> balanceAfterLocked t = ledger_sum lockedDelta (tx_accountId t) (ts @ [t])"
  by (auto simp: audit_trail_def nth_append less_Suc_eq all_conj_distrib)

definition rows_with_key :: "string \<Rightarrow> ledger_tx list \<Rightarrow> ledger_tx list" where
  "rows_with_key k ts = filter (\<lambda>t. tx_idempotencyKey t = Some k) ts"

definition ledger_keys_unique :: "ledger_tx list \<Rightarrow> bool" where
  "ledger_keys_unique ts \<longleftrightarrow> (\<forall>k. length (rows_with_key k ts) \<le> 1)"

definition accounts_keyed :: "account list \<Rightarrow> bool" where
  "accounts_keyed as \<longleftrightarrow>
     distinct (map account_id as) \<and> distinct (map (\<lambda>a. (account_userId a, account_currency a)) as)"

definition balances_reconcile :: "accounts_db \<Rightarrow> bool" where
  "balances_reconcile db \<longleftrightarrow>
     (\<forall>a\<in>set (accounts db).
        availableBalance a = ledger_sum availableDelta (account_id a) (ledgerTransactions db)
        \<and> lockedBalance a = ledger_sum lockedDelta (account_id a) (ledgerTransactions db))"

definition accounts_inv :: "accounts_db \<Rightarrow> bool" where
  "accounts_inv db \<longleftrightarrow>
     accounts_keyed (accounts db)
     \<and> (\<forall>t\<in>set (ledgerTransactions db). tx_accountId t \<in> account_id ` set (accounts db))
     \<and> ledger_keys_unique (ledgerTransactions db)
     \<and> balances_reconcile db
     \<and> audit_trail (ledgerTransactions db)"

definition no_overdraft :: "accounts_db \<Rightarrow> bool" where
  "no_overdraft db \<longleftrightarrow> (\<forall>a\<in>set (accounts db). 0 \<le> availableBalance a \<and> 0 \<le> lockedBalance a)"

definition total_of :: "string \<Rightarrow> accounts_db \<Rightarrow> amount" where
  "total_of currency db =
     sum_list (map (\<lambda>a. if account_currency a = currency then availableBalance a + lockedBalance a else 0)
                   (accounts db))"

definition empty_db :: accounts_db where
  "empty_db = \<lparr>accounts = [], ledgerTransactions = [], processedEvents = []\<rparr>"

lemma accounts_inv_empty: "accounts_inv empty_db"
  by (simp add: accounts_inv_def empty_db_def accounts_keyed_def ledger_keys_unique_def
      rows_with_key_def balances_reconcile_def audit_trail_def)

section \<open>Posting\<close>

text \<open>
  What a mutation does to the tables when it succeeds: one account moves by two deltas and one
  row records it. Every operation either posts or changes nothing.
\<close>

definition adjusted :: "amount \<Rightarrow> amount \<Rightarrow> time \<Rightarrow> account \<Rightarrow> account" where
  "adjusted dA dL now a = a\<lparr>availableBalance := availableBalance a + dA,
                            lockedBalance := lockedBalance a + dL, account_updatedAt := now\<rparr>"

lemma adjusted_simps [simp]:
  "account_id (adjusted dA dL now a) = account_id a"
  "account_userId (adjusted dA dL now a) = account_userId a"
  "account_currency (adjusted dA dL now a) = account_currency a"
  "availableBalance (adjusted dA dL now a) = availableBalance a + dA"
  "lockedBalance (adjusted dA dL now a) = lockedBalance a + dL"
  by (simp_all add: adjusted_def)

definition move_account :: "uuid \<Rightarrow> amount \<Rightarrow> amount \<Rightarrow> time \<Rightarrow> account list \<Rightarrow> account list" where
  "move_account i dA dL now as = update_rows (\<lambda>a. account_id a = i) (adjusted dA dL now) as"

definition posted :: "account \<Rightarrow> amount \<Rightarrow> amount \<Rightarrow> time \<Rightarrow> ledger_tx \<Rightarrow> accounts_db \<Rightarrow> accounts_db" where
  "posted a dA dL now t db =
     db\<lparr>accounts := move_account (account_id a) dA dL now (accounts db),
        ledgerTransactions := ledgerTransactions db @ [t]\<rparr>"

definition records :: "ledger_tx \<Rightarrow> account \<Rightarrow> amount \<Rightarrow> amount \<Rightarrow> bool" where
  "records t a dA dL \<longleftrightarrow>
     tx_accountId t = account_id a \<and> availableDelta t = dA \<and> lockedDelta t = dL
     \<and> balanceAfterAvailable t = availableBalance a + dA \<and> balanceAfterLocked t = lockedBalance a + dL"

definition key_free :: "ledger_tx \<Rightarrow> ledger_tx list \<Rightarrow> bool" where
  "key_free t ts \<longleftrightarrow> (\<forall>u\<in>set ts. tx_idempotencyKey t \<noteq> None \<longrightarrow> tx_idempotencyKey u \<noteq> tx_idempotencyKey t)"

lemma move_account_keys [table_simps]:
  "map account_id (move_account i dA dL now as) = map account_id as"
  "map (\<lambda>a. (account_userId a, account_currency a)) (move_account i dA dL now as)
     = map (\<lambda>a. (account_userId a, account_currency a)) as"
  by (simp_all add: move_account_def map_update_rows)

lemma move_account_ids [table_simps]: "account_id ` set (move_account i dA dL now as) = account_id ` set as"
  by (metis list.set_map move_account_keys(1))

lemma in_move_account:
  "a \<in> set (move_account i dA dL now as) \<Longrightarrow>
   \<exists>b\<in>set as. account_id b = account_id a
     \<and> a = (if account_id b = i then adjusted dA dL now b else b)"
  by (fastforce simp: move_account_def set_update_rows)

lemma ledger_keys_unique_snoc:
  assumes "ledger_keys_unique ts" and "key_free t ts"
  shows "ledger_keys_unique (ts @ [t])"
proof -
  have "length (rows_with_key k (ts @ [t])) \<le> 1" for k
  proof (cases "tx_idempotencyKey t = Some k")
    case True
    with assms(2) have "rows_with_key k ts = []"
      by (auto simp: rows_with_key_def key_free_def filter_empty_conv)
    then show ?thesis by (simp add: rows_with_key_def)
  next
    case False
    with assms(1) show ?thesis by (simp add: rows_with_key_def ledger_keys_unique_def)
  qed
  then show ?thesis by (simp add: ledger_keys_unique_def)
qed

lemma posted_inv:
  assumes inv: "accounts_inv db" and a: "a \<in> set (accounts db)"
    and t: "records t a dA dL" and k: "key_free t (ledgerTransactions db)"
  shows "accounts_inv (posted a dA dL now t db)"
proof -
  let ?db = "posted a dA dL now t db"
  have keyed: "accounts_keyed (accounts ?db)"
    using inv by (simp add: accounts_inv_def accounts_keyed_def posted_def table_simps)
  have fk: "\<forall>u\<in>set (ledgerTransactions ?db). tx_accountId u \<in> account_id ` set (accounts ?db)"
    using inv a t by (auto simp: accounts_inv_def posted_def table_simps records_def)
  have ku: "ledger_keys_unique (ledgerTransactions ?db)"
    using inv k by (simp add: accounts_inv_def posted_def ledger_keys_unique_snoc)
  have rec0: "availableBalance a = ledger_sum availableDelta (account_id a) (ledgerTransactions db)
      \<and> lockedBalance a = ledger_sum lockedDelta (account_id a) (ledgerTransactions db)"
    using inv a by (simp add: accounts_inv_def balances_reconcile_def)
  have au: "audit_trail (ledgerTransactions ?db)"
    using inv t rec0 by (simp add: accounts_inv_def posted_def audit_trail_snoc records_def)
  have rec: "balances_reconcile ?db"
    unfolding balances_reconcile_def
  proof
    fix x assume "x \<in> set (accounts ?db)"
    then obtain b where b: "b \<in> set (accounts db)"
      and x: "x = (if account_id b = account_id a then adjusted dA dL now b else b)"
      using in_move_account by (fastforce simp: posted_def)
    have "availableBalance b = ledger_sum availableDelta (account_id b) (ledgerTransactions db)
      \<and> lockedBalance b = ledger_sum lockedDelta (account_id b) (ledgerTransactions db)"
      using inv b by (simp add: accounts_inv_def balances_reconcile_def)
    with x t show "availableBalance x = ledger_sum availableDelta (account_id x) (ledgerTransactions ?db)
      \<and> lockedBalance x = ledger_sum lockedDelta (account_id x) (ledgerTransactions ?db)"
      by (simp add: posted_def records_def)
  qed
  from keyed fk ku rec au show ?thesis by (simp add: accounts_inv_def)
qed

lemma posted_no_overdraft:
  assumes "no_overdraft db" and "0 \<le> availableBalance a + dA" and "0 \<le> lockedBalance a + dL"
    and "accounts_keyed (accounts db)" and "a \<in> set (accounts db)"
  shows "no_overdraft (posted a dA dL now t db)"
  unfolding no_overdraft_def
proof
  fix x assume "x \<in> set (accounts (posted a dA dL now t db))"
  then obtain b where b: "b \<in> set (accounts db)"
    and x: "x = (if account_id b = account_id a then adjusted dA dL now b else b)"
    using in_move_account by (fastforce simp: posted_def)
  have "account_id b = account_id a \<Longrightarrow> b = a"
    using assms(4,5) b by (auto simp: accounts_keyed_def dest: distinct_key_eq)
  with x b assms(1,2,3) show "0 \<le> availableBalance x \<and> 0 \<le> lockedBalance x"
    by (auto simp: no_overdraft_def)
qed

lemma posted_total:
  assumes "accounts_keyed (accounts db)" and "a \<in> set (accounts db)"
  shows "total_of c (posted a dA dL now t db) = total_of c db + (if account_currency a = c then dA + dL else 0)"
  using sum_update_row [of account_id "accounts db" a
      "\<lambda>x. if account_currency x = c then availableBalance x + lockedBalance x else 0" "adjusted dA dL now"] assms
  by (simp add: total_of_def posted_def move_account_def accounts_keyed_def)

end
