(* ===== verification/Ledger_Ops.thy ===== *)
theory Ledger_Ops
  imports Ledger_Inv
begin

text \<open>
  The operations of the repository against the invariant: each one posts exactly one movement
  with exactly one ledger row, or leaves the committed state as it found it.
\<close>

section \<open>The five operations as one type\<close>

datatype ledger_op = Deposit_op uuid | CreditDeposit_op uuid | Lock_op | Unlock_op | Debit_op

fun run_ledger_op ::
  "ledger_op \<Rightarrow> pg_env \<Rightarrow> time \<Rightarrow> mutation_params \<Rightarrow> accounts_db \<Rightarrow> mutation_result result \<times> accounts_db" where
  "run_ledger_op (Deposit_op newId) pg now p db = deposit pg newId now p db"
| "run_ledger_op (CreditDeposit_op newId) pg now p db = creditDeposit pg newId now p db"
| "run_ledger_op Lock_op pg now p db = lock pg now p db"
| "run_ledger_op Unlock_op pg now p db = unlock pg now p db"
| "run_ledger_op Debit_op pg now p db = debitWithdrawal pg now p db"

fun delta_available :: "ledger_op \<Rightarrow> amount \<Rightarrow> amount" where
  "delta_available (Deposit_op _) x = x"
| "delta_available (CreditDeposit_op _) x = x"
| "delta_available Lock_op x = - x"
| "delta_available Unlock_op x = x"
| "delta_available Debit_op x = 0"

fun delta_locked :: "ledger_op \<Rightarrow> amount \<Rightarrow> amount" where
  "delta_locked (Deposit_op _) x = 0"
| "delta_locked (CreditDeposit_op _) x = 0"
| "delta_locked Lock_op x = x"
| "delta_locked Unlock_op x = - x"
| "delta_locked Debit_op x = - x"

fun op_type :: "ledger_op \<Rightarrow> ledger_type" where
  "op_type (Deposit_op _) = DEPOSIT"
| "op_type (CreditDeposit_op _) = ON_CHAIN_DEPOSIT"
| "op_type Lock_op = LOCK"
| "op_type Unlock_op = UNLOCK"
| "op_type Debit_op = WITHDRAWAL"

fun op_guard :: "ledger_op \<Rightarrow> amount \<Rightarrow> account \<Rightarrow> bool" where
  "op_guard Lock_op x a = (x \<le> availableBalance a)"
| "op_guard Unlock_op x a = (x \<le> lockedBalance a)"
| "op_guard Debit_op x a = (x \<le> lockedBalance a)"
| "op_guard _ x a = True"

definition op_params :: "ledger_op \<Rightarrow> mutation_params \<Rightarrow> mutation_params" where
  "op_params op p = (case op of Deposit_op _ \<Rightarrow> p\<lparr>p_referenceId := None\<rparr> | _ \<Rightarrow> p)"

lemma op_params_simps [simp]:
  "p_userId (op_params op p) = p_userId p" "p_currency (op_params op p) = p_currency p"
  "p_amount (op_params op p) = p_amount p" "p_idempotencyKey (op_params op p) = p_idempotencyKey p"
  by (cases op; simp add: op_params_def)+

definition race_keeps :: "(accounts_db \<Rightarrow> bool) \<Rightarrow> pg_env \<Rightarrow> bool" where
  "race_keeps P pg \<longleftrightarrow> (\<forall>d. P d \<longrightarrow> P (race1 pg d) \<and> P (race2 pg d))"

lemma race_keeps_quiet [simp]: "race_keeps P quiet_pg"
  by (simp add: race_keeps_def quiet_pg_def)

lemma quiet_pg_simps [simp]:
  "race1 quiet_pg d = d" "race2 quiet_pg d = d" "failedTx quiet_pg r = Inl (DbException ''25P02'')"
  by (simp_all add: quiet_pg_def)

section \<open>Statements\<close>

lemma update_balances_Some:
  assumes "update_balances i guard dA dL now db = Inr (Some u, d)" and "accounts_keyed (accounts db)"
  obtains a where "a \<in> set (accounts db)" and "account_id a = i" and "guard a"
    and "u = adjusted dA dL now a" and "d = db\<lparr>accounts := move_account i dA dL now (accounts db)\<rparr>"
proof -
  from assms(1) obtain a where a: "List.find (\<lambda>a. account_id a = i \<and> guard a) (accounts db) = Some a"
    and u: "u = adjusted dA dL now a"
    and d: "d = db\<lparr>accounts := update_rows (\<lambda>x. account_id x = i) (\<lambda>_. u) (accounts db)\<rparr>"
    by (auto simp: update_balances_def adjusted_def Let_def split: option.splits if_splits)
  from a have mem: "a \<in> set (accounts db)" and i: "account_id a = i" and g: "guard a" by auto
  have "x = a" if "x \<in> set (accounts db)" "account_id x = i" for x
    using assms(2) that mem i by (auto simp: accounts_keyed_def dest: distinct_key_eq)
  then have "update_rows (\<lambda>x. account_id x = i) (\<lambda>_. u) (accounts db)
      = move_account i dA dL now (accounts db)"
    by (auto simp: update_rows_def move_account_def u)
  with mem i g u d that show ?thesis by simp
qed

lemma update_balances_None:
  "update_balances i guard dA dL now db = Inr (None, d) \<Longrightarrow> d = db"
  by (auto simp: update_balances_def Let_def split: option.splits if_splits)

lemma insert_ledger_Inr:
  assumes "insert_ledger t db = Inr d"
  shows "d = db\<lparr>ledgerTransactions := ledgerTransactions db @ [t]\<rparr>" and "key_free t (ledgerTransactions db)"
  using assms by (auto simp: insert_ledger_def key_free_def split: if_splits)

lemma insert_account_Inr:
  assumes "insert_account newId u c now db = Inr (a, d)"
  shows "d = db\<lparr>accounts := accounts db @ [a]\<rparr>" and "account_id a = newId"
    and "account_userId a = u" and "account_currency a = c"
    and "availableBalance a = 0" and "lockedBalance a = 0"
    and "newId \<notin> account_id ` set (accounts db)" and "findByUserAndCurrency u c db = None"
  using assms by (auto simp: insert_account_def Let_def split: if_splits)

lemma insert_account_inv:
  assumes "insert_account newId u c now db = Inr (a, d)" and inv: "accounts_inv db"
  shows "accounts_inv d"
proof -
  note ins = insert_account_Inr [OF assms(1)]
  have new: "newId \<notin> account_id ` set (accounts db)"
    and nf: "\<forall>x\<in>set (accounts db). \<not> (account_userId x = u \<and> account_currency x = c)"
    using ins(7,8) by (auto simp: findByUserAndCurrency_def find_None_iff)
  have fk: "\<forall>t\<in>set (ledgerTransactions db). tx_accountId t \<noteq> newId"
    using inv new by (auto simp: accounts_inv_def)
  have "accounts_keyed (accounts d)"
    using inv new nf ins(1-4) by (auto simp: accounts_inv_def accounts_keyed_def image_iff)
  moreover have "balances_reconcile d"
    using inv ins(1,2,5,6) fk by (auto simp: accounts_inv_def balances_reconcile_def ledger_sum_unknown)
  ultimately show ?thesis using inv ins(1) by (auto simp: accounts_inv_def)
qed

lemma findByUserAndCurrency_Some:
  "findByUserAndCurrency u c db = Some a \<Longrightarrow>
   a \<in> set (accounts db) \<and> account_userId a = u \<and> account_currency a = c"
  by (auto simp: findByUserAndCurrency_def)

section \<open>Every operation posts once or not at all\<close>

definition posts :: "ledger_op \<Rightarrow> time \<Rightarrow> mutation_params \<Rightarrow> account \<Rightarrow> accounts_db \<Rightarrow> accounts_db \<Rightarrow> bool" where
  "posts op now p a d db' \<longleftrightarrow>
     (\<exists>t. a \<in> set (accounts d) \<and> account_userId a = p_userId p \<and> account_currency a = p_currency p
        \<and> op_guard op (p_amount p) a
        \<and> records t a (delta_available op (p_amount p)) (delta_locked op (p_amount p))
        \<and> key_free t (ledgerTransactions d)
        \<and> tx_idempotencyKey t = Some (p_idempotencyKey p) \<and> tx_amount t = p_amount p
        \<and> tx_currency t = p_currency p \<and> tx_type t = op_type op \<and> tx_userId t = p_userId p
        \<and> db' = posted a (delta_available op (p_amount p)) (delta_locked op (p_amount p)) now t d)"

lemma record_mutation_cases:
  assumes "record_mutation pg ty p dA dL (adjusted dA dL now a) before
             (d\<lparr>accounts := move_account (account_id a) dA dL now (accounts d)\<rparr>) = (r, db')"
  shows "db' = before
    \<or> (r = Inr (OK (adjusted dA dL now a))
       \<and> (\<exists>t. records t a dA dL \<and> key_free t (ledgerTransactions d)
            \<and> tx_idempotencyKey t = Some (p_idempotencyKey p) \<and> tx_amount t = p_amount p
            \<and> tx_currency t = p_currency p \<and> tx_type t = ty \<and> tx_userId t = p_userId p
            \<and> db' = posted a dA dL now t d))"
proof (cases "db' = before")
  case False
  let ?t = "\<lparr>tx_accountId = account_id (adjusted dA dL now a), tx_userId = p_userId p,
    tx_currency = p_currency p, tx_type = ty, tx_amount = p_amount p, availableDelta = dA,
    lockedDelta = dL, balanceAfterAvailable = availableBalance (adjusted dA dL now a),
    balanceAfterLocked = lockedBalance (adjusted dA dL now a),
    tx_idempotencyKey = Some (p_idempotencyKey p), tx_referenceId = p_referenceId p\<rparr>"
  from False assms have ins: "insert_ledger ?t
      (d\<lparr>accounts := move_account (account_id a) dA dL now (accounts d)\<rparr>) = Inr db'"
    and r: "r = Inr (OK (adjusted dA dL now a))"
    by (auto simp: record_mutation_def split: sum.splits if_splits option.splits)
  have "db' = posted a dA dL now ?t d"
    using insert_ledger_Inr(1) [OF ins] by (simp add: posted_def)
  moreover have "key_free ?t (ledgerTransactions d)"
    using insert_ledger_Inr(2) [OF ins] by simp
  moreover have "records ?t a dA dL" by (simp add: records_def)
  ultimately show ?thesis using r by (intro disjI2 conjI exI [of _ ?t]) simp_all
qed simp

lemma move_funds_cases:
  assumes "move_funds ty guard refuse dA dL pg now p db = (r, db')"
    and "accounts_keyed (accounts (race1 pg db))"
  shows "db' = db \<or> db' = race1 pg db
    \<or> (\<exists>a t. r = Inr (OK (adjusted dA dL now a)) \<and> findByUserAndCurrency (p_userId p) (p_currency p) (race1 pg db) = Some a
         \<and> guard a \<and> records t a dA dL \<and> key_free t (ledgerTransactions (race1 pg db))
         \<and> tx_idempotencyKey t = Some (p_idempotencyKey p) \<and> tx_amount t = p_amount p
         \<and> tx_currency t = p_currency p \<and> tx_type t = ty \<and> tx_userId t = p_userId p
         \<and> db' = posted a dA dL now t (race1 pg db))"
proof (cases "db' = db \<or> db' = race1 pg db")
  case False
  then obtain a u d where a: "findByUserAndCurrency (p_userId p) (p_currency p) (race1 pg db) = Some a"
    and upd: "update_balances (account_id a) guard dA dL now (race1 pg db) = Inr (Some u, d)"
    and rm: "record_mutation pg ty p dA dL u (race1 pg db) d = (r, db')"
    using assms(1) by (auto simp: move_funds_def Let_def split: option.splits sum.splits prod.splits)
  obtain b where b: "b \<in> set (accounts (race1 pg db))" "account_id b = account_id a" "guard b"
    "u = adjusted dA dL now b"
    "d = (race1 pg db)\<lparr>accounts := move_account (account_id a) dA dL now (accounts (race1 pg db))\<rparr>"
    using update_balances_Some [OF upd assms(2)] .
  have "b = a"
    using assms(2) b(1,2) findByUserAndCurrency_Some [OF a]
    by (auto simp: accounts_keyed_def dest: distinct_key_eq)
  with rm b have "record_mutation pg ty p dA dL (adjusted dA dL now a) (race1 pg db)
      ((race1 pg db)\<lparr>accounts := move_account (account_id a) dA dL now (accounts (race1 pg db))\<rparr>) = (r, db')"
    by simp
  from record_mutation_cases [OF this] False a b(3) \<open>b = a\<close> show ?thesis by auto
qed auto

definition credit_base :: "pg_env \<Rightarrow> uuid \<Rightarrow> time \<Rightarrow> mutation_params \<Rightarrow> accounts_db \<Rightarrow> accounts_db \<Rightarrow> bool" where
  "credit_base pg newId now p db d \<longleftrightarrow>
     d = race1 pg db \<or> d = race2 pg (race1 pg db)
     \<or> (\<exists>c. insert_account newId (p_userId p) (p_currency p) now (race2 pg (race1 pg db)) = Inr (c, d))"

lemma credit_body_cases:
  assumes "(case update_balances (account_id acc) (\<lambda>_. True) x 0 now d of
                  Inl e \<Rightarrow> (Inl e, before)
                | Inr (None, d') \<Rightarrow> (Inl (PlainError ''TypeError''), before)
                | Inr (Some updated, d') \<Rightarrow> record_mutation pg ty p x 0 updated before d') = (r, db')"
    and "accounts_keyed (accounts d)" and "acc \<in> set (accounts d)"
  shows "db' = before
    \<or> (r = Inr (OK (adjusted x 0 now acc))
       \<and> (\<exists>t. records t acc x 0 \<and> key_free t (ledgerTransactions d)
            \<and> tx_idempotencyKey t = Some (p_idempotencyKey p) \<and> tx_amount t = p_amount p
            \<and> tx_currency t = p_currency p \<and> tx_type t = ty \<and> tx_userId t = p_userId p
            \<and> db' = posted acc x 0 now t d))"
proof (cases "db' = before")
  case False
  then obtain u d' where upd: "update_balances (account_id acc) (\<lambda>_. True) x 0 now d = Inr (Some u, d')"
    and rm: "record_mutation pg ty p x 0 u before d' = (r, db')"
    using assms(1) by (auto split: sum.splits option.splits)
  obtain b where b: "b \<in> set (accounts d)" "account_id b = account_id acc" "u = adjusted x 0 now b"
    "d' = d\<lparr>accounts := move_account (account_id acc) x 0 now (accounts d)\<rparr>"
    using update_balances_Some [OF upd assms(2)] by blast
  have "b = acc"
    using assms(2,3) b(1,2) by (auto simp: accounts_keyed_def dest: distinct_key_eq)
  with rm b have "record_mutation pg ty p x 0 (adjusted x 0 now acc) before
      (d\<lparr>accounts := move_account (account_id acc) x 0 now (accounts d)\<rparr>) = (r, db')"
    by simp
  from record_mutation_cases [OF this] False show ?thesis by blast
qed simp

lemma credit_account_cases:
  assumes eq: "credit_account ty pg newId now p db = (r, db')"
    and keyed: "\<And>d. credit_base pg newId now p db d \<Longrightarrow> accounts_keyed (accounts d)"
  shows "db' = db \<or> db' = race1 pg db \<or> db' = race2 pg (race1 pg db)
    \<or> (\<exists>a t d. credit_base pg newId now p db d \<and> r = Inr (OK (adjusted (p_amount p) 0 now a))
         \<and> a \<in> set (accounts d) \<and> account_userId a = p_userId p \<and> account_currency a = p_currency p
         \<and> records t a (p_amount p) 0 \<and> key_free t (ledgerTransactions d)
         \<and> tx_idempotencyKey t = Some (p_idempotencyKey p) \<and> tx_amount t = p_amount p
         \<and> tx_currency t = p_currency p \<and> tx_type t = ty \<and> tx_userId t = p_userId p
         \<and> db' = posted a (p_amount p) 0 now t d)"
proof (cases "db' = db \<or> db' = race1 pg db \<or> db' = race2 pg (race1 pg db)")
  case False
  let ?body = "\<lambda>before acc d. case update_balances (account_id acc) (\<lambda>_. True) (p_amount p) 0 now d of
                  Inl e \<Rightarrow> (Inl e, before)
                | Inr (None, d') \<Rightarrow> (Inl (PlainError ''TypeError''), before)
                | Inr (Some updated, d') \<Rightarrow> record_mutation pg ty p (p_amount p) 0 updated before d'"
  from False eq obtain acc before d where base: "credit_base pg newId now p db d"
    and acc: "acc \<in> set (accounts d)" "account_userId acc = p_userId p" "account_currency acc = p_currency p"
    and body: "?body before acc d = (r, db')"
    and before: "before = race1 pg db \<or> before = race2 pg (race1 pg db)"
  proof (cases "findByUserAndCurrency (p_userId p) (p_currency p) (race1 pg db)")
    case (Some a)
    with eq False have "?body (race1 pg db) a (race1 pg db) = (r, db')"
      by (simp add: credit_account_def Let_def split: option.splits)
    with Some that [of "race1 pg db" a "race1 pg db"] show ?thesis
      by (auto simp: credit_base_def dest: findByUserAndCurrency_Some)
  next
    case None
    let ?d2 = "race2 pg (race1 pg db)"
    show ?thesis
    proof (cases "insert_account newId (p_userId p) (p_currency p) now ?d2")
      case (Inl e)
      with eq None False obtain a where "findByUserAndCurrency (p_userId p) (p_currency p) ?d2 = Some a"
        and "?body ?d2 a ?d2 = (r, db')"
        by (auto simp: credit_account_def Let_def split: option.splits sum.splits)
      with that [of ?d2 a ?d2] show ?thesis
        by (auto simp: credit_base_def dest: findByUserAndCurrency_Some)
    next
      case (Inr cd)
      obtain c d where cd: "cd = (c, d)" by force
      with Inr None eq False have "?body ?d2 c d = (r, db')"
        by (simp add: credit_account_def Let_def split: option.splits)
      with that [of d c ?d2] insert_account_Inr [OF Inr [unfolded cd]] Inr cd show ?thesis
        by (auto simp: credit_base_def)
    qed
  qed
  from credit_body_cases [OF body keyed [OF base] acc(1)] before False base acc show ?thesis
    by blast
qed auto

lemma credit_base_inv:
  assumes "accounts_inv db" and "race_keeps accounts_inv pg" and "credit_base pg newId now p db d"
  shows "accounts_inv d"
  using assms insert_account_inv by (fastforce simp: credit_base_def race_keeps_def)

text \<open>The outcome of any operation: unchanged up to what others committed, or one posting.\<close>

definition op_base :: "ledger_op \<Rightarrow> pg_env \<Rightarrow> time \<Rightarrow> mutation_params \<Rightarrow> accounts_db \<Rightarrow> accounts_db \<Rightarrow> bool" where
  "op_base op pg now p db d \<longleftrightarrow>
     (case op of
        Deposit_op newId \<Rightarrow> credit_base pg newId now p db d
      | CreditDeposit_op newId \<Rightarrow> credit_base pg newId now p db d
      | _ \<Rightarrow> d = race1 pg db)"

lemma op_base_inv:
  "accounts_inv db \<Longrightarrow> race_keeps accounts_inv pg \<Longrightarrow> op_base op pg now p db d \<Longrightarrow> accounts_inv d"
  by (auto simp: op_base_def race_keeps_def split: ledger_op.splits intro: credit_base_inv)

lemma credit_base_params [simp]:
  "credit_base pg newId now (p\<lparr>p_referenceId := x\<rparr>) db d = credit_base pg newId now p db d"
  by (simp add: credit_base_def)

lemma run_ledger_op_cases:
  assumes inv: "accounts_inv db" and pg: "race_keeps accounts_inv pg"
    and eq: "run_ledger_op op pg now p db = (r, db')"
  shows "db' = db \<or> db' = race1 pg db \<or> db' = race2 pg (race1 pg db)
    \<or> (\<exists>a d. op_base op pg now p db d \<and> posts op now p a d db'
         \<and> r = Inr (OK (adjusted (delta_available op (p_amount p)) (delta_locked op (p_amount p)) now a)))"
proof -
  have keyed: "op_base op pg now p db d \<Longrightarrow> accounts_keyed (accounts d)" for d
    using op_base_inv [OF inv pg] by (auto simp: accounts_inv_def)
  show ?thesis
  proof (cases op)
    case (Deposit_op newId)
    have "credit_account DEPOSIT pg newId now (p\<lparr>p_referenceId := None\<rparr>) db = (r, db')"
      using eq Deposit_op by (simp add: deposit_def)
    from credit_account_cases [OF this] keyed Deposit_op show ?thesis
      by (fastforce simp: op_base_def posts_def)
  next
    case (CreditDeposit_op newId)
    have "credit_account ON_CHAIN_DEPOSIT pg newId now p db = (r, db')"
      using eq CreditDeposit_op by (simp add: creditDeposit_def)
    from credit_account_cases [OF this] keyed CreditDeposit_op show ?thesis
      by (fastforce simp: op_base_def posts_def)
  next
    case Lock_op
    from move_funds_cases [OF eq [unfolded Lock_op run_ledger_op.simps lock_def]] keyed Lock_op show ?thesis
      by (fastforce simp: op_base_def posts_def dest: findByUserAndCurrency_Some)
  next
    case Unlock_op
    from move_funds_cases [OF eq [unfolded Unlock_op run_ledger_op.simps unlock_def]] keyed Unlock_op show ?thesis
      by (fastforce simp: op_base_def posts_def dest: findByUserAndCurrency_Some)
  next
    case Debit_op
    from move_funds_cases [OF eq [unfolded Debit_op run_ledger_op.simps debitWithdrawal_def]] keyed Debit_op show ?thesis
      by (fastforce simp: op_base_def posts_def dest: findByUserAndCurrency_Some)
  qed
qed

end
