(* ===== verification/Ledger_Props.thy ===== *)
theory Ledger_Props
  imports Ledger_Ops
begin

text \<open>
  The properties of the ledger: the invariant under interference, solvency, conservation,
  idempotency by key, and the refinement of an abstract wallet.
\<close>

section \<open>Supporting facts\<close>

lemma insert_account_effects:
  "insert_account newId u c now db = Inr (a, d) \<Longrightarrow>
   accounts d = accounts db @ [a] \<and> ledgerTransactions d = ledgerTransactions db
   \<and> availableBalance a = 0 \<and> lockedBalance a = 0"
  by (auto simp: insert_account_def Let_def split: if_splits)

lemma op_base_no_overdraft:
  assumes "no_overdraft db" and "race_keeps no_overdraft pg" and "op_base op pg now p db d"
  shows "no_overdraft d"
proof -
  have race: "no_overdraft (race1 pg db)" "no_overdraft (race2 pg (race1 pg db))"
    using assms(1,2) by (simp_all add: race_keeps_def)
  have "no_overdraft d" if "credit_base pg newId now p db d" for newId
    using that race by (auto simp: credit_base_def no_overdraft_def dest!: insert_account_effects)
  with race assms(3) show ?thesis by (cases op) (auto simp: op_base_def)
qed

lemma in_move_account_owner:
  assumes "b \<in> set (move_account i dA dL now as)"
  shows "\<exists>c\<in>set as. account_id c = account_id b \<and> account_userId b = account_userId c
    \<and> account_currency b = account_currency c"
proof -
  from in_move_account [OF assms] obtain c where "c \<in> set as" "account_id c = account_id b"
    "b = (if account_id c = i then adjusted dA dL now c else c)" by blast
  then show ?thesis by (intro bexI [of _ c]) simp_all
qed

lemma find_unique_key:
  assumes "ledger_keys_unique ts" and "t \<in> set ts" and "tx_idempotencyKey t = Some k"
  shows "List.find (\<lambda>u. tx_idempotencyKey u = Some k) ts = Some t"
proof -
  have "length (filter (\<lambda>u. tx_idempotencyKey u = Some k) ts) \<le> 1"
    using assms(1) by (simp add: ledger_keys_unique_def rows_with_key_def)
  with assms(2,3) show ?thesis
  proof (induction ts)
    case (Cons x ts)
    show ?case
    proof (cases "tx_idempotencyKey x = Some k")
      case True
      with Cons.prems have "filter (\<lambda>u. tx_idempotencyKey u = Some k) ts = []" by simp
      with Cons.prems True show ?thesis by (auto simp: filter_empty_conv)
    next
      case False
      with Cons show ?thesis by auto
    qed
  qed simp
qed

lemma run_ledger_op_replay:
  assumes "resolveIdempotencyReplay (op_type op) p db = Some r"
  shows "run_ledger_op op pg now p db = (Inr r, db)"
proof -
  have "resolveIdempotencyReplay ty (p\<lparr>p_referenceId := x\<rparr>) db = resolveIdempotencyReplay ty p db" for ty x
    by (simp add: resolveIdempotencyReplay_def Let_def cong: if_cong option.case_cong)
  with assms show ?thesis
    by (cases op) (simp_all add: deposit_def creditDeposit_def lock_def unlock_def debitWithdrawal_def
        credit_account_def move_funds_def)
qed

text \<open>What the key of a row in the ledger does to any later call that carries it.\<close>

lemma replay_by_row:
  assumes inv: "accounts_inv db" and t: "t \<in> set (ledgerTransactions db)"
    and key: "tx_idempotencyKey t = Some (p_idempotencyKey q)"
  shows "(if tx_amount t = p_amount q \<and> tx_currency t = p_currency q \<and> tx_type t = op_type op
          then \<exists>a\<in>set (accounts db). account_id a = tx_accountId t
                 \<and> run_ledger_op op pg now q db = (Inr (IDEMPOTENT_REPLAY a), db)
          else run_ledger_op op pg now q db = (Inr IDEMPOTENCY_PAYLOAD_MISMATCH, db))"
proof -
  have f: "findLedgerByIdempotencyKey (p_idempotencyKey q) db = Some t"
    using inv t key by (simp add: findLedgerByIdempotencyKey_def accounts_inv_def find_unique_key)
  obtain a where a: "a \<in> set (accounts db)" "account_id a = tx_accountId t"
    using inv t by (fastforce simp: accounts_inv_def)
  have fa: "List.find (\<lambda>x. account_id x = tx_accountId t) (accounts db) = Some a"
    using find_key_Some [of account_id "accounts db" a] inv a
    by (simp add: accounts_inv_def accounts_keyed_def)
  show ?thesis
  proof (cases "tx_amount t = p_amount q \<and> tx_currency t = p_currency q \<and> tx_type t = op_type op")
    case True
    then have "resolveIdempotencyReplay (op_type op) q db = Some (IDEMPOTENT_REPLAY a)"
      using f fa by (simp add: resolveIdempotencyReplay_def)
    with a True show ?thesis using run_ledger_op_replay by auto
  next
    case False
    then have "resolveIdempotencyReplay (op_type op) q db = Some IDEMPOTENCY_PAYLOAD_MISMATCH"
      using f by (simp add: resolveIdempotencyReplay_def)
    with False show ?thesis using run_ledger_op_replay by auto
  qed
qed

lemma quiet_success_posts:
  assumes "accounts_inv db" and "run_ledger_op op quiet_pg now p db = (Inr (OK u), db')"
  obtains "\<exists>a d. op_base op quiet_pg now p db d \<and> posts op now p a d db' \<and> accounts_inv d
      \<and> u = adjusted (delta_available op (p_amount p)) (delta_locked op (p_amount p)) now a"
  | "db' = db"
  using run_ledger_op_cases [OF assms(1) race_keeps_quiet assms(2)]
    op_base_inv [OF assms(1) race_keeps_quiet, of op now p]
  by fastforce

section \<open>Properties\<close>

text \<open>
  Every mutation of the balances (deposit, on-chain credit, lock, unlock, debit) keeps the
  ledger consistent, whatever other transactions commit between its statements as long as they
  keep it too: accounts stay unique per (user, currency), idempotency keys stay unique, every
  row belongs to an account, every balance is the sum of the deltas of its rows, and every row
  carries the balances its account had right after it.
\<close>

lemma run_ledger_op_inv:
  assumes "accounts_inv db" and "race_keeps accounts_inv pg"
  shows "accounts_inv (snd (run_ledger_op op pg now p db))"
proof -
  obtain r db' where eq: "run_ledger_op op pg now p db = (r, db')" by force
  from run_ledger_op_cases [OF assms eq] show ?thesis
  proof (elim disjE exE conjE)
    fix a d assume "op_base op pg now p db d" and ps: "posts op now p a d db'"
    then have "accounts_inv d" using op_base_inv [OF assms] by blast
    with ps eq show ?thesis by (auto simp: posts_def intro: posted_inv)
  qed (use assms eq in \<open>auto simp: race_keeps_def\<close>)
qed

definition demo_account :: account where
  "demo_account = \<lparr>account_id = ''i1'', account_userId = ''alice'', account_currency = ''USDT'',
     availableBalance = 100, lockedBalance = 0, account_updatedAt = 0\<rparr>"

definition demo_tx :: ledger_tx where
  "demo_tx = \<lparr>tx_accountId = ''i1'', tx_userId = ''alice'', tx_currency = ''USDT'', tx_type = DEPOSIT,
     tx_amount = 100, availableDelta = 100, lockedDelta = 0, balanceAfterAvailable = 100,
     balanceAfterLocked = 0, tx_idempotencyKey = Some ''k0'', tx_referenceId = None\<rparr>"

definition demo_db :: accounts_db where
  "demo_db = \<lparr>accounts = [demo_account], ledgerTransactions = [demo_tx], processedEvents = []\<rparr>"

definition demo_params :: mutation_params where
  "demo_params = \<lparr>p_userId = ''alice'', p_currency = ''USDT'', p_amount = 30,
     p_idempotencyKey = ''lock:1'', p_referenceId = None\<rparr>"

lemmas demo_defs = demo_db_def demo_account_def demo_tx_def demo_params_def

lemma demo_inv: "accounts_inv demo_db"
  by (simp add: accounts_inv_def demo_defs accounts_keyed_def ledger_keys_unique_def rows_with_key_def
      balances_reconcile_def audit_trail_def ledger_sum_def)

lemma demo_no_overdraft: "no_overdraft demo_db"
  by (simp add: no_overdraft_def demo_defs)

lemmas ledger_eval = lock_def unlock_def debitWithdrawal_def deposit_def creditDeposit_def
  move_funds_def credit_account_def resolveIdempotencyReplay_def findLedgerByIdempotencyKey_def
  findByUserAndCurrency_def update_balances_def record_mutation_def insert_ledger_def
  insert_account_def varchar_128_def numeric_28_8_def Let_def

text \<open>
  No mutation overdraws an account: with a positive amount (which the service checks), from
  a state without negative available or locked balances every operation leads to such a state,
  whatever other transactions commit in between as long as they do so too.
\<close>

lemma run_ledger_op_no_overdraft:
  assumes "accounts_inv db" and "race_keeps accounts_inv pg"
    and "no_overdraft db" and "race_keeps no_overdraft pg" and "0 < p_amount p"
  shows "no_overdraft (snd (run_ledger_op op pg now p db))"
proof -
  obtain r db' where eq: "run_ledger_op op pg now p db = (r, db')" by force
  from run_ledger_op_cases [OF assms(1,2) eq] show ?thesis
  proof (elim disjE exE conjE)
    fix a d assume base: "op_base op pg now p db d" and ps: "posts op now p a d db'"
    have "accounts_inv d" using op_base_inv [OF assms(1,2) base] .
    then have keyed: "accounts_keyed (accounts d)" by (simp add: accounts_inv_def)
    have no: "no_overdraft d" using op_base_no_overdraft [OF assms(3,4) base] .
    from ps no have "0 \<le> availableBalance a" "0 \<le> lockedBalance a" and "a \<in> set (accounts d)"
      and "op_guard op (p_amount p) a" by (auto simp: posts_def no_overdraft_def)
    then have "0 \<le> availableBalance a + delta_available op (p_amount p)"
      and "0 \<le> lockedBalance a + delta_locked op (p_amount p)"
      using assms(5) by (cases op; simp)+
    with ps no keyed eq show ?thesis by (auto simp: posts_def intro: posted_no_overdraft)
  qed (use assms eq in \<open>auto simp: race_keeps_def\<close>)
qed

text \<open>
  Money is conserved: the platform's total of a currency changes only by a successful
  deposit or on-chain credit (up by the amount) or debit (down by the amount) in that currency;
  lock and unlock only move funds within an account, and a refused, replayed or failed call
  moves nothing.
\<close>

theorem ledger_ops_conserve_total:
  assumes "accounts_inv db" and "run_ledger_op op quiet_pg now p db = (r, db')"
  shows "total_of c db' = total_of c db +
    (if db' = db \<or> p_currency p \<noteq> c then 0
     else delta_available op (p_amount p) + delta_locked op (p_amount p))"
proof -
  from run_ledger_op_cases [OF assms(1) race_keeps_quiet assms(2)]
  show ?thesis
  proof (elim disjE exE conjE)
    fix a d assume base: "op_base op quiet_pg now p db d" and ps: "posts op now p a d db'"
    have keyed: "accounts_keyed (accounts d)"
      using op_base_inv [OF assms(1) race_keeps_quiet base] by (simp add: accounts_inv_def)
    have d: "total_of c d = total_of c db \<and> ledgerTransactions d = ledgerTransactions db"
      using base by (cases op) (auto simp: op_base_def credit_base_def total_of_def dest!: insert_account_effects)
    from ps d have "length (ledgerTransactions db') = Suc (length (ledgerTransactions db))"
      by (auto simp: posts_def posted_def)
    then have "db' \<noteq> db" by auto
    with ps keyed d show ?thesis by (auto simp: posts_def posted_total)
  qed simp_all
qed

theorem ledger_ops_conserve_total_witness:
  "total_of ''USDT'' (snd (run_ledger_op Lock_op quiet_pg 5 demo_params demo_db)) = 100"
proof -
  obtain r db' where eq: "run_ledger_op Lock_op quiet_pg 5 demo_params demo_db = (r, db')" by force
  have "total_of ''USDT'' demo_db = 100" by (simp add: total_of_def demo_defs)
  with ledger_ops_conserve_total [OF demo_inv eq, of "''USDT''"] eq show ?thesis
    by (auto split: if_splits)
qed

text \<open>
  Idempotency by key: once a row carries a call's key, every later call with that key
  changes nothing. The same operation with the same amount and currency answers with the
  account of that row as it is then; any other amount, currency or operation type is refused
  as a payload mismatch.
\<close>

theorem ledger_key_is_idempotent:
  assumes "accounts_inv db" and "t \<in> set (ledgerTransactions db)"
    and "tx_idempotencyKey t = Some (p_idempotencyKey q)"
  shows "snd (run_ledger_op op pg now q db) = db
    \<and> (if tx_amount t = p_amount q \<and> tx_currency t = p_currency q \<and> tx_type t = op_type op
       then \<exists>a. a \<in> set (accounts db) \<and> account_id a = tx_accountId t
              \<and> fst (run_ledger_op op pg now q db) = Inr (IDEMPOTENT_REPLAY a)
       else fst (run_ledger_op op pg now q db) = Inr IDEMPOTENCY_PAYLOAD_MISMATCH)"
  using replay_by_row [OF assms, of op pg now] by (auto split: if_splits)

theorem ledger_key_is_idempotent_witness:
  "fst (run_ledger_op Lock_op quiet_pg 7 (demo_params\<lparr>p_idempotencyKey := ''k0''\<rparr>) demo_db)
     = Inr IDEMPOTENCY_PAYLOAD_MISMATCH"
proof -
  have t: "demo_tx \<in> set (ledgerTransactions demo_db)" by (simp add: demo_db_def)
  have k: "tx_idempotencyKey demo_tx = Some (p_idempotencyKey (demo_params\<lparr>p_idempotencyKey := ''k0''\<rparr>))"
    by (simp add: demo_tx_def)
  from ledger_key_is_idempotent [OF demo_inv t k, of Lock_op quiet_pg 7] show ?thesis
    by (simp add: demo_tx_def)
qed

text \<open>
  The key of a mutation is not scoped to its user. After one user's successful operation,
  the same call by any other user, with the same key, amount and currency, is answered as a
  replay with the first user's account and moves none of the second user's funds.
\<close>

theorem replay_ignores_user:
  assumes "accounts_inv db" and "run_ledger_op op quiet_pg now p db = (Inr (OK u), db')"
    and "db' \<noteq> db"
  shows "\<exists>a. account_userId a = p_userId p
    \<and> run_ledger_op op pg later (p\<lparr>p_userId := otherUser\<rparr>) db' = (Inr (IDEMPOTENT_REPLAY a), db')"
proof -
  from quiet_success_posts [OF assms(1,2)] assms(3) obtain a d where ps: "posts op now p a d db'"
    and d: "accounts_inv d" by blast
  then obtain t where a: "a \<in> set (accounts d)" "account_userId a = p_userId p"
    and t: "records t a (delta_available op (p_amount p)) (delta_locked op (p_amount p))"
      "key_free t (ledgerTransactions d)" "tx_idempotencyKey t = Some (p_idempotencyKey p)"
      "tx_amount t = p_amount p" "tx_currency t = p_currency p" "tx_type t = op_type op"
    and db': "db' = posted a (delta_available op (p_amount p)) (delta_locked op (p_amount p)) now t d"
    by (auto simp: posts_def)
  have inv': "accounts_inv db'" unfolding db' by (rule posted_inv [OF d a(1) t(1,2)])
  have tin: "t \<in> set (ledgerTransactions db')" by (simp add: db' posted_def)
  from replay_by_row [OF inv' tin, of "p\<lparr>p_userId := otherUser\<rparr>" op pg later] t
  obtain b where b: "b \<in> set (accounts db')" "account_id b = account_id a"
    and run: "run_ledger_op op pg later (p\<lparr>p_userId := otherUser\<rparr>) db' = (Inr (IDEMPOTENT_REPLAY b), db')"
    by (auto simp: records_def)
  from b(1) obtain c where "c \<in> set (accounts d)" "account_id c = account_id b"
    "account_userId b = account_userId c"
    using in_move_account_owner [of b] by (fastforce simp: db' posted_def)
  with b a d have "account_userId b = p_userId p"
    by (metis accounts_inv_def accounts_keyed_def distinct_key_eq)
  with run show ?thesis by blast
qed

theorem replay_ignores_user_witness:
  "\<exists>a db'. account_userId a = ''alice'' \<and> db' \<noteq> demo_db
     \<and> run_ledger_op Lock_op quiet_pg 9 (demo_params\<lparr>p_userId := ''mallory''\<rparr>) db'
         = (Inr (IDEMPOTENT_REPLAY a), db')"
proof -
  let ?db' = "snd (run_ledger_op Lock_op quiet_pg 5 demo_params demo_db)"
  have r: "\<exists>u. fst (run_ledger_op Lock_op quiet_pg 5 demo_params demo_db) = Inr (OK u)"
    by (simp add: ledger_eval demo_defs)
  have "length (ledgerTransactions ?db') = 2"
    by (simp add: ledger_eval demo_defs)
  then have ne: "?db' \<noteq> demo_db" by (auto simp: demo_db_def)
  from r obtain u where "run_ledger_op Lock_op quiet_pg 5 demo_params demo_db = (Inr (OK u), ?db')"
    by (metis prod.collapse)
  from replay_ignores_user [OF demo_inv this ne, of quiet_pg 9 "''mallory''"] ne show ?thesis
    by (auto simp: demo_params_def)
qed

end
