(* ===== verification/Wallet.thy ===== *)
theory Wallet
  imports Ledger_Props
begin

text \<open>
  The abstract specification of the accounts service: a wallet that maps (user, currency) to an
  available and a locked amount. Every operation of the repository refines one step of it.
\<close>

section \<open>The abstract wallet\<close>

type_synonym wallet = "uuid \<times> string \<Rightarrow> (amount \<times> amount) option"

definition balance_view :: "accounts_db \<Rightarrow> wallet" where
  "balance_view db = (\<lambda>(u, c). map_option (\<lambda>a. (availableBalance a, lockedBalance a))
                                 (findByUserAndCurrency u c db))"

fun wallet_guard :: "ledger_op \<Rightarrow> amount \<Rightarrow> amount \<times> amount \<Rightarrow> bool" where
  "wallet_guard Lock_op x (av, lk) = (x \<le> av)"
| "wallet_guard Unlock_op x (av, lk) = (x \<le> lk)"
| "wallet_guard Debit_op x (av, lk) = (x \<le> lk)"
| "wallet_guard _ x (av, lk) = True"

fun wallet_move :: "ledger_op \<Rightarrow> amount \<Rightarrow> amount \<times> amount \<Rightarrow> amount \<times> amount" where
  "wallet_move op x (av, lk) = (av + delta_available op x, lk + delta_locked op x)"

fun wallet_refusal :: "ledger_op \<Rightarrow> amount \<times> amount \<Rightarrow> mutation_result" where
  "wallet_refusal Lock_op (av, lk) = INSUFFICIENT_AVAILABLE av"
| "wallet_refusal _ (av, lk) = INSUFFICIENT_LOCKED lk"

text \<open>A call the database can store: a new key, short enough texts, numbers in range.\<close>

definition storable :: "ledger_op \<Rightarrow> mutation_params \<Rightarrow> amount \<times> amount \<Rightarrow> accounts_db \<Rightarrow> bool" where
  "storable op p w db \<longleftrightarrow>
     findLedgerByIdempotencyKey (p_idempotencyKey p) db = None
     \<and> length (p_idempotencyKey p) \<le> 128 \<and> varchar_128 (p_referenceId p)
     \<and> numeric_28_8 (p_amount p)
     \<and> numeric_28_8 (fst (wallet_move op (p_amount p) w)) \<and> numeric_28_8 (snd (wallet_move op (p_amount p) w))"

section \<open>Supporting facts\<close>

lemma find_by_user_currency:
  assumes "accounts_keyed (accounts db)" and "a \<in> set (accounts db)"
  shows "findByUserAndCurrency (account_userId a) (account_currency a) db = Some a"
  using find_key_Some [of "\<lambda>a. (account_userId a, account_currency a)" "accounts db" a] assms
  by (simp add: accounts_keyed_def findByUserAndCurrency_def)

lemma update_balances_eq:
  assumes keyed: "accounts_keyed (accounts db)" and a: "a \<in> set (accounts db)"
  shows "update_balances (account_id a) g dA dL now db =
    (if \<not> g a then Inr (None, db)
     else if numeric_28_8 (availableBalance a + dA) \<and> numeric_28_8 (lockedBalance a + dL)
     then Inr (Some (adjusted dA dL now a),
               db\<lparr>accounts := move_account (account_id a) dA dL now (accounts db)\<rparr>)
     else Inl (DbException ''22003''))"
proof -
  have uniq: "x = a" if "x \<in> set (accounts db)" "account_id x = account_id a" for x
    using keyed that a by (auto simp: accounts_keyed_def dest: distinct_key_eq)
  have f: "List.find (\<lambda>x. account_id x = account_id a \<and> g x) (accounts db) = (if g a then Some a else None)"
  proof (cases "g a")
    case True
    then have "List.find (\<lambda>x. account_id x = account_id a \<and> g x) (accounts db) \<noteq> None"
      using a by (auto simp: find_None_iff)
    with True uniq show ?thesis by auto
  qed (auto simp: find_None_iff dest: uniq)
  have "update_rows (\<lambda>x. account_id x = account_id a) (\<lambda>_. adjusted dA dL now a) (accounts db)
      = move_account (account_id a) dA dL now (accounts db)"
    by (auto simp: update_rows_def move_account_def dest: uniq)
  then show ?thesis by (simp add: update_balances_def f adjusted_def Let_def)
qed

lemma key_free_lookup:
  "findLedgerByIdempotencyKey k db = None \<Longrightarrow> tx_idempotencyKey t = Some k \<Longrightarrow> key_free t (ledgerTransactions db)"
  by (auto simp: findLedgerByIdempotencyKey_def key_free_def find_None_iff)

lemma find_move_account:
  "List.find (\<lambda>x. account_userId x = u \<and> account_currency x = c) (move_account i dA dL now as) =
   map_option (\<lambda>x. if account_id x = i then adjusted dA dL now x else x)
     (List.find (\<lambda>x. account_userId x = u \<and> account_currency x = c) as)"
  by (induction as) (auto simp: move_account_def)

lemma balance_view_posted:
  assumes keyed: "accounts_keyed (accounts db)" and a: "a \<in> set (accounts db)"
  shows "balance_view (posted a dA dL now t db) =
    (balance_view db)((account_userId a, account_currency a) \<mapsto> (availableBalance a + dA, lockedBalance a + dL))"
proof (rule ext)
  fix uc :: "uuid \<times> string"
  obtain u c where uc: "uc = (u, c)" by force
  show "balance_view (posted a dA dL now t db) uc =
    ((balance_view db)((account_userId a, account_currency a) \<mapsto> (availableBalance a + dA, lockedBalance a + dL))) uc"
  proof (cases "uc = (account_userId a, account_currency a)")
    case True
    with find_by_user_currency [OF assms] uc show ?thesis
      by (simp add: balance_view_def findByUserAndCurrency_def posted_def find_move_account)
  next
    case False
    have "account_id x \<noteq> account_id a"
      if "List.find (\<lambda>x. account_userId x = u \<and> account_currency x = c) (accounts db) = Some x" for x
    proof
      assume "account_id x = account_id a"
      moreover from that have "x \<in> set (accounts db)" "account_userId x = u" "account_currency x = c" by auto
      ultimately have "x = a" using keyed a by (auto simp: accounts_keyed_def dest: distinct_key_eq)
      with False uc \<open>account_userId x = u\<close> \<open>account_currency x = c\<close> show False by simp
    qed
    with False uc show ?thesis
      by (auto simp: balance_view_def findByUserAndCurrency_def posted_def find_move_account option.map_comp
          split: option.splits intro!: map_option_cong)
  qed
qed

lemma record_mutation_success:
  assumes "findLedgerByIdempotencyKey (p_idempotencyKey p) db = None"
    and "length (p_idempotencyKey p) \<le> 128" and "varchar_128 (p_referenceId p)"
    and "numeric_28_8 (p_amount p)" and "numeric_28_8 dA" and "numeric_28_8 dL"
    and "numeric_28_8 (availableBalance a + dA)" and "numeric_28_8 (lockedBalance a + dL)"
  shows "\<exists>t. record_mutation pg ty p dA dL (adjusted dA dL now a) before
           (db\<lparr>accounts := move_account (account_id a) dA dL now (accounts db)\<rparr>)
         = (Inr (OK (adjusted dA dL now a)), posted a dA dL now t db)"
proof -
  have none: "\<forall>u\<in>set (ledgerTransactions db). tx_idempotencyKey u \<noteq> Some (p_idempotencyKey p)"
    using assms(1) by (simp add: findLedgerByIdempotencyKey_def find_None_iff)
  with assms show ?thesis
    by (auto simp: record_mutation_def insert_ledger_def varchar_128_def posted_def)
qed

lemma find_after_insert:
  assumes "insert_account newId u c now db = Inr (a, d)"
  shows "findByUserAndCurrency u c d = Some a"
    and "uc \<noteq> (u, c) \<Longrightarrow> balance_view d uc = balance_view db uc"
  using insert_account_Inr [OF assms]
  by (auto simp: findByUserAndCurrency_def find_append balance_view_def split: option.splits prod.splits)

lemma fresh_key_no_replay:
  "findLedgerByIdempotencyKey (p_idempotencyKey p) db = None \<Longrightarrow> resolveIdempotencyReplay ty p db = None"
  by (simp add: resolveIdempotencyReplay_def)

definition storable_move :: "mutation_params \<Rightarrow> amount \<Rightarrow> amount \<Rightarrow> account \<Rightarrow> accounts_db \<Rightarrow> bool" where
  "storable_move p dA dL a db \<longleftrightarrow>
     findLedgerByIdempotencyKey (p_idempotencyKey p) db = None
     \<and> length (p_idempotencyKey p) \<le> 128 \<and> varchar_128 (p_referenceId p)
     \<and> numeric_28_8 (p_amount p) \<and> numeric_28_8 dA \<and> numeric_28_8 dL
     \<and> numeric_28_8 (availableBalance a + dA) \<and> numeric_28_8 (lockedBalance a + dL)"

lemma move_funds_success:
  assumes keyed: "accounts_keyed (accounts db)"
    and f: "findByUserAndCurrency (p_userId p) (p_currency p) db = Some a"
    and ok: "storable_move p dA dL a db"
  shows "\<exists>t. move_funds ty g refuse dA dL quiet_pg now p db =
    (if g a then (Inr (OK (adjusted dA dL now a)), posted a dA dL now t db) else (Inr (refuse a), db))"
proof -
  have a: "a \<in> set (accounts db)" using findByUserAndCurrency_Some [OF f] by simp
  from record_mutation_success [of p db dA dL a quiet_pg ty now db] ok
  obtain t where "record_mutation quiet_pg ty p dA dL (adjusted dA dL now a) db
           (db\<lparr>accounts := move_account (account_id a) dA dL now (accounts db)\<rparr>)
         = (Inr (OK (adjusted dA dL now a)), posted a dA dL now t db)"
    by (auto simp: storable_move_def)
  with f ok update_balances_eq [OF keyed a] show ?thesis
    by (auto simp: move_funds_def storable_move_def fresh_key_no_replay)
qed

lemma credit_account_success:
  assumes keyed: "accounts_keyed (accounts db)"
    and f: "findByUserAndCurrency (p_userId p) (p_currency p) db = Some a"
    and ok: "storable_move p (p_amount p) 0 a db"
  shows "\<exists>t. credit_account ty quiet_pg newId now p db =
    (Inr (OK (adjusted (p_amount p) 0 now a)), posted a (p_amount p) 0 now t db)"
proof -
  have a: "a \<in> set (accounts db)" using findByUserAndCurrency_Some [OF f] by simp
  from record_mutation_success [of p db "p_amount p" 0 a quiet_pg ty now db] ok
  obtain t where "record_mutation quiet_pg ty p (p_amount p) 0 (adjusted (p_amount p) 0 now a) db
           (db\<lparr>accounts := move_account (account_id a) (p_amount p) 0 now (accounts db)\<rparr>)
         = (Inr (OK (adjusted (p_amount p) 0 now a)), posted a (p_amount p) 0 now t db)"
    by (auto simp: storable_move_def)
  with f ok update_balances_eq [OF keyed a] show ?thesis
    by (auto simp: credit_account_def storable_move_def fresh_key_no_replay)
qed

lemma run_ledger_op_success:
  assumes keyed: "accounts_keyed (accounts db)"
    and f: "findByUserAndCurrency (p_userId p) (p_currency p) db = Some a"
    and ok: "storable op p (availableBalance a, lockedBalance a) db"
  shows "\<exists>t. run_ledger_op op quiet_pg now p db =
    (if op_guard op (p_amount p) a
     then (Inr (OK (adjusted (delta_available op (p_amount p)) (delta_locked op (p_amount p)) now a)),
           posted a (delta_available op (p_amount p)) (delta_locked op (p_amount p)) now t db)
     else (Inr (wallet_refusal op (availableBalance a, lockedBalance a)), db))"
proof -
  have sm: "storable_move p (delta_available op (p_amount p)) (delta_locked op (p_amount p)) a db"
    using ok by (cases op) (simp_all add: storable_def storable_move_def numeric_28_8_def)
  then have smd: "storable_move (p\<lparr>p_referenceId := None\<rparr>) (delta_available op (p_amount p))
      (delta_locked op (p_amount p)) a db"
    by (simp add: storable_move_def varchar_128_def)
  show ?thesis
  proof (cases op)
    case (Deposit_op i)
    with credit_account_success [of db "p\<lparr>p_referenceId := None\<rparr>" a] keyed f smd
    show ?thesis by (simp add: deposit_def)
  next
    case (CreditDeposit_op i)
    with credit_account_success [OF keyed f] sm show ?thesis by (simp add: creditDeposit_def)
  next
    case Lock_op
    with move_funds_success [OF keyed f sm, of LOCK "\<lambda>a. p_amount p \<le> availableBalance a"
        "\<lambda>a. INSUFFICIENT_AVAILABLE (availableBalance a)" now]
    show ?thesis by (cases "p_amount p \<le> availableBalance a"; simp add: lock_def)
  next
    case Unlock_op
    with move_funds_success [OF keyed f sm, of UNLOCK "\<lambda>a. p_amount p \<le> lockedBalance a"
        "\<lambda>a. INSUFFICIENT_LOCKED (lockedBalance a)" now]
    show ?thesis by (cases "p_amount p \<le> lockedBalance a"; simp add: unlock_def)
  next
    case Debit_op
    with move_funds_success [OF keyed f sm, of WITHDRAWAL "\<lambda>a. p_amount p \<le> lockedBalance a"
        "\<lambda>a. INSUFFICIENT_LOCKED (lockedBalance a)" now]
    show ?thesis by (cases "p_amount p \<le> lockedBalance a"; simp add: debitWithdrawal_def)
  qed
qed

section \<open>Refinement\<close>

text \<open>
  The repository refines the abstract wallet: on a storable call for an existing account,
  deposit, credit, lock, unlock and debit succeed exactly when the wallet's guard holds, then
  the wallet of the new state is the old one with that account moved by the operation's deltas
  and the answer carries the new balances; when the guard fails the answer is the refusal with
  the current balance and nothing changes.
\<close>

lemma ledger_refines_wallet:
  assumes inv: "accounts_inv db" and w: "balance_view db (p_userId p, p_currency p) = Some w"
    and ok: "storable op p w db"
  shows "(if wallet_guard op (p_amount p) w
    then \<exists>a db'. run_ledger_op op quiet_pg now p db = (Inr (OK a), db')
           \<and> balance_view db' = (balance_view db)((p_userId p, p_currency p) \<mapsto> wallet_move op (p_amount p) w)
           \<and> (availableBalance a, lockedBalance a) = wallet_move op (p_amount p) w
    else run_ledger_op op quiet_pg now p db = (Inr (wallet_refusal op w), db))"
proof -
  from inv have keyed: "accounts_keyed (accounts db)" by (simp add: accounts_inv_def)
  from w obtain a where f: "findByUserAndCurrency (p_userId p) (p_currency p) db = Some a"
    and wa: "w = (availableBalance a, lockedBalance a)" by (auto simp: balance_view_def)
  from findByUserAndCurrency_Some [OF f] have a: "a \<in> set (accounts db)"
    and ua: "account_userId a = p_userId p" "account_currency a = p_currency p" by auto
  have g: "wallet_guard op (p_amount p) (availableBalance a, lockedBalance a) = op_guard op (p_amount p) a"
    by (cases op) simp_all
  from run_ledger_op_success [OF keyed f ok [unfolded wa], of now] obtain t where
    "run_ledger_op op quiet_pg now p db =
      (if op_guard op (p_amount p) a
       then (Inr (OK (adjusted (delta_available op (p_amount p)) (delta_locked op (p_amount p)) now a)),
             posted a (delta_available op (p_amount p)) (delta_locked op (p_amount p)) now t db)
       else (Inr (wallet_refusal op (availableBalance a, lockedBalance a)), db))" ..
  with balance_view_posted [OF keyed a] ua wa show ?thesis by (simp add: g)
qed

section \<open>Opening an account\<close>

lemma findOrCreate_cases:
  assumes "findOrCreate pg newId now u c db = (r, db')"
  shows "db' = db \<or> db' = race1 pg db \<or> (\<exists>a. insert_account newId u c now (race1 pg db) = Inr (a, db'))"
  using assms by (auto simp: findOrCreate_def Let_def split: option.splits sum.splits)

lemma insert_account_no_overdraft:
  "insert_account newId u c now db = Inr (a, d) \<Longrightarrow> no_overdraft db \<Longrightarrow> no_overdraft d"
  by (auto simp: no_overdraft_def dest!: insert_account_effects)

lemma findOrCreate_keeps:
  shows "accounts_inv db \<Longrightarrow> race_keeps accounts_inv pg \<Longrightarrow> accounts_inv (snd (findOrCreate pg newId now u c db))"
    and "no_overdraft db \<Longrightarrow> race_keeps no_overdraft pg \<Longrightarrow> no_overdraft (snd (findOrCreate pg newId now u c db))"
  using findOrCreate_cases [OF surjective_pairing [of "findOrCreate pg newId now u c db"]]
  by (auto simp: race_keeps_def intro: insert_account_inv insert_account_no_overdraft)

end
