(* ===== verification/Decimal.thy ===== *)
theory Decimal
  imports Prelude
begin

text \<open>
  Text of the requests: what the services use of JavaScript strings (\<open>trim\<close>, \<open>toUpperCase\<close>,
  \<open>split\<close>) and the decimal strings that carry money, with their parser
  (\<open>AMOUNT_REGEX\<close> of \<open>apps/accounts/src/balances/balances.constants.ts\<close> and
  \<open>new BigNumber\<close>) and the canonical form \<open>toFixed ()\<close> prints. Characters are those of ASCII.
\<close>

section \<open>Strings\<close>

definition js_space :: "char \<Rightarrow> bool" where
  "js_space c \<longleftrightarrow> (of_char c :: nat) \<in> {9, 10, 11, 12, 13, 32}"

definition js_trim :: "string \<Rightarrow> string" where
  "js_trim s = rev (dropWhile js_space (rev (dropWhile js_space s)))"

definition js_upper_char :: "char \<Rightarrow> char" where
  "js_upper_char c = (if 97 \<le> (of_char c :: nat) \<and> (of_char c :: nat) \<le> 122 then char_of (of_char c - 32 :: nat) else c)"

definition js_toUpperCase :: "string \<Rightarrow> string" where
  "js_toUpperCase s = map js_upper_char s"

definition js_lower_char :: "char \<Rightarrow> char" where
  "js_lower_char c = (if 65 \<le> (of_char c :: nat) \<and> (of_char c :: nat) \<le> 90 then char_of (of_char c + 32 :: nat) else c)"

definition js_toLowerCase :: "string \<Rightarrow> string" where
  "js_toLowerCase s = map js_lower_char s"

text \<open>\<open>s.split (sep)\<close> for a separator of one character.\<close>

fun js_split :: "char \<Rightarrow> string \<Rightarrow> string list" where
  "js_split sep [] = [[]]"
| "js_split sep (c # s) =
     (if c = sep then [] # js_split sep s
      else (case js_split sep s of [] \<Rightarrow> [[c]] | w # ws \<Rightarrow> (c # w) # ws))"

definition is_digit :: "char \<Rightarrow> bool" where
  "is_digit c \<longleftrightarrow> 48 \<le> (of_char c :: nat) \<and> (of_char c :: nat) \<le> 57"

lemma js_trim_id: "\<forall>c\<in>set s. \<not> js_space c \<Longrightarrow> js_trim s = s"
proof -
  assume a: "\<forall>c\<in>set s. \<not> js_space c"
  then have "dropWhile js_space s = s" by (cases s) auto
  moreover from a have "dropWhile js_space (rev s) = rev s" by (cases s rule: rev_cases) auto
  ultimately show ?thesis by (simp add: js_trim_def)
qed

lemma length_js_trim: "length (js_trim s) \<le> length s"
proof -
  have "length (js_trim s) \<le> length (rev (dropWhile js_space s))" unfolding js_trim_def length_rev by (metis length_dropWhile_le length_rev)
  also have "\<dots> \<le> length s" by (simp add: length_dropWhile_le)
  finally show ?thesis .
qed

lemma js_trim_prefix:
  assumes "p \<noteq> []" and "\<not> js_space (hd p)" and "\<not> js_space (last p)"
  shows "\<exists>r. js_trim (p @ s) = p @ r \<and> length r \<le> length s"
proof -
  have d: "dropWhile js_space (p @ s) = p @ s" using assms(1,2) by (cases p) auto
  have e: "dropWhile js_space (rev p) = rev p" using assms(1,3) by (cases p rule: rev_cases) auto
  have "dropWhile js_space (rev s @ rev p) = dropWhile js_space (rev s) @ rev p"
  proof (cases "\<forall>x\<in>set s. js_space x")
    case True
    then have "dropWhile js_space (rev s) = []" by simp
    with True e show ?thesis by (simp add: dropWhile_append)
  next
    case False
    then show ?thesis by (auto simp: dropWhile_append)
  qed
  then have "js_trim (p @ s) = p @ rev (dropWhile js_space (rev s))" by (simp add: js_trim_def d)
  moreover have "length (dropWhile js_space (rev s)) \<le> length s" by (metis length_dropWhile_le length_rev)
  ultimately show ?thesis by auto
qed

lemma js_split_nonempty: "js_split sep s \<noteq> []"
  by (cases s) (auto split: list.splits)

lemma js_split_single: "sep \<notin> set s \<Longrightarrow> js_split sep s = [s]"
  by (induction s) auto

lemma js_split_append: "sep \<notin> set s \<Longrightarrow> js_split sep (s @ sep # t) = s # js_split sep t"
  by (induction s) auto

section \<open>Decimal strings\<close>

text \<open>\<open>/^(0|[1-9]\d*)(\.\d{1,8})?$/\<close>\<close>

definition integer_part :: "string \<Rightarrow> string" where
  "integer_part s = takeWhile is_digit s"

definition fraction_part :: "string \<Rightarrow> string" where
  "fraction_part s = tl (dropWhile is_digit s)"

definition AMOUNT_REGEX :: "string \<Rightarrow> bool" where
  "AMOUNT_REGEX s \<longleftrightarrow>
     (integer_part s = ''0'' \<or> (integer_part s \<noteq> [] \<and> hd (integer_part s) \<noteq> CHR ''0''))
     \<and> (dropWhile is_digit s = []
        \<or> (hd (dropWhile is_digit s) = CHR ''.'' \<and> 1 \<le> length (fraction_part s)
           \<and> length (fraction_part s) \<le> 8 \<and> list_all is_digit (fraction_part s)))"

text \<open>The value of a matching string, in units of \<open>10 ^ (- 8)\<close>.\<close>

definition digit_value :: "char \<Rightarrow> int" where
  "digit_value c = of_char c - 48"

definition read_digits :: "string \<Rightarrow> int" where
  "read_digits s = foldl (\<lambda>v c. 10 * v + digit_value c) 0 s"

definition pad8 :: "string \<Rightarrow> string" where
  "pad8 f = f @ replicate (8 - length f) (CHR ''0'')"

definition units_of :: "string \<Rightarrow> amount" where
  "units_of s = read_digits (integer_part s) * 10 ^ 8 + read_digits (pad8 (fraction_part s))"

text \<open>The canonical decimal of an amount of units: \<open>toFixed ()\<close> of the number.\<close>

definition digit :: "nat \<Rightarrow> char" where
  "digit d = char_of (48 + d)"

fun show_nat :: "nat \<Rightarrow> string" where
  "show_nat n = (if n < 10 then [digit n] else show_nat (n div 10) @ [digit (n mod 10)])"

declare show_nat.simps [simp del]

fun fixed_digits :: "nat \<Rightarrow> nat \<Rightarrow> string" where
  "fixed_digits 0 n = []"
| "fixed_digits (Suc k) n = fixed_digits k (n div 10) @ [digit (n mod 10)]"

definition strip_zeros :: "string \<Rightarrow> string" where
  "strip_zeros s = rev (dropWhile (\<lambda>c. c = CHR ''0'') (rev s))"

definition decimal_of :: "nat \<Rightarrow> string" where
  "decimal_of n =
     (let f = strip_zeros (fixed_digits 8 (n mod 10 ^ 8))
      in show_nat (n div 10 ^ 8) @ (if f = [] then [] else CHR ''.'' # f))"

text \<open>\<open>toFixed (8)\<close> of an amount of units.\<close>

definition toFixed8 :: "amount \<Rightarrow> string" where
  "toFixed8 x =
     (if x < 0 then [CHR ''-''] else [])
     @ show_nat (nat (\<bar>x\<bar> div 10 ^ 8)) @ CHR ''.'' # fixed_digits 8 (nat (\<bar>x\<bar> mod 10 ^ 8))"

section \<open>Reading back what was printed\<close>

lemma digit_simps [simp]:
  assumes "d < 10"
  shows "is_digit (digit d)" and "digit_value (digit d) = int d" and "digit d = CHR ''0'' \<longleftrightarrow> d = 0"
    and "\<not> js_space (digit d)"
proof -
  have o: "(of_char (digit d) :: nat) = 48 + d"
    using assms by (simp add: digit_def)
  have oi: "(of_char (digit d) :: int) = 48 + int d"
    using o by (metis of_nat_add of_nat_numeral of_nat_of_char)
  show "is_digit (digit d)" and "digit_value (digit d) = int d" and "\<not> js_space (digit d)"
    using assms o oi by (auto simp: is_digit_def digit_value_def js_space_def)
  have z: "(of_char (CHR ''0'') :: nat) = 48" by simp
  show "digit d = CHR ''0'' \<longleftrightarrow> d = 0"
    using o z by (metis add_cancel_right_right digit_def of_char_eq_iff add.right_neutral)
qed

lemma int_div_mod [simp]:
  "10 * int (n div 10) + int (n mod 10) = int n"
  "int (n div 100000000) * 100000000 + int (n mod 100000000) = int n"
proof -
  have split: "int m * int (n div m) + int (n mod m) = int n" for m
    by (metis mult_div_mod_eq of_nat_add of_nat_mult)
  show "10 * int (n div 10) + int (n mod 10) = int n" using split [of 10] by simp
  show "int (n div 100000000) * 100000000 + int (n mod 100000000) = int n"
    using split [of 100000000] by (simp add: mult.commute)
qed

lemma is_digit_dot [simp]: "\<not> is_digit (CHR ''.'')" "\<not> js_space (CHR ''.'')"
  by (simp_all add: is_digit_def js_space_def)

lemma read_digits_Nil [simp]: "read_digits [] = 0"
  by (simp add: read_digits_def)

lemma read_digits_snoc [simp]: "read_digits (s @ [c]) = 10 * read_digits s + digit_value c"
  by (simp add: read_digits_def)

lemma show_nat_digits: "\<forall>c\<in>set (show_nat n). is_digit c \<and> \<not> js_space c"
proof (induction n rule: show_nat.induct)
  case (1 n)
  then show ?case by (subst show_nat.simps) auto
qed

lemma read_show_nat [simp]: "read_digits (show_nat n) = int n"
proof (induction n rule: show_nat.induct)
  case (1 n)
  show ?case
  proof (cases "n < 10")
    case True
    then show ?thesis using read_digits_snoc [of "[]" "digit n"] by (subst show_nat.simps) simp
  next
    case False
    with 1 show ?thesis by (subst show_nat.simps) simp
  qed
qed

lemma show_nat_head: "show_nat n = ''0'' \<or> (show_nat n \<noteq> [] \<and> hd (show_nat n) \<noteq> CHR ''0'')"
proof (cases "n = 0")
  case True
  then show ?thesis by (simp add: show_nat.simps digit_def)
next
  case False
  have "0 < n \<longrightarrow> show_nat n \<noteq> [] \<and> hd (show_nat n) \<noteq> CHR ''0''"
  proof (induction n rule: show_nat.induct)
    case (1 n)
    show ?case
    proof (cases "n < 10")
      case True
      then show ?thesis by (subst (1 2) show_nat.simps) simp
    next
      case False
      with 1 show ?thesis by (subst (1 2) show_nat.simps) auto
    qed
  qed
  with False show ?thesis by simp
qed

lemma fixed_digits_props: "length (fixed_digits k n) = k" "\<forall>c\<in>set (fixed_digits k n). is_digit c \<and> \<not> js_space c"
  by (induction k arbitrary: n) auto

lemma read_fixed_digits: "n < 10 ^ k \<Longrightarrow> read_digits (fixed_digits k n) = int n"
  by (induction k arbitrary: n) (auto simp: less_mult_imp_div_less mult.commute)

lemma strip_pad:
  assumes "length s = 8"
  shows "pad8 (strip_zeros s) = s" and "length (strip_zeros s) \<le> 8" and "set (strip_zeros s) \<subseteq> set s"
proof -
  let ?z = "takeWhile (\<lambda>c. c = CHR ''0'') (rev s)"
  have split: "s = strip_zeros s @ rev ?z"
    by (metis rev_append rev_rev_ident strip_zeros_def takeWhile_dropWhile_id)
  have "\<forall>c\<in>set ?z. c = CHR ''0''" by (auto dest: set_takeWhileD)
  then have "rev ?z = replicate (length ?z) (CHR ''0'')"
    by (metis replicate_length_same rev_replicate)
  moreover have "length ?z = 8 - length (strip_zeros s)"
    using split assms by (metis add_diff_cancel_left' length_append length_rev)
  ultimately show "pad8 (strip_zeros s) = s" using split by (simp add: pad8_def)
  show "length (strip_zeros s) \<le> 8" using split assms by (metis le_add1 length_append)
  show "set (strip_zeros s) \<subseteq> set s" using split by (metis Un_upper1 set_append)
qed

lemma decimal_parts:
  "integer_part (decimal_of n) = show_nat (n div 10 ^ 8)"
  "dropWhile is_digit (decimal_of n) =
     (if strip_zeros (fixed_digits 8 (n mod 10 ^ 8)) = [] then []
      else CHR ''.'' # strip_zeros (fixed_digits 8 (n mod 10 ^ 8)))"
  using show_nat_digits [of "n div 10 ^ 8"]
  by (simp_all add: decimal_of_def integer_part_def Let_def takeWhile_append2 dropWhile_append2)

lemma toFixed8_reads:
  assumes "0 \<le> x"
  shows "js_trim (toFixed8 x) = toFixed8 x" and "AMOUNT_REGEX (toFixed8 x)" and "units_of (toFixed8 x) = x"
    and "toFixed8 x \<noteq> []"
proof -
  let ?n = "nat x"
  let ?f = "fixed_digits 8 (?n mod 10 ^ 8)"
  have s: "toFixed8 x = show_nat (?n div 10 ^ 8) @ CHR ''.'' # ?f"
    using assms by (simp add: toFixed8_def nat_div_distrib nat_mod_distrib)
  have fd: "\<forall>c\<in>set ?f. is_digit c \<and> \<not> js_space c" by (rule fixed_digits_props(2))
  have "\<forall>c\<in>set (toFixed8 x). \<not> js_space c" using fd show_nat_digits [of "?n div 10 ^ 8"] by (auto simp: s)
  then show "js_trim (toFixed8 x) = toFixed8 x" by (rule js_trim_id)
  have ip: "integer_part (toFixed8 x) = show_nat (?n div 10 ^ 8)" and dw: "dropWhile is_digit (toFixed8 x) = CHR ''.'' # ?f"
    using show_nat_digits [of "?n div 10 ^ 8"] by (simp_all add: s integer_part_def takeWhile_append2 dropWhile_append2)
  have f: "fraction_part (toFixed8 x) = ?f" by (simp add: fraction_part_def dw)
  show "AMOUNT_REGEX (toFixed8 x)"
    using show_nat_head [of "?n div 10 ^ 8"] fd fixed_digits_props(1) [of 8 "?n mod 10 ^ 8"]
    by (auto simp: AMOUNT_REGEX_def ip dw f list_all_iff)
  have "pad8 ?f = ?f" by (simp add: pad8_def fixed_digits_props(1))
  then have "units_of (toFixed8 x) = int ?n"
    by (simp only: units_of_def ip f read_show_nat) (simp add: read_fixed_digits)
  then show "units_of (toFixed8 x) = x" using assms by simp
  show "toFixed8 x \<noteq> []" by (simp add: s)
qed

text \<open>
  Amounts survive the trip through text: the canonical decimal string of any amount of
  units passes the service's amount pattern, is untouched by trimming, and reads back as the
  same amount.
\<close>

theorem decimal_roundtrip:
  "AMOUNT_REGEX (js_trim (decimal_of n)) \<and> units_of (js_trim (decimal_of n)) = int n"
proof -
  let ?f = "strip_zeros (fixed_digits 8 (n mod 10 ^ 8))"
  note sp = strip_pad [OF fixed_digits_props(1) [of 8 "n mod 10 ^ 8"]]
  have fd: "\<forall>c\<in>set ?f. is_digit c \<and> \<not> js_space c"
    using sp(3) fixed_digits_props(2) [of 8 "n mod 10 ^ 8"] by auto
  have "\<forall>c\<in>set (decimal_of n). \<not> js_space c"
    using fd show_nat_digits [of "n div 10 ^ 8"] by (auto simp: decimal_of_def Let_def)
  then have t: "js_trim (decimal_of n) = decimal_of n" by (rule js_trim_id)
  have f: "fraction_part (decimal_of n) = ?f" by (simp add: fraction_part_def decimal_parts)
  have "AMOUNT_REGEX (decimal_of n)"
    using show_nat_head [of "n div 10 ^ 8"] fd sp(2)
    by (auto simp: AMOUNT_REGEX_def decimal_parts f list_all_iff Suc_le_eq)
  moreover have "units_of (decimal_of n) = int n"
    by (simp only: units_of_def decimal_parts f sp(1) read_show_nat) (simp add: read_fixed_digits)
  ultimately show ?thesis by (simp add: t)
qed

end
