(* ===== verification/Balances.thy ===== *)
theory Balances
  imports Wallet Decimal
begin

text \<open>
  The accounts service as its clients call it: the validation and the error mapping of
  \<open>BalancesService\<close> (\<open>apps/accounts/src/balances/balances.service.ts\<close>) and the gRPC methods of
  \<open>BalancesController\<close> with the allowlist check of \<open>libs/common/src/utils/grpc.utils.ts\<close>.
  \<open>validate\<close> of the \<open>uuid\<close> package is the argument \<open>isValidUuid\<close>.
\<close>

section \<open>Requests\<close>

record account_request =
  rq_userId :: uuid
  rq_amount :: string
  rq_currency :: string
  rq_idempotencyKey :: string
  rq_referenceId :: string

definition SUPPORTED_CURRENCIES :: "string list" where
  "SUPPORTED_CURRENCIES = [''USDT'', ''USDC'', ''ETH'', ''BTC'']"

definition DEFAULT_CURRENCY :: string where
  "DEFAULT_CURRENCY = ''USDT''"

definition SANDBOX_DEPOSIT_MAX :: string where
  "SANDBOX_DEPOSIT_MAX = ''1000000''"

definition validateUserId :: "(string \<Rightarrow> bool) \<Rightarrow> uuid \<Rightarrow> uuid result" where
  "validateUserId isValidUuid userId =
     (if userId = [] \<or> \<not> isValidUuid userId then Inl (BadRequestException ''INVALID_USER_ID'') else Inr userId)"

definition normalizeCurrency :: "string \<Rightarrow> string result" where
  "normalizeCurrency currency =
     (if currency = [] \<or> js_trim currency = [] then Inr DEFAULT_CURRENCY
      else
        let normalized = js_toUpperCase (js_trim currency)
        in if normalized \<notin> set SUPPORTED_CURRENCIES
           then Inl (BadRequestException ''UNSUPPORTED_CURRENCY'')
           else Inr normalized)"

definition validateAmount :: "string \<Rightarrow> string option \<Rightarrow> amount result" where
  "validateAmount amount maxAmount =
     (if amount = [] \<or> \<not> AMOUNT_REGEX (js_trim amount) then Inl (BadRequestException ''INVALID_AMOUNT'')
      else
        let value = units_of (js_trim amount)
        in if value \<le> 0 then Inl (BadRequestException ''INVALID_AMOUNT'')
           else (case maxAmount of
                   None \<Rightarrow> Inr value
                 | Some m \<Rightarrow> if units_of m < value then Inl (BadRequestException ''DEPOSIT_LIMIT_EXCEEDED'')
                             else Inr value))"

definition requireIdempotencyKey :: "string \<Rightarrow> string result" where
  "requireIdempotencyKey idempotencyKey =
     (let key = js_trim idempotencyKey
      in if key = [] then Inl (BadRequestException ''IDEMPOTENCY_KEY_REQUIRED'') else Inr key)"

definition trimmed_reference :: "string \<Rightarrow> string option" where
  "trimmed_reference r = (if js_trim r = [] then None else Some (js_trim r))"

definition mutation_request ::
  "(string \<Rightarrow> bool) \<Rightarrow> string option \<Rightarrow> account_request \<Rightarrow> mutation_params result" where
  "mutation_request isValidUuid maxAmount d =
     bindR (validateUserId isValidUuid (rq_userId d)) (\<lambda>userId.
     bindR (normalizeCurrency (rq_currency d)) (\<lambda>currency.
     bindR (validateAmount (rq_amount d) maxAmount) (\<lambda>amount.
     bindR (requireIdempotencyKey (rq_idempotencyKey d)) (\<lambda>key.
     Inr \<lparr>p_userId = userId, p_currency = currency, p_amount = amount, p_idempotencyKey = key,
          p_referenceId = trimmed_reference (rq_referenceId d)\<rparr>))))"

text \<open>\<open>FAILED_PRECONDITION\<close> is the gRPC code 9.\<close>

fun mapMutationResult :: "mutation_result \<Rightarrow> account result" where
  "mapMutationResult (OK acc) = Inr acc"
| "mapMutationResult (IDEMPOTENT_REPLAY acc) = Inr acc"
| "mapMutationResult NOT_FOUND = Inl (NotFoundException ''ACCOUNT_NOT_FOUND'')"
| "mapMutationResult (INSUFFICIENT_AVAILABLE _) = Inl (RpcException 9 ''INSUFFICIENT_BALANCE'')"
| "mapMutationResult (INSUFFICIENT_LOCKED _) = Inl (RpcException 9 ''INSUFFICIENT_LOCKED_BALANCE'')"
| "mapMutationResult IDEMPOTENCY_PAYLOAD_MISMATCH = Inl (BadRequestException ''IDEMPOTENCY_KEY_PAYLOAD_MISMATCH'')"

section \<open>The service\<close>

definition getBalance ::
  "(string \<Rightarrow> bool) \<Rightarrow> pg_env \<Rightarrow> uuid \<Rightarrow> time \<Rightarrow> account_request \<Rightarrow> accounts_db \<Rightarrow> account result \<times> accounts_db" where
  "getBalance isValidUuid pg newId now d db =
     (case bindR (validateUserId isValidUuid (rq_userId d)) (\<lambda>userId.
           bindR (normalizeCurrency (rq_currency d)) (\<lambda>currency. Inr (userId, currency))) of
        Inl e \<Rightarrow> (Inl e, db)
      | Inr (userId, currency) \<Rightarrow> findOrCreate pg newId now userId currency db)"

definition mapped :: "mutation_result result \<times> accounts_db \<Rightarrow> account result \<times> accounts_db" where
  "mapped rd = (bindR (fst rd) mapMutationResult, snd rd)"

definition depositSandboxFunds ::
  "(string \<Rightarrow> bool) \<Rightarrow> pg_env \<Rightarrow> uuid \<Rightarrow> time \<Rightarrow> account_request \<Rightarrow> accounts_db \<Rightarrow> account result \<times> accounts_db" where
  "depositSandboxFunds isValidUuid pg newId now d db =
     (case mutation_request isValidUuid (Some SANDBOX_DEPOSIT_MAX) d of
        Inl e \<Rightarrow> (Inl e, db)
      | Inr p \<Rightarrow> mapped (deposit pg newId now p db))"

definition lockBalance ::
  "(string \<Rightarrow> bool) \<Rightarrow> pg_env \<Rightarrow> time \<Rightarrow> account_request \<Rightarrow> accounts_db \<Rightarrow> account result \<times> accounts_db" where
  "lockBalance isValidUuid pg now d db =
     (case mutation_request isValidUuid None d of
        Inl e \<Rightarrow> (Inl e, db)
      | Inr p \<Rightarrow> mapped (lock pg now p db))"

definition unlockBalance ::
  "(string \<Rightarrow> bool) \<Rightarrow> pg_env \<Rightarrow> time \<Rightarrow> account_request \<Rightarrow> accounts_db \<Rightarrow> account result \<times> accounts_db" where
  "unlockBalance isValidUuid pg now d db =
     (case mutation_request isValidUuid None d of
        Inl e \<Rightarrow> (Inl e, db)
      | Inr p \<Rightarrow> mapped (unlock pg now p db))"

definition creditDepositFunds ::
  "(string \<Rightarrow> bool) \<Rightarrow> pg_env \<Rightarrow> uuid \<Rightarrow> time \<Rightarrow> account_request \<Rightarrow> accounts_db \<Rightarrow> account result \<times> accounts_db" where
  "creditDepositFunds isValidUuid pg newId now d db =
     (case mutation_request isValidUuid None d of
        Inl e \<Rightarrow> (Inl e, db)
      | Inr p \<Rightarrow> mapped (creditDeposit pg newId now p db))"

definition debitWithdrawalFunds ::
  "(string \<Rightarrow> bool) \<Rightarrow> pg_env \<Rightarrow> time \<Rightarrow> account_request \<Rightarrow> accounts_db \<Rightarrow> account result \<times> accounts_db" where
  "debitWithdrawalFunds isValidUuid pg now d db =
     (case mutation_request isValidUuid None d of
        Inl e \<Rightarrow> (Inl e, db)
      | Inr p \<Rightarrow> mapped (debitWithdrawal pg now p db))"

section \<open>The gRPC interface\<close>

definition authorizeM2MCaller :: "string option \<Rightarrow> string list \<Rightarrow> string result" where
  "authorizeM2MCaller header allowedCallers =
     (let serviceId = (case header of None \<Rightarrow> [] | Some s \<Rightarrow> s)
      in if serviceId \<notin> set allowedCallers then Inl (ForbiddenException ''SERVICE_NOT_ALLOWED'')
         else Inr serviceId)"

definition BALANCES_AUTHORIZED_M2M_CALLERS :: "string list" where
  "BALANCES_AUTHORIZED_M2M_CALLERS =
     [''api-gateway'', ''blockchain-worker'', ''orders-service'', ''transfers-service'']"

record balance_response =
  accountId :: uuid
  br_userId :: uuid
  br_currency :: string
  br_availableBalance :: amount
  br_lockedBalance :: amount
  totalBalance :: amount
  br_updatedAt :: nat

definition calculateTotalBalance :: "amount \<Rightarrow> amount \<Rightarrow> amount" where
  "calculateTotalBalance available locked = available + locked"

definition mapToBalanceResponse :: "account \<Rightarrow> balance_response" where
  "mapToBalanceResponse a =
     \<lparr>accountId = account_id a, br_userId = account_userId a, br_currency = account_currency a,
      br_availableBalance = availableBalance a, br_lockedBalance = lockedBalance a,
      totalBalance = calculateTotalBalance (availableBalance a) (lockedBalance a),
      br_updatedAt = account_updatedAt a div 1000\<rparr>"

datatype accounts_method =
    GetBalance | DepositSandboxFunds | LockBalance | UnlockBalance | CreditDepositFunds | DebitWithdrawalFunds

fun accounts_service ::
  "accounts_method \<Rightarrow> (string \<Rightarrow> bool) \<Rightarrow> pg_env \<Rightarrow> uuid \<Rightarrow> time \<Rightarrow> account_request \<Rightarrow> accounts_db
   \<Rightarrow> account result \<times> accounts_db" where
  "accounts_service GetBalance isUuid pg newId now d db = getBalance isUuid pg newId now d db"
| "accounts_service DepositSandboxFunds isUuid pg newId now d db = depositSandboxFunds isUuid pg newId now d db"
| "accounts_service LockBalance isUuid pg newId now d db = lockBalance isUuid pg now d db"
| "accounts_service UnlockBalance isUuid pg newId now d db = unlockBalance isUuid pg now d db"
| "accounts_service CreditDepositFunds isUuid pg newId now d db = creditDepositFunds isUuid pg newId now d db"
| "accounts_service DebitWithdrawalFunds isUuid pg newId now d db = debitWithdrawalFunds isUuid pg now d db"

definition accounts_rpc ::
  "accounts_method \<Rightarrow> string option \<Rightarrow> (string \<Rightarrow> bool) \<Rightarrow> pg_env \<Rightarrow> uuid \<Rightarrow> time \<Rightarrow> account_request \<Rightarrow> accounts_db
   \<Rightarrow> balance_response result \<times> accounts_db" where
  "accounts_rpc m header isUuid pg newId now d db =
     (case (if m = GetBalance then Inr [] else authorizeM2MCaller header BALANCES_AUTHORIZED_M2M_CALLERS) of
        Inl e \<Rightarrow> (Inl e, db)
      | Inr _ \<Rightarrow>
          (let (r, db') = accounts_service m isUuid pg newId now d db
           in (bindR r (\<lambda>a. Inr (mapToBalanceResponse a)), db')))"

section \<open>Supporting facts\<close>

fun method_op :: "accounts_method \<Rightarrow> uuid \<Rightarrow> ledger_op option" where
  "method_op GetBalance newId = None"
| "method_op DepositSandboxFunds newId = Some (Deposit_op newId)"
| "method_op LockBalance newId = Some Lock_op"
| "method_op UnlockBalance newId = Some Unlock_op"
| "method_op CreditDepositFunds newId = Some (CreditDeposit_op newId)"
| "method_op DebitWithdrawalFunds newId = Some Debit_op"

definition method_max :: "accounts_method \<Rightarrow> string option" where
  "method_max m = (if m = DepositSandboxFunds then Some SANDBOX_DEPOSIT_MAX else None)"

lemma mapped_simps [simp]: "snd (mapped rd) = snd rd" "fst (mapped rd) = bindR (fst rd) mapMutationResult"
  by (simp_all add: mapped_def)

text \<open>Every mutating method is its validation followed by one operation of the repository.\<close>

lemma accounts_service_mutation:
  assumes "method_op m newId = Some op"
  shows "accounts_service m isUuid pg newId now d db =
    (case mutation_request isUuid (method_max m) d of
       Inl e \<Rightarrow> (Inl e, db)
     | Inr p \<Rightarrow> mapped (run_ledger_op op pg now p db))"
  using assms
  by (cases m) (auto simp: method_max_def depositSandboxFunds_def lockBalance_def unlockBalance_def
      creditDepositFunds_def debitWithdrawalFunds_def split: sum.splits)

lemma mutation_request_valid:
  assumes "mutation_request isUuid mx d = Inr p"
  shows "0 < p_amount p" and "p_currency p \<in> set SUPPORTED_CURRENCIES" and "p_idempotencyKey p \<noteq> []"
    and "p_userId p = rq_userId d"
  using assms
  by (auto simp: mutation_request_def bind_simps validateUserId_def normalizeCurrency_def validateAmount_def
      requireIdempotencyKey_def SUPPORTED_CURRENCIES_def DEFAULT_CURRENCY_def Let_def
      split: if_splits option.splits)

end
