(* ===== verification/Balances_Props.thy ===== *)
theory Balances_Props
  imports Balances
begin

text \<open>
  What the gRPC methods of the accounts service guarantee, for every caller and every request:
  the books stay balanced and solvent, an unauthorised caller changes nothing, and an authorised
  valid call is one step of the abstract wallet.
\<close>

section \<open>Properties\<close>

text \<open>
  C1: whatever a client sends to any of the six gRPC methods of the accounts service (any
  header, any text in any field), the books stay consistent and no account goes negative, even
  with other transactions committing between the statements of the call, as long as these keep
  the books so too.
\<close>

theorem accounts_rpc_keeps_books:
  assumes "accounts_inv db" and "no_overdraft db"
    and "race_keeps accounts_inv pg" and "race_keeps no_overdraft pg"
  shows "accounts_inv (snd (accounts_rpc m header isUuid pg newId now d db))
    \<and> no_overdraft (snd (accounts_rpc m header isUuid pg newId now d db))"
proof -
  have "accounts_inv (snd (accounts_service m isUuid pg newId now d db))
      \<and> no_overdraft (snd (accounts_service m isUuid pg newId now d db))"
  proof (cases "method_op m newId")
    case None
    then have "m = GetBalance" by (cases m) simp_all
    then show ?thesis
      using assms by (auto simp: getBalance_def findOrCreate_keeps split: sum.splits)
  next
    case (Some op)
    then show ?thesis
      using assms run_ledger_op_inv [OF assms(1,3)]
        run_ledger_op_no_overdraft [OF assms(1,3,2,4) mutation_request_valid(1)]
      by (auto simp: accounts_service_mutation [OF Some] split: sum.splits)
  qed
  then show ?thesis
    using assms by (auto simp: accounts_rpc_def split: sum.splits prod.splits)
qed

definition demo_request :: account_request where
  "demo_request = \<lparr>rq_userId = ''alice'', rq_amount = ''0.0000003'', rq_currency = '' usdt '',
     rq_idempotencyKey = ''order-1'', rq_referenceId = []\<rparr>"

lemma demo_request_valid:
  "mutation_request (\<lambda>_. True) None demo_request =
     Inr \<lparr>p_userId = ''alice'', p_currency = ''USDT'', p_amount = 30, p_idempotencyKey = ''order-1'',
          p_referenceId = None\<rparr>"
  by code_simp

theorem accounts_rpc_keeps_books_witness:
  "accounts_inv (snd (accounts_rpc LockBalance (Some ''orders-service'') (\<lambda>_. True) quiet_pg ''i2'' 5 demo_request demo_db))
   \<and> fst (accounts_rpc LockBalance (Some ''orders-service'') (\<lambda>_. True) quiet_pg ''i2'' 5 demo_request demo_db)
     = Inr \<lparr>accountId = ''i1'', br_userId = ''alice'', br_currency = ''USDT'', br_availableBalance = 70,
            br_lockedBalance = 30, totalBalance = 100, br_updatedAt = 0\<rparr>"
proof (rule conjI)
  show "accounts_inv (snd (accounts_rpc LockBalance (Some ''orders-service'') (\<lambda>_. True) quiet_pg ''i2'' 5 demo_request demo_db))"
    using accounts_rpc_keeps_books [OF demo_inv demo_no_overdraft race_keeps_quiet race_keeps_quiet] by blast
  show "fst (accounts_rpc LockBalance (Some ''orders-service'') (\<lambda>_. True) quiet_pg ''i2'' 5 demo_request demo_db)
     = Inr \<lparr>accountId = ''i1'', br_userId = ''alice'', br_currency = ''USDT'', br_availableBalance = 70,
            br_lockedBalance = 30, totalBalance = 100, br_updatedAt = 0\<rparr>"
    by code_simp
qed

text \<open>
  A caller that is not on the allowlist (or names no service at all) is refused with
  \<open>SERVICE_NOT_ALLOWED\<close> by every method that can move money, and the database is untouched.
\<close>

theorem accounts_rpc_refuses_strangers:
  assumes "m \<noteq> GetBalance"
    and "header = None \<or> (\<exists>s. header = Some s \<and> s \<notin> set BALANCES_AUTHORIZED_M2M_CALLERS)"
  shows "accounts_rpc m header isUuid pg newId now d db = (Inl (ForbiddenException ''SERVICE_NOT_ALLOWED''), db)"
  using assms
  by (auto simp: accounts_rpc_def authorizeM2MCaller_def BALANCES_AUTHORIZED_M2M_CALLERS_def)

theorem accounts_rpc_refuses_strangers_witness:
  "accounts_rpc CreditDepositFunds (Some ''copy-trading-service'') (\<lambda>_. True) quiet_pg ''i2'' 5 demo_request demo_db
     = (Inl (ForbiddenException ''SERVICE_NOT_ALLOWED''), demo_db)"
  by (rule accounts_rpc_refuses_strangers) (simp_all add: BALANCES_AUTHORIZED_M2M_CALLERS_def)

text \<open>
  C36: an authorised, valid call with a fresh idempotency key on an existing account is exactly
  one step of the abstract wallet: it succeeds if and only if the wallet has the funds, the new
  wallet is the old one with that account moved, and the answer carries the new balances and
  their sum; without the funds it answers \<open>FAILED_PRECONDITION\<close> and nothing changes.
\<close>

theorem accounts_rpc_refines_wallet:
  assumes "accounts_inv db" and "s \<in> set BALANCES_AUTHORIZED_M2M_CALLERS"
    and op: "method_op m newId = Some op"
    and req: "mutation_request isUuid (method_max m) d = Inr p"
    and w: "balance_view db (p_userId p, p_currency p) = Some w" and ok: "storable op p w db"
  shows "if wallet_guard op (p_amount p) w
    then \<exists>b db'. accounts_rpc m (Some s) isUuid quiet_pg newId now d db = (Inr b, db')
           \<and> balance_view db' = (balance_view db)((p_userId p, p_currency p) \<mapsto> wallet_move op (p_amount p) w)
           \<and> (br_availableBalance b, br_lockedBalance b) = wallet_move op (p_amount p) w
           \<and> totalBalance b = br_availableBalance b + br_lockedBalance b
    else (\<exists>code. accounts_rpc m (Some s) isUuid quiet_pg newId now d db = (Inl (RpcException 9 code), db))"
proof -
  have "m \<noteq> GetBalance" using op by auto
  then have rpc: "accounts_rpc m (Some s) isUuid quiet_pg newId now d db =
      (let (r, db') = mapped (run_ledger_op op quiet_pg now p db)
       in (bindR r (\<lambda>a. Inr (mapToBalanceResponse a)), db'))"
    using assms(2) req by (simp add: accounts_rpc_def authorizeM2MCaller_def accounts_service_mutation [OF op])
  show ?thesis
  proof (cases "wallet_guard op (p_amount p) w")
    case True
    with ledger_refines_wallet [OF assms(1) w ok, of now] show ?thesis
      unfolding rpc by (auto simp: mapped_def mapToBalanceResponse_def calculateTotalBalance_def)
  next
    case False
    with ledger_refines_wallet [OF assms(1) w ok, of now] show ?thesis
      unfolding rpc by (cases op; cases w) (auto simp: mapped_def)
  qed
qed

theorem accounts_rpc_refines_wallet_witness:
  "\<exists>b db'. accounts_rpc LockBalance (Some ''orders-service'') (\<lambda>_. True) quiet_pg ''i2'' 5 demo_request demo_db
       = (Inr b, db')
     \<and> balance_view db' (''alice'', ''USDT'') = Some (70, 30)"
proof -
  let ?p = "\<lparr>p_userId = ''alice'', p_currency = ''USDT'', p_amount = 30, p_idempotencyKey = ''order-1'',
          p_referenceId = None\<rparr>"
  have s: "''orders-service'' \<in> set BALANCES_AUTHORIZED_M2M_CALLERS"
    by (simp add: BALANCES_AUTHORIZED_M2M_CALLERS_def)
  have op: "method_op LockBalance ''i2'' = Some Lock_op" by simp
  have req: "mutation_request (\<lambda>_. True) (method_max LockBalance) demo_request = Inr ?p"
    by (simp add: method_max_def demo_request_valid)
  have w: "balance_view demo_db (p_userId ?p, p_currency ?p) = Some (100, 0)"
    by (simp add: balance_view_def findByUserAndCurrency_def demo_defs)
  have ok: "storable Lock_op ?p (100, 0) demo_db"
    by (simp add: storable_def findLedgerByIdempotencyKey_def demo_defs varchar_128_def numeric_28_8_def)
  from accounts_rpc_refines_wallet [OF demo_inv s op req w ok, of 5] show ?thesis by auto
qed

text \<open>
  Asking for a balance moves no money: with a valid user and currency it answers the account
  of exactly that user and currency, creating it with zero balances when it is missing, and every
  other account is as it was; asking again changes nothing.
\<close>

theorem getBalance_creates_only_zero:
  assumes "isUuid u" and "u \<noteq> []" and "rq_userId d = u" and "normalizeCurrency (rq_currency d) = Inr c"
    and "newId \<notin> account_id ` set (accounts db)"
  shows "\<exists>a db'. getBalance isUuid quiet_pg newId now d db = (Inr a, db')
    \<and> account_userId a = u \<and> account_currency a = c
    \<and> balance_view db' = (balance_view db)((u, c) \<mapsto> (case balance_view db (u, c) of None \<Rightarrow> (0, 0) | Some w \<Rightarrow> w))
    \<and> getBalance isUuid quiet_pg newId later d db' = (Inr a, db')"
proof -
  have eq: "getBalance isUuid quiet_pg i t d db = findOrCreate quiet_pg i t u c db" for i t db
    using assms(1-4) by (simp add: getBalance_def validateUserId_def)
  show ?thesis
  proof (cases "findByUserAndCurrency u c db")
    case (Some a)
    then have "balance_view db (u, c) = Some (availableBalance a, lockedBalance a)"
      by (simp add: balance_view_def)
    with Some findByUserAndCurrency_Some [OF Some] show ?thesis
      by (auto simp: eq findOrCreate_def)
  next
    case None
    have "\<exists>a d'. insert_account newId u c now db = Inr (a, d')"
      using None assms(5) by (auto simp: insert_account_def Let_def)
    then obtain a d' where ins: "insert_account newId u c now db = Inr (a, d')" by blast
    have "balance_view d' = (balance_view db)((u, c) \<mapsto> (0, 0))"
    proof
      fix uc
      show "balance_view d' uc = ((balance_view db)((u, c) \<mapsto> (0, 0))) uc"
        using find_after_insert [OF ins] insert_account_Inr(5,6) [OF ins]
        by (cases "uc = (u, c)") (auto simp: balance_view_def)
    qed
    moreover have "balance_view db (u, c) = None" using None by (simp add: balance_view_def)
    ultimately show ?thesis
      using None ins find_after_insert(1) [OF ins] insert_account_Inr(3,4) [OF ins]
      by (auto simp: eq findOrCreate_def)
  qed
qed

theorem getBalance_creates_only_zero_witness:
  "\<exists>a db'. getBalance (\<lambda>_. True) quiet_pg ''i9'' 5 (demo_request\<lparr>rq_currency := ''btc''\<rparr>) demo_db = (Inr a, db')
     \<and> balance_view db' (''alice'', ''BTC'') = Some (0, 0) \<and> balance_view db' (''alice'', ''USDT'') = Some (100, 0)"
proof -
  have c: "normalizeCurrency (rq_currency (demo_request\<lparr>rq_currency := ''btc''\<rparr>)) = Inr ''BTC''" by code_simp
  have i: "''i9'' \<notin> account_id ` set (accounts demo_db)" by (simp add: demo_defs)
  have v: "balance_view demo_db (''alice'', ''BTC'') = None" "balance_view demo_db (''alice'', ''USDT'') = Some (100, 0)"
    by (simp_all add: balance_view_def findByUserAndCurrency_def demo_defs)
  have u: "rq_userId (demo_request\<lparr>rq_currency := ''btc''\<rparr>) = ''alice''" by (simp add: demo_request_def)
  obtain a db' where "getBalance (\<lambda>_. True) quiet_pg ''i9'' 5 (demo_request\<lparr>rq_currency := ''btc''\<rparr>) demo_db = (Inr a, db')"
    and "balance_view db' = (balance_view demo_db)((''alice'', ''BTC'') \<mapsto> (0, 0))"
    using getBalance_creates_only_zero [where later = 6, of "\<lambda>_. True" "''alice''", OF _ _ u c i, of 5] v(1) by auto
  then show ?thesis by (intro exI [of _ a] exI [of _ db']) (simp add: v)
qed

end
