(* ===== verification/Contracts.thy ===== *)
theory Contracts
  imports Decimal
begin

text \<open>
  The messages the services share: \<open>libs/contracts/src/orders.types.ts\<close>,
  \<open>libs/contracts/src/events/orders.events.ts\<close> and the event envelope. Prices and quantities are
  amounts of units; the zero fees and the timestamps are kept as the events carry them.
\<close>

datatype order_side = BUY | SELL

datatype order_type = LIMIT | MARKET

datatype order_status = PENDING | OPEN | FILLED | PARTIALLY_FILLED | CANCELLED | REJECTED

record trade_executed =
  tradeId :: uuid
  buyOrderId :: uuid
  sellOrderId :: uuid
  buyerUserId :: uuid
  sellerUserId :: uuid
  trade_symbol :: string
  trade_price :: amount
  trade_quantity :: amount
  buyerLimitPrice :: amount
  buyerFee :: amount
  sellerFee :: amount
  trade_sequenceId :: nat
  trade_timestamp :: time

record order_placed =
  op_orderId :: uuid
  op_userId :: uuid
  op_symbol :: string
  op_side :: order_side
  op_type :: order_type
  op_price :: amount
  op_quantity :: amount
  op_levelTotalQuantity :: amount
  op_sequenceId :: nat
  op_timestamp :: time

record order_cancelled =
  oc_orderId :: uuid
  oc_userId :: uuid
  oc_symbol :: string
  oc_price :: amount
  oc_remainingQuantity :: amount
  oc_levelTotalQuantity :: amount
  oc_side :: order_side
  oc_sequenceId :: nat
  oc_reason :: string
  oc_timestamp :: time

record order_filled =
  of_orderId :: uuid
  of_userId :: uuid
  of_symbol :: string
  of_filledPrice :: amount
  of_filledQuantity :: amount
  of_remainingQuantity :: amount
  of_fee :: amount
  of_timestamp :: time

datatype orders_payload =
    OrderPlaced order_placed
  | OrderCancelled order_cancelled
  | OrderFilled order_filled
  | TradeExecuted trade_executed

text \<open>\<open>DomainEventEnvelope\<close>, as a service writes it into its outbox.\<close>

record 'p domain_event =
  de_eventId :: uuid
  de_action :: string
  de_eventType :: string
  de_aggregateId :: uuid
  de_partitionKey :: string
  de_timestamp :: time
  de_correlationId :: uuid
  de_payload :: 'p

text \<open>
  \<open>DomainEventEnvelope\<close>, as a consumer reads it from JSON: the event id is empty and the
  payload is missing when the message does not carry them.
\<close>

record 'p envelope =
  env_eventId :: uuid
  env_action :: "string option"
  env_eventType :: string
  env_payload :: "'p option"

text \<open>\<open>envelope.action || payload.headers[KAFKA_HEADERS.action]\<close>, empty when both are missing.\<close>

definition envelope_action :: "'p envelope \<Rightarrow> string option \<Rightarrow> string" where
  "envelope_action env header =
     (case env_action env of
        Some (c # s) \<Rightarrow> c # s
      | _ \<Rightarrow> (case header of None \<Rightarrow> [] | Some a \<Rightarrow> a))"

definition opposite :: "order_side \<Rightarrow> order_side" where
  "opposite side = (case side of BUY \<Rightarrow> SELL | SELL \<Rightarrow> BUY)"

text \<open>\<open>symbol.split ('_')\<close> read as a base and a quote currency.\<close>

definition symbol_base :: "string \<Rightarrow> string" where
  "symbol_base symbol = hd (js_split (CHR ''_'') symbol)"

definition symbol_quote :: "string \<Rightarrow> string option" where
  "symbol_quote symbol =
     (case tl (js_split (CHR ''_'') symbol) of [] \<Rightarrow> None | q # _ \<Rightarrow> Some q)"

lemma symbol_parts:
  assumes "CHR ''_'' \<notin> set b" and "CHR ''_'' \<notin> set q"
  shows "symbol_base (b @ CHR ''_'' # q) = b" and "symbol_quote (b @ CHR ''_'' # q) = Some q"
  using assms by (simp_all add: symbol_base_def symbol_quote_def js_split_append js_split_single)

end
