(* ===== verification/OrderBook.thy ===== *)
theory OrderBook
  imports Contracts Complex_Main "HOL-Library.Char_ord" "HOL-Library.List_Lexorder" "HOL-Library.Product_Lexorder"
begin

text \<open>
  The order book the orders service keeps in Valkey
  (\<open>apps/orders/src/orders/orderbook.service.ts\<close>): one sorted set of order ids per side and
  pair, scored by price, one hash per order, and one sequence counter per pair. The range query
  of the sorted set and the conversion of a price to a score belong to Valkey and to the
  JavaScript number format, and are arguments.
\<close>

section \<open>Valkey\<close>

record orderbook_entry =
  be_orderId :: uuid
  be_userId :: uuid
  be_pair :: string
  be_side :: order_side
  be_type :: order_type
  be_price :: amount
  be_amount :: amount
  be_remainingAmount :: amount
  be_createdAt :: nat

text \<open>A hash that was never written by \<open>addOrder\<close> may hold the remaining amount alone.\<close>

datatype order_hash = Fields orderbook_entry | RemainingOnly amount

type_synonym zset = "(uuid \<times> rat) list"

record valkey =
  zsets :: "order_side \<times> string \<Rightarrow> zset"
  hashes :: "uuid \<Rightarrow> order_hash option"
  sequences :: "string \<Rightarrow> nat"

definition empty_valkey :: valkey where
  "empty_valkey = \<lparr>zsets = (\<lambda>_. []), hashes = (\<lambda>_. None), sequences = (\<lambda>_. 0)\<rparr>"

record valkey_api =
  zrange :: "zset \<Rightarrow> bool \<Rightarrow> uuid list"
  toNumber :: "amount \<Rightarrow> rat"

definition zadd :: "uuid \<Rightarrow> rat \<Rightarrow> zset \<Rightarrow> zset" where
  "zadd m s z = (if m \<in> fst ` set z then map (\<lambda>x. if fst x = m then (m, s) else x) z else z @ [(m, s)])"

definition zrem :: "uuid \<Rightarrow> zset \<Rightarrow> zset" where
  "zrem m z = filter (\<lambda>x. fst x \<noteq> m) z"

text \<open>\<open>ZRANGE key 0 stop\<close>: a negative \<open>stop\<close> counts from the end.\<close>

definition range_to :: "int \<Rightarrow> 'a list \<Rightarrow> 'a list" where
  "range_to stop xs = take (nat (if 0 \<le> stop then stop + 1 else int (length xs) + stop + 1)) xs"

section \<open>Operations\<close>

definition addOrder :: "valkey_api \<Rightarrow> orderbook_entry \<Rightarrow> valkey \<Rightarrow> valkey" where
  "addOrder api entry r =
     (let key = (be_side entry, be_pair entry);
          priceNum = toNumber api (be_price entry)
      in r\<lparr>zsets := (zsets r)(key := zadd (be_orderId entry) priceNum (zsets r key)),
           hashes := (hashes r)(be_orderId entry \<mapsto> Fields entry)\<rparr>)"

definition updateRemainingAmount :: "uuid \<Rightarrow> amount \<Rightarrow> valkey \<Rightarrow> valkey" where
  "updateRemainingAmount orderId remaining r =
     r\<lparr>hashes := (hashes r)(orderId \<mapsto>
         (case hashes r orderId of
            Some (Fields e) \<Rightarrow> Fields (e\<lparr>be_remainingAmount := remaining\<rparr>)
          | _ \<Rightarrow> RemainingOnly remaining))\<rparr>"

definition removeOrder :: "uuid \<Rightarrow> string \<Rightarrow> order_side \<Rightarrow> valkey \<Rightarrow> valkey" where
  "removeOrder orderId pair side r =
     r\<lparr>zsets := (zsets r)((side, pair) := zrem orderId (zsets r (side, pair))),
       hashes := (hashes r)(orderId := None)\<rparr>"

definition getOrderDetails :: "uuid \<Rightarrow> valkey \<Rightarrow> orderbook_entry option" where
  "getOrderDetails orderId r =
     (case hashes r orderId of
        Some (Fields e) \<Rightarrow> if be_orderId e = [] then None else Some e
      | _ \<Rightarrow> None)"

definition details_of :: "uuid list \<Rightarrow> valkey \<Rightarrow> orderbook_entry list" where
  "details_of ids r = List.map_filter (\<lambda>i. getOrderDetails i r) ids"

definition getBestOpposingOrders :: "valkey_api \<Rightarrow> string \<Rightarrow> order_side \<Rightarrow> int \<Rightarrow> valkey \<Rightarrow> orderbook_entry list" where
  "getBestOpposingOrders api pair takerSide limit r =
     (let isTakerBuy = (takerSide = BUY);
          opposing = zsets r (if isTakerBuy then SELL else BUY, pair);
          orderIds = range_to (limit - 1) (zrange api opposing (\<not> isTakerBuy))
      in details_of orderIds r)"

definition nextSequence :: "string \<Rightarrow> valkey \<Rightarrow> nat \<times> valkey" where
  "nextSequence pair r =
     (Suc (sequences r pair), r\<lparr>sequences := (sequences r)(pair := Suc (sequences r pair))\<rparr>)"

definition getSequence :: "string \<Rightarrow> valkey \<Rightarrow> nat" where
  "getSequence pair r = sequences r pair"

definition getLevelTotalQuantity :: "valkey_api \<Rightarrow> string \<Rightarrow> order_side \<Rightarrow> amount \<Rightarrow> valkey \<Rightarrow> amount" where
  "getLevelTotalQuantity api pair side price r =
     (let priceNum = toNumber api price;
          orderIds = range_to 500 (zrange api (zsets r (side, pair)) False)
      in sum_list (map be_remainingAmount (filter (\<lambda>d. of_int (be_price d) = priceNum) (details_of orderIds r))))"

record book_level =
  level_price :: amount
  level_amount :: amount
  level_count :: nat

fun add_level :: "orderbook_entry \<Rightarrow> book_level list \<Rightarrow> book_level list" where
  "add_level e [] = [\<lparr>level_price = be_price e, level_amount = be_remainingAmount e, level_count = 1\<rparr>]"
| "add_level e (l # ls) =
     (if level_price l = be_price e
      then l\<lparr>level_amount := level_amount l + be_remainingAmount e, level_count := level_count l + 1\<rparr> # ls
      else l # add_level e ls)"

text \<open>The loop pushes a level before it compares with \<open>maxDepth\<close>, so it keeps at least one.\<close>

definition aggregateLevels :: "uuid list \<Rightarrow> int \<Rightarrow> valkey \<Rightarrow> book_level list" where
  "aggregateLevels orderIds maxDepth r =
     take (nat (max 1 maxDepth)) (fold add_level (details_of orderIds r) [])"

record book_view =
  bv_pair :: string
  bids :: "book_level list"
  asks :: "book_level list"
  bv_timestamp :: nat
  bv_sequenceId :: nat

definition getOrderBook_view :: "valkey_api \<Rightarrow> string \<Rightarrow> int \<Rightarrow> time \<Rightarrow> valkey \<Rightarrow> book_view" where
  "getOrderBook_view api pair depth now r =
     (let bidOrderIds = range_to (depth * 2 - 1) (zrange api (zsets r (BUY, pair)) True);
          askOrderIds = range_to (depth * 2 - 1) (zrange api (zsets r (SELL, pair)) False)
      in \<lparr>bv_pair = pair, bids = aggregateLevels bidOrderIds depth r, asks = aggregateLevels askOrderIds depth r,
          bv_timestamp = now div 1000, bv_sequenceId = getSequence pair r\<rparr>)"

definition rehydrate :: "valkey_api \<Rightarrow> orderbook_entry list \<Rightarrow> valkey \<Rightarrow> valkey" where
  "rehydrate api activeOrders r = fold (addOrder api) activeOrders r"

section \<open>What is relied on of Valkey\<close>

text \<open>
  \<open>ZRANGE\<close> orders the members by score and members of the same score by their bytes; \<open>REV\<close>
  reverses that order. A price converts to a score monotonically.
\<close>

definition zscore :: "zset \<Rightarrow> uuid \<Rightarrow> rat" where
  "zscore z m = (case map_of z m of None \<Rightarrow> 0 | Some s \<Rightarrow> s)"

definition zrange_ok :: "(zset \<Rightarrow> bool \<Rightarrow> uuid list) \<Rightarrow> bool" where
  "zrange_ok zr \<longleftrightarrow>
     (\<forall>z. distinct (map fst z) \<longrightarrow>
        distinct (zr z False) \<and> set (zr z False) = fst ` set z
        \<and> sorted_wrt (\<lambda>a b. (zscore z a, a) < (zscore z b, b)) (zr z False)
        \<and> zr z True = rev (zr z False))"

definition valkey_ok :: "valkey_api \<Rightarrow> bool" where
  "valkey_ok api \<longleftrightarrow> zrange_ok (zrange api) \<and> mono (toNumber api)"

text \<open>A concrete range query and a score that is exact.\<close>

definition sorted_range :: "zset \<Rightarrow> bool \<Rightarrow> uuid list" where
  "sorted_range z reverse =
     (let ids = map fst (sort_key (\<lambda>x. (snd x, fst x)) z) in if reverse then rev ids else ids)"

definition exact_valkey :: valkey_api where
  "exact_valkey = \<lparr>zrange = sorted_range, toNumber = of_int\<rparr>"

lemma sorted_range_ok: "zrange_ok sorted_range"
  unfolding zrange_ok_def
proof (intro allI impI conjI)
  fix z :: zset assume d: "distinct (map fst z)"
  let ?s = "sort_key (\<lambda>x. (snd x, fst x)) z"
  have r: "sorted_range z False = map fst ?s" by (simp add: sorted_range_def Let_def)
  show dr: "distinct (sorted_range z False)" using d by (simp add: r distinct_map)
  show "set (sorted_range z False) = fst ` set z" by (simp add: r)
  have sc: "zscore z (fst x) = snd x" if "x \<in> set ?s" for x
  proof -
    from that have "(fst x, snd x) \<in> set z" by simp
    with d have "map_of z (fst x) = Some (snd x)" by (simp add: map_of_eq_Some_iff)
    then show ?thesis by (simp add: zscore_def)
  qed
  have "sorted (map (\<lambda>x. (snd x, fst x)) ?s)" by simp
  moreover have "distinct (map (\<lambda>x. (snd x, fst x)) ?s)"
    using dr unfolding r by (simp add: distinct_map inj_on_def)
  ultimately have "sorted_wrt (<) (map (\<lambda>x. (snd x, fst x)) ?s)" by (simp add: strict_sorted_iff)
  then show "sorted_wrt (\<lambda>a b. (zscore z a, a) < (zscore z b, b)) (sorted_range z False)"
    unfolding r sorted_wrt_map by (rule sorted_wrt_mono_rel [rotated]) (simp add: sc)
  show "sorted_range z True = rev (sorted_range z False)" by (simp add: sorted_range_def Let_def)
qed

lemma exact_valkey_ok: "valkey_ok exact_valkey"
  by (simp add: valkey_ok_def exact_valkey_def sorted_range_ok mono_def)

end
