(* ===== verification/Kafka.thy ===== *)
theory Kafka
  imports Decimal
begin

text \<open>
  The messaging library of the services (\<open>libs/common/src/kafka\<close>): topic names, the producer
  that groups a batch by topic, and the batch loop of \<open>BaseKafkaConsumer\<close> with its manual
  offsets, dead letter queue and stop at a transient error. The broker itself is an argument.
\<close>

section \<open>Topics and producer\<close>

definition getKafkaTopicName :: "string \<Rightarrow> string \<Rightarrow> string" where
  "getKafkaTopicName environment domain =
     js_toLowerCase (js_trim environment) @ ''.'' @ js_toLowerCase (js_trim domain) @ ''.lifecycle''"

record 'v kafka_record =
  kr_topic :: string
  kr_key :: string
  kr_value :: 'v
  kr_headers :: "(string \<times> string) list"

text \<open>\<open>topicMessagesMap\<close>: a JavaScript \<open>Map\<close> keeps its keys in the order of first insertion.\<close>

fun add_message :: "'v kafka_record \<Rightarrow> (string \<times> 'v kafka_record list) list \<Rightarrow> (string \<times> 'v kafka_record list) list" where
  "add_message r [] = [(kr_topic r, [r])]"
| "add_message r ((t, ms) # groups) =
     (if t = kr_topic r then (t, ms @ [r]) # groups else (t, ms) # add_message r groups)"

definition group_by_topic :: "'v kafka_record list \<Rightarrow> (string \<times> 'v kafka_record list) list" where
  "group_by_topic records = fold add_message records []"

definition sendBatch ::
  "((string \<times> 'v kafka_record list) list \<Rightarrow> 'b \<Rightarrow> unit result \<times> 'b) \<Rightarrow> 'v kafka_record list \<Rightarrow> 'b \<Rightarrow> unit result \<times> 'b" where
  "sendBatch broker records b = (if records = [] then (Inr (), b) else broker (group_by_topic records) b)"

section \<open>Consumer\<close>

definition js_includes :: "string \<Rightarrow> string \<Rightarrow> bool" where
  "js_includes s part \<longleftrightarrow> (\<exists>n\<in>set [0..<Suc (length s)]. take (length part) (drop n s) = part)"

definition isPoisonPillError :: "string \<Rightarrow> bool" where
  "isPoisonPillError msg \<longleftrightarrow>
     js_includes msg ''SyntaxError'' \<or> js_includes msg ''Unexpected token''
     \<or> js_includes msg ''INVALID_EVENT_SCHEMA'' \<or> js_includes msg ''UNKNOWN_EVENT_TYPE''"

text \<open>
  The state of a partition's consumer: the handler's own state, the offsets resolved and
  committed so far, the dead letters sent, and whether the partition was paused.
\<close>

record ('s, 'm) consumer =
  hstate :: 's
  resolved :: "nat list"
  deadLetters :: "(nat \<times> 'm) list"
  paused :: bool

text \<open>
  \<open>running n\<close> is \<open>isRunning () && !isStale ()\<close> before the message of offset \<open>n\<close>, \<open>dlq\<close> whether
  the send to the dead letter topic succeeds. The handler answers the message of its error.
  The result is the error that is propagated to the Kafka client, if any.
\<close>

fun processBatch ::
  "(nat \<Rightarrow> bool) \<Rightarrow> (nat \<Rightarrow> 'm \<Rightarrow> string option) \<Rightarrow> ('m \<Rightarrow> 's \<Rightarrow> string option \<times> 's)
   \<Rightarrow> (nat \<times> 'm) list \<Rightarrow> ('s, 'm) consumer \<Rightarrow> string option \<times> ('s, 'm) consumer" where
  "processBatch running dlq handle [] c = (None, c)"
| "processBatch running dlq handle ((offset, m) # ms) c =
     (if \<not> running offset then (None, c)
      else
        (case handle m (hstate c) of
           (None, s) \<Rightarrow>
             processBatch running dlq handle ms (c\<lparr>hstate := s, resolved := resolved c @ [offset]\<rparr>)
         | (Some err, s) \<Rightarrow>
             if isPoisonPillError err
             then (case dlq offset m of
                     None \<Rightarrow>
                       processBatch running dlq handle ms
                         (c\<lparr>hstate := s, resolved := resolved c @ [offset],
                            deadLetters := deadLetters c @ [(offset, m)]\<rparr>)
                   | Some dlqError \<Rightarrow> (Some dlqError, c\<lparr>hstate := s\<rparr>))
             else (Some err, c\<lparr>hstate := s, paused := True\<rparr>)))"

section \<open>Supporting facts\<close>

definition messages_of :: "string \<Rightarrow> (string \<times> 'v kafka_record list) list \<Rightarrow> 'v kafka_record list" where
  "messages_of t groups = concat (map snd (filter (\<lambda>g. fst g = t) groups))"

lemma messages_of_Cons [simp]:
  "messages_of t (g # groups) = (if fst g = t then snd g @ messages_of t groups else messages_of t groups)"
  by (simp add: messages_of_def)

lemma messages_of_Nil [simp]: "messages_of t [] = []"
  by (simp add: messages_of_def)

lemma messages_of_absent: "t \<notin> fst ` set groups \<Longrightarrow> messages_of t groups = []"
  by (induction groups) auto

lemma add_message_keys: "fst ` set (add_message r groups) = insert (kr_topic r) (fst ` set groups)"
  by (induction r groups rule: add_message.induct) auto

lemma add_message_distinct:
  "distinct (map fst groups) \<Longrightarrow> distinct (map fst (add_message r groups))"
proof (induction r groups rule: add_message.induct)
  case (2 r t ms groups)
  have "t \<in> set (map fst (add_message r groups)) \<longleftrightarrow> t = kr_topic r \<or> t \<in> fst ` set groups"
    using add_message_keys [of r groups] by (metis insert_iff set_map)
  with 2 show ?case by auto
qed simp

lemma add_message_messages:
  "distinct (map fst groups) \<Longrightarrow>
   messages_of t (add_message r groups) = messages_of t groups @ (if kr_topic r = t then [r] else [])"
  by (induction r groups rule: add_message.induct) (auto simp: messages_of_absent)

lemma fold_add_message:
  "distinct (map fst groups) \<Longrightarrow>
   distinct (map fst (fold add_message rs groups))
   \<and> messages_of t (fold add_message rs groups) = messages_of t groups @ filter (\<lambda>r. kr_topic r = t) rs"
proof (induction rs arbitrary: groups)
  case (Cons r rs)
  then show ?case by (simp add: add_message_distinct add_message_messages)
qed simp

section \<open>Properties\<close>

text \<open>
  The producer sends a batch with one group per topic, and every topic gets exactly its
  messages of the batch in the order they were given, so the order of events within a topic
  survives the grouping.
\<close>

theorem grouping_keeps_topic_order:
  "distinct (map fst (group_by_topic records))
   \<and> messages_of t (group_by_topic records) = filter (\<lambda>r. kr_topic r = t) records"
  using fold_add_message [of "[]" records t] by (simp add: group_by_topic_def)

text \<open>
  The outcome of a run over a batch: a prefix of \<open>k\<close> messages is resolved in order, the
  handler's state is what handling it gives (with the message it stopped at, when that one
  failed), every message of the prefix whose handling failed is in the dead letter queue, and the
  run stopped early only with an error or because the consumer was no longer running.
\<close>

definition run_handler :: "('m \<Rightarrow> 's \<Rightarrow> string option \<times> 's) \<Rightarrow> (nat \<times> 'm) list \<Rightarrow> 's \<Rightarrow> 's" where
  "run_handler handle ms s = fold (\<lambda>m s. snd (handle (snd m) s)) ms s"

definition batch_outcome ::
  "(nat \<Rightarrow> bool) \<Rightarrow> ('m \<Rightarrow> 's \<Rightarrow> string option \<times> 's) \<Rightarrow> (nat \<times> 'm) list \<Rightarrow> ('s, 'm) consumer
   \<Rightarrow> string option \<Rightarrow> ('s, 'm) consumer \<Rightarrow> bool" where
  "batch_outcome running handle ms c r c' \<longleftrightarrow>
     (\<exists>k ds. k \<le> length ms
       \<and> resolved c' = resolved c @ map fst (take k ms)
       \<and> hstate c' = run_handler handle (take (if r = None then k else Suc k) ms) (hstate c)
       \<and> deadLetters c' = deadLetters c @ ds \<and> set ds \<subseteq> set (take k ms)
       \<and> (\<forall>i<k. fst (handle (snd (ms ! i)) (run_handler handle (take i ms) (hstate c))) \<noteq> None \<longrightarrow> ms ! i \<in> set ds)
       \<and> (k < length ms \<longrightarrow> r \<noteq> None \<or> \<not> running (fst (ms ! k))))"

lemma batch_outcome_stop:
  assumes "resolved c' = resolved c" "deadLetters c' = deadLetters c"
    and "hstate c' = run_handler handle (take (if r = None then 0 else 1) ms) (hstate c)"
    and "ms \<noteq> [] \<longrightarrow> r \<noteq> None \<or> \<not> running (fst (hd ms))"
  shows "batch_outcome running handle ms c r c'"
  unfolding batch_outcome_def
  using assms by (intro exI [of _ 0] exI [of _ "[]"]) (auto simp: hd_conv_nth)

lemma batch_outcome_step:
  assumes h: "handle m (hstate c) = (e, s)"
    and c1: "hstate cn = s" "resolved cn = resolved c @ [offset]" "deadLetters cn = deadLetters c @ dead"
    and dead: "set dead \<subseteq> {(offset, m)}" "e \<noteq> None \<longrightarrow> (offset, m) \<in> set dead"
    and rest: "batch_outcome running handle ms cn r c'"
  shows "batch_outcome running handle ((offset, m) # ms) c r c'"
proof -
  from rest obtain k ds where k: "k \<le> length ms" "resolved c' = resolved cn @ map fst (take k ms)"
    "hstate c' = run_handler handle (take (if r = None then k else Suc k) ms) (hstate cn)"
    "deadLetters c' = deadLetters cn @ ds" "set ds \<subseteq> set (take k ms)"
    "\<forall>i<k. fst (handle (snd (ms ! i)) (run_handler handle (take i ms) (hstate cn))) \<noteq> None \<longrightarrow> ms ! i \<in> set ds"
    "k < length ms \<longrightarrow> r \<noteq> None \<or> \<not> running (fst (ms ! k))"
    by (auto simp: batch_outcome_def)
  have "((offset, m) # ms) ! i \<in> set (dead @ ds)"
    if "i < Suc k" "fst (handle (snd (((offset, m) # ms) ! i)) (run_handler handle (take i ((offset, m) # ms)) (hstate c))) \<noteq> None" for i
    using that k(6) dead(2) c1(1) h by (cases i) (auto simp: run_handler_def)
  moreover have "set (dead @ ds) \<subseteq> set (take (Suc k) ((offset, m) # ms))" using k(5) dead(1) by auto
  ultimately show ?thesis
    unfolding batch_outcome_def
    using k(1-4,7) c1 h by (intro exI [of _ "Suc k"] exI [of _ "dead @ ds"]) (auto simp: run_handler_def)
qed

text \<open>
  C38: the consumer skips nothing and repeats nothing within a batch, whatever the handler, the
  dead letter queue and the shutdown do: its run over any batch has the outcome above.
\<close>

theorem consumer_skips_nothing:
  "case processBatch running dlq handle ms c of (r, c') \<Rightarrow> batch_outcome running handle ms c r c'"
proof (induction running dlq handle ms c rule: processBatch.induct)
  case (1 running dlq handle c)
  show ?case by (auto intro!: batch_outcome_stop simp: run_handler_def)
next
  case (2 running dlq handle offset m ms c)
  obtain e s where h: "handle m (hstate c) = (e, s)" by force
  show ?case
  proof (cases "running offset")
    case False
    then show ?thesis by (auto intro!: batch_outcome_stop simp: run_handler_def)
  next
    case run: True
    show ?thesis
    proof (cases e)
      case None
      with run h 2(1) [OF _ h [symmetric] None] show ?thesis
        by (auto intro!: batch_outcome_step [where handle = handle and m = m and c = c and dead = "[]"
            and cn = "c\<lparr>hstate := s, resolved := resolved c @ [offset]\<rparr>", OF h])
    next
      case (Some err)
      show ?thesis
      proof (cases "isPoisonPillError err \<and> dlq offset m = None")
        case True
        with run h Some 2(2) [OF _ h [symmetric] Some] show ?thesis
          by (auto intro!: batch_outcome_step [where handle = handle and m = m and c = c and dead = "[(offset, m)]"
            and cn = "c\<lparr>hstate := s, resolved := resolved c @ [offset],
              deadLetters := deadLetters c @ [(offset, m)]\<rparr>", OF h])
      next
        case False
        with run h Some show ?thesis
          by (auto intro!: batch_outcome_stop simp: run_handler_def split: option.splits)
      qed
    qed
  qed
qed

end
