(* ===== verification/Drain.thy ===== *)
theory Drain
  imports Prelude
begin

text \<open>
  The loop of the retention jobs: \<open>do { deleted = delete (batch) } while (deleted === batchSize)\<close>.
  Nothing in it counts down, so it is a partial function; the interface \<open>batch_delete\<close> says what
  one delete does, and its clients get from it that the loop returns and what it leaves behind.
\<close>

partial_function (option) drain :: "('s \<Rightarrow> nat \<times> 's) \<Rightarrow> nat \<Rightarrow> nat \<Rightarrow> 's \<Rightarrow> (nat \<times> 's) option" where
  "drain delete batch totalDeleted s =
     (let (deleted, s') = delete s
      in if deleted = batch then drain delete batch (totalDeleted + deleted) s'
         else Some (totalDeleted + deleted, s'))"

text \<open>A \<open>limit n\<close> without an order: the database picks \<open>n\<close> of the rows, or all when they are fewer.\<close>

type_synonym 'r picker = "nat \<Rightarrow> 'r list \<Rightarrow> 'r list"

definition limits :: "'r picker \<Rightarrow> bool" where
  "limits pick \<longleftrightarrow>
     (\<forall>n rows. set (pick n rows) \<subseteq> set rows \<and> (distinct rows \<longrightarrow> distinct (pick n rows))
        \<and> length (pick n rows) = min n (length rows))"

lemma limits_take: "limits take"
  by (auto simp: limits_def dest: in_set_takeD)

text \<open>\<open>delete ... where id in (select id ... where old limit n)\<close>.\<close>

definition delete_batch :: "'r picker \<Rightarrow> ('r \<Rightarrow> bool) \<Rightarrow> nat \<Rightarrow> 'r list \<Rightarrow> nat \<times> 'r list" where
  "delete_batch pick old n rows =
     (let victims = pick n (filter old rows)
      in (length (filter (\<lambda>r. r \<in> set victims) rows), filter (\<lambda>r. r \<notin> set victims) rows))"

lemma length_filter_mem:
  assumes "distinct vs" and "distinct rows" and "set vs \<subseteq> set rows"
  shows "length (filter (\<lambda>e. e \<in> set vs) rows) = length vs"
proof -
  have "set (filter (\<lambda>e. e \<in> set vs) rows) = set vs" using assms(3) by auto
  moreover have "distinct (filter (\<lambda>e. e \<in> set vs) rows)" using assms(2) by simp
  ultimately show ?thesis using assms(1) by (metis distinct_card)
qed

lemma delete_batch_effect:
  assumes "limits pick" and dist: "distinct rows" and eq: "delete_batch pick old n rows = (k, rows')"
  shows "k = min n (length (filter old rows))"
    and "length (filter old rows') = length (filter old rows) - k"
    and "filter (\<lambda>r. \<not> old r) rows' = filter (\<lambda>r. \<not> old r) rows"
    and "distinct rows'"
proof -
  let ?old = "filter old rows"
  let ?vs = "pick n ?old"
  have od: "distinct ?old" using dist by simp
  have vs: "set ?vs \<subseteq> set ?old" "distinct ?vs" "length ?vs = min n (length ?old)"
    using assms(1) od unfolding limits_def by blast+
  have d: "rows' = filter (\<lambda>e. e \<notin> set ?vs) rows" and k: "k = length (filter (\<lambda>e. e \<in> set ?vs) rows)"
    using eq by (simp_all add: delete_batch_def Let_def)
  have "set ?vs \<subseteq> set rows" using vs(1) by auto
  with vs dist show k': "k = min n (length ?old)" by (simp add: k length_filter_mem)
  have "filter old rows' = filter (\<lambda>e. e \<notin> set ?vs) ?old"
    by (simp add: d conj_commute)
  moreover have "length (filter (\<lambda>e. e \<in> set ?vs) ?old) = k"
    using length_filter_mem [OF vs(2) od vs(1)] vs(3) k' by simp
  ultimately show "length (filter old rows') = length ?old - k"
    using sum_length_filter_compl [of "\<lambda>e. e \<in> set ?vs" ?old] by simp
  have "e \<notin> set ?vs" if "\<not> old e" for e using that vs(1) by auto
  then show "filter (\<lambda>r. \<not> old r) rows' = filter (\<lambda>r. \<not> old r) rows"
    by (auto simp: d intro!: filter_cong)
  show "distinct rows'" using dist by (simp add: d)
qed

section \<open>The interface\<close>

text \<open>
  \<open>delete p\<close> removes one batch, \<open>stale p\<close> counts what is left to remove, \<open>kept p\<close> is what a job
  must not touch, \<open>ok p\<close> the assumptions on table and database.
\<close>

locale batch_delete =
  fixes delete :: "'p \<Rightarrow> 's \<Rightarrow> nat \<times> 's" and stale :: "'p \<Rightarrow> 's \<Rightarrow> nat" and kept :: "'p \<Rightarrow> 's \<Rightarrow> 'k"
    and ok :: "'p \<Rightarrow> 's \<Rightarrow> bool" and batch :: nat
  assumes batch_pos: "0 < batch"
    and delete_count: "ok p s \<Longrightarrow> fst (delete p s) = min batch (stale p s)"
    and delete_stale: "ok p s \<Longrightarrow> stale p (snd (delete p s)) = stale p s - fst (delete p s)"
    and delete_kept: "ok p s \<Longrightarrow> kept p (snd (delete p s)) = kept p s"
    and delete_ok: "ok p s \<Longrightarrow> ok p (snd (delete p s))"
begin

lemma drain_returns:
  "ok p s \<Longrightarrow> \<exists>s'. drain (delete p) batch n s = Some (n + stale p s, s')
     \<and> stale p s' = 0 \<and> kept p s' = kept p s \<and> ok p s'"
proof (induction "stale p s" arbitrary: s n rule: less_induct)
  case less
  obtain k s1 where eq: "delete p s = (k, s1)" by force
  from delete_count [OF less.prems] delete_stale [OF less.prems] delete_kept [OF less.prems] delete_ok [OF less.prems]
  have k: "k = min batch (stale p s)" and st: "stale p s1 = stale p s - k" and kp: "kept p s1 = kept p s"
    and ok1: "ok p s1" by (simp_all add: eq)
  show ?case
  proof (cases "k = batch")
    case True
    with k st batch_pos have "stale p s1 < stale p s" by simp
    from less.hyps [OF this ok1, of "n + k"] True k st kp eq show ?thesis
      by (subst drain.simps) auto
  next
    case False
    with k have "k = stale p s" by simp
    with st kp ok1 eq False show ?thesis by (subst drain.simps) simp
  qed
qed

end

end
