(* ===== verification/Outbox.thy ===== *)
theory Outbox
  imports Kafka Drain Complex_Main
begin

text \<open>
  The transactional outbox of the orders and the transfers service: the table and its repository
  (\<open>outbox.repository.ts\<close>, \<open>transfers-outbox.repository.ts\<close>), the relay that publishes pending
  events to Kafka with its adaptive polling (\<open>outbox-relay.service.ts\<close>,
  \<open>transfers-outbox-relay.service.ts\<close>) and the retention jobs. The two services differ in the
  topic of an event and in the client id, which are arguments here.
\<close>

section \<open>The table\<close>

datatype outbox_status = PENDING | PUBLISHED | FAILED

datatype aggregate_type = ORDER | TRADE | DEPOSIT | WITHDRAWAL

record 'p outbox_event =
  oe_id :: uuid
  aggregateType :: aggregate_type
  aggregateId :: string
  partitionKey :: string
  oe_eventType :: string
  oe_payload :: 'p
  oe_status :: outbox_status
  retryCount :: nat
  lastError :: "string option"
  traceparent :: "string option"
  tracestate :: "string option"
  oe_createdAt :: time
  oe_updatedAt :: time

type_synonym 'p outbox = "'p outbox_event list"

definition nullish :: "'a option \<Rightarrow> 'a option \<Rightarrow> 'a option" where
  "nullish a b = (case a of None \<Rightarrow> b | Some x \<Rightarrow> Some x)"

definition with_trace :: "string option \<times> string option \<Rightarrow> time \<Rightarrow> 'p outbox_event \<Rightarrow> 'p outbox_event" where
  "with_trace trace now e =
     e\<lparr>traceparent := nullish (traceparent e) (fst trace), tracestate := nullish (tracestate e) (snd trace),
       oe_createdAt := now, oe_updatedAt := now\<rparr>"

text \<open>One \<open>insert\<close> statement stores all its rows or none; the primary key is unique.\<close>

definition insertMany ::
  "string option \<times> string option \<Rightarrow> time \<Rightarrow> 'p outbox_event list \<Rightarrow> 'p outbox \<Rightarrow> 'p outbox result" where
  "insertMany trace now events tbl =
     (if distinct (map oe_id (tbl @ events)) then Inr (tbl @ map (with_trace trace now) events)
      else Inl (DbException ''23505''))"

definition insert_event ::
  "string option \<times> string option \<Rightarrow> time \<Rightarrow> 'p outbox_event \<Rightarrow> 'p outbox \<Rightarrow> 'p outbox result" where
  "insert_event trace now event tbl = insertMany trace now [event] tbl"

text \<open>\<open>for update skip locked\<close>: rows that other relays hold are not seen.\<close>

definition fetchPendingBatch :: "nat \<Rightarrow> uuid set \<Rightarrow> 'p outbox \<Rightarrow> 'p outbox_event list" where
  "fetchPendingBatch batchSize locked tbl =
     take batchSize (sort_key oe_createdAt (filter (\<lambda>e. oe_status e = PENDING \<and> oe_id e \<notin> locked) tbl))"

definition countPending :: "'p outbox \<Rightarrow> nat" where
  "countPending tbl = length (filter (\<lambda>e. oe_status e = PENDING) tbl)"

definition markAsPublished :: "uuid list \<Rightarrow> time \<Rightarrow> 'p outbox \<Rightarrow> 'p outbox" where
  "markAsPublished ids now tbl =
     (if ids = [] then tbl
      else update_rows (\<lambda>e. oe_id e \<in> set ids) (\<lambda>e. e\<lparr>oe_status := PUBLISHED, oe_updatedAt := now\<rparr>) tbl)"

definition markAsFailed :: "uuid \<Rightarrow> string \<Rightarrow> time \<Rightarrow> 'p outbox \<Rightarrow> 'p outbox" where
  "markAsFailed i err now tbl =
     update_rows (\<lambda>e. oe_id e = i)
       (\<lambda>e. e\<lparr>oe_status := FAILED, lastError := Some err, retryCount := retryCount e + 1, oe_updatedAt := now\<rparr>) tbl"

definition recordRetryAttempt :: "uuid \<Rightarrow> string \<Rightarrow> time \<Rightarrow> 'p outbox \<Rightarrow> 'p outbox" where
  "recordRetryAttempt i err now tbl =
     update_rows (\<lambda>e. oe_id e = i)
       (\<lambda>e. e\<lparr>lastError := Some err, retryCount := retryCount e + 1, oe_updatedAt := now\<rparr>) tbl"

definition deletePublishedEventsOlderThan ::
  "'p outbox_event picker \<Rightarrow> time \<Rightarrow> nat \<Rightarrow> 'p outbox \<Rightarrow> nat \<times> 'p outbox" where
  "deletePublishedEventsOlderThan pick cutoff n tbl =
     delete_batch pick (\<lambda>e. oe_status e = PUBLISHED \<and> oe_createdAt e < cutoff) n tbl"

section \<open>The relay\<close>

definition relay_batch_size :: nat where
  "relay_batch_size = 50"

text \<open>\<open>topic_of\<close> gives the topic of an event, \<open>action_of\<close> the \<open>action\<close> its payload carries.\<close>

record 'p relay_config =
  topic_of :: "aggregate_type \<Rightarrow> string"
  clientId :: string
  action_of :: "'p \<Rightarrow> string option"

definition optional_header :: "string \<Rightarrow> string option \<Rightarrow> (string \<times> string) list" where
  "optional_header name v = (case v of None \<Rightarrow> [] | Some [] \<Rightarrow> [] | Some s \<Rightarrow> [(name, s)])"

definition relay_record :: "'p relay_config \<Rightarrow> 'p outbox_event \<Rightarrow> 'p kafka_record" where
  "relay_record cfg event =
     (let eventAction = (case action_of cfg (oe_payload event) of
                           Some (c # s) \<Rightarrow> c # s | _ \<Rightarrow> js_toUpperCase (oe_eventType event))
      in \<lparr>kr_topic = topic_of cfg (aggregateType event), kr_key = partitionKey event, kr_value = oe_payload event,
          kr_headers = [(''x-origin-service'', clientId cfg), (''x-event-id'', oe_id event),
                        (''x-aggregate-id'', aggregateId event), (''x-action'', eventAction)]
                       @ optional_header ''traceparent'' (traceparent event)
                       @ optional_header ''tracestate'' (tracestate event)\<rparr>)"

type_synonym ('p, 'b) broker = "(string \<times> 'p kafka_record list) list \<Rightarrow> 'b \<Rightarrow> unit result \<times> 'b"

text \<open>
  The body of the relay's transaction, with the table as the transaction sees it at its end:
  also when publishing fails, where the retry attempts have been written before the error is
  thrown again.
\<close>

definition relay_body ::
  "'p relay_config \<Rightarrow> ('p, 'b) broker \<Rightarrow> uuid set \<Rightarrow> time \<Rightarrow> 'p outbox \<times> 'b \<Rightarrow> nat result \<times> ('p outbox \<times> 'b)" where
  "relay_body cfg broker locked now = (\<lambda>(tbl, b).
     let pendingEvents = fetchPendingBatch relay_batch_size locked tbl
     in if pendingEvents = [] then (Inr 0, (tbl, b))
        else
          let records = map (relay_record cfg) pendingEvents;
              publishedIds = map oe_id pendingEvents
          in (case sendBatch broker records b of
                (Inr _, b') \<Rightarrow> (Inr (length records), (markAsPublished publishedIds now tbl, b'))
              | (Inl publishErr, b') \<Rightarrow>
                  (Inl publishErr, (fold (\<lambda>i. recordRetryAttempt i ''publish failed'' now) publishedIds tbl, b'))))"

text \<open>The transaction commits, unless its body raised or the commit itself fails.\<close>

definition relay_processBatch ::
  "'p relay_config \<Rightarrow> ('p, 'b) broker \<Rightarrow> uuid set \<Rightarrow> bool \<Rightarrow> time \<Rightarrow> 'p outbox \<times> 'b \<Rightarrow> nat result \<times> ('p outbox \<times> 'b)" where
  "relay_processBatch cfg broker locked commits now s =
     (case relay_body cfg broker locked now s of
        (Inl e, s') \<Rightarrow> (Inl e, (fst s, snd s'))
      | (Inr n, s') \<Rightarrow> if commits then (Inr n, s') else (Inl (DbException ''08006''), (fst s, snd s')))"

section \<open>Polling\<close>

definition minDelayMs :: rat where "minDelayMs = 100"
definition maxDelayMs :: rat where "maxDelayMs = 2000"
definition backoffFactor :: rat where "backoffFactor = 3 / 2"

definition nextDelay :: "nat result \<Rightarrow> rat \<Rightarrow> rat" where
  "nextDelay outcome currentDelayMs =
     (case outcome of
        Inl _ \<Rightarrow> min (currentDelayMs * backoffFactor) maxDelayMs
      | Inr processedCount \<Rightarrow>
          if relay_batch_size \<le> processedCount then minDelayMs
          else if processedCount = 0 then min (currentDelayMs * backoffFactor) maxDelayMs
          else minDelayMs)"

section \<open>Retention\<close>

definition outbox_retention_ms :: nat where
  "outbox_retention_ms = 48 * 60 * 60 * 1000"

definition outbox_retention_batch :: nat where
  "outbox_retention_batch = 1000"

definition cleanPublishedEvents :: "'p outbox_event picker \<Rightarrow> time \<Rightarrow> 'p outbox \<Rightarrow> (nat \<times> 'p outbox) option" where
  "cleanPublishedEvents pick now tbl =
     drain (deletePublishedEventsOlderThan pick (now - outbox_retention_ms) outbox_retention_batch)
       outbox_retention_batch 0 tbl"

definition expired :: "time \<Rightarrow> 'p outbox_event \<Rightarrow> bool" where
  "expired cutoff e \<longleftrightarrow> oe_status e = PUBLISHED \<and> oe_createdAt e < cutoff"

lemma delete_published_laws:
  assumes "limits pick" and "distinct tbl"
  shows "fst (deletePublishedEventsOlderThan pick c n tbl) = min n (length (filter (expired c) tbl))"
    and "length (filter (expired c) (snd (deletePublishedEventsOlderThan pick c n tbl)))
      = length (filter (expired c) tbl) - fst (deletePublishedEventsOlderThan pick c n tbl)"
    and "filter (\<lambda>e. \<not> expired c e) (snd (deletePublishedEventsOlderThan pick c n tbl)) = filter (\<lambda>e. \<not> expired c e) tbl"
    and "distinct (snd (deletePublishedEventsOlderThan pick c n tbl))"
proof -
  have eq: "deletePublishedEventsOlderThan pick c n tbl = delete_batch pick (expired c) n tbl"
    by (simp add: deletePublishedEventsOlderThan_def expired_def [abs_def])
  note b = delete_batch_effect [OF assms surjective_pairing, of "expired c" n]
  show "fst (deletePublishedEventsOlderThan pick c n tbl) = min n (length (filter (expired c) tbl))"
    and "length (filter (expired c) (snd (deletePublishedEventsOlderThan pick c n tbl)))
      = length (filter (expired c) tbl) - fst (deletePublishedEventsOlderThan pick c n tbl)"
    and "filter (\<lambda>e. \<not> expired c e) (snd (deletePublishedEventsOlderThan pick c n tbl)) = filter (\<lambda>e. \<not> expired c e) tbl"
    and "distinct (snd (deletePublishedEventsOlderThan pick c n tbl))"
    using b by (simp_all add: eq)
qed

interpretation published_events: batch_delete
  "\<lambda>(pick, cutoff). deletePublishedEventsOlderThan pick cutoff outbox_retention_batch"
  "\<lambda>(pick, cutoff) tbl. length (filter (expired cutoff) tbl)"
  "\<lambda>(pick, cutoff) tbl. filter (\<lambda>e. \<not> expired cutoff e) tbl"
  "\<lambda>(pick, cutoff) tbl. limits pick \<and> distinct tbl"
  outbox_retention_batch
  by unfold_locales (auto simp: outbox_retention_batch_def delete_published_laws)

end
