(* ===== verification/OrdersDb.thy ===== *)
theory OrdersDb
  imports Outbox Contracts
begin

text \<open>
  The database of the orders service: the tables \<open>orders\<close>, \<open>idempotency_records\<close> and
  \<open>outbox_events\<close> (\<open>apps/orders/src/database/schema\<close>) and the repositories
  \<open>orders.repository.ts\<close> and \<open>idempotency.repository.ts\<close>.
\<close>

section \<open>Tables\<close>

record order =
  ord_id :: uuid
  ord_userId :: uuid
  ord_pair :: string
  ord_side :: order_side
  ord_type :: order_type
  ord_price :: amount
  ord_amount :: amount
  filledAmount :: amount
  remainingAmount :: amount
  ord_status :: order_status
  ord_idempotencyKey :: string
  ord_createdAt :: time
  ord_updatedAt :: time

datatype idempotency_status = IN_PROGRESS | COMPLETED | IDEMPOTENCY_FAILED

record 'r idempotency_record =
  ir_id :: uuid
  ir_userId :: uuid
  ir_operation :: string
  ir_key :: string
  requestHash :: string
  ir_status :: idempotency_status
  responsePayload :: "'r option"
  ir_expiresAt :: time

text \<open>What the service answers for an order.\<close>

record order_item =
  item_orderId :: uuid
  item_userId :: uuid
  item_pair :: string
  item_side :: order_side
  item_type :: order_type
  item_price :: amount
  item_amount :: amount
  item_filledAmount :: amount
  item_remainingAmount :: amount
  item_status :: order_status
  item_createdAt :: nat
  item_updatedAt :: nat

record orders_db =
  orders :: "order list"
  idempotencyRecords :: "order_item idempotency_record list"
  outboxEvents :: "orders_payload domain_event outbox"

definition empty_orders_db :: orders_db where
  "empty_orders_db = \<lparr>orders = [], idempotencyRecords = [], outboxEvents = []\<rparr>"

section \<open>Orders repository\<close>

definition numeric_order :: "order \<Rightarrow> bool" where
  "numeric_order ord \<longleftrightarrow>
     numeric_28_8 (ord_price ord) \<and> numeric_28_8 (ord_amount ord)
     \<and> numeric_28_8 (filledAmount ord) \<and> numeric_28_8 (remainingAmount ord)"

definition create_order_row :: "order \<Rightarrow> orders_db \<Rightarrow> (order \<times> orders_db) result" where
  "create_order_row ord db =
     (if 128 < length (ord_idempotencyKey ord) then Inl (DbException ''22001'')
      else if \<not> numeric_order ord then Inl (DbException ''22003'')
      else if ord_id ord \<in> ord_id ` set (orders db) then Inl (DbException ''23505'')
      else Inr (ord, db\<lparr>orders := orders db @ [ord]\<rparr>))"

definition findById :: "uuid \<Rightarrow> orders_db \<Rightarrow> order option" where
  "findById orderId db = List.find (\<lambda>x. ord_id x = orderId) (orders db)"

definition findByIdAndUserId :: "uuid \<Rightarrow> uuid \<Rightarrow> orders_db \<Rightarrow> order option" where
  "findByIdAndUserId orderId userId db =
     List.find (\<lambda>x. ord_id x = orderId \<and> ord_userId x = userId) (orders db)"

text \<open>Newest first; \<open>limit\<close> is kept between one and a hundred, \<open>offset\<close> at least zero.\<close>

definition findMany ::
  "uuid \<Rightarrow> string option \<Rightarrow> order_status option \<Rightarrow> int option \<Rightarrow> int option \<Rightarrow> orders_db \<Rightarrow> order list \<times> nat" where
  "findMany userId pair status limit offset db =
     (let rows = filter (\<lambda>x. ord_userId x = userId
                    \<and> (case pair of None \<Rightarrow> True | Some p \<Rightarrow> ord_pair x = p)
                    \<and> (case status of None \<Rightarrow> True | Some s \<Rightarrow> ord_status x = s)) (orders db);
          lim = min (max (case limit of None \<Rightarrow> 20 | Some l \<Rightarrow> l) 1) 100;
          off = max (case offset of None \<Rightarrow> 0 | Some d \<Rightarrow> d) 0
      in (take (nat lim) (drop (nat off) (rev (sort_key ord_createdAt rows))), length rows))"

definition active_status :: "order_status \<Rightarrow> bool" where
  "active_status s \<longleftrightarrow> s = OPEN \<or> s = PARTIALLY_FILLED"

definition findActiveOrdersByPair :: "string option \<Rightarrow> orders_db \<Rightarrow> order list" where
  "findActiveOrdersByPair pair db =
     sort_key ord_createdAt
       (filter (\<lambda>x. active_status (ord_status x) \<and> (case pair of None \<Rightarrow> True | Some p \<Rightarrow> ord_pair x = p)) (orders db))"

text \<open>\<open>update ... where id returning\<close>: the updated row, if there is one.\<close>

definition update_order :: "(order \<Rightarrow> bool) \<Rightarrow> (order \<Rightarrow> order) \<Rightarrow> orders_db \<Rightarrow> (order option \<times> orders_db) result" where
  "update_order P f db =
     (case List.find P (orders db) of
        None \<Rightarrow> Inr (None, db)
      | Some x \<Rightarrow>
          if numeric_order (f x) then Inr (Some (f x), db\<lparr>orders := update_rows P f (orders db)\<rparr>)
          else Inl (DbException ''22003''))"

definition updateExecution ::
  "uuid \<Rightarrow> amount \<Rightarrow> amount \<Rightarrow> order_status \<Rightarrow> time \<Rightarrow> orders_db \<Rightarrow> (order option \<times> orders_db) result" where
  "updateExecution orderId filled remaining status now db =
     update_order (\<lambda>x. ord_id x = orderId)
       (\<lambda>x. x\<lparr>filledAmount := filled, remainingAmount := remaining, ord_status := status, ord_updatedAt := now\<rparr>) db"

definition cancel_order_row :: "uuid \<Rightarrow> uuid \<Rightarrow> time \<Rightarrow> orders_db \<Rightarrow> (order option \<times> orders_db) result" where
  "cancel_order_row orderId userId now db =
     update_order (\<lambda>x. ord_id x = orderId \<and> ord_userId x = userId \<and> active_status (ord_status x))
       (\<lambda>x. x\<lparr>ord_status := CANCELLED, ord_updatedAt := now\<rparr>) db"

section \<open>Idempotency repository\<close>

definition findRecord ::
  "uuid \<Rightarrow> string \<Rightarrow> string \<Rightarrow> time \<Rightarrow> orders_db \<Rightarrow> order_item idempotency_record option" where
  "findRecord userId operation key now db =
     List.find (\<lambda>x. ir_userId x = userId \<and> ir_operation x = operation \<and> ir_key x = key \<and> now < ir_expiresAt x)
       (idempotencyRecords db)"

text \<open>\<open>(user_id, operation, key)\<close> is a unique index, expired or not.\<close>

definition createRecord ::
  "order_item idempotency_record \<Rightarrow> orders_db \<Rightarrow> (order_item idempotency_record \<times> orders_db) result" where
  "createRecord x db =
     (if 128 < length (ir_key x) \<or> 64 < length (requestHash x) then Inl (DbException ''22001'')
      else if ir_id x \<in> ir_id ` set (idempotencyRecords db)
         \<or> (\<exists>y\<in>set (idempotencyRecords db). ir_userId y = ir_userId x \<and> ir_operation y = ir_operation x \<and> ir_key y = ir_key x)
      then Inl (DbException ''23505'')
      else Inr (x, db\<lparr>idempotencyRecords := idempotencyRecords db @ [x]\<rparr>))"

definition completeRecord :: "uuid \<Rightarrow> order_item \<Rightarrow> orders_db \<Rightarrow> orders_db" where
  "completeRecord i response db =
     db\<lparr>idempotencyRecords := update_rows (\<lambda>x. ir_id x = i)
          (\<lambda>x. x\<lparr>ir_status := COMPLETED, responsePayload := Some response\<rparr>) (idempotencyRecords db)\<rparr>"

definition failRecord :: "uuid \<Rightarrow> orders_db \<Rightarrow> orders_db" where
  "failRecord i db =
     db\<lparr>idempotencyRecords := update_rows (\<lambda>x. ir_id x = i)
          (\<lambda>x. x\<lparr>ir_status := IDEMPOTENCY_FAILED\<rparr>) (idempotencyRecords db)\<rparr>"

end
