(* ===== verification/Matching.thy ===== *)
theory Matching
  imports OrderBook OrdersDb
begin

text \<open>
  The matching engine (\<open>apps/orders/src/orders/matching-engine.service.ts\<close>). A run reads the
  best opposing orders once and walks over them, updating database and book as it goes; an error
  of the database leaves the book as far as it was changed, so the state is returned with it.
\<close>

record matched_trade =
  mt_tradeId :: uuid
  makerOrderId :: uuid
  takerOrderId :: uuid
  makerUserId :: uuid
  takerUserId :: uuid
  mt_buyOrderId :: uuid
  mt_sellOrderId :: uuid
  mt_buyerUserId :: uuid
  mt_sellerUserId :: uuid
  mt_symbol :: string
  mt_price :: amount
  mt_quantity :: amount
  mt_buyerLimitPrice :: amount
  mt_buyerFee :: amount
  mt_sellerFee :: amount

record match_state =
  ms_db :: orders_db
  ms_book :: valkey
  takerRemaining :: amount
  takerFilled :: amount
  makerOrdersUpdated :: "order list"
  trades :: "matched_trade list"

definition price_match :: "order \<Rightarrow> orderbook_entry \<Rightarrow> bool" where
  "price_match taker maker =
     (if ord_side taker = BUY then be_price maker \<le> ord_price taker else ord_price taker \<le> be_price maker)"

definition match_trade :: "uuid \<Rightarrow> order \<Rightarrow> orderbook_entry \<Rightarrow> amount \<Rightarrow> matched_trade" where
  "match_trade tid taker maker matchAmount =
     (let isTakerBuyer = (ord_side taker = BUY)
      in \<lparr>mt_tradeId = tid, makerOrderId = be_orderId maker, takerOrderId = ord_id taker,
          makerUserId = be_userId maker, takerUserId = ord_userId taker,
          mt_buyOrderId = (if isTakerBuyer then ord_id taker else be_orderId maker),
          mt_sellOrderId = (if isTakerBuyer then be_orderId maker else ord_id taker),
          mt_buyerUserId = (if isTakerBuyer then ord_userId taker else be_userId maker),
          mt_sellerUserId = (if isTakerBuyer then be_userId maker else ord_userId taker),
          mt_symbol = ord_pair taker, mt_price = be_price maker, mt_quantity = matchAmount,
          mt_buyerLimitPrice = (if isTakerBuyer then ord_price taker else be_price maker),
          mt_buyerFee = 0, mt_sellerFee = 0\<rparr>)"

text \<open>One maker: database row, book entry, trade. \<open>newTradeId n\<close> is the id of the \<open>n\<close>-th trade.\<close>

definition match_maker ::
  "(nat \<Rightarrow> uuid) \<Rightarrow> time \<Rightarrow> order \<Rightarrow> orderbook_entry \<Rightarrow> match_state \<Rightarrow> unit result \<times> match_state" where
  "match_maker newTradeId now taker maker st =
     (let opposingSide = (if ord_side taker = BUY then SELL else BUY);
          makerRemaining = be_remainingAmount maker;
          matchAmount = min (takerRemaining st) makerRemaining;
          newMakerRemaining = makerRemaining - matchAmount;
          currentMakerFilled = (case findById (be_orderId maker) (ms_db st) of
                                  None \<Rightarrow> matchAmount | Some x \<Rightarrow> filledAmount x + matchAmount);
          makerStatus = (if newMakerRemaining = 0 then FILLED else PARTIALLY_FILLED)
      in (case updateExecution (be_orderId maker) currentMakerFilled newMakerRemaining makerStatus now (ms_db st) of
            Inl e \<Rightarrow> (Inl e, st)
          | Inr (updatedMaker, db') \<Rightarrow>
              (Inr (),
               st\<lparr>ms_db := db',
                  ms_book := (if makerStatus = FILLED
                              then removeOrder (be_orderId maker) (be_pair maker) opposingSide (ms_book st)
                              else updateRemainingAmount (be_orderId maker) newMakerRemaining (ms_book st)),
                  takerRemaining := takerRemaining st - matchAmount,
                  takerFilled := takerFilled st + matchAmount,
                  makerOrdersUpdated := makerOrdersUpdated st @ (case updatedMaker of None \<Rightarrow> [] | Some m \<Rightarrow> [m]),
                  trades := trades st @ [match_trade (newTradeId (length (trades st))) taker maker matchAmount]\<rparr>)))"

fun match_loop ::
  "(nat \<Rightarrow> uuid) \<Rightarrow> time \<Rightarrow> order \<Rightarrow> orderbook_entry list \<Rightarrow> match_state \<Rightarrow> unit result \<times> match_state" where
  "match_loop newTradeId now taker [] st = (Inr (), st)"
| "match_loop newTradeId now taker (maker # makers) st =
     (if takerRemaining st = 0 then (Inr (), st)
      else if be_userId maker = ord_userId taker then match_loop newTradeId now taker makers st
      else if \<not> price_match taker maker then (Inr (), st)
      else
        (case match_maker newTradeId now taker maker st of
           (Inl e, st') \<Rightarrow> (Inl e, st')
         | (Inr _, st') \<Rightarrow> match_loop newTradeId now taker makers st'))"

definition entry_of :: "order \<Rightarrow> orderbook_entry" where
  "entry_of x =
     \<lparr>be_orderId = ord_id x, be_userId = ord_userId x, be_pair = ord_pair x, be_side = ord_side x,
      be_type = ord_type x, be_price = ord_price x, be_amount = ord_amount x,
      be_remainingAmount = remainingAmount x, be_createdAt = ord_createdAt x div 1000\<rparr>"

record match_result =
  mr_takerOrder :: order
  mr_makerOrdersUpdated :: "order list"
  mr_trades :: "matched_trade list"

definition finish_match ::
  "valkey_api \<Rightarrow> time \<Rightarrow> order \<Rightarrow> match_state \<Rightarrow> match_result result \<times> orders_db \<times> valkey" where
  "finish_match api now taker st =
     (let takerStatus = (if takerRemaining st = 0 then FILLED
                         else if 0 < takerFilled st then PARTIALLY_FILLED else OPEN)
      in (case updateExecution (ord_id taker) (takerFilled st) (takerRemaining st) takerStatus now (ms_db st) of
            Inl e \<Rightarrow> (Inl e, ms_db st, ms_book st)
          | Inr (updatedTaker, db') \<Rightarrow>
              (Inr \<lparr>mr_takerOrder = (case updatedTaker of None \<Rightarrow> taker | Some t \<Rightarrow> t),
                    mr_makerOrdersUpdated = makerOrdersUpdated st, mr_trades = trades st\<rparr>,
               db',
               (if takerRemaining st \<noteq> 0
                then addOrder api ((entry_of taker)\<lparr>be_remainingAmount := takerRemaining st\<rparr>) (ms_book st)
                else ms_book st))))"

definition match_with ::
  "valkey_api \<Rightarrow> (nat \<Rightarrow> uuid) \<Rightarrow> time \<Rightarrow> order \<Rightarrow> orderbook_entry list \<Rightarrow> orders_db \<Rightarrow> valkey
   \<Rightarrow> match_result result \<times> orders_db \<times> valkey" where
  "match_with api newTradeId now taker opposingOrders db book =
     (case match_loop newTradeId now taker opposingOrders
             \<lparr>ms_db = db, ms_book = book, takerRemaining = remainingAmount taker, takerFilled = filledAmount taker,
              makerOrdersUpdated = [], trades = []\<rparr> of
        (Inl e, st) \<Rightarrow> (Inl e, ms_db st, ms_book st)
      | (Inr _, st) \<Rightarrow> finish_match api now taker st)"

definition executeMatch ::
  "valkey_api \<Rightarrow> (nat \<Rightarrow> uuid) \<Rightarrow> time \<Rightarrow> order \<Rightarrow> orders_db \<Rightarrow> valkey \<Rightarrow> match_result result \<times> orders_db \<times> valkey" where
  "executeMatch api newTradeId now taker db book =
     match_with api newTradeId now taker
       (getBestOpposingOrders api (ord_pair taker) (ord_side taker) 50 book) db book"

end
