(* ===== verification/Orders.thy ===== *)
theory Orders
  imports Matching Balances
begin

text \<open>
  The orders service (\<open>apps/orders/src/orders/orders.service.ts\<close>): creating an order reserves the
  funds at the accounts service, stores and matches the order with its events in one database
  transaction, and releases the reservation when that fails; cancelling gives the rest back.
  The state is the database, the order book in Valkey, and the state of the remote accounts
  service, of an arbitrary type.
\<close>

section \<open>Requests and environment\<close>

text \<open>
  \<open>None\<close> is a price or an amount that is no finite number. The gateway lets at most eight
  decimals through, so the others are amounts of units.
\<close>

record create_order_request =
  co_userId :: uuid
  co_pair :: string
  co_side :: order_side
  co_type :: order_type
  co_price :: "amount option"
  co_amount :: "amount option"
  co_idempotencyKey :: string

record cancel_order_request =
  cx_orderId :: uuid
  cx_userId :: uuid
  cx_idempotencyKey :: string

record 'a orders_world =
  ow_db :: orders_db
  ow_book :: valkey
  ow_accounts :: 'a

text \<open>
  The remote calls and everything a run draws from outside: identifiers (the \<open>n\<close>-th one of its
  kind), the clock, the trace context, the SHA-256 hash of a request, \<open>toFixed (8)\<close> of
  a product, and whether the database commits. \<open>ids\<close> of Valkey's queries are in \<open>oe_valkey\<close>.
\<close>

record 'a orders_env =
  lock_rpc :: "account_request \<Rightarrow> 'a \<Rightarrow> balance_response result \<times> 'a"
  unlock_rpc :: "account_request \<Rightarrow> 'a \<Rightarrow> balance_response result \<times> 'a"
  oe_valkey :: valkey_api
  oe_toFixed :: rounding
  requestHashOf :: "create_order_request \<Rightarrow> string"
  newRecordId :: uuid
  newOrderId :: uuid
  tradeIds :: "nat \<Rightarrow> uuid"
  outboxIds :: "nat \<Rightarrow> uuid"
  eventIds :: "nat \<Rightarrow> uuid"
  correlationId :: uuid
  traceContext :: "string option \<times> string option"
  clock :: time
  dbCommits :: bool

definition SUPPORTED_PAIRS :: "string list" where
  "SUPPORTED_PAIRS = [''BTC_USDT'', ''ETH_USDT'']"

text \<open>HTTP status codes are used as gRPC codes.\<close>

definition validateCreateOrderRequest :: "create_order_request \<Rightarrow> (amount \<times> amount) result" where
  "validateCreateOrderRequest request =
     (if co_pair request \<notin> set SUPPORTED_PAIRS then Inl (RpcException 400 ''UNSUPPORTED_PAIR'')
      else
        (case co_price request of
           None \<Rightarrow> Inl (RpcException 400 ''INVALID_ORDER_PRICE'')
         | Some price \<Rightarrow>
             if price \<le> 0 then Inl (RpcException 400 ''INVALID_ORDER_PRICE'')
             else
               (case co_amount request of
                  None \<Rightarrow> Inl (RpcException 400 ''INVALID_ORDER_AMOUNT'')
                | Some amount \<Rightarrow>
                    if amount \<le> 0 then Inl (RpcException 400 ''INVALID_ORDER_AMOUNT'')
                    else Inr (price, amount))))"

definition mapOrderToItem :: "order \<Rightarrow> order_item" where
  "mapOrderToItem x =
     \<lparr>item_orderId = ord_id x, item_userId = ord_userId x, item_pair = ord_pair x, item_side = ord_side x,
      item_type = ord_type x, item_price = ord_price x, item_amount = ord_amount x,
      item_filledAmount = filledAmount x, item_remainingAmount = remainingAmount x, item_status = ord_status x,
      item_createdAt = ord_createdAt x div 1000, item_updatedAt = ord_updatedAt x div 1000\<rparr>"

fun exc_message :: "exc \<Rightarrow> string" where
  "exc_message (BadRequestException m) = m"
| "exc_message (NotFoundException m) = m"
| "exc_message (ForbiddenException m) = m"
| "exc_message (ConflictException m) = m"
| "exc_message (UnauthorizedException m) = m"
| "exc_message (RpcException _ m) = m"
| "exc_message (DbException m) = m"
| "exc_message (PlainError m) = m"

section \<open>Events\<close>

definition orders_event ::
  "'a orders_env \<Rightarrow> nat \<Rightarrow> aggregate_type \<Rightarrow> string \<Rightarrow> string \<Rightarrow> string \<Rightarrow> string \<Rightarrow> string \<Rightarrow> orders_payload
   \<Rightarrow> orders_payload domain_event outbox_event" where
  "orders_event env n aggr aggrId key rowType action evType p =
     \<lparr>oe_id = outboxIds env n, aggregateType = aggr, aggregateId = aggrId, partitionKey = key,
      oe_eventType = rowType,
      oe_payload = \<lparr>de_eventId = eventIds env n, de_action = action, de_eventType = evType,
                    de_aggregateId = aggrId, de_partitionKey = key, de_timestamp = clock env,
                    de_correlationId = correlationId env, de_payload = p\<rparr>,
      oe_status = outbox_status.PENDING, retryCount = 0, lastError = None, traceparent = None,
      tracestate = None, oe_createdAt = 0, oe_updatedAt = 0\<rparr>"

definition placed_event ::
  "'a orders_env \<Rightarrow> order \<Rightarrow> amount \<Rightarrow> nat \<Rightarrow> orders_payload domain_event outbox_event" where
  "placed_event env x levelTotalQuantity sequenceId =
     orders_event env 0 ORDER (ord_id x) (ord_pair x) ''order_placed'' ''ORDER_PLACED'' ''order.placed''
       (OrderPlaced \<lparr>op_orderId = ord_id x, op_userId = ord_userId x, op_symbol = ord_pair x, op_side = ord_side x,
          op_type = ord_type x, op_price = ord_price x, op_quantity = ord_amount x,
          op_levelTotalQuantity = levelTotalQuantity, op_sequenceId = sequenceId, op_timestamp = clock env\<rparr>)"

definition trade_payload :: "time \<Rightarrow> nat \<Rightarrow> matched_trade \<Rightarrow> trade_executed" where
  "trade_payload now seqId t =
     \<lparr>tradeId = mt_tradeId t, buyOrderId = mt_buyOrderId t, sellOrderId = mt_sellOrderId t,
      buyerUserId = mt_buyerUserId t, sellerUserId = mt_sellerUserId t, trade_symbol = mt_symbol t,
      trade_price = mt_price t, trade_quantity = mt_quantity t, buyerLimitPrice = mt_buyerLimitPrice t,
      buyerFee = mt_buyerFee t, sellerFee = mt_sellerFee t, trade_sequenceId = seqId, trade_timestamp = now\<rparr>"

definition trade_event ::
  "'a orders_env \<Rightarrow> nat \<Rightarrow> nat \<Rightarrow> matched_trade \<Rightarrow> orders_payload domain_event outbox_event" where
  "trade_event env n seqId t =
     orders_event env n TRADE (mt_tradeId t) (mt_symbol t) ''trade_executed'' ''TRADE_EXECUTED''
       ''matching.trade_executed'' (TradeExecuted (trade_payload (clock env) seqId t))"

fun trade_events ::
  "'a orders_env \<Rightarrow> nat \<Rightarrow> matched_trade list \<Rightarrow> valkey \<Rightarrow> orders_payload domain_event outbox_event list \<times> valkey" where
  "trade_events env n [] r = ([], r)"
| "trade_events env n (t # ts) r =
     (let (seqId, r1) = nextSequence (mt_symbol t) r;
          (es, r2) = trade_events env (Suc n) ts r1
      in (trade_event env n seqId t # es, r2))"

definition filled_event :: "'a orders_env \<Rightarrow> nat \<Rightarrow> order \<Rightarrow> orders_payload domain_event outbox_event" where
  "filled_event env n x =
     orders_event env n ORDER (ord_id x) (ord_pair x) ''order_filled'' ''ORDER_FILLED'' ''order.filled''
       (OrderFilled \<lparr>of_orderId = ord_id x, of_userId = ord_userId x, of_symbol = ord_pair x,
          of_filledPrice = ord_price x, of_filledQuantity = filledAmount x, of_remainingQuantity = remainingAmount x,
          of_fee = 0, of_timestamp = clock env\<rparr>)"

text \<open>The taker first, then the makers of the run, each if it is filled.\<close>

definition filled_events ::
  "'a orders_env \<Rightarrow> nat \<Rightarrow> match_result \<Rightarrow> orders_payload domain_event outbox_event list" where
  "filled_events env n m =
     (let done_orders = filter (\<lambda>x. ord_status x = FILLED) (mr_takerOrder m # mr_makerOrdersUpdated m)
      in map (\<lambda>(k, x). filled_event env (n + k) x) (enumerate 0 done_orders))"

section \<open>Creating an order\<close>

definition initial_order :: "'a orders_env \<Rightarrow> create_order_request \<Rightarrow> amount \<Rightarrow> amount \<Rightarrow> order" where
  "initial_order env request price amount =
     \<lparr>ord_id = newOrderId env, ord_userId = co_userId request, ord_pair = co_pair request, ord_side = co_side request,
      ord_type = co_type request, ord_price = price, ord_amount = amount, filledAmount = 0,
      remainingAmount = amount, ord_status = OPEN, ord_idempotencyKey = co_idempotencyKey request,
      ord_createdAt = clock env, ord_updatedAt = clock env\<rparr>"

text \<open>
  The body of the transaction. What it does to Valkey stays whatever becomes of the
  transaction, so the book is returned beside the result.
\<close>

definition create_order_body ::
  "'a orders_env \<Rightarrow> create_order_request \<Rightarrow> amount \<Rightarrow> amount \<Rightarrow> orders_db \<Rightarrow> valkey \<Rightarrow> (order \<times> orders_db) result \<times> valkey" where
  "create_order_body env request price amount db book =
     (case create_order_row (initial_order env request price amount) db of
        Inl e \<Rightarrow> (Inl e, book)
      | Inr (initialOrder, d1) \<Rightarrow>
          let (sequenceId, b1) = nextSequence (ord_pair initialOrder) book;
              levelTotalQuantity =
                getLevelTotalQuantity (oe_valkey env) (ord_pair initialOrder) (ord_side initialOrder) (ord_price initialOrder) b1;
              placed = placed_event env initialOrder levelTotalQuantity sequenceId
          in (case executeMatch (oe_valkey env) (tradeIds env) (clock env) initialOrder d1 b1 of
                (Inl e, d2, b2) \<Rightarrow> (Inl e, b2)
              | (Inr m, d2, b2) \<Rightarrow>
                  let (traded, b3) = trade_events env 1 (mr_trades m) b2;
                      outboxList = placed # traded @ filled_events env (1 + length traded) m
                  in (case insertMany (traceContext env) (clock env) outboxList (outboxEvents d2) of
                        Inl e \<Rightarrow> (Inl e, b3)
                      | Inr tbl \<Rightarrow> (Inr (mr_takerOrder m, d2\<lparr>outboxEvents := tbl\<rparr>), b3))))"

definition create_order_tx ::
  "'a orders_env \<Rightarrow> create_order_request \<Rightarrow> amount \<Rightarrow> amount \<Rightarrow> orders_db \<Rightarrow> valkey \<Rightarrow> order result \<times> orders_db \<times> valkey" where
  "create_order_tx env request price amount db book =
     (case create_order_body env request price amount db book of
        (Inl e, b) \<Rightarrow> (Inl e, db, b)
      | (Inr (x, d), b) \<Rightarrow> if dbCommits env then (Inr x, d, b) else (Inl (DbException ''08006''), db, b))"

definition lock_currency :: "string \<Rightarrow> order_side \<Rightarrow> string" where
  "lock_currency pair side =
     (if side = BUY then (case symbol_quote pair of None \<Rightarrow> [] | Some q \<Rightarrow> q) else symbol_base pair)"

definition lock_amount :: "rounding \<Rightarrow> order_side \<Rightarrow> amount \<Rightarrow> amount \<Rightarrow> amount" where
  "lock_amount fx side price amount = (if side = BUY then fx (price * amount) else amount)"

definition reserve_request :: "string \<Rightarrow> uuid \<Rightarrow> string \<Rightarrow> amount \<Rightarrow> string \<Rightarrow> string \<Rightarrow> account_request" where
  "reserve_request prefix userId currency x key ref =
     \<lparr>rq_userId = userId, rq_amount = toFixed8 x, rq_currency = currency, rq_idempotencyKey = prefix @ key,
      rq_referenceId = ref\<rparr>"

text \<open>The answer to a request whose key is already known; \<open>None\<close> when the run goes on.\<close>

definition idempotency_answer ::
  "'a orders_env \<Rightarrow> create_order_request \<Rightarrow> orders_db \<Rightarrow> order_item result option" where
  "idempotency_answer env request db =
     (case findRecord (co_userId request) ''CREATE_ORDER'' (co_idempotencyKey request) (clock env) db of
        None \<Rightarrow> None
      | Some r \<Rightarrow>
          (if ir_status r = COMPLETED \<and> responsePayload r \<noteq> None then Some (Inr (the (responsePayload r)))
           else if ir_status r = IN_PROGRESS then Some (Inl (RpcException 409 ''IDEMPOTENCY_IN_PROGRESS''))
           else if requestHash r \<noteq> requestHashOf env request
           then Some (Inl (RpcException 400 ''IDEMPOTENCY_KEY_PAYLOAD_MISMATCH''))
           else None))"

definition new_idempotency_record :: "'a orders_env \<Rightarrow> create_order_request \<Rightarrow> order_item idempotency_record" where
  "new_idempotency_record env request =
     \<lparr>ir_id = newRecordId env, ir_userId = co_userId request, ir_operation = ''CREATE_ORDER'',
      ir_key = co_idempotencyKey request, requestHash = requestHashOf env request, ir_status = IN_PROGRESS,
      responsePayload = None, ir_expiresAt = clock env + 24 * 60 * 60 * 1000\<rparr>"

definition createOrder ::
  "'a orders_env \<Rightarrow> create_order_request \<Rightarrow> 'a orders_world \<Rightarrow> order_item result \<times> 'a orders_world" where
  "createOrder env request w =
     (case validateCreateOrderRequest request of
        Inl e \<Rightarrow> (Inl e, w)
      | Inr (price, amount) \<Rightarrow>
          (case idempotency_answer env request (ow_db w) of
             Some answer \<Rightarrow> (answer, w)
           | None \<Rightarrow>
               (case createRecord (new_idempotency_record env request) (ow_db w) of
                  Inl e \<Rightarrow> (Inl e, w)
                | Inr (idem, d1) \<Rightarrow>
                    let lockCurrency = lock_currency (co_pair request) (co_side request);
                        lockAmount = lock_amount (oe_toFixed env) (co_side request) price amount;
                        key = co_idempotencyKey request
                    in (case lock_rpc env (reserve_request ''lock:'' (co_userId request) lockCurrency lockAmount key key) (ow_accounts w) of
                          (Inl err, a1) \<Rightarrow>
                            (Inl (RpcException 402 (exc_message err)),
                             w\<lparr>ow_db := failRecord (ir_id idem) d1, ow_accounts := a1\<rparr>)
                        | (Inr _, a1) \<Rightarrow>
                            (case create_order_tx env request price amount d1 (ow_book w) of
                               (Inr finalOrder, d2, b2) \<Rightarrow>
                                 (Inr (mapOrderToItem finalOrder),
                                  w\<lparr>ow_db := completeRecord (ir_id idem) (mapOrderToItem finalOrder) d2,
                                    ow_book := b2, ow_accounts := a1\<rparr>)
                             | (Inl dbError, d2, b2) \<Rightarrow>
                                 (let (_, a2) = unlock_rpc env
                                        (reserve_request ''unlock:'' (co_userId request) lockCurrency lockAmount key key) a1
                                  in (Inl dbError,
                                      w\<lparr>ow_db := failRecord (ir_id idem) d2, ow_book := b2, ow_accounts := a2\<rparr>)))))))"

section \<open>Cancelling an order\<close>

definition cancelled_event ::
  "'a orders_env \<Rightarrow> order \<Rightarrow> amount \<Rightarrow> nat \<Rightarrow> orders_payload domain_event outbox_event" where
  "cancelled_event env x levelTotalQuantity sequenceId =
     orders_event env 0 ORDER (ord_id x) (ord_pair x) ''order_cancelled'' ''ORDER_CANCELLED'' ''order.cancelled''
       (OrderCancelled \<lparr>oc_orderId = ord_id x, oc_userId = ord_userId x, oc_symbol = ord_pair x, oc_price = ord_price x,
          oc_remainingQuantity = remainingAmount x, oc_levelTotalQuantity = levelTotalQuantity, oc_side = ord_side x,
          oc_sequenceId = sequenceId, oc_reason = ''User cancelled'', oc_timestamp = clock env\<rparr>)"

definition cancel_order_tx ::
  "'a orders_env \<Rightarrow> uuid \<Rightarrow> uuid \<Rightarrow> amount \<Rightarrow> nat \<Rightarrow> orders_db \<Rightarrow> order result \<times> orders_db" where
  "cancel_order_tx env orderId userId levelTotalQuantity sequenceId db =
     (case cancel_order_row orderId userId (clock env) db of
        Inl e \<Rightarrow> (Inl e, db)
      | Inr (None, _) \<Rightarrow> (Inl (RpcException 400 ''ORDER_ALREADY_FILLED''), db)
      | Inr (Some updated, d) \<Rightarrow>
          (case insert_event (traceContext env) (clock env) (cancelled_event env updated levelTotalQuantity sequenceId)
                  (outboxEvents d) of
             Inl e \<Rightarrow> (Inl e, db)
           | Inr tbl \<Rightarrow>
               if dbCommits env then (Inr updated, d\<lparr>outboxEvents := tbl\<rparr>) else (Inl (DbException ''08006''), db)))"

definition cancelOrder ::
  "'a orders_env \<Rightarrow> cancel_order_request \<Rightarrow> 'a orders_world \<Rightarrow> order_item result \<times> 'a orders_world" where
  "cancelOrder env request w =
     (let orderId = cx_orderId request; userId = cx_userId request
      in (case findByIdAndUserId orderId userId (ow_db w) of
            None \<Rightarrow> (Inl (RpcException 404 ''ORDER_NOT_FOUND''), w)
          | Some existing \<Rightarrow>
              if ord_status existing = CANCELLED then (Inl (RpcException 400 ''ORDER_ALREADY_CANCELLED''), w)
              else if ord_status existing = FILLED then (Inl (RpcException 400 ''ORDER_ALREADY_FILLED''), w)
              else
                let b1 = removeOrder orderId (ord_pair existing) (ord_side existing) (ow_book w);
                    (sequenceId, b2) = nextSequence (ord_pair existing) b1;
                    levelTotalQuantity =
                      getLevelTotalQuantity (oe_valkey env) (ord_pair existing) (ord_side existing) (ord_price existing) b2
                in (case cancel_order_tx env orderId userId levelTotalQuantity sequenceId (ow_db w) of
                      (Inl e, d) \<Rightarrow> (Inl e, w\<lparr>ow_db := d, ow_book := b2\<rparr>)
                    | (Inr cancelled, d) \<Rightarrow>
                        let unlockCurrency = lock_currency (ord_pair cancelled) (ord_side cancelled);
                            unlockAmount = lock_amount (oe_toFixed env) (ord_side cancelled) (ord_price cancelled)
                                             (remainingAmount cancelled);
                            a1 = (if 0 < unlockAmount
                                  then snd (unlock_rpc env (reserve_request ''cancel:'' userId unlockCurrency unlockAmount
                                              (cx_idempotencyKey request) orderId) (ow_accounts w))
                                  else ow_accounts w)
                        in (Inr (mapOrderToItem cancelled), w\<lparr>ow_db := d, ow_book := b2, ow_accounts := a1\<rparr>))))"

section \<open>Queries and start-up\<close>

definition getOrder :: "uuid \<Rightarrow> uuid \<Rightarrow> orders_db \<Rightarrow> order_item result" where
  "getOrder orderId userId db =
     (case findByIdAndUserId orderId userId db of
        None \<Rightarrow> Inl (RpcException 404 ''ORDER_NOT_FOUND'')
      | Some x \<Rightarrow> Inr (mapOrderToItem x))"

text \<open>Empty or zero fields of the request count as absent.\<close>

definition getOrders ::
  "uuid \<Rightarrow> string \<Rightarrow> order_status option \<Rightarrow> int \<Rightarrow> int \<Rightarrow> orders_db \<Rightarrow> order_item list \<times> nat" where
  "getOrders userId pair status limit offset db =
     (let (rows, n) = findMany userId (if pair = [] then None else Some pair) status
                        (Some (if limit = 0 then 20 else limit)) (Some offset) db
      in (map mapOrderToItem rows, n))"

definition getOrderBook :: "valkey_api \<Rightarrow> string \<Rightarrow> int option \<Rightarrow> time \<Rightarrow> valkey \<Rightarrow> book_view result" where
  "getOrderBook api pair depth now book =
     (if pair \<notin> set SUPPORTED_PAIRS then Inl (RpcException 400 ''UNSUPPORTED_PAIR'')
      else Inr (getOrderBook_view api pair (case depth of None \<Rightarrow> 20 | Some d \<Rightarrow> d) now book))"

definition onModuleInit :: "valkey_api \<Rightarrow> 'a orders_world \<Rightarrow> 'a orders_world" where
  "onModuleInit api w =
     w\<lparr>ow_book := rehydrate api (map entry_of (findActiveOrdersByPair None (ow_db w))) (ow_book w)\<rparr>"

end
