(* ===== verification/Reservations.thy ===== *)
theory Reservations
  imports Orders Wallet Ledger_Props
begin

text \<open>
  What the services that reserve funds rely on of the accounts service, as an interface: a call
  with a fresh idempotency key moves exactly the requested amount or nothing, and what was
  locked can be unlocked. The accounts service, called as \<open>orders-service\<close> or
  \<open>transfers-service\<close>, is shown to provide it.
\<close>

section \<open>A fresh key at the ledger\<close>

lemma record_mutation_Inr:
  assumes fresh: "findLedgerByIdempotencyKey (p_idempotencyKey p) db = None"
    and eq: "record_mutation quiet_pg ty p dA dL (adjusted dA dL now a) before
             (db\<lparr>accounts := move_account (account_id a) dA dL now (accounts db)\<rparr>) = (r, db')"
  shows "(db' = before \<and> (\<exists>e. r = Inl e))
    \<or> (\<exists>t. length (p_idempotencyKey p) \<le> 128 \<and> varchar_128 (p_referenceId p) \<and> numeric_28_8 (p_amount p)
         \<and> numeric_28_8 dA \<and> numeric_28_8 dL \<and> records t a dA dL \<and> tx_idempotencyKey t = Some (p_idempotencyKey p)
         \<and> r = Inr (OK (adjusted dA dL now a)) \<and> db' = posted a dA dL now t db)"
proof -
  let ?t = "\<lparr>tx_accountId = account_id (adjusted dA dL now a), tx_userId = p_userId p,
    tx_currency = p_currency p, tx_type = ty, tx_amount = p_amount p, availableDelta = dA,
    lockedDelta = dL, balanceAfterAvailable = availableBalance (adjusted dA dL now a),
    balanceAfterLocked = lockedBalance (adjusted dA dL now a),
    tx_idempotencyKey = Some (p_idempotencyKey p), tx_referenceId = p_referenceId p\<rparr>"
  let ?d = "db\<lparr>accounts := move_account (account_id a) dA dL now (accounts db)\<rparr>"
  show ?thesis
  proof (cases "insert_ledger ?t ?d")
    case (Inl e)
    then show ?thesis using eq by (auto simp: record_mutation_def split: if_splits)
  next
    case (Inr d)
    then have "r = Inr (OK (adjusted dA dL now a))" "db' = d" using eq by (simp_all add: record_mutation_def)
    moreover have "d = posted a dA dL now ?t db" using insert_ledger_Inr(1) [OF Inr] by (simp add: posted_def)
    moreover have "length (p_idempotencyKey p) \<le> 128 \<and> varchar_128 (p_referenceId p) \<and> numeric_28_8 (p_amount p)
         \<and> numeric_28_8 dA \<and> numeric_28_8 dL"
      using Inr by (simp add: insert_ledger_def varchar_128_def split: if_splits)
    moreover have "records ?t a dA dL" by (simp add: records_def)
    ultimately show ?thesis by (intro disjI2 exI [of _ ?t]) simp
  qed
qed

definition refusal :: "mutation_result \<Rightarrow> bool" where
  "refusal m \<longleftrightarrow> (\<exists>x. m = INSUFFICIENT_AVAILABLE x \<or> m = INSUFFICIENT_LOCKED x) \<or> m = NOT_FOUND"

lemma move_funds_fresh:
  assumes keyed: "accounts_keyed (accounts db)"
    and fresh: "findLedgerByIdempotencyKey (p_idempotencyKey p) db = None"
    and refuse: "\<And>a. refusal (refuse a)"
    and eq: "move_funds ty g refuse dA dL quiet_pg now p db = (r, db')"
  shows "(db' = db \<and> (case r of Inl _ \<Rightarrow> True | Inr m \<Rightarrow> refusal m))
    \<or> (\<exists>a t. findByUserAndCurrency (p_userId p) (p_currency p) db = Some a \<and> g a \<and> storable_move p dA dL a db
         \<and> records t a dA dL \<and> tx_idempotencyKey t = Some (p_idempotencyKey p)
         \<and> r = Inr (OK (adjusted dA dL now a)) \<and> db' = posted a dA dL now t db)"
proof (cases "findByUserAndCurrency (p_userId p) (p_currency p) db")
  case None
  then show ?thesis
    using eq by (auto simp: move_funds_def fresh_key_no_replay [OF fresh] Let_def refusal_def)
next
  case (Some a)
  have a: "a \<in> set (accounts db)" using findByUserAndCurrency_Some [OF Some] by simp
  consider (no) "\<not> g a" | (range) "g a" "\<not> (numeric_28_8 (availableBalance a + dA) \<and> numeric_28_8 (lockedBalance a + dL))"
    | (go) "g a" "numeric_28_8 (availableBalance a + dA)" "numeric_28_8 (lockedBalance a + dL)" by blast
  then show ?thesis
  proof cases
    case no
    then show ?thesis
      using eq Some refuse [of a]
      by (auto simp: move_funds_def fresh_key_no_replay [OF fresh] Let_def update_balances_eq [OF keyed a])
  next
    case range
    then show ?thesis
      using eq Some by (auto simp: move_funds_def fresh_key_no_replay [OF fresh] Let_def update_balances_eq [OF keyed a])
  next
    case go
    then have "record_mutation quiet_pg ty p dA dL (adjusted dA dL now a) db
             (db\<lparr>accounts := move_account (account_id a) dA dL now (accounts db)\<rparr>) = (r, db')"
      using eq Some by (auto simp: move_funds_def fresh_key_no_replay [OF fresh] Let_def update_balances_eq [OF keyed a])
    from record_mutation_Inr [OF fresh this] go Some fresh show ?thesis by (auto simp: storable_move_def)
  qed
qed

lemma find_ledger_posted:
  "tx_idempotencyKey t = Some k \<Longrightarrow>
   findLedgerByIdempotencyKey k' (posted a dA dL now t db) \<noteq> None \<longleftrightarrow> findLedgerByIdempotencyKey k' db \<noteq> None \<or> k' = k"
  by (auto simp: findLedgerByIdempotencyKey_def posted_def find_append split: option.splits)

section \<open>The state of the accounts service\<close>

definition accounts_solid :: "accounts_db \<Rightarrow> bool" where
  "accounts_solid db \<longleftrightarrow> accounts_inv db \<and> no_overdraft db
     \<and> (\<forall>a\<in>set (accounts db). numeric_28_8 (availableBalance a) \<and> numeric_28_8 (lockedBalance a))"

definition key_used :: "string \<Rightarrow> accounts_db \<Rightarrow> bool" where
  "key_used k db \<longleftrightarrow> findLedgerByIdempotencyKey k db \<noteq> None"

lemma demo_solid: "accounts_solid demo_db"
  using demo_inv demo_no_overdraft by (simp add: accounts_solid_def demo_defs numeric_28_8_def)

lemma posted_solid:
  assumes "accounts_solid db" and "findByUserAndCurrency u c db = Some a" and "records t a dA dL"
    and "tx_idempotencyKey t = Some k" and "findLedgerByIdempotencyKey k db = None"
    and "0 \<le> availableBalance a + dA" and "0 \<le> lockedBalance a + dL"
    and "numeric_28_8 (availableBalance a + dA)" and "numeric_28_8 (lockedBalance a + dL)"
  shows "accounts_solid (posted a dA dL now t db)"
proof -
  have inv: "accounts_inv db" "no_overdraft db" and a: "a \<in> set (accounts db)"
    and n: "\<forall>a\<in>set (accounts db). numeric_28_8 (availableBalance a) \<and> numeric_28_8 (lockedBalance a)"
    using assms(1) findByUserAndCurrency_Some [OF assms(2)] by (simp_all add: accounts_solid_def)
  have keyed: "accounts_keyed (accounts db)" using inv(1) by (simp add: accounts_inv_def)
  have "key_free t (ledgerTransactions db)" using key_free_lookup assms(4,5) by blast
  then have "accounts_inv (posted a dA dL now t db)" using posted_inv [OF inv(1) a assms(3)] by blast
  moreover have "no_overdraft (posted a dA dL now t db)" using posted_no_overdraft [OF inv(2) assms(6,7) keyed a] .
  moreover have "numeric_28_8 (availableBalance x) \<and> numeric_28_8 (lockedBalance x)"
    if "x \<in> set (accounts (posted a dA dL now t db))" for x
  proof -
    from that obtain b where b: "b \<in> set (accounts db)"
      "x = (if account_id b = account_id a then adjusted dA dL now b else b)"
      by (auto simp: posted_def dest: in_move_account)
    then have "account_id b = account_id a \<Longrightarrow> b = a" using keyed a by (auto simp: accounts_keyed_def dest: distinct_key_eq)
    with b n assms(8,9) show ?thesis by auto
  qed
  ultimately show ?thesis by (simp add: accounts_solid_def)
qed

section \<open>The interface\<close>

definition moved :: "uuid \<Rightarrow> string \<Rightarrow> amount \<Rightarrow> amount \<Rightarrow> wallet \<Rightarrow> wallet \<Rightarrow> bool" where
  "moved u c dA dL f f' \<longleftrightarrow>
     (\<exists>av lk. f (u, c) = Some (av, lk) \<and> 0 \<le> av + dA \<and> 0 \<le> lk + dL \<and> f' = f((u, c) \<mapsto> (av + dA, lk + dL)))"

lemma moved_back: "moved u c dA dL f f1 \<Longrightarrow> moved u c (- dA) (- dL) f1 f2 \<Longrightarrow> f2 = f"
  by (auto simp: moved_def fun_eq_iff)

locale reservation_service =
  fixes lockf unlockf :: "account_request \<Rightarrow> 'a \<Rightarrow> balance_response result \<times> 'a"
    and funds :: "'a \<Rightarrow> wallet" and used :: "string \<Rightarrow> 'a \<Rightarrow> bool" and ok :: "'a \<Rightarrow> bool"
  assumes lock_outcome:
    "ok s \<Longrightarrow> c \<in> set SUPPORTED_CURRENCIES \<Longrightarrow> 0 \<le> x \<Longrightarrow> \<not> used (js_trim (pre @ key)) s
     \<Longrightarrow> lockf (reserve_request pre u c x key ref) s = (r, s')
     \<Longrightarrow> (case r of Inl _ \<Rightarrow> s' = s
         | Inr _ \<Rightarrow> ok s' \<and> 0 < x \<and> moved u c (- x) x (funds s) (funds s')
                   \<and> (\<forall>k. used k s' \<longleftrightarrow> used k s \<or> k = js_trim (pre @ key)))"
    and unlock_outcome:
    "ok s \<Longrightarrow> c \<in> set SUPPORTED_CURRENCIES \<Longrightarrow> 0 \<le> x \<Longrightarrow> \<not> used (js_trim (pre @ key)) s
     \<Longrightarrow> unlockf (reserve_request pre u c x key ref) s = (r, s')
     \<Longrightarrow> (case r of Inl _ \<Rightarrow> s' = s
         | Inr _ \<Rightarrow> ok s' \<and> 0 < x \<and> moved u c x (- x) (funds s) (funds s')
                   \<and> (\<forall>k. used k s' \<longleftrightarrow> used k s \<or> k = js_trim (pre @ key)))"
    and unlock_possible:
    "ok s \<Longrightarrow> c \<in> set SUPPORTED_CURRENCIES \<Longrightarrow> 0 \<le> x \<Longrightarrow> \<not> used (js_trim (pre @ key)) s
     \<Longrightarrow> lockf (reserve_request pre u c x key ref) s = (Inr b, s1)
     \<Longrightarrow> \<not> used (js_trim (pre' @ key)) s1 \<Longrightarrow> js_trim (pre' @ key) \<noteq> [] \<Longrightarrow> length (js_trim (pre' @ key)) \<le> 128
     \<Longrightarrow> \<exists>b' s2. unlockf (reserve_request pre' u c x key ref) s1 = (Inr b', s2)"
begin

text \<open>A lock that is taken back leaves the funds as they were.\<close>

lemma lock_unlock_restores:
  assumes "ok s" and "c \<in> set SUPPORTED_CURRENCIES" and "0 \<le> x"
    and "\<not> used (js_trim (pre @ key)) s" and "\<not> used (js_trim (pre' @ key)) s"
    and "js_trim (pre' @ key) \<noteq> js_trim (pre @ key)"
    and "js_trim (pre' @ key) \<noteq> []" and "length (js_trim (pre' @ key)) \<le> 128"
    and l: "lockf (reserve_request pre u c x key ref) s = (Inr b, s1)"
    and un: "unlockf (reserve_request pre' u c x key ref) s1 = (r, s2)"
  shows "funds s2 = funds s" and "ok s2"
proof -
  from lock_outcome [OF assms(1-4) l] have s1: "ok s1" "moved u c (- x) x (funds s) (funds s1)"
    "\<not> used (js_trim (pre' @ key)) s1" using assms(5,6) by simp_all
  from unlock_possible [OF assms(1-4) l s1(3) assms(7,8)] un obtain b' where r: "r = Inr b'" by auto
  from unlock_outcome [OF s1(1) assms(2,3) s1(3) un] r
  have s2: "ok s2" "moved u c x (- x) (funds s1) (funds s2)" by simp_all
  then show "ok s2" by simp
  from moved_back [OF s1(2)] s2(2) show "funds s2 = funds s" by simp
qed

end

section \<open>The accounts service provides it\<close>

definition reserve_params :: "string \<Rightarrow> uuid \<Rightarrow> string \<Rightarrow> amount \<Rightarrow> string \<Rightarrow> string \<Rightarrow> mutation_params" where
  "reserve_params pre u c x key ref =
     \<lparr>p_userId = u, p_currency = c, p_amount = x, p_idempotencyKey = js_trim (pre @ key),
      p_referenceId = trimmed_reference ref\<rparr>"

lemma reserve_request_valid:
  assumes "c \<in> set SUPPORTED_CURRENCIES" and "0 \<le> x"
  shows "mutation_request isUuid None (reserve_request pre u c x key ref) =
    (if u = [] \<or> \<not> isUuid u then Inl (BadRequestException ''INVALID_USER_ID'')
     else if x = 0 then Inl (BadRequestException ''INVALID_AMOUNT'')
     else if js_trim (pre @ key) = [] then Inl (BadRequestException ''IDEMPOTENCY_KEY_REQUIRED'')
     else Inr (reserve_params pre u c x key ref))"
proof -
  have "\<forall>c\<in>set SUPPORTED_CURRENCIES. normalizeCurrency c = Inr c" by code_simp
  with assms(1) have c: "normalizeCurrency c = Inr c" by blast
  note t = toFixed8_reads [OF assms(2)]
  have a: "validateAmount (toFixed8 x) None = (if x = 0 then Inl (BadRequestException ''INVALID_AMOUNT'') else Inr x)"
    using t assms(2) by (simp add: validateAmount_def Let_def)
  show ?thesis
    by (simp add: mutation_request_def reserve_request_def c a validateUserId_def requireIdempotencyKey_def Let_def
        reserve_params_def)
qed

definition accounts_client :: "string \<Rightarrow> accounts_method \<Rightarrow> (string \<Rightarrow> bool) \<Rightarrow> uuid \<Rightarrow> time \<Rightarrow> account_request \<Rightarrow> accounts_db
   \<Rightarrow> balance_response result \<times> accounts_db" where
  "accounts_client caller m isUuid newId now = accounts_rpc m (Some caller) isUuid quiet_pg newId now"

text \<open>The calls that move funds of an existing account between available, locked and outside.\<close>

definition mover :: "ledger_op \<Rightarrow> bool" where
  "mover op \<longleftrightarrow> op \<in> {Lock_op, Unlock_op, Debit_op}"

lemma mover_simps [simp]: "mover Lock_op" "mover Unlock_op" "mover Debit_op"
  by (simp_all add: mover_def)

definition mover_refusal :: "ledger_op \<Rightarrow> account \<Rightarrow> mutation_result" where
  "mover_refusal op a =
     (if op = Lock_op then INSUFFICIENT_AVAILABLE (availableBalance a) else INSUFFICIENT_LOCKED (lockedBalance a))"

lemma run_mover:
  assumes "mover op"
  shows "run_ledger_op op pg now p db = move_funds (op_type op) (op_guard op (p_amount p)) (mover_refusal op)
    (delta_available op (p_amount p)) (delta_locked op (p_amount p)) pg now p db"
proof -
  have "op_guard Lock_op x = (\<lambda>a. x \<le> availableBalance a)" "op_guard Unlock_op x = (\<lambda>a. x \<le> lockedBalance a)"
    "op_guard Debit_op x = (\<lambda>a. x \<le> lockedBalance a)" for x by (simp_all add: fun_eq_iff)
  moreover have "mover_refusal Lock_op = (\<lambda>a. INSUFFICIENT_AVAILABLE (availableBalance a))"
    "mover_refusal Unlock_op = (\<lambda>a. INSUFFICIENT_LOCKED (lockedBalance a))"
    "mover_refusal Debit_op = (\<lambda>a. INSUFFICIENT_LOCKED (lockedBalance a))"
    by (simp_all add: fun_eq_iff mover_refusal_def)
  ultimately show ?thesis using assms by (auto simp: mover_def lock_def unlock_def debitWithdrawal_def)
qed

lemma client_mutation:
  assumes "caller \<in> set BALANCES_AUTHORIZED_M2M_CALLERS" and "method_op m newId = Some op" and "m \<noteq> DepositSandboxFunds"
    and "c \<in> set SUPPORTED_CURRENCIES" and "0 \<le> x"
  shows "accounts_client caller m isUuid newId now (reserve_request pre u c x key ref) db =
    (if u = [] \<or> \<not> isUuid u then (Inl (BadRequestException ''INVALID_USER_ID''), db)
     else if x = 0 then (Inl (BadRequestException ''INVALID_AMOUNT''), db)
     else if js_trim (pre @ key) = [] then (Inl (BadRequestException ''IDEMPOTENCY_KEY_REQUIRED''), db)
     else (let (r, db') = run_ledger_op op quiet_pg now (reserve_params pre u c x key ref) db
           in (bindR (bindR r mapMutationResult) (\<lambda>a. Inr (mapToBalanceResponse a)), db')))"
proof -
  have "m \<noteq> GetBalance" "method_max m = None" using assms(2,3) by (auto simp: method_max_def)
  then have "accounts_client caller m isUuid newId now d db =
     (let (r, db') = (case mutation_request isUuid None d of
        Inl e \<Rightarrow> (Inl e, db) | Inr p \<Rightarrow> mapped (run_ledger_op op quiet_pg now p db))
      in (bindR r (\<lambda>a. Inr (mapToBalanceResponse a)), db'))" for d
    using assms(1) accounts_service_mutation [OF assms(2)]
    by (simp add: accounts_client_def accounts_rpc_def authorizeM2MCaller_def)
  then show ?thesis
    by (simp only: reserve_request_valid [OF assms(4,5)] if_distrib [of "case_sum _ _"] sum.case)
      (simp add: mapped_def split_beta Let_def)
qed

lemma refusal_mapped: "refusal m \<Longrightarrow> \<exists>e. mapMutationResult m = Inl e"
  by (auto simp: refusal_def)

lemma client_fresh:
  assumes caller: "caller \<in> set BALANCES_AUTHORIZED_M2M_CALLERS" and m: "method_op m newId = Some op" and op: "mover op"
    and c: "c \<in> set SUPPORTED_CURRENCIES" and x: "0 \<le> x"
    and ok: "accounts_solid db" and fresh: "\<not> key_used (js_trim (pre @ key)) db"
    and eq: "accounts_client caller m isUuid newId now (reserve_request pre u c x key ref) db = (r, db')"
  defines "dA \<equiv> delta_available op x" and "dL \<equiv> delta_locked op x"
  shows "(db' = db \<and> (\<exists>e. r = Inl e))
    \<or> (\<exists>a t b. r = Inr b \<and> 0 < x \<and> u \<noteq> [] \<and> isUuid u
         \<and> findByUserAndCurrency u c db = Some a \<and> op_guard op x a
         \<and> storable_move (reserve_params pre u c x key ref) dA dL a db \<and> records t a dA dL \<and> tx_idempotencyKey t = Some (js_trim (pre @ key))
         \<and> db' = posted a dA dL now t db)"
proof (cases "u = [] \<or> \<not> isUuid u \<or> x = 0 \<or> js_trim (pre @ key) = []")
  case True
  have m': "m \<noteq> DepositSandboxFunds" using m op by (auto simp: mover_def)
  from True show ?thesis using eq unfolding client_mutation [OF caller m m' c x] by (auto split: if_splits)
next
  case False
  have m': "m \<noteq> DepositSandboxFunds" using m op by (auto simp: mover_def)
  let ?p = "reserve_params pre u c x key ref"
  have keyed: "accounts_keyed (accounts db)" using ok by (simp add: accounts_solid_def accounts_inv_def)
  have fr: "findLedgerByIdempotencyKey (p_idempotencyKey ?p) db = None" using fresh by (simp add: key_used_def reserve_params_def)
  have x': "p_amount ?p = x" by (simp add: reserve_params_def)
  obtain q d where run: "run_ledger_op op quiet_pg now ?p db = (q, d)" by force
  with eq False have r: "r = bindR (bindR q mapMutationResult) (\<lambda>a. Inr (mapToBalanceResponse a))" "db' = d"
    unfolding client_mutation [OF caller m m' c x] by simp_all
  have mv: "move_funds (op_type op) (op_guard op x) (mover_refusal op) dA dL quiet_pg now ?p db = (q, d)"
    using run unfolding run_mover [OF op] dA_def dL_def x' .
  have rfr: "refusal (mover_refusal op a)" for a by (auto simp: mover_refusal_def refusal_def)
  from move_funds_fresh [OF keyed fr rfr mv] show ?thesis
  proof (elim disjE exE conjE)
    assume "d = db" and "case q of Inl _ \<Rightarrow> True | Inr m \<Rightarrow> refusal m"
    then show ?thesis using r refusal_mapped by (cases q) fastforce+
  next
    fix a t
    assume "findByUserAndCurrency (p_userId ?p) (p_currency ?p) db = Some a" "op_guard op x a" "storable_move ?p dA dL a db"
      "records t a dA dL" "tx_idempotencyKey t = Some (p_idempotencyKey ?p)"
      "q = Inr (OK (adjusted dA dL now a))" "d = posted a dA dL now t db"
    then show ?thesis using r x False
      by (intro disjI2 exI [of _ a] exI [of _ t]) (auto simp: reserve_params_def)
  qed
qed

lemma client_outcome:
  assumes caller: "caller \<in> set BALANCES_AUTHORIZED_M2M_CALLERS" and m: "method_op m newId = Some op" and op: "mover op"
    and c: "c \<in> set SUPPORTED_CURRENCIES" and x: "0 \<le> x"
    and ok: "accounts_solid db" and fresh: "\<not> key_used (js_trim (pre @ key)) db"
    and eq: "accounts_client caller m isUuid newId now (reserve_request pre u c x key ref) db = (r, db')"
  defines "dA \<equiv> delta_available op x" and "dL \<equiv> delta_locked op x"
  shows "case r of Inl _ \<Rightarrow> db' = db
    | Inr _ \<Rightarrow> accounts_solid db' \<and> 0 < x \<and> moved u c dA dL (balance_view db) (balance_view db')
        \<and> (\<forall>k. key_used k db' \<longleftrightarrow> key_used k db \<or> k = js_trim (pre @ key))"
  using client_fresh [OF caller m op c x ok fresh eq, folded dA_def dL_def]
proof (elim disjE exE conjE)
  fix a t b
  assume r: "r = Inr b" and x0: "0 < x" and f: "findByUserAndCurrency u c db = Some a"
    and g: "op_guard op x a"
    and st: "storable_move (reserve_params pre u c x key ref) dA dL a db"
    and t: "records t a dA dL" "tx_idempotencyKey t = Some (js_trim (pre @ key))"
    and d: "db' = posted a dA dL now t db"
  have a: "a \<in> set (accounts db)" "account_userId a = u" "account_currency a = c"
    using findByUserAndCurrency_Some [OF f] by simp_all
  have keyed: "accounts_keyed (accounts db)" and nn: "0 \<le> availableBalance a" "0 \<le> lockedBalance a"
    using ok a(1) by (auto simp: accounts_solid_def accounts_inv_def no_overdraft_def)
  have ge: "0 \<le> availableBalance a + dA" "0 \<le> lockedBalance a + dL"
    using g nn x0 op by (auto simp: dA_def dL_def mover_def)
  have fr: "findLedgerByIdempotencyKey (js_trim (pre @ key)) db = None" using fresh by (simp add: key_used_def)
  have "accounts_solid db'"
    unfolding d using posted_solid [OF ok f t fr ge] st by (simp add: storable_move_def)
  moreover have "balance_view db (u, c) = Some (availableBalance a, lockedBalance a)" using f by (simp add: balance_view_def)
  ultimately show ?thesis
    using r x0 ge find_ledger_posted [OF t(2)]
    unfolding moved_def d balance_view_posted [OF keyed a(1)] a(2,3) key_used_def by simp
qed auto

lemma client_success:
  assumes caller: "caller \<in> set BALANCES_AUTHORIZED_M2M_CALLERS" and m: "method_op m newId = Some op" and op: "mover op"
    and c: "c \<in> set SUPPORTED_CURRENCIES" and x: "0 < x" and u: "u \<noteq> []" "isUuid u" and k: "js_trim (pre @ key) \<noteq> []"
    and keyed: "accounts_keyed (accounts db)" and f: "findByUserAndCurrency u c db = Some a" and g: "op_guard op x a"
    and st: "storable_move (reserve_params pre u c x key ref) (delta_available op x) (delta_locked op x) a db"
  shows "\<exists>b db'. accounts_client caller m isUuid newId now (reserve_request pre u c x key ref) db = (Inr b, db')"
proof -
  let ?p = "reserve_params pre u c x key ref"
  have m': "m \<noteq> DepositSandboxFunds" using m op by (auto simp: mover_def)
  have p: "p_userId ?p = u" "p_currency ?p = c" "p_amount ?p = x" by (simp_all add: reserve_params_def)
  have x0: "0 \<le> x" using x by simp
  obtain d2 where "run_ledger_op op quiet_pg now ?p db = (Inr (OK (adjusted (delta_available op x) (delta_locked op x) now a)), d2)"
    using move_funds_success [OF keyed _ st, of "op_type op" "op_guard op x" "mover_refusal op" now] f g p
    unfolding run_mover [OF op] by auto
  then show ?thesis using x u k unfolding client_mutation [OF caller m m' c x0] by auto
qed

lemma accounts_reservation:
  assumes caller: "caller \<in> set BALANCES_AUTHORIZED_M2M_CALLERS"
  shows "reservation_service (accounts_client caller LockBalance isUuid i now) (accounts_client caller UnlockBalance isUuid i now)
           balance_view key_used accounts_solid"
proof
  fix db db' r c x pre key u ref
  assume ok: "accounts_solid db" "c \<in> set SUPPORTED_CURRENCIES" "(0::int) \<le> x" "\<not> key_used (js_trim (pre @ key)) db"
  show "case r of Inl _ \<Rightarrow> db' = db
     | Inr _ \<Rightarrow> accounts_solid db' \<and> 0 < x \<and> moved u c (- x) x (balance_view db) (balance_view db')
        \<and> (\<forall>k. key_used k db' \<longleftrightarrow> key_used k db \<or> k = js_trim (pre @ key))"
    if "accounts_client caller LockBalance isUuid i now (reserve_request pre u c x key ref) db = (r, db')"
    using client_outcome [OF caller _ _ ok(2,3,1,4) that, of Lock_op] by (simp split: sum.splits)
  show "case r of Inl _ \<Rightarrow> db' = db
     | Inr _ \<Rightarrow> accounts_solid db' \<and> 0 < x \<and> moved u c x (- x) (balance_view db) (balance_view db')
        \<and> (\<forall>k. key_used k db' \<longleftrightarrow> key_used k db \<or> k = js_trim (pre @ key))"
    if "accounts_client caller UnlockBalance isUuid i now (reserve_request pre u c x key ref) db = (r, db')"
    using client_outcome [OF caller _ _ ok(2,3,1,4) that, of Unlock_op] by (simp split: sum.splits)
  fix b d1 pre'
  assume l: "accounts_client caller LockBalance isUuid i now (reserve_request pre u c x key ref) db = (Inr b, d1)"
    and k': "\<not> key_used (js_trim (pre' @ key)) d1" "js_trim (pre' @ key) \<noteq> []" "length (js_trim (pre' @ key)) \<le> 128"
  from client_fresh [OF caller _ _ ok(2,3,1,4) l, of Lock_op] obtain a t where
    v: "0 < x" "u \<noteq> []" "isUuid u" and f: "findByUserAndCurrency u c db = Some a"
    and g: "x \<le> availableBalance a" and st: "storable_move (reserve_params pre u c x key ref) (- x) x a db"
    and d1: "d1 = posted a (- x) x now t db" by auto
  have a: "a \<in> set (accounts db)" "account_userId a = u" "account_currency a = c"
    using findByUserAndCurrency_Some [OF f] by simp_all
  have solid: "accounts_solid d1" using client_outcome [OF caller _ _ ok(2,3,1,4) l, of Lock_op] by simp
  then have keyed1: "accounts_keyed (accounts d1)" by (simp add: accounts_solid_def accounts_inv_def)
  let ?a = "adjusted (- x) x now a" and ?p = "reserve_params pre' u c x key ref"
  have f1: "findByUserAndCurrency u c d1 = Some ?a"
    using f by (simp add: d1 posted_def findByUserAndCurrency_def find_move_account)
  have lk: "0 \<le> lockedBalance a" using ok(1) a(1) by (auto simp: accounts_solid_def no_overdraft_def)
  have "storable_move ?p x (- x) ?a d1"
    using st k' ok(1) a(1) by (auto simp: storable_move_def reserve_params_def key_used_def accounts_solid_def numeric_28_8_def)
  then have st1: "storable_move ?p (delta_available Unlock_op x) (delta_locked Unlock_op x) ?a d1" by simp
  have "op_guard Unlock_op x ?a" using lk by simp
  then show "\<exists>b' s2. accounts_client caller UnlockBalance isUuid i now (reserve_request pre' u c x key ref) d1 = (Inr b', s2)"
    by (rule client_success [where op = Unlock_op, rotated -2]) (use caller ok(2) v k'(2) keyed1 f1 st1 in simp_all)
qed

lemma service_callers: "''orders-service'' \<in> set BALANCES_AUTHORIZED_M2M_CALLERS" "''transfers-service'' \<in> set BALANCES_AUTHORIZED_M2M_CALLERS"
  by (simp_all add: BALANCES_AUTHORIZED_M2M_CALLERS_def)

interpretation orders_accounts: reservation_service
  "accounts_client ''orders-service'' LockBalance isUuid i now" "accounts_client ''orders-service'' UnlockBalance isUuid i now"
  balance_view key_used accounts_solid for isUuid i now
  by (rule accounts_reservation) (rule service_callers)

end
