(* ===== verification/Orders_Saga.thy ===== *)
theory Orders_Saga
  imports Reservations
begin

text \<open>
  The saga of an order across the two services: what is reserved at the accounts service when an
  order is created, what is left of it when the creation fails, and what repeating a request does.
\<close>

section \<open>What a call of the orders service does at the accounts service\<close>

subsection \<open>Keys and currencies\<close>

lemma js_trim_Cons: "\<not> js_space c \<Longrightarrow> \<exists>r. js_trim (c # s) = c # r"
proof -
  assume c: "\<not> js_space c"
  have "dropWhile js_space (rev (c # s)) = dropWhile js_space (rev s) @ [c]
      \<or> dropWhile js_space (rev (c # s)) = [c]"
    using c by (cases "\<forall>x\<in>set s. js_space x") (auto simp: dropWhile_append)
  with c show ?thesis by (auto simp: js_trim_def intro: exI [of _ "rev (dropWhile js_space (rev s))"])
qed

lemma prefixed_keys:
  "js_trim (''lock:'' @ key) \<noteq> js_trim (''unlock:'' @ key)" "js_trim (''unlock:'' @ key) \<noteq> []"
proof -
  have "\<not> js_space (CHR ''l'')" "\<not> js_space (CHR ''u'')" by (simp_all add: js_space_def)
  then obtain r r' where "js_trim (''lock:'' @ key) = CHR ''l'' # r" "js_trim (''unlock:'' @ key) = CHR ''u'' # r'"
    using js_trim_Cons [of "CHR ''l''"] js_trim_Cons [of "CHR ''u''"] by (metis append_Cons)
  then show "js_trim (''lock:'' @ key) \<noteq> js_trim (''unlock:'' @ key)" "js_trim (''unlock:'' @ key) \<noteq> []" by simp_all
qed

lemma lock_currency_supported: "pair \<in> set SUPPORTED_PAIRS \<Longrightarrow> lock_currency pair side \<in> set SUPPORTED_CURRENCIES"
proof -
  assume "pair \<in> set SUPPORTED_PAIRS"
  moreover have "\<forall>pair\<in>set SUPPORTED_PAIRS. lock_currency pair BUY \<in> set SUPPORTED_CURRENCIES
      \<and> lock_currency pair SELL \<in> set SUPPORTED_CURRENCIES" by code_simp
  ultimately show ?thesis by (cases side) auto
qed

lemma rounds_half_up_nonneg: "rounds_half_up fx \<Longrightarrow> 0 \<le> x \<Longrightarrow> 0 \<le> fx x"
proof -
  assume "rounds_half_up fx" "0 \<le> x"
  then have "2 * x - 10 ^ 8 < 2 * (fx x * 10 ^ 8)" by (simp add: rounds_half_up_def)
  then have "2 * x < (2 * fx x + 1) * 10 ^ 8" by (simp add: distrib_right)
  with \<open>0 \<le> x\<close> have "0 < (2 * fx x + 1) * 10 ^ 8" by linarith
  then show ?thesis by (simp add: zero_less_mult_iff)
qed

lemma lock_amount_nonneg: "rounds_half_up fx \<Longrightarrow> 0 < price \<Longrightarrow> 0 \<le> amount \<Longrightarrow> 0 \<le> lock_amount fx side price amount"
  by (simp add: lock_amount_def rounds_half_up_nonneg)

lemma valid_request:
  "validateCreateOrderRequest rq = Inr (price, amount) \<longleftrightarrow>
   co_pair rq \<in> set SUPPORTED_PAIRS \<and> co_price rq = Some price \<and> co_amount rq = Some amount \<and> 0 < price \<and> 0 < amount"
  by (auto simp: validateCreateOrderRequest_def split: option.splits if_splits)

subsection \<open>What the repositories leave alone\<close>

lemma createRecord_Inr:
  assumes "createRecord x db = Inr (y, d)"
  shows "y = x" and "orders d = orders db" and "outboxEvents d = outboxEvents db"
    and "idempotencyRecords d = idempotencyRecords db @ [x]" and "ir_id x \<notin> ir_id ` set (idempotencyRecords db)"
    and "\<forall>y\<in>set (idempotencyRecords db). \<not> (ir_userId y = ir_userId x \<and> ir_operation y = ir_operation x \<and> ir_key y = ir_key x)"
  using assms by (auto simp: createRecord_def split: if_splits)

lemma record_updates [simp]:
  "orders (failRecord i db) = orders db" "outboxEvents (failRecord i db) = outboxEvents db"
  "orders (completeRecord i r db) = orders db" "outboxEvents (completeRecord i r db) = outboxEvents db"
  by (simp_all add: failRecord_def completeRecord_def)

lemma create_order_tx_Inl:
  "create_order_tx env rq price amount db book = (Inl e, d, b) \<Longrightarrow> d = db"
  by (auto simp: create_order_tx_def split: prod.splits sum.splits if_splits)

subsection \<open>The funds of a run\<close>

definition order_keys_fresh ::
  "(string \<Rightarrow> 'a \<Rightarrow> bool) \<Rightarrow> create_order_request \<Rightarrow> 'a \<Rightarrow> bool" where
  "order_keys_fresh used rq s \<longleftrightarrow>
     \<not> used (js_trim (''lock:'' @ co_idempotencyKey rq)) s \<and> \<not> used (js_trim (''unlock:'' @ co_idempotencyKey rq)) s"

context reservation_service
begin

lemma failed_create:
  assumes rpc: "lock_rpc env = lockf" "unlock_rpc env = unlockf" and fx: "rounds_half_up (oe_toFixed env)"
    and ok: "ok (ow_accounts w)" and fresh: "order_keys_fresh used rq (ow_accounts w)"
    and len: "length (co_idempotencyKey rq) \<le> 121"
    and run: "createOrder env rq w = (Inl e, w')"
  shows "funds (ow_accounts w') = funds (ow_accounts w)" and "ok (ow_accounts w')"
    and "orders (ow_db w') = orders (ow_db w)" and "outboxEvents (ow_db w') = outboxEvents (ow_db w)"
proof -
  have "funds (ow_accounts w') = funds (ow_accounts w) \<and> ok (ow_accounts w')
    \<and> orders (ow_db w') = orders (ow_db w) \<and> outboxEvents (ow_db w') = outboxEvents (ow_db w)"
  proof (cases "w' = w")
    case False
    then obtain price amount where v: "validateCreateOrderRequest rq = Inr (price, amount)"
      using run by (auto simp: createOrder_def split: sum.splits)
    from False run v have ans: "idempotency_answer env rq (ow_db w) = None"
      by (auto simp: createOrder_def split: option.splits)
    from False run v ans obtain idem d1 where cr: "createRecord (new_idempotency_record env rq) (ow_db w) = Inr (idem, d1)"
      by (auto simp: createOrder_def split: sum.splits)
    note d1 = createRecord_Inr [OF cr]
    let ?c = "lock_currency (co_pair rq) (co_side rq)" and ?key = "co_idempotencyKey rq"
    let ?x = "lock_amount (oe_toFixed env) (co_side rq) price amount"
    have c: "?c \<in> set SUPPORTED_CURRENCIES" and x: "0 \<le> ?x"
      using v lock_currency_supported lock_amount_nonneg [OF fx] by (simp_all add: valid_request)
    obtain rl a1 where lk: "lockf (reserve_request ''lock:'' (co_userId rq) ?c ?x ?key ?key) (ow_accounts w) = (rl, a1)" by force
    have fr: "\<not> used (js_trim (''lock:'' @ ?key)) (ow_accounts w)" "\<not> used (js_trim (''unlock:'' @ ?key)) (ow_accounts w)"
      using fresh by (simp_all add: order_keys_fresh_def)
    show ?thesis
    proof (cases rl)
      case (Inl err)
      with lock_outcome [OF ok c x fr(1) lk] have "a1 = ow_accounts w" by simp
      with run v ans cr lk Inl rpc d1 ok show ?thesis by (auto simp: createOrder_def Let_def)
    next
      case (Inr b)
      obtain rt d2 b2 where tx: "create_order_tx env rq price amount d1 (ow_book w) = (rt, d2, b2)" using prod_cases3 by blast
      obtain ru a2 where un: "unlockf (reserve_request ''unlock:'' (co_userId rq) ?c ?x ?key ?key) a1 = (ru, a2)" by force
      from run v ans cr lk Inr rpc tx un obtain e' where rt: "rt = Inl e'"
        and w': "w' = w\<lparr>ow_db := failRecord (ir_id idem) d2, ow_book := b2, ow_accounts := a2\<rparr>"
        by (cases rt) (auto simp: createOrder_def Let_def)
      have d2: "d2 = d1" using tx rt create_order_tx_Inl by blast
      have "length (js_trim (''unlock:'' @ ?key)) \<le> 128"
        using length_js_trim [of "''unlock:'' @ ?key"] len by simp
      with lock_unlock_restores [OF ok c x fr prefixed_keys(1) [symmetric] prefixed_keys(2) _ lk [unfolded Inr] un]
      have "funds a2 = funds (ow_accounts w)" "ok a2" by simp_all
      with w' d2 d1 show ?thesis by simp
    qed
  qed (use ok in simp)
  then show "funds (ow_accounts w') = funds (ow_accounts w)" and "ok (ow_accounts w')"
    and "orders (ow_db w') = orders (ow_db w)" and "outboxEvents (ow_db w') = outboxEvents (ow_db w)" by simp_all
qed

lemma created_order:
  assumes rpc: "lock_rpc env = lockf" and fx: "rounds_half_up (oe_toFixed env)"
    and ok: "ok (ow_accounts w)" and fresh: "order_keys_fresh used rq (ow_accounts w)"
    and ans: "idempotency_answer env rq (ow_db w) = None"
    and run: "createOrder env rq w = (Inr item, w')"
  obtains price amount where "co_price rq = Some price" and "co_amount rq = Some amount"
    and "0 < lock_amount (oe_toFixed env) (co_side rq) price amount"
    and "moved (co_userId rq) (lock_currency (co_pair rq) (co_side rq))
           (- lock_amount (oe_toFixed env) (co_side rq) price amount) (lock_amount (oe_toFixed env) (co_side rq) price amount)
           (funds (ow_accounts w)) (funds (ow_accounts w'))"
    and "ok (ow_accounts w')"
proof -
  from run obtain price amount where v: "validateCreateOrderRequest rq = Inr (price, amount)"
    by (auto simp: createOrder_def split: sum.splits)
  from run v ans obtain idem d1 where cr: "createRecord (new_idempotency_record env rq) (ow_db w) = Inr (idem, d1)"
    by (auto simp: createOrder_def split: sum.splits)
  let ?c = "lock_currency (co_pair rq) (co_side rq)" and ?key = "co_idempotencyKey rq"
  let ?x = "lock_amount (oe_toFixed env) (co_side rq) price amount"
  have c: "?c \<in> set SUPPORTED_CURRENCIES" and x: "0 \<le> ?x"
    using v lock_currency_supported lock_amount_nonneg [OF fx] by (simp_all add: valid_request)
  obtain rl a1 where lk: "lockf (reserve_request ''lock:'' (co_userId rq) ?c ?x ?key ?key) (ow_accounts w) = (rl, a1)" by force
  have fr: "\<not> used (js_trim (''lock:'' @ ?key)) (ow_accounts w)" using fresh by (simp add: order_keys_fresh_def)
  from run v ans cr lk rpc obtain b where rl: "rl = Inr b" by (cases rl) (auto simp: createOrder_def Let_def)
  with run v ans cr lk rpc have "ow_accounts w' = a1"
    by (auto simp: createOrder_def Let_def split: prod.splits sum.splits)
  with lock_outcome [OF ok c x fr lk] rl v that show thesis by (simp add: valid_request)
qed

lemma cancelled_order:
  assumes rpc: "unlock_rpc env = unlockf" and fx: "rounds_half_up (oe_toFixed env)" and ok: "ok (ow_accounts w)"
    and fresh: "\<not> used (js_trim (''cancel:'' @ cx_idempotencyKey rq)) (ow_accounts w)"
    and x: "findByIdAndUserId (cx_orderId rq) (cx_userId rq) (ow_db w) = Some x"
      "ord_pair x \<in> set SUPPORTED_PAIRS" "0 < ord_price x" "0 \<le> remainingAmount x"
    and cancelled: "cancel_order_tx env (cx_orderId rq) (cx_userId rq) lv seqid (ow_db w) = (Inr y, d)"
      "lock_currency (ord_pair y) (ord_side y) = lock_currency (ord_pair x) (ord_side x)"
      "lock_amount (oe_toFixed env) (ord_side y) (ord_price y) (remainingAmount y)
        = lock_amount (oe_toFixed env) (ord_side x) (ord_price x) (remainingAmount x)"
    and a1: "a1 = (if 0 < lock_amount (oe_toFixed env) (ord_side y) (ord_price y) (remainingAmount y)
        then snd (unlock_rpc env (reserve_request ''cancel:'' (cx_userId rq) (lock_currency (ord_pair y) (ord_side y))
               (lock_amount (oe_toFixed env) (ord_side y) (ord_price y) (remainingAmount y))
               (cx_idempotencyKey rq) (cx_orderId rq)) (ow_accounts w)) else ow_accounts w)"
  shows "funds a1 = funds (ow_accounts w)
    \<or> moved (cx_userId rq) (lock_currency (ord_pair x) (ord_side x))
        (lock_amount (oe_toFixed env) (ord_side x) (ord_price x) (remainingAmount x))
        (- lock_amount (oe_toFixed env) (ord_side x) (ord_price x) (remainingAmount x)) (funds (ow_accounts w)) (funds a1)"
    and "ok a1"
proof -
  let ?c = "lock_currency (ord_pair x) (ord_side x)"
  let ?x = "lock_amount (oe_toFixed env) (ord_side x) (ord_price x) (remainingAmount x)"
  have c: "?c \<in> set SUPPORTED_CURRENCIES" and x0: "0 \<le> ?x"
    using x lock_currency_supported lock_amount_nonneg [OF fx] by simp_all
  obtain r a2 where un: "unlockf (reserve_request ''cancel:'' (cx_userId rq) ?c ?x (cx_idempotencyKey rq) (cx_orderId rq)) (ow_accounts w) = (r, a2)"
    by force
  have e: "a1 = (if 0 < ?x then a2 else ow_accounts w)" unfolding a1 cancelled(2,3) rpc un by simp
  from unlock_outcome [OF ok c x0 fresh un] ok
  have "(funds a1 = funds (ow_accounts w) \<or> moved (cx_userId rq) ?c ?x (- ?x) (funds (ow_accounts w)) (funds a1)) \<and> ok a1"
    unfolding e by (cases r) auto
  then show "funds a1 = funds (ow_accounts w) \<or> moved (cx_userId rq) ?c ?x (- ?x) (funds (ow_accounts w)) (funds a1)"
    and "ok a1" by simp_all
qed

end

section \<open>Reservation and compensation\<close>

definition wired :: "accounts_db orders_env \<Rightarrow> (string \<Rightarrow> bool) \<Rightarrow> uuid \<Rightarrow> time \<Rightarrow> bool" where
  "wired env isUuid i now \<longleftrightarrow>
     lock_rpc env = accounts_client ''orders-service'' LockBalance isUuid i now
     \<and> unlock_rpc env = accounts_client ''orders-service'' UnlockBalance isUuid i now
     \<and> rounds_half_up (oe_toFixed env)"

text \<open>
  A created order has reserved its cost: when \<open>CreateOrder\<close> answers an order (and the key was
  not known before), the user's account in the currency of the order has moved exactly the lock
  amount, price times quantity rounded to eight digits for a buy order and the quantity for a sell
  order, from available to locked, no other account has moved, and the accounts database is still
  consistent.
\<close>

theorem create_order_reserves:
  assumes "wired env isUuid i now" and "accounts_solid (ow_accounts w)"
    and "order_keys_fresh key_used rq (ow_accounts w)"
    and "idempotency_answer env rq (ow_db w) = None"
    and "createOrder env rq w = (Inr item, w')"
  shows "\<exists>price amount. co_price rq = Some price \<and> co_amount rq = Some amount
    \<and> 0 < lock_amount (oe_toFixed env) (co_side rq) price amount
    \<and> moved (co_userId rq) (lock_currency (co_pair rq) (co_side rq))
        (- lock_amount (oe_toFixed env) (co_side rq) price amount) (lock_amount (oe_toFixed env) (co_side rq) price amount)
        (balance_view (ow_accounts w)) (balance_view (ow_accounts w'))
    \<and> accounts_solid (ow_accounts w')"
proof -
  have rpc: "lock_rpc env = accounts_client ''orders-service'' LockBalance isUuid i now" and fx: "rounds_half_up (oe_toFixed env)"
    using assms(1) by (simp_all add: wired_def)
  from orders_accounts.created_order [OF rpc fx assms(2,3,4,5)] show ?thesis by metis
qed


section \<open>Idempotency of creating\<close>

lemma update_order_records:
  "update_order P f db = Inr (x, d) \<Longrightarrow> idempotencyRecords d = idempotencyRecords db"
  by (auto simp: update_order_def split: option.splits if_splits)

lemma match_loop_records:
  "match_loop tids now taker makers st = (r, st') \<Longrightarrow> idempotencyRecords (ms_db st') = idempotencyRecords (ms_db st)"
proof (induction makers arbitrary: st)
  case (Cons m makers)
  have "idempotencyRecords (ms_db s) = idempotencyRecords (ms_db st)" if "match_maker tids now taker m st = (q, s)" for q s
    using that by (auto simp: match_maker_def Let_def updateExecution_def dest!: update_order_records split: sum.splits prod.splits)
  with Cons show ?case by (auto split: if_splits sum.splits prod.splits)
qed simp

lemma executeMatch_records:
  "executeMatch api tids now taker db book = (r, d, b) \<Longrightarrow> idempotencyRecords d = idempotencyRecords db"
  by (auto simp: executeMatch_def match_with_def finish_match_def Let_def updateExecution_def
      dest!: match_loop_records update_order_records split: sum.splits prod.splits)

lemma create_order_tx_records:
  assumes "create_order_tx env rq price amount db book = (r, d, b)"
  shows "idempotencyRecords d = idempotencyRecords db"
  using assms
  by (auto simp: create_order_tx_def create_order_body_def create_order_row_def Let_def
      dest!: executeMatch_records split: sum.splits prod.splits if_splits)

lemma createOrder_Inr:
  assumes run: "createOrder env rq w = (Inr item, w')" and ans: "idempotency_answer env rq (ow_db w) = None"
  obtains price amount d1 x d2 where "validateCreateOrderRequest rq = Inr (price, amount)"
    and "createRecord (new_idempotency_record env rq) (ow_db w) = Inr (new_idempotency_record env rq, d1)"
    and "create_order_tx env rq price amount d1 (ow_book w) = (Inr x, d2, ow_book w')"
    and "item = mapOrderToItem x"
    and "ow_db w' = completeRecord (newRecordId env) item d2"
proof -
  from run obtain price amount where v: "validateCreateOrderRequest rq = Inr (price, amount)"
    by (auto simp: createOrder_def split: sum.splits)
  from run v ans obtain d1 where cr: "createRecord (new_idempotency_record env rq) (ow_db w) = Inr (new_idempotency_record env rq, d1)"
    by (auto simp: createOrder_def split: sum.splits dest: createRecord_Inr(1))
  from run v ans cr obtain x d2 where "create_order_tx env rq price amount d1 (ow_book w) = (Inr x, d2, ow_book w')"
    "item = mapOrderToItem x" "ow_db w' = completeRecord (newRecordId env) item d2"
    by (auto simp: createOrder_def Let_def new_idempotency_record_def split: sum.splits prod.splits)
  with v cr that show thesis by blast
qed

lemma completed_record_found:
  assumes cr: "createRecord (new_idempotency_record env rq) db = Inr (y, d1)"
    and rec: "idempotencyRecords d2 = idempotencyRecords d1" and t: "now < clock env + 24 * 60 * 60 * 1000"
  shows "\<exists>r. findRecord (co_userId rq) ''CREATE_ORDER'' (co_idempotencyKey rq) now (completeRecord (newRecordId env) item d2) = Some r
    \<and> ir_status r = COMPLETED \<and> responsePayload r = Some item"
proof -
  let ?n = "new_idempotency_record env rq"
  note c = createRecord_Inr [OF cr]
  have old: "update_rows (\<lambda>x. ir_id x = newRecordId env) f (idempotencyRecords db) = idempotencyRecords db" for f
    using c(5) by (intro update_rows_none) (auto simp: new_idempotency_record_def image_iff)
  have none: "List.find (\<lambda>x. ir_userId x = co_userId rq \<and> ir_operation x = ''CREATE_ORDER'' \<and> ir_key x = co_idempotencyKey rq
      \<and> now < ir_expiresAt x) (idempotencyRecords db) = None"
    using c(6) by (auto simp: find_None_iff new_idempotency_record_def)
  have "idempotencyRecords (completeRecord (newRecordId env) item d2)
      = idempotencyRecords db @ [?n\<lparr>ir_status := COMPLETED, responsePayload := Some item\<rparr>]"
    using rec c(4) by (simp add: completeRecord_def update_rows_def old [unfolded update_rows_def]) (simp add: new_idempotency_record_def)
  then show ?thesis
    using none t by (simp add: findRecord_def find_append new_idempotency_record_def)
qed

lemma completed_order_answered:
  assumes "createOrder env rq w = (Inr item, w')" and "idempotency_answer env rq (ow_db w) = None"
    and "co_userId again = co_userId rq" and "co_idempotencyKey again = co_idempotencyKey rq"
    and "validateCreateOrderRequest again = Inr terms" and "clock later_env < clock env + 24 * 60 * 60 * 1000"
  shows "createOrder later_env again (w'\<lparr>ow_book := book, ow_accounts := accs\<rparr>) = (Inr item, w'\<lparr>ow_book := book, ow_accounts := accs\<rparr>)"
proof -
  obtain price amount d1 x d2 where
    cr: "createRecord (new_idempotency_record env rq) (ow_db w) = Inr (new_idempotency_record env rq, d1)"
    and tx: "create_order_tx env rq price amount d1 (ow_book w) = (Inr x, d2, ow_book w')"
    and db: "ow_db w' = completeRecord (newRecordId env) item d2"
    using createOrder_Inr [OF assms(1,2)] by metis
  from completed_record_found [OF cr create_order_tx_records [OF tx] assms(6), of item]
  obtain r where "findRecord (co_userId again) ''CREATE_ORDER'' (co_idempotencyKey again) (clock later_env) (ow_db w') = Some r"
    "ir_status r = COMPLETED" "responsePayload r = Some item" by (auto simp: db assms(3,4))
  then have "idempotency_answer later_env again (ow_db w') = Some (Inr item)" by (simp add: idempotency_answer_def)
  with assms(5) show ?thesis by (cases terms) (simp add: createOrder_def)
qed

text \<open>
  Creating is idempotent: within a day, any later valid request of the same user with the
  same idempotency key answers the order that was created first and changes nothing: no second
  order, no second reservation, whatever has become of the state of the book or of the accounts
  service (the repeated request may even ask for something else: a completed key is answered
  before the hashes are compared).
\<close>

theorem create_order_is_idempotent:
  assumes "createOrder env rq w = (Inr item, w')" and "idempotency_answer env rq (ow_db w) = None"
    and "co_userId again = co_userId rq" and "co_idempotencyKey again = co_idempotencyKey rq"
    and "validateCreateOrderRequest again = Inr terms" and "clock later_env < clock env + 24 * 60 * 60 * 1000"
  shows "createOrder later_env again (w'\<lparr>ow_book := book, ow_accounts := accs\<rparr>) = (Inr item, w'\<lparr>ow_book := book, ow_accounts := accs\<rparr>)"
  using completed_order_answered [OF assms] .

lemma createOrder_Inl_record:
  assumes run: "createOrder env rq w = (Inl e, w')" and v: "validateCreateOrderRequest rq = Inr (price, amount)"
    and ans: "idempotency_answer env rq (ow_db w) = None"
    and cr: "createRecord (new_idempotency_record env rq) (ow_db w) = Inr (idem, d1)"
  shows "idempotencyRecords (ow_db w')
    = idempotencyRecords (ow_db w) @ [(new_idempotency_record env rq)\<lparr>ir_status := IDEMPOTENCY_FAILED\<rparr>]"
proof -
  let ?n = "new_idempotency_record env rq"
  note c = createRecord_Inr [OF cr]
  have fail: "idempotencyRecords (failRecord (ir_id idem) d) = idempotencyRecords (ow_db w) @ [?n\<lparr>ir_status := IDEMPOTENCY_FAILED\<rparr>]"
    if "idempotencyRecords d = idempotencyRecords d1" for d
  proof -
    have "update_rows (\<lambda>x. ir_id x = ir_id ?n) f (idempotencyRecords (ow_db w)) = idempotencyRecords (ow_db w)" for f
      using c(5) by (intro update_rows_none) (auto simp: new_idempotency_record_def image_iff)
    with that c(1,4) show ?thesis by (simp add: failRecord_def update_rows_def)
  qed
  obtain rl a1 where lk: "lock_rpc env (reserve_request ''lock:'' (co_userId rq) (lock_currency (co_pair rq) (co_side rq))
      (lock_amount (oe_toFixed env) (co_side rq) price amount) (co_idempotencyKey rq) (co_idempotencyKey rq)) (ow_accounts w) = (rl, a1)" by force
  obtain rt d2 b2 where tx: "create_order_tx env rq price amount d1 (ow_book w) = (rt, d2, b2)" using prod_cases3 by blast
  show ?thesis
  proof (cases rl)
    case (Inl err)
    with run v ans cr lk fail [of d1] show ?thesis by (auto simp: createOrder_def Let_def)
  next
    case (Inr b)
    with run v ans cr lk tx have "\<exists>e'. rt = Inl e'" by (cases rt) (auto simp: createOrder_def Let_def)
    with run v ans cr lk Inr tx fail [of d2] create_order_tx_records [OF tx] show ?thesis
      by (auto simp: createOrder_def Let_def split: prod.splits)
  qed
qed

text \<open>
  A failed order cannot be retried: once a run that has stored its idempotency record fails,
  the same request with the same key is never carried out again; not even after the record has
  expired, because the unique index does not know the expiry. Every retry ends in the database's
  unique violation, without having reserved anything.
\<close>

theorem failed_order_key_is_burnt:
  assumes "createOrder env rq w = (Inl e, w')" and "validateCreateOrderRequest rq = Inr terms"
    and "idempotency_answer env rq (ow_db w) = None"
    and "createRecord (new_idempotency_record env rq) (ow_db w) = Inr (idem, d1)"
    and "requestHashOf retry rq = requestHashOf env rq" and "length (requestHashOf env rq) \<le> 64"
  shows "createOrder retry rq w' = (Inl unique_violation, w')"
proof -
  let ?r = "(new_idempotency_record env rq)\<lparr>ir_status := IDEMPOTENCY_FAILED\<rparr>"
  obtain price amount where v: "validateCreateOrderRequest rq = Inr (price, amount)" using assms(2) by (cases terms) simp
  have recs: "idempotencyRecords (ow_db w') = idempotencyRecords (ow_db w) @ [?r]"
    by (rule createOrder_Inl_record [OF assms(1) v assms(3,4)])
  note c = createRecord_Inr [OF assms(4)]
  have "List.find (\<lambda>x. ir_userId x = co_userId rq \<and> ir_operation x = ''CREATE_ORDER'' \<and> ir_key x = co_idempotencyKey rq
      \<and> clock retry < ir_expiresAt x) (idempotencyRecords (ow_db w)) = None"
    using c(6) by (auto simp: find_None_iff new_idempotency_record_def)
  then have "idempotency_answer retry rq (ow_db w') = None"
    using assms(5) by (auto simp: idempotency_answer_def findRecord_def recs find_append new_idempotency_record_def)
  moreover have "length (co_idempotencyKey rq) \<le> 128"
    using assms(4) by (auto simp: createRecord_def new_idempotency_record_def split: if_splits)
  then have "createRecord (new_idempotency_record retry rq) (ow_db w') = Inl unique_violation"
    using assms(5,6) by (auto simp: createRecord_def recs new_idempotency_record_def unique_violation_def)
  ultimately show ?thesis using v by (simp add: createOrder_def)
qed

end
