(* ===== verification/Matching_Inv.thy ===== *)
theory Matching_Inv
  imports Matching
begin

text \<open>
  The invariant of the exchange: every stored order adds up, and the order book holds exactly
  the active orders of the database, with their remaining amounts and prices.
\<close>

section \<open>Consistent orders and a synchronised book\<close>

definition order_ok :: "order \<Rightarrow> bool" where
  "order_ok x \<longleftrightarrow>
     filledAmount x + remainingAmount x = ord_amount x \<and> 0 \<le> filledAmount x \<and> 0 \<le> remainingAmount x
     \<and> 0 < ord_amount x \<and> 0 < ord_price x \<and> numeric_28_8 (ord_amount x) \<and> numeric_28_8 (ord_price x) \<and> ord_id x \<noteq> []
     \<and> (case ord_status x of
          OPEN \<Rightarrow> filledAmount x = 0
        | PARTIALLY_FILLED \<Rightarrow> 0 < filledAmount x \<and> 0 < remainingAmount x
        | FILLED \<Rightarrow> remainingAmount x = 0
        | CANCELLED \<Rightarrow> 0 < remainingAmount x
        | _ \<Rightarrow> False)"

definition orders_ok :: "orders_db \<Rightarrow> bool" where
  "orders_ok db \<longleftrightarrow> distinct (map ord_id (orders db)) \<and> (\<forall>x\<in>set (orders db). order_ok x)"

definition active_in :: "uuid set \<Rightarrow> orders_db \<Rightarrow> order set" where
  "active_in skip db = {x \<in> set (orders db). active_status (ord_status x) \<and> ord_id x \<notin> skip}"

definition book_sync :: "valkey_api \<Rightarrow> uuid set \<Rightarrow> orders_db \<Rightarrow> valkey \<Rightarrow> bool" where
  "book_sync api skip db book \<longleftrightarrow>
     (\<forall>side pair. distinct (map fst (zsets book (side, pair)))
        \<and> set (zsets book (side, pair)) =
            (\<lambda>x. (ord_id x, toNumber api (ord_price x))) ` {x \<in> active_in skip db. ord_side x = side \<and> ord_pair x = pair})
     \<and> (\<forall>x\<in>active_in skip db. hashes book (ord_id x) = Some (Fields (entry_of x)))"

lemma active_status_simps [simp]:
  "active_status OPEN" "active_status PARTIALLY_FILLED" "\<not> active_status FILLED" "\<not> active_status CANCELLED"
  "\<not> active_status order_status.PENDING" "\<not> active_status REJECTED"
  by (simp_all add: active_status_def)

lemma order_ok_active: "order_ok x \<Longrightarrow> active_status (ord_status x) \<Longrightarrow> 0 < remainingAmount x"
  by (auto simp: order_ok_def active_status_def)

lemma order_ok_numeric: "order_ok x \<Longrightarrow> numeric_order x"
  by (auto simp: order_ok_def numeric_order_def numeric_28_8_def)

lemma entry_of_simps [simp]:
  "be_orderId (entry_of x) = ord_id x" "be_userId (entry_of x) = ord_userId x" "be_pair (entry_of x) = ord_pair x"
  "be_side (entry_of x) = ord_side x" "be_price (entry_of x) = ord_price x"
  "be_remainingAmount (entry_of x) = remainingAmount x" "be_amount (entry_of x) = ord_amount x"
  by (simp_all add: entry_of_def)

section \<open>Executions\<close>

definition executed :: "amount \<Rightarrow> amount \<Rightarrow> order_status \<Rightarrow> time \<Rightarrow> order \<Rightarrow> order" where
  "executed f r s now x = x\<lparr>filledAmount := f, remainingAmount := r, ord_status := s, ord_updatedAt := now\<rparr>"

lemma executed_simps [simp]:
  "ord_id (executed f r s now x) = ord_id x" "ord_userId (executed f r s now x) = ord_userId x"
  "ord_pair (executed f r s now x) = ord_pair x" "ord_side (executed f r s now x) = ord_side x"
  "ord_price (executed f r s now x) = ord_price x" "ord_amount (executed f r s now x) = ord_amount x"
  "filledAmount (executed f r s now x) = f" "remainingAmount (executed f r s now x) = r"
  "ord_status (executed f r s now x) = s"
  "entry_of (executed f r s now x) = (entry_of x)\<lparr>be_remainingAmount := r\<rparr>"
  by (simp_all add: executed_def entry_of_def)

definition execute_row :: "uuid \<Rightarrow> amount \<Rightarrow> amount \<Rightarrow> order_status \<Rightarrow> time \<Rightarrow> orders_db \<Rightarrow> orders_db" where
  "execute_row i f r s now db = db\<lparr>orders := update_rows (\<lambda>x. ord_id x = i) (executed f r s now) (orders db)\<rparr>"

lemma find_order: "distinct (map ord_id (orders db)) \<Longrightarrow> x \<in> set (orders db) \<Longrightarrow> findById (ord_id x) db = Some x"
  by (simp add: findById_def find_key_Some)

lemma updateExecution_eq:
  assumes "distinct (map ord_id (orders db))" and "x \<in> set (orders db)" and "numeric_order (executed f r s now x)"
  shows "updateExecution (ord_id x) f r s now db = Inr (Some (executed f r s now x), execute_row (ord_id x) f r s now db)"
proof -
  have f: "(\<lambda>x. x\<lparr>filledAmount := f, remainingAmount := r, ord_status := s, ord_updatedAt := now\<rparr>) = executed f r s now"
    by (simp add: executed_def fun_eq_iff)
  have "List.find (\<lambda>y. ord_id y = ord_id x) (orders db) = Some x" using assms(1,2) by (rule find_key_Some)
  with assms(3) show ?thesis unfolding updateExecution_def f by (simp add: update_order_def execute_row_def)
qed

lemma execute_row_ids [table_simps]: "map ord_id (orders (execute_row i f r s now db)) = map ord_id (orders db)"
  by (simp add: execute_row_def map_update_rows)

lemma execute_row_set:
  assumes "x \<in> set (orders db)" and "distinct (map ord_id (orders db))"
  shows "set (orders (execute_row (ord_id x) f r s now db))
    = insert (executed f r s now x) {y \<in> set (orders db). ord_id y \<noteq> ord_id x}"
  using assms by (auto simp: execute_row_def set_update_rows dest: distinct_key_eq)

lemma orders_ok_execute:
  assumes "orders_ok db" and "x \<in> set (orders db)" and "order_ok (executed f r s now x)"
  shows "orders_ok (execute_row (ord_id x) f r s now db)"
  using assms execute_row_set [of x db f r s now] by (auto simp: orders_ok_def table_simps)

lemma active_execute:
  assumes "orders_ok db" and "x \<in> set (orders db)"
  shows "active_in skip (execute_row (ord_id x) f r s now db) =
    {y \<in> active_in skip db. ord_id y \<noteq> ord_id x}
    \<union> (if active_status s \<and> ord_id x \<notin> skip then {executed f r s now x} else {})"
  using assms execute_row_set [of x db f r s now] by (auto simp: orders_ok_def active_in_def)

lemma active_id_eq:
  "orders_ok db \<Longrightarrow> x \<in> active_in skip db \<Longrightarrow> y \<in> active_in skip' db \<Longrightarrow> ord_id x = ord_id y \<Longrightarrow> x = y"
  by (auto simp: orders_ok_def active_in_def dest: distinct_key_eq)

section \<open>The book follows the database\<close>

text \<open>The members of one sorted set, as the database has them.\<close>

definition level_of :: "valkey_api \<Rightarrow> order \<Rightarrow> uuid \<times> rat" where
  "level_of api x = (ord_id x, toNumber api (ord_price x))"

definition on_side :: "order_side \<Rightarrow> string \<Rightarrow> order set \<Rightarrow> order set" where
  "on_side side pair X = {x \<in> X. ord_side x = side \<and> ord_pair x = pair}"

lemma book_sync_iff:
  "book_sync api skip db book \<longleftrightarrow>
     (\<forall>side pair. distinct (map fst (zsets book (side, pair)))
        \<and> set (zsets book (side, pair)) = level_of api ` on_side side pair (active_in skip db))
     \<and> (\<forall>x\<in>active_in skip db. hashes book (ord_id x) = Some (Fields (entry_of x)))"
  by (simp add: book_sync_def level_of_def on_side_def)

lemma level_of_executed [simp]: "level_of api (executed f r s now x) = level_of api x"
  by (simp add: level_of_def)

lemma on_side_mem: "x \<in> on_side side pair X \<longleftrightarrow> x \<in> X \<and> ord_side x = side \<and> ord_pair x = pair"
  by (simp add: on_side_def)

lemma level_filter: "{y \<in> level_of api ` X. fst y \<noteq> i} = level_of api ` {x \<in> X. ord_id x \<noteq> i}"
  by (simp add: Compr_image_eq level_of_def)

lemma on_side_filter: "on_side side pair {y \<in> X. P y} = {y \<in> on_side side pair X. P y}"
  by (auto simp: on_side_def)

lemma zrem_simps [simp]:
  "distinct (map fst z) \<Longrightarrow> distinct (map fst (zrem m z))"
  "set (zrem m z) = {y \<in> set z. fst y \<noteq> m}"
  by (auto simp: zrem_def distinct_map inj_on_def)

lemma book_sync_remove:
  assumes sync: "book_sync api skip db book" and ok: "orders_ok db" and x: "x \<in> active_in skip db"
    and s: "\<not> active_status s"
  shows "book_sync api skip (execute_row (ord_id x) f r s now db)
           (removeOrder (ord_id x) (ord_pair x) (ord_side x) book)"
proof -
  let ?book = "removeOrder (ord_id x) (ord_pair x) (ord_side x) book"
  have xm: "x \<in> set (orders db)" using x by (simp add: active_in_def)
  have act: "active_in skip (execute_row (ord_id x) f r s now db) = {y \<in> active_in skip db. ord_id y \<noteq> ord_id x}"
    using active_execute [OF ok xm] s by simp
  have z: "set (zsets book (side, pair)) = level_of api ` on_side side pair (active_in skip db)"
    and d: "distinct (map fst (zsets book (side, pair)))" for side pair using sync by (simp_all add: book_sync_iff)
  have xy: "ord_side y = ord_side x \<and> ord_pair y = ord_pair x" if "y \<in> active_in skip db" "ord_id y = ord_id x" for y
    using active_id_eq [OF ok that(1) x that(2)] by simp
  have "set (zsets ?book (side, pair)) = level_of api ` on_side side pair {y \<in> active_in skip db. ord_id y \<noteq> ord_id x}"
    for side pair
  proof (cases "(side, pair) = (ord_side x, ord_pair x)")
    case True
    then have "set (zsets ?book (side, pair)) = {y \<in> set (zsets book (side, pair)). fst y \<noteq> ord_id x}"
      by (simp add: removeOrder_def)
    then show ?thesis by (simp only: z level_filter on_side_filter)
  next
    case False
    then have "on_side side pair {y \<in> active_in skip db. ord_id y \<noteq> ord_id x} = on_side side pair (active_in skip db)"
      using xy by (auto simp: on_side_def)
    moreover have "zsets ?book (side, pair) = zsets book (side, pair)" using False by (auto simp: removeOrder_def)
    ultimately show ?thesis by (simp only: z)
  qed
  moreover have "distinct (map fst (zsets ?book (side, pair)))" for side pair
    using d by (simp add: removeOrder_def)
  ultimately show ?thesis
    using sync unfolding book_sync_iff act by (auto simp: removeOrder_def)
qed

lemma book_sync_update:
  assumes sync: "book_sync api skip db book" and ok: "orders_ok db" and x: "x \<in> active_in skip db"
    and s: "active_status s"
  shows "book_sync api skip (execute_row (ord_id x) f r s now db) (updateRemainingAmount (ord_id x) r book)"
proof -
  have xm: "x \<in> set (orders db)" and xs: "ord_id x \<notin> skip" using x by (simp_all add: active_in_def)
  let ?x = "executed f r s now x"
  have act: "active_in skip (execute_row (ord_id x) f r s now db) = insert ?x {y \<in> active_in skip db. ord_id y \<noteq> ord_id x}"
    using active_execute [OF ok xm] s xs by simp
  have same: "y = x" if "y \<in> active_in skip db" "ord_id y = ord_id x" for y
    using active_id_eq [OF ok that(1) x that(2)] .
  have split: "active_in skip db = insert x {y \<in> active_in skip db. ord_id y \<noteq> ord_id x}"
    using x by (auto dest: same)
  have ins: "on_side side pair (insert y X) = (if ord_side y = side \<and> ord_pair y = pair then insert y (on_side side pair X)
      else on_side side pair X)" for side pair y X by (auto simp: on_side_def)
  have "level_of api ` on_side side pair (insert ?x {y \<in> active_in skip db. ord_id y \<noteq> ord_id x})
     = level_of api ` on_side side pair (insert x {y \<in> active_in skip db. ord_id y \<noteq> ord_id x})" for side pair
    unfolding ins by simp
  then have img: "level_of api ` on_side side pair (insert ?x {y \<in> active_in skip db. ord_id y \<noteq> ord_id x})
     = level_of api ` on_side side pair (active_in skip db)" for side pair
    by (simp only: split [symmetric])
  have h: "hashes book (ord_id x) = Some (Fields (entry_of x))" using sync x by (simp add: book_sync_def)
  have z: "zsets (updateRemainingAmount (ord_id x) r book) = zsets book" by (simp add: updateRemainingAmount_def)
  show ?thesis
    using sync h unfolding book_sync_iff act img z by (auto simp: updateRemainingAmount_def)
qed

lemma zadd_simps:
  assumes "distinct (map fst z)" and "m \<notin> fst ` set z"
  shows "distinct (map fst (zadd m s z))" and "set (zadd m s z) = insert (m, s) (set z)"
  using assms by (auto simp: zadd_def image_iff)

lemma book_sync_add:
  assumes sync: "book_sync api {ord_id x} db book" and ok: "orders_ok db" and x: "x \<in> active_in {} db"
  shows "book_sync api {} db (addOrder api (entry_of x) book)"
proof -
  let ?book = "addOrder api (entry_of x) book"
  have same: "y = x" if "y \<in> active_in {} db" "ord_id y = ord_id x" for y
    using active_id_eq [OF ok that(1) x that(2)] .
  have act: "active_in {} db = insert x (active_in {ord_id x} db)"
    using x same by (auto simp: active_in_def)
  have new: "ord_id y \<noteq> ord_id x" if "y \<in> active_in {ord_id x} db" for y using that by (simp add: active_in_def)
  have z: "set (zsets book (side, pair)) = level_of api ` on_side side pair (active_in {ord_id x} db)"
    and d: "distinct (map fst (zsets book (side, pair)))" for side pair using sync by (simp_all add: book_sync_iff)
  have fresh: "ord_id x \<notin> fst ` set (zsets book (side, pair))" for side pair
    unfolding z by (auto simp: level_of_def on_side_def active_in_def)
  have "distinct (map fst (zsets ?book (side, pair)))" for side pair
    using zadd_simps(1) [OF d fresh] d by (simp add: addOrder_def Let_def)
  moreover have "set (zsets ?book (side, pair)) = level_of api ` on_side side pair (insert x (active_in {ord_id x} db))"
    for side pair
  proof (cases "(side, pair) = (ord_side x, ord_pair x)")
    case True
    then have "set (zsets ?book (side, pair)) = insert (level_of api x) (set (zsets book (side, pair)))"
      using zadd_simps(2) [OF d fresh] by (simp add: addOrder_def Let_def level_of_def)
    with True show ?thesis unfolding z by (auto simp: on_side_def)
  next
    case False
    then have "set (zsets ?book (side, pair)) = set (zsets book (side, pair))"
      by (auto simp: addOrder_def Let_def)
    with False show ?thesis unfolding z by (auto simp: on_side_def)
  qed
  ultimately show ?thesis
    using sync new unfolding book_sync_iff act by (auto simp: addOrder_def Let_def)
qed

end
