(* ===== verification/Matching_Loop.thy ===== *)
theory Matching_Loop
  imports Matching_Inv "HOL-Library.Sublist"
begin

text \<open>
  What a run of the matching engine does, as a list of fills: which makers it hit, for how much,
  and that database and book are updated accordingly.
\<close>

section \<open>Fills\<close>

type_synonym fill = "orderbook_entry \<times> amount"

definition total_fill :: "fill list \<Rightarrow> amount" where
  "total_fill fills = sum_list (map snd fills)"

definition fill_of :: "uuid \<Rightarrow> fill list \<Rightarrow> amount" where
  "fill_of i fills = sum_list (map snd (filter (\<lambda>f. be_orderId (fst f) = i) fills))"

lemma total_fill_simps [simp]: "total_fill [] = 0" "total_fill (f # fs) = snd f + total_fill fs"
  by (simp_all add: total_fill_def)

lemma fill_of_simps [simp]:
  "fill_of i [] = 0" "fill_of i (f # fs) = (if be_orderId (fst f) = i then snd f + fill_of i fs else fill_of i fs)"
  by (simp_all add: fill_of_def)

lemma fill_of_absent: "i \<notin> be_orderId ` fst ` set fs \<Longrightarrow> fill_of i fs = 0"
  by (induction fs) auto

definition maker_entry :: "orders_db \<Rightarrow> order \<Rightarrow> orderbook_entry \<Rightarrow> bool" where
  "maker_entry db taker m \<longleftrightarrow>
     (\<exists>x\<in>active_in {ord_id taker} db. entry_of x = m \<and> ord_side x = opposite (ord_side taker) \<and> ord_pair x = ord_pair taker)"

definition makers_ok :: "orders_db \<Rightarrow> order \<Rightarrow> orderbook_entry list \<Rightarrow> bool" where
  "makers_ok db taker makers \<longleftrightarrow> distinct (map be_orderId makers) \<and> (\<forall>m\<in>set makers. maker_entry db taker m)"

definition crossing :: "order \<Rightarrow> orderbook_entry \<Rightarrow> bool" where
  "crossing taker m \<longleftrightarrow> be_userId m \<noteq> ord_userId taker \<and> price_match taker m"

text \<open>
  The fills of a run that leaves \<open>remaining\<close> of the taker: in the order of the book, each within
  what the maker had; when something is left, every crossing maker of the list was used up.
\<close>

definition fills_ok :: "order \<Rightarrow> orderbook_entry list \<Rightarrow> fill list \<Rightarrow> amount \<Rightarrow> bool" where
  "fills_ok taker makers fills remaining \<longleftrightarrow>
     subseq (map fst fills) makers
     \<and> (\<forall>f\<in>set fills. crossing taker (fst f) \<and> 0 < snd f \<and> snd f \<le> be_remainingAmount (fst f))
     \<and> (remaining \<noteq> 0 \<longrightarrow> (\<forall>m\<in>set makers. crossing taker m \<longrightarrow> (m, be_remainingAmount m) \<in> set fills))"

definition best_first :: "order \<Rightarrow> orderbook_entry list \<Rightarrow> bool" where
  "best_first taker makers \<longleftrightarrow> sorted_wrt (\<lambda>a b. price_match taker b \<longrightarrow> price_match taker a) makers"

definition same_terms :: "order \<Rightarrow> order \<Rightarrow> bool" where
  "same_terms x y \<longleftrightarrow>
     ord_id y = ord_id x \<and> ord_userId y = ord_userId x \<and> ord_pair y = ord_pair x \<and> ord_side y = ord_side x
     \<and> ord_type y = ord_type x \<and> ord_price y = ord_price x \<and> ord_amount y = ord_amount x
     \<and> ord_idempotencyKey y = ord_idempotencyKey x \<and> ord_createdAt y = ord_createdAt x"

lemma same_terms_refl [simp]: "same_terms x x"
  by (simp add: same_terms_def)

lemma same_terms_trans: "same_terms x y \<Longrightarrow> same_terms y z \<Longrightarrow> same_terms x z"
  by (simp add: same_terms_def)

lemma same_terms_executed [simp]: "same_terms x (executed f r s now x)"
  by (simp add: same_terms_def executed_def)

text \<open>The rows after some fills: everyone but the makers as before, the makers filled further.\<close>

definition filled_rows :: "orders_db \<Rightarrow> fill list \<Rightarrow> orders_db \<Rightarrow> bool" where
  "filled_rows db fills db' \<longleftrightarrow>
     map ord_id (orders db') = map ord_id (orders db)
     \<and> idempotencyRecords db' = idempotencyRecords db \<and> outboxEvents db' = outboxEvents db
     \<and> (\<forall>x\<in>set (orders db). \<exists>y\<in>set (orders db').
          same_terms x y \<and> filledAmount y = filledAmount x + fill_of (ord_id x) fills
          \<and> (fill_of (ord_id x) fills = 0 \<longrightarrow> y = x))"

lemma filled_rows_refl: "filled_rows db [] db"
  by (auto simp: filled_rows_def)

section \<open>One maker\<close>

definition after_maker :: "(nat \<Rightarrow> uuid) \<Rightarrow> time \<Rightarrow> order \<Rightarrow> order \<Rightarrow> match_state \<Rightarrow> match_state" where
  "after_maker newTradeId now taker x st =
     (let q = min (takerRemaining st) (remainingAmount x);
          s = (if remainingAmount x - q = 0 then FILLED else PARTIALLY_FILLED)
      in st\<lparr>ms_db := execute_row (ord_id x) (filledAmount x + q) (remainingAmount x - q) s now (ms_db st),
            ms_book := (if s = FILLED then removeOrder (ord_id x) (ord_pair x) (ord_side x) (ms_book st)
                        else updateRemainingAmount (ord_id x) (remainingAmount x - q) (ms_book st)),
            takerRemaining := takerRemaining st - q, takerFilled := takerFilled st + q,
            makerOrdersUpdated := makerOrdersUpdated st @ [executed (filledAmount x + q) (remainingAmount x - q) s now x],
            trades := trades st @ [match_trade (newTradeId (length (trades st))) taker (entry_of x) q]\<rparr>)"

lemma executed_order_ok:
  assumes "order_ok x" and "active_status (ord_status x)" and "0 < q" and "q \<le> remainingAmount x"
  shows "order_ok (executed (filledAmount x + q) (remainingAmount x - q)
     (if remainingAmount x - q = 0 then FILLED else PARTIALLY_FILLED) now x)"
  using assms by (auto simp: order_ok_def)

lemma match_maker_eq:
  assumes ok: "orders_ok (ms_db st)" and x: "x \<in> active_in {ord_id taker} (ms_db st)"
    and side: "ord_side x = opposite (ord_side taker)" and rem: "0 < takerRemaining st"
  shows "match_maker newTradeId now taker (entry_of x) st = (Inr (), after_maker newTradeId now taker x st)"
proof -
  let ?q = "min (takerRemaining st) (remainingAmount x)"
  have xm: "x \<in> set (orders (ms_db st))" "active_status (ord_status x)" using x by (simp_all add: active_in_def)
  have d: "distinct (map ord_id (orders (ms_db st)))" and ox: "order_ok x" using ok xm by (simp_all add: orders_ok_def)
  have "0 < ?q" using rem order_ok_active [OF ox xm(2)] by simp
  from order_ok_numeric [OF executed_order_ok [OF ox xm(2) this]]
  have "numeric_order (executed (filledAmount x + ?q) (remainingAmount x - ?q)
     (if remainingAmount x - ?q = 0 then FILLED else PARTIALLY_FILLED) now x)" by simp
  note upd = updateExecution_eq [OF d xm(1) this]
  have opp: "(if ord_side taker = BUY then SELL else BUY) = ord_side x"
    using side by (cases "ord_side taker") (simp_all add: opposite_def)
  show ?thesis
    unfolding match_maker_def after_maker_def opp Let_def entry_of_simps find_order [OF d xm(1)] option.case upd
    by simp
qed

lemma after_maker_sync:
  assumes ok: "orders_ok (ms_db st)" and sync: "book_sync api {ord_id taker} (ms_db st) (ms_book st)"
    and x: "x \<in> active_in {ord_id taker} (ms_db st)" and rem: "0 < takerRemaining st"
  shows "orders_ok (ms_db (after_maker newTradeId now taker x st))"
    and "book_sync api {ord_id taker} (ms_db (after_maker newTradeId now taker x st))
           (ms_book (after_maker newTradeId now taker x st))"
proof -
  let ?q = "min (takerRemaining st) (remainingAmount x)"
  have xm: "x \<in> set (orders (ms_db st))" "active_status (ord_status x)" using x by (simp_all add: active_in_def)
  have ox: "order_ok x" using ok xm by (simp add: orders_ok_def)
  have "0 < ?q" using rem order_ok_active [OF ox xm(2)] by simp
  from executed_order_ok [OF ox xm(2) this] orders_ok_execute [OF ok xm(1)]
  show "orders_ok (ms_db (after_maker newTradeId now taker x st))" by (simp add: after_maker_def Let_def)
  show "book_sync api {ord_id taker} (ms_db (after_maker newTradeId now taker x st))
           (ms_book (after_maker newTradeId now taker x st))"
    using book_sync_remove [OF sync ok x] book_sync_update [OF sync ok x] by (simp add: after_maker_def Let_def)
qed

lemma filled_rows_step:
  assumes ok: "orders_ok db" and x: "x \<in> set (orders db)" and q: "0 < q"
    and nn: "\<forall>f\<in>set fills. 0 < snd f"
    and rest: "filled_rows (execute_row (ord_id x) (filledAmount x + q) r s now db) fills db'"
  shows "filled_rows db ((entry_of x, q) # fills) db'"
proof -
  have d: "distinct (map ord_id (orders db))" using ok by (simp add: orders_ok_def)
  let ?db = "execute_row (ord_id x) (filledAmount x + q) r s now db"
  have pos: "0 \<le> fill_of i fills" for i
    using nn by (induction fills) (auto intro: add_nonneg_nonneg less_imp_le)
  have "\<exists>z\<in>set (orders db'). same_terms y z \<and> filledAmount z = filledAmount y + fill_of (ord_id y) ((entry_of x, q) # fills)
      \<and> (fill_of (ord_id y) ((entry_of x, q) # fills) = 0 \<longrightarrow> z = y)" if y: "y \<in> set (orders db)" for y
  proof (cases "ord_id y = ord_id x")
    case True
    with d x y have yx: "y = x" by (auto dest: distinct_key_eq)
    have "executed (filledAmount x + q) r s now x \<in> set (orders ?db)" using execute_row_set [OF x d] by simp
    with rest obtain z where "z \<in> set (orders db')" "same_terms (executed (filledAmount x + q) r s now x) z"
      "filledAmount z = filledAmount x + q + fill_of (ord_id x) fills"
      unfolding filled_rows_def by force
    then show ?thesis
      using yx q pos [of "ord_id x"] same_terms_trans [OF same_terms_executed] by (intro bexI [of _ z]) auto
  next
    case False
    with y have "y \<in> set (orders ?db)" using execute_row_set [OF x d] by simp
    with rest False show ?thesis unfolding filled_rows_def by auto
  qed
  with rest show ?thesis
    by (auto simp: filled_rows_def table_simps) (simp_all add: execute_row_def)
qed

section \<open>The loop\<close>

definition trades_of :: "(nat \<Rightarrow> uuid) \<Rightarrow> nat \<Rightarrow> order \<Rightarrow> fill list \<Rightarrow> matched_trade list" where
  "trades_of newTradeId start taker fills =
     map (\<lambda>n. match_trade (newTradeId (start + n)) taker (fst (fills ! n)) (snd (fills ! n))) [0..<length fills]"

lemma trades_of_Nil [simp]: "trades_of newTradeId start taker [] = []"
  by (simp add: trades_of_def)

lemma trades_of_Cons [simp]:
  "trades_of newTradeId start taker (f # fills) =
     match_trade (newTradeId start) taker (fst f) (snd f) # trades_of newTradeId (Suc start) taker fills"
  by (simp add: trades_of_def map_upt_Suc del: upt_Suc)

definition loop_outcome ::
  "valkey_api \<Rightarrow> (nat \<Rightarrow> uuid) \<Rightarrow> order \<Rightarrow> orderbook_entry list \<Rightarrow> match_state \<Rightarrow> fill list \<Rightarrow> match_state \<Rightarrow> bool" where
  "loop_outcome api newTradeId taker makers st fills st' \<longleftrightarrow>
     orders_ok (ms_db st') \<and> book_sync api {ord_id taker} (ms_db st') (ms_book st') \<and> taker \<in> set (orders (ms_db st'))
     \<and> fills_ok taker makers fills (takerRemaining st') \<and> filled_rows (ms_db st) fills (ms_db st')
     \<and> 0 \<le> takerRemaining st' \<and> takerRemaining st' = takerRemaining st - total_fill fills
     \<and> takerFilled st' = takerFilled st + total_fill fills
     \<and> trades st' = trades st @ trades_of newTradeId (length (trades st)) taker fills
     \<and> sequences (ms_book st') = sequences (ms_book st)"

lemma loop_outcome_stop:
  assumes "orders_ok (ms_db st)" and "book_sync api {ord_id taker} (ms_db st) (ms_book st)"
    and "taker \<in> set (orders (ms_db st))" and "0 \<le> takerRemaining st"
    and "takerRemaining st = 0 \<or> (\<forall>m\<in>set makers. \<not> crossing taker m)"
  shows "loop_outcome api newTradeId taker makers st [] st"
  using assms by (auto simp: loop_outcome_def fills_ok_def filled_rows_refl)

lemma loop_outcome_skip:
  "loop_outcome api newTradeId taker makers st fills st' \<Longrightarrow> \<not> crossing taker m
   \<Longrightarrow> loop_outcome api newTradeId taker (m # makers) st fills st'"
  by (auto simp: loop_outcome_def fills_ok_def)

lemma total_fill_nonneg: "fills_ok taker makers fills r \<Longrightarrow> 0 \<le> total_fill fills"
proof -
  assume "fills_ok taker makers fills r"
  then have "\<forall>f\<in>set fills. 0 < snd f" by (simp add: fills_ok_def)
  then show ?thesis by (induction fills) auto
qed

lemma loop_outcome_fill:
  assumes ok: "orders_ok (ms_db st)" and x: "x \<in> active_in {ord_id taker} (ms_db st)" and rem: "0 < takerRemaining st"
    and cr: "crossing taker (entry_of x)"
    and rest: "loop_outcome api newTradeId taker makers (after_maker newTradeId now taker x st) fills st'"
  shows "loop_outcome api newTradeId taker (entry_of x # makers) st
           ((entry_of x, min (takerRemaining st) (remainingAmount x)) # fills) st'"
proof -
  let ?q = "min (takerRemaining st) (remainingAmount x)"
  let ?st = "after_maker newTradeId now taker x st"
  have xm: "x \<in> set (orders (ms_db st))" "active_status (ord_status x)" using x by (simp_all add: active_in_def)
  then have rx: "0 < remainingAmount x" using ok order_ok_active by (auto simp: orders_ok_def)
  then have q: "0 < ?q" "?q \<le> remainingAmount x" using rem by simp_all
  note r = rest [unfolded loop_outcome_def]
  have f: "fills_ok taker makers fills (takerRemaining st')" using r by blast
  have left: "takerRemaining st' = takerRemaining st - ?q - total_fill fills"
    using r by (simp add: after_maker_def Let_def)
  have "?q = remainingAmount x" if "takerRemaining st' \<noteq> 0"
  proof -
    have "0 \<le> takerRemaining st'" using r by blast
    with that left total_fill_nonneg [OF f] have "?q < takerRemaining st" by linarith
    then show ?thesis by linarith
  qed
  with f q cr have "fills_ok taker (entry_of x # makers) ((entry_of x, ?q) # fills) (takerRemaining st')"
    by (auto simp: fills_ok_def)
  moreover have "filled_rows (ms_db st) ((entry_of x, ?q) # fills) (ms_db st')"
  proof (rule filled_rows_step [OF ok xm(1) q(1)])
    show "\<forall>f\<in>set fills. 0 < snd f" using f by (simp add: fills_ok_def)
    show "filled_rows (execute_row (ord_id x) (filledAmount x + ?q) (remainingAmount x - ?q)
        (if remainingAmount x - ?q = 0 then FILLED else PARTIALLY_FILLED) now (ms_db st)) fills (ms_db st')"
      using r by (simp add: after_maker_def Let_def)
  qed
  moreover have "trades st' = trades st @ trades_of newTradeId (length (trades st)) taker ((entry_of x, ?q) # fills)"
    using r by (simp add: after_maker_def Let_def)
  moreover have "sequences (ms_book st') = sequences (ms_book st)"
    using r by (simp add: after_maker_def Let_def removeOrder_def updateRemainingAmount_def split: if_splits)
  moreover have "takerFilled st' = takerFilled st + total_fill ((entry_of x, ?q) # fills)"
    using r by (simp add: after_maker_def Let_def)
  ultimately show ?thesis using r left by (simp add: loop_outcome_def)
qed

lemma makers_ok_tail:
  assumes ok: "orders_ok (ms_db st)" and mk: "makers_ok (ms_db st) taker (entry_of x # makers)"
    and x: "x \<in> active_in {ord_id taker} (ms_db st)"
  shows "makers_ok (ms_db (after_maker newTradeId now taker x st)) taker makers"
proof -
  have xm: "x \<in> set (orders (ms_db st))" using x by (simp add: active_in_def)
  have "maker_entry (ms_db (after_maker newTradeId now taker x st)) taker m" if m: "m \<in> set makers" for m
  proof -
    from mk m obtain y where y: "y \<in> active_in {ord_id taker} (ms_db st)" "entry_of y = m"
      "ord_side y = opposite (ord_side taker)" "ord_pair y = ord_pair taker" unfolding makers_ok_def maker_entry_def by auto
    have "ord_id y \<noteq> ord_id x" using mk m y(2) by (auto simp: makers_ok_def image_iff)
    with y active_execute [OF ok xm] show ?thesis
      unfolding maker_entry_def by (auto simp: after_maker_def Let_def)
  qed
  with mk show ?thesis by (simp add: makers_ok_def)
qed

lemma match_loop_outcome:
  assumes "orders_ok (ms_db st)" and "book_sync api {ord_id taker} (ms_db st) (ms_book st)"
    and "taker \<in> set (orders (ms_db st))" and "0 \<le> takerRemaining st"
    and "makers_ok (ms_db st) taker makers" and "best_first taker makers"
  shows "\<exists>st' fills. match_loop newTradeId now taker makers st = (Inr (), st')
     \<and> loop_outcome api newTradeId taker makers st fills st'"
  using assms
proof (induction makers arbitrary: st)
  case Nil
  then show ?case using loop_outcome_stop [of st api taker "[]"] by auto
next
  case (Cons m makers)
  have mk': "makers_ok (ms_db st) taker makers" and bf': "best_first taker makers"
    using Cons.prems(5,6) by (simp_all add: makers_ok_def best_first_def)
  have "takerRemaining st = 0 \<or> 0 < takerRemaining st" using Cons.prems(4) by linarith
  then consider "takerRemaining st = 0" | "takerRemaining st \<noteq> 0" "be_userId m = ord_userId taker"
    | "takerRemaining st \<noteq> 0" "be_userId m \<noteq> ord_userId taker" "\<not> price_match taker m"
    | "0 < takerRemaining st" "crossing taker m"
    unfolding crossing_def by blast
  then show ?case
  proof cases
    case 1
    then show ?thesis using loop_outcome_stop [OF Cons.prems(1-4)] by auto
  next
    case 2
    then show ?thesis using Cons.IH [OF Cons.prems(1-4) mk' bf'] loop_outcome_skip by (fastforce simp: crossing_def)
  next
    case 3
    then have "\<forall>m'\<in>set (m # makers). \<not> crossing taker m'"
      using Cons.prems(6) by (auto simp: best_first_def crossing_def)
    then have "loop_outcome api newTradeId taker (m # makers) st [] st" using loop_outcome_stop [OF Cons.prems(1-4)] by blast
    moreover have "match_loop newTradeId now taker (m # makers) st = (Inr (), st)" using 3 by simp
    ultimately show ?thesis by blast
  next
    case 4
    from Cons.prems(5) obtain x where x: "x \<in> active_in {ord_id taker} (ms_db st)" "entry_of x = m"
      "ord_side x = opposite (ord_side taker)" by (auto simp: makers_ok_def maker_entry_def)
    let ?st = "after_maker newTradeId now taker x st"
    note step = match_maker_eq [OF Cons.prems(1) x(1,3) 4(1), of newTradeId now]
    have tk: "taker \<in> set (orders (ms_db ?st))"
      using Cons.prems(1,3) x(1) execute_row_set [of x "ms_db st"]
      by (auto simp: after_maker_def Let_def orders_ok_def active_in_def)
    have "0 \<le> takerRemaining ?st" by (simp add: after_maker_def Let_def)
    from Cons.IH [OF after_maker_sync [OF Cons.prems(1,2) x(1) 4(1)] tk this
        makers_ok_tail [OF Cons.prems(1) Cons.prems(5) [folded x(2)] x(1)] bf']
    obtain st' fills where run: "match_loop newTradeId now taker makers ?st = (Inr (), st')"
      and out: "loop_outcome api newTradeId taker makers ?st fills st'" by blast
    have "match_loop newTradeId now taker (m # makers) st = (Inr (), st')"
      using 4 run step by (simp add: crossing_def x(2) [symmetric])
    with loop_outcome_fill [OF Cons.prems(1) x(1) 4(1) _ out] 4(2) show ?thesis by (auto simp: x(2))
  qed
qed

end
