(* ===== verification/Matching_Props.thy ===== *)
theory Matching_Props
  imports Matching_Loop
begin

text \<open>
  A run of the matching engine on a consistent exchange: which makers it sees, what it leaves,
  and the properties of the trades.
\<close>

section \<open>The makers a run sees\<close>

text \<open>
  Scores are JavaScript numbers: they order prices correctly as long as no two prices of the
  exchange round to the same number.
\<close>

definition prices_distinguished :: "valkey_api \<Rightarrow> orders_db \<Rightarrow> bool" where
  "prices_distinguished api db \<longleftrightarrow>
     (\<forall>x\<in>set (orders db). \<forall>y\<in>set (orders db).
        ord_price x < ord_price y \<longrightarrow> toNumber api (ord_price x) < toNumber api (ord_price y))"

definition better_price :: "order \<Rightarrow> orderbook_entry \<Rightarrow> orderbook_entry \<Rightarrow> bool" where
  "better_price taker a b \<longleftrightarrow> (if ord_side taker = BUY then be_price a \<le> be_price b else be_price b \<le> be_price a)"

lemma set_map_filter: "set (List.map_filter f xs) = {y. \<exists>x\<in>set xs. f x = Some y}"
  by (induction xs) (auto simp: map_filter_simps split: option.split)

lemma sorted_wrt_map_filter:
  assumes "sorted_wrt P xs" and "\<And>x y a b. x \<in> set xs \<Longrightarrow> y \<in> set xs \<Longrightarrow> P x y \<Longrightarrow> f x = Some a \<Longrightarrow> f y = Some b \<Longrightarrow> Q a b"
  shows "sorted_wrt Q (List.map_filter f xs)"
  using assms
proof (induction xs)
  case (Cons x xs)
  have IH: "sorted_wrt Q (List.map_filter f xs)" using Cons by auto
  show ?case
  proof (cases "f x")
    case None
    with IH show ?thesis by (simp add: map_filter_simps)
  next
    case (Some a)
    have "Q a b" if "b \<in> set (List.map_filter f xs)" for b
    proof -
      from that obtain y where "y \<in> set xs" "f y = Some b" by (auto simp: set_map_filter)
      with Cons.prems(1) Some show ?thesis by (intro Cons.prems(2) [of x y]) auto
    qed
    with IH Some show ?thesis by (simp add: map_filter_simps)
  qed
qed (simp add: map_filter_simps)

lemma map_filter_ids:
  assumes "\<And>i. i \<in> set ids \<Longrightarrow> \<exists>e. f i = Some e \<and> g e = i"
  shows "map g (List.map_filter f ids) = ids"
  using assms
proof (induction ids)
  case (Cons i ids)
  from Cons.prems [of i] obtain e where "f i = Some e" "g e = i" by auto
  with Cons show ?case by (simp add: map_filter_simps)
qed (simp add: map_filter_simps)

lemma zscore_book:
  assumes "distinct (map fst z)" and "(i, s) \<in> set z"
  shows "zscore z i = s"
  using assms by (simp add: zscore_def map_of_eq_Some_iff)

text \<open>The side a taker is matched against: who is on it, and in which order it is read.\<close>

definition opposing_ids :: "valkey_api \<Rightarrow> order \<Rightarrow> valkey \<Rightarrow> uuid list" where
  "opposing_ids api taker book =
     zrange api (zsets book (opposite (ord_side taker), ord_pair taker)) (ord_side taker \<noteq> BUY)"

lemma getBestOpposingOrders_eq:
  "getBestOpposingOrders api (ord_pair taker) (ord_side taker) 50 book = details_of (take 50 (opposing_ids api taker book)) book"
  by (cases "ord_side taker") (simp_all add: getBestOpposingOrders_def opposing_ids_def opposite_def range_to_def Let_def)

lemma opposing_ids_props:
  assumes api: "valkey_ok api" and ok: "orders_ok db" and sync: "book_sync api {ord_id taker} db book"
    and pd: "prices_distinguished api db"
  defines "ids \<equiv> opposing_ids api taker book"
  shows "distinct ids"
    and "set ids = ord_id ` on_side (opposite (ord_side taker)) (ord_pair taker) (active_in {ord_id taker} db)"
    and "i \<in> set ids \<Longrightarrow> \<exists>x\<in>on_side (opposite (ord_side taker)) (ord_pair taker) (active_in {ord_id taker} db).
           ord_id x = i \<and> getOrderDetails i book = Some (entry_of x)"
    and "sorted_wrt (\<lambda>i j. \<forall>a b. getOrderDetails i book = Some a \<longrightarrow> getOrderDetails j book = Some b \<longrightarrow> better_price taker a b) ids"
proof -
  let ?X = "on_side (opposite (ord_side taker)) (ord_pair taker) (active_in {ord_id taker} db)"
  let ?z = "zsets book (opposite (ord_side taker), ord_pair taker)"
  have d: "distinct (map fst ?z)" and z: "set ?z = level_of api ` ?X" using sync by (simp_all add: book_sync_iff)
  have zr: "distinct (zrange api ?z False)" "set (zrange api ?z False) = fst ` set ?z"
    "sorted_wrt (\<lambda>a b. (zscore ?z a, a) < (zscore ?z b, b)) (zrange api ?z False)"
    "zrange api ?z True = rev (zrange api ?z False)"
    using api d unfolding valkey_ok_def zrange_ok_def by blast+
  show "distinct ids" unfolding ids_def opposing_ids_def using zr(1,4) by (cases "ord_side taker") auto
  have "fst ` set ?z = ord_id ` ?X" unfolding z by (simp add: image_image level_of_def)
  with zr(2,4) show ids: "set ids = ord_id ` ?X"
    unfolding ids_def opposing_ids_def by (cases "ord_side taker") auto
  have det: "getOrderDetails (ord_id x) book = Some (entry_of x)" if "x \<in> ?X" for x
  proof -
    have xa: "x \<in> active_in {ord_id taker} db" using that by (simp add: on_side_def)
    then have "ord_id x \<noteq> []" using ok by (simp add: active_in_def orders_ok_def order_ok_def)
    with sync xa show ?thesis by (simp add: book_sync_def getOrderDetails_def)
  qed
  then show "\<exists>x\<in>?X. ord_id x = i \<and> getOrderDetails i book = Some (entry_of x)" if "i \<in> set ids" for i
    using that ids by auto
  have sc: "zscore ?z (ord_id x) = toNumber api (ord_price x)" if "x \<in> ?X" for x
    using that z by (intro zscore_book [OF d]) (auto simp: level_of_def)
  have le: "be_price a \<le> be_price b"
    if ij: "i \<in> set ids" "j \<in> set ids" "(zscore ?z i, i) < (zscore ?z j, j)"
      and ab: "getOrderDetails i book = Some a" "getOrderDetails j book = Some b" for i j a b
  proof -
    from ij(1,2) ids obtain x y where xy: "x \<in> ?X" "ord_id x = i" "y \<in> ?X" "ord_id y = j" by auto
    have "toNumber api (ord_price x) \<le> toNumber api (ord_price y)"
      using ij(3) sc [OF xy(1)] sc [OF xy(3)] xy(2,4) by auto
    moreover have "x \<in> set (orders db)" "y \<in> set (orders db)" using xy by (auto simp: on_side_def active_in_def)
    ultimately have "ord_price x \<le> ord_price y"
      using pd unfolding prices_distinguished_def by (meson leD leI)
    then show ?thesis using ab det xy by auto
  qed
  have asc: "sorted_wrt (\<lambda>i j. \<forall>a b. getOrderDetails i book = Some a \<longrightarrow> getOrderDetails j book = Some b \<longrightarrow> be_price a \<le> be_price b)
      (zrange api ?z False)"
  proof (rule sorted_wrt_mono_rel [OF _ zr(3)])
    fix i j assume "i \<in> set (zrange api ?z False)" "j \<in> set (zrange api ?z False)"
      "(zscore ?z i, i) < (zscore ?z j, j)"
    moreover have "set (zrange api ?z False) = set ids"
      unfolding ids_def opposing_ids_def using zr(4) by (cases "ord_side taker") auto
    ultimately show "\<forall>a b. getOrderDetails i book = Some a \<longrightarrow> getOrderDetails j book = Some b \<longrightarrow> be_price a \<le> be_price b"
      using le by blast
  qed
  show "sorted_wrt (\<lambda>i j. \<forall>a b. getOrderDetails i book = Some a \<longrightarrow> getOrderDetails j book = Some b \<longrightarrow> better_price taker a b) ids"
  proof (cases "ord_side taker")
    case BUY
    with asc show ?thesis by (simp add: ids_def opposing_ids_def better_price_def)
  next
    case SELL
    have "ids = rev (zrange api ?z False)" unfolding ids_def opposing_ids_def using zr(4) SELL by simp
    moreover have "sorted_wrt (\<lambda>i j. \<forall>a b. getOrderDetails i book = Some a \<longrightarrow> getOrderDetails j book = Some b
        \<longrightarrow> better_price taker a b) (rev (zrange api ?z False))"
      unfolding sorted_wrt_rev by (rule sorted_wrt_mono_rel [OF _ asc]) (simp add: better_price_def SELL)
    ultimately show ?thesis by simp
  qed
qed

lemma best_opposing_props:
  assumes "valkey_ok api" and "orders_ok db" and "book_sync api {ord_id taker} db book" and "prices_distinguished api db"
  defines "makers \<equiv> getBestOpposingOrders api (ord_pair taker) (ord_side taker) 50 book"
  shows "makers_ok db taker makers" and "sorted_wrt (better_price taker) makers" and "best_first taker makers"
    and "card (on_side (opposite (ord_side taker)) (ord_pair taker) (active_in {ord_id taker} db)) \<le> 50 \<Longrightarrow>
         set makers = entry_of ` on_side (opposite (ord_side taker)) (ord_pair taker) (active_in {ord_id taker} db)"
proof -
  let ?X = "on_side (opposite (ord_side taker)) (ord_pair taker) (active_in {ord_id taker} db)"
  let ?ids = "opposing_ids api taker book"
  note p = opposing_ids_props [OF assms(1-4)]
  have m: "makers = List.map_filter (\<lambda>i. getOrderDetails i book) (take 50 ?ids)"
    unfolding makers_def getBestOpposingOrders_eq details_of_def ..
  have get: "\<exists>x\<in>?X. ord_id x = i \<and> getOrderDetails i book = Some (entry_of x)" if "i \<in> set (take 50 ?ids)" for i
    using p(3) that by (auto dest: in_set_takeD)
  have "map be_orderId makers = take 50 ?ids"
    unfolding m by (rule map_filter_ids) (use get in fastforce)
  then have d: "distinct (map be_orderId makers)" using p(1) by simp
  have "maker_entry db taker e" if "e \<in> set makers" for e
  proof -
    from that obtain i where "i \<in> set (take 50 ?ids)" "getOrderDetails i book = Some e" by (auto simp: m set_map_filter)
    with get [OF this(1)] show ?thesis by (auto simp: maker_entry_def on_side_def)
  qed
  with d show "makers_ok db taker makers" by (simp add: makers_ok_def)
  have "sorted_wrt (\<lambda>i j. \<forall>a b. getOrderDetails i book = Some a \<longrightarrow> getOrderDetails j book = Some b \<longrightarrow> better_price taker a b) (take 50 ?ids)"
    using p(4) by (rule sorted_wrt_take)
  then show sw: "sorted_wrt (better_price taker) makers"
    unfolding m by (rule sorted_wrt_map_filter) auto
  show "best_first taker makers"
    unfolding best_first_def
    by (rule sorted_wrt_mono_rel [OF _ sw]) (auto simp: better_price_def price_match_def split: if_splits)
  show "set makers = entry_of ` ?X" if c: "card ?X \<le> 50"
  proof -
    have fin: "finite ?X" by (simp add: on_side_def active_in_def)
    have "length ?ids = card (set ?ids)" using p(1) by (simp add: distinct_card)
    also have "\<dots> \<le> card ?X" unfolding p(2) by (rule card_image_le [OF fin])
    finally have "take 50 ?ids = ?ids" using c by simp
    then have mm: "set makers = {e. \<exists>i\<in>set ?ids. getOrderDetails i book = Some e}" by (auto simp: m set_map_filter)
    have det: "getOrderDetails (ord_id x) book = Some (entry_of x)" if "x \<in> ?X" for x
    proof -
      have "ord_id x \<in> set ?ids" using that p(2) by blast
      with p(3) obtain y where y: "y \<in> ?X" "ord_id y = ord_id x" "getOrderDetails (ord_id x) book = Some (entry_of y)" by blast
      then have "y = x" using that active_id_eq [OF assms(2), of y "{ord_id taker}" x "{ord_id taker}"] by (simp add: on_side_def)
      with y(3) show ?thesis by simp
    qed
    show ?thesis unfolding mm p(2) using det by (auto simp: image_iff)
  qed
qed

end
