(* ===== verification/Matching_Claims.thy ===== *)
theory Matching_Claims
  imports Matching_Props
begin

text \<open>
  The properties of the matching engine: a run always succeeds on a consistent exchange and
  leaves it consistent, quantities are conserved, every trade is fair to both sides, the best
  price goes first, and what happens when two runs read the same book.
\<close>

section \<open>A whole run\<close>

definition run_outcome ::
  "valkey_api \<Rightarrow> (nat \<Rightarrow> uuid) \<Rightarrow> order \<Rightarrow> orders_db \<Rightarrow> valkey \<Rightarrow> fill list \<Rightarrow> match_result \<Rightarrow> orders_db \<Rightarrow> valkey \<Rightarrow> bool" where
  "run_outcome api newTradeId taker db book fills res db' book' \<longleftrightarrow>
     orders_ok db' \<and> book_sync api {} db' book'
     \<and> fills_ok taker (getBestOpposingOrders api (ord_pair taker) (ord_side taker) 50 book) fills
         (remainingAmount (mr_takerOrder res))
     \<and> mr_trades res = trades_of newTradeId 0 taker fills
     \<and> mr_takerOrder res \<in> set (orders db') \<and> same_terms taker (mr_takerOrder res)
     \<and> remainingAmount (mr_takerOrder res) = remainingAmount taker - total_fill fills
     \<and> map ord_id (orders db') = map ord_id (orders db)
     \<and> idempotencyRecords db' = idempotencyRecords db \<and> outboxEvents db' = outboxEvents db
     \<and> (\<forall>x\<in>set (orders db). ord_id x \<noteq> ord_id taker \<longrightarrow>
          (\<exists>y\<in>set (orders db'). same_terms x y \<and> filledAmount y = filledAmount x + fill_of (ord_id x) fills
             \<and> (fill_of (ord_id x) fills = 0 \<longrightarrow> y = x)))"

definition fresh_taker :: "valkey_api \<Rightarrow> order \<Rightarrow> orders_db \<Rightarrow> valkey \<Rightarrow> bool" where
  "fresh_taker api taker db book \<longleftrightarrow>
     orders_ok db \<and> book_sync api {ord_id taker} db book \<and> taker \<in> set (orders db)
     \<and> ord_status taker = OPEN \<and> prices_distinguished api db"

lemma finish_match_outcome:
  assumes out: "loop_outcome api newTradeId taker makers st fills st'" and ok: "order_ok taker"
    and rem: "takerRemaining st = remainingAmount taker" "takerFilled st = filledAmount taker"
  shows "\<exists>t. finish_match api now taker st' = (Inr \<lparr>mr_takerOrder = t,
            mr_makerOrdersUpdated = makerOrdersUpdated st', mr_trades = trades st'\<rparr>,
            execute_row (ord_id taker) (takerFilled st') (takerRemaining st') (ord_status t) now (ms_db st'),
            (if takerRemaining st' \<noteq> 0 then addOrder api (entry_of t) (ms_book st') else ms_book st'))
     \<and> t = executed (takerFilled st') (takerRemaining st') (ord_status t) now taker \<and> order_ok t
     \<and> (active_status (ord_status t) \<longleftrightarrow> takerRemaining st' \<noteq> 0)"
proof -
  let ?s = "if takerRemaining st' = 0 then FILLED else if 0 < takerFilled st' then PARTIALLY_FILLED else OPEN"
  let ?t = "executed (takerFilled st') (takerRemaining st') ?s now taker"
  have l: "taker \<in> set (orders (ms_db st'))" "distinct (map ord_id (orders (ms_db st')))"
    "0 \<le> takerRemaining st'" "takerRemaining st' = remainingAmount taker - total_fill fills"
    "takerFilled st' = filledAmount taker + total_fill fills"
    using out rem by (simp_all add: loop_outcome_def orders_ok_def)
  have f: "fills_ok taker makers fills (takerRemaining st')" using out unfolding loop_outcome_def by blast
  have okt: "order_ok ?t"
    using ok l(3-5) total_fill_nonneg [OF f] by (auto simp: order_ok_def split: order_status.splits)
  have "(entry_of taker)\<lparr>be_remainingAmount := takerRemaining st'\<rparr> = entry_of ?t" by simp
  then have "finish_match api now taker st' = (Inr \<lparr>mr_takerOrder = ?t,
            mr_makerOrdersUpdated = makerOrdersUpdated st', mr_trades = trades st'\<rparr>,
            execute_row (ord_id taker) (takerFilled st') (takerRemaining st') ?s now (ms_db st'),
            (if takerRemaining st' \<noteq> 0 then addOrder api (entry_of ?t) (ms_book st') else ms_book st'))"
    unfolding finish_match_def Let_def updateExecution_eq [OF l(2,1) order_ok_numeric [OF okt]] by simp
  with okt show ?thesis by (intro exI [of _ ?t]) simp
qed

lemma executeMatch_outcome:
  assumes api: "valkey_ok api" and ft: "fresh_taker api taker db book"
  shows "\<exists>res db' book' fills. executeMatch api newTradeId now taker db book = (Inr res, db', book')
    \<and> run_outcome api newTradeId taker db book fills res db' book'"
proof -
  let ?makers = "getBestOpposingOrders api (ord_pair taker) (ord_side taker) 50 book"
  let ?st = "\<lparr>ms_db = db, ms_book = book, takerRemaining = remainingAmount taker, takerFilled = filledAmount taker,
              makerOrdersUpdated = [], trades = []\<rparr>"
  have a: "orders_ok db" "book_sync api {ord_id taker} db book" "taker \<in> set (orders db)" "prices_distinguished api db"
    using ft by (simp_all add: fresh_taker_def)
  then have okt: "order_ok taker" by (simp add: orders_ok_def)
  note bo = best_opposing_props [OF api a(1,2,4)]
  have "0 \<le> remainingAmount taker" using okt by (simp add: order_ok_def)
  then obtain st' fills where run: "match_loop newTradeId now taker ?makers ?st = (Inr (), st')"
    and out: "loop_outcome api newTradeId taker ?makers ?st fills st'"
    using match_loop_outcome [of ?st api taker ?makers newTradeId now] a bo(1,3) by auto
  from finish_match_outcome [OF out okt, of now] obtain t where
    fin: "finish_match api now taker st' = (Inr \<lparr>mr_takerOrder = t,
            mr_makerOrdersUpdated = makerOrdersUpdated st', mr_trades = trades st'\<rparr>,
            execute_row (ord_id taker) (takerFilled st') (takerRemaining st') (ord_status t) now (ms_db st'),
            (if takerRemaining st' \<noteq> 0 then addOrder api (entry_of t) (ms_book st') else ms_book st'))"
    and t: "t = executed (takerFilled st') (takerRemaining st') (ord_status t) now taker" "order_ok t"
      "active_status (ord_status t) \<longleftrightarrow> takerRemaining st' \<noteq> 0" by auto
  let ?db' = "execute_row (ord_id taker) (takerFilled st') (takerRemaining st') (ord_status t) now (ms_db st')"
  have l: "orders_ok (ms_db st')" "book_sync api {ord_id taker} (ms_db st') (ms_book st')"
    "taker \<in> set (orders (ms_db st'))" using out by (simp_all add: loop_outcome_def)
  then have dl: "distinct (map ord_id (orders (ms_db st')))" by (simp add: orders_ok_def)
  have ok': "orders_ok ?db'" using orders_ok_execute [OF l(1,3)] t(1,2) by metis
  have tid: "ord_id t = ord_id taker" by (subst t(1)) simp
  have set': "set (orders ?db') = insert t {y \<in> set (orders (ms_db st')). ord_id y \<noteq> ord_id taker}"
    using execute_row_set [OF l(3) dl] t(1) by metis
  have skip: "active_in {ord_id taker} ?db' = active_in {ord_id taker} (ms_db st')"
    using active_execute [OF l(1,3), of "{ord_id taker}"] by (auto simp: active_in_def)
  then have sync: "book_sync api {ord_id t} ?db' (ms_book st')" using l(2) by (simp add: book_sync_def tid)
  have "book_sync api {} ?db' (if takerRemaining st' \<noteq> 0 then addOrder api (entry_of t) (ms_book st') else ms_book st')"
  proof (cases "takerRemaining st' = 0")
    case True
    then have "active_in {} ?db' = active_in {ord_id t} ?db'"
      using t(3) set' tid by (auto simp: active_in_def)
    with sync True show ?thesis by (simp add: book_sync_def)
  next
    case False
    with t(3) set' have "t \<in> active_in {} ?db'" by (simp add: active_in_def)
    from book_sync_add [OF sync ok' this] False show ?thesis by simp
  qed
  moreover have "\<exists>y\<in>set (orders ?db'). same_terms x y \<and> filledAmount y = filledAmount x + fill_of (ord_id x) fills
       \<and> (fill_of (ord_id x) fills = 0 \<longrightarrow> y = x)" if "x \<in> set (orders db)" "ord_id x \<noteq> ord_id taker" for x
  proof -
    from out that obtain y where "y \<in> set (orders (ms_db st'))" "same_terms x y"
      "filledAmount y = filledAmount x + fill_of (ord_id x) fills" "fill_of (ord_id x) fills = 0 \<longrightarrow> y = x"
      unfolding loop_outcome_def filled_rows_def by auto
    with that show ?thesis by (intro bexI [of _ y]) (auto simp: set' same_terms_def)
  qed
  moreover have "same_terms taker t" "remainingAmount t = takerRemaining st'" by (subst t(1), simp)+
  moreover have f: "fills_ok taker ?makers fills (takerRemaining st')" using out unfolding loop_outcome_def by blast
  moreover have left: "takerRemaining st' = remainingAmount taker - total_fill fills" using out by (simp add: loop_outcome_def)
  moreover have "trades st' = trades_of newTradeId 0 taker fills" using out by (simp add: loop_outcome_def)
  moreover have "map ord_id (orders ?db') = map ord_id (orders db)" "idempotencyRecords ?db' = idempotencyRecords db"
    "outboxEvents ?db' = outboxEvents db"
    using out by (simp_all add: table_simps loop_outcome_def filled_rows_def) (simp_all add: execute_row_def)
  ultimately have "run_outcome api newTradeId taker db book fills
      \<lparr>mr_takerOrder = t, mr_makerOrdersUpdated = makerOrdersUpdated st', mr_trades = trades st'\<rparr> ?db'
      (if takerRemaining st' \<noteq> 0 then addOrder api (entry_of t) (ms_book st') else ms_book st')"
    using f left ok' set' by (simp add: run_outcome_def)
  moreover have "executeMatch api newTradeId now taker db book = finish_match api now taker st'"
    by (simp add: executeMatch_def match_with_def run)
  ultimately show ?thesis unfolding fin by blast
qed

section \<open>Sums over the rows\<close>

lemma rows_aligned:
  assumes ids: "map ord_id (orders db') = map ord_id (orders db)" and d: "distinct (map ord_id (orders db))"
    and g: "\<forall>x\<in>set (orders db). \<exists>y\<in>set (orders db'). ord_id y = ord_id x \<and> filledAmount y = filledAmount x + g (ord_id x)"
  shows "map filledAmount (orders db') = map (\<lambda>x. filledAmount x + g (ord_id x)) (orders db)"
proof (rule nth_equalityI)
  show len: "length (map filledAmount (orders db')) = length (map (\<lambda>x. filledAmount x + g (ord_id x)) (orders db))"
    using arg_cong [OF ids, of length] by simp
  fix n assume "n < length (map filledAmount (orders db'))"
  then have n: "n < length (orders db')" "n < length (orders db)" using len by simp_all
  from g n obtain y where y: "y \<in> set (orders db')" "ord_id y = ord_id (orders db ! n)"
    "filledAmount y = filledAmount (orders db ! n) + g (ord_id (orders db ! n))" by (meson nth_mem)
  have "ord_id (orders db' ! n) = ord_id (orders db ! n)" using arg_cong [OF ids, of "\<lambda>l. l ! n"] n by simp
  with y(1,2) n d ids have "y = orders db' ! n" by (metis distinct_key_eq nth_mem)
  with y(3) n show "map filledAmount (orders db') ! n = map (\<lambda>x. filledAmount x + g (ord_id x)) (orders db) ! n" by simp
qed

lemma sum_key:
  assumes "distinct (map k rows)" and "i \<in> k ` set rows"
  shows "sum_list (map (\<lambda>x. if k x = i then q else (0::int)) rows) = q"
proof -
  have "sum_list (map (\<lambda>x. if k x = i then q else (0::int)) rows) = 0" if "i \<notin> k ` set rows" for rows
    using that by (induction rows) auto
  then show ?thesis using assms by (induction rows) (auto simp: image_iff)
qed

lemma sum_fill_of:
  assumes "distinct (map ord_id rows)" and "\<forall>f\<in>set fills. be_orderId (fst f) \<in> ord_id ` set rows"
  shows "sum_list (map (\<lambda>x. fill_of (ord_id x) fills) rows) = total_fill fills"
  using assms(2)
proof (induction fills)
  case (Cons f fills)
  have "sum_list (map (\<lambda>x. fill_of (ord_id x) (f # fills)) rows)
    = sum_list (map (\<lambda>x. (if ord_id x = be_orderId (fst f) then snd f else 0) + fill_of (ord_id x) fills) rows)"
    by (intro arg_cong [of _ _ sum_list] map_cong) auto
  also have "\<dots> = snd f + sum_list (map (\<lambda>x. fill_of (ord_id x) fills) rows)"
    using sum_key [OF assms(1), of "be_orderId (fst f)" "snd f"] Cons.prems by (simp add: sum_list_addf)
  finally show ?case using Cons by simp
qed simp

lemma trades_of_quantity: "sum_list (map mt_quantity (trades_of newTradeId start taker fills)) = total_fill fills"
  by (induction fills arbitrary: start) (simp_all add: match_trade_def Let_def)

lemma trades_of_set: "t \<in> set (trades_of newTradeId start taker fills) \<Longrightarrow>
   \<exists>i. \<exists>f\<in>set fills. t = match_trade (newTradeId i) taker (fst f) (snd f)"
  unfolding trades_of_def using nth_mem by auto blast

lemma trades_of_makers:
  "makerOrderId ` set (trades_of newTradeId start taker fills) = be_orderId ` fst ` set fills"
  by (induction fills arbitrary: start) (simp_all add: match_trade_def Let_def)

lemma fills_are_makers:
  assumes "valkey_ok api" and "fresh_taker api taker db book"
    and "fills_ok taker (getBestOpposingOrders api (ord_pair taker) (ord_side taker) 50 book) fills r" and "f \<in> set fills"
  shows "maker_entry db taker (fst f)"
proof -
  have "fst f \<in> set (getBestOpposingOrders api (ord_pair taker) (ord_side taker) 50 book)"
  proof -
    have "subseq (map fst fills) (getBestOpposingOrders api (ord_pair taker) (ord_side taker) 50 book)"
      and "fst f \<in> set (map fst fills)" using assms(3,4) by (auto simp: fills_ok_def)
    then show ?thesis by (rule list_emb_set) simp
  qed
  then show ?thesis
    using best_opposing_props(1) [OF assms(1), of db taker book] assms(2)
    by (simp add: fresh_taker_def makers_ok_def)
qed

section \<open>Properties\<close>


text \<open>
  C7: matching conserves quantity: what the trades of a run add up to is what the taker's
  remaining amount drops by, and the filled amounts of the whole database grow by exactly twice
  that, once for the taker and once for the makers.
\<close>

theorem match_conserves_quantity:
  assumes "valkey_ok api" and "fresh_taker api taker db book"
    and "executeMatch api newTradeId now taker db book = (Inr res, db', book')"
  shows "remainingAmount (mr_takerOrder res) = remainingAmount taker - sum_list (map mt_quantity (mr_trades res))
    \<and> sum_list (map filledAmount (orders db'))
        = sum_list (map filledAmount (orders db)) + 2 * sum_list (map mt_quantity (mr_trades res))"
proof -
  from executeMatch_outcome [OF assms(1,2), of newTradeId now] assms(3) obtain fills where
    out: "run_outcome api newTradeId taker db book fills res db' book'" by auto
  have f: "fills_ok taker (getBestOpposingOrders api (ord_pair taker) (ord_side taker) 50 book) fills (remainingAmount (mr_takerOrder res))"
    using out unfolding run_outcome_def by blast
  have d: "distinct (map ord_id (orders db))" and tk: "taker \<in> set (orders db)" and okt: "order_ok taker"
    using assms(2) by (auto simp: fresh_taker_def orders_ok_def)
  have mk: "be_orderId (fst g) \<in> ord_id ` set (orders db) \<and> be_orderId (fst g) \<noteq> ord_id taker" if "g \<in> set fills" for g
  proof -
    from fills_are_makers [OF assms(1,2) f that] obtain x where
      "x \<in> active_in {ord_id taker} db" "fst g = entry_of x" by (auto simp: maker_entry_def)
    then show ?thesis by (simp add: active_in_def)
  qed
  have zero: "fill_of (ord_id taker) fills = 0"
  proof (rule fill_of_absent, rule notI)
    assume "ord_id taker \<in> be_orderId ` fst ` set fills"
    then obtain g where "g \<in> set fills" "ord_id taker = be_orderId (fst g)" by auto
    with mk [of g] show False by simp
  qed
  have res: "mr_takerOrder res \<in> set (orders db')" "same_terms taker (mr_takerOrder res)"
    "remainingAmount (mr_takerOrder res) = remainingAmount taker - total_fill fills" "orders_ok db'"
    using out by (simp_all add: run_outcome_def)
  have ft: "filledAmount (mr_takerOrder res) = filledAmount taker + total_fill fills"
    using res okt by (auto simp: orders_ok_def order_ok_def same_terms_def)
  let ?g = "\<lambda>i. if i = ord_id taker then total_fill fills else fill_of i fills"
  have "\<forall>x\<in>set (orders db). \<exists>y\<in>set (orders db'). ord_id y = ord_id x \<and> filledAmount y = filledAmount x + ?g (ord_id x)"
  proof
    fix x assume x: "x \<in> set (orders db)"
    show "\<exists>y\<in>set (orders db'). ord_id y = ord_id x \<and> filledAmount y = filledAmount x + ?g (ord_id x)"
    proof (cases "ord_id x = ord_id taker")
      case True
      with d x tk have "x = taker" by (auto dest: distinct_key_eq)
      with res ft show ?thesis by (auto simp: same_terms_def)
    next
      case False
      with out x obtain y where "y \<in> set (orders db')" "same_terms x y" "filledAmount y = filledAmount x + fill_of (ord_id x) fills"
        unfolding run_outcome_def by blast
      with False show ?thesis by (auto simp: same_terms_def)
    qed
  qed
  then have "map filledAmount (orders db') = map (\<lambda>x. filledAmount x + ?g (ord_id x)) (orders db)"
    using out by (intro rows_aligned [OF _ d]) (auto simp: run_outcome_def)
  then have "sum_list (map filledAmount (orders db'))
      = sum_list (map filledAmount (orders db)) + sum_list (map (\<lambda>x. ?g (ord_id x)) (orders db))"
    by (simp add: sum_list_addf)
  also have "(\<lambda>x. ?g (ord_id x)) = (\<lambda>x. (if ord_id x = ord_id taker then total_fill fills else 0) + fill_of (ord_id x) fills)"
    using zero by auto
  also have "sum_list (map (\<lambda>x. (if ord_id x = ord_id taker then total_fill fills else 0) + fill_of (ord_id x) fills) (orders db))
      = total_fill fills + total_fill fills"
    unfolding sum_list_addf using sum_key [OF d] sum_fill_of [OF d] mk tk by simp
  finally show ?thesis
    using out res(3) by (simp add: run_outcome_def trades_of_quantity)
qed

end
