(* ===== verification/Orders_Exchange.thy ===== *)
theory Orders_Exchange
  imports Orders_Saga Matching_Fair
begin

text \<open>
  What the operations of the orders service do to the exchange: database, order book and events
  after creating and cancelling an order, and the order book after a cold start.
\<close>

section \<open>The consistent exchange\<close>

definition exchange_ok :: "valkey_api \<Rightarrow> orders_db \<Rightarrow> valkey \<Rightarrow> bool" where
  "exchange_ok api db book \<longleftrightarrow> orders_ok db \<and> book_sync api {} db book"

lemma orders_ok_cong: "orders d = orders d' \<Longrightarrow> orders_ok d = orders_ok d'"
  by (simp add: orders_ok_def)

lemma active_in_cong: "orders d = orders d' \<Longrightarrow> active_in skip d = active_in skip d'"
  by (simp add: active_in_def)

lemma book_sync_cong:
  "orders d = orders d' \<Longrightarrow> zsets b = zsets b' \<Longrightarrow> hashes b = hashes b' \<Longrightarrow> book_sync api skip d b = book_sync api skip d' b'"
  by (simp add: book_sync_def active_in_def)

lemma nextSequence_keeps:
  "nextSequence pair b = (n, b') \<Longrightarrow> zsets b' = zsets b \<and> hashes b' = hashes b \<and> n = Suc (sequences b pair)
    \<and> sequences b' = (sequences b)(pair := n)"
  by (auto simp: nextSequence_def)

lemma trade_events_keeps:
  "trade_events env n ts b = (es, b') \<Longrightarrow> zsets b' = zsets b \<and> hashes b' = hashes b \<and> length es = length ts"
proof (induction ts arbitrary: n b es)
  case (Cons t ts)
  obtain s b1 where s: "nextSequence (mt_symbol t) b = (s, b1)" by force
  obtain es' where es': "trade_events env (Suc n) ts b1 = (es', b')" "es = trade_event env n s t # es'"
    using Cons.prems s by (auto split: prod.splits)
  with Cons.IH [OF es'(1)] nextSequence_keeps [OF s] show ?case by simp
qed simp

section \<open>Creating an order\<close>

lemma initial_order_simps [simp]:
  "ord_id (initial_order env rq p a) = newOrderId env" "ord_userId (initial_order env rq p a) = co_userId rq"
  "ord_pair (initial_order env rq p a) = co_pair rq" "ord_side (initial_order env rq p a) = co_side rq"
  "ord_price (initial_order env rq p a) = p" "ord_amount (initial_order env rq p a) = a"
  "filledAmount (initial_order env rq p a) = 0" "remainingAmount (initial_order env rq p a) = a"
  "ord_status (initial_order env rq p a) = OPEN"
  by (simp_all add: initial_order_def)

definition prices_fit :: "'a orders_env \<Rightarrow> create_order_request \<Rightarrow> orders_db \<Rightarrow> bool" where
  "prices_fit env rq db \<longleftrightarrow>
     (\<forall>p a. co_price rq = Some p \<and> co_amount rq = Some a \<longrightarrow>
        prices_distinguished (oe_valkey env) (db\<lparr>orders := orders db @ [initial_order env rq p a]\<rparr>))"

lemma create_order_row_fresh:
  assumes row: "create_order_row (initial_order env rq p a) db = Inr (x, d1)" and pos: "0 < p" "0 < a" "newOrderId env \<noteq> []"
    and ex: "exchange_ok (oe_valkey env) db book" and pf: "prices_fit env rq db" "co_price rq = Some p" "co_amount rq = Some a"
    and b1: "nextSequence pair book = (s, b1)"
  shows "x = initial_order env rq p a" and "orders d1 = orders db @ [x]"
    and "outboxEvents d1 = outboxEvents db" and "fresh_taker (oe_valkey env) x d1 b1"
proof -
  let ?x = "initial_order env rq p a"
  from row show x: "x = ?x" and o1: "orders d1 = orders db @ [x]" and "outboxEvents d1 = outboxEvents db"
    by (auto simp: create_order_row_def split: if_splits)
  from row have n: "numeric_order ?x" and new: "newOrderId env \<notin> ord_id ` set (orders db)"
    by (auto simp: create_order_row_def split: if_splits)
  have "order_ok ?x" using n pos by (simp add: order_ok_def numeric_order_def)
  with ex new have ok: "orders_ok d1" by (auto simp: orders_ok_def exchange_ok_def o1 x)
  have "active_in {ord_id x} d1 = active_in {} db" using new by (auto simp: active_in_def o1 x image_iff)
  with ex nextSequence_keeps [OF b1] have "book_sync (oe_valkey env) {ord_id x} d1 b1"
    by (simp add: book_sync_def exchange_ok_def)
  moreover have "prices_distinguished (oe_valkey env) d1"
    using pf by (simp add: prices_fit_def prices_distinguished_def o1 x)
  ultimately show "fresh_taker (oe_valkey env) x d1 b1" using ok by (simp add: fresh_taker_def o1 x)
qed

definition order_events ::
  "'a orders_env \<Rightarrow> order \<Rightarrow> match_result \<Rightarrow> valkey \<Rightarrow> valkey \<Rightarrow> orders_payload domain_event outbox_event list \<Rightarrow> bool" where
  "order_events env x m b1 b2 evs \<longleftrightarrow>
     (\<exists>lv s traded. evs = map (with_trace (traceContext env) (clock env))
          (placed_event env x lv s # traded @ filled_events env (1 + length traded) m)
        \<and> traded = fst (trade_events env 1 (mr_trades m) b2))"

lemma create_order_tx_success:
  assumes api: "valkey_ok (oe_valkey env)" and pos: "0 < p" "0 < a" "newOrderId env \<noteq> []"
    and ex: "exchange_ok (oe_valkey env) db book" and pf: "prices_fit env rq db" "co_price rq = Some p" "co_amount rq = Some a"
    and tx: "create_order_tx env rq p a db book = (Inr y, d, b)"
  obtains d1 b1 m d2 b2 fills evs where "fresh_taker (oe_valkey env) (initial_order env rq p a) d1 b1"
    and "orders d1 = orders db @ [initial_order env rq p a]"
    and "run_outcome (oe_valkey env) (tradeIds env) (initial_order env rq p a) d1 b1 fills m d2 b2"
    and "orders d = orders d2" and "zsets b = zsets b2" and "hashes b = hashes b2" and "y = mr_takerOrder m"
    and "outboxEvents d = outboxEvents db @ evs" and "order_events env (initial_order env rq p a) m b1 b2 evs"
proof -
  let ?x = "initial_order env rq p a"
  from tx obtain x d1 where row: "create_order_row ?x db = Inr (x, d1)"
    by (auto simp: create_order_tx_def create_order_body_def split: sum.splits prod.splits if_splits)
  obtain s b1 where b1: "nextSequence (ord_pair ?x) book = (s, b1)" by force
  note r = create_order_row_fresh [OF row pos ex pf b1]
  obtain m d2 b2 fills where run: "executeMatch (oe_valkey env) (tradeIds env) (clock env) ?x d1 b1 = (Inr m, d2, b2)"
    and out: "run_outcome (oe_valkey env) (tradeIds env) ?x d1 b1 fills m d2 b2"
    using executeMatch_outcome [OF api r(4) [unfolded r(1)], of "tradeIds env" "clock env"] by blast
  obtain traded b3 where te: "trade_events env 1 (mr_trades m) b2 = (traded, b3)" by force
  let ?lv = "getLevelTotalQuantity (oe_valkey env) (ord_pair ?x) (ord_side ?x) (ord_price ?x) b1"
  let ?evs = "placed_event env ?x ?lv s # traded @ filled_events env (1 + length traded) m"
  from tx row r(1) run te b1 obtain tbl where ins: "insertMany (traceContext env) (clock env) ?evs (outboxEvents d2) = Inr tbl"
    and y: "y = mr_takerOrder m" "d = d2\<lparr>outboxEvents := tbl\<rparr>" "b = b3"
    by (auto simp: create_order_tx_def create_order_body_def Let_def split: sum.splits if_splits)
  have "outboxEvents d2 = outboxEvents db" using out r(3) by (simp add: run_outcome_def)
  with ins have tbl: "tbl = outboxEvents db @ map (with_trace (traceContext env) (clock env)) ?evs"
    by (auto simp: insertMany_def split: if_splits)
  have "order_events env ?x m b1 b2 (map (with_trace (traceContext env) (clock env)) ?evs)"
    unfolding order_events_def using te by (intro exI [of _ ?lv] exI [of _ s] exI [of _ traded]) simp
  with that [OF r(4) [unfolded r(1)] r(2) [unfolded r(1)] out, of "map (with_trace (traceContext env) (clock env)) ?evs"]
    y tbl trade_events_keeps [OF te] show thesis by simp
qed

text \<open>
  C10: creating an order keeps the exchange consistent: after \<open>CreateOrder\<close> has answered an order,
  that order is stored as answered with the user, side, price and amount that were asked for, every stored order
  still adds up, and the order book holds exactly the active orders of the database.
\<close>

theorem create_order_keeps_exchange:
  assumes "valkey_ok (oe_valkey env)" and "exchange_ok (oe_valkey env) (ow_db w) (ow_book w)"
    and "newOrderId env \<noteq> []" and "prices_fit env rq (ow_db w)"
    and "idempotency_answer env rq (ow_db w) = None" and "createOrder env rq w = (Inr item, w')"
  shows "exchange_ok (oe_valkey env) (ow_db w') (ow_book w')
    \<and> (\<exists>x. findById (item_orderId item) (ow_db w') = Some x \<and> item = mapOrderToItem x
         \<and> ord_userId x = co_userId rq \<and> ord_pair x = co_pair rq \<and> ord_side x = co_side rq
         \<and> Some (ord_price x) = co_price rq \<and> Some (ord_amount x) = co_amount rq)"
proof -
  obtain p a d1 x d2 where v: "validateCreateOrderRequest rq = Inr (p, a)"
    and cr: "createRecord (new_idempotency_record env rq) (ow_db w) = Inr (new_idempotency_record env rq, d1)"
    and tx: "create_order_tx env rq p a d1 (ow_book w) = (Inr x, d2, ow_book w')"
    and item: "item = mapOrderToItem x" and db: "ow_db w' = completeRecord (newRecordId env) item d2"
    using createOrder_Inr [OF assms(6,5)] by metis
  have v': "co_price rq = Some p" "co_amount rq = Some a" "0 < p" "0 < a" using v by (simp_all add: valid_request)
  have o1: "orders d1 = orders (ow_db w)" using createRecord_Inr(2) [OF cr] .
  have ex: "exchange_ok (oe_valkey env) d1 (ow_book w)" and pf: "prices_fit env rq d1"
    using assms(2,4) by (simp_all add: exchange_ok_def orders_ok_def book_sync_def active_in_def prices_fit_def prices_distinguished_def o1)
  obtain e1 b1 m e2 b2 fills evs where
    out: "run_outcome (oe_valkey env) (tradeIds env) (initial_order env rq p a) e1 b1 fills m e2 b2"
    and o2: "orders d2 = orders e2" "zsets (ow_book w') = zsets b2" "hashes (ow_book w') = hashes b2" "x = mr_takerOrder m"
    using create_order_tx_success [OF assms(1) v'(3,4) assms(3) ex pf v'(1,2) tx] by metis
  have o3: "orders (ow_db w') = orders e2" by (simp add: db o2(1))
  have ok: "orders_ok (ow_db w')" "book_sync (oe_valkey env) {} (ow_db w') (ow_book w')"
    using out orders_ok_cong [OF o3] book_sync_cong [OF o3 o2(2,3)] by (simp_all add: run_outcome_def)
  have x: "x \<in> set (orders (ow_db w'))" "same_terms (initial_order env rq p a) x"
    using out o2(4) o3 by (simp_all add: run_outcome_def)
  have "findById (ord_id x) (ow_db w') = Some x" using x(1) ok(1) by (intro find_order) (simp_all add: orders_ok_def)
  with ok x(2) v' item show ?thesis
    by (auto simp: exchange_ok_def same_terms_def mapOrderToItem_def)
qed

definition traded_payloads :: "orders_payload domain_event outbox_event list \<Rightarrow> trade_executed list" where
  "traded_payloads evs =
     List.map_filter (\<lambda>e. case de_payload (oe_payload e) of TradeExecuted t \<Rightarrow> Some t | _ \<Rightarrow> None) evs"

lemma traded_payloads_append [simp]: "traded_payloads (es @ fs) = traded_payloads es @ traded_payloads fs"
  by (simp add: traded_payloads_def map_filter_def)

lemma traded_payloads_simps [simp]:
  "traded_payloads [] = []"
  "traded_payloads (map (with_trace tc now) es) = traded_payloads es"
  "traded_payloads (placed_event env x lv s # es) = traded_payloads es"
  "traded_payloads (trade_event env n s t # es) = trade_payload (clock env) s t # traded_payloads es"
  "traded_payloads (filled_events env n m) = []"
  by (simp_all add: traded_payloads_def map_filter_def with_trace_def placed_event_def trade_event_def
      filled_events_def filled_event_def orders_event_def o_def comp_def filter_map Let_def split_beta filter_empty_conv)

lemma traded_payloads_trades:
  "trade_events env n ts b = (es, b') \<Longrightarrow>
   \<exists>ss. length ss = length ts \<and> traded_payloads es = map2 (trade_payload (clock env)) ss ts"
proof (induction ts arbitrary: n b es)
  case (Cons t ts)
  obtain s b1 where s: "nextSequence (mt_symbol t) b = (s, b1)" by force
  obtain es' where es': "trade_events env (Suc n) ts b1 = (es', b')" "es = trade_event env n s t # es'"
    using Cons.prems s by (auto split: prod.splits)
  from Cons.IH [OF es'(1)] obtain ss where "length ss = length ts" "traded_payloads es' = map2 (trade_payload (clock env)) ss ts"
    by blast
  with es' show ?case by (intro exI [of _ "s # ss"]) simp
qed simp


definition settleable :: "create_order_request \<Rightarrow> order_item \<Rightarrow> trade_executed \<Rightarrow> bool" where
  "settleable rq item t \<longleftrightarrow>
     0 < trade_quantity t \<and> buyerUserId t \<noteq> sellerUserId t \<and> trade_price t \<le> buyerLimitPrice t \<and> trade_symbol t = co_pair rq
     \<and> (if co_side rq = BUY
        then buyOrderId t = item_orderId item \<and> buyerUserId t = co_userId rq \<and> Some (buyerLimitPrice t) = co_price rq
        else sellOrderId t = item_orderId item \<and> sellerUserId t = co_userId rq
             \<and> (\<forall>limit. co_price rq = Some limit \<longrightarrow> limit \<le> trade_price t))"

lemma fill_settleable:
  assumes c: "crossing x mk" "0 < q" and x: "ord_pair x = co_pair rq" "ord_side x = co_side rq" "ord_userId x = co_userId rq"
    "Some (ord_price x) = co_price rq" "ord_id x = item_orderId item"
  shows "settleable rq item (trade_payload now s (match_trade i x mk q))"
  using c x [symmetric] by (auto simp: settleable_def trade_payload_def match_trade_def Let_def crossing_def price_match_def split: if_splits)


end
