(* ===== verification/Settlement.thy ===== *)
theory Settlement
  imports Wallet Contracts Drain
begin

text \<open>
  Settlement of executed trades by the accounts service
  (\<open>apps/accounts/src/consumers\<close>): the amounts of \<open>trades-settlement.util.ts\<close>, the
  deduplication table of \<open>processed-events.repository.ts\<close> and the transaction of
  \<open>TradesSettlementConsumer.handleMessage\<close>. \<open>fx\<close> is \<open>toFixed (8)\<close>, which this process runs
  with \<open>ROUND_DOWN\<close>.
\<close>

section \<open>Amounts\<close>

record settlement_amounts =
  quoteCost :: amount
  baseQuantity :: amount
  surplusRefund :: amount
  baseCurrency :: string
  quoteCurrency :: "string option"

definition calculateSettlementAmounts :: "rounding \<Rightarrow> trade_executed \<Rightarrow> settlement_amounts" where
  "calculateSettlementAmounts fx trade =
     \<lparr>quoteCost = fx (trade_price trade * trade_quantity trade),
      baseQuantity = trade_quantity trade,
      surplusRefund =
        (if trade_price trade < buyerLimitPrice trade
         then fx ((buyerLimitPrice trade - trade_price trade) * trade_quantity trade) else 0),
      baseCurrency = symbol_base (trade_symbol trade),
      quoteCurrency = symbol_quote (trade_symbol trade)\<rparr>"

record settlement_entry =
  se_accountId :: uuid
  se_userId :: uuid
  se_currency :: string
  se_amount :: amount
  se_availableDelta :: amount
  se_lockedDelta :: amount
  se_referenceId :: uuid

record settlement_ids =
  buyerQuoteId :: uuid
  buyerBaseId :: uuid
  sellerQuoteId :: uuid
  sellerBaseId :: uuid

definition buildSettlementLedgerParams ::
  "trade_executed \<Rightarrow> settlement_amounts \<Rightarrow> string \<Rightarrow> settlement_ids \<Rightarrow> settlement_entry list" where
  "buildSettlementLedgerParams trade amounts quoteCur ids =
     (let buyerLockedDeduction = quoteCost amounts + surplusRefund amounts
      in [\<lparr>se_accountId = buyerQuoteId ids, se_userId = buyerUserId trade, se_currency = quoteCur,
           se_amount = quoteCost amounts, se_availableDelta = surplusRefund amounts,
           se_lockedDelta = - buyerLockedDeduction, se_referenceId = tradeId trade\<rparr>,
          \<lparr>se_accountId = buyerBaseId ids, se_userId = buyerUserId trade, se_currency = baseCurrency amounts,
           se_amount = baseQuantity amounts, se_availableDelta = baseQuantity amounts,
           se_lockedDelta = 0, se_referenceId = tradeId trade\<rparr>,
          \<lparr>se_accountId = sellerBaseId ids, se_userId = sellerUserId trade, se_currency = baseCurrency amounts,
           se_amount = baseQuantity amounts, se_availableDelta = 0,
           se_lockedDelta = - baseQuantity amounts, se_referenceId = tradeId trade\<rparr>,
          \<lparr>se_accountId = sellerQuoteId ids, se_userId = sellerUserId trade, se_currency = quoteCur,
           se_amount = quoteCost amounts, se_availableDelta = quoteCost amounts,
           se_lockedDelta = 0, se_referenceId = tradeId trade\<rparr>])"

section \<open>Processed events\<close>

definition isEventProcessed :: "uuid \<Rightarrow> accounts_db \<Rightarrow> bool" where
  "isEventProcessed eventId db \<longleftrightarrow> List.find (\<lambda>e. pe_eventId e = eventId) (processedEvents db) \<noteq> None"

definition markEventProcessed :: "processed_event \<Rightarrow> accounts_db \<Rightarrow> accounts_db result" where
  "markEventProcessed e db =
     (if 64 < length (pe_eventType e) \<or> 64 < length (pe_consumerGroup e) then Inl (DbException ''22001'')
      else if isEventProcessed (pe_eventId e) db then Inl unique_violation
      else Inr (db\<lparr>processedEvents := processedEvents db @ [e]\<rparr>))"

text \<open>
  \<open>delete ... where id in (select id ... where processed_at < cutoff limit n)\<close>: which of the
  old rows the database picks is its choice, an argument.
\<close>

definition deleteOlderThan ::
  "processed_event picker \<Rightarrow> time \<Rightarrow> nat \<Rightarrow> accounts_db \<Rightarrow> nat \<times> accounts_db" where
  "deleteOlderThan pick cutoff n db =
     (let (k, rows) = delete_batch pick (\<lambda>e. pe_processedAt e < cutoff) n (processedEvents db)
      in (k, db\<lparr>processedEvents := rows\<rparr>))"

section \<open>The consumer\<close>

datatype settlement_outcome = Settled | AlreadyProcessed | IgnoredAction | SelfTrade

text \<open>The update of one account, and the balances the ledger row quotes.\<close>

definition settle_update :: "uuid \<Rightarrow> amount \<Rightarrow> amount \<Rightarrow> time \<Rightarrow> accounts_db \<Rightarrow> ((amount \<times> amount) \<times> accounts_db) result" where
  "settle_update i dA dL now db =
     bindR (update_balances i (\<lambda>_. True) dA dL now db) (\<lambda>(updated, d).
       Inr ((case updated of None \<Rightarrow> (0, 0) | Some a \<Rightarrow> (availableBalance a, lockedBalance a)), d))"

fun insert_entries ::
  "(uuid \<Rightarrow> (amount \<times> amount) option) \<Rightarrow> settlement_entry list \<Rightarrow> accounts_db \<Rightarrow> accounts_db result" where
  "insert_entries after [] db = Inr db"
| "insert_entries after (e # es) db =
     (let (av, lk) = (case after (se_accountId e) of None \<Rightarrow> (0, 0) | Some b \<Rightarrow> b)
      in bindR (insert_ledger
           \<lparr>tx_accountId = se_accountId e, tx_userId = se_userId e, tx_currency = se_currency e,
            tx_type = TRADE_SETTLEMENT, tx_amount = se_amount e, availableDelta = se_availableDelta e,
            lockedDelta = se_lockedDelta e, balanceAfterAvailable = av, balanceAfterLocked = lk,
            tx_idempotencyKey = None, tx_referenceId = Some (se_referenceId e)\<rparr> db)
         (insert_entries after es))"

definition settlement_body ::
  "uuid \<Rightarrow> string \<Rightarrow> time \<Rightarrow> trade_executed \<Rightarrow> settlement_amounts \<Rightarrow> string \<Rightarrow> settlement_ids \<Rightarrow> accounts_db
   \<Rightarrow> (settlement_outcome \<times> accounts_db) result" where
  "settlement_body eventId eventType now trade am quoteCur ids db =
     (if \<not> {buyerQuoteId ids, buyerBaseId ids, sellerQuoteId ids, sellerBaseId ids}
            \<subseteq> account_id ` set (accounts db)
      then Inl (PlainError ''Failed to acquire locks on all 4 accounts'')
      else
        bindR (settle_update (buyerQuoteId ids) (surplusRefund am) (- (quoteCost am + surplusRefund am)) now db) (\<lambda>(bq, d1).
        bindR (settle_update (buyerBaseId ids) (baseQuantity am) 0 now d1) (\<lambda>(bb, d2).
        bindR (settle_update (sellerBaseId ids) 0 (- baseQuantity am) now d2) (\<lambda>(sb, d3).
        bindR (settle_update (sellerQuoteId ids) (quoteCost am) 0 now d3) (\<lambda>(sq, d4).
        bindR (insert_entries
                 [buyerQuoteId ids \<mapsto> bq, buyerBaseId ids \<mapsto> bb, sellerBaseId ids \<mapsto> sb, sellerQuoteId ids \<mapsto> sq]
                 (buildSettlementLedgerParams trade am quoteCur ids) d4) (\<lambda>d5.
        bindR (markEventProcessed \<lparr>pe_eventId = eventId, pe_eventType = eventType,
                 pe_consumerGroup = ''accounts-settlement-group'', pe_processedAt = now\<rparr> d5) (\<lambda>d6.
        Inr (Settled, d6))))))))"

text \<open>
  \<open>race1\<close> is what other transactions commit between the check of \<open>processed_events\<close> and the
  row locks. The four accounts are found or created first, each in its own transaction.
\<close>

definition settlement_tx ::
  "pg_env \<Rightarrow> uuid \<Rightarrow> string \<Rightarrow> time \<Rightarrow> trade_executed \<Rightarrow> settlement_amounts \<Rightarrow> string \<Rightarrow> settlement_ids \<Rightarrow> accounts_db
   \<Rightarrow> settlement_outcome result \<times> accounts_db" where
  "settlement_tx pg eventId eventType now trade am quoteCur ids db =
     (if isEventProcessed eventId db then (Inr AlreadyProcessed, db)
      else transaction (settlement_body eventId eventType now trade am quoteCur ids) (race1 pg db))"

definition handleTradeExecuted ::
  "rounding \<Rightarrow> pg_env \<Rightarrow> uuid list \<Rightarrow> time \<Rightarrow> string option \<Rightarrow> trade_executed envelope option \<Rightarrow> accounts_db
   \<Rightarrow> settlement_outcome result \<times> accounts_db" where
  "handleTradeExecuted fx pg newIds now headerAction message db =
     (case message of
        None \<Rightarrow> (Inl (PlainError ''INVALID_EVENT_SCHEMA''), db)
      | Some env \<Rightarrow>
          (case env_payload env of
             None \<Rightarrow> (Inl (PlainError ''INVALID_EVENT_SCHEMA''), db)
           | Some trade \<Rightarrow>
               if env_eventId env = [] then (Inl (PlainError ''INVALID_EVENT_SCHEMA''), db)
               else
                 let action = envelope_action env headerAction
                 in if action \<noteq> [] \<and> action \<noteq> ''TRADE_EXECUTED'' then (Inr IgnoredAction, db)
                    else if buyerUserId trade = sellerUserId trade then (Inr SelfTrade, db)
                    else
                      let am = calculateSettlementAmounts fx trade
                      in (case quoteCurrency am of
                            None \<Rightarrow> (Inl (PlainError ''UNDEFINED_VALUE''), db)
                          | Some quoteCur \<Rightarrow>
                              let (r1, d1) = findOrCreate pg (newIds ! 0) now (buyerUserId trade) quoteCur db;
                                  (r2, d2) = findOrCreate pg (newIds ! 1) now (buyerUserId trade) (baseCurrency am) d1;
                                  (r3, d3) = findOrCreate pg (newIds ! 2) now (sellerUserId trade) quoteCur d2;
                                  (r4, d4) = findOrCreate pg (newIds ! 3) now (sellerUserId trade) (baseCurrency am) d3
                              in (case bindR r1 (\<lambda>bq. bindR r2 (\<lambda>bb. bindR r3 (\<lambda>sq. bindR r4 (\<lambda>sb.
                                         Inr \<lparr>buyerQuoteId = account_id bq, buyerBaseId = account_id bb,
                                              sellerQuoteId = account_id sq, sellerBaseId = account_id sb\<rparr>)))) of
                                    Inl e \<Rightarrow> (Inl e, d4)
                                  | Inr ids \<Rightarrow>
                                      settlement_tx pg (env_eventId env) (env_eventType env) now trade am quoteCur ids d4))))"

end
