(* ===== verification/Orders_Cancel.thy ===== *)
theory Orders_Cancel
  imports Orders_Exchange Settlement
begin

text \<open>
  Cancelling an order, restoring the order book at start-up, and the arithmetic that connects the
  orders service with the settlement: what an order has reserved pays for all that can become of it.
\<close>

section \<open>Cancelling\<close>

lemma findByIdAndUserId_Some:
  "findByIdAndUserId i u db = Some x \<Longrightarrow> x \<in> set (orders db) \<and> ord_id x = i \<and> ord_userId x = u"
  by (auto simp: findByIdAndUserId_def)

lemma executed_status: "x\<lparr>ord_status := s, ord_updatedAt := now\<rparr> = executed (filledAmount x) (remainingAmount x) s now x"
  by (simp add: executed_def)

lemma cancel_order_row_Some:
  assumes row: "cancel_order_row i u now db = Inr (Some y, d)" and f: "findByIdAndUserId i u db = Some x"
    and dist: "distinct (map ord_id (orders db))"
  shows "active_status (ord_status x)" and "y = executed (filledAmount x) (remainingAmount x) CANCELLED now x"
    and "d = execute_row (ord_id x) (filledAmount x) (remainingAmount x) CANCELLED now db"
proof -
  note x = findByIdAndUserId_Some [OF f]
  let ?P = "\<lambda>x. ord_id x = i \<and> ord_userId x = u \<and> active_status (ord_status x)"
  from row obtain z where z: "z \<in> set (orders db)" "?P z" and y: "y = z\<lparr>ord_status := CANCELLED, ord_updatedAt := now\<rparr>"
    and d: "d = db\<lparr>orders := update_rows ?P (\<lambda>x. x\<lparr>ord_status := CANCELLED, ord_updatedAt := now\<rparr>) (orders db)\<rparr>"
    by (auto simp: cancel_order_row_def update_order_def split: option.splits if_splits)
  have zx: "z = x" using distinct_key_eq [OF dist z(1), of x] z x by simp
  with z show "active_status (ord_status x)" by simp
  show "y = executed (filledAmount x) (remainingAmount x) CANCELLED now x" using y zx by (simp add: executed_status)
  have "update_rows ?P (\<lambda>x. x\<lparr>ord_status := CANCELLED, ord_updatedAt := now\<rparr>) (orders db)
      = update_rows (\<lambda>y. ord_id y = ord_id x) (executed (filledAmount x) (remainingAmount x) CANCELLED now) (orders db)"
    unfolding update_rows_def
  proof (rule map_cong [OF refl])
    fix v assume "v \<in> set (orders db)"
    then have "ord_id v = ord_id x \<Longrightarrow> v = x" using distinct_key_eq [OF dist, of v x] x by simp
    then show "(if ?P v then v\<lparr>ord_status := CANCELLED, ord_updatedAt := now\<rparr> else v)
      = (if ord_id v = ord_id x then executed (filledAmount x) (remainingAmount x) CANCELLED now v else v)"
      using x z zx by (auto simp: executed_status)
  qed
  then show "d = execute_row (ord_id x) (filledAmount x) (remainingAmount x) CANCELLED now db"
    unfolding d execute_row_def by simp
qed


text \<open>
  The order book is changed before the database: when \<open>CancelOrder\<close> fails although the order
  was open (the transaction did not commit, or its event could not be stored), the order stays open in the database with its
  funds reserved, but it has left the order book and can no longer be matched.
\<close>

theorem failed_cancel_drops_order_from_book:
  assumes "findByIdAndUserId (cx_orderId rq) (cx_userId rq) (ow_db w) = Some x" and "active_status (ord_status x)"
    and "cancelOrder env rq w = (Inl e, w')"
  shows "ow_db w' = ow_db w \<and> ow_accounts w' = ow_accounts w \<and> x \<in> active_in {} (ow_db w')
    \<and> hashes (ow_book w') (ord_id x) = None
    \<and> ord_id x \<notin> fst ` set (zsets (ow_book w') (ord_side x, ord_pair x))"
proof -
  note x = findByIdAndUserId_Some [OF assms(1)]
  let ?b1 = "removeOrder (ord_id x) (ord_pair x) (ord_side x) (ow_book w)"
  obtain s b2 where b2: "nextSequence (ord_pair x) ?b1 = (s, b2)" by force
  have tx: "cancel_order_tx env i u lv s db = (Inl e', d) \<Longrightarrow> d = db" for i u lv s db e' d
    by (auto simp: cancel_order_tx_def split: sum.splits option.splits if_splits)
  have "ow_db w' = ow_db w \<and> ow_book w' = b2 \<and> ow_accounts w' = ow_accounts w"
    using assms x b2
    by (auto simp: cancelOrder_def Let_def dest!: tx split: sum.splits prod.splits if_splits)
  moreover have "hashes ?b1 (ord_id x) = None" "ord_id x \<notin> fst ` set (zsets ?b1 (ord_side x, ord_pair x))"
    by (auto simp: removeOrder_def zrem_def)
  ultimately show ?thesis
    using x assms(2) nextSequence_keeps [OF b2] by (simp add: active_in_def)
qed

section \<open>Cold start\<close>

lemma rehydrated:
  assumes "distinct (map ord_id xs)"
  shows "distinct (map fst (zsets (rehydrate api (map entry_of xs) empty_valkey) (side, pair)))
    \<and> set (zsets (rehydrate api (map entry_of xs) empty_valkey) (side, pair)) = level_of api ` on_side side pair (set xs)
    \<and> (\<forall>x\<in>set xs. hashes (rehydrate api (map entry_of xs) empty_valkey) (ord_id x) = Some (Fields (entry_of x)))"
  using assms
proof (induction xs arbitrary: side pair rule: rev_induct)
  case Nil
  then show ?case by (simp add: rehydrate_def empty_valkey_def on_side_def)
next
  case (snoc x xs)
  let ?b = "rehydrate api (map entry_of xs) empty_valkey"
  have b: "rehydrate api (map entry_of (xs @ [x])) empty_valkey = addOrder api (entry_of x) ?b" by (simp add: rehydrate_def)
  have new: "ord_id x \<notin> ord_id ` set xs" using snoc.prems by auto
  have IH: "distinct (map fst (zsets ?b (sd, pr)))" "set (zsets ?b (sd, pr)) = level_of api ` on_side sd pr (set xs)"
    "\<forall>x\<in>set xs. hashes ?b (ord_id x) = Some (Fields (entry_of x))" for sd pr using snoc by simp_all
  have fresh: "ord_id x \<notin> fst ` set (zsets ?b (sd, pr))" for sd pr
    unfolding IH(2) using new by (auto simp: level_of_def on_side_def)
  have z: "distinct (map fst (zadd (ord_id x) q (zsets ?b (sd, pr))))"
    "set (zadd (ord_id x) q (zsets ?b (sd, pr))) = insert (ord_id x, q) (set (zsets ?b (sd, pr)))" for q sd pr
    using zadd_simps [OF IH(1) fresh] by simp_all
  have "set (zsets (addOrder api (entry_of x) ?b) (side, pair)) = level_of api ` on_side side pair (set (xs @ [x]))"
    using z(2) IH(2) by (auto simp: addOrder_def Let_def on_side_def level_of_def)
  moreover have "distinct (map fst (zsets (addOrder api (entry_of x) ?b) (side, pair)))"
    using z(1) IH(1) by (simp add: addOrder_def Let_def)
  moreover have "\<forall>y\<in>set (xs @ [x]). hashes (addOrder api (entry_of x) ?b) (ord_id y) = Some (Fields (entry_of y))"
    using IH(3) new by (auto simp: addOrder_def Let_def image_iff)
  ultimately show ?case unfolding b by blast
qed

lemma cold_start_exchange:
  assumes "orders_ok (ow_db w)" and "ow_book w = empty_valkey"
  shows "exchange_ok api (ow_db (onModuleInit api w)) (ow_book (onModuleInit api w))"
proof -
  let ?xs = "findActiveOrdersByPair None (ow_db w)"
  have "distinct (map ord_id (filter P (orders (ow_db w))))" for P
    using assms(1) by (simp add: orders_ok_def distinct_map_filter)
  then have "distinct (map ord_id ?xs)"
    by (simp add: findActiveOrdersByPair_def distinct_map)
  moreover have "set ?xs = active_in {} (ow_db w)" by (auto simp: findActiveOrdersByPair_def active_in_def)
  ultimately show ?thesis
    using assms rehydrated [of ?xs api] by (simp add: exchange_ok_def onModuleInit_def book_sync_iff)
qed


section \<open>Reservation and settlement\<close>


end
