(* ===== verification/Matching_Demo.thy ===== *)
theory Matching_Demo
  imports Matching_Fair
begin

text \<open>
  Two runs of the matching engine on one reading of the book, and a small exchange on which the
  properties of the matching engine are applied.
\<close>

section \<open>Two runs on one reading\<close>

lemma match_trade_quantity: "mt_quantity (match_trade i taker maker q) = q"
  by (simp add: match_trade_def Let_def)

text \<open>
  The read of the book and the updates of a run are not one atomic step. When two takers that
  can each absorb a whole resting order have both read the book before either of them writes
  (there is one snapshot entry for both), both runs report a trade for all of it: the second run
  adds its fill to the row the first one has already filled, and the resting order ends up filled
  for more than its amount.
\<close>

theorem stale_book_overfills_maker:
  assumes "orders_ok db" and "x \<in> active_in {ord_id t1, ord_id t2} db"
    and "ord_side x = opposite (ord_side t1)" and "ord_side x = opposite (ord_side t2)"
    and "crossing t1 (entry_of x)" and "crossing t2 (entry_of x)"
    and "ms_db s1 = db" and "remainingAmount x \<le> takerRemaining s1"
    and "match_loop ids1 now1 t1 [entry_of x] s1 = (r1, s1')"
    and "ms_db s2 = ms_db s1'" and "remainingAmount x \<le> takerRemaining s2" and "trades s2 = []"
    and "numeric_28_8 (ord_amount x + remainingAmount x)"
  shows "\<exists>s2' y. match_loop ids2 now2 t2 [entry_of x] s2 = (Inr (), s2')
    \<and> map mt_quantity (trades s2') = [remainingAmount x]
    \<and> findById (ord_id x) (ms_db s2') = Some y
    \<and> filledAmount y = ord_amount x + remainingAmount x \<and> ord_amount y < filledAmount y \<and> remainingAmount y = 0"
proof -
  have xm: "x \<in> set (orders db)" "active_status (ord_status x)" "ord_id x \<noteq> ord_id t1"
    using assms(2) by (simp_all add: active_in_def)
  have ox: "order_ok x" and d: "distinct (map ord_id (orders db))" using assms(1) xm by (simp_all add: orders_ok_def)
  have rx: "0 < remainingAmount x" using order_ok_active [OF ox xm(2)] .
  let ?x1 = "executed (ord_amount x) 0 FILLED now1 x"
  have x1: "x \<in> active_in {ord_id t1} (ms_db s1)" using xm assms(7) by (simp add: active_in_def)
  have s1': "s1' = after_maker ids1 now1 t1 x s1"
    using assms(1,3,5,7,8,9) rx match_maker_eq [OF _ x1] by (simp add: crossing_def)
  have q1: "min (takerRemaining s1) (remainingAmount x) = remainingAmount x" using assms(8) by simp
  have fa: "filledAmount x + remainingAmount x = ord_amount x" using ox by (simp add: order_ok_def)
  have db1: "ms_db s2 = execute_row (ord_id x) (ord_amount x) 0 FILLED now1 db"
    using assms(7,10) q1 fa by (simp add: s1' after_maker_def Let_def)
  have d1: "distinct (map ord_id (orders (ms_db s2)))" using d by (simp add: db1 table_simps)
  have m1: "?x1 \<in> set (orders (ms_db s2))" using execute_row_set [OF xm(1) d] by (simp add: db1)
  have f1: "findById (ord_id x) (ms_db s2) = Some ?x1" using find_order [OF d1 m1] by simp
  let ?x2 = "executed (ord_amount x + remainingAmount x) 0 FILLED now2 ?x1"
  have "numeric_order ?x2"
    using ox assms(13) by (simp add: numeric_order_def order_ok_def)
  note upd = updateExecution_eq [OF d1 m1 this, unfolded executed_simps]
  have q2: "min (takerRemaining s2) (remainingAmount x) = remainingAmount x" using assms(11) by simp
  have "\<exists>s2'. match_maker ids2 now2 t2 (entry_of x) s2 = (Inr (), s2')
     \<and> ms_db s2' = execute_row (ord_id x) (ord_amount x + remainingAmount x) 0 FILLED now2 (ms_db s2)
     \<and> map mt_quantity (trades s2') = [remainingAmount x]"
    unfolding match_maker_def Let_def by (simp add: f1 q2 upd assms(12) match_trade_quantity)
  then obtain s2' where run: "match_maker ids2 now2 t2 (entry_of x) s2 = (Inr (), s2')"
    and db2: "ms_db s2' = execute_row (ord_id x) (ord_amount x + remainingAmount x) 0 FILLED now2 (ms_db s2)"
    and q: "map mt_quantity (trades s2') = [remainingAmount x]" by (elim exE conjE) (rule that)
  have d2: "distinct (map ord_id (orders (ms_db s2')))" using d1 by (simp add: db2 table_simps)
  have "?x2 \<in> set (orders (ms_db s2'))"
    using execute_row_set [OF m1 d1, of "ord_amount x + remainingAmount x" 0 FILLED now2] by (simp add: db2)
  from find_order [OF d2 this] have "findById (ord_id x) (ms_db s2') = Some ?x2" by simp
  moreover have "match_loop ids2 now2 t2 [entry_of x] s2 = (Inr (), s2')"
    using run assms(6,11) rx by (simp add: crossing_def)
  ultimately show ?thesis using q rx by (intro exI [of _ s2'] exI [of _ ?x2]) simp
qed

section \<open>A small exchange\<close>

definition demo_order :: "uuid \<Rightarrow> uuid \<Rightarrow> order_side \<Rightarrow> amount \<Rightarrow> amount \<Rightarrow> order" where
  "demo_order i user side price quantity =
     \<lparr>ord_id = i, ord_userId = user, ord_pair = ''ETH_USDT'', ord_side = side, ord_type = LIMIT, ord_price = price,
      ord_amount = quantity, filledAmount = 0, remainingAmount = quantity, ord_status = OPEN,
      ord_idempotencyKey = i, ord_createdAt = 0, ord_updatedAt = 0\<rparr>"

definition demo_maker :: order where "demo_maker = demo_order ''m'' ''bob'' SELL 200000000 1000000000"
definition demo_taker :: order where "demo_taker = demo_order ''t'' ''alice'' BUY 300000000 1500000000"
definition demo_taker2 :: order where "demo_taker2 = demo_order ''u'' ''carol'' BUY 300000000 1000000000"

definition demo_orders_db :: orders_db where
  "demo_orders_db = empty_orders_db\<lparr>orders := [demo_maker, demo_taker]\<rparr>"

definition demo_book :: valkey where
  "demo_book = addOrder exact_valkey (entry_of demo_maker) empty_valkey"

definition demo_run :: "match_result result \<times> orders_db \<times> valkey" where
  "demo_run = executeMatch exact_valkey (\<lambda>n. ''trade'') 7 demo_taker demo_orders_db demo_book"

lemmas demo_orders = demo_maker_def demo_taker_def demo_taker2_def demo_order_def

lemma demo_fresh: "fresh_taker exact_valkey demo_taker demo_orders_db demo_book"
proof -
  have ok: "orders_ok demo_orders_db"
    by (simp add: orders_ok_def demo_orders_db_def order_ok_def demo_orders numeric_28_8_def)
  have db: "active_in {ord_id demo_taker} demo_orders_db = {demo_maker}"
    by (auto simp: active_in_def demo_orders_db_def demo_orders)
  have z: "zsets demo_book key = (if key = (SELL, ord_pair demo_maker) then [level_of exact_valkey demo_maker] else [])" for key
    by (simp add: demo_book_def addOrder_def Let_def empty_valkey_def zadd_def level_of_def demo_maker_def demo_order_def)
  have h: "hashes demo_book (ord_id demo_maker) = Some (Fields (entry_of demo_maker))"
    by (simp add: demo_book_def addOrder_def Let_def)
  have "ord_side demo_maker = SELL" by (simp add: demo_orders)
  then have "on_side side pair {demo_maker} = (if (side, pair) = (SELL, ord_pair demo_maker) then {demo_maker} else {})" for side pair
    by (auto simp: on_side_def)
  with h z have "book_sync exact_valkey {ord_id demo_taker} demo_orders_db demo_book"
    unfolding book_sync_iff db by simp
  with ok show ?thesis
    by (auto simp: fresh_taker_def prices_distinguished_def demo_orders_db_def demo_orders exact_valkey_def)
qed

lemma demo_run_result:
  "case executeMatch exact_valkey (\<lambda>n. ''trade'') 7 demo_taker demo_orders_db demo_book of
     (Inr res, db', book') \<Rightarrow>
       map mt_quantity (mr_trades res) = [1000000000] \<and> remainingAmount (mr_takerOrder res) = 500000000
   | (Inl e, db', book') \<Rightarrow> False"
  by code_simp

lemma demo_run_obtain:
  obtains res db' book' where
    "executeMatch exact_valkey (\<lambda>n. ''trade'') 7 demo_taker demo_orders_db demo_book = (Inr res, db', book')"
    and "map mt_quantity (mr_trades res) = [1000000000]" and "remainingAmount (mr_takerOrder res) = 500000000"
  using demo_run_result by (auto split: prod.splits sum.splits)


theorem match_conserves_quantity_witness:
  "\<exists>res db' book'. executeMatch exact_valkey (\<lambda>n. ''trade'') 7 demo_taker demo_orders_db demo_book = (Inr res, db', book')
    \<and> sum_list (map filledAmount (orders db')) = 2000000000"
proof -
  obtain res db' book' where
    run: "executeMatch exact_valkey (\<lambda>n. ''trade'') 7 demo_taker demo_orders_db demo_book = (Inr res, db', book')"
    and q: "map mt_quantity (mr_trades res) = [1000000000]" and r: "remainingAmount (mr_takerOrder res) = 500000000"
    by (rule demo_run_obtain)
  have "sum_list (map filledAmount (orders demo_orders_db)) = 0" by (simp add: demo_orders_db_def demo_orders)
  with match_conserves_quantity [OF exact_valkey_ok demo_fresh run] q
  have "sum_list (map filledAmount (orders db')) = 2000000000" by simp
  with run show ?thesis by blast
qed

theorem trades_are_fair_witness:
  "\<exists>res db' book' t. executeMatch exact_valkey (\<lambda>n. ''trade'') 7 demo_taker demo_orders_db demo_book = (Inr res, db', book')
    \<and> t \<in> set (mr_trades res) \<and> mt_buyerUserId t \<noteq> mt_sellerUserId t"
proof -
  obtain res db' book' where
    run: "executeMatch exact_valkey (\<lambda>n. ''trade'') 7 demo_taker demo_orders_db demo_book = (Inr res, db', book')"
    and q: "map mt_quantity (mr_trades res) = [1000000000]" and r: "remainingAmount (mr_takerOrder res) = 500000000"
    by (rule demo_run_obtain)
  from q obtain t where t: "t \<in> set (mr_trades res)" by (cases "mr_trades res") auto
  from trades_are_fair [OF exact_valkey_ok demo_fresh run t] have "mt_buyerUserId t \<noteq> mt_sellerUserId t" by blast
  with run t show ?thesis by blast
qed


theorem stale_book_overfills_maker_witness:
  "\<exists>s1' s2' y.
     match_loop (\<lambda>n. ''v'') 7 demo_taker [entry_of demo_maker]
       \<lparr>ms_db = demo_orders_db, ms_book = demo_book, takerRemaining = 1500000000, takerFilled = 0,
        makerOrdersUpdated = [], trades = []\<rparr> = (Inr (), s1')
   \<and> match_loop (\<lambda>n. ''w'') 8 demo_taker2 [entry_of demo_maker]
       \<lparr>ms_db = ms_db s1', ms_book = ms_book s1', takerRemaining = 1000000000, takerFilled = 0,
        makerOrdersUpdated = [], trades = []\<rparr> = (Inr (), s2')
   \<and> findById ''m'' (ms_db s2') = Some y \<and> filledAmount y = 2000000000 \<and> ord_amount y < filledAmount y"
proof -
  let ?s1 = "\<lparr>ms_db = demo_orders_db, ms_book = demo_book, takerRemaining = 1500000000, takerFilled = 0,
      makerOrdersUpdated = [], trades = []\<rparr>"
  have ok: "orders_ok demo_orders_db" using demo_fresh by (simp add: fresh_taker_def)
  have x: "demo_maker \<in> active_in {ord_id demo_taker, ord_id demo_taker2} demo_orders_db"
    by (simp add: active_in_def demo_orders_db_def demo_orders)
  have side: "ord_side demo_maker = opposite (ord_side demo_taker)" "ord_side demo_maker = opposite (ord_side demo_taker2)"
    by (simp_all add: demo_orders opposite_def)
  have c: "crossing demo_taker (entry_of demo_maker)" "crossing demo_taker2 (entry_of demo_maker)"
    by (simp_all add: crossing_def price_match_def demo_orders)
  have n: "ord_amount demo_maker = 1000000000" "remainingAmount demo_maker = 1000000000" "ord_id demo_maker = ''m''"
    by (simp_all add: demo_orders)
  have "0 < takerRemaining ?s1" by simp
  moreover have "demo_maker \<in> active_in {ord_id demo_taker} (ms_db ?s1)" using x by (simp add: active_in_def)
  ultimately have "match_maker (\<lambda>n. ''v'') 7 demo_taker (entry_of demo_maker) ?s1 = (Inr (), after_maker (\<lambda>n. ''v'') 7 demo_taker demo_maker ?s1)"
    using ok side(1) by (intro match_maker_eq) simp_all
  then have "\<exists>s1'. match_loop (\<lambda>n. ''v'') 7 demo_taker [entry_of demo_maker] ?s1 = (Inr (), s1')"
    using c(1) by (simp add: crossing_def)
  then obtain s1' where r1: "match_loop (\<lambda>n. ''v'') 7 demo_taker [entry_of demo_maker] ?s1 = (Inr (), s1')" by blast
  let ?s2 = "\<lparr>ms_db = ms_db s1', ms_book = ms_book s1', takerRemaining = 1000000000, takerFilled = 0,
      makerOrdersUpdated = [], trades = []\<rparr>"
  have "numeric_28_8 (ord_amount demo_maker + remainingAmount demo_maker)" by (simp add: n numeric_28_8_def)
  then have "\<exists>s2' y. match_loop (\<lambda>n. ''w'') 8 demo_taker2 [entry_of demo_maker] ?s2 = (Inr (), s2')
    \<and> map mt_quantity (trades s2') = [remainingAmount demo_maker]
    \<and> findById (ord_id demo_maker) (ms_db s2') = Some y
    \<and> filledAmount y = ord_amount demo_maker + remainingAmount demo_maker \<and> ord_amount y < filledAmount y \<and> remainingAmount y = 0"
    by (intro stale_book_overfills_maker [OF ok x side c _ _ r1]) (simp_all add: n)
  then have "\<exists>s2' y. match_loop (\<lambda>n. ''w'') 8 demo_taker2 [entry_of demo_maker] ?s2 = (Inr (), s2')
      \<and> findById ''m'' (ms_db s2') = Some y \<and> filledAmount y = 2000000000 \<and> ord_amount y < filledAmount y"
    unfolding n by (elim exE conjE) (intro exI conjI, assumption, assumption, simp_all)
  with r1 show ?thesis by blast
qed

end
