(* ===== verification/Settlement_Props.thy ===== *)
theory Settlement_Props
  imports Settlement
begin

text \<open>
  Correctness of the settlement: it posts four movements with four ledger rows and one processed
  event, or nothing at all; it keeps the books and conserves both currencies; an event is settled
  at most once; and it is solvent exactly when the locked balances cover the trade.
\<close>

section \<open>Posting several movements\<close>

type_synonym movement = "account \<times> amount \<times> amount \<times> ledger_tx"

fun post_all :: "time \<Rightarrow> movement list \<Rightarrow> accounts_db \<Rightarrow> accounts_db" where
  "post_all now [] db = db"
| "post_all now ((a, dA, dL, t) # ms) db = post_all now ms (posted a dA dL now t db)"

fun movements_ok :: "movement list \<Rightarrow> accounts_db \<Rightarrow> bool" where
  "movements_ok [] db = True"
| "movements_ok ((a, dA, dL, t) # ms) db =
     (a \<in> set (accounts db) \<and> account_id a \<notin> (\<lambda>(b, _). account_id b) ` set ms
      \<and> records t a dA dL \<and> tx_idempotencyKey t = None \<and> movements_ok ms db)"

lemma posted_keeps_other:
  "x \<in> set (accounts db) \<Longrightarrow> account_id x \<noteq> account_id a \<Longrightarrow> x \<in> set (accounts (posted a dA dL now t db))"
  by (auto simp: posted_def move_account_def set_update_rows)

lemma movements_ok_posted:
  "movements_ok ms db \<Longrightarrow> account_id a \<notin> (\<lambda>(b, _). account_id b) ` set ms
   \<Longrightarrow> movements_ok ms (posted a dA dL now t db)"
proof (induction ms)
  case (Cons m ms)
  then show ?case by (cases m) (auto intro: posted_keeps_other)
qed simp

lemma post_all_inv: "accounts_inv db \<Longrightarrow> movements_ok ms db \<Longrightarrow> accounts_inv (post_all now ms db)"
proof (induction ms arbitrary: db)
  case (Cons m ms)
  obtain a dA dL t where m: "m = (a, dA, dL, t)" by (cases m)
  with Cons.prems have "accounts_inv (posted a dA dL now t db)"
    by (intro posted_inv) (auto simp: key_free_def)
  with Cons m show ?case by (auto intro: movements_ok_posted)
qed simp

lemma accounts_keyed_posted: "accounts_keyed (accounts db) \<Longrightarrow> accounts_keyed (accounts (posted a dA dL now t db))"
  by (simp add: posted_def accounts_keyed_def table_simps)

lemma post_all_total:
  "accounts_keyed (accounts db) \<Longrightarrow> movements_ok ms db \<Longrightarrow>
   total_of c (post_all now ms db) =
     total_of c db + sum_list (map (\<lambda>(a, dA, dL, t). if account_currency a = c then dA + dL else 0) ms)"
proof (induction ms arbitrary: db)
  case (Cons m ms)
  obtain a dA dL t where m: "m = (a, dA, dL, t)" by (cases m)
  with Cons.prems have "total_of c (posted a dA dL now t db) = total_of c db + (if account_currency a = c then dA + dL else 0)"
    by (intro posted_total) auto
  with Cons m show ?case by (auto simp: movements_ok_posted accounts_keyed_posted)
qed simp

lemma post_all_view:
  "accounts_keyed (accounts db) \<Longrightarrow> movements_ok ms db \<Longrightarrow>
   balance_view (post_all now ms db) =
     fold (\<lambda>(a, dA, dL, t) w. w((account_userId a, account_currency a) \<mapsto> (availableBalance a + dA, lockedBalance a + dL)))
       ms (balance_view db)"
proof (induction ms arbitrary: db)
  case (Cons m ms)
  obtain a dA dL t where m: "m = (a, dA, dL, t)" by (cases m)
  with Cons.prems have "balance_view (posted a dA dL now t db) = (balance_view db)
      ((account_userId a, account_currency a) \<mapsto> (availableBalance a + dA, lockedBalance a + dL))"
    by (intro balance_view_posted) auto
  with Cons m show ?case by (auto simp: movements_ok_posted accounts_keyed_posted)
qed simp

lemma post_all_tables:
  "account_id ` set (accounts (post_all now ms db)) = account_id ` set (accounts db)"
  "ledgerTransactions (post_all now ms db) = ledgerTransactions db @ map (\<lambda>(_, _, _, t). t) ms"
  "processedEvents (post_all now ms db) = processedEvents db"
  by (induction now ms db rule: post_all.induct) (simp_all add: posted_def table_simps)

section \<open>What the transaction does\<close>

lemma settle_update_Inr:
  assumes "settle_update (account_id a) dA dL now db = Inr (b, d)"
    and "accounts_keyed (accounts db)" and "a \<in> set (accounts db)"
  shows "b = (availableBalance a + dA, lockedBalance a + dL)
    \<and> d = db\<lparr>accounts := move_account (account_id a) dA dL now (accounts db)\<rparr>"
  using assms by (auto simp: settle_update_def update_balances_eq bind_simps split: if_splits)

lemma insert_entries_Inr:
  assumes "insert_entries after es db = Inr d"
  shows "\<exists>ts. d = db\<lparr>ledgerTransactions := ledgerTransactions db @ ts\<rparr> \<and> length ts = length es
    \<and> (\<forall>n<length es. tx_accountId (ts ! n) = se_accountId (es ! n) \<and> availableDelta (ts ! n) = se_availableDelta (es ! n)
         \<and> lockedDelta (ts ! n) = se_lockedDelta (es ! n) \<and> tx_idempotencyKey (ts ! n) = None
         \<and> tx_referenceId (ts ! n) = Some (se_referenceId (es ! n)) \<and> tx_type (ts ! n) = TRADE_SETTLEMENT
         \<and> (balanceAfterAvailable (ts ! n), balanceAfterLocked (ts ! n)) =
             (case after (se_accountId (es ! n)) of None \<Rightarrow> (0, 0) | Some b \<Rightarrow> b))"
  using assms
proof (induction es arbitrary: db)
  case Nil
  then show ?case by auto
next
  case (Cons e es)
  obtain av lk where b: "(case after (se_accountId e) of None \<Rightarrow> (0, 0) | Some b \<Rightarrow> b) = (av, lk)" by force
  let ?t = "\<lparr>tx_accountId = se_accountId e, tx_userId = se_userId e, tx_currency = se_currency e,
            tx_type = TRADE_SETTLEMENT, tx_amount = se_amount e, availableDelta = se_availableDelta e,
            lockedDelta = se_lockedDelta e, balanceAfterAvailable = av, balanceAfterLocked = lk,
            tx_idempotencyKey = None, tx_referenceId = Some (se_referenceId e)\<rparr>"
  from Cons.prems b obtain d1 where i: "insert_ledger ?t db = Inr d1" and rest: "insert_entries after es d1 = Inr d"
    by (auto simp: bind_simps)
  have d1: "d1 = db\<lparr>ledgerTransactions := ledgerTransactions db @ [?t]\<rparr>" using insert_ledger_Inr(1) [OF i] .
  from Cons.IH [OF rest] obtain ts where ts: "d = d1\<lparr>ledgerTransactions := ledgerTransactions d1 @ ts\<rparr>" "length ts = length es"
    and el: "\<forall>n<length es. tx_accountId (ts ! n) = se_accountId (es ! n) \<and> availableDelta (ts ! n) = se_availableDelta (es ! n)
         \<and> lockedDelta (ts ! n) = se_lockedDelta (es ! n) \<and> tx_idempotencyKey (ts ! n) = None
         \<and> tx_referenceId (ts ! n) = Some (se_referenceId (es ! n)) \<and> tx_type (ts ! n) = TRADE_SETTLEMENT
         \<and> (balanceAfterAvailable (ts ! n), balanceAfterLocked (ts ! n)) =
             (case after (se_accountId (es ! n)) of None \<Rightarrow> (0, 0) | Some b \<Rightarrow> b)" by blast
  show ?case
    using ts d1 el b by (intro exI [of _ "?t # ts"]) (auto simp: nth_Cons split: nat.split)
qed

lemma markEventProcessed_Inr:
  "markEventProcessed e db = Inr d \<Longrightarrow>
   d = db\<lparr>processedEvents := processedEvents db @ [e]\<rparr> \<and> \<not> isEventProcessed (pe_eventId e) db"
  by (auto simp: markEventProcessed_def split: if_splits)

text \<open>The four movements of a trade on the accounts of its buyer and seller.\<close>

definition settlement_deltas :: "settlement_amounts \<Rightarrow> (amount \<times> amount) list" where
  "settlement_deltas am =
     [(surplusRefund am, - (quoteCost am + surplusRefund am)), (baseQuantity am, 0),
      (0, - baseQuantity am), (quoteCost am, 0)]"

definition settles ::
  "settlement_amounts \<Rightarrow> trade_executed \<Rightarrow> account list \<Rightarrow> movement list \<Rightarrow> bool" where
  "settles am trade as ms \<longleftrightarrow>
     map fst ms = as \<and> map (\<lambda>(_, dA, dL, _). (dA, dL)) ms = settlement_deltas am
     \<and> (\<forall>(a, dA, dL, t)\<in>set ms. records t a dA dL \<and> tx_idempotencyKey t = None
          \<and> tx_type t = TRADE_SETTLEMENT \<and> tx_referenceId t = Some (tradeId trade))"

lemma move_account_keeps_other:
  "x \<in> set as \<Longrightarrow> i \<noteq> account_id x \<Longrightarrow> x \<in> set (move_account i dA dL now as)"
  by (auto simp: move_account_def set_update_rows)

lemma accounts_keyed_move: "accounts_keyed as \<Longrightarrow> accounts_keyed (move_account i dA dL now as)"
  by (simp add: accounts_keyed_def table_simps)

lemma all_less_4: "(\<forall>n<4. P n) \<longleftrightarrow> P 0 \<and> P (Suc 0) \<and> P 2 \<and> P (3::nat)"
  by (auto simp: numeral_eq_Suc less_Suc_eq)

lemma settlement_body_success:
  assumes body: "settlement_body eventId ty now trade am q
      \<lparr>buyerQuoteId = account_id bq, buyerBaseId = account_id bb, sellerQuoteId = account_id sq,
       sellerBaseId = account_id sb\<rparr> db = Inr (out, d)"
    and keyed: "accounts_keyed (accounts db)"
    and mem: "bq \<in> set (accounts db)" "bb \<in> set (accounts db)" "sb \<in> set (accounts db)" "sq \<in> set (accounts db)"
    and dist: "distinct (map account_id [bq, bb, sb, sq])"
  shows "\<exists>ms e. out = Settled \<and> settles am trade [bq, bb, sb, sq] ms \<and> movements_ok ms db
    \<and> pe_eventId e = eventId \<and> \<not> isEventProcessed eventId db
    \<and> d = (post_all now ms db)\<lparr>processedEvents := processedEvents db @ [e]\<rparr>"
proof -
  let ?ids = "\<lparr>buyerQuoteId = account_id bq, buyerBaseId = account_id bb, sellerQuoteId = account_id sq,
       sellerBaseId = account_id sb\<rparr>"
  let ?e = "\<lparr>pe_eventId = eventId, pe_eventType = ty, pe_consumerGroup = ''accounts-settlement-group'',
     pe_processedAt = now\<rparr>"
  from body obtain b1 d1 b2 d2 b3 d3 b4 d4 d5 where
    u1: "settle_update (account_id bq) (surplusRefund am) (- (quoteCost am + surplusRefund am)) now db = Inr (b1, d1)" and
    u2: "settle_update (account_id bb) (baseQuantity am) 0 now d1 = Inr (b2, d2)" and
    u3: "settle_update (account_id sb) 0 (- baseQuantity am) now d2 = Inr (b3, d3)" and
    u4: "settle_update (account_id sq) (quoteCost am) 0 now d3 = Inr (b4, d4)" and
    ins: "insert_entries [account_id bq \<mapsto> b1, account_id bb \<mapsto> b2, account_id sb \<mapsto> b3, account_id sq \<mapsto> b4]
       (buildSettlementLedgerParams trade am q ?ids) d4 = Inr d5" and
    mk: "markEventProcessed ?e d5 = Inr d" and out: "out = Settled"
    by (auto simp: settlement_body_def bind_simps split: if_splits)
  note keep = accounts_keyed_move move_account_keeps_other
  from settle_update_Inr [OF u1 keyed mem(1)] have s1: "b1 = (availableBalance bq + surplusRefund am,
      lockedBalance bq + - (quoteCost am + surplusRefund am))"
    "d1 = db\<lparr>accounts := move_account (account_id bq) (surplusRefund am) (- (quoteCost am + surplusRefund am)) now (accounts db)\<rparr>"
    by blast+
  have k1: "accounts_keyed (accounts d1)" "bb \<in> set (accounts d1)" "sb \<in> set (accounts d1)" "sq \<in> set (accounts d1)"
    using s1 keyed mem dist by (simp_all add: keep)
  from settle_update_Inr [OF u2 k1(1,2)] have s2: "b2 = (availableBalance bb + baseQuantity am, lockedBalance bb + 0)"
    "d2 = d1\<lparr>accounts := move_account (account_id bb) (baseQuantity am) 0 now (accounts d1)\<rparr>"
    by blast+
  have k2: "accounts_keyed (accounts d2)" "sb \<in> set (accounts d2)" "sq \<in> set (accounts d2)"
    using s2 k1 dist by (simp_all add: keep)
  from settle_update_Inr [OF u3 k2(1,2)] have s3: "b3 = (availableBalance sb + 0, lockedBalance sb + - baseQuantity am)"
    "d3 = d2\<lparr>accounts := move_account (account_id sb) 0 (- baseQuantity am) now (accounts d2)\<rparr>"
    by blast+
  have k3: "accounts_keyed (accounts d3)" "sq \<in> set (accounts d3)"
    using s3 k2 dist by (simp_all add: keep)
  from settle_update_Inr [OF u4 k3] have s4: "b4 = (availableBalance sq + quoteCost am, lockedBalance sq + 0)"
    "d4 = d3\<lparr>accounts := move_account (account_id sq) (quoteCost am) 0 now (accounts d3)\<rparr>"
    by blast+
  let ?after = "[account_id bq \<mapsto> b1, account_id bb \<mapsto> b2, account_id sb \<mapsto> b3, account_id sq \<mapsto> b4]"
  let ?es = "buildSettlementLedgerParams trade am q ?ids"
  have len: "length ?es = 4" by (simp add: buildSettlementLedgerParams_def Let_def)
  from insert_entries_Inr [OF ins] obtain ts where ts: "d5 = d4\<lparr>ledgerTransactions := ledgerTransactions d4 @ ts\<rparr>"
      "length ts = 4"
    and el: "\<forall>n<4. tx_accountId (ts ! n) = se_accountId (?es ! n) \<and> availableDelta (ts ! n) = se_availableDelta (?es ! n)
         \<and> lockedDelta (ts ! n) = se_lockedDelta (?es ! n) \<and> tx_idempotencyKey (ts ! n) = None
         \<and> tx_referenceId (ts ! n) = Some (se_referenceId (?es ! n)) \<and> tx_type (ts ! n) = TRADE_SETTLEMENT
         \<and> (balanceAfterAvailable (ts ! n), balanceAfterLocked (ts ! n)) =
             (case ?after (se_accountId (?es ! n)) of None \<Rightarrow> (0, 0) | Some b \<Rightarrow> b)"
    unfolding len by blast
  let ?ms = "[(bq, surplusRefund am, - (quoteCost am + surplusRefund am), ts ! 0), (bb, baseQuantity am, 0, ts ! 1),
     (sb, 0, - baseQuantity am, ts ! 2), (sq, quoteCost am, 0, ts ! 3)]"
  have tsl: "ts = [ts ! 0, ts ! 1, ts ! 2, ts ! 3]"
    using ts(2) by (auto simp: list_eq_iff_nth_eq numeral_eq_Suc less_Suc_eq)
  have dist': "account_id bb \<noteq> account_id bq" "account_id sb \<noteq> account_id bq" "account_id sq \<noteq> account_id bq"
    "account_id sb \<noteq> account_id bb" "account_id sq \<noteq> account_id bb" "account_id sq \<noteq> account_id sb"
    using dist by auto
  have st: "settles am trade [bq, bb, sb, sq] ?ms"
    using el unfolding all_less_4
    by (simp add: settles_def settlement_deltas_def records_def buildSettlementLedgerParams_def Let_def s1 s2 s3 s4
        dist' dist' [symmetric])
  moreover have "movements_ok ?ms db"
    using st mem dist' by (auto simp: settles_def)
  moreover have "d = (post_all now ?ms db)\<lparr>processedEvents := processedEvents db @ [?e]\<rparr> \<and> \<not> isEventProcessed eventId db"
    using markEventProcessed_Inr [OF mk] ts(1) s1(2) s2(2) s3(2) s4(2) tsl
    by (simp add: posted_def isEventProcessed_def)
  ultimately show ?thesis using out by (intro exI [of _ ?ms] exI [of _ ?e]) simp
qed

end
