(* ===== verification/Settlement_Claims.thy ===== *)
theory Settlement_Claims
  imports Settlement_Props
begin

text \<open>
  The settlement consumer as a whole: the accounts it opens, its transaction, and the properties
  of one message.
\<close>

section \<open>Opening the four accounts\<close>

definition accounts_extend :: "accounts_db \<Rightarrow> accounts_db \<Rightarrow> bool" where
  "accounts_extend d d' \<longleftrightarrow>
     (\<forall>a\<in>set (accounts d). \<exists>b\<in>set (accounts d').
        account_id b = account_id a \<and> account_userId b = account_userId a \<and> account_currency b = account_currency a)"

text \<open>No service deletes an account or changes its owner.\<close>

definition race_extends :: "pg_env \<Rightarrow> bool" where
  "race_extends pg \<longleftrightarrow> (\<forall>d. accounts_extend d (race1 pg d))"

definition has_account :: "uuid \<Rightarrow> uuid \<Rightarrow> string \<Rightarrow> accounts_db \<Rightarrow> bool" where
  "has_account i u c d \<longleftrightarrow>
     (\<exists>a\<in>set (accounts d). account_id a = i \<and> account_userId a = u \<and> account_currency a = c)"

lemma accounts_extend_refl [simp]: "accounts_extend d d"
  by (auto simp: accounts_extend_def)

lemma accounts_extend_trans: "accounts_extend d d' \<Longrightarrow> accounts_extend d' d'' \<Longrightarrow> accounts_extend d d''"
  by (fastforce simp: accounts_extend_def)

lemma has_account_extend: "has_account i u c d \<Longrightarrow> accounts_extend d d' \<Longrightarrow> has_account i u c d'"
  by (fastforce simp: accounts_extend_def has_account_def)

lemma race_extends_quiet [simp]: "race_extends quiet_pg"
  by (simp add: race_extends_def)

lemma findOrCreate_opens:
  assumes "findOrCreate pg newId now u c db = (r, d)" and "race_extends pg"
  shows "accounts_extend db d \<and> (\<forall>a. r = Inr a \<longrightarrow> has_account (account_id a) u c d)"
proof (cases "findByUserAndCurrency u c db")
  case (Some a)
  with assms(1) findByUserAndCurrency_Some [OF Some] show ?thesis
    by (auto simp: findOrCreate_def has_account_def)
next
  case None
  have e: "accounts_extend db (race1 pg db)" using assms(2) by (simp add: race_extends_def)
  show ?thesis
  proof (cases "insert_account newId u c now (race1 pg db)")
    case (Inl x)
    with assms(1) None e show ?thesis
      by (auto simp: findOrCreate_def has_account_def Let_def split: option.splits dest!: findByUserAndCurrency_Some)
  next
    case (Inr ad)
    then obtain a where ins: "insert_account newId u c now (race1 pg db) = Inr (a, d)" and r: "r = Inr a"
      using assms(1) None by (cases ad) (auto simp: findOrCreate_def)
    have "accounts_extend (race1 pg db) d" using insert_account_Inr(1) [OF ins] by (auto simp: accounts_extend_def)
    with e have "accounts_extend db d" by (rule accounts_extend_trans)
    with insert_account_Inr [OF ins] r show ?thesis by (auto simp: has_account_def)
  qed
qed

lemma post_all_extends: "accounts_extend d (post_all now ms d)"
proof (induction now ms d rule: post_all.induct)
  case (2 now a dA dL t ms db)
  have "accounts_extend db (posted a dA dL now t db)"
    unfolding accounts_extend_def
  proof
    fix x assume "x \<in> set (accounts db)"
    then have "(if account_id x = account_id a then adjusted dA dL now x else x) \<in> set (accounts (posted a dA dL now t db))"
      by (auto simp: posted_def move_account_def update_rows_def)
    then show "\<exists>b\<in>set (accounts (posted a dA dL now t db)). account_id b = account_id x
        \<and> account_userId b = account_userId x \<and> account_currency b = account_currency x"
      by (rule rev_bexI) simp
  qed
  with 2 show ?case by (auto intro: accounts_extend_trans)
qed simp

lemma has_account_distinct:
  assumes "accounts_keyed (accounts d)" and "has_account i u c d" and "has_account j v e d" and "(u, c) \<noteq> (v, e)"
  shows "i \<noteq> j"
proof
  assume "i = j"
  with assms(2,3) obtain a b where "a \<in> set (accounts d)" "b \<in> set (accounts d)" "account_id a = account_id b"
    "account_userId a = u" "account_currency a = c" "account_userId b = v" "account_currency b = e"
    by (auto simp: has_account_def)
  with assms(1,4) show False by (metis accounts_keyed_def distinct_key_eq)
qed

section \<open>One message\<close>

definition trade_message :: "uuid \<Rightarrow> string \<Rightarrow> trade_executed \<Rightarrow> trade_executed envelope option" where
  "trade_message eventId ty trade =
     Some \<lparr>env_eventId = eventId, env_action = Some ''TRADE_EXECUTED'', env_eventType = ty, env_payload = Some trade\<rparr>"

definition settlement_ids_ok :: "trade_executed \<Rightarrow> string \<Rightarrow> settlement_ids \<Rightarrow> accounts_db \<Rightarrow> bool" where
  "settlement_ids_ok trade q ids d \<longleftrightarrow>
     has_account (buyerQuoteId ids) (buyerUserId trade) q d
     \<and> has_account (buyerBaseId ids) (buyerUserId trade) (symbol_base (trade_symbol trade)) d
     \<and> has_account (sellerQuoteId ids) (sellerUserId trade) q d
     \<and> has_account (sellerBaseId ids) (sellerUserId trade) (symbol_base (trade_symbol trade)) d"

text \<open>
  Every answer of the consumer comes from the untouched state, from the states in which the
  accounts were opened, or from the settlement transaction on them.
\<close>

lemma settlement_currencies:
  "quoteCurrency (calculateSettlementAmounts fx trade) = symbol_quote (trade_symbol trade)"
  "baseCurrency (calculateSettlementAmounts fx trade) = symbol_base (trade_symbol trade)"
  by (simp_all add: calculateSettlementAmounts_def)

lemma handleTradeExecuted_cases:
  assumes eq: "handleTradeExecuted fx pg newIds now header message db = (r, db')" and ext: "race_extends pg"
    and P: "P db" and step: "\<forall>d i u c. P d \<longrightarrow> P (snd (findOrCreate pg i now u c d))"
  shows "(P db' \<and> r \<noteq> Inr Settled)
    \<or> (\<exists>env trade q ids d. message = Some env \<and> env_payload env = Some trade \<and> P d
         \<and> symbol_quote (trade_symbol trade) = Some q \<and> buyerUserId trade \<noteq> sellerUserId trade
         \<and> settlement_ids_ok trade q ids d
         \<and> settlement_tx pg (env_eventId env) (env_eventType env) now trade
             (calculateSettlementAmounts fx trade) q ids d = (r, db'))"
proof (cases "\<exists>env trade q. message = Some env \<and> env_payload env = Some trade \<and> env_eventId env \<noteq> []
     \<and> (envelope_action env header = [] \<or> envelope_action env header = ''TRADE_EXECUTED'')
     \<and> buyerUserId trade \<noteq> sellerUserId trade \<and> symbol_quote (trade_symbol trade) = Some q")
  case False
  with eq P have "db' = db \<and> r \<noteq> Inr Settled"
    by (auto simp: handleTradeExecuted_def Let_def calculateSettlementAmounts_def split: option.splits if_splits)
  with P show ?thesis by blast
next
  case True
  then obtain env trade q where m: "message = Some env" "env_payload env = Some trade" "env_eventId env \<noteq> []"
    and act: "envelope_action env header = [] \<or> envelope_action env header = ''TRADE_EXECUTED''"
    and t: "buyerUserId trade \<noteq> sellerUserId trade" "symbol_quote (trade_symbol trade) = Some q" by blast
  let ?b = "symbol_base (trade_symbol trade)"
  have step_rule: "P (snd (findOrCreate pg i now u c d))" if "P d" for d i u c using step that by blast
  obtain r1 d1 where f1: "findOrCreate pg (newIds ! 0) now (buyerUserId trade) q db = (r1, d1)" by force
  obtain r2 d2 where f2: "findOrCreate pg (newIds ! 1) now (buyerUserId trade) ?b d1 = (r2, d2)" by force
  obtain r3 d3 where f3: "findOrCreate pg (newIds ! 2) now (sellerUserId trade) q d2 = (r3, d3)" by force
  obtain r4 d4 where f4: "findOrCreate pg (newIds ! 3) now (sellerUserId trade) ?b d3 = (r4, d4)" by force
  from step_rule [OF P, of "newIds ! 0" "buyerUserId trade" q] f1 have "P d1" by simp
  from step_rule [OF this, of "newIds ! 1" "buyerUserId trade" ?b] f2 have "P d2" by simp
  from step_rule [OF this, of "newIds ! 2" "sellerUserId trade" q] f3 have "P d3" by simp
  from step_rule [OF this, of "newIds ! 3" "sellerUserId trade" ?b] f4 have P4: "P d4" by simp
  let ?ids = "bindR r1 (\<lambda>bq. bindR r2 (\<lambda>bb. bindR r3 (\<lambda>sq. bindR r4 (\<lambda>sb.
      Inr \<lparr>buyerQuoteId = account_id bq, buyerBaseId = account_id bb,
           sellerQuoteId = account_id sq, sellerBaseId = account_id sb\<rparr>))))"
  have run: "(case ?ids of Inl e \<Rightarrow> (Inl e, d4)
      | Inr ids \<Rightarrow> settlement_tx pg (env_eventId env) (env_eventType env) now trade
          (calculateSettlementAmounts fx trade) q ids d4) = (r, db')"
    using eq m act t f1 f2 f3 f4
    by (auto simp: handleTradeExecuted_def Let_def settlement_currencies)
  show ?thesis
  proof (cases ?ids)
    case (Inl e)
    with run P4 show ?thesis by auto
  next
    case (Inr ids)
    then obtain bq bb sq sb where rs: "r1 = Inr bq" "r2 = Inr bb" "r3 = Inr sq" "r4 = Inr sb"
      and ids: "ids = \<lparr>buyerQuoteId = account_id bq, buyerBaseId = account_id bb,
           sellerQuoteId = account_id sq, sellerBaseId = account_id sb\<rparr>"
      by (auto simp: bind_simps)
    note o1 = findOrCreate_opens [OF f1 ext] and o2 = findOrCreate_opens [OF f2 ext]
      and o3 = findOrCreate_opens [OF f3 ext] and o4 = findOrCreate_opens [OF f4 ext]
    have e24: "accounts_extend d2 d4" using o3 o4 by (blast intro: accounts_extend_trans)
    have "has_account (account_id bq) (buyerUserId trade) q d4"
      using o1 o2 e24 rs(1) by (blast intro: has_account_extend)
    moreover have "has_account (account_id bb) (buyerUserId trade) ?b d4"
      using o2 e24 rs(2) by (blast intro: has_account_extend)
    moreover have "has_account (account_id sq) (sellerUserId trade) q d4"
      using o3 o4 rs(3) by (blast intro: has_account_extend)
    moreover have "has_account (account_id sb) (sellerUserId trade) ?b d4"
      using o4 rs(4) by blast
    ultimately have "settlement_ids_ok trade q ids d4" by (simp add: settlement_ids_ok_def ids)
    with run Inr P4 m t show ?thesis by auto
  qed
qed

lemma settlement_tx_cases:
  assumes tx: "settlement_tx pg eventId ty now trade am q ids d = (r, db')"
    and ok: "settlement_ids_ok trade q ids d" and ext: "race_extends pg"
    and keyed: "accounts_keyed (accounts (race1 pg d))"
    and dif: "buyerUserId trade \<noteq> sellerUserId trade" "q \<noteq> symbol_base (trade_symbol trade)"
  shows "(r \<noteq> Inr Settled \<and> (db' = d \<or> db' = race1 pg d))
    \<or> (\<exists>bq bb sb sq ms e. r = Inr Settled \<and> settles am trade [bq, bb, sb, sq] ms \<and> movements_ok ms (race1 pg d)
         \<and> pe_eventId e = eventId \<and> \<not> isEventProcessed eventId d \<and> \<not> isEventProcessed eventId (race1 pg d)
         \<and> account_userId bq = buyerUserId trade \<and> account_currency bq = q
         \<and> account_userId bb = buyerUserId trade \<and> account_currency bb = symbol_base (trade_symbol trade)
         \<and> account_userId sb = sellerUserId trade \<and> account_currency sb = symbol_base (trade_symbol trade)
         \<and> account_userId sq = sellerUserId trade \<and> account_currency sq = q
         \<and> db' = (post_all now ms (race1 pg d))\<lparr>processedEvents := processedEvents (race1 pg d) @ [e]\<rparr>)"
proof (cases "isEventProcessed eventId d")
  case True
  with tx show ?thesis by (auto simp: settlement_tx_def)
next
  case False
  let ?d = "race1 pg d"
  let ?b = "symbol_base (trade_symbol trade)"
  have ex: "accounts_extend d ?d" using ext by (simp add: race_extends_def)
  have h: "has_account (buyerQuoteId ids) (buyerUserId trade) q ?d" "has_account (buyerBaseId ids) (buyerUserId trade) ?b ?d"
    "has_account (sellerBaseId ids) (sellerUserId trade) ?b ?d" "has_account (sellerQuoteId ids) (sellerUserId trade) q ?d"
    using ok has_account_extend [OF _ ex] unfolding settlement_ids_ok_def by blast+
  then obtain bq bb sb sq where mem: "bq \<in> set (accounts ?d)" "bb \<in> set (accounts ?d)" "sb \<in> set (accounts ?d)" "sq \<in> set (accounts ?d)"
    and id: "account_id bq = buyerQuoteId ids" "account_id bb = buyerBaseId ids"
      "account_id sb = sellerBaseId ids" "account_id sq = sellerQuoteId ids"
    and own: "account_userId bq = buyerUserId trade" "account_currency bq = q"
      "account_userId bb = buyerUserId trade" "account_currency bb = ?b"
      "account_userId sb = sellerUserId trade" "account_currency sb = ?b"
      "account_userId sq = sellerUserId trade" "account_currency sq = q"
    unfolding has_account_def by blast
  note hd = has_account_distinct [OF keyed]
  have dist: "distinct (map account_id [bq, bb, sb, sq])"
    using hd [OF h(1) h(2)] hd [OF h(1) h(3)] hd [OF h(1) h(4)] hd [OF h(2) h(3)] hd [OF h(2) h(4)] hd [OF h(3) h(4)] dif id
    by auto
  have idr: "ids = \<lparr>buyerQuoteId = account_id bq, buyerBaseId = account_id bb, sellerQuoteId = account_id sq,
       sellerBaseId = account_id sb\<rparr>" by (simp add: id)
  show ?thesis
  proof (cases "settlement_body eventId ty now trade am q ids ?d")
    case (Inl e)
    with tx False show ?thesis by (auto simp: settlement_tx_def transaction_def)
  next
    case (Inr od)
    obtain out d' where od: "od = (out, d')" by force
    with Inr tx False have r: "r = Inr out" "db' = d'" by (auto simp: settlement_tx_def transaction_def)
    from settlement_body_success [OF Inr [unfolded idr od] keyed mem dist] own r False show ?thesis by blast
  qed
qed

section \<open>Balances before and after\<close>

definition funds :: "accounts_db \<Rightarrow> uuid \<times> string \<Rightarrow> amount \<times> amount" where
  "funds db uc = (case balance_view db uc of None \<Rightarrow> (0, 0) | Some w \<Rightarrow> w)"

definition opens_zero :: "accounts_db \<Rightarrow> accounts_db \<Rightarrow> bool" where
  "opens_zero db d \<longleftrightarrow> (\<forall>uc. funds d uc = funds db uc)"

definition settlement_delta :: "trade_executed \<Rightarrow> settlement_amounts \<Rightarrow> string \<Rightarrow> uuid \<times> string \<Rightarrow> amount \<times> amount" where
  "settlement_delta trade am q uc =
     (if uc = (buyerUserId trade, q) then (surplusRefund am, - (quoteCost am + surplusRefund am))
      else if uc = (buyerUserId trade, baseCurrency am) then (baseQuantity am, 0)
      else if uc = (sellerUserId trade, baseCurrency am) then (0, - baseQuantity am)
      else if uc = (sellerUserId trade, q) then (quoteCost am, 0)
      else (0, 0))"

lemma findOrCreate_funds: "funds (snd (findOrCreate quiet_pg i now u c d)) uc = funds d uc"
proof -
  obtain r d' where eq: "findOrCreate quiet_pg i now u c d = (r, d')" by force
  from findOrCreate_cases [OF eq] show ?thesis
  proof (elim disjE exE)
    fix a assume "insert_account i u c now (race1 quiet_pg d) = Inr (a, d')"
    then have ins: "insert_account i u c now d = Inr (a, d')" by simp
    have "balance_view d (u, c) = None" using insert_account_Inr(8) [OF ins] by (simp add: balance_view_def)
    then show ?thesis
      using find_after_insert [OF ins] insert_account_Inr(5,6) [OF ins] eq
      by (cases "uc = (u, c)") (auto simp: funds_def balance_view_def)
  qed (use eq in auto)
qed

lemma funds_account:
  "accounts_keyed (accounts d) \<Longrightarrow> a \<in> set (accounts d) \<Longrightarrow>
   funds d (account_userId a, account_currency a) = (availableBalance a, lockedBalance a)"
  by (simp add: funds_def balance_view_def find_by_user_currency)

lemma processedEvents_irrelevant [simp]:
  "accounts_inv (d\<lparr>processedEvents := es\<rparr>) = accounts_inv d"
  "no_overdraft (d\<lparr>processedEvents := es\<rparr>) = no_overdraft d"
  "total_of c (d\<lparr>processedEvents := es\<rparr>) = total_of c d"
  "balance_view (d\<lparr>processedEvents := es\<rparr>) = balance_view d"
  "funds (d\<lparr>processedEvents := es\<rparr>) = funds d"
  by (simp_all add: accounts_inv_def no_overdraft_def total_of_def balance_view_def findByUserAndCurrency_def
      balances_reconcile_def funds_def fun_eq_iff)

lemma settles_shape:
  assumes "settles am trade [bq, bb, sb, sq] ms"
  obtains t1 t2 t3 t4 where "ms = [(bq, surplusRefund am, - (quoteCost am + surplusRefund am), t1),
    (bb, baseQuantity am, 0, t2), (sb, 0, - baseQuantity am, t3), (sq, quoteCost am, 0, t4)]"
  using assms that by (auto simp: settles_def settlement_deltas_def map_eq_Cons_conv)

lemma settled_funds:
  assumes st: "settles am trade [bq, bb, sb, sq] ms" and ok: "movements_ok ms d" and keyed: "accounts_keyed (accounts d)"
    and own: "account_userId bq = buyerUserId trade" "account_currency bq = q"
      "account_userId bb = buyerUserId trade" "account_currency bb = baseCurrency am"
      "account_userId sb = sellerUserId trade" "account_currency sb = baseCurrency am"
      "account_userId sq = sellerUserId trade" "account_currency sq = q"
    and dif: "buyerUserId trade \<noteq> sellerUserId trade" "q \<noteq> baseCurrency am"
  shows "funds (post_all now ms d) uc =
    (fst (funds d uc) + fst (settlement_delta trade am q uc), snd (funds d uc) + snd (settlement_delta trade am q uc))"
proof -
  obtain t1 t2 t3 t4 where ms: "ms = [(bq, surplusRefund am, - (quoteCost am + surplusRefund am), t1),
    (bb, baseQuantity am, 0, t2), (sb, 0, - baseQuantity am, t3), (sq, quoteCost am, 0, t4)]"
    using settles_shape [OF st] .
  have mem: "bq \<in> set (accounts d)" "bb \<in> set (accounts d)" "sb \<in> set (accounts d)" "sq \<in> set (accounts d)"
    using ok by (simp_all add: ms)
  note f = mem [THEN funds_account [OF keyed], unfolded own]
  have v: "balance_view (post_all now ms d) = (balance_view d)
     ((buyerUserId trade, q) \<mapsto> (availableBalance bq + surplusRefund am, lockedBalance bq + - (quoteCost am + surplusRefund am)),
      (buyerUserId trade, baseCurrency am) \<mapsto> (availableBalance bb + baseQuantity am, lockedBalance bb + 0),
      (sellerUserId trade, baseCurrency am) \<mapsto> (availableBalance sb + 0, lockedBalance sb + - baseQuantity am),
      (sellerUserId trade, q) \<mapsto> (availableBalance sq + quoteCost am, lockedBalance sq + 0))"
    unfolding post_all_view [OF keyed ok] by (simp add: ms own)
  consider "uc = (buyerUserId trade, q)" | "uc = (buyerUserId trade, baseCurrency am)"
    | "uc = (sellerUserId trade, baseCurrency am)" | "uc = (sellerUserId trade, q)"
    | "uc \<notin> {(buyerUserId trade, q), (buyerUserId trade, baseCurrency am),
         (sellerUserId trade, baseCurrency am), (sellerUserId trade, q)}" by blast
  then show ?thesis
  proof cases
    case 5
    then have "balance_view (post_all now ms d) uc = balance_view d uc" by (simp add: v)
    with 5 show ?thesis by (simp add: funds_def settlement_delta_def)
  qed (use f v dif in \<open>simp_all add: funds_def settlement_delta_def\<close>)
qed

end
