(* ===== verification/Settlement_Safety.thy ===== *)
theory Settlement_Safety
  imports Settlement_Claims
begin

text \<open>
  The properties of the settlement consumer: consistency, conservation, exactness, at most once,
  and the exact condition under which a trade leaves no account negative.
\<close>

section \<open>Supporting facts\<close>

definition distinct_currencies :: "trade_executed envelope option \<Rightarrow> bool" where
  "distinct_currencies message \<longleftrightarrow>
     (case message of None \<Rightarrow> True | Some env \<Rightarrow>
        (case env_payload env of None \<Rightarrow> True | Some trade \<Rightarrow>
           symbol_quote (trade_symbol trade) \<noteq> Some (symbol_base (trade_symbol trade))))"

lemma update_balances_events:
  "update_balances i g dA dL now db = Inr (u, d) \<Longrightarrow> processedEvents d = processedEvents db"
  by (auto simp: update_balances_def Let_def split: option.splits if_splits)

lemma settle_update_events:
  "settle_update i dA dL now db = Inr (b, d) \<Longrightarrow> processedEvents d = processedEvents db"
  by (cases "update_balances i (\<lambda>_. True) dA dL now db")
    (auto simp: settle_update_def dest: update_balances_events)

lemma settlement_body_events:
  assumes "settlement_body eventId ty now trade am q ids db = Inr (out, d)"
  shows "out = Settled \<and> \<not> isEventProcessed eventId db \<and> isEventProcessed eventId d"
proof -
  let ?e = "\<lparr>pe_eventId = eventId, pe_eventType = ty, pe_consumerGroup = ''accounts-settlement-group'',
     pe_processedAt = now\<rparr>"
  from assms obtain b1 d1 b2 d2 b3 d3 b4 d4 after d5 where
    u: "settle_update (buyerQuoteId ids) (surplusRefund am) (- (quoteCost am + surplusRefund am)) now db = Inr (b1, d1)"
      "settle_update (buyerBaseId ids) (baseQuantity am) 0 now d1 = Inr (b2, d2)"
      "settle_update (sellerBaseId ids) 0 (- baseQuantity am) now d2 = Inr (b3, d3)"
      "settle_update (sellerQuoteId ids) (quoteCost am) 0 now d3 = Inr (b4, d4)" and
    ins: "insert_entries after (buildSettlementLedgerParams trade am q ids) d4 = Inr d5" and
    mk: "markEventProcessed ?e d5 = Inr d" and out: "out = Settled"
    by (auto simp: settlement_body_def bind_simps split: if_splits)
  have "processedEvents d5 = processedEvents db"
    using insert_entries_Inr [OF ins] u [THEN settle_update_events] by auto
  with markEventProcessed_Inr [OF mk] out show ?thesis
    by (auto simp: isEventProcessed_def find_append split: option.splits)
qed

lemma findOrCreate_existing:
  assumes "has_account i u c d"
  shows "\<exists>a. \<forall>newId now. findOrCreate quiet_pg newId now u c d = (Inr a, d)"
proof -
  from assms have "findByUserAndCurrency u c d \<noteq> None"
    by (auto simp: has_account_def findByUserAndCurrency_def find_None_iff)
  then show ?thesis by (auto simp: findOrCreate_def)
qed

lemma quiet_settled:
  assumes eq: "handleTradeExecuted fx quiet_pg newIds now header message db = (Inr Settled, db')"
    and inv: "accounts_inv db" and cur: "distinct_currencies message"
  obtains env trade q bq bb sb sq ms e d where
    "message = Some env" "env_payload env = Some trade" "symbol_quote (trade_symbol trade) = Some q"
    "buyerUserId trade \<noteq> sellerUserId trade" "q \<noteq> symbol_base (trade_symbol trade)"
    "accounts_inv d" "\<And>uc. funds d uc = funds db uc"
    "settles (calculateSettlementAmounts fx trade) trade [bq, bb, sb, sq] ms" "movements_ok ms d"
    "pe_eventId e = env_eventId env"
    "account_userId bq = buyerUserId trade" "account_currency bq = q"
    "account_userId bb = buyerUserId trade" "account_currency bb = symbol_base (trade_symbol trade)"
    "account_userId sb = sellerUserId trade" "account_currency sb = symbol_base (trade_symbol trade)"
    "account_userId sq = sellerUserId trade" "account_currency sq = q"
    "db' = (post_all now ms d)\<lparr>processedEvents := processedEvents d @ [e]\<rparr>"
proof -
  let ?P = "\<lambda>d. accounts_inv d \<and> (\<forall>uc. funds d uc = funds db uc)"
  have step: "\<forall>d i u c. ?P d \<longrightarrow> ?P (snd (findOrCreate quiet_pg i now u c d))"
    by (simp add: findOrCreate_keeps(1) findOrCreate_funds)
  from handleTradeExecuted_cases [of fx quiet_pg newIds now header message db "Inr Settled" db' ?P, OF eq _ _ step] inv
  obtain env trade q ids d where m: "message = Some env" "env_payload env = Some trade"
    and P: "?P d" and q: "symbol_quote (trade_symbol trade) = Some q" "buyerUserId trade \<noteq> sellerUserId trade"
    and ok: "settlement_ids_ok trade q ids d"
    and tx: "settlement_tx quiet_pg (env_eventId env) (env_eventType env) now trade
       (calculateSettlementAmounts fx trade) q ids d = (Inr Settled, db')"
    by auto
  have ne: "q \<noteq> symbol_base (trade_symbol trade)" using cur m q by (simp add: distinct_currencies_def)
  have k: "accounts_keyed (accounts (race1 quiet_pg d))" using P by (simp add: accounts_inv_def)
  from settlement_tx_cases [OF tx ok race_extends_quiet k q(2) ne] show thesis
  proof (elim disjE exE conjE)
    fix bq bb sb sq ms e
    assume *: "settles (calculateSettlementAmounts fx trade) trade [bq, bb, sb, sq] ms"
      "movements_ok ms (race1 quiet_pg d)" "pe_eventId e = env_eventId env"
      "account_userId bq = buyerUserId trade" "account_currency bq = q"
      "account_userId bb = buyerUserId trade" "account_currency bb = symbol_base (trade_symbol trade)"
      "account_userId sb = sellerUserId trade" "account_currency sb = symbol_base (trade_symbol trade)"
      "account_userId sq = sellerUserId trade" "account_currency sq = q"
      "db' = (post_all now ms (race1 quiet_pg d))\<lparr>processedEvents := processedEvents (race1 quiet_pg d) @ [e]\<rparr>"
    have "accounts_inv d" and "\<And>uc. funds d uc = funds db uc" using P by blast+
    then show thesis by (rule that [OF m q ne _ _ * [unfolded quiet_pg_simps]])
  qed simp_all
qed

lemma settled_moves:
  assumes "accounts_inv db" and "distinct_currencies message"
    and "handleTradeExecuted fx quiet_pg newIds now header message db = (Inr Settled, db')"
  shows "\<exists>env trade q. message = Some env \<and> env_payload env = Some trade \<and> symbol_quote (trade_symbol trade) = Some q
    \<and> buyerUserId trade \<noteq> sellerUserId trade \<and> q \<noteq> symbol_base (trade_symbol trade) \<and> accounts_inv db'
    \<and> (\<forall>uc. funds db' uc =
          (fst (funds db uc) + fst (settlement_delta trade (calculateSettlementAmounts fx trade) q uc),
           snd (funds db uc) + snd (settlement_delta trade (calculateSettlementAmounts fx trade) q uc)))"
proof -
  obtain env trade q bq bb sb sq ms e d where
    m: "message = Some env" "env_payload env = Some trade" "symbol_quote (trade_symbol trade) = Some q"
    and ne: "buyerUserId trade \<noteq> sellerUserId trade" "q \<noteq> symbol_base (trade_symbol trade)"
    and d: "accounts_inv d" and fd: "\<And>uc. funds d uc = funds db uc"
    and st: "settles (calculateSettlementAmounts fx trade) trade [bq, bb, sb, sq] ms" and mv: "movements_ok ms d"
    and "pe_eventId e = env_eventId env"
    and own: "account_userId bq = buyerUserId trade" "account_currency bq = q"
    "account_userId bb = buyerUserId trade" "account_currency bb = symbol_base (trade_symbol trade)"
    "account_userId sb = sellerUserId trade" "account_currency sb = symbol_base (trade_symbol trade)"
    "account_userId sq = sellerUserId trade" "account_currency sq = q"
    and db': "db' = (post_all now ms d)\<lparr>processedEvents := processedEvents d @ [e]\<rparr>"
    by (rule quiet_settled [OF assms(3,1,2)]) (rule that, assumption+)
  have k: "accounts_keyed (accounts d)" using d by (simp add: accounts_inv_def)
  have "funds db' uc = (fst (funds db uc) + fst (settlement_delta trade (calculateSettlementAmounts fx trade) q uc),
           snd (funds db uc) + snd (settlement_delta trade (calculateSettlementAmounts fx trade) q uc))" for uc
    using settled_funds [OF st mv k own [folded settlement_currencies(2) [of fx]] ne [folded settlement_currencies(2) [of fx]]]
    by (simp add: db' fd)
  moreover have "accounts_inv db'" by (simp add: db' post_all_inv [OF d mv])
  ultimately show ?thesis using m ne by blast
qed

lemma no_overdraft_funds:
  assumes "accounts_keyed (accounts d)"
  shows "no_overdraft d \<longleftrightarrow> (\<forall>uc. 0 \<le> fst (funds d uc) \<and> 0 \<le> snd (funds d uc))"
proof
  assume no: "no_overdraft d"
  show "\<forall>uc. 0 \<le> fst (funds d uc) \<and> 0 \<le> snd (funds d uc)"
  proof
    fix uc
    show "0 \<le> fst (funds d uc) \<and> 0 \<le> snd (funds d uc)"
    proof (cases "findByUserAndCurrency (fst uc) (snd uc) d")
      case None
      then show ?thesis by (simp add: funds_def balance_view_def split_beta)
    next
      case (Some a)
      then show ?thesis using no findByUserAndCurrency_Some [OF Some]
        by (auto simp: funds_def balance_view_def split_beta no_overdraft_def)
    qed
  qed
next
  assume f: "\<forall>uc. 0 \<le> fst (funds d uc) \<and> 0 \<le> snd (funds d uc)"
  show "no_overdraft d"
    unfolding no_overdraft_def
  proof
    fix a assume "a \<in> set (accounts d)"
    from funds_account [OF assms this] f show "0 \<le> availableBalance a \<and> 0 \<le> lockedBalance a"
      by (metis fst_conv snd_conv)
  qed
qed

section \<open>Properties\<close>

text \<open>
  C2: settling a message keeps the books of the accounts service consistent, whatever the message
  holds and whatever other transactions commit meanwhile, as long as these keep the books too and
  delete no account: balances still equal the sums of their ledger rows, every new row quotes the
  balance right after it, keys stay unique.
\<close>

theorem settlement_keeps_books:
  assumes "accounts_inv db" and "race_keeps accounts_inv pg" and "race_extends pg" and "distinct_currencies message"
  shows "accounts_inv (snd (handleTradeExecuted fx pg newIds now header message db))"
proof -
  obtain r db' where eq: "handleTradeExecuted fx pg newIds now header message db = (r, db')" by force
  have step: "\<forall>d i u c. accounts_inv d \<longrightarrow> accounts_inv (snd (findOrCreate pg i now u c d))"
    using findOrCreate_keeps(1) [OF _ assms(2)] by blast
  from handleTradeExecuted_cases [of fx pg newIds now header message db r db' accounts_inv, OF eq assms(3,1) step]
  show ?thesis
  proof (elim disjE exE conjE)
    fix env trade q ids d assume m: "message = Some env" "env_payload env = Some trade" and d: "accounts_inv d"
      and q: "symbol_quote (trade_symbol trade) = Some q" "buyerUserId trade \<noteq> sellerUserId trade"
      and ok: "settlement_ids_ok trade q ids d"
      and tx: "settlement_tx pg (env_eventId env) (env_eventType env) now trade
         (calculateSettlementAmounts fx trade) q ids d = (r, db')"
    have ne: "q \<noteq> symbol_base (trade_symbol trade)" using assms(4) m q by (simp add: distinct_currencies_def)
    have rd: "accounts_inv (race1 pg d)" using assms(2) d by (simp add: race_keeps_def)
    then have k: "accounts_keyed (accounts (race1 pg d))" by (simp add: accounts_inv_def)
    from settlement_tx_cases [OF tx ok assms(3) k q(2) ne] d rd have "accounts_inv db'"
      by (auto intro: post_all_inv)
    with eq show ?thesis by simp
  qed (use eq in simp)
qed

definition demo_trade :: trade_executed where
  "demo_trade = \<lparr>tradeId = ''t1'', buyOrderId = ''o1'', sellOrderId = ''o2'', buyerUserId = ''alice'',
     sellerUserId = ''bob'', trade_symbol = ''ETH_USDT'', trade_price = 2 * 10 ^ 8, trade_quantity = 10,
     buyerLimitPrice = 3 * 10 ^ 8, buyerFee = 0, sellerFee = 0, trade_sequenceId = 1, trade_timestamp = 1\<rparr>"

text \<open>Alice holds thirty units of USDT locked, Bob ten units of ETH locked.\<close>

definition demo_row :: "uuid \<Rightarrow> uuid \<Rightarrow> string \<Rightarrow> amount \<Rightarrow> amount \<Rightarrow> amount \<Rightarrow> amount \<Rightarrow> string option \<Rightarrow> ledger_tx" where
  "demo_row i u c dA dL av lk k = \<lparr>tx_accountId = i, tx_userId = u, tx_currency = c, tx_type = DEPOSIT, tx_amount = dA,
     availableDelta = dA, lockedDelta = dL, balanceAfterAvailable = av, balanceAfterLocked = lk,
     tx_idempotencyKey = k, tx_referenceId = None\<rparr>"

definition demo_market :: accounts_db where
  "demo_market = \<lparr>accounts =
      [\<lparr>account_id = ''i1'', account_userId = ''alice'', account_currency = ''USDT'',
        availableBalance = 70, lockedBalance = 30, account_updatedAt = 0\<rparr>,
       \<lparr>account_id = ''i2'', account_userId = ''bob'', account_currency = ''ETH'',
        availableBalance = 0, lockedBalance = 10, account_updatedAt = 0\<rparr>],
     ledgerTransactions =
      [demo_row ''i1'' ''alice'' ''USDT'' 70 30 70 30 (Some ''k1''), demo_row ''i2'' ''bob'' ''ETH'' 0 10 0 10 (Some ''k2'')],
     processedEvents = []\<rparr>"

lemma demo_market_inv: "accounts_inv demo_market"
  by (simp add: accounts_inv_def demo_market_def demo_row_def accounts_keyed_def ledger_keys_unique_def rows_with_key_def
      balances_reconcile_def audit_trail_def ledger_sum_def less_Suc_eq)

lemma demo_market_solvent: "no_overdraft demo_market"
  by (simp add: no_overdraft_def demo_market_def)

lemma demo_symbol: "symbol_base ''ETH_USDT'' = ''ETH''" "symbol_quote ''ETH_USDT'' = Some ''USDT''"
  by code_simp+

definition demo_message :: "trade_executed envelope option" where
  "demo_message = trade_message ''e1'' ''matching.trade_executed'' demo_trade"

lemma demo_message_currencies: "distinct_currencies demo_message"
  by (simp add: distinct_currencies_def demo_message_def trade_message_def demo_trade_def demo_symbol)

definition demo_settle :: "settlement_outcome result \<times> accounts_db" where
  "demo_settle = handleTradeExecuted fix_down quiet_pg [''n0'', ''n1'', ''n2'', ''n3''] 5 None demo_message demo_market"

lemma demo_settle_Settled: "fst demo_settle = Inr Settled"
  by code_simp

theorem settlement_keeps_books_witness:
  "fst demo_settle = Inr Settled \<and> accounts_inv (snd demo_settle)"
  using settlement_keeps_books [OF demo_market_inv race_keeps_quiet race_extends_quiet demo_message_currencies]
    demo_settle_Settled by (simp add: demo_settle_def)

text \<open>
  C3: settlement moves exactly what the trade says. When a message is settled, the buyer pays the
  rounded cost out of the locked quote balance, gets the price improvement back as available and
  receives the base quantity; the seller gives the base quantity out of the locked balance and
  receives the cost; every other balance of the platform is as it was.
\<close>

theorem settlement_moves_exactly:
  assumes "accounts_inv db" and "distinct_currencies message"
    and "handleTradeExecuted fx quiet_pg newIds now header message db = (Inr Settled, db')"
  shows "\<exists>env trade q. message = Some env \<and> env_payload env = Some trade \<and> symbol_quote (trade_symbol trade) = Some q
    \<and> (\<forall>uc. funds db' uc =
          (fst (funds db uc) + fst (settlement_delta trade (calculateSettlementAmounts fx trade) q uc),
           snd (funds db uc) + snd (settlement_delta trade (calculateSettlementAmounts fx trade) q uc)))"
  using settled_moves [OF assms] by blast

theorem settlement_moves_exactly_witness:
  "funds (snd demo_settle) (''alice'', ''USDT'') = (80, 0) \<and> funds (snd demo_settle) (''alice'', ''ETH'') = (10, 0)
   \<and> funds (snd demo_settle) (''bob'', ''ETH'') = (0, 0) \<and> funds (snd demo_settle) (''bob'', ''USDT'') = (20, 0)"
proof -
  have eq: "handleTradeExecuted fix_down quiet_pg [''n0'', ''n1'', ''n2'', ''n3''] 5 None demo_message demo_market
      = (Inr Settled, snd demo_settle)"
    using demo_settle_Settled by (simp add: demo_settle_def prod_eq_iff)
  have f: "funds demo_market (''alice'', ''USDT'') = (70, 30)" "funds demo_market (''alice'', ''ETH'') = (0, 0)"
    "funds demo_market (''bob'', ''ETH'') = (0, 10)" "funds demo_market (''bob'', ''USDT'') = (0, 0)"
    by code_simp+
  from settlement_moves_exactly [OF demo_market_inv demo_message_currencies eq] show ?thesis
    by (auto simp: demo_message_def trade_message_def f demo_trade_def demo_symbol settlement_delta_def
        calculateSettlementAmounts_def fix_down_def)
qed

text \<open>
  Settlement neither creates nor destroys money: whatever the message and the outcome, the
  platform's total of every currency is unchanged, also after rounding.
\<close>

theorem settlement_conserves_every_currency:
  assumes "accounts_inv db" and "distinct_currencies message"
  shows "total_of c (snd (handleTradeExecuted fx quiet_pg newIds now header message db)) = total_of c db"
proof -
  obtain r db' where eq: "handleTradeExecuted fx quiet_pg newIds now header message db = (r, db')" by force
  let ?P = "\<lambda>d. accounts_inv d \<and> total_of c d = total_of c db"
  have t: "total_of c (snd (findOrCreate quiet_pg i now u e d)) = total_of c d" for i u e d
    using findOrCreate_cases [OF surjective_pairing [of "findOrCreate quiet_pg i now u e d"]]
    by (auto simp: total_of_def dest!: insert_account_effects)
  have step: "\<forall>d i u e. ?P d \<longrightarrow> ?P (snd (findOrCreate quiet_pg i now u e d))"
    by (simp add: findOrCreate_keeps(1) t)
  have "?P db" using assms(1) by simp
  from handleTradeExecuted_cases [of fx quiet_pg newIds now header message db r db' ?P, OF eq race_extends_quiet this step]
  show ?thesis
  proof (elim disjE exE conjE)
    fix env trade q ids d assume m: "message = Some env" "env_payload env = Some trade" and d: "accounts_inv d"
      and td: "total_of c d = total_of c db"
      and q: "symbol_quote (trade_symbol trade) = Some q" "buyerUserId trade \<noteq> sellerUserId trade"
      and ok: "settlement_ids_ok trade q ids d"
      and tx: "settlement_tx quiet_pg (env_eventId env) (env_eventType env) now trade
         (calculateSettlementAmounts fx trade) q ids d = (r, db')"
    have ne: "q \<noteq> symbol_base (trade_symbol trade)" using assms(2) m q by (simp add: distinct_currencies_def)
    have k: "accounts_keyed (accounts d)" using d by (simp add: accounts_inv_def)
    have "total_of c db' = total_of c d"
      using settlement_tx_cases [OF tx ok race_extends_quiet _ q(2) ne] k
    proof (simp, elim disjE exE conjE)
      fix bq bb sb sq ms e
      assume st: "settles (calculateSettlementAmounts fx trade) trade [bq, bb, sb, sq] ms" and mv: "movements_ok ms d"
        and own: "account_currency bq = q" "account_currency bb = symbol_base (trade_symbol trade)"
          "account_currency sb = symbol_base (trade_symbol trade)" "account_currency sq = q"
        and db': "db' = (post_all now ms d)\<lparr>processedEvents := processedEvents d @ [e]\<rparr>"
      have sum: "sum_list (map (\<lambda>(a, dA, dL, t). if account_currency a = c then dA + dL else 0) ms) = 0"
        by (rule settles_shape [OF st]) (simp add: own)
      show "total_of c db' = total_of c d"
        by (simp add: db' post_all_total [OF k mv] sum)
    qed simp_all
    with td eq show ?thesis by simp
  qed (use eq in simp)
qed

theorem settlement_conserves_every_currency_witness:
  "total_of ''USDT'' (snd demo_settle) = 100 \<and> total_of ''ETH'' (snd demo_settle) = 10"
proof -
  have "total_of ''USDT'' demo_market = 100" "total_of ''ETH'' demo_market = 10"
    by (simp_all add: total_of_def demo_market_def)
  then show ?thesis
    using settlement_conserves_every_currency [OF demo_market_inv demo_message_currencies]
    by (simp add: demo_settle_def)
qed

text \<open>
  An event is settled at most once. The transaction settles only when the event is recorded
  neither when it checks nor in the state it commits on top of, so also when a duplicate commits
  in between, and then records it; in every other case it changes nothing itself.
\<close>

theorem settlement_at_most_once:
  "(case settlement_tx pg eventId ty now trade am q ids db of (r, db') \<Rightarrow>
      if r = Inr Settled
      then \<not> isEventProcessed eventId db \<and> \<not> isEventProcessed eventId (race1 pg db) \<and> isEventProcessed eventId db'
      else db' = (if r = Inr AlreadyProcessed then db else race1 pg db))"
proof (cases "isEventProcessed eventId db")
  case True
  then show ?thesis by (simp add: settlement_tx_def)
next
  case False
  show ?thesis
  proof (cases "settlement_body eventId ty now trade am q ids (race1 pg db)")
    case (Inl e)
    with False show ?thesis by (simp add: settlement_tx_def transaction_def)
  next
    case (Inr od)
    obtain out d where od: "od = (out, d)" by force
    from settlement_body_events [OF Inr [unfolded od]] False Inr od show ?thesis
      by (simp add: settlement_tx_def transaction_def)
  qed
qed

text \<open>
  Redelivery is harmless: the broker may deliver a settled message again at any time, and
  handling it again answers that it was processed and leaves the database exactly as it is.
\<close>

theorem settlement_redelivery_is_noop:
  assumes "accounts_inv db" and "distinct_currencies message"
    and "handleTradeExecuted fx quiet_pg newIds now header message db = (Inr Settled, db')"
  shows "handleTradeExecuted fx quiet_pg newIds' later header message db' = (Inr AlreadyProcessed, db')"
proof -
  obtain env trade q bq bb sb sq ms e d where
    m: "message = Some env" "env_payload env = Some trade" "symbol_quote (trade_symbol trade) = Some q"
    and ne: "buyerUserId trade \<noteq> sellerUserId trade" "q \<noteq> symbol_base (trade_symbol trade)"
    and d: "accounts_inv d" and fd: "\<And>uc. funds d uc = funds db uc"
    and st: "settles (calculateSettlementAmounts fx trade) trade [bq, bb, sb, sq] ms" and mv: "movements_ok ms d"
    and e: "pe_eventId e = env_eventId env"
    and own: "account_userId bq = buyerUserId trade" "account_currency bq = q"
    "account_userId bb = buyerUserId trade" "account_currency bb = symbol_base (trade_symbol trade)"
    "account_userId sb = sellerUserId trade" "account_currency sb = symbol_base (trade_symbol trade)"
    "account_userId sq = sellerUserId trade" "account_currency sq = q"
    and db': "db' = (post_all now ms d)\<lparr>processedEvents := processedEvents d @ [e]\<rparr>"
    by (rule quiet_settled [OF assms(3,1,2)]) (rule that, assumption+)
  have act: "env_eventId env \<noteq> []" "envelope_action env header = [] \<or> envelope_action env header = ''TRADE_EXECUTED''"
    using assms(3) m by (auto simp: handleTradeExecuted_def Let_def split: if_splits)
  have dup: "isEventProcessed (env_eventId env) db'"
    by (auto simp: db' isEventProcessed_def find_append e split: option.splits)
  have mem: "bq \<in> set (accounts d)" "bb \<in> set (accounts d)" "sb \<in> set (accounts d)" "sq \<in> set (accounts d)"
    by (rule settles_shape [OF st], use mv in simp)+
  have grown: "has_account (account_id a) (account_userId a) (account_currency a) db'" if "a \<in> set (accounts d)" for a
  proof -
    have "has_account (account_id a) (account_userId a) (account_currency a) (post_all now ms d)"
      by (rule has_account_extend [OF _ post_all_extends]) (use that in \<open>auto simp: has_account_def\<close>)
    then show ?thesis by (simp add: db' has_account_def)
  qed
  obtain a1 where f1: "\<And>i t. findOrCreate quiet_pg i t (buyerUserId trade) q db' = (Inr a1, db')"
    using findOrCreate_existing [OF grown [OF mem(1), unfolded own]] by blast
  obtain a2 where f2: "\<And>i t. findOrCreate quiet_pg i t (buyerUserId trade) (symbol_base (trade_symbol trade)) db' = (Inr a2, db')"
    using findOrCreate_existing [OF grown [OF mem(2), unfolded own]] by blast
  obtain a3 where f3: "\<And>i t. findOrCreate quiet_pg i t (sellerUserId trade) q db' = (Inr a3, db')"
    using findOrCreate_existing [OF grown [OF mem(4), unfolded own]] by blast
  obtain a4 where f4: "\<And>i t. findOrCreate quiet_pg i t (sellerUserId trade) (symbol_base (trade_symbol trade)) db' = (Inr a4, db')"
    using findOrCreate_existing [OF grown [OF mem(3), unfolded own]] by blast
  show ?thesis
    using m ne act by (auto simp: handleTradeExecuted_def Let_def settlement_currencies f1 f2 f3 f4 settlement_tx_def dup)
qed

theorem settlement_redelivery_is_noop_witness:
  "handleTradeExecuted fix_down quiet_pg [] 9 None demo_message (snd demo_settle) = (Inr AlreadyProcessed, snd demo_settle)"
proof -
  have "handleTradeExecuted fix_down quiet_pg [''n0'', ''n1'', ''n2'', ''n3''] 5 None demo_message demo_market
      = (Inr Settled, snd demo_settle)"
    using demo_settle_Settled by (simp add: demo_settle_def prod_eq_iff)
  from settlement_redelivery_is_noop [OF demo_market_inv demo_message_currencies this] show ?thesis .
qed

text \<open>
  Settlement itself checks no balance. From a solvent state, a settled trade leaves every
  balance non-negative if and only if the buyer had the rounded cost and refund locked in the
  quote currency and the seller the quantity locked in the base currency; when the services
  upstream reserved less, a locked balance goes negative.
\<close>

theorem settlement_solvent_iff_reserved:
  assumes "accounts_inv db" and "distinct_currencies message" and "no_overdraft db" and "rounds_down fx"
    and eq: "handleTradeExecuted fx quiet_pg newIds now header message db = (Inr Settled, db')"
    and m: "message = Some env" "env_payload env = Some trade" "symbol_quote (trade_symbol trade) = Some q"
    and pos: "0 \<le> trade_price trade" "0 \<le> trade_quantity trade"
  shows "no_overdraft db' \<longleftrightarrow>
     (let am = calculateSettlementAmounts fx trade
      in quoteCost am + surplusRefund am \<le> snd (funds db (buyerUserId trade, q))
         \<and> baseQuantity am \<le> snd (funds db (sellerUserId trade, symbol_base (trade_symbol trade))))"
proof -
  let ?am = "calculateSettlementAmounts fx trade"
  from settled_moves [OF assms(1,2) eq] m
  have ne: "buyerUserId trade \<noteq> sellerUserId trade" "q \<noteq> symbol_base (trade_symbol trade)"
    and inv': "accounts_inv db'"
    and f: "\<And>uc. funds db' uc = (fst (funds db uc) + fst (settlement_delta trade ?am q uc),
           snd (funds db uc) + snd (settlement_delta trade ?am q uc))" by auto
  have k: "accounts_keyed (accounts db)" "accounts_keyed (accounts db')"
    using assms(1) inv' by (simp_all add: accounts_inv_def)
  have old: "\<And>uc. 0 \<le> fst (funds db uc) \<and> 0 \<le> snd (funds db uc)"
    using assms(3) no_overdraft_funds [OF k(1)] by blast
  have nn: "0 \<le> surplusRefund ?am" "0 \<le> quoteCost ?am" "0 \<le> baseQuantity ?am"
    using pos rounds_down_nonneg [OF assms(4)] by (simp_all add: calculateSettlementAmounts_def)
  have "no_overdraft db' \<longleftrightarrow> (\<forall>uc. 0 \<le> fst (funds db uc) + fst (settlement_delta trade ?am q uc)
      \<and> 0 \<le> snd (funds db uc) + snd (settlement_delta trade ?am q uc))"
    using no_overdraft_funds [OF k(2)] by (simp add: f)
  also have "\<dots> \<longleftrightarrow> 0 \<le> snd (funds db (buyerUserId trade, q)) - (quoteCost ?am + surplusRefund ?am)
      \<and> 0 \<le> snd (funds db (sellerUserId trade, symbol_base (trade_symbol trade))) - baseQuantity ?am"
    (is "?L \<longleftrightarrow> ?R")
  proof
    assume ?L
    from spec [OF this, of "(buyerUserId trade, q)"] spec [OF this, of "(sellerUserId trade, symbol_base (trade_symbol trade))"]
    show ?R using ne by (auto simp: settlement_delta_def settlement_currencies)
  next
    assume ?R
    then show ?L using old nn by (auto simp: settlement_delta_def settlement_currencies intro: add_nonneg_nonneg)
  qed
  finally show ?thesis by (auto simp: Let_def)
qed

theorem settlement_solvent_iff_reserved_witness:
  "no_overdraft (snd demo_settle)"
proof -
  have eq: "handleTradeExecuted fix_down quiet_pg [''n0'', ''n1'', ''n2'', ''n3''] 5 None demo_message demo_market
      = (Inr Settled, snd demo_settle)"
    using demo_settle_Settled by (simp add: demo_settle_def prod_eq_iff)
  let ?env = "\<lparr>env_eventId = ''e1'', env_action = Some ''TRADE_EXECUTED'', env_eventType = ''matching.trade_executed'',
     env_payload = Some demo_trade\<rparr>"
  have m: "demo_message = Some ?env" "env_payload ?env = Some demo_trade"
    "symbol_quote (trade_symbol demo_trade) = Some ''USDT''"
    by (simp_all add: demo_message_def trade_message_def demo_trade_def demo_symbol)
  have pos: "0 \<le> trade_price demo_trade" "0 \<le> trade_quantity demo_trade" by (simp_all add: demo_trade_def)
  have f: "funds demo_market (''alice'', ''USDT'') = (70, 30)" "funds demo_market (''bob'', ''ETH'') = (0, 10)"
    by code_simp+
  from settlement_solvent_iff_reserved [OF demo_market_inv demo_message_currencies demo_market_solvent
      rounds_down_fix_down eq m pos] show ?thesis
    by (simp add: demo_trade_def demo_symbol calculateSettlementAmounts_def fix_down_def f)
qed

end
