(* ===== verification/Orders_Demo.thy ===== *)
theory Orders_Demo
  imports Orders_Cancel Matching_Demo Settlement_Safety
begin

text \<open>
  A small platform with one resting order and one funded buyer, on which the properties of the
  orders service are applied.
\<close>

definition demo_seller :: order where "demo_seller = demo_order ''m'' ''bob'' SELL 150000000 20"

definition demo_env :: "accounts_db orders_env" where
  "demo_env =
     \<lparr>lock_rpc = accounts_client ''orders-service'' LockBalance (\<lambda>_. True) ''i2'' 5,
      unlock_rpc = accounts_client ''orders-service'' UnlockBalance (\<lambda>_. True) ''i2'' 5,
      oe_valkey = exact_valkey, oe_toFixed = fix_half_up, requestHashOf = (\<lambda>_. ''h''), newRecordId = ''r1'',
      newOrderId = ''o1'', tradeIds = (\<lambda>n. ''t''), outboxIds = (\<lambda>n. replicate n (CHR ''e'')),
      eventIds = (\<lambda>n. replicate n (CHR ''e'')), correlationId = ''c'', traceContext = (None, None),
      clock = 1000, dbCommits = True\<rparr>"

definition demo_empty_world :: "accounts_db orders_world" where
  "demo_empty_world = \<lparr>ow_db = empty_orders_db\<lparr>orders := [demo_seller]\<rparr>, ow_book = empty_valkey, ow_accounts = demo_db\<rparr>"

definition demo_world :: "accounts_db orders_world" where
  "demo_world = onModuleInit exact_valkey demo_empty_world"

definition demo_create :: create_order_request where
  "demo_create = \<lparr>co_userId = ''alice'', co_pair = ''ETH_USDT'', co_side = BUY, co_type = LIMIT,
     co_price = Some 200000000, co_amount = Some 30, co_idempotencyKey = ''k1''\<rparr>"

definition demo_cancel :: cancel_order_request where
  "demo_cancel = \<lparr>cx_orderId = ''o1'', cx_userId = ''alice'', cx_idempotencyKey = ''k2''\<rparr>"

definition demo_created :: "order_item result \<times> accounts_db orders_world" where
  "demo_created = createOrder demo_env demo_create demo_world"

lemma demo_wired: "wired demo_env (\<lambda>_. True) ''i2'' 5" "wired (demo_env\<lparr>dbCommits := False\<rparr>) (\<lambda>_. True) ''i2'' 5"
  by (simp_all add: wired_def demo_env_def rounds_half_up_fix_half_up)

lemma demo_world_simps [simp]: "ow_db demo_world = empty_orders_db\<lparr>orders := [demo_seller]\<rparr>" "ow_accounts demo_world = demo_db"
  by (simp_all add: demo_world_def onModuleInit_def demo_empty_world_def)

lemma demo_keys: "order_keys_fresh key_used demo_create demo_db"
  by (simp add: order_keys_fresh_def key_used_def) code_simp

lemma demo_exchange: "exchange_ok exact_valkey (ow_db demo_world) (ow_book demo_world)"
proof -
  have "orders_ok (ow_db demo_empty_world)"
    by (simp add: orders_ok_def demo_empty_world_def empty_orders_db_def order_ok_def demo_seller_def demo_order_def numeric_28_8_def)
  then have "exchange_ok exact_valkey (ow_db (onModuleInit exact_valkey demo_empty_world)) (ow_book (onModuleInit exact_valkey demo_empty_world))"
    by (rule cold_start_exchange) (simp add: demo_empty_world_def)
  then show ?thesis by (simp only: demo_world_def)
qed

lemma demo_prices: "prices_fit demo_env demo_create (ow_db demo_world)"
  by (simp add: prices_fit_def prices_distinguished_def demo_create_def demo_env_def exact_valkey_def)

lemma demo_answer: "idempotency_answer demo_env demo_create (ow_db demo_world) = None"
  by (simp add: idempotency_answer_def findRecord_def empty_orders_db_def)

lemma createOrder_success:
  assumes "validateCreateOrderRequest rq = Inr (p, a)" and "idempotency_answer env rq (ow_db w) = None"
    and "createRecord (new_idempotency_record env rq) (ow_db w) = Inr (idem, d1)"
    and "lock_rpc env (reserve_request ''lock:'' (co_userId rq) (lock_currency (co_pair rq) (co_side rq))
           (lock_amount (oe_toFixed env) (co_side rq) p a) (co_idempotencyKey rq) (co_idempotencyKey rq)) (ow_accounts w) = (Inr b, a1)"
    and "create_order_tx env rq p a d1 (ow_book w) = (Inr x, d2, b2)"
  shows "createOrder env rq w = (Inr (mapOrderToItem x), w\<lparr>ow_db := completeRecord (ir_id idem) (mapOrderToItem x) d2, ow_book := b2, ow_accounts := a1\<rparr>)"
  using assms by (simp add: createOrder_def)

lemma demo_lock:
  "case lock_rpc demo_env (reserve_request ''lock:'' (co_userId demo_create) (lock_currency (co_pair demo_create) (co_side demo_create))
     (lock_amount (oe_toFixed demo_env) (co_side demo_create) 200000000 30) (co_idempotencyKey demo_create) (co_idempotencyKey demo_create)) demo_db
   of (Inr b, a1) \<Rightarrow> balance_view a1 (''alice'', ''USDT'') = Some (40, 60) | (Inl e, a1) \<Rightarrow> False"
  by code_simp

lemma demo_tx:
  "case create_order_tx demo_env demo_create 200000000 30 (empty_orders_db\<lparr>orders := [demo_seller], idempotencyRecords := recs\<rparr>) (ow_book demo_world)
   of (Inr x, d2, b2) \<Rightarrow> filledAmount x = 20 \<and> remainingAmount x = 10 \<and> ord_id x = ''o1'' | (Inl e, d2, b2) \<Rightarrow> False"
  by code_simp

lemma demo_valid: "validateCreateOrderRequest demo_create = Inr (200000000, 30)"
  by (simp add: validateCreateOrderRequest_def demo_create_def SUPPORTED_PAIRS_def)

lemma demo_record:
  "createRecord (new_idempotency_record demo_env demo_create) (ow_db demo_world)
     = Inr (new_idempotency_record demo_env demo_create,
            empty_orders_db\<lparr>orders := [demo_seller], idempotencyRecords := [new_idempotency_record demo_env demo_create]\<rparr>)"
  by (simp add: createRecord_def new_idempotency_record_def demo_env_def demo_create_def empty_orders_db_def)

lemma demo_create_run:
  obtains item w' where "createOrder demo_env demo_create demo_world = (Inr item, w')"
    and "item_filledAmount item = 20" and "item_remainingAmount item = 10" and "item_orderId item = ''o1''"
    and "balance_view (ow_accounts w') (''alice'', ''USDT'') = Some (40, 60)"
proof -
  obtain b a1 where l: "lock_rpc demo_env (reserve_request ''lock:'' (co_userId demo_create) (lock_currency (co_pair demo_create) (co_side demo_create))
     (lock_amount (oe_toFixed demo_env) (co_side demo_create) 200000000 30) (co_idempotencyKey demo_create) (co_idempotencyKey demo_create)) (ow_accounts demo_world)
     = (Inr b, a1)" and a1: "balance_view a1 (''alice'', ''USDT'') = Some (40, 60)"
    using demo_lock unfolding demo_world_simps by (auto split: prod.splits sum.splits)
  obtain x d2 b2 where t: "create_order_tx demo_env demo_create 200000000 30 (empty_orders_db\<lparr>orders := [demo_seller],
      idempotencyRecords := [new_idempotency_record demo_env demo_create]\<rparr>) (ow_book demo_world) = (Inr x, d2, b2)"
    and x: "filledAmount x = 20" "remainingAmount x = 10" "ord_id x = ''o1''"
    using demo_tx [of "[new_idempotency_record demo_env demo_create]"] by (auto split: prod.splits sum.splits)
  from createOrder_success [OF demo_valid demo_answer demo_record l t] x a1 that show thesis
    by (simp add: mapOrderToItem_def)
qed

lemma createOrder_uncommitted:
  assumes v: "validateCreateOrderRequest rq = Inr (p, a)" and ans: "idempotency_answer env rq (ow_db w) = None"
    and cr: "createRecord (new_idempotency_record env rq) (ow_db w) = Inr (idem, d1)" and nc: "\<not> dbCommits env"
  shows "\<exists>e w'. createOrder env rq w = (Inl e, w')"
proof -
  obtain rl a1 where l: "lock_rpc env (reserve_request ''lock:'' (co_userId rq) (lock_currency (co_pair rq) (co_side rq))
      (lock_amount (oe_toFixed env) (co_side rq) p a) (co_idempotencyKey rq) (co_idempotencyKey rq)) (ow_accounts w) = (rl, a1)" by force
  have "\<exists>e d b. create_order_tx env rq p a d1 (ow_book w) = (Inl e, d, b)"
    using nc by (auto simp: create_order_tx_def split: sum.splits prod.splits)
  then obtain e d b where t: "create_order_tx env rq p a d1 (ow_book w) = (Inl e, d, b)" by blast
  show ?thesis using v ans cr l t by (cases rl) (simp_all add: createOrder_def split_beta Let_def)
qed

lemma demo_fail_pre:
  "idempotency_answer (demo_env\<lparr>dbCommits := False\<rparr>) demo_create (ow_db demo_world) = None"
  "createRecord (new_idempotency_record (demo_env\<lparr>dbCommits := False\<rparr>) demo_create) (ow_db demo_world)
     = Inr (new_idempotency_record demo_env demo_create,
            empty_orders_db\<lparr>orders := [demo_seller], idempotencyRecords := [new_idempotency_record demo_env demo_create]\<rparr>)"
  using demo_record by (simp_all add: idempotency_answer_def findRecord_def empty_orders_db_def new_idempotency_record_def)

lemma demo_fail_run:
  obtains e w' where "createOrder (demo_env\<lparr>dbCommits := False\<rparr>) demo_create demo_world = (Inl e, w')"
proof -
  from createOrder_uncommitted [OF demo_valid demo_fail_pre] that show thesis by auto
qed

section \<open>Witnesses\<close>

lemma demo_env_simps [simp]: "oe_valkey demo_env = exact_valkey" "newOrderId demo_env = ''o1''"
  by (simp_all add: demo_env_def)

theorem create_order_reserves_witness:
  "\<exists>item w'. createOrder demo_env demo_create demo_world = (Inr item, w')
     \<and> balance_view (ow_accounts w') (''alice'', ''USDT'') = Some (40, 60) \<and> accounts_solid (ow_accounts w')"
proof -
  obtain item w' where run: "createOrder demo_env demo_create demo_world = (Inr item, w')"
    and b: "balance_view (ow_accounts w') (''alice'', ''USDT'') = Some (40, 60)" by (rule demo_create_run)
  have pre: "accounts_solid (ow_accounts demo_world)" "order_keys_fresh key_used demo_create (ow_accounts demo_world)"
    using demo_solid demo_keys by simp_all
  from create_order_reserves [OF demo_wired(1) pre demo_answer run] b run show ?thesis by blast
qed


theorem create_order_keeps_exchange_witness:
  "\<exists>item w'. createOrder demo_env demo_create demo_world = (Inr item, w') \<and> exchange_ok exact_valkey (ow_db w') (ow_book w')"
proof -
  obtain item w' where run: "createOrder demo_env demo_create demo_world = (Inr item, w')" by (rule demo_create_run)
  have pre: "valkey_ok (oe_valkey demo_env)" "exchange_ok (oe_valkey demo_env) (ow_db demo_world) (ow_book demo_world)"
    "newOrderId demo_env \<noteq> []" using exact_valkey_ok demo_exchange by simp_all
  from create_order_keeps_exchange [OF pre demo_prices demo_answer run] run show ?thesis by auto
qed


theorem create_order_is_idempotent_witness:
  "\<exists>item w'. createOrder demo_env demo_create demo_world = (Inr item, w')
     \<and> createOrder (demo_env\<lparr>clock := 2000\<rparr>) (demo_create\<lparr>co_side := SELL\<rparr>) w' = (Inr item, w')"
proof -
  obtain item w' where run: "createOrder demo_env demo_create demo_world = (Inr item, w')" by (rule demo_create_run)
  have v: "validateCreateOrderRequest (demo_create\<lparr>co_side := SELL\<rparr>) = Inr (200000000, 30)"
    by (simp add: validateCreateOrderRequest_def demo_create_def SUPPORTED_PAIRS_def)
  have t: "clock (demo_env\<lparr>clock := 2000\<rparr>) < clock demo_env + 24 * 60 * 60 * 1000" by (simp add: demo_env_def)
  from create_order_is_idempotent [OF run demo_answer _ _ v t, of "ow_accounts w'" "ow_book w'"] run show ?thesis by auto
qed

theorem failed_order_key_is_burnt_witness:
  "\<exists>e w'. createOrder (demo_env\<lparr>dbCommits := False\<rparr>) demo_create demo_world = (Inl e, w')
     \<and> createOrder demo_env demo_create w' = (Inl unique_violation, w')"
proof -
  obtain e w' where run: "createOrder (demo_env\<lparr>dbCommits := False\<rparr>) demo_create demo_world = (Inl e, w')"
    by (rule demo_fail_run)
  have "requestHashOf demo_env demo_create = requestHashOf (demo_env\<lparr>dbCommits := False\<rparr>) demo_create"
    "length (requestHashOf (demo_env\<lparr>dbCommits := False\<rparr>) demo_create) \<le> 64" by (simp_all add: demo_env_def)
  from failed_order_key_is_burnt [OF run demo_valid demo_fail_pre this] run show ?thesis by blast
qed




definition demo_open :: order where "demo_open = demo_order ''o1'' ''alice'' BUY 200000000 30"

definition demo_open_world :: "accounts_db orders_world" where
  "demo_open_world = onModuleInit exact_valkey
     \<lparr>ow_db = empty_orders_db\<lparr>orders := [demo_open]\<rparr>, ow_book = empty_valkey, ow_accounts = demo_db\<rparr>"

lemma demo_open_simps [simp]: "ow_db demo_open_world = empty_orders_db\<lparr>orders := [demo_open]\<rparr>" "ow_accounts demo_open_world = demo_db"
  by (simp_all add: demo_open_world_def onModuleInit_def)

lemma demo_open_exchange: "exchange_ok exact_valkey (ow_db demo_open_world) (ow_book demo_open_world)"
  unfolding demo_open_world_def
  by (rule cold_start_exchange)
    (simp_all add: orders_ok_def empty_orders_db_def order_ok_def demo_open_def demo_order_def numeric_28_8_def)

lemma demo_open_found: "findByIdAndUserId (cx_orderId demo_cancel) (cx_userId demo_cancel) (ow_db demo_open_world) = Some demo_open"
  by (simp add: findByIdAndUserId_def demo_cancel_def demo_open_def demo_order_def)

lemma demo_cancel_run:
  "case cancelOrder demo_env demo_cancel demo_open_world of (Inr item, w') \<Rightarrow> item_status item = CANCELLED | (Inl e, w') \<Rightarrow> False"
  by code_simp


theorem failed_cancel_drops_order_from_book_witness:
  "\<exists>e w'. cancelOrder (demo_env\<lparr>dbCommits := False\<rparr>) demo_cancel demo_open_world = (Inl e, w')
     \<and> demo_open \<in> active_in {} (ow_db w') \<and> hashes (ow_book w') ''o1'' = None"
proof -
  have "case cancelOrder (demo_env\<lparr>dbCommits := False\<rparr>) demo_cancel demo_open_world of (Inr item, w') \<Rightarrow> False | (Inl e, w') \<Rightarrow> True"
    by code_simp
  then obtain e w' where run: "cancelOrder (demo_env\<lparr>dbCommits := False\<rparr>) demo_cancel demo_open_world = (Inl e, w')"
    by (auto split: prod.splits sum.splits)
  have a: "active_status (ord_status demo_open)" "ord_id demo_open = ''o1''" by (simp_all add: demo_open_def demo_order_def)
  from failed_cancel_drops_order_from_book [OF demo_open_found a(1) run] run a(2) show ?thesis by auto
qed

end
