(* ===== verification/Outbox_Props.thy ===== *)
theory Outbox_Props
  imports Outbox
begin

text \<open>
  Correctness of the outbox: no event is lost whatever fails, every run publishes the oldest
  pending events, the polling delay stays within its bounds, and retention removes only what was
  published. One theorem shows that the retry counter is never stored.
\<close>

section \<open>The system around the table\<close>

text \<open>
  The table, the broker, and a record of every event whose insert was committed. Services insert,
  relays run (any number of them, each seeing the rows the others hold as locked), retention
  deletes, in any order.
\<close>

record ('p, 'b) outbox_system =
  tbl :: "'p outbox"
  brokerState :: 'b
  accepted :: "'p outbox_event list"

inductive outbox_step ::
  "'p relay_config \<Rightarrow> ('p, 'b) broker \<Rightarrow> 'p outbox_event picker \<Rightarrow> ('p, 'b) outbox_system \<Rightarrow> ('p, 'b) outbox_system \<Rightarrow> bool"
  for cfg broker pick where
  Insert: "insertMany trace now events (tbl s) = Inr t \<Longrightarrow> \<forall>e\<in>set events. oe_status e = PENDING
     \<Longrightarrow> outbox_step cfg broker pick s (s\<lparr>tbl := t, accepted := accepted s @ map (with_trace trace now) events\<rparr>)"
| Relay: "relay_processBatch cfg broker locked commits now (tbl s, brokerState s) = (r, (t, b))
     \<Longrightarrow> outbox_step cfg broker pick s (s\<lparr>tbl := t, brokerState := b\<rparr>)"
| Retain: "deletePublishedEventsOlderThan pick cutoff n (tbl s) = (k, t)
     \<Longrightarrow> outbox_step cfg broker pick s (s\<lparr>tbl := t\<rparr>)"

text \<open>What is relied on of the broker: what it acknowledges is in its log, and the log only grows.\<close>

definition broker_ok :: "('p, 'b) broker \<Rightarrow> ('b \<Rightarrow> 'p kafka_record set) \<Rightarrow> bool" where
  "broker_ok broker sent \<longleftrightarrow>
     (\<forall>groups b. sent b \<subseteq> sent (snd (broker groups b))
        \<and> (fst (broker groups b) = Inr () \<longrightarrow>
             (\<forall>g\<in>set groups. set (snd g) \<subseteq> sent (snd (broker groups b)))))"

definition log_broker :: "('p, 'p kafka_record list) broker" where
  "log_broker groups b = (Inr (), b @ concat (map snd groups))"

lemma log_broker_ok: "broker_ok log_broker set"
  by (auto simp: broker_ok_def log_broker_def)

section \<open>Supporting facts\<close>

definition grouped_set :: "(string \<times> 'p kafka_record list) list \<Rightarrow> 'p kafka_record set" where
  "grouped_set groups = (\<Union>g\<in>set groups. set (snd g))"

lemma grouped_set_add: "grouped_set (add_message r gs) = insert r (grouped_set gs)"
  by (induction r gs rule: add_message.induct) (auto simp: grouped_set_def)

lemma grouped_set_fold: "grouped_set (fold add_message rs gs) = set rs \<union> grouped_set gs"
  by (induction rs arbitrary: gs) (auto simp: grouped_set_add)

lemma group_by_topic_set: "(\<Union>g\<in>set (group_by_topic rs). set (snd g)) = set rs"
  using grouped_set_fold [of rs "[]"] by (simp add: group_by_topic_def grouped_set_def)

lemma sendBatch_log:
  assumes "broker_ok broker sent" and "sendBatch broker rs b = (r, b')"
  shows "sent b \<subseteq> sent b'" and "r = Inr () \<Longrightarrow> set rs \<subseteq> sent b'"
proof -
  show "sent b \<subseteq> sent b'"
    using assms by (auto simp: sendBatch_def broker_ok_def split: if_splits) (metis snd_conv subsetD)
  assume r: "r = Inr ()"
  show "set rs \<subseteq> sent b'"
  proof (cases "rs = []")
    case False
    with assms(2) r have "broker (group_by_topic rs) b = (Inr (), b')" by (simp add: sendBatch_def)
    with assms(1) have "\<forall>g\<in>set (group_by_topic rs). set (snd g) \<subseteq> sent b'"
      unfolding broker_ok_def by (metis fst_conv snd_conv)
    then have "(\<Union>g\<in>set (group_by_topic rs). set (snd g)) \<subseteq> sent b'" by blast
    then show ?thesis by (simp add: group_by_topic_set)
  qed simp
qed

lemma fetched_pending:
  "e \<in> set (fetchPendingBatch n locked t) \<Longrightarrow> e \<in> set t \<and> oe_status e = PENDING"
  by (auto simp: fetchPendingBatch_def dest: in_set_takeD)

text \<open>A run either leaves the table alone, or has published the rows it then marks.\<close>

lemma relay_processBatch_cases:
  assumes "relay_processBatch cfg broker locked commits now (t, b) = (r, (t', b'))" and "broker_ok broker sent"
  shows "sent b \<subseteq> sent b'
    \<and> (t' = t \<or> (t' = markAsPublished (map oe_id (fetchPendingBatch relay_batch_size locked t)) now t
         \<and> relay_record cfg ` set (fetchPendingBatch relay_batch_size locked t) \<subseteq> sent b'))"
proof -
  let ?p = "fetchPendingBatch relay_batch_size locked t"
  obtain q b1 where s: "sendBatch broker (map (relay_record cfg) ?p) b = (q, b1)" by force
  note l = sendBatch_log [OF assms(2) s]
  show ?thesis
    using assms(1) s l
    by (cases q) (auto simp: relay_processBatch_def relay_body_def Let_def split: if_splits)
qed

definition outbox_inv :: "'p relay_config \<Rightarrow> ('b \<Rightarrow> 'p kafka_record set) \<Rightarrow> ('p, 'b) outbox_system \<Rightarrow> bool" where
  "outbox_inv cfg sent s \<longleftrightarrow>
     distinct (map oe_id (tbl s))
     \<and> (\<forall>e\<in>set (accepted s). relay_record cfg e \<in> sent (brokerState s) \<or> (e \<in> set (tbl s) \<and> oe_status e = PENDING))"

lemma markAsPublished_ids [table_simps]: "map oe_id (markAsPublished ids now t) = map oe_id t"
  by (simp add: markAsPublished_def map_update_rows)

lemma markAsPublished_keeps: "e \<in> set t \<Longrightarrow> oe_id e \<notin> set ids \<Longrightarrow> e \<in> set (markAsPublished ids now t)"
  by (auto simp: markAsPublished_def set_update_rows)

lemma delete_batch_rows:
  assumes "delete_batch pick old n rows = (k, rows')" and "limits pick"
  shows "set rows' \<subseteq> set rows" and "r \<in> set rows \<Longrightarrow> \<not> old r \<Longrightarrow> r \<in> set rows'"
    and "distinct (map f rows) \<Longrightarrow> distinct (map f rows')"
proof -
  have v: "set (pick n (filter old rows)) \<subseteq> set (filter old rows)" using assms(2) unfolding limits_def by blast
  have r: "rows' = filter (\<lambda>r. r \<notin> set (pick n (filter old rows))) rows"
    using assms(1) by (simp add: delete_batch_def Let_def)
  show "set rows' \<subseteq> set rows" and "r \<in> set rows \<Longrightarrow> \<not> old r \<Longrightarrow> r \<in> set rows'"
    and "distinct (map f rows) \<Longrightarrow> distinct (map f rows')"
    using v by (auto simp: r distinct_map inj_on_def)
qed

lemma outbox_step_inv:
  assumes "outbox_step cfg broker pick s s'" and "outbox_inv cfg sent s" and "broker_ok broker sent" and "limits pick"
  shows "outbox_inv cfg sent s'"
  using assms(1)
proof (cases rule: outbox_step.cases)
  case (Insert trace now events t)
  have "map oe_id (map (with_trace trace now) events) = map oe_id events"
    by (simp add: with_trace_def)
  moreover have "distinct (map oe_id (tbl s @ events))" "t = tbl s @ map (with_trace trace now) events"
    using Insert(2) by (auto simp: insertMany_def split: if_splits)
  ultimately show ?thesis
    using Insert assms(2) by (auto simp: outbox_inv_def with_trace_def comp_def)
next
  case (Relay locked commits now r t b)
  let ?p = "fetchPendingBatch relay_batch_size locked (tbl s)"
  from relay_processBatch_cases [OF Relay(2) assms(3)] have g: "sent (brokerState s) \<subseteq> sent b"
    and c: "t = tbl s \<or> t = markAsPublished (map oe_id ?p) now (tbl s) \<and> relay_record cfg ` set ?p \<subseteq> sent b" by auto
  have "relay_record cfg e \<in> sent b \<or> (e \<in> set t \<and> oe_status e = PENDING)"
    if e: "e \<in> set (accepted s)" for e
  proof (cases "relay_record cfg e \<in> sent (brokerState s)")
    case True
    with g show ?thesis by blast
  next
    case False
    with e assms(2) have p: "e \<in> set (tbl s)" "oe_status e = PENDING" by (auto simp: outbox_inv_def)
    show ?thesis
    proof (cases "oe_id e \<in> set (map oe_id ?p)")
      case True
      then obtain f where f: "f \<in> set ?p" "oe_id f = oe_id e" by auto
      with p fetched_pending [OF f(1)] assms(2) have "f = e"
        by (auto simp: outbox_inv_def dest: distinct_key_eq)
      with f c p show ?thesis by auto
    next
      case False
      with c p show ?thesis by (auto intro: markAsPublished_keeps)
    qed
  qed
  moreover have "distinct (map oe_id t)" using c assms(2) by (auto simp: outbox_inv_def table_simps)
  ultimately show ?thesis using Relay by (simp add: outbox_inv_def)
next
  case (Retain cutoff n k t)
  note d = delete_batch_rows [OF Retain(2) [unfolded deletePublishedEventsOlderThan_def] assms(4)]
  show ?thesis using Retain(1) assms(2) d(2,3) by (auto simp: outbox_inv_def)
qed

text \<open>What a committed run leaves pending.\<close>

lemma fetched_length: "length (fetchPendingBatch n {} t) = min n (countPending t)"
  by (auto simp: fetchPendingBatch_def countPending_def)

lemma pending_after_publish:
  "filter (\<lambda>e. oe_status e = PENDING) (markAsPublished ids now t)
     = filter (\<lambda>e. oe_id e \<notin> set ids) (filter (\<lambda>e. oe_status e = PENDING) t)"
proof -
  have "filter (\<lambda>e. oe_status e = PENDING)
      (update_rows (\<lambda>e. oe_id e \<in> set ids) (\<lambda>e. e\<lparr>oe_status := PUBLISHED, oe_updatedAt := now\<rparr>) t)
     = filter (\<lambda>e. oe_id e \<notin> set ids) (filter (\<lambda>e. oe_status e = PENDING) t)"
    by (induction t) auto
  then show ?thesis by (auto simp: markAsPublished_def)
qed

lemma id_mem:
  "distinct (map oe_id t) \<Longrightarrow> set p \<subseteq> set t \<Longrightarrow> e \<in> set t \<Longrightarrow> oe_id e \<in> oe_id ` set p \<longleftrightarrow> e \<in> set p"
  by (auto dest: distinct_key_eq)

lemma published_left:
  assumes "distinct (map oe_id t)"
  shows "filter (\<lambda>e. oe_status e = PENDING) (markAsPublished (map oe_id (fetchPendingBatch n {} t)) now t)
    = filter (\<lambda>e. e \<notin> set (fetchPendingBatch n {} t)) (filter (\<lambda>e. oe_status e = PENDING) t)"
proof -
  have "set (fetchPendingBatch n {} t) \<subseteq> set t" using fetched_pending by blast
  then show ?thesis
    unfolding pending_after_publish using id_mem [OF assms] by (auto intro!: filter_cong)
qed

lemma published_count:
  assumes "distinct (map oe_id t)"
  shows "countPending (markAsPublished (map oe_id (fetchPendingBatch n {} t)) now t) = countPending t - min n (countPending t)"
proof -
  let ?pend = "filter (\<lambda>e. oe_status e = PENDING) t" and ?p = "fetchPendingBatch n {} t"
  have d: "distinct ?pend" using assms by (simp add: distinct_map)
  moreover from d have "distinct ?p" by (simp add: fetchPendingBatch_def)
  moreover have "set ?p \<subseteq> set ?pend" using fetched_pending [of _ n "{}" t] by auto
  ultimately have "length (filter (\<lambda>e. e \<in> set ?p) ?pend) = length ?p" by (intro length_filter_mem)
  then show ?thesis
    using sum_length_filter_compl [of "\<lambda>e. e \<in> set ?p" ?pend] published_left [OF assms, of n now] fetched_length [of n t]
    by (simp add: countPending_def)
qed

lemma published_rest:
  assumes "distinct (map oe_id t)" and "e \<in> set (fetchPendingBatch n {} t)"
    and "f \<in> set (filter (\<lambda>e. oe_status e = PENDING) (markAsPublished (map oe_id (fetchPendingBatch n {} t)) now t))"
  shows "oe_createdAt e \<le> oe_createdAt f"
proof -
  let ?s = "sort_key oe_createdAt (filter (\<lambda>e. oe_status e = PENDING) t)"
  have p: "fetchPendingBatch n {} t = take n ?s" by (simp add: fetchPendingBatch_def)
  have "f \<in> set ?s" and "f \<notin> set (take n ?s)"
    using assms(3) unfolding published_left [OF assms(1)] by (auto simp: p)
  then have "f \<in> set (drop n ?s)" by (metis Un_iff append_take_drop_id set_append)
  moreover have "sorted (map oe_createdAt (take n ?s) @ map oe_createdAt (drop n ?s))"
    by (metis append_take_drop_id map_append sorted_sort_key)
  then have "\<forall>x\<in>set (take n ?s). \<forall>y\<in>set (drop n ?s). oe_createdAt x \<le> oe_createdAt y"
    unfolding sorted_append by simp
  moreover have "e \<in> set (take n ?s)" using assms(2) by (simp only: p)
  ultimately show ?thesis by blast
qed

section \<open>Properties\<close>

text \<open>
  C37: no event is lost. In every state the services, any number of relays and the retention job
  can reach from an empty outbox, in any order and with any failures of the broker or of a
  commit, every event whose insert was committed has been delivered to the broker or is still
  pending in the table.
\<close>

theorem outbox_loses_no_event:
  assumes "broker_ok broker sent" and "limits pick"
    and "(outbox_step cfg broker pick)\<^sup>*\<^sup>* \<lparr>tbl = [], brokerState = b0, accepted = []\<rparr> s"
    and "e \<in> set (accepted s)"
  shows "relay_record cfg e \<in> sent (brokerState s) \<or> (e \<in> set (tbl s) \<and> oe_status e = PENDING)"
proof -
  from assms(3) have "outbox_inv cfg sent s"
  proof (induction rule: rtranclp_induct)
    case base
    then show ?case by (simp add: outbox_inv_def)
  next
    case (step s t)
    then show ?case using outbox_step_inv [OF _ _ assms(1,2)] by blast
  qed
  with assms(4) show ?thesis by (auto simp: outbox_inv_def)
qed

definition demo_cfg :: "string relay_config" where
  "demo_cfg = \<lparr>topic_of = (\<lambda>a. getKafkaTopicName ''dev'' (if a = ORDER then ''orders'' else ''matching'')),
     clientId = ''orders-service'', action_of = (\<lambda>_. None)\<rparr>"

definition demo_outbox_event :: "string outbox_event" where
  "demo_outbox_event = \<lparr>oe_id = ''e1'', aggregateType = ORDER, aggregateId = ''o1'', partitionKey = ''ETH_USDT'',
     oe_eventType = ''order_placed'', oe_payload = ''{}'', oe_status = PENDING, retryCount = 0, lastError = None,
     traceparent = None, tracestate = None, oe_createdAt = 7, oe_updatedAt = 7\<rparr>"

theorem outbox_loses_no_event_witness:
  "relay_record demo_cfg demo_outbox_event \<in> set (brokerState
     \<lparr>tbl = markAsPublished [''e1''] 9 [demo_outbox_event], brokerState = [relay_record demo_cfg demo_outbox_event],
      accepted = [demo_outbox_event]\<rparr>)"
proof -
  let ?s0 = "\<lparr>tbl = [], brokerState = [], accepted = []\<rparr> :: (string, string kafka_record list) outbox_system"
  let ?s1 = "\<lparr>tbl = [demo_outbox_event], brokerState = [], accepted = [demo_outbox_event]\<rparr>
     :: (string, string kafka_record list) outbox_system"
  let ?s2 = "\<lparr>tbl = markAsPublished [''e1''] 9 [demo_outbox_event],
     brokerState = [relay_record demo_cfg demo_outbox_event], accepted = [demo_outbox_event]\<rparr>"
  have "outbox_step demo_cfg log_broker take ?s0 ?s1"
    using Insert [of "(None, None)" 7 "[demo_outbox_event]" ?s0 "[demo_outbox_event]" demo_cfg log_broker take]
    by (simp add: insertMany_def with_trace_def nullish_def demo_outbox_event_def)
  moreover have "outbox_step demo_cfg log_broker take ?s1 ?s2"
    using Relay [of demo_cfg log_broker "{}" True 9 ?s1 "Inr 1" "markAsPublished [''e1''] 9 [demo_outbox_event]"
        "[relay_record demo_cfg demo_outbox_event]" take]
    by (simp add: relay_processBatch_def relay_body_def Let_def fetchPendingBatch_def relay_batch_size_def
        sendBatch_def log_broker_def group_by_topic_def demo_outbox_event_def)
  ultimately have r: "(outbox_step demo_cfg log_broker take)\<^sup>*\<^sup>* ?s0 ?s2" by simp
  have "demo_outbox_event \<in> set (accepted ?s2)" by simp
  from outbox_loses_no_event [OF log_broker_ok limits_take r this] show ?thesis
    by (auto simp: markAsPublished_def demo_outbox_event_def)
qed

text \<open>
  A run of the relay that commits publishes exactly the oldest pending events, at most fifty:
  it answers how many, marks precisely those, and the backlog shrinks by that number, so a
  working broker drains any backlog.
\<close>

theorem relay_publishes_oldest:
  assumes "distinct (map oe_id t)" and "\<And>groups. fst (broker groups b) = Inr ()"
  shows "\<exists>t' b'. relay_processBatch cfg broker {} True now (t, b) = (Inr (min relay_batch_size (countPending t)), (t', b'))
    \<and> countPending t' = countPending t - min relay_batch_size (countPending t)
    \<and> (\<forall>e\<in>set (fetchPendingBatch relay_batch_size {} t). \<forall>f\<in>set t'.
          oe_status f = PENDING \<longrightarrow> oe_createdAt e \<le> oe_createdAt f)"
proof -
  let ?p = "fetchPendingBatch relay_batch_size {} t"
  let ?t' = "markAsPublished (map oe_id ?p) now t"
  have "sendBatch broker (map (relay_record cfg) ?p) b = (Inr (), snd (sendBatch broker (map (relay_record cfg) ?p) b))"
    using assms(2) by (simp add: sendBatch_def prod_eq_iff)
  then obtain b' where "sendBatch broker (map (relay_record cfg) ?p) b = (Inr (), b')" by blast
  then have run: "\<exists>b'. relay_processBatch cfg broker {} True now (t, b) = (Inr (length ?p), (?t', b'))"
    by (auto simp: relay_processBatch_def relay_body_def Let_def markAsPublished_def)
  have "\<forall>e\<in>set ?p. \<forall>f\<in>set ?t'. oe_status f = PENDING \<longrightarrow> oe_createdAt e \<le> oe_createdAt f"
  proof (intro ballI impI)
    fix e f assume e: "e \<in> set ?p" and f: "f \<in> set ?t'" "oe_status f = PENDING"
    then have "f \<in> set (filter (\<lambda>e. oe_status e = PENDING) ?t')" by simp
    with published_rest [OF assms(1)] show "oe_createdAt e \<le> oe_createdAt f" using e by blast
  qed
  with run published_count [OF assms(1)] show ?thesis
    by (auto simp: fetched_length)
qed

theorem relay_publishes_oldest_witness:
  "\<exists>t' b'. relay_processBatch demo_cfg log_broker {} True 9 ([demo_outbox_event], []) = (Inr 1, (t', b'))
     \<and> countPending t' = 0"
proof -
  have "distinct (map oe_id [demo_outbox_event])" by simp
  from relay_publishes_oldest [OF this, of log_broker "[]" demo_cfg 9] show ?thesis
    by (auto simp: log_broker_def countPending_def demo_outbox_event_def relay_batch_size_def)
qed

text \<open>
  The retry bookkeeping is lost. When publishing fails the relay writes a retry attempt for
  every event of the batch and throws inside the same transaction, so the database rolls the
  attempts back: after a failed run the table is exactly what it was, and no retry count or last
  error is ever stored by the relay.
\<close>

theorem relay_retry_attempts_roll_back:
  "(\<forall>e. fst (relay_processBatch cfg broker locked commits now (t, b)) = Inl e
       \<longrightarrow> fst (snd (relay_processBatch cfg broker locked commits now (t, b))) = t)
   \<and> map retryCount (fst (snd (relay_processBatch cfg broker locked commits now (t, b)))) = map retryCount t
   \<and> map lastError (fst (snd (relay_processBatch cfg broker locked commits now (t, b)))) = map lastError t"
proof -
  obtain r s where eq: "relay_body cfg broker locked now (t, b) = (r, s)" by (meson surj_pair)
  show ?thesis
  proof (cases r)
    case (Inl e)
    with eq show ?thesis by (simp add: relay_processBatch_def)
  next
    case (Inr n)
    have "map retryCount (markAsPublished ids now t) = map retryCount t
        \<and> map lastError (markAsPublished ids now t) = map lastError t" for ids
      by (simp add: markAsPublished_def map_update_rows)
    moreover have "fst s = t \<or> (\<exists>ids. fst s = markAsPublished ids now t)"
      using eq Inr by (auto simp: relay_body_def Let_def split: if_splits prod.splits sum.splits)
    ultimately show ?thesis using eq Inr by (auto simp: relay_processBatch_def)
  qed
qed

theorem relay_retry_attempts_roll_back_witness:
  "relay_processBatch demo_cfg (\<lambda>_ b. (Inl (PlainError ''broker down''), b)) {} True 9 ([demo_outbox_event], [])
     = (Inl (PlainError ''broker down''), ([demo_outbox_event], []))"
proof -
  let ?r = "relay_processBatch demo_cfg (\<lambda>_ b. (Inl (PlainError ''broker down''), b)) {} True 9 ([demo_outbox_event], [])"
  have f: "fst ?r = Inl (PlainError ''broker down'')" "snd (snd ?r) = []"
    by (simp_all add: relay_processBatch_def relay_body_def Let_def fetchPendingBatch_def relay_batch_size_def
        sendBatch_def group_by_topic_def demo_outbox_event_def)
  then have "fst (snd ?r) = [demo_outbox_event]"
    using relay_retry_attempts_roll_back [of demo_cfg "\<lambda>_ b. (Inl (PlainError ''broker down''), b)" "{}" True 9
        "[demo_outbox_event]" "[]"] by blast
  with f show ?thesis by (metis prod.collapse)
qed

text \<open>
  The polling delay of the relay always lies between 100 ms and two seconds, whatever the
  runs answer, and a run that published something sets it back to 100 ms.
\<close>

theorem poll_delay_bounded:
  "100 \<le> fold nextDelay outcomes minDelayMs \<and> fold nextDelay outcomes minDelayMs \<le> 2000
   \<and> nextDelay (Inr (Suc n)) d = 100"
proof -
  have "100 \<le> nextDelay r d \<and> nextDelay r d \<le> 2000" if "100 \<le> d" "d \<le> 2000" for r d
    using that by (auto simp: nextDelay_def minDelayMs_def maxDelayMs_def backoffFactor_def min_def split: sum.splits)
  then have "100 \<le> fold nextDelay outcomes d \<and> fold nextDelay outcomes d \<le> 2000" if "100 \<le> d" "d \<le> 2000" for d
    using that by (induction outcomes arbitrary: d) auto
  from this [of minDelayMs] show ?thesis
    by (simp add: minDelayMs_def nextDelay_def relay_batch_size_def)
qed

text \<open>
  The outbox retention job always ends and removes exactly the published events older than
  forty-eight hours; every pending event survives it, in its place.
\<close>

theorem outbox_retention_keeps_pending:
  assumes "limits pick" and "distinct t"
  shows "\<exists>t'. cleanPublishedEvents pick now t = Some (length (filter (expired (now - outbox_retention_ms)) t), t')
    \<and> t' = filter (\<lambda>e. \<not> expired (now - outbox_retention_ms) e) t
    \<and> filter (\<lambda>e. oe_status e = PENDING) t' = filter (\<lambda>e. oe_status e = PENDING) t"
proof -
  from published_events.drain_returns [of "(pick, now - outbox_retention_ms)" t 0] assms
  obtain t' where t': "cleanPublishedEvents pick now t = Some (length (filter (expired (now - outbox_retention_ms)) t), t')"
    and gone: "filter (expired (now - outbox_retention_ms)) t' = []"
    and kept: "filter (\<lambda>e. \<not> expired (now - outbox_retention_ms) e) t' = filter (\<lambda>e. \<not> expired (now - outbox_retention_ms) e) t"
    by (auto simp: cleanPublishedEvents_def)
  have eq: "t' = filter (\<lambda>e. \<not> expired (now - outbox_retention_ms) e) t"
    using gone kept by (metis (mono_tags, lifting) filter_True filter_empty_conv)
  moreover have "filter (\<lambda>e. oe_status e = PENDING) t' = filter (\<lambda>e. oe_status e = PENDING) t"
    unfolding eq filter_filter by (rule filter_cong) (auto simp: expired_def)
  ultimately show ?thesis using t' by blast
qed

theorem outbox_retention_keeps_pending_witness:
  "\<exists>t'. cleanPublishedEvents take (outbox_retention_ms + 100)
      [demo_outbox_event, demo_outbox_event\<lparr>oe_id := ''e0'', oe_status := PUBLISHED\<rparr>] = Some (1, t')
     \<and> t' = [demo_outbox_event]"
proof -
  let ?t = "[demo_outbox_event, demo_outbox_event\<lparr>oe_id := ''e0'', oe_status := PUBLISHED\<rparr>]"
  have "distinct ?t" by (simp add: demo_outbox_event_def)
  from outbox_retention_keeps_pending [OF limits_take this, of "outbox_retention_ms + 100"] show ?thesis
    by (auto simp: expired_def demo_outbox_event_def)
qed

end
