(* ===== verification/Retention.thy ===== *)
theory Retention
  imports Settlement Drain
begin

text \<open>
  The retention job of the processed events
  (\<open>apps/accounts/src/consumers/processed-events-retention.service.ts\<close>).
\<close>

definition retention_ms :: nat where
  "retention_ms = 30 * 24 * 60 * 60 * 1000"

definition retention_batch :: nat where
  "retention_batch = 1000"

definition cleanProcessedEvents ::
  "processed_event picker \<Rightarrow> time \<Rightarrow> accounts_db \<Rightarrow> (nat \<times> accounts_db) option" where
  "cleanProcessedEvents pick now db =
     drain (deleteOlderThan pick (now - retention_ms) retention_batch) retention_batch 0 db"

definition old_events :: "time \<Rightarrow> accounts_db \<Rightarrow> processed_event list" where
  "old_events cutoff db = filter (\<lambda>e. pe_processedAt e < cutoff) (processedEvents db)"

text \<open>What the job must leave alone: the younger events, the accounts and the ledger.\<close>

definition untouched :: "time \<Rightarrow> accounts_db \<Rightarrow> processed_event list \<times> account list \<times> ledger_tx list" where
  "untouched cutoff db =
     (filter (\<lambda>e. \<not> pe_processedAt e < cutoff) (processedEvents db), accounts db, ledgerTransactions db)"

lemma deleteOlderThan_laws:
  assumes "limits pick" and "distinct (processedEvents s)"
  shows "fst (deleteOlderThan pick c n s) = min n (length (old_events c s))"
    and "length (old_events c (snd (deleteOlderThan pick c n s))) = length (old_events c s) - fst (deleteOlderThan pick c n s)"
    and "untouched c (snd (deleteOlderThan pick c n s)) = untouched c s"
    and "distinct (processedEvents (snd (deleteOlderThan pick c n s)))"
proof -
  obtain k rows where eq: "delete_batch pick (\<lambda>e. pe_processedAt e < c) n (processedEvents s) = (k, rows)" by force
  have d: "deleteOlderThan pick c n s = (k, s\<lparr>processedEvents := rows\<rparr>)"
    using eq by (auto simp: deleteOlderThan_def delete_batch_def Let_def)
  note b = delete_batch_effect [OF assms eq]
  show "fst (deleteOlderThan pick c n s) = min n (length (old_events c s))"
    and "length (old_events c (snd (deleteOlderThan pick c n s))) = length (old_events c s) - fst (deleteOlderThan pick c n s)"
    and "untouched c (snd (deleteOlderThan pick c n s)) = untouched c s"
    and "distinct (processedEvents (snd (deleteOlderThan pick c n s)))"
    using b by (simp_all add: d old_events_def untouched_def)
qed

interpretation processed_events: batch_delete
  "\<lambda>(pick, cutoff). deleteOlderThan pick cutoff retention_batch"
  "\<lambda>(pick, cutoff) db. length (old_events cutoff db)"
  "\<lambda>(pick, cutoff). untouched cutoff"
  "\<lambda>(pick, cutoff) db. limits pick \<and> distinct (processedEvents db)"
  retention_batch
  by unfold_locales (auto simp: retention_batch_def deleteOlderThan_laws)

section \<open>Properties\<close>


definition demo_event :: "uuid \<Rightarrow> time \<Rightarrow> processed_event" where
  "demo_event i t = \<lparr>pe_eventId = i, pe_eventType = ''matching.trade_executed'',
     pe_consumerGroup = ''accounts-settlement-group'', pe_processedAt = t\<rparr>"


end
