(* ===== verification/TransfersDb.thy ===== *)
theory TransfersDb
  imports Outbox Contracts
begin

text \<open>
  The database of the transfers service: the tables \<open>scanner_state\<close>, \<open>wallet_deposits\<close>,
  \<open>withdrawal_requests\<close> and \<open>outbox_events\<close> (\<open>apps/transfers/src/database/schema\<close>) and the
  queries of \<open>transfers.repository.ts\<close>. Identifiers and timestamps come from the caller.
\<close>

section \<open>Messages\<close>

record deposit_confirmed =
  dc_depositId :: uuid
  dc_userId :: uuid
  dc_currency :: string
  dc_amount :: amount
  dc_txHash :: string
  dc_blockNumber :: nat
  dc_timestamp :: time

record withdrawal_completed =
  wc_withdrawalId :: uuid
  wc_userId :: uuid
  wc_currency :: string
  wc_amount :: amount
  wc_txHash :: string
  wc_timestamp :: time

record withdrawal_failed =
  wf_withdrawalId :: uuid
  wf_userId :: uuid
  wf_currency :: string
  wf_amount :: amount
  wf_txHash :: string
  wf_reason :: string
  wf_timestamp :: time

datatype transfers_payload =
    DepositConfirmed deposit_confirmed
  | WithdrawalCompleted withdrawal_completed
  | WithdrawalFailed withdrawal_failed

section \<open>Tables\<close>

datatype deposit_status =
  CONFIRMED | CREDITED | DEPOSIT_PENDING | REJECTED_UNSUPPORTED_TOKEN | REJECTED_BELOW_MINIMUM

datatype withdrawal_status = PENDING | PROCESSING | COMPLETED | FAILED

record wallet_deposit =
  dep_id :: uuid
  dep_userId :: uuid
  dep_txHash :: string
  dep_blockNumber :: nat
  dep_tokenAddress :: "string option"
  dep_currency :: string
  dep_amount :: amount
  dep_status :: deposit_status
  dep_createdAt :: time
  dep_creditedAt :: "time option"

record withdrawal =
  wr_id :: uuid
  wr_userId :: uuid
  wr_idempotencyKey :: string
  wr_destinationAddress :: string
  wr_currency :: string
  wr_amount :: amount
  wr_txHash :: "string option"
  wr_nonce :: "nat option"
  wr_status :: withdrawal_status
  wr_errorMessage :: "string option"
  wr_createdAt :: time
  wr_processedAt :: "time option"

record transfers_db =
  scannerState :: "nat \<Rightarrow> nat option"
  walletDeposits :: "wallet_deposit list"
  withdrawalRequests :: "withdrawal list"
  transfersOutbox :: "transfers_payload domain_event outbox"

section \<open>Scanner state\<close>

definition getLastScannedBlock :: "nat \<Rightarrow> transfers_db \<Rightarrow> nat option" where
  "getLastScannedBlock chainId db = scannerState db chainId"

definition updateLastScannedBlock :: "nat \<Rightarrow> nat \<Rightarrow> transfers_db \<Rightarrow> transfers_db" where
  "updateLastScannedBlock chainId blockNumber db =
     db\<lparr>scannerState := (scannerState db)(chainId \<mapsto> blockNumber)\<rparr>"

section \<open>Deposits\<close>

definition findDepositByTxHash :: "string \<Rightarrow> transfers_db \<Rightarrow> wallet_deposit option" where
  "findDepositByTxHash txHash db = List.find (\<lambda>d. dep_txHash d = txHash) (walletDeposits db)"

text \<open>The primary key and the transaction hash are unique.\<close>

definition createDeposit :: "wallet_deposit \<Rightarrow> transfers_db \<Rightarrow> (wallet_deposit \<times> transfers_db) result" where
  "createDeposit data db =
     (if 66 < length (dep_txHash data) \<or> 10 < length (dep_currency data)
         \<or> (case dep_tokenAddress data of None \<Rightarrow> False | Some t \<Rightarrow> 42 < length t)
      then Inl (DbException ''22001'')
      else if \<not> numeric_28_8 (dep_amount data) then Inl (DbException ''22003'')
      else if (\<exists>d\<in>set (walletDeposits db). dep_id d = dep_id data \<or> dep_txHash d = dep_txHash data)
      then Inl (DbException ''23505'')
      else Inr (data, db\<lparr>walletDeposits := walletDeposits db @ [data]\<rparr>))"

text \<open>A column whose new value is undefined is left as it is.\<close>

definition updateDepositStatus ::
  "uuid \<Rightarrow> deposit_status \<Rightarrow> time option \<Rightarrow> time \<Rightarrow> transfers_db \<Rightarrow> transfers_db" where
  "updateDepositStatus i status creditedAt now db =
     db\<lparr>walletDeposits := update_rows (\<lambda>d. dep_id d = i)
          (\<lambda>d. d\<lparr>dep_status := status,
                 dep_creditedAt := (case creditedAt of
                                      Some t \<Rightarrow> Some t
                                    | None \<Rightarrow> if status = CREDITED then Some now else dep_creditedAt d)\<rparr>)
          (walletDeposits db)\<rparr>"

section \<open>Withdrawals\<close>

definition findWithdrawalByIdempotency :: "uuid \<Rightarrow> string \<Rightarrow> transfers_db \<Rightarrow> withdrawal option" where
  "findWithdrawalByIdempotency userId idempotencyKey db =
     List.find (\<lambda>r. wr_userId r = userId \<and> wr_idempotencyKey r = idempotencyKey) (withdrawalRequests db)"

text \<open>An absent or empty user matches every row.\<close>

definition findWithdrawalById :: "uuid \<Rightarrow> uuid option \<Rightarrow> transfers_db \<Rightarrow> withdrawal option" where
  "findWithdrawalById i userId db =
     List.find (\<lambda>r. wr_id r = i
        \<and> (case userId of None \<Rightarrow> True | Some u \<Rightarrow> u = [] \<or> wr_userId r = u)) (withdrawalRequests db)"

text \<open>The primary key and the pair of user and idempotency key are unique.\<close>

definition createWithdrawalRequest :: "withdrawal \<Rightarrow> transfers_db \<Rightarrow> (withdrawal \<times> transfers_db) result" where
  "createWithdrawalRequest data db =
     (if 128 < length (wr_idempotencyKey data) \<or> 42 < length (wr_destinationAddress data) \<or> 10 < length (wr_currency data)
      then Inl (DbException ''22001'')
      else if \<not> numeric_28_8 (wr_amount data) then Inl (DbException ''22003'')
      else if (\<exists>r\<in>set (withdrawalRequests db). wr_id r = wr_id data
                 \<or> (wr_userId r = wr_userId data \<and> wr_idempotencyKey r = wr_idempotencyKey data))
      then Inl (DbException ''23505'')
      else Inr (data, db\<lparr>withdrawalRequests := withdrawalRequests db @ [data]\<rparr>))"

definition findPendingWithdrawals :: "nat \<Rightarrow> transfers_db \<Rightarrow> withdrawal list" where
  "findPendingWithdrawals limit db =
     take limit (sort_key wr_createdAt (filter (\<lambda>r. wr_status r = PENDING) (withdrawalRequests db)))"

definition findProcessingWithdrawalsWithTxHash :: "transfers_db \<Rightarrow> withdrawal list" where
  "findProcessingWithdrawalsWithTxHash db =
     filter (\<lambda>r. wr_status r = PROCESSING \<and> wr_txHash r \<noteq> None) (withdrawalRequests db)"

definition update_withdrawal :: "uuid \<Rightarrow> (withdrawal \<Rightarrow> withdrawal) \<Rightarrow> transfers_db \<Rightarrow> transfers_db" where
  "update_withdrawal i f db =
     db\<lparr>withdrawalRequests := update_rows (\<lambda>r. wr_id r = i) f (withdrawalRequests db)\<rparr>"

text \<open>Rows that other transactions hold are skipped.\<close>

definition lockNextPendingWithdrawal :: "uuid set \<Rightarrow> transfers_db \<Rightarrow> withdrawal option \<times> transfers_db" where
  "lockNextPendingWithdrawal held db =
     (case sort_key wr_createdAt
             (filter (\<lambda>r. wr_status r = PENDING \<and> wr_id r \<notin> held) (withdrawalRequests db)) of
        [] \<Rightarrow> (None, db)
      | locked # _ \<Rightarrow>
          (Some (locked\<lparr>wr_status := PROCESSING\<rparr>),
           update_withdrawal (wr_id locked) (\<lambda>r. r\<lparr>wr_status := PROCESSING\<rparr>) db))"

definition updateWithdrawalTx :: "uuid \<Rightarrow> string \<Rightarrow> nat \<Rightarrow> transfers_db \<Rightarrow> transfers_db result" where
  "updateWithdrawalTx i txHash nonce db =
     (if 66 < length txHash then Inl (DbException ''22001'')
      else Inr (update_withdrawal i (\<lambda>r. r\<lparr>wr_txHash := Some txHash, wr_nonce := Some nonce\<rparr>) db))"

definition completeWithdrawal_row :: "uuid \<Rightarrow> time \<Rightarrow> transfers_db \<Rightarrow> transfers_db" where
  "completeWithdrawal_row i now db =
     update_withdrawal i (\<lambda>r. r\<lparr>wr_status := COMPLETED, wr_processedAt := Some now\<rparr>) db"

definition failWithdrawal_row :: "uuid \<Rightarrow> string \<Rightarrow> time \<Rightarrow> transfers_db \<Rightarrow> transfers_db" where
  "failWithdrawal_row i errorMessage now db =
     update_withdrawal i
       (\<lambda>r. r\<lparr>wr_status := FAILED, wr_errorMessage := Some errorMessage, wr_processedAt := Some now\<rparr>) db"

definition findUserWithdrawals ::
  "uuid \<Rightarrow> withdrawal_status option \<Rightarrow> nat \<Rightarrow> nat \<Rightarrow> transfers_db \<Rightarrow> withdrawal list \<times> nat" where
  "findUserWithdrawals userId status limit offset db =
     (let rows = filter (\<lambda>r. wr_userId r = userId
                   \<and> (case status of None \<Rightarrow> True | Some s \<Rightarrow> wr_status r = s)) (withdrawalRequests db)
      in (take limit (drop offset (rev (sort_key wr_createdAt rows))), length rows))"

section \<open>Rows after an update\<close>

lemma update_withdrawal_simps [simp]:
  "scannerState (update_withdrawal i f db) = scannerState db"
  "walletDeposits (update_withdrawal i f db) = walletDeposits db"
  "transfersOutbox (update_withdrawal i f db) = transfersOutbox db"
  "withdrawalRequests (update_withdrawal i f db) = update_rows (\<lambda>r. wr_id r = i) f (withdrawalRequests db)"
  by (simp_all add: update_withdrawal_def)

lemma createDeposit_Inr:
  assumes "createDeposit x db = Inr (y, d)"
  shows "y = x" and "d = db\<lparr>walletDeposits := walletDeposits db @ [x]\<rparr>"
    and "\<forall>z\<in>set (walletDeposits db). dep_id z \<noteq> dep_id x \<and> dep_txHash z \<noteq> dep_txHash x"
    and "length (dep_txHash x) \<le> 66" and "numeric_28_8 (dep_amount x)"
  using assms by (auto simp: createDeposit_def split: if_splits)

lemma createWithdrawalRequest_Inr:
  assumes "createWithdrawalRequest x db = Inr (y, d)"
  shows "y = x" and "d = db\<lparr>withdrawalRequests := withdrawalRequests db @ [x]\<rparr>"
    and "\<forall>z\<in>set (withdrawalRequests db). wr_id z \<noteq> wr_id x
           \<and> \<not> (wr_userId z = wr_userId x \<and> wr_idempotencyKey z = wr_idempotencyKey x)"
  using assms by (auto simp: createWithdrawalRequest_def split: if_splits)

lemma insert_event_Inr:
  assumes "insert_event trace now e tbl = Inr tbl'"
  shows "tbl' = tbl @ [with_trace trace now e]"
  using assms by (simp add: insert_event_def insertMany_def split: if_splits)

end
