(* ===== verification/Evm.thy ===== *)
theory Evm
  imports Decimal
begin

text \<open>
  The two codings between the platform and the chain
  (\<open>apps/transfers/src/common/utils/unit-converter.ts\<close> and \<open>uuid-converter.ts\<close>): amounts of
  eight decimals against integers of a token with its own number of decimals, and user ids
  against the \<open>bytes16\<close> topic of the vault's events. Both are shown to round-trip.
\<close>

section \<open>Amounts\<close>

definition PLATFORM_DECIMALS :: nat where
  "PLATFORM_DECIMALS = 8"

text \<open>\<open>0.00000001\<close>, one unit.\<close>

definition MIN_DEPOSIT_THRESHOLD :: amount where
  "MIN_DEPOSIT_THRESHOLD = 1"

text \<open>
  The quotient by \<open>10 ^ tokenDecimals\<close> is cut to eight decimals (the library is configured with
  \<open>ROUND_DOWN\<close>), so it is a number of units of \<open>10 ^ (- 8)\<close>. An amount on the chain is an
  unsigned integer.
\<close>

definition scaleEvmAmountToPlatform :: "nat \<Rightarrow> nat \<Rightarrow> amount" where
  "scaleEvmAmountToPlatform evmAmount tokenDecimals =
     int evmAmount * 10 ^ PLATFORM_DECIMALS div 10 ^ tokenDecimals"

definition isAboveMinDepositThreshold :: "amount \<Rightarrow> bool" where
  "isAboveMinDepositThreshold amount \<longleftrightarrow> MIN_DEPOSIT_THRESHOLD \<le> amount"

text \<open>Rounding down is towards zero.\<close>

definition scalePlatformAmountToEvm :: "amount \<Rightarrow> nat \<Rightarrow> int" where
  "scalePlatformAmountToEvm platformAmount tokenDecimals =
     sgn platformAmount * (\<bar>platformAmount\<bar> * 10 ^ tokenDecimals div 10 ^ PLATFORM_DECIMALS)"

lemma scalePlatform_nonneg:
  "0 \<le> x \<Longrightarrow> scalePlatformAmountToEvm x d = x * 10 ^ d div 10 ^ 8"
  by (cases "x = 0") (auto simp: scalePlatformAmountToEvm_def PLATFORM_DECIMALS_def)

lemma scaleEvm_nonneg [simp]: "0 \<le> scaleEvmAmountToPlatform w d"
  by (simp add: scaleEvmAmountToPlatform_def PLATFORM_DECIMALS_def div_int_pos_iff)

text \<open>A detour through a scale that is coarser or finer by a factor.\<close>

lemma finer_scale:
  assumes "8 \<le> d"
  shows "scaleEvmAmountToPlatform w d = int w div 10 ^ (d - 8)"
    and "0 \<le> x \<Longrightarrow> scalePlatformAmountToEvm x d = x * 10 ^ (d - 8)"
proof -
  have "(10 :: int) ^ d = 10 ^ (d - 8 + 8)" using assms by simp
  then have eq: "(10 :: int) ^ d = 10 ^ (d - 8) * 10 ^ 8" by (simp only: power_add)
  show "scaleEvmAmountToPlatform w d = int w div 10 ^ (d - 8)"
    unfolding scaleEvmAmountToPlatform_def PLATFORM_DECIMALS_def eq by simp
  show "scalePlatformAmountToEvm x d = x * 10 ^ (d - 8)" if "0 \<le> x"
    unfolding scalePlatform_nonneg [OF that] eq mult.assoc [symmetric] by simp
qed

lemma coarser_scale:
  assumes "d \<le> 8"
  shows "scaleEvmAmountToPlatform w d = int w * 10 ^ (8 - d)"
    and "0 \<le> x \<Longrightarrow> scalePlatformAmountToEvm x d = x div 10 ^ (8 - d)"
proof -
  have "(10 :: int) ^ 8 = 10 ^ (8 - d + d)" using assms by simp
  then have eq: "(10 :: int) ^ 8 = 10 ^ (8 - d) * 10 ^ d" by (simp only: power_add)
  show "scaleEvmAmountToPlatform w d = int w * 10 ^ (8 - d)"
    unfolding scaleEvmAmountToPlatform_def PLATFORM_DECIMALS_def eq mult.assoc [symmetric] by simp
  show "scalePlatformAmountToEvm x d = x div 10 ^ (8 - d)" if "0 \<le> x"
    unfolding scalePlatform_nonneg [OF that] eq by simp
qed

text \<open>
  Converting an amount from the chain to the platform and back, or from the platform to the
  chain and back, never yields more than it started from, and what is lost is less than one unit
  of the coarser side: nothing for a token with at most eight decimals on the way in (a deposit
  of USDT), nothing for one with at least eight on the way out (a withdrawal of ETH).
\<close>

theorem unit_conversion_roundtrip:
  assumes "0 \<le> x"
  shows "int w - 10 ^ (d - 8) < scalePlatformAmountToEvm (scaleEvmAmountToPlatform w d) d
    \<and> scalePlatformAmountToEvm (scaleEvmAmountToPlatform w d) d \<le> int w
    \<and> x - 10 ^ (8 - d) < scaleEvmAmountToPlatform (nat (scalePlatformAmountToEvm x d)) d
    \<and> scaleEvmAmountToPlatform (nat (scalePlatformAmountToEvm x d)) d \<le> x
    \<and> (isAboveMinDepositThreshold (scaleEvmAmountToPlatform w d) \<longleftrightarrow> 10 ^ d \<le> int w * 10 ^ 8)"
proof -
  have "isAboveMinDepositThreshold (scaleEvmAmountToPlatform w d) \<longleftrightarrow> 10 ^ d \<le> int w * 10 ^ 8"
    by (simp add: isAboveMinDepositThreshold_def MIN_DEPOSIT_THRESHOLD_def scaleEvmAmountToPlatform_def
        PLATFORM_DECIMALS_def pos_imp_zdiv_pos_iff int_one_le_iff_zero_less)
  moreover have "int w - 10 ^ (d - 8) < scalePlatformAmountToEvm (scaleEvmAmountToPlatform w d) d
    \<and> scalePlatformAmountToEvm (scaleEvmAmountToPlatform w d) d \<le> int w
    \<and> x - 10 ^ (8 - d) < scaleEvmAmountToPlatform (nat (scalePlatformAmountToEvm x d)) d
    \<and> scaleEvmAmountToPlatform (nat (scalePlatformAmountToEvm x d)) d \<le> x"
  proof (cases "8 \<le> d")
    case True
    let ?k = "10 ^ (d - 8) :: int"
    have "int w < (int w div ?k + 1) * ?k" "int w div ?k * ?k \<le> int w" using div_bounds [of ?k "int w"] by simp_all
    then show ?thesis using True assms by (simp add: finer_scale distrib_right pos_imp_zdiv_nonneg_iff)
  next
    case False
    let ?k = "10 ^ (8 - d) :: int"
    have "x < (x div ?k + 1) * ?k" "x div ?k * ?k \<le> x" using div_bounds [of ?k x] by simp_all
    then show ?thesis using False assms by (simp add: coarser_scale distrib_right pos_imp_zdiv_nonneg_iff)
  qed
  ultimately show ?thesis by blast
qed

theorem unit_conversion_roundtrip_witness:
  "scalePlatformAmountToEvm (scaleEvmAmountToPlatform 123456789000000000 18) 18 \<le> 123456789000000000
   \<and> scaleEvmAmountToPlatform (nat (scalePlatformAmountToEvm 150 6)) 6 = 100
   \<and> 150 - 10 ^ (8 - 6) < scaleEvmAmountToPlatform (nat (scalePlatformAmountToEvm 150 6)) 6"
  using unit_conversion_roundtrip [of 150 123456789000000000 18] unit_conversion_roundtrip [of 150 1 6]
  by (simp add: coarser_scale)

section \<open>User ids\<close>

definition js_slice :: "nat \<Rightarrow> nat \<Rightarrow> string \<Rightarrow> string" where
  "js_slice a b s = take (b - a) (drop a s)"

fun js_join :: "char \<Rightarrow> string list \<Rightarrow> string" where
  "js_join sep [] = []"
| "js_join sep [w] = w"
| "js_join sep (w # v # ws) = w @ sep # js_join sep (v # ws)"

definition uuidToBytes16 :: "string \<Rightarrow> string result" where
  "uuidToBytes16 uuid =
     (let hex = js_toLowerCase (filter (\<lambda>c. c \<noteq> CHR ''-'') uuid)
      in if length hex \<noteq> 32 then Inl (PlainError ''Invalid UUID length for bytes16 conversion'')
         else Inr (''0x'' @ hex))"

definition bytes16ToUuid :: "string \<Rightarrow> string result" where
  "bytes16ToUuid bytes16 =
     (let cleanHex = js_toLowerCase (if take 2 bytes16 = ''0x'' then drop 2 bytes16 else bytes16)
      in if length cleanHex \<noteq> 32 then Inl (PlainError ''Invalid bytes16 length for UUID conversion'')
         else Inr (js_join (CHR ''-'')
                [js_slice 0 8 cleanHex, js_slice 8 12 cleanHex, js_slice 12 16 cleanHex,
                 js_slice 16 20 cleanHex, js_slice 20 32 cleanHex]))"

definition lower_hex :: "char \<Rightarrow> bool" where
  "lower_hex c \<longleftrightarrow> is_digit c \<or> (97 \<le> (of_char c :: nat) \<and> (of_char c :: nat) \<le> 102)"

definition canonical_uuid :: "string \<Rightarrow> bool" where
  "canonical_uuid u \<longleftrightarrow>
     map length (js_split (CHR ''-'') u) = [8, 4, 4, 4, 12] \<and> list_all (list_all lower_hex) (js_split (CHR ''-'') u)"

lemma js_join_split: "js_join sep (js_split sep s) = s"
proof (induction s)
  case (Cons c s)
  obtain w ws where "js_split sep s = w # ws" using js_split_nonempty [of sep s] by (cases "js_split sep s") auto
  with Cons show ?case by (cases ws) auto
qed simp

lemma js_join_Cons [simp]: "ws \<noteq> [] \<Longrightarrow> js_join sep (w # ws) = w @ sep # js_join sep ws"
  by (cases ws) auto

lemma js_split_join:
  "ws \<noteq> [] \<Longrightarrow> \<forall>w\<in>set ws. sep \<notin> set w \<Longrightarrow> js_split sep (js_join sep ws) = ws"
proof (induction ws)
  case (Cons w ws)
  then show ?case by (cases "ws = []") (simp_all add: js_split_single js_split_append)
qed simp

lemma filter_join:
  "\<forall>w\<in>set ws. sep \<notin> set w \<Longrightarrow> filter (\<lambda>c. c \<noteq> sep) (js_join sep ws) = concat ws"
proof (induction ws)
  case (Cons w ws)
  then have "filter (\<lambda>c. c \<noteq> sep) w = w" by (simp add: filter_id_conv) metis
  with Cons show ?case by (cases "ws = []") simp_all
qed simp

lemma lower_hex_simps:
  assumes "lower_hex c"
  shows "js_lower_char c = c" and "c \<noteq> CHR ''-''"
proof -
  show "js_lower_char c = c" using assms by (auto simp: lower_hex_def js_lower_char_def is_digit_def)
  have "(of_char (CHR ''-'') :: nat) = 45" by simp
  then show "c \<noteq> CHR ''-''" using assms by (auto simp: lower_hex_def is_digit_def)
qed

lemma lower_hex_word:
  assumes "list_all lower_hex w"
  shows "js_toLowerCase w = w" and "CHR ''-'' \<notin> set w"
  using assms lower_hex_simps by (auto simp: js_toLowerCase_def list_all_iff intro: map_idI)

lemma list_all_slice: "list_all P s \<Longrightarrow> list_all P (js_slice a b s)"
  by (auto simp: js_slice_def list_all_iff dest: in_set_takeD in_set_dropD)

lemma five_slices:
  assumes "length h = 32"
  shows "js_slice 0 8 h @ js_slice 8 12 h @ js_slice 12 16 h @ js_slice 16 20 h @ js_slice 20 32 h = h"
proof -
  have "h = take 8 h @ drop 8 h" "drop 8 h = take 4 (drop 8 h) @ drop 12 h" "drop 12 h = take 4 (drop 12 h) @ drop 16 h"
    "drop 16 h = take 4 (drop 16 h) @ drop 20 h" "drop 20 h = take 12 (drop 20 h)"
    using append_take_drop_id [of 4 "drop 8 h"] append_take_drop_id [of 4 "drop 12 h"] append_take_drop_id [of 4 "drop 16 h"] assms
    by simp_all
  then show ?thesis unfolding js_slice_def by simp
qed

text \<open>
  User ids survive the chain: every canonical id is coded as \<open>0x\<close> and thirty-two hexadecimal
  digits, from which the same id is read back, and every such \<open>bytes16\<close> decodes to a canonical
  id whose coding it is; so no two users share a deposit address topic.
\<close>

theorem uuid_bytes16_roundtrip:
  assumes "canonical_uuid u" and "length h = 32" and "list_all lower_hex h"
  shows "(\<exists>b. uuidToBytes16 u = Inr b \<and> length b = 34 \<and> bytes16ToUuid b = Inr u)
    \<and> (\<exists>v. bytes16ToUuid (''0x'' @ h) = Inr v \<and> canonical_uuid v \<and> uuidToBytes16 v = Inr (''0x'' @ h))"
proof
  obtain a b c d e where s: "js_split (CHR ''-'') u = [a, b, c, d, e]"
    and len: "length a = 8" "length b = 4" "length c = 4" "length d = 4" "length e = 12"
    and hex: "list_all lower_hex a" "list_all lower_hex b" "list_all lower_hex c" "list_all lower_hex d" "list_all lower_hex e"
    using assms(1) by (auto simp: canonical_uuid_def map_eq_Cons_conv)
  have u: "u = js_join (CHR ''-'') [a, b, c, d, e]" using js_join_split [of "CHR ''-''" u] s by simp
  have "filter (\<lambda>x. x \<noteq> CHR ''-'') u = a @ b @ c @ d @ e"
    unfolding u using filter_join [of "[a, b, c, d, e]" "CHR ''-''"] lower_hex_word(2) hex by simp
  moreover have low: "js_toLowerCase (a @ b @ c @ d @ e) = a @ b @ c @ d @ e"
    using lower_hex_word(1) [of "a @ b @ c @ d @ e"] hex by simp
  ultimately have "uuidToBytes16 u = Inr (''0x'' @ a @ b @ c @ d @ e)" using len by (simp add: uuidToBytes16_def)
  moreover have "bytes16ToUuid (''0x'' @ a @ b @ c @ d @ e) = Inr u"
    using len low by (simp add: bytes16ToUuid_def js_slice_def u)
  ultimately show "\<exists>b. uuidToBytes16 u = Inr b \<and> length b = 34 \<and> bytes16ToUuid b = Inr u" using len by simp
next
  let ?ws = "[js_slice 0 8 h, js_slice 8 12 h, js_slice 12 16 h, js_slice 16 20 h, js_slice 20 32 h]"
  let ?v = "js_join (CHR ''-'') ?ws"
  have hex: "list_all (list_all lower_hex) ?ws" using assms(3) by (simp add: list_all_slice)
  have no: "\<forall>w\<in>set ?ws. CHR ''-'' \<notin> set w"
    using lower_hex_word(2) [OF list_all_slice [OF assms(3)]] by simp
  have "js_split (CHR ''-'') ?v = ?ws" using js_split_join no by blast
  then have "canonical_uuid ?v" using hex assms(2) by (simp add: canonical_uuid_def js_slice_def)
  moreover have "bytes16ToUuid (''0x'' @ h) = Inr ?v"
    using assms(2) lower_hex_word(1) [OF assms(3)] by (simp add: bytes16ToUuid_def)
  moreover have "filter (\<lambda>x. x \<noteq> CHR ''-'') ?v = h"
    using filter_join [OF no] five_slices [OF assms(2)] by simp
  then have "uuidToBytes16 ?v = Inr (''0x'' @ h)"
    using assms(2) lower_hex_word(1) [OF assms(3)] by (simp add: uuidToBytes16_def)
  ultimately show "\<exists>v. bytes16ToUuid (''0x'' @ h) = Inr v \<and> canonical_uuid v \<and> uuidToBytes16 v = Inr (''0x'' @ h)" by blast
qed

theorem uuid_bytes16_roundtrip_witness:
  "canonical_uuid ''018f3a2b-4c5d-7e8f-9a0b-1c2d3e4f5a6b''
   \<and> (\<exists>b. uuidToBytes16 ''018f3a2b-4c5d-7e8f-9a0b-1c2d3e4f5a6b'' = Inr b
        \<and> bytes16ToUuid b = Inr ''018f3a2b-4c5d-7e8f-9a0b-1c2d3e4f5a6b'')
   \<and> (\<exists>v. bytes16ToUuid (''0x'' @ ''018f3a2b4c5d7e8f9a0b1c2d3e4f5a6b'') = Inr v \<and> canonical_uuid v)"
proof -
  have "canonical_uuid ''018f3a2b-4c5d-7e8f-9a0b-1c2d3e4f5a6b''" by code_simp
  moreover have "list_all lower_hex ''018f3a2b4c5d7e8f9a0b1c2d3e4f5a6b''" by code_simp
  moreover have "length ''018f3a2b4c5d7e8f9a0b1c2d3e4f5a6b'' = 32" by simp
  ultimately show ?thesis using uuid_bytes16_roundtrip by blast
qed

end
