(* ===== verification/Transfers.thy ===== *)
theory Transfers
  imports TransfersDb Evm Reservations
begin

text \<open>
  The transfers service as its clients call it
  (\<open>apps/transfers/src/transfers/transfers.service.ts\<close>, reached through
  \<open>transfers.controller.ts\<close>): a withdrawal request reserves its amount at the accounts service and
  is stored as \<open>PENDING\<close> for the worker, or the reservation is taken back. The state is the
  database, the state of the remote accounts service and that of the chain, both of an arbitrary type.
\<close>

section \<open>Environment\<close>

text \<open>
  The writes of the service to its database, each of which may fail on its own.
\<close>

datatype db_step =
    InsertRequest
  | PickPending
  | StoreTxHash uuid
  | CompleteRow uuid
  | FailRow uuid
  | InsertDeposit string
  | MarkCredited uuid
  | WriteCursor

text \<open>A log of the vault contract; fields that the decoder could not fill are \<open>None\<close>.\<close>

record deposit_log =
  log_transactionHash :: string
  log_blockNumber :: nat
  log_userId :: "string option"
  log_token :: "string option"
  log_amount :: "nat option"

text \<open>
  The remote calls, the chain (\<open>viem\<close> clients) and what a run draws from outside. \<open>bigNumber\<close> is
  the number that \<open>new BigNumber\<close> reads from a string, \<open>None\<close> when it is not finite; a fresh id is
  given for each row and event by what it is for.
\<close>

record ('a, 'c) transfers_env =
  te_lock :: "account_request \<Rightarrow> 'a \<Rightarrow> balance_response result \<times> 'a"
  te_unlock :: "account_request \<Rightarrow> 'a \<Rightarrow> balance_response result \<times> 'a"
  te_credit :: "account_request \<Rightarrow> 'a \<Rightarrow> balance_response result \<times> 'a"
  te_debit :: "account_request \<Rightarrow> 'a \<Rightarrow> balance_response result \<times> 'a"
  sendTransaction :: "string \<Rightarrow> int \<Rightarrow> 'c \<Rightarrow> string result \<times> 'c"
  writeTransfer :: "string \<Rightarrow> string \<Rightarrow> int \<Rightarrow> 'c \<Rightarrow> string result \<times> 'c"
  waitForReceipt :: "string \<Rightarrow> 'c \<Rightarrow> bool result \<times> 'c"
  getReceipt :: "string \<Rightarrow> 'c \<Rightarrow> bool result \<times> 'c"
  getBlockNumber :: "nat result"
  getNativeLogs :: "string \<Rightarrow> nat \<Rightarrow> nat \<Rightarrow> deposit_log list result"
  getTokenLogs :: "string \<Rightarrow> nat \<Rightarrow> nat \<Rightarrow> deposit_log list result"
  confirmations :: nat
  chainId :: nat
  depositVaultAddress :: string
  usdtTokenAddress :: string
  te_isUuid :: "string \<Rightarrow> bool"
  isAddress :: "string \<Rightarrow> bool"
  bigNumber :: "string \<Rightarrow> rat option"
  withdrawalId :: uuid
  depositIdFor :: "string \<Rightarrow> uuid"
  outboxIdFor :: "string \<Rightarrow> uuid"
  eventIdFor :: "string \<Rightarrow> uuid"
  te_correlationId :: uuid
  te_trace :: "string option \<times> string option"
  te_clock :: time
  commits :: "db_step \<Rightarrow> bool"
  heldRows :: "uuid set"

record ('a, 'c) transfers_world =
  tw_db :: transfers_db
  tw_accounts :: 'a
  tw_chain :: 'c

section \<open>Requests\<close>

record withdrawal_input =
  wi_userId :: uuid
  wi_amount :: string
  wi_currency :: string
  wi_destinationAddress :: string
  wi_idempotencyKey :: string

record withdrawal_item =
  wit_id :: uuid
  wit_userId :: uuid
  wit_destinationAddress :: string
  wit_currency :: string
  wit_amount :: amount
  wit_txHash :: "string option"
  wit_nonce :: "nat option"
  wit_status :: withdrawal_status
  wit_errorMessage :: "string option"
  wit_idempotencyKey :: string
  wit_createdAt :: time
  wit_updatedAt :: time
  wit_processedAt :: "time option"

definition transfers_validateUserId :: "('a, 'c) transfers_env \<Rightarrow> uuid \<Rightarrow> uuid result" where
  "transfers_validateUserId env userId =
     (if userId = [] \<or> \<not> te_isUuid env userId then Inl (BadRequestException ''INVALID_USER_ID'') else Inr userId)"

definition validateCurrency :: "string \<Rightarrow> string result" where
  "validateCurrency currency =
     (let normalized = js_toUpperCase (js_trim currency)
      in if normalized \<noteq> ''ETH'' \<and> normalized \<noteq> ''USDT'' then Inl (BadRequestException ''UNSUPPORTED_CURRENCY'')
         else Inr normalized)"

text \<open>\<open>toFixed (8, ROUND_DOWN)\<close> of a positive number, in units.\<close>

definition transfers_validateAmount :: "('a, 'c) transfers_env \<Rightarrow> string \<Rightarrow> amount result" where
  "transfers_validateAmount env amount =
     (case bigNumber env amount of
        None \<Rightarrow> Inl (BadRequestException ''INVALID_AMOUNT'')
      | Some bn \<Rightarrow> if bn \<le> 0 then Inl (BadRequestException ''INVALID_AMOUNT'') else Inr \<lfloor>bn * 10 ^ 8\<rfloor>)"

definition validateAddress :: "('a, 'c) transfers_env \<Rightarrow> string \<Rightarrow> string result" where
  "validateAddress env addr =
     (if addr = [] \<or> \<not> isAddress env addr then Inl (BadRequestException ''INVALID_DESTINATION_ADDRESS'')
      else Inr (js_toLowerCase addr))"

definition transfers_requireIdempotencyKey :: "string \<Rightarrow> string result" where
  "transfers_requireIdempotencyKey key =
     (let trimmed = js_trim key
      in if trimmed = [] then Inl (BadRequestException ''IDEMPOTENCY_KEY_REQUIRED'') else Inr trimmed)"

definition mapToWithdrawalItem :: "withdrawal \<Rightarrow> withdrawal_item" where
  "mapToWithdrawalItem row =
     \<lparr>wit_id = wr_id row, wit_userId = wr_userId row, wit_destinationAddress = wr_destinationAddress row,
      wit_currency = wr_currency row, wit_amount = wr_amount row, wit_txHash = wr_txHash row,
      wit_nonce = wr_nonce row, wit_status = wr_status row, wit_errorMessage = wr_errorMessage row,
      wit_idempotencyKey = wr_idempotencyKey row, wit_createdAt = wr_createdAt row div 1000,
      wit_updatedAt = (case wr_processedAt row of Some t \<Rightarrow> t div 1000 | None \<Rightarrow> wr_createdAt row div 1000),
      wit_processedAt = map_option (\<lambda>t. t div 1000) (wr_processedAt row)\<rparr>"

section \<open>The service\<close>

record deposit_address =
  da_vaultAddress :: string
  da_userId :: uuid
  da_userIdBytes16 :: string

definition getDepositAddress :: "('a, 'c) transfers_env \<Rightarrow> uuid \<Rightarrow> deposit_address result" where
  "getDepositAddress env u =
     bindR (transfers_validateUserId env u) (\<lambda>userId.
     bindR (uuidToBytes16 userId) (\<lambda>userBytes16.
     Inr \<lparr>da_vaultAddress = depositVaultAddress env, da_userId = userId, da_userIdBytes16 = userBytes16\<rparr>))"

text \<open>The checks of a request in their order; the new row with what they return.\<close>

definition new_withdrawal :: "('a, 'c) transfers_env \<Rightarrow> withdrawal_input \<Rightarrow> withdrawal result" where
  "new_withdrawal env data =
     bindR (transfers_validateUserId env (wi_userId data)) (\<lambda>userId.
     bindR (validateCurrency (wi_currency data)) (\<lambda>currency.
     bindR (transfers_validateAmount env (wi_amount data)) (\<lambda>amount.
     bindR (validateAddress env (wi_destinationAddress data)) (\<lambda>destinationAddress.
     bindR (transfers_requireIdempotencyKey (wi_idempotencyKey data)) (\<lambda>idempotencyKey.
     Inr \<lparr>wr_id = withdrawalId env, wr_userId = userId, wr_idempotencyKey = idempotencyKey,
          wr_destinationAddress = destinationAddress, wr_currency = currency, wr_amount = amount,
          wr_txHash = None, wr_nonce = None, wr_status = PENDING, wr_errorMessage = None,
          wr_createdAt = te_clock env, wr_processedAt = None\<rparr>)))))"

definition withdrawal_call :: "string \<Rightarrow> withdrawal \<Rightarrow> account_request" where
  "withdrawal_call prefix row =
     reserve_request prefix (wr_userId row) (wr_currency row) (wr_amount row) (wr_idempotencyKey row) (wr_idempotencyKey row)"

definition requestWithdrawal ::
  "('a, 'c) transfers_env \<Rightarrow> withdrawal_input \<Rightarrow> ('a, 'c) transfers_world
   \<Rightarrow> withdrawal_item result \<times> ('a, 'c) transfers_world" where
  "requestWithdrawal env data w =
     (case new_withdrawal env data of
        Inl e \<Rightarrow> (Inl e, w)
      | Inr row \<Rightarrow>
          (case findWithdrawalByIdempotency (wr_userId row) (wr_idempotencyKey row) (tw_db w) of
             Some existing \<Rightarrow> (Inr (mapToWithdrawalItem existing), w)
           | None \<Rightarrow>
               (case te_lock env (withdrawal_call ''withdraw-lock:'' row) (tw_accounts w) of
                  (Inl err, a1) \<Rightarrow> (Inl err, w\<lparr>tw_accounts := a1\<rparr>)
                | (Inr _, a1) \<Rightarrow>
                    (case (if commits env InsertRequest then createWithdrawalRequest row (tw_db w)
                           else Inl connection_lost) of
                       Inr (created, d) \<Rightarrow> (Inr (mapToWithdrawalItem created), w\<lparr>tw_db := d, tw_accounts := a1\<rparr>)
                     | Inl err \<Rightarrow>
                         (let (_, a2) = te_unlock env (withdrawal_call ''withdraw-lock-compensate:'' row) a1
                          in (Inl err, w\<lparr>tw_accounts := a2\<rparr>))))))"

definition getWithdrawalById :: "('a, 'c) transfers_env \<Rightarrow> uuid \<Rightarrow> uuid \<Rightarrow> transfers_db \<Rightarrow> withdrawal_item result" where
  "getWithdrawalById env u i db =
     bindR (transfers_validateUserId env u) (\<lambda>userId.
     (case findWithdrawalById i (Some userId) db of
        None \<Rightarrow> Inl (NotFoundException ''WITHDRAWAL_NOT_FOUND'')
      | Some row \<Rightarrow> Inr (mapToWithdrawalItem row)))"

definition getWithdrawalHistory ::
  "('a, 'c) transfers_env \<Rightarrow> uuid \<Rightarrow> withdrawal_status option \<Rightarrow> int option \<Rightarrow> int option \<Rightarrow> transfers_db
   \<Rightarrow> (withdrawal_item list \<times> nat) result" where
  "getWithdrawalHistory env u status limit offset db =
     bindR (transfers_validateUserId env u) (\<lambda>userId.
       let lim = min (max (case limit of None \<Rightarrow> 20 | Some l \<Rightarrow> l) 1) 100;
           off = max (case offset of None \<Rightarrow> 0 | Some off \<Rightarrow> off) 0;
           (items, total) = findUserWithdrawals userId status (nat lim) (nat off) db
       in Inr (map mapToWithdrawalItem items, total))"

text \<open>The events of the service all have this envelope.\<close>

definition transfers_event ::
  "('a, 'c) transfers_env \<Rightarrow> aggregate_type \<Rightarrow> uuid \<Rightarrow> uuid \<Rightarrow> string \<Rightarrow> string \<Rightarrow> string \<Rightarrow> transfers_payload
   \<Rightarrow> transfers_payload domain_event outbox_event" where
  "transfers_event env aggr aggrId key rowType action evType p =
     \<lparr>oe_id = outboxIdFor env aggrId, aggregateType = aggr, aggregateId = aggrId, partitionKey = key,
      oe_eventType = rowType,
      oe_payload = \<lparr>de_eventId = eventIdFor env aggrId, de_action = action, de_eventType = evType,
                    de_aggregateId = aggrId, de_partitionKey = key, de_timestamp = te_clock env,
                    de_correlationId = te_correlationId env, de_payload = p\<rparr>,
      oe_status = outbox_status.PENDING, retryCount = 0, lastError = None, traceparent = None,
      tracestate = None, oe_createdAt = 0, oe_updatedAt = 0\<rparr>"

section \<open>What a request looks like\<close>

lemma new_withdrawal_Inr:
  assumes "new_withdrawal env data = Inr row"
  shows "wr_status row = PENDING" and "wr_txHash row = None" and "wr_id row = withdrawalId env"
    and "wr_userId row = wi_userId data" and "wr_userId row \<noteq> []" and "te_isUuid env (wr_userId row)"
    and "wr_currency row \<in> {''ETH'', ''USDT''}" and "0 \<le> wr_amount row"
    and "wr_idempotencyKey row = js_trim (wi_idempotencyKey data)" and "wr_idempotencyKey row \<noteq> []"
    and "wr_processedAt row = None"
  using assms
  by (auto simp: new_withdrawal_def bind_simps transfers_validateUserId_def validateCurrency_def
      transfers_validateAmount_def transfers_requireIdempotencyKey_def Let_def split: if_splits option.splits)

lemma withdrawal_currency_supported: "c \<in> {''ETH'', ''USDT''} \<Longrightarrow> c \<in> set SUPPORTED_CURRENCIES"
  by (auto simp: SUPPORTED_CURRENCIES_def)

end
