(* ===== verification/Withdrawals.thy ===== *)
theory Withdrawals
  imports Transfers
begin

text \<open>
  The worker that executes withdrawals
  (\<open>apps/transfers/src/transfers/processors/withdrawal-processor.service.ts\<close>): it picks the next
  pending request, sends the transaction, waits for its receipt and settles the reservation: debit
  and \<open>COMPLETED\<close>, or unlock and \<open>FAILED\<close>. On start it recovers the requests it was working on.
  Its timers are not part of the model: a tick is one step.
\<close>

section \<open>Settling the reservation\<close>

definition withdrawal_completed_event ::
  "('a, 'c) transfers_env \<Rightarrow> withdrawal \<Rightarrow> string \<Rightarrow> transfers_payload domain_event outbox_event" where
  "withdrawal_completed_event env r txHash =
     transfers_event env aggregate_type.WITHDRAWAL (wr_id r) (wr_userId r) ''withdrawal_completed''
       ''WITHDRAWAL_COMPLETED'' ''transfers.withdrawal_completed''
       (WithdrawalCompleted \<lparr>wc_withdrawalId = wr_id r, wc_userId = wr_userId r, wc_currency = wr_currency r,
          wc_amount = wr_amount r, wc_txHash = txHash, wc_timestamp = te_clock env\<rparr>)"

definition withdrawal_failed_event ::
  "('a, 'c) transfers_env \<Rightarrow> withdrawal \<Rightarrow> string \<Rightarrow> transfers_payload domain_event outbox_event" where
  "withdrawal_failed_event env r reason =
     transfers_event env aggregate_type.WITHDRAWAL (wr_id r) (wr_userId r) ''withdrawal_failed''
       ''WITHDRAWAL_FAILED'' ''transfers.withdrawal_failed''
       (WithdrawalFailed \<lparr>wf_withdrawalId = wr_id r, wf_userId = wr_userId r, wf_currency = wr_currency r,
          wf_amount = wr_amount r, wf_txHash = [], wf_reason = take 255 reason, wf_timestamp = te_clock env\<rparr>)"

text \<open>A transaction that updates the row and inserts the event.\<close>

definition settle_tx ::
  "('a, 'c) transfers_env \<Rightarrow> db_step \<Rightarrow> (transfers_db \<Rightarrow> transfers_db) \<Rightarrow> transfers_payload domain_event outbox_event
   \<Rightarrow> transfers_db \<Rightarrow> transfers_db" where
  "settle_tx env step row_update event db =
     (let d = row_update db
      in (case insert_event (te_trace env) (te_clock env) event (transfersOutbox d) of
            Inl _ \<Rightarrow> db
          | Inr tbl \<Rightarrow> if commits env step then d\<lparr>transfersOutbox := tbl\<rparr> else db))"

text \<open>
  The row stands for the arguments \<open>id\<close>, \<open>userId\<close>, \<open>amount\<close>, \<open>currency\<close> and
  \<open>idempotencyKey\<close>, which the callers take from it. Neither function raises: their errors
  are logged.
\<close>

definition debit_call :: "withdrawal \<Rightarrow> account_request" where
  "debit_call r = reserve_request ''withdrawal-debit:'' (wr_userId r) (wr_currency r) (wr_amount r) (wr_id r) (wr_id r)"

definition unlock_call :: "withdrawal \<Rightarrow> account_request" where
  "unlock_call r =
     reserve_request ''withdrawal-unlock:'' (wr_userId r) (wr_currency r) (wr_amount r) (wr_idempotencyKey r) (wr_id r)"

definition completeWithdrawal ::
  "('a, 'c) transfers_env \<Rightarrow> withdrawal \<Rightarrow> string \<Rightarrow> ('a, 'c) transfers_world \<Rightarrow> ('a, 'c) transfers_world" where
  "completeWithdrawal env r txHash w =
     (case te_debit env (debit_call r) (tw_accounts w) of
        (Inl _, a) \<Rightarrow> w\<lparr>tw_accounts := a\<rparr>
      | (Inr _, a) \<Rightarrow>
          w\<lparr>tw_accounts := a,
            tw_db := settle_tx env (CompleteRow (wr_id r)) (completeWithdrawal_row (wr_id r) (te_clock env))
                       (withdrawal_completed_event env r txHash) (tw_db w)\<rparr>)"

definition failWithdrawal ::
  "('a, 'c) transfers_env \<Rightarrow> withdrawal \<Rightarrow> string \<Rightarrow> ('a, 'c) transfers_world \<Rightarrow> ('a, 'c) transfers_world" where
  "failWithdrawal env r reason w =
     (let (_, a) = te_unlock env (unlock_call r) (tw_accounts w)
      in w\<lparr>tw_accounts := a,
           tw_db := settle_tx env (FailRow (wr_id r)) (failWithdrawal_row (wr_id r) (take 255 reason) (te_clock env))
                      (withdrawal_failed_event env r reason) (tw_db w)\<rparr>)"

section \<open>Execution on the chain\<close>

definition send_withdrawal ::
  "('a, 'c) transfers_env \<Rightarrow> withdrawal \<Rightarrow> 'c \<Rightarrow> string result \<times> 'c" where
  "send_withdrawal env r c =
     (if wr_currency r = ''ETH''
      then sendTransaction env (wr_destinationAddress r) (scalePlatformAmountToEvm (wr_amount r) 18) c
      else if wr_currency r = ''USDT''
      then writeTransfer env (usdtTokenAddress env) (wr_destinationAddress r) (scalePlatformAmountToEvm (wr_amount r) 6) c
      else (Inl (PlainError ''Unsupported withdrawal currency''), c))"

definition record_tx_hash ::
  "('a, 'c) transfers_env \<Rightarrow> uuid \<Rightarrow> string \<Rightarrow> transfers_db \<Rightarrow> transfers_db result" where
  "record_tx_hash env i txHash db =
     (if commits env (StoreTxHash i) then updateWithdrawalTx i txHash 0 db else Inl connection_lost)"

definition executeOnChainWithdrawal ::
  "('a, 'c) transfers_env \<Rightarrow> withdrawal \<Rightarrow> ('a, 'c) transfers_world \<Rightarrow> ('a, 'c) transfers_world" where
  "executeOnChainWithdrawal env r w =
     (case send_withdrawal env r (tw_chain w) of
        (Inl err, c1) \<Rightarrow> failWithdrawal env r (exc_message err) (w\<lparr>tw_chain := c1\<rparr>)
      | (Inr txHash, c1) \<Rightarrow>
          (case record_tx_hash env (wr_id r) txHash (tw_db w) of
             Inl err \<Rightarrow> failWithdrawal env r (exc_message err) (w\<lparr>tw_chain := c1\<rparr>)
           | Inr d \<Rightarrow>
               (case waitForReceipt env txHash c1 of
                  (Inl err, c2) \<Rightarrow> failWithdrawal env r (exc_message err) (w\<lparr>tw_chain := c2, tw_db := d\<rparr>)
                | (Inr True, c2) \<Rightarrow> completeWithdrawal env r txHash (w\<lparr>tw_chain := c2, tw_db := d\<rparr>)
                | (Inr False, c2) \<Rightarrow> failWithdrawal env r ''Transaction reverted'' (w\<lparr>tw_chain := c2, tw_db := d\<rparr>))))"

definition processNextWithdrawal ::
  "('a, 'c) transfers_env \<Rightarrow> ('a, 'c) transfers_world \<Rightarrow> ('a, 'c) transfers_world" where
  "processNextWithdrawal env w =
     (if \<not> commits env PickPending then w
      else (case lockNextPendingWithdrawal (heldRows env) (tw_db w) of
              (None, _) \<Rightarrow> w
            | (Some r, d) \<Rightarrow> executeOnChainWithdrawal env r (w\<lparr>tw_db := d\<rparr>)))"

section \<open>Recovery\<close>

definition recover_withdrawal ::
  "('a, 'c) transfers_env \<Rightarrow> withdrawal \<Rightarrow> ('a, 'c) transfers_world \<Rightarrow> ('a, 'c) transfers_world" where
  "recover_withdrawal env r w =
     (case wr_txHash r of
        None \<Rightarrow> w
      | Some [] \<Rightarrow> w
      | Some txHash \<Rightarrow>
          (case getReceipt env txHash (tw_chain w) of
             (Inl _, c) \<Rightarrow> w\<lparr>tw_chain := c\<rparr>
           | (Inr True, c) \<Rightarrow> completeWithdrawal env r txHash (w\<lparr>tw_chain := c\<rparr>)
           | (Inr False, c) \<Rightarrow> failWithdrawal env r ''Transaction reverted on-chain'' (w\<lparr>tw_chain := c\<rparr>)))"

definition recoverStuckProcessingWithdrawals ::
  "('a, 'c) transfers_env \<Rightarrow> ('a, 'c) transfers_world \<Rightarrow> ('a, 'c) transfers_world" where
  "recoverStuckProcessingWithdrawals env w =
     fold (recover_withdrawal env) (findProcessingWithdrawalsWithTxHash (tw_db w)) w"

end
