(* ===== verification/Funding.thy ===== *)
theory Funding
  imports Reservations
begin

text \<open>
  What the transfers service relies on of the accounts service beyond reservations: debiting what
  is locked, settling a reservation that is known to be there, and crediting a deposit under a key
  that makes the credit happen at most once. The accounts service is shown to provide both.
\<close>

section \<open>Settling a reservation\<close>

locale withdrawal_service = reservation_service lockf unlockf funds used ok
  for lockf unlockf :: "account_request \<Rightarrow> 'a \<Rightarrow> balance_response result \<times> 'a"
    and funds :: "'a \<Rightarrow> wallet" and used :: "string \<Rightarrow> 'a \<Rightarrow> bool" and ok :: "'a \<Rightarrow> bool" +
  fixes debitf :: "account_request \<Rightarrow> 'a \<Rightarrow> balance_response result \<times> 'a"
    and known :: "uuid \<Rightarrow> bool"
  assumes debit_outcome:
    "ok s \<Longrightarrow> c \<in> set SUPPORTED_CURRENCIES \<Longrightarrow> 0 \<le> x \<Longrightarrow> \<not> used (js_trim (pre @ key)) s
     \<Longrightarrow> debitf (reserve_request pre u c x key ref) s = (r, s')
     \<Longrightarrow> (case r of Inl _ \<Rightarrow> s' = s
         | Inr _ \<Rightarrow> ok s' \<and> 0 < x \<and> moved u c 0 (- x) (funds s) (funds s')
                   \<and> (\<forall>k. used k s' \<longleftrightarrow> used k s \<or> k = js_trim (pre @ key)))"
    and debit_possible:
    "ok s \<Longrightarrow> c \<in> set SUPPORTED_CURRENCIES \<Longrightarrow> 0 < x \<Longrightarrow> \<not> used (js_trim (pre @ key)) s
     \<Longrightarrow> known u \<Longrightarrow> js_trim (pre @ key) \<noteq> [] \<Longrightarrow> length (js_trim (pre @ key)) \<le> 128 \<Longrightarrow> length (js_trim ref) \<le> 128
     \<Longrightarrow> funds s (u, c) = Some (av, lk) \<Longrightarrow> x \<le> lk
     \<Longrightarrow> \<exists>b s'. debitf (reserve_request pre u c x key ref) s = (Inr b, s')"
    and release_possible:
    "ok s \<Longrightarrow> c \<in> set SUPPORTED_CURRENCIES \<Longrightarrow> 0 < x \<Longrightarrow> \<not> used (js_trim (pre @ key)) s
     \<Longrightarrow> known u \<Longrightarrow> js_trim (pre @ key) \<noteq> [] \<Longrightarrow> length (js_trim (pre @ key)) \<le> 128 \<Longrightarrow> length (js_trim ref) \<le> 128
     \<Longrightarrow> funds s (u, c) = Some (av, lk) \<Longrightarrow> x \<le> lk \<Longrightarrow> numeric_28_8 (av + x)
     \<Longrightarrow> \<exists>b s'. unlockf (reserve_request pre u c x key ref) s = (Inr b, s')"

lemma funded_row:
  assumes "accounts_solid db" and "balance_view db (u, c) = Some (av, lk)"
  obtains a where "findByUserAndCurrency u c db = Some a" and "availableBalance a = av" and "lockedBalance a = lk"
    and "0 \<le> av" and "0 \<le> lk" and "numeric_28_8 av" and "numeric_28_8 lk" and "accounts_keyed (accounts db)"
proof -
  from assms(2) obtain a where a: "findByUserAndCurrency u c db = Some a" "availableBalance a = av" "lockedBalance a = lk"
    by (auto simp: balance_view_def)
  then have "a \<in> set (accounts db)" using findByUserAndCurrency_Some by blast
  with assms(1) a that show ?thesis by (auto simp: accounts_solid_def accounts_inv_def no_overdraft_def)
qed

lemma settle_success:
  assumes caller: "caller \<in> set BALANCES_AUTHORIZED_M2M_CALLERS"
    and m: "method_op m i = Some op" and op: "op \<in> {Unlock_op, Debit_op}"
    and ok: "accounts_solid db" and c: "c \<in> set SUPPORTED_CURRENCIES" and x: "0 < x"
    and fresh: "\<not> key_used (js_trim (pre @ key)) db" and u: "u \<noteq> []" "isUuid u"
    and k: "js_trim (pre @ key) \<noteq> []" "length (js_trim (pre @ key)) \<le> 128" "length (js_trim ref) \<le> 128"
    and f: "balance_view db (u, c) = Some (av, lk)" and lk: "x \<le> lk" and av: "numeric_28_8 (av + delta_available op x)"
  shows "\<exists>b db'. accounts_client caller m isUuid i now (reserve_request pre u c x key ref) db = (Inr b, db')"
proof -
  obtain a where a: "findByUserAndCurrency u c db = Some a" "availableBalance a = av" "lockedBalance a = lk"
    and nn: "0 \<le> av" "0 \<le> lk" "numeric_28_8 lk" and keyed: "accounts_keyed (accounts db)"
    using funded_row [OF ok f] by blast
  have "storable_move (reserve_params pre u c x key ref) (delta_available op x) (delta_locked op x) a db"
    using op fresh k a nn x lk av
    by (auto simp: storable_move_def reserve_params_def key_used_def numeric_28_8_def trimmed_reference_def varchar_128_def)
  moreover have "op_guard op x a" and "mover op" using op a lk by auto
  ultimately show ?thesis by (intro client_success [where op = op and a = a]) (use caller m c x u k(1) keyed a(1) in simp_all)
qed

lemma accounts_withdrawals:
  assumes caller: "caller \<in> set BALANCES_AUTHORIZED_M2M_CALLERS"
  shows "withdrawal_service (accounts_client caller LockBalance isUuid i now) (accounts_client caller UnlockBalance isUuid i now)
           balance_view key_used accounts_solid (accounts_client caller DebitWithdrawalFunds isUuid i now) (\<lambda>u. u \<noteq> [] \<and> isUuid u)"
proof (intro withdrawal_service.intro withdrawal_service_axioms.intro accounts_reservation [OF caller])
  fix db db' r c x pre key u ref av lk
  assume ok: "accounts_solid db" "c \<in> set SUPPORTED_CURRENCIES"
  show "case r of Inl _ \<Rightarrow> db' = db
     | Inr _ \<Rightarrow> accounts_solid db' \<and> 0 < x \<and> moved u c 0 (- x) (balance_view db) (balance_view db')
        \<and> (\<forall>k. key_used k db' \<longleftrightarrow> key_used k db \<or> k = js_trim (pre @ key))"
    if "0 \<le> x" "\<not> key_used (js_trim (pre @ key)) db"
      "accounts_client caller DebitWithdrawalFunds isUuid i now (reserve_request pre u c x key ref) db = (r, db')"
    using client_outcome [OF caller _ _ ok(2) that(1) ok(1) that(2,3), of Debit_op] by (simp split: sum.splits)
  assume x: "0 < x" "\<not> key_used (js_trim (pre @ key)) db" "u \<noteq> [] \<and> isUuid u" "js_trim (pre @ key) \<noteq> []"
    "length (js_trim (pre @ key)) \<le> 128" "length (js_trim ref) \<le> 128" "balance_view db (u, c) = Some (av, lk)" "x \<le> lk"
  have av: "numeric_28_8 av" using funded_row [OF ok(1) x(7)] by blast
  have u: "u \<noteq> []" "isUuid u" using x(3) by simp_all
  show "\<exists>b db'. accounts_client caller DebitWithdrawalFunds isUuid i now (reserve_request pre u c x key ref) db = (Inr b, db')"
    by (rule settle_success [where op = Debit_op]) (use caller ok x u av in simp_all)
  assume "numeric_28_8 (av + x)"
  then show "\<exists>b db'. accounts_client caller UnlockBalance isUuid i now (reserve_request pre u c x key ref) db = (Inr b, db')"
    by (intro settle_success [where op = Unlock_op]) (use caller ok x u in simp_all)
qed

interpretation transfers_accounts: withdrawal_service
  "accounts_client ''transfers-service'' LockBalance isUuid i now" "accounts_client ''transfers-service'' UnlockBalance isUuid i now"
  balance_view key_used accounts_solid "accounts_client ''transfers-service'' DebitWithdrawalFunds isUuid i now"
  "\<lambda>u. u \<noteq> [] \<and> isUuid u" for isUuid i now
  by (rule accounts_withdrawals) (rule service_callers)

section \<open>Crediting a deposit\<close>

definition credited :: "uuid \<Rightarrow> string \<Rightarrow> amount \<Rightarrow> wallet \<Rightarrow> wallet \<Rightarrow> bool" where
  "credited u c x f f' \<longleftrightarrow>
     f' = f((u, c) \<mapsto> (case f (u, c) of None \<Rightarrow> (x, 0) | Some (av, lk) \<Rightarrow> (av + x, lk)))"

text \<open>\<open>'t\<close> is what a call draws from outside: a fresh id and the time.\<close>

locale deposit_service =
  fixes creditf :: "'t \<Rightarrow> account_request \<Rightarrow> 'a \<Rightarrow> balance_response result \<times> 'a"
    and funds :: "'a \<Rightarrow> wallet" and used :: "string \<Rightarrow> 'a \<Rightarrow> bool" and ok :: "'a \<Rightarrow> bool"
  assumes credit_outcome:
    "ok s \<Longrightarrow> c \<in> set SUPPORTED_CURRENCIES \<Longrightarrow> 0 < x \<Longrightarrow> \<not> used (js_trim (pre @ key)) s
     \<Longrightarrow> creditf t (reserve_request pre u c x key ref) s = (r, s')
     \<Longrightarrow> (case r of Inl _ \<Rightarrow> s' = s
         | Inr _ \<Rightarrow> ok s' \<and> credited u c x (funds s) (funds s')
                   \<and> (\<forall>k. used k s' \<longleftrightarrow> used k s \<or> k = js_trim (pre @ key)))"
    and credit_replay:
    "ok s \<Longrightarrow> c \<in> set SUPPORTED_CURRENCIES \<Longrightarrow> 0 < x \<Longrightarrow> used (js_trim (pre @ key)) s
     \<Longrightarrow> creditf t (reserve_request pre u c x key ref) s = (r, s') \<Longrightarrow> s' = s"

lemma credit_body_fresh:
  assumes keyed: "accounts_keyed (accounts d)" and acc: "acc \<in> set (accounts d)"
    and fresh: "findLedgerByIdempotencyKey (p_idempotencyKey p) d = None"
    and eq: "(case update_balances (account_id acc) (\<lambda>_. True) x 0 now d of
                  Inl e \<Rightarrow> (Inl e, before)
                | Inr (None, d') \<Rightarrow> (Inl (PlainError ''TypeError''), before)
                | Inr (Some updated, d') \<Rightarrow> record_mutation quiet_pg ty p x 0 updated before d') = (r, db')"
  shows "(db' = before \<and> (\<exists>e. r = Inl e))
    \<or> (\<exists>t. records t acc x 0 \<and> tx_idempotencyKey t = Some (p_idempotencyKey p) \<and> r = Inr (OK (adjusted x 0 now acc))
         \<and> numeric_28_8 (availableBalance acc + x) \<and> numeric_28_8 (lockedBalance acc) \<and> db' = posted acc x 0 now t d)"
proof (cases "numeric_28_8 (availableBalance acc + x) \<and> numeric_28_8 (lockedBalance acc + 0)")
  case True
  then have "record_mutation quiet_pg ty p x 0 (adjusted x 0 now acc) before
             (d\<lparr>accounts := move_account (account_id acc) x 0 now (accounts d)\<rparr>) = (r, db')"
    using eq by (simp add: update_balances_eq [OF keyed acc])
  from record_mutation_Inr [OF fresh this] True show ?thesis by auto
qed (use eq in \<open>auto simp: update_balances_eq [OF keyed acc]\<close>)

lemma insert_account_solid:
  assumes "insert_account i u c now db = Inr (a, d)" and "accounts_solid db"
  shows "accounts_solid d" and "findByUserAndCurrency u c d = Some a" and "\<And>k. key_used k d \<longleftrightarrow> key_used k db"
    and "a \<in> set (accounts d)" and "balance_view d = (balance_view db)((u, c) \<mapsto> (0, 0))" and "balance_view db (u, c) = None"
proof -
  note ins = insert_account_Inr [OF assms(1)]
  have n: "\<forall>x\<in>set (accounts db). \<not> (account_userId x = u \<and> account_currency x = c)"
    using ins(8) by (auto simp: findByUserAndCurrency_def find_None_iff)
  show "accounts_solid d"
    using assms(2) insert_account_inv [OF assms(1)] ins(1,5,6) by (auto simp: accounts_solid_def no_overdraft_def)
  show a: "findByUserAndCurrency u c d = Some a"
    using ins(1-4,8) by (simp add: findByUserAndCurrency_def find_append)
  show "key_used k d \<longleftrightarrow> key_used k db" for k by (simp add: key_used_def findLedgerByIdempotencyKey_def ins(1))
  show "a \<in> set (accounts d)" by (simp add: ins(1))
  show "balance_view db (u, c) = None" using ins(8) by (simp add: balance_view_def)
  have "balance_view d uc = ((balance_view db)((u, c) \<mapsto> (0, 0))) uc" for uc
    using ins(3-6,8) by (cases uc) (auto simp: balance_view_def findByUserAndCurrency_def ins(1) find_append split: option.splits)
  then show "balance_view d = (balance_view db)((u, c) \<mapsto> (0, 0))" by (rule ext)
qed

lemma credited_posted:
  assumes ok: "accounts_solid d" and f: "findByUserAndCurrency u c d = Some a" and t: "records t a x 0" "tx_idempotencyKey t = Some k"
    and k: "\<not> key_used k d" and n: "numeric_28_8 (availableBalance a + x)" and x: "0 \<le> x"
  shows "accounts_solid (posted a x 0 now t d)"
    and "balance_view (posted a x 0 now t d) = (balance_view d)((u, c) \<mapsto> (availableBalance a + x, lockedBalance a))"
    and "key_used k' (posted a x 0 now t d) \<longleftrightarrow> key_used k' d \<or> k' = k"
proof -
  have a: "a \<in> set (accounts d)" "account_userId a = u" "account_currency a = c" using findByUserAndCurrency_Some [OF f] by simp_all
  have keyed: "accounts_keyed (accounts d)" and nn: "0 \<le> availableBalance a" "0 \<le> lockedBalance a" "numeric_28_8 (lockedBalance a)"
    using ok a(1) by (auto simp: accounts_solid_def accounts_inv_def no_overdraft_def)
  show "accounts_solid (posted a x 0 now t d)"
    using posted_solid [OF ok f t] k n nn x by (simp add: key_used_def)
  show "balance_view (posted a x 0 now t d) = (balance_view d)((u, c) \<mapsto> (availableBalance a + x, lockedBalance a))"
    using balance_view_posted [OF keyed a(1)] a(2,3) by simp
  show "key_used k' (posted a x 0 now t d) \<longleftrightarrow> key_used k' d \<or> k' = k"
    using find_ledger_posted [OF t(2)] by (simp add: key_used_def)
qed

lemma credit_account_fresh:
  assumes ok: "accounts_solid db" and k: "\<not> key_used (p_idempotencyKey p) db" and x: "0 \<le> p_amount p"
    and eq: "credit_account ty quiet_pg i now p db = (r, db')"
  shows "case r of Inl _ \<Rightarrow> db' = db
    | Inr m \<Rightarrow> (\<exists>a. m = OK a) \<and> accounts_solid db'
        \<and> credited (p_userId p) (p_currency p) (p_amount p) (balance_view db) (balance_view db')
        \<and> (\<forall>k. key_used k db' \<longleftrightarrow> key_used k db \<or> k = p_idempotencyKey p)"
proof -
  have fresh: "findLedgerByIdempotencyKey (p_idempotencyKey p) d = None" if "\<And>k. key_used k d \<longleftrightarrow> key_used k db" for d
    using that k by (metis key_used_def)
  have keyed: "accounts_solid d \<Longrightarrow> accounts_keyed (accounts d)" for d by (simp add: accounts_solid_def accounts_inv_def)
  note nr = fresh_key_no_replay [OF fresh [of db, simplified]]
  let ?body = "\<lambda>before acc d. case update_balances (account_id acc) (\<lambda>_. True) (p_amount p) 0 now d of
                  Inl e \<Rightarrow> (Inl e, before)
                | Inr (None, d') \<Rightarrow> (Inl (PlainError ''TypeError''), before)
                | Inr (Some updated, d') \<Rightarrow> record_mutation quiet_pg ty p (p_amount p) 0 updated before d'"
  show ?thesis
  proof (cases "findByUserAndCurrency (p_userId p) (p_currency p) db")
    case (Some acc)
    have acc: "acc \<in> set (accounts db)" using findByUserAndCurrency_Some [OF Some] by simp
    have "?body db acc db = (r, db')" using eq nr Some by (simp add: credit_account_def Let_def)
    from credit_body_fresh [OF keyed [OF ok] acc fresh this]
    consider (no) "db' = db" "\<exists>e. r = Inl e"
      | (yes) t where "records t acc (p_amount p) 0" "tx_idempotencyKey t = Some (p_idempotencyKey p)"
          "r = Inr (OK (adjusted (p_amount p) 0 now acc))" "numeric_28_8 (availableBalance acc + p_amount p)"
          "db' = posted acc (p_amount p) 0 now t db"
      by auto
    then show ?thesis
    proof cases
      case yes
      from credited_posted [OF ok Some yes(1,2) k yes(4) x] Some yes(3,5)
      show ?thesis by (simp add: credited_def balance_view_def)
    qed auto
  next
    case None
    show ?thesis
    proof (cases "insert_account i (p_userId p) (p_currency p) now db")
      case (Inl e)
      then show ?thesis using eq None nr by (auto simp: credit_account_def Let_def)
    next
      case (Inr cd)
      obtain a d where cd: "cd = (a, d)" by force
      note new = insert_account_solid [OF Inr [unfolded cd] ok]
      have kd: "\<not> key_used (p_idempotencyKey p) d" using k new(3) by simp
      have z: "availableBalance a = 0" "lockedBalance a = 0" using insert_account_Inr [OF Inr [unfolded cd]] by simp_all
      have "?body db a d = (r, db')" using eq nr None Inr cd by (simp add: credit_account_def Let_def)
      from credit_body_fresh [OF keyed [OF new(1)] new(4) fresh [OF new(3)] this]
      consider (no) "db' = db" "\<exists>e. r = Inl e"
        | (yes) t where "records t a (p_amount p) 0" "tx_idempotencyKey t = Some (p_idempotencyKey p)"
            "r = Inr (OK (adjusted (p_amount p) 0 now a))" "numeric_28_8 (availableBalance a + p_amount p)"
            "db' = posted a (p_amount p) 0 now t d"
        by auto
      then show ?thesis
      proof cases
        case yes
        from credited_posted [OF new(1,2) yes(1,2) kd yes(4) x] new(3,5,6) yes(3,5) z
        show ?thesis by (simp add: credited_def)
      qed auto
    qed
  qed
qed

lemma credit_account_replayed:
  assumes "key_used (p_idempotencyKey p) db" and "credit_account ty quiet_pg i now p db = (r, db')"
  shows "db' = db"
  using assms
  by (auto simp: key_used_def credit_account_def resolveIdempotencyReplay_def Let_def split: option.splits if_splits)

lemma accounts_deposits:
  assumes caller: "caller \<in> set BALANCES_AUTHORIZED_M2M_CALLERS"
  shows "deposit_service (\<lambda>(i, now). accounts_client caller CreditDepositFunds isUuid i now) balance_view key_used accounts_solid"
proof
  fix db db' :: accounts_db and r c x pre key u ref and t :: "uuid \<times> time"
  obtain i now where t: "t = (i, now)" by force
  let ?p = "reserve_params pre u c x key ref"
  have p: "p_userId ?p = u" "p_currency ?p = c" "p_amount ?p = x" "p_idempotencyKey ?p = js_trim (pre @ key)"
    by (simp_all add: reserve_params_def)
  assume ok: "accounts_solid db" "c \<in> set SUPPORTED_CURRENCIES" "(0::int) < x"
    and eq: "(case t of (i, now) \<Rightarrow> accounts_client caller CreditDepositFunds isUuid i now) (reserve_request pre u c x key ref) db = (r, db')"
  obtain q d where run: "credit_account ON_CHAIN_DEPOSIT quiet_pg i now ?p db = (q, d)" by force
  have x0: "0 \<le> x" using ok(3) by simp
  have "accounts_client caller CreditDepositFunds isUuid i now (reserve_request pre u c x key ref) db = (r, db')" using eq t by simp
  then consider "db' = db" "\<exists>e. r = Inl e" | "r = bindR (bindR q mapMutationResult) (\<lambda>a. Inr (mapToBalanceResponse a))" "db' = d"
    unfolding client_mutation [OF caller _ _ ok(2) x0, of CreditDepositFunds i "CreditDeposit_op i", simplified]
    by (auto simp: creditDeposit_def run split: if_splits)
  note cases = this
  show "case r of Inl _ \<Rightarrow> db' = db
     | Inr _ \<Rightarrow> accounts_solid db' \<and> credited u c x (balance_view db) (balance_view db')
        \<and> (\<forall>k. key_used k db' \<longleftrightarrow> key_used k db \<or> k = js_trim (pre @ key))"
    if "\<not> key_used (js_trim (pre @ key)) db"
    using cases
  proof cases
    case 2
    from credit_account_fresh [OF ok(1) _ _ run] that x0 2 show ?thesis by (cases q) (auto simp: p)
  qed auto
  show "db' = db" if "key_used (js_trim (pre @ key)) db"
    using cases credit_account_replayed [OF _ run] that by (cases) (simp_all add: p)
qed

interpretation transfers_deposits: deposit_service
  "\<lambda>(i, now). accounts_client ''transfers-service'' CreditDepositFunds isUuid i now" balance_view key_used accounts_solid
  for isUuid
  by (rule accounts_deposits) (rule service_callers)

end
