(* ===== verification/Withdrawal_Request.thy ===== *)
theory Withdrawal_Request
  imports Transfers Funding
begin

text \<open>
  Requesting a withdrawal, across the transfers and the accounts service: the saga of lock, insert
  and compensating unlock, and what a reused idempotency key does to it.
\<close>

section \<open>Keys\<close>

lemma withdraw_keys:
  "js_trim (''withdraw-lock:'' @ k) \<noteq> js_trim (''withdraw-lock-compensate:'' @ k)"
  "js_trim (''withdraw-lock-compensate:'' @ k) \<noteq> []"
  "length (js_trim (''withdraw-lock-compensate:'' @ k)) \<le> 25 + length k"
  "js_trim (''withdraw-lock:'' @ k) \<noteq> []"
proof -
  obtain r where r: "js_trim (''withdraw-lock:'' @ k) = ''withdraw-lock:'' @ r"
    using js_trim_prefix [of "''withdraw-lock:''" k] by (auto simp: js_space_def)
  obtain q where q: "js_trim (''withdraw-lock-compensate:'' @ k) = ''withdraw-lock-compensate:'' @ q" "length q \<le> length k"
    using js_trim_prefix [of "''withdraw-lock-compensate:''" k] by (auto simp: js_space_def)
  from r q show "js_trim (''withdraw-lock:'' @ k) \<noteq> js_trim (''withdraw-lock-compensate:'' @ k)"
    "js_trim (''withdraw-lock-compensate:'' @ k) \<noteq> []"
    "length (js_trim (''withdraw-lock-compensate:'' @ k)) \<le> 25 + length k"
    "js_trim (''withdraw-lock:'' @ k) \<noteq> []" by simp_all
qed

definition withdraw_keys_fresh :: "(string \<Rightarrow> 'a \<Rightarrow> bool) \<Rightarrow> string \<Rightarrow> 'a \<Rightarrow> bool" where
  "withdraw_keys_fresh used k s \<longleftrightarrow>
     \<not> used (js_trim (''withdraw-lock:'' @ k)) s \<and> \<not> used (js_trim (''withdraw-lock-compensate:'' @ k)) s"

section \<open>The saga\<close>

text \<open>What a finished request has done, given that its keys were new.\<close>

definition request_effect ::
  "('a \<Rightarrow> wallet) \<Rightarrow> ('a \<Rightarrow> bool) \<Rightarrow> ('a, 'c) transfers_env \<Rightarrow> withdrawal_input \<Rightarrow> ('a, 'c) transfers_world
   \<Rightarrow> withdrawal_item result \<Rightarrow> ('a, 'c) transfers_world \<Rightarrow> bool" where
  "request_effect funds ok env data w r w' \<longleftrightarrow>
     ok (tw_accounts w') \<and> tw_chain w' = tw_chain w
     \<and> (case r of
          Inl e \<Rightarrow> tw_db w' = tw_db w \<and> funds (tw_accounts w') = funds (tw_accounts w)
        | Inr item \<Rightarrow>
            (\<exists>row. new_withdrawal env data = Inr row
               \<and> (case findWithdrawalByIdempotency (wr_userId row) (wr_idempotencyKey row) (tw_db w) of
                    Some existing \<Rightarrow> item = mapToWithdrawalItem existing \<and> w' = w
                  | None \<Rightarrow> item = mapToWithdrawalItem row \<and> wr_status row = PENDING
                      \<and> tw_db w' = (tw_db w)\<lparr>withdrawalRequests := withdrawalRequests (tw_db w) @ [row]\<rparr>
                      \<and> 0 < wr_amount row
                      \<and> moved (wr_userId row) (wr_currency row) (- wr_amount row) (wr_amount row)
                          (funds (tw_accounts w)) (funds (tw_accounts w')))))"

context reservation_service
begin

lemma request_withdrawal_effect:
  assumes rpc: "te_lock env = lockf" "te_unlock env = unlockf" and ok: "ok (tw_accounts w)"
    and fresh: "withdraw_keys_fresh used (js_trim (wi_idempotencyKey data)) (tw_accounts w)"
    and len: "length (wi_idempotencyKey data) \<le> 103"
    and run: "requestWithdrawal env data w = (r, w')"
  shows "request_effect funds ok env data w r w'"
proof (cases "new_withdrawal env data")
  case (Inl e)
  then show ?thesis using run ok by (auto simp: requestWithdrawal_def request_effect_def)
next
  case (Inr row)
  note row = new_withdrawal_Inr [OF Inr]
  show ?thesis
  proof (cases "findWithdrawalByIdempotency (wr_userId row) (wr_idempotencyKey row) (tw_db w)")
    case (Some existing)
    then show ?thesis using run Inr ok by (auto simp: requestWithdrawal_def request_effect_def)
  next
    case None
    let ?k = "wr_idempotencyKey row" and ?c = "wr_currency row" and ?x = "wr_amount row" and ?u = "wr_userId row"
    have c: "?c \<in> set SUPPORTED_CURRENCIES" using row(7) withdrawal_currency_supported by blast
    have fr: "\<not> used (js_trim (''withdraw-lock:'' @ ?k)) (tw_accounts w)"
      "\<not> used (js_trim (''withdraw-lock-compensate:'' @ ?k)) (tw_accounts w)"
      using fresh by (simp_all add: withdraw_keys_fresh_def row(9))
    have l: "length (js_trim (''withdraw-lock-compensate:'' @ ?k)) \<le> 128"
      using withdraw_keys(3) [of ?k] length_js_trim [of "wi_idempotencyKey data"] len row(9) by simp
    obtain rl a1 where lk: "lockf (reserve_request ''withdraw-lock:'' ?u ?c ?x ?k ?k) (tw_accounts w) = (rl, a1)" by force
    note lo = lock_outcome [OF ok c row(8) fr(1) lk]
    show ?thesis
    proof (cases rl)
      case (Inl err)
      then show ?thesis
        using run Inr \<open>new_withdrawal env data = Inr row\<close> None lk lo rpc ok
        by (auto simp: requestWithdrawal_def request_effect_def withdrawal_call_def)
    next
      case (Inr b)
      obtain ru a2 where un: "unlockf (reserve_request ''withdraw-lock-compensate:'' ?u ?c ?x ?k ?k) a1 = (ru, a2)" by force
      let ?ins = "if commits env InsertRequest then createWithdrawalRequest row (tw_db w) else Inl connection_lost"
      show ?thesis
      proof (cases ?ins)
        case (Inl err)
        have undone: "funds a2 = funds (tw_accounts w)" "ok a2"
          using lock_unlock_restores [OF ok c row(8) fr withdraw_keys(1) [symmetric] withdraw_keys(2) l lk [unfolded Inr] un] by simp_all
        have "r = Inl err" "w' = w\<lparr>tw_accounts := a2\<rparr>"
          using run \<open>new_withdrawal env data = Inr row\<close> None lk \<open>rl = Inr b\<close> Inl un rpc
          by (simp_all add: requestWithdrawal_def withdrawal_call_def)
        with undone show ?thesis by (simp add: request_effect_def)
      next
        case (Inr cd)
        obtain x d where cd: "cd = (x, d)" by force
        have ins: "createWithdrawalRequest row (tw_db w) = Inr (x, d)" using Inr cd by (simp split: if_splits)
        note new = createWithdrawalRequest_Inr [OF ins]
        have "r = Inr (mapToWithdrawalItem row)" "w' = w\<lparr>tw_db := d, tw_accounts := a1\<rparr>"
          using run \<open>new_withdrawal env data = Inr row\<close> None lk \<open>rl = Inr b\<close> Inr cd new(1) rpc
          by (simp_all add: requestWithdrawal_def withdrawal_call_def)
        with lo \<open>rl = Inr b\<close> new(2) row(1) None \<open>new_withdrawal env data = Inr row\<close> show ?thesis
          by (simp add: request_effect_def)
      qed
    qed
  qed
qed

end

text \<open>The service wired to the accounts service, which knows it by its id.\<close>

definition transfers_wired :: "(accounts_db, 'c) transfers_env \<Rightarrow> (string \<Rightarrow> bool) \<Rightarrow> uuid \<Rightarrow> time \<Rightarrow> bool" where
  "transfers_wired env isUuid i now \<longleftrightarrow>
     te_lock env = accounts_client ''transfers-service'' LockBalance isUuid i now
     \<and> te_unlock env = accounts_client ''transfers-service'' UnlockBalance isUuid i now
     \<and> te_debit env = accounts_client ''transfers-service'' DebitWithdrawalFunds isUuid i now
     \<and> te_isUuid env = isUuid"


section \<open>A lock that is only replayed\<close>

text \<open>
  The key of the lock is the client's key, and the ledger looks keys up without their user:
  when \<open>withdraw-lock:\<close> and the key is already in the ledger with the same amount and currency,
  because another user has used the key or because the user's first attempt was compensated, a new
  request is stored as \<open>PENDING\<close>, ready to be paid out, although nothing has been reserved for it,
  whatever funds the user has.
\<close>

theorem replayed_lock_withdraws_unfunded:
  assumes "transfers_wired env isUuid i now" and "accounts_inv (tw_accounts w)"
    and "new_withdrawal env data = Inr row" and "0 < wr_amount row"
    and "findWithdrawalByIdempotency (wr_userId row) (wr_idempotencyKey row) (tw_db w) = None"
    and "commits env InsertRequest" and "createWithdrawalRequest row (tw_db w) = Inr (row, d)"
    and "t \<in> set (ledgerTransactions (tw_accounts w))"
    and "tx_idempotencyKey t = Some (js_trim (''withdraw-lock:'' @ wr_idempotencyKey row))"
    and "tx_amount t = wr_amount row" and "tx_currency t = wr_currency row" and "tx_type t = LOCK"
  shows "requestWithdrawal env data w = (Inr (mapToWithdrawalItem row), w\<lparr>tw_db := d\<rparr>) \<and> wr_status row = PENDING"
proof -
  note row = new_withdrawal_Inr [OF assms(3)]
  let ?p = "reserve_params ''withdraw-lock:'' (wr_userId row) (wr_currency row) (wr_amount row) (wr_idempotencyKey row) (wr_idempotencyKey row)"
  have lock: "te_lock env = accounts_client ''transfers-service'' LockBalance isUuid i now" and v: "isUuid (wr_userId row)"
    using assms(1) row(6) by (simp_all add: transfers_wired_def)
  have c: "wr_currency row \<in> set SUPPORTED_CURRENCIES" using row(7) withdrawal_currency_supported by blast
  have "tx_idempotencyKey t = Some (p_idempotencyKey ?p)" using assms(9) by (simp add: reserve_params_def)
  from replay_by_row [OF assms(2,8) this, of Lock_op quiet_pg now] assms(10-12) obtain a where
    "run_ledger_op Lock_op quiet_pg now ?p (tw_accounts w) = (Inr (IDEMPOTENT_REPLAY a), tw_accounts w)"
    by (auto simp: reserve_params_def)
  moreover note withdraw_keys(4) [of "wr_idempotencyKey row"]
  ultimately have "te_lock env (withdrawal_call ''withdraw-lock:'' row) (tw_accounts w)
      = (Inr (mapToBalanceResponse a), tw_accounts w)"
    using client_mutation [OF service_callers(2) _ _ c row(8), of LockBalance i Lock_op] row(5) v assms(4)
    by (simp add: lock withdrawal_call_def)
  then show ?thesis using assms(3,5,6,7) row(1) by (simp add: requestWithdrawal_def)
qed

end
