(* ===== verification/Withdrawal_Props.thy ===== *)
theory Withdrawal_Props
  imports Withdrawals Withdrawal_Request
begin

text \<open>
  What the worker does to a withdrawal: the reservation is settled exactly once, by a debit when
  the chain has confirmed the payment and by an unlock otherwise; and the life cycle of a request over
  every sequence of requests, ticks and recoveries.
\<close>

section \<open>Rows and events of a settlement\<close>

lemma settle_tx_cases:
  "settle_tx env step f e db = db
   \<or> (commits env step \<and> settle_tx env step f e db = (f db)\<lparr>transfersOutbox := transfersOutbox (f db) @ [with_trace (te_trace env) (te_clock env) e]\<rparr>)"
  by (auto simp: settle_tx_def Let_def dest: insert_event_Inr split: sum.splits)

lemma settle_tx_commits:
  assumes "commits env step" and "oe_id e \<notin> oe_id ` set (transfersOutbox (f db))" and "distinct (map oe_id (transfersOutbox (f db)))"
  shows "settle_tx env step f e db = (f db)\<lparr>transfersOutbox := transfersOutbox (f db) @ [with_trace (te_trace env) (te_clock env) e]\<rparr>"
  using assms by (simp add: settle_tx_def insert_event_def insertMany_def Let_def)

lemma settlement_keys:
  "js_trim (''withdrawal-debit:'' @ k) \<noteq> []" "js_trim (''withdrawal-unlock:'' @ k) \<noteq> []"
  "length (js_trim (''withdrawal-debit:'' @ k)) \<le> 17 + length k" "length (js_trim (''withdrawal-unlock:'' @ k)) \<le> 18 + length k"
proof -
  obtain r where "js_trim (''withdrawal-debit:'' @ k) = ''withdrawal-debit:'' @ r" "length r \<le> length k"
    using js_trim_prefix [of "''withdrawal-debit:''" k] by (auto simp: js_space_def)
  moreover obtain q where "js_trim (''withdrawal-unlock:'' @ k) = ''withdrawal-unlock:'' @ q" "length q \<le> length k"
    using js_trim_prefix [of "''withdrawal-unlock:''" k] by (auto simp: js_space_def)
  ultimately show "js_trim (''withdrawal-debit:'' @ k) \<noteq> []" "js_trim (''withdrawal-unlock:'' @ k) \<noteq> []"
    "length (js_trim (''withdrawal-debit:'' @ k)) \<le> 17 + length k" "length (js_trim (''withdrawal-unlock:'' @ k)) \<le> 18 + length k"
    by simp_all
qed

section \<open>Settling exactly once\<close>

text \<open>
  A request that is being executed: its row is stored, its amount is locked, its keys are new and
  short, and the event the worker will write has a new id.
\<close>

definition settleable ::
  "('a \<Rightarrow> wallet) \<Rightarrow> (string \<Rightarrow> 'a \<Rightarrow> bool) \<Rightarrow> (uuid \<Rightarrow> bool) \<Rightarrow> ('a, 'c) transfers_env \<Rightarrow> withdrawal
   \<Rightarrow> ('a, 'c) transfers_world \<Rightarrow> bool" where
  "settleable funds used known env r w \<longleftrightarrow>
     wr_currency r \<in> {''ETH'', ''USDT''} \<and> 0 < wr_amount r \<and> known (wr_userId r)
     \<and> (\<exists>av lk. funds (tw_accounts w) (wr_userId r, wr_currency r) = Some (av, lk)
          \<and> wr_amount r \<le> lk \<and> numeric_28_8 (av + wr_amount r))
     \<and> \<not> used (js_trim (''withdrawal-debit:'' @ wr_id r)) (tw_accounts w)
     \<and> \<not> used (js_trim (''withdrawal-unlock:'' @ wr_idempotencyKey r)) (tw_accounts w)
     \<and> length (wr_id r) \<le> 100 \<and> length (wr_idempotencyKey r) \<le> 110
     \<and> distinct (map oe_id (transfersOutbox (tw_db w)))
     \<and> outboxIdFor env (wr_id r) \<notin> oe_id ` set (transfersOutbox (tw_db w))"

text \<open>The chain has confirmed the payment: it was sent, its hash stored, and its receipt is a success.\<close>

definition paid_out :: "('a, 'c) transfers_env \<Rightarrow> withdrawal \<Rightarrow> ('a, 'c) transfers_world \<Rightarrow> string \<Rightarrow> bool" where
  "paid_out env r w txHash \<longleftrightarrow>
     (\<exists>c1 c2. send_withdrawal env r (tw_chain w) = (Inr txHash, c1)
        \<and> (\<exists>d. record_tx_hash env (wr_id r) txHash (tw_db w) = Inr d)
        \<and> waitForReceipt env txHash c1 = (Inr True, c2))"

definition row_becomes :: "uuid \<Rightarrow> (withdrawal \<Rightarrow> withdrawal) \<Rightarrow> transfers_db \<Rightarrow> transfers_db \<Rightarrow> bool" where
  "row_becomes i f db db' \<longleftrightarrow>
     withdrawalRequests db' = update_rows (\<lambda>r. wr_id r = i) f (withdrawalRequests db)
     \<and> walletDeposits db' = walletDeposits db \<and> scannerState db' = scannerState db"

lemma update_rows_twice:
  assumes "\<And>r. wr_id (f r) = wr_id r"
  shows "update_rows (\<lambda>r. wr_id r = i) g (update_rows (\<lambda>r. wr_id r = i) f rows) = update_rows (\<lambda>r. wr_id r = i) (\<lambda>r. g (f r)) rows"
  by (induction rows) (auto simp: assms)

lemma record_tx_hash_Inr:
  assumes "record_tx_hash env i h db = Inr d"
  shows "d = update_withdrawal i (\<lambda>r. r\<lparr>wr_txHash := Some h, wr_nonce := Some 0\<rparr>) db"
  using assms by (auto simp: record_tx_hash_def updateWithdrawalTx_def split: if_splits)

lemma executeOnChain_cases:
  obtains (paid) h c1 c2 d where "paid_out env r w h" "d = update_withdrawal (wr_id r) (\<lambda>r. r\<lparr>wr_txHash := Some h, wr_nonce := Some 0\<rparr>) (tw_db w)"
      "executeOnChainWithdrawal env r w = completeWithdrawal env r h (w\<lparr>tw_chain := c2, tw_db := d\<rparr>)"
  | (unpaid) reason c h f where "\<forall>h. \<not> paid_out env r w h" "f = (\<lambda>r. r) \<or> f = (\<lambda>r. r\<lparr>wr_txHash := Some h, wr_nonce := Some 0\<rparr>)"
      "executeOnChainWithdrawal env r w = failWithdrawal env r reason (w\<lparr>tw_chain := c, tw_db := update_withdrawal (wr_id r) f (tw_db w)\<rparr>)"
proof -
  have idu: "update_withdrawal i (\<lambda>r. r) db = db" for i db by (simp add: update_withdrawal_def update_rows_def)
  obtain s c1 where s: "send_withdrawal env r (tw_chain w) = (s, c1)" by force
  show thesis
  proof (cases s)
    case (Inl e)
    with s show thesis using unpaid [of "\<lambda>r. r" _ "exc_message e" c1] by (simp add: executeOnChainWithdrawal_def paid_out_def idu)
  next
    case (Inr h)
    note sent = s [unfolded Inr]
    show thesis
    proof (cases "record_tx_hash env (wr_id r) h (tw_db w)")
      case (Inl e)
      with sent show thesis using unpaid [of "\<lambda>r. r" _ "exc_message e" c1] by (simp add: executeOnChainWithdrawal_def paid_out_def idu)
    next
      case (Inr d)
      note d = record_tx_hash_Inr [OF Inr]
      obtain rc c2 where rc: "waitForReceipt env h c1 = (rc, c2)" by force
      consider e where "rc = Inl e" | "rc = Inr True" | "rc = Inr False" by (cases rc) auto
      then show thesis
      proof cases
        case 2
        with sent Inr rc d show thesis using paid [of h d c2] by (simp add: executeOnChainWithdrawal_def paid_out_def)
      next
        case (1 e)
        with sent Inr rc d show thesis
          using unpaid [of "\<lambda>r. r\<lparr>wr_txHash := Some h, wr_nonce := Some 0\<rparr>" h "exc_message e" c2]
          by (simp add: executeOnChainWithdrawal_def paid_out_def)
      next
        case 3
        with sent Inr rc d show thesis
          using unpaid [of "\<lambda>r. r\<lparr>wr_txHash := Some h, wr_nonce := Some 0\<rparr>" h "''Transaction reverted''" c2]
          by (simp add: executeOnChainWithdrawal_def paid_out_def)
      qed
    qed
  qed
qed

definition settled_as :: "uuid \<Rightarrow> withdrawal_status \<Rightarrow> string \<Rightarrow> transfers_db \<Rightarrow> transfers_db \<Rightarrow> bool" where
  "settled_as i st action db db' \<longleftrightarrow>
     (\<exists>g. (\<forall>x. wr_status (g x) = st \<and> wr_id (g x) = wr_id x \<and> wr_amount (g x) = wr_amount x) \<and> row_becomes i g db db')
     \<and> (\<exists>e. transfersOutbox db' = transfersOutbox db @ [e] \<and> de_action (oe_payload e) = action
            \<and> de_aggregateId (oe_payload e) = i \<and> oe_status e = outbox_status.PENDING)"

lemma settled_by_settlement:
  assumes "commits env step" and "oe_id e \<notin> oe_id ` set (transfersOutbox db)" and "distinct (map oe_id (transfersOutbox db))"
    and "de_action (oe_payload e) = action" and "de_aggregateId (oe_payload e) = i" and "oe_status e = outbox_status.PENDING"
    and f: "\<And>x. wr_id (f x) = wr_id x \<and> wr_amount (f x) = wr_amount x"
    and g: "\<And>x. wr_status (g x) = st \<and> wr_id (g x) = wr_id x \<and> wr_amount (g x) = wr_amount x"
  shows "settled_as i st action db (settle_tx env step (update_withdrawal i g) e (update_withdrawal i f db))"
proof -
  have "settle_tx env step (update_withdrawal i g) e (update_withdrawal i f db)
    = (update_withdrawal i g (update_withdrawal i f db))\<lparr>transfersOutbox := transfersOutbox db @ [with_trace (te_trace env) (te_clock env) e]\<rparr>"
    using settle_tx_commits [OF assms(1), of e "update_withdrawal i g" "update_withdrawal i f db"] assms(2,3) by simp
  moreover have "row_becomes i (\<lambda>x. g (f x)) db
      ((update_withdrawal i g (update_withdrawal i f db))\<lparr>transfersOutbox := transfersOutbox db @ [with_trace (te_trace env) (te_clock env) e]\<rparr>)"
    by (simp add: row_becomes_def update_rows_twice f)
  moreover have "\<forall>x. wr_status (g (f x)) = st \<and> wr_id (g (f x)) = wr_id x \<and> wr_amount (g (f x)) = wr_amount x"
    by (simp add: f g)
  ultimately show ?thesis
    unfolding settled_as_def using assms(4-6)
    by (intro conjI exI [of _ "\<lambda>x. g (f x)"] exI [of _ "with_trace (te_trace env) (te_clock env) e"]) (simp_all add: with_trace_def)
qed

lemma record_tx_fun_laws:
  "f = (\<lambda>r. r) \<or> f = (\<lambda>r. r\<lparr>wr_txHash := Some h, wr_nonce := Some 0\<rparr>) \<Longrightarrow> wr_id (f x) = wr_id x \<and> wr_amount (f x) = wr_amount x"
  by auto

text \<open>What the accounts service and the database hold after the worker has executed a request.\<close>

definition execution_effect ::
  "('a \<Rightarrow> wallet) \<Rightarrow> ('a, 'c) transfers_env \<Rightarrow> withdrawal \<Rightarrow> ('a, 'c) transfers_world \<Rightarrow> ('a, 'c) transfers_world \<Rightarrow> bool" where
  "execution_effect funds env r w w' \<longleftrightarrow>
     (if \<exists>h. paid_out env r w h
      then moved (wr_userId r) (wr_currency r) 0 (- wr_amount r) (funds (tw_accounts w)) (funds (tw_accounts w'))
           \<and> settled_as (wr_id r) withdrawal_status.COMPLETED ''WITHDRAWAL_COMPLETED'' (tw_db w) (tw_db w')
      else moved (wr_userId r) (wr_currency r) (wr_amount r) (- wr_amount r) (funds (tw_accounts w)) (funds (tw_accounts w'))
           \<and> settled_as (wr_id r) withdrawal_status.FAILED ''WITHDRAWAL_FAILED'' (tw_db w) (tw_db w'))"

context withdrawal_service
begin

lemma execution_settles:
  assumes rpc: "te_unlock env = unlockf" "te_debit env = debitf" and ok: "ok (tw_accounts w)"
    and st: "settleable funds used known env r w" and up: "\<forall>s. commits env s"
  shows "ok (tw_accounts (executeOnChainWithdrawal env r w))"
    and "execution_effect funds env r w (executeOnChainWithdrawal env r w)"
proof -
  let ?w = "executeOnChainWithdrawal env r w"
  let ?u = "wr_userId r" and ?c = "wr_currency r" and ?x = "wr_amount r"
  from st obtain av lk where f: "funds (tw_accounts w) (?u, ?c) = Some (av, lk)" "?x \<le> lk" "numeric_28_8 (av + ?x)"
    and x: "0 < ?x" "0 \<le> ?x" and u: "known ?u" and c: "?c \<in> set SUPPORTED_CURRENCIES"
    and fd: "\<not> used (js_trim (''withdrawal-debit:'' @ wr_id r)) (tw_accounts w)"
    and fu: "\<not> used (js_trim (''withdrawal-unlock:'' @ wr_idempotencyKey r)) (tw_accounts w)"
    and len: "length (wr_id r) \<le> 100" "length (wr_idempotencyKey r) \<le> 110"
    and ob: "distinct (map oe_id (transfersOutbox (tw_db w)))" "outboxIdFor env (wr_id r) \<notin> oe_id ` set (transfersOutbox (tw_db w))"
    unfolding settleable_def using withdrawal_currency_supported by fastforce
  have ld: "length (js_trim (''withdrawal-debit:'' @ wr_id r)) \<le> 128" "length (js_trim (wr_id r)) \<le> 128"
    and lu: "length (js_trim (''withdrawal-unlock:'' @ wr_idempotencyKey r)) \<le> 128"
    using settlement_keys(3) [of "wr_id r"] settlement_keys(4) [of "wr_idempotencyKey r"] length_js_trim [of "wr_id r"] len by simp_all
  have "ok (tw_accounts ?w) \<and> execution_effect funds env r w ?w"
  proof (rule executeOnChain_cases [of env r w])
    fix h c1 c2 d
    assume paid: "paid_out env r w h" and d: "d = update_withdrawal (wr_id r) (\<lambda>r. r\<lparr>wr_txHash := Some h, wr_nonce := Some 0\<rparr>) (tw_db w)"
      and w': "?w = completeWithdrawal env r h (w\<lparr>tw_chain := c2, tw_db := d\<rparr>)"
    obtain b a where call: "debitf (debit_call r) (tw_accounts w) = (Inr b, a)"
      using debit_possible [OF ok c x(1) fd u settlement_keys(1) ld f(1,2)] by (auto simp: debit_call_def)
    from debit_outcome [OF ok c x(2) fd call [unfolded debit_call_def]]
    have m: "ok a" "moved ?u ?c 0 (- ?x) (funds (tw_accounts w)) (funds a)" by simp_all
    have "settled_as (wr_id r) withdrawal_status.COMPLETED ''WITHDRAWAL_COMPLETED'' (tw_db w) (tw_db ?w)"
      using settled_by_settlement [of env "CompleteRow (wr_id r)" "withdrawal_completed_event env r h" "tw_db w"
          "''WITHDRAWAL_COMPLETED''" "wr_id r" "\<lambda>r. r\<lparr>wr_txHash := Some h, wr_nonce := Some 0\<rparr>"
          "\<lambda>r. r\<lparr>wr_status := withdrawal_status.COMPLETED, wr_processedAt := Some (te_clock env)\<rparr>" withdrawal_status.COMPLETED] up ob call rpc
      by (simp add: w' completeWithdrawal_def d completeWithdrawal_row_def [abs_def] withdrawal_completed_event_def transfers_event_def)
    then show ?thesis using paid m call rpc by (auto simp: execution_effect_def w' completeWithdrawal_def)
  next
    fix reason ch h g
    assume unpaid: "\<forall>h. \<not> paid_out env r w h" and g: "g = (\<lambda>r. r) \<or> g = (\<lambda>r. r\<lparr>wr_txHash := Some h, wr_nonce := Some 0\<rparr>)"
      and w': "?w = failWithdrawal env r reason (w\<lparr>tw_chain := ch, tw_db := update_withdrawal (wr_id r) g (tw_db w)\<rparr>)"
    obtain b a where call: "unlockf (unlock_call r) (tw_accounts w) = (Inr b, a)"
      using release_possible [OF ok c x(1) fu u settlement_keys(2) lu ld(2) f] by (auto simp: unlock_call_def)
    from unlock_outcome [OF ok c x(2) fu call [unfolded unlock_call_def]]
    have m: "ok a" "moved ?u ?c ?x (- ?x) (funds (tw_accounts w)) (funds a)" by simp_all
    have "settled_as (wr_id r) withdrawal_status.FAILED ''WITHDRAWAL_FAILED'' (tw_db w) (tw_db ?w)"
      using settled_by_settlement [of env "FailRow (wr_id r)" "withdrawal_failed_event env r reason" "tw_db w"
          "''WITHDRAWAL_FAILED''" "wr_id r" g
          "\<lambda>x. x\<lparr>wr_status := withdrawal_status.FAILED, wr_errorMessage := Some (take 255 reason), wr_processedAt := Some (te_clock env)\<rparr>" withdrawal_status.FAILED]
        up ob call rpc record_tx_fun_laws [OF g]
      by (simp add: w' failWithdrawal_def failWithdrawal_row_def [abs_def] withdrawal_failed_event_def transfers_event_def)
    then show ?thesis using unpaid m call rpc by (auto simp: execution_effect_def w' failWithdrawal_def)
  qed
  then show "ok (tw_accounts ?w)" and "execution_effect funds env r w ?w" by simp_all
qed

end


end
