(* ===== verification/Deposits.thy ===== *)
theory Deposits
  imports Transfers
begin

text \<open>
  Deposits on the chain: the processor that records a deposit and credits it at the accounts
  service (\<open>apps/transfers/src/transfers/processors/deposit-processor.service.ts\<close>), and the scanner
  that feeds it with the logs of the vault, block range by block range
  (\<open>apps/transfers/src/transfers/blockchain/deposit-scanner.service.ts\<close>). The timers of the
  scanner are not part of the model: a poll is one step.
\<close>

section \<open>The processor\<close>

definition NATIVE_ETH_ADDRESS :: string where
  "NATIVE_ETH_ADDRESS = ''0x0000000000000000000000000000000000000000''"

definition NATIVE_ETH_DECIMALS :: nat where
  "NATIVE_ETH_DECIMALS = 18"

definition USDT_DECIMALS :: nat where
  "USDT_DECIMALS = 6"

record deposit_params =
  dp_txHash :: string
  dp_blockNumber :: nat
  dp_userBytes16 :: string
  dp_tokenAddress :: "string option"
  dp_rawAmount :: nat

text \<open>An empty token address counts as none.\<close>

definition resolveTokenConfig :: "('a, 'c) transfers_env \<Rightarrow> string option \<Rightarrow> (string \<times> nat) option" where
  "resolveTokenConfig env tokenAddress =
     (case tokenAddress of
        None \<Rightarrow> Some (''ETH'', NATIVE_ETH_DECIMALS)
      | Some a \<Rightarrow>
          if a = [] \<or> js_toLowerCase a = js_toLowerCase NATIVE_ETH_ADDRESS then Some (''ETH'', NATIVE_ETH_DECIMALS)
          else if js_toLowerCase a = js_toLowerCase (usdtTokenAddress env) then Some (''USDT'', USDT_DECIMALS)
          else None)"

definition deposit_row ::
  "('a, 'c) transfers_env \<Rightarrow> deposit_params \<Rightarrow> uuid \<Rightarrow> string \<Rightarrow> amount \<Rightarrow> deposit_status \<Rightarrow> wallet_deposit" where
  "deposit_row env ps userId currency amount status =
     \<lparr>dep_id = depositIdFor env (dp_txHash ps), dep_userId = userId, dep_txHash = dp_txHash ps,
      dep_blockNumber = dp_blockNumber ps, dep_tokenAddress = dp_tokenAddress ps, dep_currency = currency,
      dep_amount = amount, dep_status = status, dep_createdAt = te_clock env, dep_creditedAt = None\<rparr>"

definition deposit_confirmed_event ::
  "('a, 'c) transfers_env \<Rightarrow> wallet_deposit \<Rightarrow> transfers_payload domain_event outbox_event" where
  "deposit_confirmed_event env d =
     transfers_event env aggregate_type.DEPOSIT (dep_id d) (dep_userId d) ''deposit_confirmed'' ''DEPOSIT_CONFIRMED''
       ''transfers.deposit_confirmed''
       (DepositConfirmed \<lparr>dc_depositId = dep_id d, dc_userId = dep_userId d, dc_currency = dep_currency d,
          dc_amount = dep_amount d, dc_txHash = dep_txHash d, dc_blockNumber = dep_blockNumber d,
          dc_timestamp = te_clock env\<rparr>)"

text \<open>A single insert, and the transaction that inserts the deposit with its event.\<close>

definition store_rejected ::
  "('a, 'c) transfers_env \<Rightarrow> wallet_deposit \<Rightarrow> transfers_db \<Rightarrow> unit result \<times> transfers_db" where
  "store_rejected env row db =
     (if commits env (InsertDeposit (dep_txHash row))
      then (case createDeposit row db of Inl e \<Rightarrow> (Inl e, db) | Inr (_, d) \<Rightarrow> (Inr (), d))
      else (Inl connection_lost, db))"

definition confirm_tx ::
  "('a, 'c) transfers_env \<Rightarrow> wallet_deposit \<Rightarrow> transfers_db \<Rightarrow> wallet_deposit result \<times> transfers_db" where
  "confirm_tx env row db =
     (case createDeposit row db of
        Inl e \<Rightarrow> (Inl e, db)
      | Inr (created, d) \<Rightarrow>
          (case insert_event (te_trace env) (te_clock env) (deposit_confirmed_event env created) (transfersOutbox d) of
             Inl e \<Rightarrow> (Inl e, db)
           | Inr tbl \<Rightarrow>
               if commits env (InsertDeposit (dep_txHash row)) then (Inr created, d\<lparr>transfersOutbox := tbl\<rparr>)
               else (Inl connection_lost, db)))"

definition deposit_call :: "uuid \<Rightarrow> uuid \<Rightarrow> amount \<Rightarrow> string \<Rightarrow> string \<Rightarrow> account_request" where
  "deposit_call depositId userId amount currency txHash =
     reserve_request ''deposit:'' userId currency amount txHash depositId"

text \<open>Whatever goes wrong here is logged and forgotten.\<close>

definition creditUserAccount ::
  "('a, 'c) transfers_env \<Rightarrow> uuid \<Rightarrow> uuid \<Rightarrow> amount \<Rightarrow> string \<Rightarrow> string \<Rightarrow> ('a, 'c) transfers_world
   \<Rightarrow> ('a, 'c) transfers_world" where
  "creditUserAccount env depositId userId amount currency txHash w =
     (case te_credit env (deposit_call depositId userId amount currency txHash) (tw_accounts w) of
        (Inl _, a) \<Rightarrow> w\<lparr>tw_accounts := a\<rparr>
      | (Inr _, a) \<Rightarrow>
          if commits env (MarkCredited depositId)
          then w\<lparr>tw_accounts := a, tw_db := updateDepositStatus depositId CREDITED None (te_clock env) (tw_db w)\<rparr>
          else w\<lparr>tw_accounts := a\<rparr>)"

definition processDepositEvent ::
  "('a, 'c) transfers_env \<Rightarrow> deposit_params \<Rightarrow> ('a, 'c) transfers_world \<Rightarrow> unit result \<times> ('a, 'c) transfers_world" where
  "processDepositEvent env ps w =
     (let txHash = dp_txHash ps
      in (case findDepositByTxHash txHash (tw_db w) of
            Some existing \<Rightarrow>
              (Inr (), if dep_status existing = CONFIRMED
                       then creditUserAccount env (dep_id existing) (dep_userId existing) (dep_amount existing)
                              (dep_currency existing) txHash w
                       else w)
          | None \<Rightarrow>
              (case bytes16ToUuid (dp_userBytes16 ps) of
                 Inl _ \<Rightarrow> (Inr (), w)
               | Inr userId \<Rightarrow>
                   (case resolveTokenConfig env (dp_tokenAddress ps) of
                      None \<Rightarrow>
                        (let (r, d) = store_rejected env
                               (deposit_row env ps userId ''UNKNOWN'' 0 REJECTED_UNSUPPORTED_TOKEN) (tw_db w)
                         in (r, w\<lparr>tw_db := d\<rparr>))
                    | Some (currency, decimals) \<Rightarrow>
                        let platformAmount = scaleEvmAmountToPlatform (dp_rawAmount ps) decimals
                        in if \<not> isAboveMinDepositThreshold platformAmount
                           then (let (r, d) = store_rejected env
                                       (deposit_row env ps userId currency platformAmount REJECTED_BELOW_MINIMUM) (tw_db w)
                                 in (r, w\<lparr>tw_db := d\<rparr>))
                           else (case confirm_tx env (deposit_row env ps userId currency platformAmount CONFIRMED) (tw_db w) of
                                   (Inl e, d) \<Rightarrow> (Inl e, w\<lparr>tw_db := d\<rparr>)
                                 | (Inr saved, d) \<Rightarrow>
                                     (Inr (), creditUserAccount env (dep_id saved) userId platformAmount currency txHash
                                        (w\<lparr>tw_db := d\<rparr>)))))))"

section \<open>The scanner\<close>

definition MAX_BLOCK_RANGE :: nat where
  "MAX_BLOCK_RANGE = 2000"

text \<open>The logs that carry all their fields; a native log has no token field.\<close>

definition native_params :: "deposit_log \<Rightarrow> deposit_params option" where
  "native_params l =
     (case (log_userId l, log_amount l) of
        (Some userId, Some amount) \<Rightarrow>
          if userId = [] then None
          else Some \<lparr>dp_txHash = log_transactionHash l, dp_blockNumber = log_blockNumber l, dp_userBytes16 = userId,
                     dp_tokenAddress = None, dp_rawAmount = amount\<rparr>
      | _ \<Rightarrow> None)"

definition token_params :: "deposit_log \<Rightarrow> deposit_params option" where
  "token_params l =
     (case (log_userId l, log_token l, log_amount l) of
        (Some userId, Some token, Some amount) \<Rightarrow>
          if userId = [] \<or> token = [] then None
          else Some \<lparr>dp_txHash = log_transactionHash l, dp_blockNumber = log_blockNumber l, dp_userBytes16 = userId,
                     dp_tokenAddress = Some token, dp_rawAmount = amount\<rparr>
      | _ \<Rightarrow> None)"

fun process_logs ::
  "('a, 'c) transfers_env \<Rightarrow> deposit_params list \<Rightarrow> ('a, 'c) transfers_world \<Rightarrow> unit result \<times> ('a, 'c) transfers_world" where
  "process_logs env [] w = (Inr (), w)"
| "process_logs env (ps # rest) w =
     (case processDepositEvent env ps w of
        (Inl e, w') \<Rightarrow> (Inl e, w')
      | (Inr _, w') \<Rightarrow> process_logs env rest w')"

definition scanRange ::
  "('a, 'c) transfers_env \<Rightarrow> nat \<Rightarrow> nat \<Rightarrow> ('a, 'c) transfers_world \<Rightarrow> unit result \<times> ('a, 'c) transfers_world" where
  "scanRange env fromBlock toBlock w =
     (case getNativeLogs env (depositVaultAddress env) fromBlock toBlock of
        Inl e \<Rightarrow> (Inl e, w)
      | Inr nativeLogs \<Rightarrow>
          (case process_logs env (List.map_filter native_params nativeLogs) w of
             (Inl e, w1) \<Rightarrow> (Inl e, w1)
           | (Inr _, w1) \<Rightarrow>
               (case getTokenLogs env (depositVaultAddress env) fromBlock toBlock of
                  Inl e \<Rightarrow> (Inl e, w1)
                | Inr tokenLogs \<Rightarrow> process_logs env (List.map_filter token_params tokenLogs) w1)))"

text \<open>Moving the cursor of the chain: the upsert may fail.\<close>

definition move_cursor ::
  "('a, 'c) transfers_env \<Rightarrow> nat \<Rightarrow> ('a, 'c) transfers_world \<Rightarrow> unit result \<times> ('a, 'c) transfers_world" where
  "move_cursor env block w =
     (if commits env WriteCursor
      then (Inr (), w\<lparr>tw_db := updateLastScannedBlock (chainId env) block (tw_db w)\<rparr>)
      else (Inl connection_lost, w))"

text \<open>Errors of a poll are logged; the next poll starts again from the cursor.\<close>

definition pollBlocks ::
  "('a, 'c) transfers_env \<Rightarrow> ('a, 'c) transfers_world \<Rightarrow> unit result \<times> ('a, 'c) transfers_world" where
  "pollBlocks env w =
     (case getBlockNumber env of
        Inl e \<Rightarrow> (Inl e, w)
      | Inr currentBlock \<Rightarrow>
          let safeTargetBlock = currentBlock - confirmations env;
              stored = getLastScannedBlock (chainId env) (tw_db w);
              isReset = (case stored of None \<Rightarrow> False | Some l \<Rightarrow> currentBlock < l)
          in (case (if isReset then move_cursor env 0 w else (Inr (), w)) of
                (Inl e, w1) \<Rightarrow> (Inl e, w1)
              | (Inr _, w1) \<Rightarrow>
                  let lastScanned = (if isReset then Some 0 else stored);
                      fromBlock = (case lastScanned of None \<Rightarrow> 0 | Some l \<Rightarrow> l + 1)
                  in if fromBlock \<le> safeTargetBlock
                     then let toBlock = min (fromBlock + MAX_BLOCK_RANGE - 1) safeTargetBlock
                          in (case scanRange env fromBlock toBlock w1 of
                                (Inl e, w2) \<Rightarrow> (Inl e, w2)
                              | (Inr _, w2) \<Rightarrow> move_cursor env toBlock w2)
                     else (Inr (), w1)))"

end
