(* ===== verification/Withdrawal_Life.thy ===== *)
theory Withdrawal_Life
  imports Withdrawals Deposits
begin

text \<open>
  The transfers service as a state machine: requests, ticks of the worker, recoveries after a
  restart, polls of the scanner, and whatever happens at the accounts service and on the chain in between,
  in any order and with any failures; and the life cycle of a withdrawal over all its runs.
\<close>

section \<open>Steps\<close>

inductive transfers_step :: "('a, 'c) transfers_world \<Rightarrow> ('a, 'c) transfers_world \<Rightarrow> bool" where
  Request: "requestWithdrawal env data w = (r, w') \<Longrightarrow> transfers_step w w'"
| Tick: "processNextWithdrawal env w = w' \<Longrightarrow> transfers_step w w'"
| Recover: "recoverStuckProcessingWithdrawals env w = w' \<Longrightarrow> transfers_step w w'"
| Poll: "pollBlocks env w = (r, w') \<Longrightarrow> transfers_step w w'"
| Elsewhere: "transfers_step w (w\<lparr>tw_accounts := a, tw_chain := c\<rparr>)"

section \<open>What may happen to a row\<close>

definition finished :: "withdrawal \<Rightarrow> bool" where
  "finished r \<longleftrightarrow> wr_status r \<in> {withdrawal_status.COMPLETED, withdrawal_status.FAILED}"

text \<open>What was asked for is kept, and nothing becomes pending again.\<close>

definition successor :: "withdrawal \<Rightarrow> withdrawal \<Rightarrow> bool" where
  "successor r r' \<longleftrightarrow>
     wr_id r' = wr_id r \<and> wr_userId r' = wr_userId r \<and> wr_idempotencyKey r' = wr_idempotencyKey r
     \<and> wr_destinationAddress r' = wr_destinationAddress r \<and> wr_currency r' = wr_currency r
     \<and> wr_amount r' = wr_amount r \<and> wr_createdAt r' = wr_createdAt r
     \<and> (wr_status r' = withdrawal_status.PENDING \<longrightarrow> wr_status r = withdrawal_status.PENDING)"

lemma successor_refl [simp]: "successor r r"
  by (simp add: successor_def)

lemma successor_trans: "successor r r' \<Longrightarrow> successor r' r'' \<Longrightarrow> successor r r''"
  by (simp add: successor_def)

definition progress :: "withdrawal \<Rightarrow> withdrawal \<Rightarrow> bool" where
  "progress r r' \<longleftrightarrow> successor r r' \<and> (finished r \<longrightarrow> r' = r)"

lemma progress_trans: "progress r r' \<Longrightarrow> progress r' r'' \<Longrightarrow> progress r r''"
  by (auto simp: progress_def intro: successor_trans)

definition requests_progress :: "withdrawal list \<Rightarrow> withdrawal list \<Rightarrow> bool" where
  "requests_progress rows rows' \<longleftrightarrow> (\<exists>old new. rows' = old @ new \<and> list_all2 progress rows old)"

lemma requests_progress_refl [simp]: "requests_progress rows rows"
  unfolding requests_progress_def
  by (intro exI [of _ rows] exI [of _ "[]"]) (simp add: list_all2_refl progress_def)

lemma requests_progress_trans:
  assumes "requests_progress rows rows'" and "requests_progress rows' rows''"
  shows "requests_progress rows rows''"
proof -
  from assms obtain old new old' new' where 1: "rows' = old @ new" "list_all2 progress rows old"
    and 2: "rows'' = old' @ new'" "list_all2 progress (old @ new) old'"
    by (auto simp: requests_progress_def)
  from 2(2) obtain o1 o2 where o: "old' = o1 @ o2" "list_all2 progress old o1" by (auto simp: list_all2_append1)
  have "list_all2 progress rows o1" using list_all2_trans [OF progress_trans 1(2) o(2)] .
  with 2(1) o(1) show ?thesis by (auto simp: requests_progress_def)
qed

definition requests_keyed :: "withdrawal list \<Rightarrow> bool" where
  "requests_keyed rows \<longleftrightarrow> distinct (map wr_id rows) \<and> distinct (map (\<lambda>r. (wr_userId r, wr_idempotencyKey r)) rows)"

section \<open>Steps that touch only some rows\<close>

definition touches :: "uuid set \<Rightarrow> transfers_db \<Rightarrow> transfers_db \<Rightarrow> bool" where
  "touches I db db' \<longleftrightarrow>
     (\<exists>F. (\<forall>x. successor x (F x)) \<and> (\<forall>x. wr_id x \<notin> I \<longrightarrow> F x = x)
        \<and> withdrawalRequests db' = map F (withdrawalRequests db))"

lemma touches_same [simp]: "withdrawalRequests db' = withdrawalRequests db \<Longrightarrow> touches I db db'"
  unfolding touches_def by (intro exI [of _ "\<lambda>x. x"]) simp

lemma touches_trans:
  assumes "touches I db db'" and "touches J db' db''" and "I \<union> J \<subseteq> K"
  shows "touches K db db''"
proof -
  from assms obtain F G where F: "\<forall>x. successor x (F x)" "\<forall>x. wr_id x \<notin> I \<longrightarrow> F x = x"
      "withdrawalRequests db' = map F (withdrawalRequests db)"
    and G: "\<forall>x. successor x (G x)" "\<forall>x. wr_id x \<notin> J \<longrightarrow> G x = x" "withdrawalRequests db'' = map G (withdrawalRequests db')"
    by (auto simp: touches_def)
  have "\<forall>x. wr_id x \<notin> K \<longrightarrow> G (F x) = x" using F(2) G(2) assms(3) by (metis UnCI subsetD)
  moreover have "\<forall>x. successor x (G (F x))" using F(1) G(1) successor_trans by blast
  ultimately show ?thesis
    unfolding touches_def using F(3) G(3) by (intro exI [of _ "\<lambda>x. G (F x)"]) simp
qed

lemma touches_update:
  assumes "\<And>x. successor x (f x)"
  shows "touches {i} db (update_withdrawal i f db)"
  unfolding touches_def using assms
  by (intro exI [of _ "\<lambda>x. if wr_id x = i then f x else x"]) (auto simp: update_rows_def)

lemma touches_settle:
  assumes "\<And>x. successor x (f x)"
  shows "touches {i} db (settle_tx env step (update_withdrawal i f) e db)"
proof -
  have "touches {i} db ((update_withdrawal i f db)\<lparr>transfersOutbox := t\<rparr>)" for t
    using touches_update [OF assms, of i db] by (simp add: touches_def)
  then show ?thesis by (simp add: settle_tx_def Let_def split: sum.splits)
qed

lemma complete_touches: "touches {wr_id r} (tw_db w) (tw_db (completeWithdrawal env r h w))"
  using touches_settle [of "\<lambda>r. r\<lparr>wr_status := withdrawal_status.COMPLETED, wr_processedAt := Some (te_clock env)\<rparr>" "wr_id r"]
  by (auto simp: completeWithdrawal_def completeWithdrawal_row_def [abs_def] successor_def split: prod.split sum.split)

lemma fail_touches: "touches {wr_id r} (tw_db w) (tw_db (failWithdrawal env r reason w))"
  using touches_settle [of "\<lambda>x. x\<lparr>wr_status := withdrawal_status.FAILED, wr_errorMessage := Some (take 255 reason),
      wr_processedAt := Some (te_clock env)\<rparr>" "wr_id r"]
  by (auto simp: failWithdrawal_def failWithdrawal_row_def [abs_def] successor_def split: prod.split)

lemma execute_touches: "touches {wr_id r} (tw_db w) (tw_db (executeOnChainWithdrawal env r w))"
proof -
  have rec: "touches {wr_id r} (tw_db w) d" if "record_tx_hash env (wr_id r) h (tw_db w) = Inr d" for h d
  proof -
    from that have "d = update_withdrawal (wr_id r) (\<lambda>r. r\<lparr>wr_txHash := Some h, wr_nonce := Some 0\<rparr>) (tw_db w)"
      by (auto simp: record_tx_hash_def updateWithdrawalTx_def split: if_splits)
    then show ?thesis using touches_update [of "\<lambda>r. r\<lparr>wr_txHash := Some h, wr_nonce := Some 0\<rparr>"] by (simp add: successor_def)
  qed
  have f: "touches {wr_id r} (tw_db w) (tw_db (failWithdrawal env r reason (w\<lparr>tw_chain := c\<rparr>)))" for reason c
    using fail_touches [of r "w\<lparr>tw_chain := c\<rparr>"] by simp
  have f2: "touches {wr_id r} (tw_db w) (tw_db (failWithdrawal env r reason (w\<lparr>tw_chain := c, tw_db := d\<rparr>)))"
    and c2: "touches {wr_id r} (tw_db w) (tw_db (completeWithdrawal env r h (w\<lparr>tw_chain := c, tw_db := d\<rparr>)))"
    if "record_tx_hash env (wr_id r) h (tw_db w) = Inr d" for reason c h d
    using touches_trans [OF rec [OF that], of "{wr_id r}"] fail_touches [of r "w\<lparr>tw_chain := c, tw_db := d\<rparr>"]
      complete_touches [of r "w\<lparr>tw_chain := c, tw_db := d\<rparr>"] by simp_all
  show ?thesis by (simp add: executeOnChainWithdrawal_def f f2 c2 split: prod.split sum.split bool.split)
qed

lemma sort_key_head: "sort_key k xs = x # ys \<Longrightarrow> x \<in> set xs"
  by (metis list.set_intros(1) set_sort)

lemma tick_touches:
  "processNextWithdrawal env w = w
   \<or> (\<exists>r\<in>set (withdrawalRequests (tw_db w)). wr_status r = withdrawal_status.PENDING
        \<and> touches {wr_id r} (tw_db w) (tw_db (processNextWithdrawal env w)))"
proof (cases "lockNextPendingWithdrawal (heldRows env) (tw_db w)")
  case (Pair q d)
  show ?thesis
  proof (cases "q = None \<or> \<not> commits env PickPending")
    case False
    then obtain r where r: "r \<in> set (withdrawalRequests (tw_db w))" "wr_status r = withdrawal_status.PENDING"
      and q: "q = Some (r\<lparr>wr_status := PROCESSING\<rparr>)"
      and d: "d = update_withdrawal (wr_id r) (\<lambda>r. r\<lparr>wr_status := PROCESSING\<rparr>) (tw_db w)"
      using Pair by (auto simp: lockNextPendingWithdrawal_def split: list.splits dest!: sort_key_head)
    have "touches {wr_id r} (tw_db w) d" unfolding d by (rule touches_update) (simp add: successor_def)
    from touches_trans [OF this, of "{wr_id r}"] execute_touches [of "r\<lparr>wr_status := PROCESSING\<rparr>" "w\<lparr>tw_db := d\<rparr>" env]
    have "touches {wr_id r} (tw_db w) (tw_db (executeOnChainWithdrawal env (r\<lparr>wr_status := PROCESSING\<rparr>) (w\<lparr>tw_db := d\<rparr>)))" by simp
    with r Pair q False show ?thesis by (auto simp: processNextWithdrawal_def)
  qed (use Pair in \<open>auto simp: processNextWithdrawal_def\<close>)
qed

lemma recover_touches: "touches (wr_id ` set rs) (tw_db w) (tw_db (fold (recover_withdrawal env) rs w))"
proof (induction rs arbitrary: w)
  case (Cons r rs)
  have "touches {wr_id r} (tw_db w) (tw_db (recover_withdrawal env r w))"
    using complete_touches [of r "w\<lparr>tw_chain := _\<rparr>"] fail_touches [of r "w\<lparr>tw_chain := _\<rparr>"]
    by (auto simp: recover_withdrawal_def split: option.split list.split prod.split sum.split bool.split)
  then have "touches (wr_id ` set (r # rs)) (tw_db w) (tw_db (fold (recover_withdrawal env) rs (recover_withdrawal env r w)))"
    by (rule touches_trans [OF _ Cons.IH]) simp
  then show ?case by simp
qed simp

section \<open>Every step makes progress\<close>

lemma touches_progress:
  assumes "touches I db db'" and "\<And>r. r \<in> set (withdrawalRequests db) \<Longrightarrow> wr_id r \<in> I \<Longrightarrow> \<not> finished r"
  shows "requests_progress (withdrawalRequests db) (withdrawalRequests db')"
    and "requests_keyed (withdrawalRequests db) \<Longrightarrow> requests_keyed (withdrawalRequests db')"
proof -
  from assms(1) obtain F where F: "\<forall>x. successor x (F x)" "\<forall>x. wr_id x \<notin> I \<longrightarrow> F x = x"
    and eq: "withdrawalRequests db' = map F (withdrawalRequests db)" by (auto simp: touches_def)
  have "progress r (F r)" if "r \<in> set (withdrawalRequests db)" for r
    using F assms(2) [OF that] by (auto simp: progress_def)
  then have "list_all2 progress (withdrawalRequests db) (map F (withdrawalRequests db))"
    by (simp add: list_all2_map2 list.rel_refl_strong)
  then show "requests_progress (withdrawalRequests db) (withdrawalRequests db')"
    unfolding requests_progress_def eq by (intro exI [of _ "map F (withdrawalRequests db)"] exI [of _ "[]"]) simp
  have "map wr_id (map F rows) = map wr_id rows"
    and "map (\<lambda>r. (wr_userId r, wr_idempotencyKey r)) (map F rows) = map (\<lambda>r. (wr_userId r, wr_idempotencyKey r)) rows" for rows
    using F(1) by (simp_all add: successor_def)
  then show "requests_keyed (withdrawalRequests db) \<Longrightarrow> requests_keyed (withdrawalRequests db')"
    unfolding requests_keyed_def eq by (simp only:)
qed

lemma same_id_same_row:
  "requests_keyed rows \<Longrightarrow> r \<in> set rows \<Longrightarrow> r' \<in> set rows \<Longrightarrow> wr_id r' = wr_id r \<Longrightarrow> r' = r"
  by (auto simp: requests_keyed_def dest: distinct_key_eq)

lemma processDepositEvent_requests:
  "withdrawalRequests (tw_db (snd (processDepositEvent env ps w))) = withdrawalRequests (tw_db w)"
proof -
  have st: "withdrawalRequests (snd (store_rejected env row db)) = withdrawalRequests db" for row db
    by (auto simp: store_rejected_def dest: createDeposit_Inr split: sum.splits)
  have cf: "withdrawalRequests (snd (confirm_tx env row db)) = withdrawalRequests db" for row db
    by (auto simp: confirm_tx_def dest: createDeposit_Inr split: sum.splits)
  have cr: "withdrawalRequests (tw_db (creditUserAccount env i u x c h w)) = withdrawalRequests (tw_db w)" for i u x c h w
    by (auto simp: creditUserAccount_def updateDepositStatus_def split: prod.split sum.split)
  show ?thesis
    using st cf
    by (auto simp: processDepositEvent_def Let_def cr split_beta split: option.split sum.split prod.split)
qed

lemma process_logs_requests:
  "withdrawalRequests (tw_db (snd (process_logs env pss w))) = withdrawalRequests (tw_db w)"
proof (induction pss arbitrary: w)
  case (Cons ps pss)
  show ?case
    using Cons.IH [of "snd (processDepositEvent env ps w)"] processDepositEvent_requests [of env ps w]
    by (auto split: prod.split sum.split)
qed simp

lemma pollBlocks_requests:
  "withdrawalRequests (tw_db (snd (pollBlocks env w))) = withdrawalRequests (tw_db w)"
proof -
  have mv: "withdrawalRequests (tw_db (snd (move_cursor env b w))) = withdrawalRequests (tw_db w)" for b w
    by (simp add: move_cursor_def updateLastScannedBlock_def)
  have sc: "withdrawalRequests (tw_db (snd (scanRange env a b w))) = withdrawalRequests (tw_db w)" for a b w
    using process_logs_requests [of env]
    by (auto simp: scanRange_def split: sum.split prod.split) (metis snd_conv)+
  show ?thesis
  proof (cases "getBlockNumber env")
    case (Inr n)
    define q where "q = (if (case getLastScannedBlock (chainId env) (tw_db w) of None \<Rightarrow> False | Some l \<Rightarrow> n < l)
        then move_cursor env 0 w else (Inr (), w))"
    have "withdrawalRequests (tw_db (snd q)) = withdrawalRequests (tw_db w)" by (simp add: q_def mv)
    with Inr show ?thesis
      using sc mv unfolding pollBlocks_def Let_def q_def [symmetric]
      by (auto split: sum.split prod.split) (metis snd_conv)+
  qed (simp add: pollBlocks_def)
qed

lemma transfers_step_progress:
  assumes "transfers_step w w'" and keyed: "requests_keyed (withdrawalRequests (tw_db w))"
  shows "requests_progress (withdrawalRequests (tw_db w)) (withdrawalRequests (tw_db w'))
    \<and> requests_keyed (withdrawalRequests (tw_db w'))"
  using assms(1)
proof (cases rule: transfers_step.cases)
  case (Request env data r)
  show ?thesis
  proof (cases "withdrawalRequests (tw_db w') = withdrawalRequests (tw_db w)")
    case False
    then obtain row x d where "createWithdrawalRequest row (tw_db w) = Inr (x, d)" "tw_db w' = d"
      using Request by (auto simp: requestWithdrawal_def split: sum.splits option.splits prod.splits if_splits)
    with createWithdrawalRequest_Inr [of row "tw_db w" x d] have
      rows: "withdrawalRequests (tw_db w') = withdrawalRequests (tw_db w) @ [row]"
      and new: "\<forall>z\<in>set (withdrawalRequests (tw_db w)). wr_id z \<noteq> wr_id row
           \<and> \<not> (wr_userId z = wr_userId row \<and> wr_idempotencyKey z = wr_idempotencyKey row)" by auto
    have "requests_progress (withdrawalRequests (tw_db w)) (withdrawalRequests (tw_db w'))"
      unfolding requests_progress_def rows
      by (intro exI [of _ "withdrawalRequests (tw_db w)"] exI [of _ "[row]"]) (simp add: list_all2_refl progress_def)
    with rows new keyed show ?thesis by (force simp: requests_keyed_def)
  qed (use keyed in simp)
next
  case (Tick env)
  from tick_touches [of env w] Tick consider "w' = w" | r where "r \<in> set (withdrawalRequests (tw_db w))"
      "wr_status r = withdrawal_status.PENDING" "touches {wr_id r} (tw_db w) (tw_db w')" by blast
  then show ?thesis
  proof cases
    case (2 r)
    have "\<not> finished x" if "x \<in> set (withdrawalRequests (tw_db w))" "wr_id x \<in> {wr_id r}" for x
      using same_id_same_row [OF keyed 2(1) that(1)] that(2) 2(2) by (simp add: finished_def)
    from touches_progress [OF 2(3) this] keyed show ?thesis by blast
  qed (use keyed in simp)
next
  case (Recover env)
  let ?rs = "findProcessingWithdrawalsWithTxHash (tw_db w)"
  have "\<not> finished x" if "x \<in> set (withdrawalRequests (tw_db w))" "wr_id x \<in> wr_id ` set ?rs" for x
  proof -
    from that(2) obtain r where "r \<in> set (withdrawalRequests (tw_db w))" "wr_status r = PROCESSING" "wr_id x = wr_id r"
      by (auto simp: findProcessingWithdrawalsWithTxHash_def)
    with same_id_same_row [OF keyed _ that(1)] show ?thesis by (fastforce simp: finished_def)
  qed
  from touches_progress [OF recover_touches [of ?rs w env] this] keyed Recover
  show ?thesis by (simp add: recoverStuckProcessingWithdrawals_def)
next
  case (Poll env r)
  have "withdrawalRequests (tw_db w') = withdrawalRequests (tw_db w)" using pollBlocks_requests [of env w] Poll by simp
  then show ?thesis using keyed by simp
next
  case (Elsewhere a c)
  then show ?thesis using keyed by simp
qed


end
