(* ===== verification/Deposit_Props.thy ===== *)
theory Deposit_Props
  imports Deposits Funding
begin

text \<open>
  Deposits end to end: whatever is retried, lost or fails, a deposit is credited at most once and
  the books of the two services agree; and the scanner passes no block without having recorded
  the deposits in it.
\<close>

section \<open>Crediting through a lossy connection\<close>

text \<open>
  A call over the network: it is carried out and answered, or it fails before it is carried out, or
  it is carried out and the answer is lost.
\<close>

definition lossy :: "('q \<Rightarrow> 's \<Rightarrow> 'b result \<times> 's) \<Rightarrow> ('q \<Rightarrow> 's \<Rightarrow> 'b result \<times> 's) \<Rightarrow> bool" where
  "lossy true_call f \<longleftrightarrow>
     (\<forall>d s. f d s = true_call d s \<or> (\<exists>e. f d s = (Inl e, s) \<or> f d s = (Inl e, snd (true_call d s))))"

definition available_in :: "wallet \<Rightarrow> uuid \<times> string \<Rightarrow> amount" where
  "available_in f uc = (case f uc of None \<Rightarrow> 0 | Some (av, lk) \<Rightarrow> av)"

definition locked_in :: "wallet \<Rightarrow> uuid \<times> string \<Rightarrow> amount" where
  "locked_in f uc = (case f uc of None \<Rightarrow> 0 | Some (av, lk) \<Rightarrow> lk)"

lemma credited_amounts:
  assumes "credited u c x f f'"
  shows "available_in f' uc = available_in f uc + (if uc = (u, c) then x else 0)" and "locked_in f' uc = locked_in f uc"
  using assms by (auto simp: credited_def available_in_def locked_in_def split: option.splits)

text \<open>A transaction hash has no white space.\<close>

definition chain_hash :: "string \<Rightarrow> bool" where
  "chain_hash h \<longleftrightarrow> list_all (\<lambda>c. \<not> js_space c) h"

definition deposit_key :: "string \<Rightarrow> string" where
  "deposit_key h = ''deposit:'' @ h"

lemma deposit_key_eq [simp]: "deposit_key h = deposit_key h' \<longleftrightarrow> h = h'"
  by (simp add: deposit_key_def)

lemma chain_hash_key: "chain_hash h \<Longrightarrow> js_trim (''deposit:'' @ h) = deposit_key h"
  unfolding deposit_key_def by (rule js_trim_id) (auto simp: chain_hash_def list_all_iff js_space_def)

text \<open>What the deposits with a used key add up to, for one account.\<close>

definition credited_sum :: "(string \<Rightarrow> bool) \<Rightarrow> uuid \<times> string \<Rightarrow> wallet_deposit list \<Rightarrow> amount" where
  "credited_sum used_key uc rows =
     sum_list (map (\<lambda>d. if (dep_userId d, dep_currency d) = uc \<and> used_key (deposit_key (dep_txHash d))
                        then dep_amount d else 0) rows)"

definition confirmed :: "wallet_deposit \<Rightarrow> bool" where
  "confirmed d \<longleftrightarrow> dep_status d \<in> {CONFIRMED, CREDITED}"

definition deposits_inv ::
  "('a \<Rightarrow> wallet) \<Rightarrow> (string \<Rightarrow> 'a \<Rightarrow> bool) \<Rightarrow> ('a \<Rightarrow> bool) \<Rightarrow> wallet \<Rightarrow> wallet_deposit list \<Rightarrow> 'a \<Rightarrow> bool" where
  "deposits_inv funds used ok f0 rows s \<longleftrightarrow>
     ok s \<and> distinct (map dep_id rows) \<and> distinct (map dep_txHash rows)
     \<and> (\<forall>d\<in>set rows. chain_hash (dep_txHash d)
          \<and> (confirmed d \<longrightarrow> 0 < dep_amount d \<and> dep_currency d \<in> set SUPPORTED_CURRENCIES)
          \<and> (dep_status d = CREDITED \<longrightarrow> used (deposit_key (dep_txHash d)) s)
          \<and> (used (deposit_key (dep_txHash d)) s \<longrightarrow> confirmed d))
     \<and> (\<forall>h. used (deposit_key h) s \<longrightarrow> h \<in> dep_txHash ` set rows)
     \<and> (\<forall>uc. available_in (funds s) uc = available_in f0 uc + credited_sum (\<lambda>k. used k s) uc rows
           \<and> locked_in (funds s) uc = locked_in f0 uc)"

lemma deposits_inv_new:
  assumes "deposits_inv funds used ok f0 rows s" and "dep_txHash d \<notin> dep_txHash ` set rows" and "dep_id d \<notin> dep_id ` set rows"
    and "chain_hash (dep_txHash d)" and "dep_status d \<noteq> CREDITED"
    and "confirmed d \<longrightarrow> 0 < dep_amount d \<and> dep_currency d \<in> set SUPPORTED_CURRENCIES"
  shows "deposits_inv funds used ok f0 (rows @ [d]) s"
proof -
  have "\<not> used (deposit_key (dep_txHash d)) s" using assms(1,2) by (auto simp: deposits_inv_def)
  with assms show ?thesis by (auto simp: deposits_inv_def credited_sum_def)
qed

lemma credited_sum_mark:
  "credited_sum k uc (update_rows P (\<lambda>d. d\<lparr>dep_status := st, dep_creditedAt := t d\<rparr>) rows) = credited_sum k uc rows"
  unfolding credited_sum_def by (subst map_update_rows) simp_all

lemma deposits_inv_mark:
  assumes inv: "deposits_inv funds used ok f0 rows s" and d: "d \<in> set rows" "confirmed d" and u: "used (deposit_key (dep_txHash d)) s"
  shows "deposits_inv funds used ok f0
    (update_rows (\<lambda>x. dep_id x = dep_id d) (\<lambda>x. x\<lparr>dep_status := CREDITED, dep_creditedAt := t x\<rparr>) rows) s"
proof -
  let ?f = "\<lambda>x. x\<lparr>dep_status := CREDITED, dep_creditedAt := t x\<rparr>"
  have only: "x = d" if "x \<in> set rows" "dep_id x = dep_id d" for x
    using inv d(1) that by (auto simp: deposits_inv_def dest: distinct_key_eq)
  have rows: "set (update_rows (\<lambda>x. dep_id x = dep_id d) ?f rows) \<subseteq> insert (?f d) (set rows)"
    using only by (auto simp: set_update_rows)
  have keys: "map dep_id (update_rows (\<lambda>x. dep_id x = dep_id d) ?f rows) = map dep_id rows"
    "map dep_txHash (update_rows (\<lambda>x. dep_id x = dep_id d) ?f rows) = map dep_txHash rows"
    by (simp_all add: map_update_rows)
  have hashes: "dep_txHash ` set (update_rows (\<lambda>x. dep_id x = dep_id d) ?f rows) = dep_txHash ` set rows"
    using arg_cong [OF keys(2), of set] by simp
  have new: "chain_hash (dep_txHash (?f d)) \<and> (confirmed (?f d) \<longrightarrow> 0 < dep_amount (?f d) \<and> dep_currency (?f d) \<in> set SUPPORTED_CURRENCIES)
      \<and> used (deposit_key (dep_txHash (?f d))) s \<and> confirmed (?f d)"
    using inv d u by (auto simp: deposits_inv_def confirmed_def)
  show ?thesis
    unfolding deposits_inv_def keys hashes credited_sum_mark
    using inv [unfolded deposits_inv_def] rows new by (intro conjI ballI) (auto dest!: subsetD [OF rows])
qed

lemma deposits_inv_credit:
  assumes inv: "deposits_inv funds used ok f0 rows s" and d: "d \<in> set rows" "confirmed d"
    and free: "\<not> used (deposit_key (dep_txHash d)) s" and "ok s'"
    and c: "credited (dep_userId d) (dep_currency d) (dep_amount d) (funds s) (funds s')"
    and k: "\<forall>k. used k s' \<longleftrightarrow> used k s \<or> k = deposit_key (dep_txHash d)"
  shows "deposits_inv funds used ok f0 rows s'"
proof -
  have dist: "distinct (map dep_txHash rows)" using inv by (simp add: deposits_inv_def)
  have only: "x = d" if "x \<in> set rows" "dep_txHash x = dep_txHash d" for x
    using dist d(1) that by (auto dest: distinct_key_eq)
  have sum: "credited_sum (\<lambda>k. used k s') uc rows
      = credited_sum (\<lambda>k. used k s) uc rows + (if uc = (dep_userId d, dep_currency d) then dep_amount d else 0)" for uc
  proof -
    have none: "sum_list (map (\<lambda>x. if x = d then a else 0) ys) = 0" if "d \<notin> set ys" for ys and a :: int
      using that by (induction ys) auto
    have "sum_list (map (\<lambda>x. if x = d then a else 0) rows) = a" for a :: int
      using d(1) dist
    proof (induction rows)
      case (Cons y rows)
      then show ?case by (cases "y = d") (use none in \<open>auto simp: image_iff\<close>)
    qed simp
    moreover have "(if (dep_userId x, dep_currency x) = uc \<and> used (deposit_key (dep_txHash x)) s' then dep_amount x else 0)
      = (if (dep_userId x, dep_currency x) = uc \<and> used (deposit_key (dep_txHash x)) s then dep_amount x else 0)
        + (if x = d then if uc = (dep_userId d, dep_currency d) then dep_amount d else 0 else 0)" if "x \<in> set rows" for x
      using only [OF that] k free by auto
    ultimately show ?thesis unfolding credited_sum_def by (simp add: sum_list_addf cong: map_cong)
  qed
  have "\<forall>x\<in>set rows. used (deposit_key (dep_txHash x)) s' \<longrightarrow> confirmed x"
    using inv k only d(2) by (auto simp: deposits_inv_def)
  moreover have "\<forall>uc. available_in (funds s') uc = available_in f0 uc + credited_sum (\<lambda>k. used k s') uc rows
      \<and> locked_in (funds s') uc = locked_in f0 uc"
    using inv by (simp add: sum credited_amounts [OF c] deposits_inv_def)
  moreover have "\<forall>h. used (deposit_key h) s' \<longrightarrow> h \<in> dep_txHash ` set rows"
    using inv d(1) k by (auto simp: deposits_inv_def)
  moreover have "\<forall>x\<in>set rows. dep_status x = CREDITED \<longrightarrow> used (deposit_key (dep_txHash x)) s'"
    using inv k by (auto simp: deposits_inv_def)
  ultimately show ?thesis using inv assms(5) unfolding deposits_inv_def by blast
qed

section \<open>One processing of an event\<close>

abbreviation deposits_ok where
  "deposits_ok funds used ok f0 w \<equiv> deposits_inv funds used ok f0 (walletDeposits (tw_db w)) (tw_accounts w)"

lemma deposit_row_simps [simp]:
  "dep_id (deposit_row env ps u c x st) = depositIdFor env (dp_txHash ps)" "dep_txHash (deposit_row env ps u c x st) = dp_txHash ps"
  "dep_userId (deposit_row env ps u c x st) = u" "dep_currency (deposit_row env ps u c x st) = c"
  "dep_amount (deposit_row env ps u c x st) = x" "dep_status (deposit_row env ps u c x st) = st"
  by (simp_all add: deposit_row_def)

lemma store_rejected_rows:
  assumes "store_rejected env row db = (r, d)"
  shows "(walletDeposits d = walletDeposits db \<and> r \<noteq> Inr ())
    \<or> (walletDeposits d = walletDeposits db @ [row] \<and> r = Inr () \<and> dep_txHash row \<notin> dep_txHash ` set (walletDeposits db)
       \<and> dep_id row \<notin> dep_id ` set (walletDeposits db))"
proof (cases "createDeposit row db")
  case (Inl e)
  with assms show ?thesis by (auto simp: store_rejected_def split: if_splits)
next
  case (Inr yd)
  obtain y d' where yd: "yd = (y, d')" by force
  note new = createDeposit_Inr [OF Inr [unfolded yd]]
  have "dep_txHash row \<notin> dep_txHash ` set (walletDeposits db)" "dep_id row \<notin> dep_id ` set (walletDeposits db)"
    using new(3) by (metis imageE)+
  with assms Inr yd new(2) show ?thesis by (auto simp: store_rejected_def split: if_splits)
qed

lemma confirm_tx_rows:
  assumes "confirm_tx env row db = (r, d)"
  shows "(d = db \<and> (\<exists>e. r = Inl e))
    \<or> (walletDeposits d = walletDeposits db @ [row] \<and> r = Inr row \<and> dep_txHash row \<notin> dep_txHash ` set (walletDeposits db)
       \<and> dep_id row \<notin> dep_id ` set (walletDeposits db))"
proof (cases "createDeposit row db")
  case (Inl e)
  with assms show ?thesis by (auto simp: confirm_tx_def)
next
  case (Inr yd)
  obtain y d' where yd: "yd = (y, d')" by force
  note new = createDeposit_Inr [OF Inr [unfolded yd]]
  have "dep_txHash row \<notin> dep_txHash ` set (walletDeposits db)" "dep_id row \<notin> dep_id ` set (walletDeposits db)"
    using new(3) by (metis imageE)+
  with assms Inr yd new(1,2) show ?thesis by (auto simp: confirm_tx_def split: sum.splits if_splits)
qed

lemma resolved_currency: "resolveTokenConfig env a = Some (c, n) \<Longrightarrow> c \<in> set SUPPORTED_CURRENCIES"
  by (auto simp: resolveTokenConfig_def SUPPORTED_CURRENCIES_def split: option.splits if_splits)

text \<open>The ways an event can go.\<close>

lemma processDepositEvent_cases:
  assumes "processDepositEvent env ps w = (r, w')"
  obtains (known) d where "findDepositByTxHash (dp_txHash ps) (tw_db w) = Some d" "r = Inr ()"
      "w' = (if dep_status d = CONFIRMED
             then creditUserAccount env (dep_id d) (dep_userId d) (dep_amount d) (dep_currency d) (dp_txHash ps) w else w)"
  | (undecodable) e where "bytes16ToUuid (dp_userBytes16 ps) = Inl e" "r = Inr ()" "w' = w"
  | (rejected) u c x st d where "st \<in> {REJECTED_UNSUPPORTED_TOKEN, REJECTED_BELOW_MINIMUM}"
      "store_rejected env (deposit_row env ps u c x st) (tw_db w) = (r, d)" "w' = w\<lparr>tw_db := d\<rparr>"
  | (failed) u c x d e where "confirm_tx env (deposit_row env ps u c x CONFIRMED) (tw_db w) = (Inl e, d)" "r = Inl e" "w' = w\<lparr>tw_db := d\<rparr>"
  | (stored) u c n x row d where "resolveTokenConfig env (dp_tokenAddress ps) = Some (c, n)" "0 < x"
      "row = deposit_row env ps u c x CONFIRMED" "confirm_tx env row (tw_db w) = (Inr row, d)" "r = Inr ()"
      "w' = creditUserAccount env (dep_id row) (dep_userId row) (dep_amount row) (dep_currency row) (dep_txHash row) (w\<lparr>tw_db := d\<rparr>)"
proof (cases "findDepositByTxHash (dp_txHash ps) (tw_db w)")
  case (Some d)
  then show thesis using assms known by (simp add: processDepositEvent_def)
next
  case None
  show thesis
  proof (cases "bytes16ToUuid (dp_userBytes16 ps)")
    case (Inl e)
    then show thesis using assms None undecodable by (simp add: processDepositEvent_def)
  next
    case (Inr u)
    note pre = None Inr
    show thesis
    proof (cases "resolveTokenConfig env (dp_tokenAddress ps)")
      case None
      then show thesis using assms pre rejected [of REJECTED_UNSUPPORTED_TOKEN u "''UNKNOWN''" 0]
        by (auto simp: processDepositEvent_def Let_def split: prod.splits)
    next
      case (Some cn)
      obtain c n where cn: "cn = (c, n)" by force
      let ?x = "scaleEvmAmountToPlatform (dp_rawAmount ps) n"
      show thesis
      proof (cases "isAboveMinDepositThreshold ?x")
        case False
        then show thesis using assms pre Some cn rejected [of REJECTED_BELOW_MINIMUM u c ?x]
          by (auto simp: processDepositEvent_def Let_def split: prod.splits)
      next
        case True
        then have x: "0 < ?x" by (simp add: isAboveMinDepositThreshold_def MIN_DEPOSIT_THRESHOLD_def)
        let ?row = "deposit_row env ps u c ?x CONFIRMED"
        obtain q d where q: "confirm_tx env ?row (tw_db w) = (q, d)" by force
        show thesis
        proof (cases q)
          case (Inl e)
          then show thesis using assms pre Some cn True q failed [of u c ?x e d] by (simp add: processDepositEvent_def Let_def)
        next
          case (Inr v)
          then have v: "v = ?row" using confirm_tx_rows [OF q] by auto
          then show thesis using assms pre Some cn True q Inr x stored [of c n ?x ?row u d]
            by (simp add: processDepositEvent_def Let_def)
        qed
      qed
    qed
  qed
qed

context deposit_service
begin

lemma credit_user_inv:
  assumes net: "lossy (creditf t) (te_credit env)" and inv: "deposits_ok funds used ok f0 w"
    and d: "d \<in> set (walletDeposits (tw_db w))" "confirmed d"
  shows "deposits_ok funds used ok f0
    (creditUserAccount env (dep_id d) (dep_userId d) (dep_amount d) (dep_currency d) (dep_txHash d) w)"
proof -
  let ?s = "tw_accounts w" and ?rows = "walletDeposits (tw_db w)"
  let ?rq = "reserve_request ''deposit:'' (dep_userId d) (dep_currency d) (dep_amount d) (dep_txHash d) (dep_id d)"
  have ok: "ok ?s" and c: "dep_currency d \<in> set SUPPORTED_CURRENCIES" and x: "0 < dep_amount d" and h: "chain_hash (dep_txHash d)"
    using inv d by (auto simp: deposits_inv_def)
  obtain q a' where tr: "creditf t ?rq ?s = (q, a')" by force
  obtain r a where call: "te_credit env ?rq ?s = (r, a)" by force
  from net have "te_credit env ?rq ?s = creditf t ?rq ?s
      \<or> (\<exists>e. te_credit env ?rq ?s = (Inl e, ?s) \<or> te_credit env ?rq ?s = (Inl e, snd (creditf t ?rq ?s)))"
    unfolding lossy_def by blast
  then have out: "(r = q \<and> a = a') \<or> ((\<exists>e. r = Inl e) \<and> (a = ?s \<or> a = a'))" using tr call by auto
  have accs: "deposits_inv funds used ok f0 ?rows a \<and> (\<forall>b. r = Inr b \<longrightarrow> used (deposit_key (dep_txHash d)) a)"
  proof (cases "used (deposit_key (dep_txHash d)) ?s")
    case True
    then have "a' = ?s" using credit_replay [OF ok c x _ tr] chain_hash_key [OF h] by simp
    with out True inv show ?thesis by auto
  next
    case False
    show ?thesis
    proof (cases q)
      case (Inl e)
      then have "a' = ?s" using credit_outcome [OF ok c x _ tr] chain_hash_key [OF h] False by simp
      with out Inl inv show ?thesis by auto
    next
      case (Inr b)
      then have eff: "ok a'" "credited (dep_userId d) (dep_currency d) (dep_amount d) (funds ?s) (funds a')"
        "\<forall>k. used k a' \<longleftrightarrow> used k ?s \<or> k = deposit_key (dep_txHash d)"
        using credit_outcome [OF ok c x _ tr] chain_hash_key [OF h] False by simp_all
      have "deposits_inv funds used ok f0 ?rows a'" by (rule deposits_inv_credit [OF inv d False eff])
      with out inv eff(3) show ?thesis by auto
    qed
  qed
  show ?thesis
  proof (cases r)
    case (Inl e)
    then show ?thesis using accs call by (simp add: creditUserAccount_def deposit_call_def)
  next
    case (Inr b)
    then have "deposits_inv funds used ok f0
        (update_rows (\<lambda>x. dep_id x = dep_id d) (\<lambda>x. x\<lparr>dep_status := CREDITED, dep_creditedAt := Some (te_clock env)\<rparr>) ?rows) a"
      using accs deposits_inv_mark [of funds used ok f0 ?rows a d "\<lambda>_. Some (te_clock env)"] d by blast
    with Inr accs call show ?thesis by (simp add: creditUserAccount_def deposit_call_def updateDepositStatus_def)
  qed
qed

lemma process_deposit_inv:
  assumes net: "lossy (creditf t) (te_credit env)" and inv: "deposits_ok funds used ok f0 w" and h: "chain_hash (dp_txHash ps)"
  shows "deposits_ok funds used ok f0 (snd (processDepositEvent env ps w))"
proof -
  obtain r w' where run: "processDepositEvent env ps w = (r, w')" by force
  then have "deposits_ok funds used ok f0 w'"
  proof (cases rule: processDepositEvent_cases)
    case (known d)
    have d: "d \<in> set (walletDeposits (tw_db w))" "dep_txHash d = dp_txHash ps"
      using known(1) by (auto simp: findDepositByTxHash_def)
    show ?thesis using known(3) inv credit_user_inv [OF net inv d(1)] d(2) by (simp add: confirmed_def)
  next
    case (undecodable e)
    with inv show ?thesis by simp
  next
    case (rejected u c x st d)
    have "st \<noteq> CREDITED" "\<not> confirmed (deposit_row env ps u c x st)" using rejected(1) by (auto simp: confirmed_def)
    with store_rejected_rows [OF rejected(2)] inv h rejected(3) show ?thesis by (auto intro!: deposits_inv_new)
  next
    case (failed u c x d e)
    with confirm_tx_rows [OF failed(1)] inv show ?thesis by auto
  next
    case (stored u c n x row d)
    have inv1: "deposits_ok funds used ok f0 (w\<lparr>tw_db := d\<rparr>)"
      using confirm_tx_rows [OF stored(4)] inv h stored(2,3) resolved_currency [OF stored(1)]
      by (auto intro!: deposits_inv_new)
    have "row \<in> set (walletDeposits (tw_db (w\<lparr>tw_db := d\<rparr>)))" "confirmed row"
      using confirm_tx_rows [OF stored(4)] stored(3) by (auto simp: confirmed_def)
    from credit_user_inv [OF net inv1 this] stored(6) show ?thesis by simp
  qed
  with run show ?thesis by simp
qed

end

end
