(* ===== verification/Deposit_Claims.thy ===== *)
theory Deposit_Claims
  imports Deposit_Props
begin

text \<open>
  The two guarantees of the deposit pipeline: exactly-once crediting over any sequence of attempts
  with any failures, and completeness of the scanner.
\<close>

section \<open>Exactly once\<close>

text \<open>
  A sequence of attempts to process events, each in its own environment; an attempt that raises
  leaves what it has done.
\<close>

fun run_attempts ::
  "(('a, 'c) transfers_env \<times> deposit_params) list \<Rightarrow> ('a, 'c) transfers_world \<Rightarrow> ('a, 'c) transfers_world" where
  "run_attempts [] w = w"
| "run_attempts ((env, ps) # rest) w = run_attempts rest (snd (processDepositEvent env ps w))"

context deposit_service
begin

lemma attempts_inv:
  assumes "\<forall>(env, ps)\<in>set attempts. (\<exists>t. lossy (creditf t) (te_credit env)) \<and> chain_hash (dp_txHash ps)"
    and "deposits_ok funds used ok f0 w"
  shows "deposits_ok funds used ok f0 (run_attempts attempts w)"
  using assms
proof (induction attempts arbitrary: w)
  case (Cons a attempts)
  obtain env ps where a: "a = (env, ps)" by force
  from Cons.prems(1) a obtain t where "lossy (creditf t) (te_credit env)" "chain_hash (dp_txHash ps)" by auto
  from process_deposit_inv [OF this(1) Cons.prems(2) this(2)] Cons a show ?case by simp
qed simp

end

text \<open>
  C13: deposits are credited exactly once: start with no deposit recorded and none of their keys in
  the ledger, and process any events any number of times, where any write may fail, any credit may
  be refused, and any answer of the accounts service may be lost after the credit was carried out. Then
  every account has received exactly the sum of the amounts of its recorded deposits whose key is in
  the ledger, nothing else has changed, no transaction hash is recorded twice, every deposit marked
  \<open>CREDITED\<close> has been credited, rejected deposits have not, and the books of the accounts service
  still balance.
\<close>

theorem deposits_credited_exactly_once:
  assumes "\<forall>(env, ps)\<in>set attempts.
      (\<exists>i now. lossy (accounts_client ''transfers-service'' CreditDepositFunds isUuid i now) (te_credit env))
      \<and> chain_hash (dp_txHash ps)"
    and "accounts_solid (tw_accounts w)" and "walletDeposits (tw_db w) = []"
    and "\<forall>h. \<not> key_used (deposit_key h) (tw_accounts w)"
    and "run_attempts attempts w = w'"
  shows "accounts_solid (tw_accounts w')
    \<and> distinct (map dep_txHash (walletDeposits (tw_db w')))
    \<and> (\<forall>d\<in>set (walletDeposits (tw_db w')).
         (dep_status d = CREDITED \<longrightarrow> key_used (deposit_key (dep_txHash d)) (tw_accounts w'))
         \<and> (key_used (deposit_key (dep_txHash d)) (tw_accounts w') \<longrightarrow> dep_status d \<in> {CONFIRMED, CREDITED}))
    \<and> (\<forall>uc. available_in (balance_view (tw_accounts w')) uc = available_in (balance_view (tw_accounts w)) uc
           + credited_sum (\<lambda>k. key_used k (tw_accounts w')) uc (walletDeposits (tw_db w'))
         \<and> locked_in (balance_view (tw_accounts w')) uc = locked_in (balance_view (tw_accounts w)) uc)"
proof -
  have "deposits_ok balance_view key_used accounts_solid (balance_view (tw_accounts w)) w"
    using assms(2-4) by (simp add: deposits_inv_def credited_sum_def)
  moreover have "\<forall>(env, ps)\<in>set attempts.
      (\<exists>t. lossy ((\<lambda>(i, now). accounts_client ''transfers-service'' CreditDepositFunds isUuid i now) t) (te_credit env))
      \<and> chain_hash (dp_txHash ps)"
    using assms(1) by fastforce
  ultimately have "deposits_ok balance_view key_used accounts_solid (balance_view (tw_accounts w)) w'"
    using transfers_deposits.attempts_inv assms(5) by blast
  then show ?thesis by (simp add: deposits_inv_def confirmed_def)
qed

section \<open>The scanner misses nothing\<close>

text \<open>
  A node that answers the logs of a fixed chain, block by block, whenever it answers; how often it
  fails, and how far it has come, is its own affair.
\<close>

definition serves :: "(nat \<Rightarrow> deposit_log list) \<Rightarrow> (nat \<Rightarrow> deposit_log list) \<Rightarrow> ('a, 'c) transfers_env \<Rightarrow> bool" where
  "serves native token env \<longleftrightarrow>
     (\<forall>v a b. (\<forall>ls. getNativeLogs env v a b = Inr ls \<longrightarrow> ls = concat (map native [a..<Suc b]))
        \<and> (\<forall>ls. getTokenLogs env v a b = Inr ls \<longrightarrow> ls = concat (map token [a..<Suc b])))"

definition block_events :: "(nat \<Rightarrow> deposit_log list) \<Rightarrow> (nat \<Rightarrow> deposit_log list) \<Rightarrow> nat \<Rightarrow> deposit_params list" where
  "block_events native token b = List.map_filter native_params (native b) @ List.map_filter token_params (token b)"

definition handled :: "transfers_db \<Rightarrow> deposit_params \<Rightarrow> bool" where
  "handled db ps \<longleftrightarrow> dp_txHash ps \<in> dep_txHash ` set (walletDeposits db) \<or> (\<exists>e. bytes16ToUuid (dp_userBytes16 ps) = Inl e)"

definition cursor_ok :: "(nat \<Rightarrow> deposit_log list) \<Rightarrow> (nat \<Rightarrow> deposit_log list) \<Rightarrow> nat \<Rightarrow> transfers_db \<Rightarrow> bool" where
  "cursor_ok native token chain db \<longleftrightarrow>
     (\<forall>l. getLastScannedBlock chain db = Some l \<longrightarrow> (\<forall>b\<le>l. \<forall>ps\<in>set (block_events native token b). handled db ps))"

definition keeps_deposits :: "transfers_db \<Rightarrow> transfers_db \<Rightarrow> bool" where
  "keeps_deposits db db' \<longleftrightarrow>
     dep_txHash ` set (walletDeposits db) \<subseteq> dep_txHash ` set (walletDeposits db') \<and> scannerState db' = scannerState db"

lemma keeps_deposits_refl [simp]: "keeps_deposits db db"
  by (simp add: keeps_deposits_def)

lemma keeps_deposits_trans: "keeps_deposits a b \<Longrightarrow> keeps_deposits b c \<Longrightarrow> keeps_deposits a c"
  by (auto simp: keeps_deposits_def)

lemma handled_mono: "handled db ps \<Longrightarrow> keeps_deposits db db' \<Longrightarrow> handled db' ps"
  by (auto simp: handled_def keeps_deposits_def)

lemma mark_hashes [simp]:
  "dep_txHash ` set (update_rows P (\<lambda>d. d\<lparr>dep_status := s, dep_creditedAt := t d\<rparr>) rows) = dep_txHash ` set rows"
proof -
  have "map dep_txHash (update_rows P (\<lambda>d. d\<lparr>dep_status := s, dep_creditedAt := t d\<rparr>) rows) = map dep_txHash rows"
    by (simp add: map_update_rows)
  then show ?thesis by (metis set_map)
qed

lemma credit_keeps [simp]: "keeps_deposits (tw_db w) (tw_db (creditUserAccount env i u x c h w))"
  by (simp add: creditUserAccount_def updateDepositStatus_def keeps_deposits_def split: prod.split sum.split)

lemma rejected_keeps: "store_rejected env row db = (r, d) \<Longrightarrow> scannerState d = scannerState db"
  by (auto simp: store_rejected_def dest!: createDeposit_Inr(2) split: sum.splits if_splits)

lemma confirm_keeps: "confirm_tx env row db = (r, d) \<Longrightarrow> scannerState d = scannerState db"
  by (auto simp: confirm_tx_def dest!: createDeposit_Inr(2) split: sum.splits if_splits)

lemma process_event_handled:
  assumes "processDepositEvent env ps w = (r, w')"
  shows "keeps_deposits (tw_db w) (tw_db w')" and "r = Inr () \<Longrightarrow> handled (tw_db w') ps"
proof -
  have "keeps_deposits (tw_db w) (tw_db w') \<and> (r = Inr () \<longrightarrow> handled (tw_db w') ps)"
    using assms
  proof (cases rule: processDepositEvent_cases)
    case (known d)
    have d: "dp_txHash ps \<in> dep_txHash ` set (walletDeposits (tw_db w))"
      using find_SomeD [OF known(1) [unfolded findDepositByTxHash_def]] by (metis imageI)
    have "keeps_deposits (tw_db w) (tw_db w')" using known(3) by simp
    with d show ?thesis by (auto simp: handled_def keeps_deposits_def)
  next
    case (undecodable e)
    then show ?thesis by (simp add: handled_def)
  next
    case (rejected u c x st d)
    with store_rejected_rows [OF rejected(2)] rejected_keeps [OF rejected(2)] show ?thesis
      by (auto simp: keeps_deposits_def handled_def)
  next
    case (failed u c x d e)
    with confirm_tx_rows [OF failed(1)] show ?thesis by auto
  next
    case (stored u c n x row d)
    have "keeps_deposits (tw_db w) d" "dp_txHash ps \<in> dep_txHash ` set (walletDeposits d)"
      using confirm_tx_rows [OF stored(4)] confirm_keeps [OF stored(4)] stored(3) by (auto simp: keeps_deposits_def)
    moreover have "keeps_deposits d (tw_db w')" using stored(6) credit_keeps [of "w\<lparr>tw_db := d\<rparr>"] by simp
    ultimately show ?thesis by (auto simp: handled_def keeps_deposits_def)
  qed
  then show "keeps_deposits (tw_db w) (tw_db w')" and "r = Inr () \<Longrightarrow> handled (tw_db w') ps" by blast+
qed

lemma process_logs_handled:
  assumes "process_logs env pss w = (r, w')"
  shows "keeps_deposits (tw_db w) (tw_db w') \<and> (r = Inr () \<longrightarrow> (\<forall>ps\<in>set pss. handled (tw_db w') ps))"
  using assms
proof (induction pss arbitrary: w)
  case (Cons ps pss)
  obtain q w1 where q: "processDepositEvent env ps w = (q, w1)" by force
  note e = process_event_handled [OF q]
  show ?case
  proof (cases q)
    case (Inl err)
    with Cons.prems q e(1) show ?thesis by auto
  next
    case (Inr u)
    with Cons.prems q have rest: "process_logs env pss w1 = (r, w')" by simp
    have h: "handled (tw_db w1) ps" using e(2) Inr by simp
    from Cons.IH [OF rest] e(1) handled_mono [OF h] show ?thesis by (auto intro: keeps_deposits_trans)
  qed
qed simp

lemma set_map_filter_concat:
  "set (List.map_filter f (concat (map g bs))) = (\<Union>b\<in>set bs. set (List.map_filter f (g b)))"
  by (auto simp: List.map_filter_def)

lemma scanRange_handled:
  assumes "scanRange env a b w = (r, w')" and "serves native token env"
  shows "keeps_deposits (tw_db w) (tw_db w')
    \<and> (r = Inr () \<longrightarrow> (\<forall>k. a \<le> k \<and> k \<le> b \<longrightarrow> (\<forall>ps\<in>set (block_events native token k). handled (tw_db w') ps)))"
proof (cases "getNativeLogs env (depositVaultAddress env) a b")
  case (Inl e)
  with assms(1) show ?thesis by (auto simp: scanRange_def)
next
  case (Inr ls)
  then have ls: "ls = concat (map native [a..<Suc b])" using assms(2) unfolding serves_def by blast
  obtain q w1 where q: "process_logs env (List.map_filter native_params ls) w = (q, w1)" by force
  note n = process_logs_handled [OF q]
  show ?thesis
  proof (cases q)
    case (Inl e)
    with assms(1) Inr q n show ?thesis by (auto simp: scanRange_def)
  next
    case Q: (Inr u)
    show ?thesis
    proof (cases "getTokenLogs env (depositVaultAddress env) a b")
      case (Inl e)
      with assms(1) Inr q n Q show ?thesis by (auto simp: scanRange_def)
    next
      case T: (Inr ts)
      then have ts: "ts = concat (map token [a..<Suc b])" using assms(2) unfolding serves_def by blast
      have p: "process_logs env (List.map_filter token_params ts) w1 = (r, w')" using assms(1) Inr q Q T by (simp add: scanRange_def)
      note t = process_logs_handled [OF p]
      have "handled (tw_db w') ps" if "r = Inr ()" "a \<le> k" "k \<le> b" "ps \<in> set (block_events native token k)" for k ps
      proof -
        have k: "k \<in> set [a..<Suc b]" using that by auto
        from that(4) consider "ps \<in> set (List.map_filter native_params (native k))" | "ps \<in> set (List.map_filter token_params (token k))"
          by (auto simp: block_events_def)
        then show ?thesis
        proof cases
          case 1
          then have "ps \<in> set (List.map_filter native_params ls)" unfolding ls set_map_filter_concat using k by blast
          with n t Q show ?thesis using handled_mono by auto
        next
          case 2
          then have "ps \<in> set (List.map_filter token_params ts)" unfolding ts set_map_filter_concat using k by blast
          with t that(1) show ?thesis by auto
        qed
      qed
      with n t show ?thesis by (auto intro: keeps_deposits_trans)
    qed
  qed
qed

lemma cursor_ok_keeps: "cursor_ok native token ch db \<Longrightarrow> keeps_deposits db db' \<Longrightarrow> cursor_ok native token ch db'"
  using handled_mono by (fastforce simp: cursor_ok_def getLastScannedBlock_def keeps_deposits_def [of db db'])

lemma move_cursor_ok:
  assumes "move_cursor env b w = (r, w')" and "chainId env = ch" and "cursor_ok native token ch (tw_db w)"
    and "\<forall>k\<le>b. \<forall>ps\<in>set (block_events native token k). handled (tw_db w) ps"
  shows "cursor_ok native token ch (tw_db w')" and "r = Inr () \<Longrightarrow> getLastScannedBlock ch (tw_db w') = Some b"
proof -
  have "handled (updateLastScannedBlock ch b (tw_db w)) ps = handled (tw_db w) ps" for ps
    by (simp add: handled_def updateLastScannedBlock_def)
  with assms show "cursor_ok native token ch (tw_db w')"
    by (auto simp: move_cursor_def cursor_ok_def getLastScannedBlock_def split: if_splits)
      (simp add: updateLastScannedBlock_def)+
  show "r = Inr () \<Longrightarrow> getLastScannedBlock ch (tw_db w') = Some b"
    using assms(1,2) by (auto simp: move_cursor_def getLastScannedBlock_def updateLastScannedBlock_def split: if_splits)
qed

lemma scan_and_move_ok:
  assumes "cursor_ok native token ch (tw_db w)" and "chainId env = ch" and "serves native token env"
    and from_eq: "a = (case getLastScannedBlock ch (tw_db w) of None \<Rightarrow> 0 | Some l \<Rightarrow> l + 1)"
    and run: "(case scanRange env a b w of (Inl e, w2) \<Rightarrow> (Inl e, w2) | (Inr _, w2) \<Rightarrow> move_cursor env b w2) = (r, w')"
  shows "cursor_ok native token ch (tw_db w')"
proof -
  obtain q w2 where q: "scanRange env a b w = (q, w2)" by force
  note sc = scanRange_handled [OF q assms(3)]
  have ok2: "cursor_ok native token ch (tw_db w2)" using cursor_ok_keeps [OF assms(1)] sc by blast
  show ?thesis
  proof (cases q)
    case (Inl e)
    with run q ok2 show ?thesis by simp
  next
    case (Inr u)
    then have mv: "move_cursor env b w2 = (r, w')" using run q by simp
    have "handled (tw_db w2) ps" if "k \<le> b" "ps \<in> set (block_events native token k)" for k ps
    proof (cases "a \<le> k")
      case True
      with sc Inr that show ?thesis by simp
    next
      case False
      then obtain l where "getLastScannedBlock ch (tw_db w) = Some l" "k \<le> l" using from_eq by (cases "getLastScannedBlock ch (tw_db w)") auto
      with assms(1) that(2) have "handled (tw_db w) ps" by (auto simp: cursor_ok_def)
      with sc show ?thesis using handled_mono by blast
    qed
    with move_cursor_ok(1) [OF mv assms(2) ok2] show ?thesis by blast
  qed
qed

lemma pollBlocks_ok:
  assumes "cursor_ok native token ch (tw_db w)" and "chainId env = ch" and "serves native token env"
    and run: "pollBlocks env w = (r, w')"
  shows "cursor_ok native token ch (tw_db w')"
proof (cases "getBlockNumber env")
  case (Inl e)
  with run assms(1) show ?thesis by (simp add: pollBlocks_def)
next
  case (Inr n)
  let ?stored = "getLastScannedBlock ch (tw_db w)"
  define isReset where "isReset = (case ?stored of None \<Rightarrow> False | Some l \<Rightarrow> n < l)"
  obtain q w1 where q: "(if isReset then move_cursor env 0 w else (Inr (), w)) = (q, w1)" by force
  define a where "a = (case if isReset then Some 0 else ?stored of None \<Rightarrow> 0 | Some l \<Rightarrow> l + 1)"
  define b where "b = min (a + MAX_BLOCK_RANGE - 1) (n - confirmations env)"
  have run1: "pollBlocks env w = (case q of Inl e \<Rightarrow> (Inl e, w1) | Inr _ \<Rightarrow>
     if a \<le> n - confirmations env
     then (case scanRange env a b w1 of (Inl e, w2) \<Rightarrow> (Inl e, w2) | (Inr _, w2) \<Rightarrow> move_cursor env b w2)
     else (Inr (), w1))"
    unfolding pollBlocks_def Inr sum.case Let_def assms(2) isReset_def [symmetric] q prod.case a_def b_def
    by (cases q) simp_all
  have zero: "isReset \<Longrightarrow> \<forall>k\<le>0. \<forall>ps\<in>set (block_events native token k). handled (tw_db w) ps"
    using assms(1) by (auto simp: isReset_def cursor_ok_def split: option.splits)
  have ok1: "cursor_ok native token ch (tw_db w1)"
    using q assms(1) move_cursor_ok(1) [OF _ assms(2,1) zero] by (auto split: if_splits)
  have last: "q = Inr u \<Longrightarrow> getLastScannedBlock ch (tw_db w1) = (if isReset then Some 0 else ?stored)" for u
    using q move_cursor_ok(2) [OF _ assms(2,1) zero] by (auto split: if_splits)
  show ?thesis
  proof (cases q)
    case (Inl e)
    with run run1 ok1 show ?thesis by simp
  next
    case (Inr u)
    show ?thesis
    proof (cases "a \<le> n - confirmations env")
      case True
      with run run1 Inr have "(case scanRange env a b w1 of (Inl e, w2) \<Rightarrow> (Inl e, w2) | (Inr _, w2) \<Rightarrow> move_cursor env b w2) = (r, w')"
        by (simp only: sum.case if_True)
      from scan_and_move_ok [OF ok1 assms(2,3) _ this] show ?thesis unfolding last [OF Inr] a_def by blast
    next
      case False
      with run run1 Inr ok1 show ?thesis by simp
    qed
  qed
qed


end
