(* ===== verification/Transfers_Demo.thy ===== *)
theory Transfers_Demo
  imports Withdrawal_Props Withdrawal_Life Deposit_Claims
begin

text \<open>
  A small chain and two accounts on which the properties of the transfers service are applied. After them the outbox of the service.
\<close>

definition demo_log :: deposit_log where
  "demo_log = \<lparr>log_transactionHash = ''0xt1'', log_blockNumber = 1,
     log_userId = Some ''0x018f3a2b4c5d7e8f9a0b1c2d3e4f5a6b'', log_token = Some ''0xusdt'', log_amount = Some 3\<rparr>"

definition demo_token_logs :: "nat \<Rightarrow> deposit_log list" where
  "demo_token_logs b = (if b = 1 then [demo_log] else [])"

definition demo_tenv :: "(accounts_db, unit) transfers_env" where
  "demo_tenv =
     \<lparr>te_lock = accounts_client ''transfers-service'' LockBalance (\<lambda>_. True) ''i2'' 5,
      te_unlock = accounts_client ''transfers-service'' UnlockBalance (\<lambda>_. True) ''i2'' 5,
      te_credit = accounts_client ''transfers-service'' CreditDepositFunds (\<lambda>_. True) ''i2'' 5,
      te_debit = accounts_client ''transfers-service'' DebitWithdrawalFunds (\<lambda>_. True) ''i2'' 5,
      sendTransaction = (\<lambda>_ _ c. (Inr ''0xaa'', c)), writeTransfer = (\<lambda>_ _ _ c. (Inr ''0xaa'', c)),
      waitForReceipt = (\<lambda>_ c. (Inr True, c)), getReceipt = (\<lambda>_ c. (Inr True, c)), getBlockNumber = Inr 3,
      getNativeLogs = (\<lambda>_ _ _. Inr []), getTokenLogs = (\<lambda>_ a b. Inr (concat (map demo_token_logs [a..<Suc b]))),
      confirmations = 1, chainId = 7, depositVaultAddress = ''0xv'', usdtTokenAddress = ''0xusdt'',
      te_isUuid = (\<lambda>_. True), isAddress = (\<lambda>_. True), bigNumber = (\<lambda>_. Some (30 / 100000000)),
      withdrawalId = ''w1'', depositIdFor = (\<lambda>h. ''d'' @ h), outboxIdFor = (\<lambda>i. ''o'' @ i), eventIdFor = (\<lambda>i. ''e'' @ i),
      te_correlationId = ''c'', te_trace = (None, None), te_clock = 5, commits = (\<lambda>_. True), heldRows = {}\<rparr>"

definition empty_transfers_db :: transfers_db where
  "empty_transfers_db = \<lparr>scannerState = (\<lambda>_. None), walletDeposits = [], withdrawalRequests = [], transfersOutbox = []\<rparr>"

definition demo_tworld :: "accounts_db \<Rightarrow> (accounts_db, unit) transfers_world" where
  "demo_tworld a = \<lparr>tw_db = empty_transfers_db, tw_accounts = a, tw_chain = ()\<rparr>"

definition demo_withdraw :: "uuid \<Rightarrow> withdrawal_input" where
  "demo_withdraw u = \<lparr>wi_userId = u, wi_amount = ''0.0000003'', wi_currency = ''usdt'', wi_destinationAddress = ''0xDD'',
     wi_idempotencyKey = '' k1 ''\<rparr>"

definition demo_request_row :: "uuid \<Rightarrow> withdrawal" where
  "demo_request_row u = \<lparr>wr_id = ''w1'', wr_userId = u, wr_idempotencyKey = ''k1'', wr_destinationAddress = ''0xdd'',
     wr_currency = ''USDT'', wr_amount = 30, wr_txHash = None, wr_nonce = None, wr_status = withdrawal_status.PENDING,
     wr_errorMessage = None, wr_createdAt = 5, wr_processedAt = None\<rparr>"

text \<open>Alice has locked 30 units for a withdrawal.\<close>

definition demo_locked_db :: accounts_db where
  "demo_locked_db = \<lparr>accounts = [demo_account\<lparr>availableBalance := 70, lockedBalance := 30\<rparr>],
     ledgerTransactions = [demo_tx, \<lparr>tx_accountId = ''i1'', tx_userId = ''alice'', tx_currency = ''USDT'', tx_type = LOCK,
       tx_amount = 30, availableDelta = - 30, lockedDelta = 30, balanceAfterAvailable = 70, balanceAfterLocked = 30,
       tx_idempotencyKey = Some ''withdraw-lock:k1'', tx_referenceId = None\<rparr>], processedEvents = []\<rparr>"

lemma demo_locked_solid: "accounts_solid demo_locked_db"
proof -
  have "ledger_keys_unique (ledgerTransactions demo_locked_db)"
    by (simp add: ledger_keys_unique_def rows_with_key_def demo_locked_db_def demo_defs)
  moreover have "balances_reconcile demo_locked_db"
    by (simp add: balances_reconcile_def demo_locked_db_def demo_defs ledger_sum_def)
  moreover have "audit_trail (ledgerTransactions demo_locked_db)"
    by (simp add: audit_trail_def demo_locked_db_def demo_defs ledger_sum_def less_Suc_eq)
  ultimately show ?thesis
    by (simp add: accounts_solid_def accounts_inv_def no_overdraft_def demo_locked_db_def demo_defs accounts_keyed_def numeric_28_8_def)
qed

lemma demo_twired: "transfers_wired demo_tenv (\<lambda>_. True) ''i2'' 5"
  by (simp add: transfers_wired_def demo_tenv_def)

lemma demo_new_withdrawal: "u \<noteq> [] \<Longrightarrow> new_withdrawal demo_tenv (demo_withdraw u) = Inr (demo_request_row u)"
proof -
  have c: "validateCurrency ''usdt'' = Inr ''USDT''" by code_simp
  have k: "transfers_requireIdempotencyKey '' k1 '' = Inr ''k1''" by code_simp
  have a: "js_toLowerCase ''0xDD'' = ''0xdd''" by code_simp
  assume "u \<noteq> []"
  then show ?thesis
    by (simp add: new_withdrawal_def transfers_validateUserId_def transfers_validateAmount_def validateAddress_def
        demo_withdraw_def demo_tenv_def demo_request_row_def c k a)
qed

section \<open>Withdrawals\<close>

lemma demo_request_run:
  "fst (requestWithdrawal demo_tenv (demo_withdraw ''alice'') (demo_tworld demo_db)) = Inr (mapToWithdrawalItem (demo_request_row ''alice''))
   \<and> balance_view (tw_accounts (snd (requestWithdrawal demo_tenv (demo_withdraw ''alice'') (demo_tworld demo_db)))) (''alice'', ''USDT'')
     = Some (70, 30)"
proof -
  have lk: "case te_lock demo_tenv (withdrawal_call ''withdraw-lock:'' (demo_request_row ''alice'')) demo_db of
      (Inr b, a1) \<Rightarrow> balance_view a1 (''alice'', ''USDT'') = Some (70, 30) | (Inl e, a1) \<Rightarrow> False" by code_simp
  then obtain b a1 where a1: "te_lock demo_tenv (withdrawal_call ''withdraw-lock:'' (demo_request_row ''alice'')) demo_db = (Inr b, a1)"
    "balance_view a1 (''alice'', ''USDT'') = Some (70, 30)" by (auto split: prod.splits sum.splits)
  have "findWithdrawalByIdempotency u k empty_transfers_db = None" for u k
    by (simp add: findWithdrawalByIdempotency_def empty_transfers_db_def)
  moreover have "createWithdrawalRequest (demo_request_row ''alice'') empty_transfers_db
      = Inr (demo_request_row ''alice'', empty_transfers_db\<lparr>withdrawalRequests := [demo_request_row ''alice'']\<rparr>)"
    by (simp add: createWithdrawalRequest_def demo_request_row_def empty_transfers_db_def numeric_28_8_def)
  moreover have "commits demo_tenv InsertRequest" by (simp add: demo_tenv_def)
  ultimately show ?thesis
    using a1 demo_new_withdrawal [of "''alice''"] by (simp add: requestWithdrawal_def demo_tworld_def)
qed


theorem replayed_lock_withdraws_unfunded_witness:
  "requestWithdrawal demo_tenv (demo_withdraw ''mallory'') (demo_tworld demo_locked_db)
     = (Inr (mapToWithdrawalItem (demo_request_row ''mallory'')),
        (demo_tworld demo_locked_db)\<lparr>tw_db := empty_transfers_db\<lparr>withdrawalRequests := [demo_request_row ''mallory'']\<rparr>\<rparr>)
   \<and> balance_view demo_locked_db (''mallory'', ''USDT'') = None"
proof -
  let ?w = "demo_tworld demo_locked_db" and ?r = "demo_request_row ''mallory''"
  let ?t = "ledgerTransactions demo_locked_db ! 1"
  have inv: "accounts_inv (tw_accounts ?w)" using demo_locked_solid by (simp add: demo_tworld_def accounts_solid_def)
  have none: "findWithdrawalByIdempotency (wr_userId ?r) (wr_idempotencyKey ?r) (tw_db ?w) = None"
    by (simp add: findWithdrawalByIdempotency_def empty_transfers_db_def demo_tworld_def)
  have ins: "createWithdrawalRequest ?r (tw_db ?w) = Inr (?r, empty_transfers_db\<lparr>withdrawalRequests := [?r]\<rparr>)"
    by (simp add: createWithdrawalRequest_def demo_request_row_def empty_transfers_db_def numeric_28_8_def demo_tworld_def)
  have c: "commits demo_tenv InsertRequest" by (simp add: demo_tenv_def)
  have k: "js_trim (''withdraw-lock:'' @ ''k1'') = ''withdraw-lock:k1''" by code_simp
  have t: "?t \<in> set (ledgerTransactions (tw_accounts ?w))" by (simp add: demo_locked_db_def demo_tworld_def)
  have key: "tx_idempotencyKey ?t = Some (js_trim (''withdraw-lock:'' @ wr_idempotencyKey ?r))"
    using k by (simp add: demo_locked_db_def demo_request_row_def)
  have am: "tx_amount ?t = wr_amount ?r" "tx_currency ?t = wr_currency ?r" "tx_type ?t = LOCK" "0 < wr_amount ?r"
    by (simp_all add: demo_locked_db_def demo_request_row_def)
  have nw: "new_withdrawal demo_tenv (demo_withdraw ''mallory'') = Inr ?r" by (rule demo_new_withdrawal) simp
  from replayed_lock_withdraws_unfunded [OF demo_twired inv nw am(4) none c ins t key am(1,2,3)]
  show ?thesis by (simp add: balance_view_def findByUserAndCurrency_def demo_locked_db_def demo_defs)
qed

definition demo_processing :: withdrawal where
  "demo_processing = (demo_request_row ''alice'')\<lparr>wr_status := PROCESSING\<rparr>"

definition demo_processing_world :: "(accounts_db, unit) transfers_world" where
  "demo_processing_world = (demo_tworld demo_locked_db)\<lparr>tw_db := empty_transfers_db\<lparr>withdrawalRequests := [demo_processing]\<rparr>\<rparr>"

lemma demo_settleable:
  "settleable balance_view key_used (\<lambda>u. u \<noteq> [] \<and> True) demo_tenv demo_processing demo_processing_world"
proof -
  have k: "\<not> key_used (js_trim (''withdrawal-debit:'' @ ''w1'')) demo_locked_db"
    "\<not> key_used (js_trim (''withdrawal-unlock:'' @ ''k1'')) demo_locked_db" unfolding key_used_def by code_simp+
  have b: "balance_view demo_locked_db (''alice'', ''USDT'') = Some (70, 30)"
    by (simp add: balance_view_def findByUserAndCurrency_def demo_locked_db_def demo_defs)
  have r: "wr_id demo_processing = ''w1''" "wr_userId demo_processing = ''alice''" "wr_currency demo_processing = ''USDT''"
    "wr_amount demo_processing = 30" "wr_idempotencyKey demo_processing = ''k1''"
    by (simp_all add: demo_processing_def demo_request_row_def)
  have w: "tw_accounts demo_processing_world = demo_locked_db" "transfersOutbox (tw_db demo_processing_world) = []"
    by (simp_all add: demo_processing_world_def demo_tworld_def empty_transfers_db_def)
  show ?thesis unfolding settleable_def r w using k b by (simp add: numeric_28_8_def)
qed


definition demo_pending_world :: "(accounts_db, unit) transfers_world" where
  "demo_pending_world = (demo_tworld demo_locked_db)\<lparr>tw_db := empty_transfers_db\<lparr>withdrawalRequests := [demo_request_row ''alice'']\<rparr>\<rparr>"


section \<open>Deposits\<close>

definition demo_event :: deposit_params where
  "demo_event = \<lparr>dp_txHash = ''0xt1'', dp_blockNumber = 1, dp_userBytes16 = ''0x018f3a2b4c5d7e8f9a0b1c2d3e4f5a6b'',
     dp_tokenAddress = Some ''0xusdt'', dp_rawAmount = 3\<rparr>"

text \<open>The credit is carried out but its answer is lost; the retry finds it done.\<close>

definition lost_answer :: "(accounts_db, unit) transfers_env" where
  "lost_answer = demo_tenv\<lparr>te_credit := (\<lambda>d s. (Inl (PlainError ''UNAVAILABLE''),
     snd (accounts_client ''transfers-service'' CreditDepositFunds (\<lambda>_. True) ''i2'' 5 d s)))\<rparr>"

lemma demo_attempts_run:
  "available_in (balance_view (tw_accounts (run_attempts [(lost_answer, demo_event), (demo_tenv, demo_event)] (demo_tworld demo_db))))
     (''018f3a2b-4c5d-7e8f-9a0b-1c2d3e4f5a6b'', ''USDT'') = 300
   \<and> map dep_status (walletDeposits (tw_db (run_attempts [(lost_answer, demo_event), (demo_tenv, demo_event)] (demo_tworld demo_db)))) = [CREDITED]"
  by code_simp

theorem deposits_credited_exactly_once_witness:
  "\<exists>w'. run_attempts [(lost_answer, demo_event), (demo_tenv, demo_event)] (demo_tworld demo_db) = w'
     \<and> accounts_solid (tw_accounts w') \<and> distinct (map dep_txHash (walletDeposits (tw_db w')))
     \<and> map dep_status (walletDeposits (tw_db w')) = [CREDITED]
     \<and> available_in (balance_view (tw_accounts w')) (''018f3a2b-4c5d-7e8f-9a0b-1c2d3e4f5a6b'', ''USDT'') = 300"
proof -
  let ?call = "accounts_client ''transfers-service'' CreditDepositFunds (\<lambda>_. True) ''i2'' 5"
  have l: "lossy ?call (te_credit lost_answer)" "lossy ?call (te_credit demo_tenv)"
    by (auto simp: lossy_def lost_answer_def demo_tenv_def)
  have h: "chain_hash (dp_txHash demo_event)" unfolding demo_event_def by code_simp
  have net: "\<forall>(env, ps)\<in>set [(lost_answer, demo_event), (demo_tenv, demo_event)].
      (\<exists>i now. lossy (accounts_client ''transfers-service'' CreditDepositFunds (\<lambda>_. True) i now) (te_credit env))
      \<and> chain_hash (dp_txHash ps)"
    using l h by auto
  have k: "\<forall>h. \<not> key_used (deposit_key h) (tw_accounts (demo_tworld demo_db))"
    by (simp add: key_used_def findLedgerByIdempotencyKey_def demo_tworld_def demo_defs deposit_key_def)
  have e: "walletDeposits (tw_db (demo_tworld demo_db)) = []" and s: "accounts_solid (tw_accounts (demo_tworld demo_db))"
    using demo_solid by (simp_all add: demo_tworld_def empty_transfers_db_def)
  obtain w' where w': "run_attempts [(lost_answer, demo_event), (demo_tenv, demo_event)] (demo_tworld demo_db) = w'" by blast
  note t = deposits_credited_exactly_once [OF net s e k w']
  show ?thesis
    using conjunct1 [OF t] conjunct1 [OF conjunct2 [OF t]] w' demo_attempts_run [unfolded w']
    by (intro exI [of _ w'] conjI) simp_all
qed


section \<open>The outbox of the service\<close>

text \<open>
  The outbox of the transfers service (\<open>apps/transfers/src/outbox\<close>): the same table, relay and
  retention job as the orders service has, with one topic for all its events and its own client id.
\<close>

definition transfers_relay_config :: "string \<Rightarrow> transfers_payload domain_event relay_config" where
  "transfers_relay_config appEnv =
     \<lparr>topic_of = (\<lambda>_. getKafkaTopicName appEnv ''transfers''), clientId = ''transfers-service'',
      action_of = (\<lambda>e. Some (de_action e))\<rparr>"

text \<open>The repository, on the table in the database of the service.\<close>

definition transfers_insert_event ::
  "string option \<times> string option \<Rightarrow> time \<Rightarrow> transfers_payload domain_event outbox_event \<Rightarrow> transfers_db \<Rightarrow> transfers_db result" where
  "transfers_insert_event trace now e db =
     bindR (insert_event trace now e (transfersOutbox db)) (\<lambda>tbl. Inr (db\<lparr>transfersOutbox := tbl\<rparr>))"

definition transfers_fetchPendingBatch :: "nat \<Rightarrow> uuid set \<Rightarrow> transfers_db \<Rightarrow> transfers_payload domain_event outbox_event list" where
  "transfers_fetchPendingBatch n locked db = fetchPendingBatch n locked (transfersOutbox db)"

definition transfers_markAsPublished :: "uuid list \<Rightarrow> time \<Rightarrow> transfers_db \<Rightarrow> transfers_db" where
  "transfers_markAsPublished ids now db = db\<lparr>transfersOutbox := markAsPublished ids now (transfersOutbox db)\<rparr>"

definition transfers_recordRetryAttempt :: "uuid \<Rightarrow> string \<Rightarrow> time \<Rightarrow> transfers_db \<Rightarrow> transfers_db" where
  "transfers_recordRetryAttempt i err now db = db\<lparr>transfersOutbox := recordRetryAttempt i err now (transfersOutbox db)\<rparr>"

definition transfers_deletePublished ::
  "transfers_payload domain_event outbox_event picker \<Rightarrow> time \<Rightarrow> nat \<Rightarrow> transfers_db \<Rightarrow> nat \<times> transfers_db" where
  "transfers_deletePublished pick cutoff n db =
     (case deletePublishedEventsOlderThan pick cutoff n (transfersOutbox db) of (k, tbl) \<Rightarrow> (k, db\<lparr>transfersOutbox := tbl\<rparr>))"

definition transfers_processBatch where
  "transfers_processBatch appEnv = relay_processBatch (transfers_relay_config appEnv)"

definition transfers_cleanPublishedEvents ::
  "transfers_payload domain_event outbox_event picker \<Rightarrow> time \<Rightarrow> transfers_db \<Rightarrow> (nat \<times> transfers_db) option" where
  "transfers_cleanPublishedEvents pick now db =
     map_option (\<lambda>(n, tbl). (n, db\<lparr>transfersOutbox := tbl\<rparr>)) (cleanPublishedEvents pick now (transfersOutbox db))"

end
