(* ===== verification/CopyDb.thy ===== *)
theory CopyDb
  imports Contracts Drain
begin

text \<open>
  The database of the copy trading service: the tables \<open>master_traders\<close>, \<open>copy_subscriptions\<close>,
  \<open>copy_orders_history\<close> and \<open>processed_events\<close> (\<open>apps/copy-trading/src/database/schema\<close>) and the
  queries of the four repositories beside it. Identifiers and timestamps come from the caller.
  A slippage, \<open>numeric(5, 2)\<close>, is counted in hundredths of a percent.
\<close>

section \<open>Tables\<close>

record master_trader =
  mtr_id :: uuid
  mtr_userId :: uuid
  displayName :: string
  bio :: "string option"
  totalPnl :: amount
  winRate :: int
  totalCopiers :: int
  minDeposit :: amount
  mtr_isActive :: bool
  mtr_createdAt :: time
  mtr_updatedAt :: time

datatype subscription_status = ACTIVE | PAUSED | TERMINATED

record copy_subscription =
  sub_id :: uuid
  followerUserId :: uuid
  sub_masterId :: uuid
  allocatedBalance :: amount
  maxSlippagePercent :: int
  sub_status :: subscription_status
  sub_createdAt :: time
  sub_updatedAt :: time

datatype copy_order_status = PENDING | COMPLETED | FAILED | SKIPPED

record copy_order =
  ch_id :: uuid
  ch_subscriptionId :: uuid
  masterTradeId :: uuid
  followerOrderId :: "uuid option"
  ch_pair :: string
  masterSide :: order_side
  replicatedQuantity :: amount
  replicatedPrice :: amount
  ch_status :: copy_order_status
  failureReason :: "string option"
  ch_createdAt :: time

record copy_event =
  ce_eventId :: uuid
  ce_eventType :: string
  ce_consumerGroup :: string
  ce_processedAt :: time

record copy_db =
  masterTraders :: "master_trader list"
  copySubscriptions :: "copy_subscription list"
  copyOrdersHistory :: "copy_order list"
  copyEvents :: "copy_event list"

definition empty_copy_db :: copy_db where
  "empty_copy_db = \<lparr>masterTraders = [], copySubscriptions = [], copyOrdersHistory = [], copyEvents = []\<rparr>"

text \<open>\<open>numeric(5, 2)\<close>: three digits before the point.\<close>

definition numeric_5_2 :: "int \<Rightarrow> bool" where
  "numeric_5_2 x \<longleftrightarrow> \<bar>x\<bar> < 10 ^ 5"

section \<open>Master traders\<close>

definition create_master :: "master_trader \<Rightarrow> copy_db \<Rightarrow> (master_trader \<times> copy_db) result" where
  "create_master m db =
     (if 64 < length (displayName m) then Inl (DbException ''22001'')
      else if \<not> numeric_28_8 (minDeposit m) then Inl (DbException ''22003'')
      else if mtr_id m \<in> mtr_id ` set (masterTraders db) \<or> mtr_userId m \<in> mtr_userId ` set (masterTraders db)
      then Inl (DbException ''23505'')
      else Inr (m, db\<lparr>masterTraders := masterTraders db @ [m]\<rparr>))"

definition findMasterById :: "uuid \<Rightarrow> copy_db \<Rightarrow> master_trader option" where
  "findMasterById masterId db = List.find (\<lambda>m. mtr_id m = masterId) (masterTraders db)"

definition findMasterByUserId :: "uuid \<Rightarrow> copy_db \<Rightarrow> master_trader option" where
  "findMasterByUserId userId db = List.find (\<lambda>m. mtr_userId m = userId) (masterTraders db)"

text \<open>Most copiers first, newest first among equals.\<close>

definition findMasters ::
  "bool \<Rightarrow> nat option \<Rightarrow> nat option \<Rightarrow> copy_db \<Rightarrow> master_trader list \<times> nat" where
  "findMasters isActiveOnly limit offset db =
     (let rows = filter (\<lambda>m. isActiveOnly \<longrightarrow> mtr_isActive m) (masterTraders db);
          sorted = sort_key (\<lambda>m. - totalCopiers m) (rev (sort_key mtr_createdAt rows));
          rest = (case offset of None \<Rightarrow> sorted | Some k \<Rightarrow> drop k sorted)
      in ((case limit of None \<Rightarrow> rest | Some k \<Rightarrow> take k rest), length rows))"

definition findAllActive :: "copy_db \<Rightarrow> master_trader list" where
  "findAllActive db = filter mtr_isActive (masterTraders db)"

definition incrementCopiers :: "uuid \<Rightarrow> int \<Rightarrow> time \<Rightarrow> copy_db \<Rightarrow> copy_db" where
  "incrementCopiers masterId delta now db =
     db\<lparr>masterTraders := update_rows (\<lambda>m. mtr_id m = masterId)
          (\<lambda>m. m\<lparr>totalCopiers := max 0 (totalCopiers m + delta), mtr_updatedAt := now\<rparr>) (masterTraders db)\<rparr>"

section \<open>Subscriptions\<close>

definition numeric_subscription :: "copy_subscription \<Rightarrow> bool" where
  "numeric_subscription s \<longleftrightarrow> numeric_28_8 (allocatedBalance s) \<and> numeric_5_2 (maxSlippagePercent s)"

text \<open>\<open>(follower_user_id, master_id)\<close> is a unique index.\<close>

definition create_subscription_row ::
  "copy_subscription \<Rightarrow> copy_db \<Rightarrow> (copy_subscription \<times> copy_db) result" where
  "create_subscription_row s db =
     (if \<not> numeric_subscription s then Inl (DbException ''22003'')
      else if sub_id s \<in> sub_id ` set (copySubscriptions db)
         \<or> (followerUserId s, sub_masterId s) \<in> (\<lambda>x. (followerUserId x, sub_masterId x)) ` set (copySubscriptions db)
      then Inl (DbException ''23505'')
      else if findMasterById (sub_masterId s) db = None then Inl (DbException ''23503'')
      else Inr (s, db\<lparr>copySubscriptions := copySubscriptions db @ [s]\<rparr>))"

definition findSubscriptionById :: "uuid \<Rightarrow> copy_db \<Rightarrow> copy_subscription option" where
  "findSubscriptionById subscriptionId db = List.find (\<lambda>s. sub_id s = subscriptionId) (copySubscriptions db)"

definition findByFollowerAndMaster :: "uuid \<Rightarrow> uuid \<Rightarrow> copy_db \<Rightarrow> copy_subscription option" where
  "findByFollowerAndMaster follower masterId db =
     List.find (\<lambda>s. followerUserId s = follower \<and> sub_masterId s = masterId) (copySubscriptions db)"

definition findByFollower :: "uuid \<Rightarrow> copy_db \<Rightarrow> copy_subscription list" where
  "findByFollower follower db =
     rev (sort_key sub_createdAt (filter (\<lambda>s. followerUserId s = follower) (copySubscriptions db)))"

definition findActiveByFollower :: "uuid \<Rightarrow> copy_db \<Rightarrow> copy_subscription list" where
  "findActiveByFollower follower db =
     filter (\<lambda>s. followerUserId s = follower \<and> sub_status s = ACTIVE) (copySubscriptions db)"

definition findActiveByMaster :: "uuid \<Rightarrow> copy_db \<Rightarrow> copy_subscription list" where
  "findActiveByMaster masterId db =
     sort_key sub_createdAt (filter (\<lambda>s. sub_masterId s = masterId \<and> sub_status s = ACTIVE) (copySubscriptions db))"

text \<open>\<open>update ... where id returning\<close>: the updated row, if there is one.\<close>

definition update_subscription ::
  "uuid \<Rightarrow> (copy_subscription \<Rightarrow> copy_subscription) \<Rightarrow> copy_db \<Rightarrow> (copy_subscription option \<times> copy_db) result" where
  "update_subscription i f db =
     (case findSubscriptionById i db of
        None \<Rightarrow> Inr (None, db)
      | Some s \<Rightarrow>
          if numeric_subscription (f s)
          then Inr (Some (f s), db\<lparr>copySubscriptions := update_rows (\<lambda>x. sub_id x = i) f (copySubscriptions db)\<rparr>)
          else Inl (DbException ''22003''))"

definition reactivateSubscription ::
  "uuid \<Rightarrow> amount \<Rightarrow> int \<Rightarrow> time \<Rightarrow> copy_db \<Rightarrow> (copy_subscription option \<times> copy_db) result" where
  "reactivateSubscription i alloc slippage now db =
     update_subscription i
       (\<lambda>s. s\<lparr>sub_status := ACTIVE, allocatedBalance := alloc, maxSlippagePercent := slippage, sub_updatedAt := now\<rparr>) db"

definition updateStatus ::
  "uuid \<Rightarrow> subscription_status \<Rightarrow> time \<Rightarrow> copy_db \<Rightarrow> (copy_subscription option \<times> copy_db) result" where
  "updateStatus i status now db = update_subscription i (\<lambda>s. s\<lparr>sub_status := status, sub_updatedAt := now\<rparr>) db"

text \<open>The copied quantities of a subscription in a pair, by side.\<close>

definition copied_total :: "uuid \<Rightarrow> string \<Rightarrow> order_side \<Rightarrow> copy_db \<Rightarrow> amount" where
  "copied_total subscriptionId pair side db =
     sum_list (map replicatedQuantity
       (filter (\<lambda>h. ch_subscriptionId h = subscriptionId \<and> ch_pair h = pair
          \<and> ch_status h = copy_order_status.COMPLETED \<and> masterSide h = side) (copyOrdersHistory db)))"

definition getSubscriptionPosition :: "uuid \<Rightarrow> string \<Rightarrow> copy_db \<Rightarrow> amount \<times> amount" where
  "getSubscriptionPosition subscriptionId pair db =
     (copied_total subscriptionId pair BUY db, copied_total subscriptionId pair SELL db)"

section \<open>Copied orders\<close>

text \<open>
  \<open>(subscription_id, master_trade_id)\<close> is a unique index; a conflict does nothing and returns no
  row, here as for any other key.
\<close>

definition create_history ::
  "copy_order \<Rightarrow> copy_db \<Rightarrow> (copy_order option \<times> copy_db) result" where
  "create_history h db =
     (if 20 < length (ch_pair h) then Inl (DbException ''22001'')
      else if \<not> numeric_28_8 (replicatedQuantity h) \<or> \<not> numeric_28_8 (replicatedPrice h) then Inl (DbException ''22003'')
      else if ch_id h \<in> ch_id ` set (copyOrdersHistory db)
         \<or> (ch_subscriptionId h, masterTradeId h) \<in> (\<lambda>x. (ch_subscriptionId x, masterTradeId x)) ` set (copyOrdersHistory db)
      then Inr (None, db)
      else if findSubscriptionById (ch_subscriptionId h) db = None then Inl (DbException ''23503'')
      else Inr (Some h, db\<lparr>copyOrdersHistory := copyOrdersHistory db @ [h]\<rparr>))"

definition findBySubscriptionAndTrade :: "uuid \<Rightarrow> uuid \<Rightarrow> copy_db \<Rightarrow> copy_order option" where
  "findBySubscriptionAndTrade subscriptionId trade db =
     List.find (\<lambda>h. ch_subscriptionId h = subscriptionId \<and> masterTradeId h = trade) (copyOrdersHistory db)"

definition findBySubscription :: "uuid \<Rightarrow> copy_db \<Rightarrow> copy_order list" where
  "findBySubscription subscriptionId db =
     rev (sort_key ch_createdAt (filter (\<lambda>h. ch_subscriptionId h = subscriptionId) (copyOrdersHistory db)))"

section \<open>Processed events\<close>

definition isProcessed :: "uuid \<Rightarrow> copy_db \<Rightarrow> bool" where
  "isProcessed eventId db \<longleftrightarrow> List.find (\<lambda>e. ce_eventId e = eventId) (copyEvents db) \<noteq> None"

definition markProcessed :: "copy_event \<Rightarrow> copy_db \<Rightarrow> copy_db result" where
  "markProcessed e db =
     (if 64 < length (ce_eventType e) \<or> 64 < length (ce_consumerGroup e) then Inl (DbException ''22001'')
      else if isProcessed (ce_eventId e) db then Inr db
      else Inr (db\<lparr>copyEvents := copyEvents db @ [e]\<rparr>))"

end
