(* ===== verification/Copy_Lock.thy ===== *)
theory Copy_Lock
  imports Contracts
begin

text \<open>
  Valkey as the copy trading service uses it, and the lock of a follower
  (\<open>apps/copy-trading/src/lock/distributed-lock.service.ts\<close>). A key carries a value and the time it
  expires at. A call may lose its request or only its reply: the client sees an error in both cases,
  the key is written in the second.
\<close>

section \<open>Keys that expire\<close>

datatype valkey_reply = Replied | RequestLost | ReplyLost

type_synonym 'v expiring = "string \<Rightarrow> ('v \<times> time) option"

definition live :: "'v expiring \<Rightarrow> time \<Rightarrow> string \<Rightarrow> 'v option" where
  "live store now key =
     (case store key of None \<Rightarrow> None | Some (v, expiry) \<Rightarrow> if now < expiry then Some v else None)"

lemma live_update [simp]:
  "live (store(key \<mapsto> (v, expiry))) now k = (if k = key then (if now < expiry then Some v else None) else live store now k)"
  "live (store(key := None)) now k = (if k = key then None else live store now k)"
  by (simp_all add: live_def)

section \<open>The lock\<close>

definition acquireLock ::
  "valkey_reply \<Rightarrow> uuid \<Rightarrow> time \<Rightarrow> string \<Rightarrow> nat \<Rightarrow> uuid expiring \<Rightarrow> uuid option \<times> uuid expiring" where
  "acquireLock reply lockToken now key ttlMs locks =
     (case reply of
        RequestLost \<Rightarrow> (None, locks)
      | _ \<Rightarrow>
          (case live locks now key of
             Some _ \<Rightarrow> (None, locks)
           | None \<Rightarrow>
               ((if reply = Replied then Some lockToken else None), locks(key \<mapsto> (lockToken, now + ttlMs)))))"

text \<open>The script deletes the key if it still holds the token.\<close>

definition releaseLock ::
  "valkey_reply \<Rightarrow> time \<Rightarrow> string \<Rightarrow> uuid \<Rightarrow> uuid expiring \<Rightarrow> bool \<times> uuid expiring" where
  "releaseLock reply now key lockToken locks =
     (case reply of
        RequestLost \<Rightarrow> (False, locks)
      | _ \<Rightarrow>
          (if live locks now key = Some lockToken then (reply = Replied, locks(key := None))
           else (False, locks)))"

section \<open>Mutual exclusion\<close>

text \<open>A caller that got the lock holds it, and nobody did before it.\<close>

lemma acquireLock_Some:
  assumes "acquireLock reply tok now key ttl locks = (Some t, locks')"
  shows "t = tok" and "live locks now key = None" and "locks' = locks(key \<mapsto> (tok, now + ttl))" and "reply = Replied"
  using assms by (auto simp: acquireLock_def split: valkey_reply.splits option.splits if_splits)

text \<open>
  While a token is in the lock, nobody else acquires it, and nobody else's release removes it:
  it stays until its owner releases it or it expires.
\<close>

lemma held_lock_stays:
  assumes "live locks now key = Some owner"
  shows "acquireLock reply tok now key ttl locks = (None, locks)"
    and "tok \<noteq> owner \<Longrightarrow> snd (releaseLock reply now key tok locks) = locks"
  using assms by (auto simp: acquireLock_def releaseLock_def split: valkey_reply.splits)

lemma other_locks_unchanged:
  assumes "k \<noteq> key"
  shows "snd (acquireLock reply tok now key ttl locks) k = locks k"
    and "snd (releaseLock reply now key tok locks) k = locks k"
  using assms by (auto simp: acquireLock_def releaseLock_def split: valkey_reply.splits option.splits)

lemma release_after_acquire:
  assumes "acquireLock reply tok now key ttl locks = (Some t, locks')" and "later < now + ttl" and "reply' \<noteq> RequestLost"
  shows "live (snd (releaseLock reply' later key t locks')) later key = None"
  using acquireLock_Some [OF assms(1)] assms(2,3) by (cases reply') (simp_all add: releaseLock_def)

text \<open>
  Any number of clients that compete for a key, with any lost requests and replies: between the
  moment a client gets the lock and the moment it releases it or its time is over, no other client
  gets it.
\<close>

datatype lock_call =
    Acquire valkey_reply uuid nat
  | Release valkey_reply uuid

fun lock_run :: "string \<Rightarrow> (time \<times> lock_call) list \<Rightarrow> uuid expiring \<Rightarrow> (time \<times> uuid) list \<times> uuid expiring" where
  "lock_run key [] locks = ([], locks)"
| "lock_run key ((now, Acquire reply tok ttl) # cs) locks =
     (let (got, l1) = acquireLock reply tok now key ttl locks;
          (rest, l2) = lock_run key cs l1
      in (case got of None \<Rightarrow> rest | Some t \<Rightarrow> (now, t) # rest, l2))"
| "lock_run key ((now, Release reply tok) # cs) locks =
     lock_run key cs (snd (releaseLock reply now key tok locks))"

lemma held_lock_excludes:
  assumes "locks key = Some (owner, expiry)"
    and "\<forall>(now, c)\<in>set calls. now < expiry \<and> (\<forall>reply. c \<noteq> Release reply owner)"
  shows "lock_run key calls locks = ([], locks)"
  using assms(2)
proof (induction calls)
  case (Cons c cs)
  obtain now call where c: "c = (now, call)" by (cases c)
  then have l: "live locks now key = Some owner" using Cons.prems assms(1) by (simp add: live_def)
  have rest: "lock_run key cs locks = ([], locks)" using Cons by simp
  show ?case
  proof (cases call)
    case (Acquire reply tok ttl)
    with c l rest show ?thesis by (simp add: held_lock_stays(1))
  next
    case (Release reply tok)
    then have "tok \<noteq> owner" using Cons.prems c by auto
    with c l rest Release show ?thesis by (simp add: held_lock_stays(2))
  qed
qed simp

text \<open>
  The lock of a follower is exclusive. From the moment a client gets it, and until its own release
  or the end of the time it asked for, no sequence of attempts and releases by other clients, with any
  requests and replies lost, gives the lock to anybody or takes it away.
\<close>

theorem lock_is_exclusive:
  assumes "acquireLock reply tok now key ttl locks = (Some t, held)"
    and "\<forall>(later, c)\<in>set calls. later < now + ttl \<and> (\<forall>r. c \<noteq> Release r tok)"
  shows "lock_run key calls held = ([], held)"
  using acquireLock_Some(3) [OF assms(1)] assms(2) by (intro held_lock_excludes) auto

theorem lock_is_exclusive_witness:
  "lock_run ''k'' [(5, Acquire Replied ''b'' 9), (6, Release Replied ''b''), (7, Acquire ReplyLost ''c'' 9)] [''k'' \<mapsto> (''a'', 13)]
     = ([], [''k'' \<mapsto> (''a'', 13)])"
  using lock_is_exclusive [of Replied "''a''" 3 "''k''" 10 Map.empty "''a''" "[''k'' \<mapsto> (''a'', 13)]"
      "[(5, Acquire Replied ''b'' 9), (6, Release Replied ''b''), (7, Acquire ReplyLost ''c'' 9)]"]
  by (simp add: acquireLock_def live_def)

end
