(* ===== verification/Copy_Trading.thy ===== *)
theory Copy_Trading
  imports CopyDb Copy_Lock Balances
begin

text \<open>
  The copy trading service as its clients call it
  (\<open>apps/copy-trading/src/copy-trading.service.ts\<close>, reached through
  \<open>copy-trading.controller.ts\<close>): master traders, subscriptions with their allocation, and the balance
  query with its short-lived cache. The state is the database, the map of active masters in memory,
  what the service keeps in Valkey, and the remote accounts and orders services, both of an
  arbitrary type.
\<close>

section \<open>State and environment\<close>

record ('a, 'o) copy_world =
  cw_db :: copy_db
  activeMastersMap :: "uuid \<Rightarrow> uuid option"
  activeMastersSet :: "uuid set"
  cw_cache :: "amount expiring"
  cw_locks :: "uuid expiring"
  cw_accounts :: 'a
  cw_orders :: 'o

datatype copy_query =
    FindMaster
  | FindSubscription
  | FindActiveByFollower
  | FindActiveMasters
  | FindActiveByMaster
  | WriteMaster
  | WriteSubscription
  | IncrementCopiers
  | IsProcessed
  | MarkProcessed

text \<open>
  What an operation meets: which of its queries the database answers, how Valkey answers, the
  remote balance query, the clock and a fresh id.
\<close>

record 'a copy_env =
  answers :: "copy_query \<Rightarrow> bool"
  saddReply :: valkey_reply
  cacheRead :: valkey_reply
  cacheWrite :: valkey_reply
  getBalanceRpc :: "account_request \<Rightarrow> 'a \<Rightarrow> balance_response option result \<times> 'a"
  cp_now :: time
  cp_newId :: uuid

definition asked :: "'a copy_env \<Rightarrow> copy_query \<Rightarrow> 'b \<Rightarrow> 'b result" where
  "asked env q x = (if answers env q then Inr x else Inl connection_lost)"

definition wrote :: "'a copy_env \<Rightarrow> copy_query \<Rightarrow> 'b result \<Rightarrow> 'b result" where
  "wrote env q r = (if answers env q then r else Inl connection_lost)"

definition maxSlippagePercentDefault :: int where
  "maxSlippagePercentDefault = 100"

definition masterBalanceCacheTtlSeconds :: nat where
  "masterBalanceCacheTtlSeconds = 5"

definition masterBalance_key :: "uuid \<Rightarrow> string \<Rightarrow> string" where
  "masterBalance_key userId currency = ''copy:master:balance:'' @ userId @ '':'' @ currency"

definition followerLock_key :: "uuid \<Rightarrow> string" where
  "followerLock_key userId = ''lock:copy:follower:'' @ userId"

section \<open>Master traders\<close>

definition sadd :: "valkey_reply \<Rightarrow> uuid list \<Rightarrow> uuid set \<Rightarrow> uuid set" where
  "sadd reply members S = (if reply = RequestLost then S else S \<union> set members)"

definition preloadActiveMasters :: "'a copy_env \<Rightarrow> ('a, 'o) copy_world \<Rightarrow> ('a, 'o) copy_world" where
  "preloadActiveMasters env w =
     (case asked env FindActiveMasters (findAllActive (cw_db w)) of
        Inl _ \<Rightarrow> w
      | Inr activeMasters \<Rightarrow>
          w\<lparr>activeMastersMap := foldl (\<lambda>f m. f(mtr_userId m \<mapsto> mtr_id m)) Map.empty activeMasters,
            activeMastersSet :=
              (if activeMasters = [] then activeMastersSet w
               else sadd (saddReply env) (map mtr_userId activeMasters) (activeMastersSet w))\<rparr>)"

definition getActiveMasterId :: "uuid \<Rightarrow> ('a, 'o) copy_world \<Rightarrow> uuid option" where
  "getActiveMasterId userId w = activeMastersMap w userId"

record register_master_request =
  rm_userId :: uuid
  rm_displayName :: string
  rm_bio :: "string option"
  rm_minDeposit :: "amount option"

record master_item =
  mi_id :: uuid
  mi_userId :: uuid
  mi_displayName :: string
  mi_bio :: string
  mi_totalPnl :: amount
  mi_winRate :: int
  mi_totalCopiers :: int
  mi_minDeposit :: amount
  mi_isActive :: bool

definition mapMasterToItem :: "master_trader \<Rightarrow> master_item" where
  "mapMasterToItem m =
     \<lparr>mi_id = mtr_id m, mi_userId = mtr_userId m, mi_displayName = displayName m,
      mi_bio = (case bio m of None \<Rightarrow> [] | Some b \<Rightarrow> b), mi_totalPnl = totalPnl m, mi_winRate = winRate m,
      mi_totalCopiers = totalCopiers m, mi_minDeposit = minDeposit m, mi_isActive = mtr_isActive m\<rparr>"

definition registerMaster ::
  "'a copy_env \<Rightarrow> register_master_request \<Rightarrow> ('a, 'o) copy_world \<Rightarrow> master_item result \<times> ('a, 'o) copy_world" where
  "registerMaster env request w =
     (case asked env FindMaster (findMasterByUserId (rm_userId request) (cw_db w)) of
        Inl e \<Rightarrow> (Inl e, w)
      | Inr (Some existing) \<Rightarrow>
          (if \<not> mtr_isActive existing then (Inl (BadRequestException ''MASTER_INACTIVE''), w)
           else (Inr (mapMasterToItem existing), w))
      | Inr None \<Rightarrow>
          (case wrote env WriteMaster (create_master
                  \<lparr>mtr_id = cp_newId env, mtr_userId = rm_userId request, displayName = rm_displayName request,
                   bio = rm_bio request, totalPnl = 0, winRate = 0, totalCopiers = 0,
                   minDeposit = (case rm_minDeposit request of None \<Rightarrow> 50 * 10 ^ 8 | Some d \<Rightarrow> d),
                   mtr_isActive = True, mtr_createdAt = cp_now env, mtr_updatedAt = cp_now env\<rparr> (cw_db w)) of
             Inl e \<Rightarrow> (Inl e, w)
           | Inr (created, d) \<Rightarrow>
               (Inr (mapMasterToItem created),
                w\<lparr>cw_db := d, activeMastersMap := (activeMastersMap w)(mtr_userId created \<mapsto> mtr_id created),
                  activeMastersSet := sadd (saddReply env) [mtr_userId created] (activeMastersSet w)\<rparr>)))"

definition getMasterTraders ::
  "nat option \<Rightarrow> nat option \<Rightarrow> ('a, 'o) copy_world \<Rightarrow> master_item list \<times> nat" where
  "getMasterTraders limit offset w =
     (let (items, total) = findMasters True limit offset (cw_db w) in (map mapMasterToItem items, total))"

section \<open>Balances\<close>

definition getMasterOrFollowerBalance ::
  "'a copy_env \<Rightarrow> uuid \<Rightarrow> string \<Rightarrow> ('a, 'o) copy_world \<Rightarrow> amount \<times> ('a, 'o) copy_world" where
  "getMasterOrFollowerBalance env userId currency w =
     (let cacheKey = masterBalance_key userId currency
      in (case (if cacheRead env = Replied then live (cw_cache w) (cp_now env) cacheKey else None) of
            Some cached \<Rightarrow> (cached, w)
          | None \<Rightarrow>
              (case getBalanceRpc env \<lparr>rq_userId = userId, rq_amount = [], rq_currency = currency,
                      rq_idempotencyKey = [], rq_referenceId = []\<rparr> (cw_accounts w) of
                 (Inl _, a) \<Rightarrow> (0, w\<lparr>cw_accounts := a\<rparr>)
               | (Inr response, a) \<Rightarrow>
                   let available = (case response of None \<Rightarrow> 0 | Some b \<Rightarrow> br_availableBalance b)
                   in (available,
                       w\<lparr>cw_accounts := a,
                         cw_cache :=
                           (if cacheWrite env = RequestLost then cw_cache w
                            else (cw_cache w)(cacheKey \<mapsto> (available, cp_now env + masterBalanceCacheTtlSeconds * 1000)))\<rparr>))))"

section \<open>Subscriptions\<close>

record create_subscription_request =
  cs_followerUserId :: uuid
  cs_masterId :: uuid
  cs_allocatedBalance :: amount
  cs_maxSlippagePercent :: "int option"

record subscription_item =
  si_id :: uuid
  si_followerUserId :: uuid
  si_masterId :: uuid
  si_allocatedBalance :: amount
  si_maxSlippagePercent :: int
  si_status :: subscription_status
  si_createdAt :: nat

definition mapSubToItem :: "copy_subscription \<Rightarrow> subscription_item" where
  "mapSubToItem s =
     \<lparr>si_id = sub_id s, si_followerUserId = followerUserId s, si_masterId = sub_masterId s,
      si_allocatedBalance = allocatedBalance s, si_maxSlippagePercent = maxSlippagePercent s,
      si_status = sub_status s, si_createdAt = sub_createdAt s div 1000\<rparr>"

text \<open>Mapping the result of an update that found no row raises.\<close>

definition item_or_undefined :: "copy_subscription option \<Rightarrow> subscription_item result" where
  "item_or_undefined row =
     (case row of None \<Rightarrow> Inl (PlainError ''UNDEFINED_VALUE'') | Some s \<Rightarrow> Inr (mapSubToItem s))"

definition current_allocation :: "copy_subscription option \<Rightarrow> copy_subscription list \<Rightarrow> amount" where
  "current_allocation existingSub activeSubs =
     foldl (\<lambda>currentAllocated sub.
       if existingSub \<noteq> None \<and> sub_id sub = sub_id (the existingSub) then currentAllocated
       else currentAllocated + allocatedBalance sub) 0 activeSubs"

definition store_subscription ::
  "'a copy_env \<Rightarrow> create_subscription_request \<Rightarrow> copy_subscription option \<Rightarrow> copy_db
   \<Rightarrow> (copy_subscription option \<times> copy_db) result" where
  "store_subscription env request existingSub db =
     (let maxSlippage = (case cs_maxSlippagePercent request of None \<Rightarrow> maxSlippagePercentDefault | Some p \<Rightarrow> p)
      in (case existingSub of
            Some s \<Rightarrow>
              reactivateSubscription (sub_id s) (cs_allocatedBalance request) maxSlippage (cp_now env) db
          | None \<Rightarrow>
              bindR (create_subscription_row
                \<lparr>sub_id = cp_newId env, followerUserId = cs_followerUserId request, sub_masterId = cs_masterId request,
                 allocatedBalance = cs_allocatedBalance request, maxSlippagePercent = maxSlippage, sub_status = ACTIVE,
                 sub_createdAt = cp_now env, sub_updatedAt = cp_now env\<rparr> db)
                (\<lambda>(created, d). Inr (Some created, d))))"

definition createSubscription ::
  "'a copy_env \<Rightarrow> create_subscription_request \<Rightarrow> ('a, 'o) copy_world \<Rightarrow> subscription_item result \<times> ('a, 'o) copy_world" where
  "createSubscription env request w =
     (case asked env FindMaster (findMasterById (cs_masterId request) (cw_db w)) of
        Inl e \<Rightarrow> (Inl e, w)
      | Inr None \<Rightarrow> (Inl (NotFoundException ''MASTER_NOT_FOUND''), w)
      | Inr (Some master) \<Rightarrow>
          if \<not> mtr_isActive master then (Inl (NotFoundException ''MASTER_NOT_FOUND''), w)
          else if cs_allocatedBalance request < minDeposit master
          then (Inl (BadRequestException ''INSUFFICIENT_DEPOSIT''), w)
          else
            (case asked env FindSubscription
                    (findByFollowerAndMaster (cs_followerUserId request) (cs_masterId request) (cw_db w)) of
               Inl e \<Rightarrow> (Inl e, w)
             | Inr existingSub \<Rightarrow>
                 if existingSub \<noteq> None \<and> sub_status (the existingSub) = ACTIVE
                 then (Inl (ConflictException ''SUBSCRIPTION_ALREADY_EXISTS''), w)
                 else
                   let (availableUsdt, w1) = getMasterOrFollowerBalance env (cs_followerUserId request) ''USDT'' w
                   in (case asked env FindActiveByFollower (findActiveByFollower (cs_followerUserId request) (cw_db w1)) of
                         Inl e \<Rightarrow> (Inl e, w1)
                       | Inr activeSubs \<Rightarrow>
                           if availableUsdt < current_allocation existingSub activeSubs + cs_allocatedBalance request
                           then (Inl (BadRequestException ''ALLOCATION_EXCEEDS_BALANCE''), w1)
                           else
                             (case wrote env WriteSubscription (store_subscription env request existingSub (cw_db w1)) of
                                Inl e \<Rightarrow> (Inl e, w1)
                              | Inr (subscription, d) \<Rightarrow>
                                  if answers env IncrementCopiers
                                  then (item_or_undefined subscription,
                                        w1\<lparr>cw_db := incrementCopiers (mtr_id master) 1 (cp_now env) d\<rparr>)
                                  else (Inl connection_lost, w1\<lparr>cw_db := d\<rparr>)))))"

definition cancelSubscription ::
  "'a copy_env \<Rightarrow> uuid \<Rightarrow> uuid \<Rightarrow> ('a, 'o) copy_world \<Rightarrow> subscription_item result \<times> ('a, 'o) copy_world" where
  "cancelSubscription env subscriptionId follower w =
     (case asked env FindSubscription (findSubscriptionById subscriptionId (cw_db w)) of
        Inl e \<Rightarrow> (Inl e, w)
      | Inr None \<Rightarrow> (Inl (NotFoundException ''SUBSCRIPTION_NOT_FOUND''), w)
      | Inr (Some sub) \<Rightarrow>
          if followerUserId sub \<noteq> follower then (Inl (NotFoundException ''SUBSCRIPTION_NOT_FOUND''), w)
          else if sub_status sub = TERMINATED then (Inr (mapSubToItem sub), w)
          else
            (case wrote env WriteSubscription (updateStatus (sub_id sub) TERMINATED (cp_now env) (cw_db w)) of
               Inl e \<Rightarrow> (Inl e, w)
             | Inr (updated, d) \<Rightarrow>
                 if answers env IncrementCopiers
                 then (item_or_undefined updated,
                       w\<lparr>cw_db := incrementCopiers (sub_masterId sub) (- 1) (cp_now env) d\<rparr>)
                 else (Inl connection_lost, w\<lparr>cw_db := d\<rparr>)))"

definition getSubscriptions :: "uuid \<Rightarrow> ('a, 'o) copy_world \<Rightarrow> subscription_item list" where
  "getSubscriptions follower w = map mapSubToItem (findByFollower follower (cw_db w))"

end
