(* ===== verification/Copy_Math.thy ===== *)
theory Copy_Math
  imports Contracts
begin

text \<open>
  The arithmetic of copy trading: the sizes of copied orders
  (\<open>apps/copy-trading/src/calculator/copy-ratio.calculator.ts\<close>), the protective price and the
  minimum lot (\<open>apps/copy-trading/src/risk/risk-guard.service.ts\<close>).

  The operands are amounts with eight decimals; a slippage is a percentage with two
  decimals, given in hundredths of a percent. This process leaves \<open>bignumber.js\<close> at its defaults:
  a quotient has twenty decimals and is rounded half up, sums and products are exact.
  After the definitions, bounds on the sizes they give.
\<close>

section \<open>The decimal library\<close>

text \<open>
  \<open>bn_dividedBy x y\<close> is the quotient in units of \<open>10 ^ (- 20)\<close>; \<open>bn_toFixed_down d x\<close> and
  \<open>bn_toFixed_up d x\<close> round a number given in units of \<open>10 ^ (- 8) / d\<close> to eight decimals.
\<close>

record bignumber_api =
  bn_dividedBy :: "int \<Rightarrow> int \<Rightarrow> int"
  bn_toFixed_down :: "int \<Rightarrow> int \<Rightarrow> int"
  bn_toFixed_up :: "int \<Rightarrow> int \<Rightarrow> int"

definition divides_half_up :: "(int \<Rightarrow> int \<Rightarrow> int) \<Rightarrow> bool" where
  "divides_half_up dv \<longleftrightarrow>
     (\<forall>x\<ge>0. \<forall>y>0. 0 \<le> dv x y \<and> 2 * (x * 10 ^ 20) - y \<le> 2 * (dv x y * y) \<and> 2 * (dv x y * y) \<le> 2 * (x * 10 ^ 20) + y)"

definition bignumber_ok :: "bignumber_api \<Rightarrow> bool" where
  "bignumber_ok bn \<longleftrightarrow>
     divides_half_up (bn_dividedBy bn)
     \<and> (\<forall>d>0. \<forall>x\<ge>0. bn_toFixed_down bn d x * d \<le> x \<and> x < (bn_toFixed_down bn d x + 1) * d)
     \<and> (\<forall>d>0. \<forall>x\<ge>0. (bn_toFixed_up bn d x - 1) * d < x \<and> x \<le> bn_toFixed_up bn d x * d)"

text \<open>A concrete instance, for the witnesses.\<close>

definition exact_bignumber :: bignumber_api where
  "exact_bignumber =
     \<lparr>bn_dividedBy = (\<lambda>x y. (2 * (x * 10 ^ 20) + y) div (2 * y)),
      bn_toFixed_down = (\<lambda>d x. x div d),
      bn_toFixed_up = (\<lambda>d x. - (- x div d))\<rparr>"

section \<open>Sizes\<close>

definition calculateBuyQuantity :: "bignumber_api \<Rightarrow> amount \<Rightarrow> amount \<Rightarrow> amount \<Rightarrow> amount" where
  "calculateBuyQuantity bn masterQty masterUsdt followerUsdt =
     (if masterUsdt \<le> 0 \<or> followerUsdt \<le> 0 \<or> masterQty \<le> 0 then 0
      else
        let ratio = bn_dividedBy bn followerUsdt masterUsdt;
            calculated = masterQty * ratio
        in bn_toFixed_down bn (10 ^ 20) calculated)"

definition calculateSellQuantity :: "bignumber_api \<Rightarrow> amount \<Rightarrow> amount \<Rightarrow> amount \<Rightarrow> amount" where
  "calculateSellQuantity bn masterSellQty masterBaseAsset followerSubPos =
     (if followerSubPos \<le> 0 \<or> masterBaseAsset \<le> 0 \<or> masterSellQty \<le> 0 then 0
      else
        let ratio = bn_dividedBy bn masterSellQty masterBaseAsset;
            rawCalculated = followerSubPos * ratio;
            capped = min rawCalculated (followerSubPos * 10 ^ 20)
        in bn_toFixed_down bn (10 ^ 20) capped)"

definition calculateSubPosition :: "bignumber_api \<Rightarrow> amount \<Rightarrow> amount \<Rightarrow> amount" where
  "calculateSubPosition bn buyTotal sellTotal =
     (let net = buyTotal - sellTotal in if net \<le> 0 then 0 else bn_toFixed_down bn 1 net)"

section \<open>Risk guard\<close>

text \<open>
  \<open>1 + slippage / 100\<close> is a multiple of \<open>10 ^ (- 4)\<close>, so the product with a price is a number of
  units of \<open>10 ^ (- 12)\<close>.
\<close>

definition calculateProtectedPrice :: "bignumber_api \<Rightarrow> amount \<Rightarrow> int \<Rightarrow> order_side \<Rightarrow> amount" where
  "calculateProtectedPrice bn basePrice slippage side =
     (case side of
        BUY \<Rightarrow> bn_toFixed_up bn (10 ^ 4) (basePrice * (10 ^ 4 + slippage))
      | SELL \<Rightarrow>
          let calculated = basePrice * (10 ^ 4 - slippage);
              safePrice = max calculated (10 ^ 4)
          in bn_toFixed_down bn (10 ^ 4) safePrice)"

type_synonym min_lots = "string \<Rightarrow> amount option"

definition default_minLots :: min_lots where
  "default_minLots = [''BTC_USDT'' \<mapsto> 10000, ''ETH_USDT'' \<mapsto> 100000]"

record min_lot_check =
  isDust :: bool
  mc_minLot :: amount
  mc_quantity :: amount

definition checkMinLot :: "min_lots \<Rightarrow> string \<Rightarrow> amount \<Rightarrow> min_lot_check" where
  "checkMinLot minLots pair quantity =
     (let minLot = (case minLots pair of None \<Rightarrow> 10000 | Some m \<Rightarrow> m)
      in \<lparr>isDust = (quantity < minLot \<or> quantity \<le> 0), mc_minLot = minLot, mc_quantity = quantity\<rparr>)"

definition setMinLot :: "string \<Rightarrow> amount \<Rightarrow> min_lots \<Rightarrow> min_lots" where
  "setMinLot pair minLot minLots = minLots(pair \<mapsto> minLot)"

section \<open>The library rounds as documented\<close>

lemma bignumber_okD:
  assumes "bignumber_ok bn"
  shows "0 \<le> x \<Longrightarrow> 0 < y \<Longrightarrow> 0 \<le> bn_dividedBy bn x y"
    and "0 \<le> x \<Longrightarrow> 0 < y \<Longrightarrow> 2 * (x * 10 ^ 20) - y \<le> 2 * (bn_dividedBy bn x y * y)"
    and "0 \<le> x \<Longrightarrow> 0 < y \<Longrightarrow> 2 * (bn_dividedBy bn x y * y) \<le> 2 * (x * 10 ^ 20) + y"
    and "0 < d \<Longrightarrow> 0 \<le> x \<Longrightarrow> bn_toFixed_down bn d x * d \<le> x"
    and "0 < d \<Longrightarrow> 0 \<le> x \<Longrightarrow> x < (bn_toFixed_down bn d x + 1) * d"
    and "0 < d \<Longrightarrow> 0 \<le> x \<Longrightarrow> (bn_toFixed_up bn d x - 1) * d < x"
    and "0 < d \<Longrightarrow> 0 \<le> x \<Longrightarrow> x \<le> bn_toFixed_up bn d x * d"
  using assms by (simp_all add: bignumber_ok_def divides_half_up_def)

lemma toFixed_down_unique: "bignumber_ok bn \<Longrightarrow> 0 < d \<Longrightarrow> 0 \<le> x \<Longrightarrow> bn_toFixed_down bn d x = x div d"
  using bignumber_okD(4,5) [of bn d x] int_div_pos_eq [of x d "bn_toFixed_down bn d x" "x - bn_toFixed_down bn d x * d"]
  by (simp add: algebra_simps)

lemma toFixed_up_unique:
  assumes "bignumber_ok bn" and "0 < d" and "0 \<le> x"
  shows "bn_toFixed_up bn d x = - (- x div d)"
proof -
  note b = bignumber_okD(6,7) [OF assms]
  have "- x div d = - bn_toFixed_up bn d x"
    by (rule int_div_pos_eq [where r = "bn_toFixed_up bn d x * d - x"]) (use b in \<open>simp_all add: algebra_simps\<close>)
  then show ?thesis by simp
qed

lemma exact_bignumber_ok: "bignumber_ok exact_bignumber"
proof -
  have dv: "divides_half_up (\<lambda>x y. (2 * (x * 10 ^ 20) + y) div (2 * y))"
    unfolding divides_half_up_def
  proof (intro allI impI)
    fix x y :: int
    assume x: "0 \<le> x" and y: "0 < y"
    define q where "q = (2 * (x * 10 ^ 20) + y) div (2 * y)"
    have "q * (2 * y) \<le> 2 * (x * 10 ^ 20) + y" "2 * (x * 10 ^ 20) + y < (q + 1) * (2 * y)"
      unfolding q_def using div_bounds [of "2 * y"] y by simp_all
    moreover have "0 \<le> q" unfolding q_def using x y by (intro pos_imp_zdiv_nonneg_iff [THEN iffD2]) auto
    ultimately show "0 \<le> q \<and> 2 * (x * 10 ^ 20) - y \<le> 2 * (q * y) \<and> 2 * (q * y) \<le> 2 * (x * 10 ^ 20) + y"
      by (simp add: algebra_simps)
  qed
  have "(- (- x div d) - 1) * d < x" and "x \<le> - (- x div d) * d" if "0 < d" for d x :: int
    using div_bounds [of d "- x"] that by (simp_all add: algebra_simps)
  with dv div_bounds show ?thesis by (simp add: bignumber_ok_def exact_bignumber_def)
qed

section \<open>Quotients\<close>

lemma toFixed_down_mono:
  assumes "bignumber_ok bn" and "0 < d" and "0 \<le> x" and "x \<le> y"
  shows "bn_toFixed_down bn d x \<le> bn_toFixed_down bn d y"
  using assms by (simp add: toFixed_down_unique zdiv_mono1)

text \<open>
  The product of an amount with a rounded quotient, cut to eight decimals, against the exact
  fraction; amounts up to \<open>10 ^ 20\<close> units, which are \<open>10 ^ 12\<close> coins.
\<close>

lemma rounded_ratio_bounds:
  assumes bn: "bignumber_ok bn" and m: "0 \<le> m" "m \<le> 10 ^ 20" and x: "0 \<le> x" and y: "0 < y"
  defines "q \<equiv> bn_toFixed_down bn (10 ^ 20) (m * bn_dividedBy bn x y)"
  shows "0 \<le> q" and "2 * (q * y) \<le> 2 * (m * x) + y" and "2 * (m * x) < 2 * (q * y) + 3 * y"
proof -
  define r where "r = bn_dividedBy bn x y"
  note dv = bignumber_okD(1-3) [OF bn x y, folded r_def]
  have mr: "0 \<le> m * r" using m dv by simp
  note fx = bignumber_okD(4,5) [OF bn _ mr, of "10 ^ 20"]
  have fx: "q * 10 ^ 20 \<le> m * r" "m * r < (q + 1) * 10 ^ 20" using fx by (simp_all add: q_def r_def)
  show "0 \<le> q" using fx(2) mr by (smt (verit) zero_less_mult_pos2 zero_less_power)
  have my: "0 \<le> m * y" "m * y \<le> 10 ^ 20 * y" using m y by (auto intro: mult_right_mono)
  have up: "2 * (m * r * y) \<le> 2 * (m * x) * 10 ^ 20 + m * y"
    using mult_left_mono [OF dv(3) m(1)] by (simp add: algebra_simps)
  have lo: "2 * (m * x) * 10 ^ 20 - m * y \<le> 2 * (m * r * y)"
    using mult_left_mono [OF dv(2) m(1)] by (simp add: algebra_simps)
  have "2 * (q * y) * 10 ^ 20 \<le> 2 * (m * r * y)"
    using mult_right_mono [OF fx(1), of "2 * y"] y by (simp add: algebra_simps)
  also have "\<dots> \<le> (2 * (m * x) + y) * 10 ^ 20" using up my by (simp add: algebra_simps)
  finally show "2 * (q * y) \<le> 2 * (m * x) + y" by (simp del: power_numeral)
  have strict: "2 * (m * r * y) < 2 * ((q + 1) * y) * 10 ^ 20"
    using mult_strict_right_mono [OF fx(2), of "2 * y"] y by (simp add: algebra_simps)
  have "2 * (m * x) * 10 ^ 20 \<le> 2 * (m * r * y) + m * y" using lo by simp
  also have "\<dots> < 2 * ((q + 1) * y) * 10 ^ 20 + 10 ^ 20 * y"
    using strict my(2) by (rule add_less_le_mono)
  also have "\<dots> = (2 * (q * y) + 3 * y) * 10 ^ 20" by (simp add: algebra_simps)
  finally show "2 * (m * x) < 2 * (q * y) + 3 * y" by (simp del: power_numeral)
qed

lemma within_one_of_div:
  fixes y z q :: int
  assumes "0 < y" and "2 * (q * y) \<le> 2 * z + y" and "2 * z < 2 * (q * y) + 3 * y"
  shows "\<bar>q - z div y\<bar> \<le> 1"
proof -
  have "z div y * y \<le> z" "z < (z div y + 1) * y" using div_bounds [OF assms(1)] by simp_all
  with assms have "2 * (q * y) < 2 * ((z div y + 2) * y)" "2 * (z div y * y) < 2 * ((q + 2) * y)"
    by (simp_all add: algebra_simps)
  then have "q < z div y + 2" "z div y < q + 2" using assms(1) by (simp_all add: mult_less_cancel_right)
  then show ?thesis by simp
qed

section \<open>Sizes\<close>

lemma sell_quantity_bounds:
  assumes "bignumber_ok bn"
  shows "0 \<le> calculateSellQuantity bn m base pos \<and> calculateSellQuantity bn m base pos \<le> max 0 pos"
proof (cases "pos \<le> 0 \<or> base \<le> 0 \<or> m \<le> 0")
  case False
  let ?x = "min (pos * bn_dividedBy bn m base) (pos * 10 ^ 20)"
  have x: "0 \<le> ?x" "?x \<le> pos * 10 ^ 20" using False bignumber_okD(1) [OF assms, of m base] by simp_all
  have "bn_toFixed_down bn (10 ^ 20) ?x = ?x div 10 ^ 20" by (rule toFixed_down_unique) (use assms x in auto)
  moreover have "?x div 10 ^ 20 \<le> pos * 10 ^ 20 div 10 ^ 20" using x by (intro zdiv_mono1) simp_all
  moreover have "0 \<le> ?x div 10 ^ 20" using x by (simp add: pos_imp_zdiv_nonneg_iff)
  ultimately show ?thesis using False by (simp add: calculateSellQuantity_def Let_def)
qed (auto simp: calculateSellQuantity_def)

lemma buy_quantity_bounds:
  assumes "bignumber_ok bn" and "0 < m" "m \<le> 10 ^ 20" and "0 < M" and "0 < f"
  shows "0 \<le> calculateBuyQuantity bn m M f"
    and "2 * (calculateBuyQuantity bn m M f * M) \<le> 2 * (m * f) + M"
    and "2 * (m * f) < 2 * (calculateBuyQuantity bn m M f * M) + 3 * M"
  using rounded_ratio_bounds [OF assms(1) _ assms(3), of f M] assms by (simp_all add: calculateBuyQuantity_def Let_def)

lemma buy_quantity_nonneg: "bignumber_ok bn \<Longrightarrow> 0 \<le> calculateBuyQuantity bn m M f"
  using bignumber_okD(1) [of bn f M] toFixed_down_unique [of bn "10 ^ 20" "m * bn_dividedBy bn f M"]
  by (simp add: calculateBuyQuantity_def Let_def pos_imp_zdiv_nonneg_iff)

lemma sub_position: "bignumber_ok bn \<Longrightarrow> calculateSubPosition bn b s = max 0 (b - s)"
  by (simp add: calculateSubPosition_def Let_def toFixed_down_unique)

section \<open>Properties\<close>

text \<open>
  Copied orders follow the ratios they are computed from. A copied purchase is the master's
  quantity times the follower's allocation over the master's balance, within one unit of the eighth
  decimal, for quantities up to \<open>10 ^ 12\<close> coins; a copied sale is never negative and never more than
  the follower's position, which is what the follower has bought less what it has sold.
\<close>

theorem copied_sizes_follow_ratio:
  assumes "bignumber_ok bn" and "0 < m" and "m \<le> 10 ^ 20" and "0 < M" and "0 < f"
  shows "\<bar>calculateBuyQuantity bn m M f - m * f div M\<bar> \<le> 1
    \<and> 0 \<le> calculateSellQuantity bn m M (calculateSubPosition bn bought sold)
    \<and> calculateSellQuantity bn m M (calculateSubPosition bn bought sold) \<le> max 0 (bought - sold)"
  using within_one_of_div [OF assms(4) buy_quantity_bounds(2,3) [OF assms]] sell_quantity_bounds [OF assms(1), of m M "max 0 (bought - sold)"]
  by (simp add: sub_position [OF assms(1)])

theorem copied_sizes_follow_ratio_witness:
  "\<bar>calculateBuyQuantity exact_bignumber 200000000 300000000 100000000 - 66666666\<bar> \<le> 1
    \<and> calculateSellQuantity exact_bignumber 200000000 300000000 (calculateSubPosition exact_bignumber 9 2) \<le> 7"
  using copied_sizes_follow_ratio [OF exact_bignumber_ok, of 200000000 300000000 100000000 9 2] by simp

text \<open>
  What a copied purchase costs, at the master's price, against the allocation of the follower.
  If the balance of the master covers the master's own trade, the cost stays within the
  allocation, up to half a unit of the quantity. But the balance is read after the trade, when the
  master has already paid: as soon as what is left is less than what the trade cost (beyond
  rounding), the copy costs more than the follower has allocated.
\<close>

theorem copied_cost_against_allocation:
  assumes "bignumber_ok bn" and "0 < m" and "m \<le> 10 ^ 20" and "0 < M" and "0 < f" and "0 < p"
  defines "cost \<equiv> calculateBuyQuantity bn m M f * p"
  shows "(m * p \<le> M * 10 ^ 8 \<longrightarrow> 2 * cost \<le> 2 * (f * 10 ^ 8) + p)
    \<and> (2 * (f * 10 ^ 8 * M) + 3 * (p * M) \<le> 2 * (m * p * f) \<longrightarrow> f * 10 ^ 8 < cost)"
proof (intro conjI impI)
  define q where "q = calculateBuyQuantity bn m M f"
  note b = buy_quantity_bounds(2,3) [OF assms(1-5), folded q_def]
  have up: "2 * (q * p) * M \<le> 2 * (m * p * f) + p * M"
    using mult_right_mono [OF b(1), of p] assms(6) by (simp add: algebra_simps)
  have lo: "2 * (m * p * f) < 2 * (q * p) * M + 3 * (p * M)"
    using mult_strict_right_mono [OF b(2) assms(6)] by (simp add: algebra_simps)
  {
    assume "m * p \<le> M * 10 ^ 8"
    then have "2 * (m * p * f) \<le> 2 * (M * 10 ^ 8 * f)" using mult_right_mono [of "m * p" "M * 10 ^ 8" f] assms(5) by simp
    with up have "2 * (q * p) * M \<le> (2 * (f * 10 ^ 8) + p) * M" by (simp add: algebra_simps)
    then show "2 * cost \<le> 2 * (f * 10 ^ 8) + p" using assms(4) by (simp add: cost_def q_def mult_le_cancel_right)
  next
    assume "2 * (f * 10 ^ 8 * M) + 3 * (p * M) \<le> 2 * (m * p * f)"
    with lo have "f * 10 ^ 8 * M < q * p * M" by (simp add: algebra_simps)
    then show "f * 10 ^ 8 < cost" using assms(4) by (simp add: cost_def q_def mult_less_cancel_right)
  }
qed

text \<open>A master with 1000 USDT buys for 900; a follower with 500 allocated pays 4500.\<close>

theorem copied_cost_against_allocation_witness:
  "(500 * 10 ^ 8) * 10 ^ 8 < calculateBuyQuantity exact_bignumber (9 * 10 ^ 8) (100 * 10 ^ 8) (500 * 10 ^ 8) * (100 * 10 ^ 8)"
  using copied_cost_against_allocation [OF exact_bignumber_ok, of "9 * 10 ^ 8" "100 * 10 ^ 8" "500 * 10 ^ 8" "100 * 10 ^ 8"]
  by simp

text \<open>
  The price of a copied order is protective and never worse than the slippage allows: a purchase
  is offered at least the master's price and, up to rounding, at most the slippage above it; a sale
  asks a positive price of at most the master's (one unit at least) and, up to rounding, at least
  the slippage below it.
\<close>

theorem protected_price_within_slippage:
  assumes "bignumber_ok bn" and "0 < p" and "0 \<le> slip"
  shows "p \<le> calculateProtectedPrice bn p slip BUY
    \<and> (calculateProtectedPrice bn p slip BUY - 1) * 10 ^ 4 < p * (10 ^ 4 + slip)
    \<and> 1 \<le> calculateProtectedPrice bn p slip SELL \<and> calculateProtectedPrice bn p slip SELL \<le> p
    \<and> p * (10 ^ 4 - slip) < (calculateProtectedPrice bn p slip SELL + 1) * 10 ^ 4"
proof -
  have x: "0 \<le> p * (10 ^ 4 + slip)" using assms by simp
  note up = bignumber_okD(6,7) [OF assms(1) _ x, of "10 ^ 4"]
  let ?s = "max (p * (10 ^ 4 - slip)) (10 ^ 4)"
  have s: "0 \<le> ?s" by simp
  have down: "bn_toFixed_down bn (10 ^ 4) ?s = ?s div 10 ^ 4" by (rule toFixed_down_unique [OF assms(1)]) simp_all
  have "p * 10 ^ 4 \<le> p * (10 ^ 4 + slip)" using assms by (intro mult_left_mono) simp_all
  with up have "p * 10 ^ 4 \<le> bn_toFixed_up bn (10 ^ 4) (p * (10 ^ 4 + slip)) * 10 ^ 4" by simp
  moreover have "?s \<le> p * 10 ^ 4" using assms mult_left_mono [of "10 ^ 4 - slip" "10 ^ 4" p] by simp
  then have "?s div 10 ^ 4 \<le> p" using zdiv_mono1 [of ?s "p * 10 ^ 4" "10 ^ 4"] by simp
  moreover have "1 \<le> ?s div 10 ^ 4" using zdiv_mono1 [of "10 ^ 4" ?s "10 ^ 4"] by simp
  moreover have "?s < (?s div 10 ^ 4 + 1) * 10 ^ 4" by (rule div_bounds) simp
  ultimately show ?thesis using up by (simp add: calculateProtectedPrice_def Let_def down [simplified])
qed

theorem protected_price_within_slippage_witness:
  "calculateProtectedPrice exact_bignumber 33333 150 SELL \<le> 33333"
  using protected_price_within_slippage [OF exact_bignumber_ok, of 33333 150] by simp

end
