(* ===== verification/Batches.thy ===== *)
theory Batches
  imports Prelude
begin

text \<open>
  The batch runner of the services (\<open>libs/common/src/utils/async.utils.ts\<close>): a list is cut
  into chunks, the tasks of a chunk run concurrently under \<open>Promise.allSettled\<close>, and a hook runs
  between chunks. A task is one step here; the order in which the tasks of a chunk take
  effect is an argument, the results are reported in the order of the items.
\<close>

section \<open>Chunks\<close>

function chunks :: "nat \<Rightarrow> 'a list \<Rightarrow> 'a list list" where
  "chunks n items = (if items = [] \<or> n = 0 then [] else take n items # chunks n (drop n items))"
  by pat_completeness auto
termination by (relation "measure (\<lambda>(n, items). length items)") auto

declare chunks.simps [simp del]

definition chunkArray :: "'a list \<Rightarrow> int \<Rightarrow> 'a list list result" where
  "chunkArray items chunkSize =
     (if chunkSize \<le> 0 then Inl (PlainError ''Chunk size must be greater than 0'')
      else Inr (chunks (nat chunkSize) items))"

lemma concat_chunks: "0 < n \<Longrightarrow> concat (chunks n items) = items"
  by (induction n items rule: chunks.induct) (subst chunks.simps, simp)

lemma chunk_sizes: "c \<in> set (chunks n items) \<Longrightarrow> c \<noteq> [] \<and> length c \<le> n"
proof (induction n items rule: chunks.induct)
  case (1 n items)
  from "1.prems" have ne: "\<not> (items = [] \<or> n = 0)" by (subst (asm) chunks.simps) (auto split: if_splits)
  with "1.prems" have "c = take n items \<or> c \<in> set (chunks n (drop n items))"
    by (subst (asm) chunks.simps) auto
  with "1.IH" [OF ne] ne show ?case by auto
qed

lemma chunks_single: "items \<noteq> [] \<Longrightarrow> length items \<le> n \<Longrightarrow> chunks n items = [items]"
  by (cases n) (simp_all add: chunks.simps [of _ items] chunks.simps [of _ "[]"])

section \<open>Running the tasks\<close>

text \<open>
  \<open>order\<close> lists the positions of a chunk as their tasks take effect; every task settles, with a
  value or with an error, whatever became of the others.
\<close>

fun settle_in_order ::
  "('a \<Rightarrow> 's \<Rightarrow> 'b result \<times> 's) \<Rightarrow> 'a list \<Rightarrow> nat list \<Rightarrow> 's \<Rightarrow> (nat \<times> 'b result) list \<times> 's" where
  "settle_in_order task items [] s = ([], s)"
| "settle_in_order task items (i # ks) s =
     (let (r, s1) = task (items ! i) s;
          (rs, s2) = settle_in_order task items ks s1
      in ((i, r) # rs, s2))"

definition allSettled ::
  "('a \<Rightarrow> 's \<Rightarrow> 'b result \<times> 's) \<Rightarrow> (nat \<Rightarrow> nat list) \<Rightarrow> 'a list \<Rightarrow> 's \<Rightarrow> 'b result list \<times> 's" where
  "allSettled task order items s =
     (let (rs, s') = settle_in_order task items (order (length items)) s
      in (map (\<lambda>i. the (map_of rs i)) [0..<length items], s'))"

fun run_chunks ::
  "('a \<Rightarrow> 's \<Rightarrow> 'b result \<times> 's) \<Rightarrow> (nat \<Rightarrow> nat \<Rightarrow> nat list) \<Rightarrow> (nat \<Rightarrow> unit result) \<Rightarrow> nat \<Rightarrow> 'a list list \<Rightarrow> 's
   \<Rightarrow> 'b result list result \<times> 's" where
  "run_chunks task order onBatchComplete k [] s = (Inr [], s)"
| "run_chunks task order onBatchComplete k (batch # rest) s =
     (let (rs, s1) = allSettled task (order k) batch s
      in (case onBatchComplete k of
            Inl e \<Rightarrow> (Inl e, s1)
          | Inr _ \<Rightarrow>
              (let (more, s2) = run_chunks task order onBatchComplete (Suc k) rest s1
               in (bindR more (\<lambda>xs. Inr (rs @ xs)), s2))))"

definition executeInBatches ::
  "'a list \<Rightarrow> int \<Rightarrow> ('a \<Rightarrow> 's \<Rightarrow> 'b result \<times> 's) \<Rightarrow> (nat \<Rightarrow> nat \<Rightarrow> nat list) \<Rightarrow> (nat \<Rightarrow> unit result) \<Rightarrow> 's
   \<Rightarrow> 'b result list result \<times> 's" where
  "executeInBatches items batchSize task order onBatchComplete s =
     (case chunkArray items batchSize of
        Inl e \<Rightarrow> (Inl e, s)
      | Inr batches \<Rightarrow> run_chunks task order onBatchComplete 0 batches s)"

text \<open>Every position of a chunk takes effect once.\<close>

definition complete_order :: "(nat \<Rightarrow> nat \<Rightarrow> nat list) \<Rightarrow> bool" where
  "complete_order order \<longleftrightarrow> (\<forall>k n. distinct (order k n) \<and> set (order k n) = {0..<n})"

lemma complete_orderD: "complete_order order \<Longrightarrow> distinct (order k n) \<and> set (order k n) = {0..<n}"
  by (simp add: complete_order_def)

section \<open>Reasoning about a run\<close>

text \<open>What every task keeps, the run keeps.\<close>

lemma settle_in_order_keeps:
  assumes "\<And>x s. x \<in> set items \<Longrightarrow> P s \<Longrightarrow> P (snd (task x s))" and "set ks \<subseteq> {0..<length items}" and "P s"
  shows "P (snd (settle_in_order task items ks s))"
  using assms(2,3)
proof (induction ks arbitrary: s)
  case (Cons i ks)
  then have "P (snd (task (items ! i) s))" by (intro assms(1)) auto
  with Cons show ?case by (simp add: split_beta)
qed simp

lemma allSettled_keeps:
  assumes "\<And>x s. x \<in> set items \<Longrightarrow> P s \<Longrightarrow> P (snd (task x s))" and "set (order (length items)) = {0..<length items}"
    and "P s"
  shows "P (snd (allSettled task order items s))"
proof -
  have "P (snd (settle_in_order task items (order (length items)) s))"
    by (rule settle_in_order_keeps) (use assms in auto)
  then show ?thesis by (simp add: allSettled_def split_beta)
qed

lemma run_chunks_keeps:
  assumes "\<And>x s. x \<in> set (concat batches) \<Longrightarrow> P s \<Longrightarrow> P (snd (task x s))" and "complete_order order" and "P s"
  shows "P (snd (run_chunks task order hook k batches s))"
  using assms(1,3)
proof (induction batches arbitrary: k s)
  case (Cons b rest)
  have "P (snd (allSettled task (order k) b s))"
    by (rule allSettled_keeps) (use Cons.prems complete_orderD [OF assms(2)] in auto)
  with Cons show ?case by (auto simp: split_beta split: sum.splits)
qed simp

theorem executeInBatches_keeps:
  assumes "\<And>x s. x \<in> set items \<Longrightarrow> P s \<Longrightarrow> P (snd (task x s))" and "complete_order order" and "P s"
  shows "P (snd (executeInBatches items n task order hook s))"
proof (cases "n \<le> 0")
  case False
  then have "concat (chunks (nat n) items) = items" by (intro concat_chunks) simp
  then have "P (snd (run_chunks task order hook 0 (chunks (nat n) items) s))"
    using assms by (intro run_chunks_keeps [where P = P]) (simp_all del: set_concat)
  with False show ?thesis by (simp add: executeInBatches_def chunkArray_def)
qed (use assms(3) in \<open>simp add: executeInBatches_def chunkArray_def\<close>)

text \<open>
  What one task establishes and no other destroys holds for every item at the end of a run whose
  hooks succeed.
\<close>

lemma settle_in_order_each:
  assumes est: "\<And>x s. x \<in> set items \<Longrightarrow> I s \<Longrightarrow> I (snd (task x s)) \<and> Q x (snd (task x s))"
    and mono: "\<And>x y s. x \<in> set items \<Longrightarrow> y \<in> set seen \<union> set items \<Longrightarrow> I s \<Longrightarrow> Q y s \<Longrightarrow> Q y (snd (task x s))"
    and "set ks \<subseteq> {0..<length items}" and "I s" and "\<forall>y\<in>set seen. Q y s"
  shows "I (snd (settle_in_order task items ks s))
    \<and> (\<forall>y\<in>set seen \<union> (\<lambda>i. items ! i) ` set ks. Q y (snd (settle_in_order task items ks s)))"
  using assms(3-) mono
proof (induction ks arbitrary: s seen)
  case (Cons i ks)
  let ?s = "snd (task (items ! i) s)"
  have i: "items ! i \<in> set items" using Cons.prems(1) by simp
  have "I ?s" and "\<forall>y\<in>set (items ! i # seen). Q y ?s"
    using est [OF i Cons.prems(2)] Cons.prems(2-4) i by auto
  moreover have "\<And>x y s. x \<in> set items \<Longrightarrow> y \<in> set (items ! i # seen) \<union> set items \<Longrightarrow> I s \<Longrightarrow> Q y s \<Longrightarrow> Q y (snd (task x s))"
    using Cons.prems(4) i by auto
  moreover have "set ks \<subseteq> {0..<length items}" using Cons.prems(1) by simp
  ultimately show ?case
    using Cons.IH [of ?s "items ! i # seen"] by (simp add: split_beta)
qed simp

lemma run_chunks_each:
  assumes "\<And>x s. x \<in> set (concat batches) \<Longrightarrow> I s \<Longrightarrow> I (snd (task x s)) \<and> Q x (snd (task x s))"
    and "\<And>x y s. x \<in> set (concat batches) \<Longrightarrow> y \<in> set seen \<union> set (concat batches) \<Longrightarrow> I s \<Longrightarrow> Q y s \<Longrightarrow> Q y (snd (task x s))"
    and "complete_order order" and "I s" and "\<forall>y\<in>set seen. Q y s"
    and "run_chunks task order hook k batches s = (Inr rs, s')"
  shows "I s' \<and> (\<forall>y\<in>set seen \<union> set (concat batches). Q y s')"
  using assms(1,2,4-)
proof (induction batches arbitrary: k s seen rs)
  case (Cons b rest)
  let ?s = "snd (allSettled task (order k) b s)"
  have ord: "set (order k (length b)) = {0..<length b}" using assms(3) by (simp add: complete_order_def)
  have "I ?s \<and> (\<forall>y\<in>set seen \<union> (\<lambda>i. b ! i) ` set (order k (length b)). Q y ?s)"
    unfolding allSettled_def split_beta Let_def snd_conv
    by (rule settle_in_order_each [where I = I and Q = Q]) (use Cons.prems(1-4) ord in auto)
  moreover have "(\<lambda>i. b ! i) ` {0..<length b} = set b" by (auto simp: set_conv_nth image_iff)
  ultimately have s: "I ?s" "\<forall>y\<in>set (seen @ b). Q y ?s" using ord by auto
  from Cons.prems(5) obtain more where "run_chunks task order hook (Suc k) rest ?s = (Inr more, s')"
    by (auto simp: split_beta bind_simps split: sum.splits) (metis prod.collapse)
  from Cons.IH [OF _ _ s this] Cons.prems(1,2) show ?case by auto
qed simp

theorem executeInBatches_each:
  assumes "\<And>x s. x \<in> set items \<Longrightarrow> I s \<Longrightarrow> I (snd (task x s)) \<and> Q x (snd (task x s))"
    and "\<And>x y s. x \<in> set items \<Longrightarrow> y \<in> set items \<Longrightarrow> I s \<Longrightarrow> Q y s \<Longrightarrow> Q y (snd (task x s))"
    and "complete_order order" and "I s"
    and "executeInBatches items n task order hook s = (Inr rs, s')"
  shows "I s' \<and> (\<forall>y\<in>set items. Q y s')"
proof -
  have n: "0 < n" using assms(5) by (auto simp: executeInBatches_def chunkArray_def split: if_splits)
  then have c: "concat (chunks (nat n) items) = items" by (intro concat_chunks) simp
  have "run_chunks task order hook 0 (chunks (nat n) items) s = (Inr rs, s')"
    using assms(5) n by (simp add: executeInBatches_def chunkArray_def)
  then have "I s' \<and> (\<forall>y\<in>set [] \<union> set (concat (chunks (nat n) items)). Q y s')"
    using assms(1-4) by (intro run_chunks_each [where I = I and Q = Q]) (unfold c, auto)
  then show ?thesis by (simp only: c) simp
qed

end
