(* ===== verification/Copy_Replication.thy ===== *)
theory Copy_Replication
  imports Copy_Trading Copy_Math Batches Orders
begin

text \<open>
  Replication of a master's trades to the followers
  (\<open>apps/copy-trading/src/consumers/master-trade-replication.consumer.ts\<close>): a
  \<open>TRADE_EXECUTED\<close> event is copied, for each of its sides that belongs to an active master, to
  every active subscriber, under a lock per follower and with one order at the orders service each.

  The subscribers of a chunk are served concurrently. They belong to different followers (one
  subscription per follower and master), so what they touch in the database and in Valkey is
  disjoint, and each calls the orders service once: the order in which the tasks take effect is
  an argument, in which each task is one step.
\<close>

section \<open>Tasks\<close>

record replication_task =
  rt_masterId :: uuid
  rt_masterUserId :: uuid
  rt_side :: order_side
  masterPrice :: amount
  masterQuantity :: amount
  rt_pair :: string
  rt_tradeId :: uuid

text \<open>What one subscriber's copy meets.\<close>

record 'o task_env =
  lockToken :: uuid
  lockReply :: valkey_reply
  releaseReply :: valkey_reply
  lockedAt :: time
  releasedAt :: time
  positionAnswers :: bool
  placeOrder :: "create_order_request \<Rightarrow> 'o \<Rightarrow> order_item option result \<times> 'o"
  historyId :: uuid
  historyAnswers :: "copy_order_status \<Rightarrow> bool"

text \<open>
  What the handling of a message meets; the copies are indexed by side and subscription.
\<close>

record ('a, 'o) replication_env =
  re_service :: "order_side \<Rightarrow> 'a copy_env"
  re_bignumber :: bignumber_api
  re_minLots :: min_lots
  re_task :: "order_side \<Rightarrow> uuid \<Rightarrow> 'o task_env"
  re_order :: "order_side \<Rightarrow> nat \<Rightarrow> nat \<Rightarrow> nat list"
  re_heartbeat :: "order_side \<Rightarrow> nat \<Rightarrow> unit result"

section \<open>One subscriber\<close>

definition defaultLockTtlMs :: nat where
  "defaultLockTtlMs = 10000"

definition copy_key :: "uuid \<Rightarrow> uuid \<Rightarrow> string" where
  "copy_key trade follower = ''copy:'' @ trade @ '':'' @ follower"

definition target_quantity ::
  "bignumber_api \<Rightarrow> bool \<Rightarrow> copy_subscription \<Rightarrow> replication_task \<Rightarrow> amount \<Rightarrow> copy_db \<Rightarrow> amount result" where
  "target_quantity bn positionUp subscriber task masterBalance db =
     (case rt_side task of
        BUY \<Rightarrow> Inr (calculateBuyQuantity bn (masterQuantity task) masterBalance (allocatedBalance subscriber))
      | SELL \<Rightarrow>
          if positionUp
          then let (buyQty, sellQty) = getSubscriptionPosition (sub_id subscriber) (rt_pair task) db;
                   netPosition = calculateSubPosition bn buyQty sellQty
               in Inr (calculateSellQuantity bn (masterQuantity task) masterBalance netPosition)
          else Inl connection_lost)"

definition copy_order_request :: "copy_subscription \<Rightarrow> replication_task \<Rightarrow> amount \<Rightarrow> amount \<Rightarrow> create_order_request" where
  "copy_order_request subscriber task price quantity =
     \<lparr>co_userId = followerUserId subscriber, co_pair = rt_pair task, co_side = rt_side task, co_type = LIMIT,
      co_price = Some price, co_amount = Some quantity,
      co_idempotencyKey = copy_key (rt_tradeId task) (followerUserId subscriber)\<rparr>"

definition history_row ::
  "'o task_env \<Rightarrow> copy_subscription \<Rightarrow> replication_task \<Rightarrow> amount \<Rightarrow> amount \<Rightarrow> copy_order_status \<Rightarrow> uuid option
   \<Rightarrow> string option \<Rightarrow> copy_order" where
  "history_row te subscriber task quantity price status orderId reason =
     \<lparr>ch_id = historyId te, ch_subscriptionId = sub_id subscriber, masterTradeId = rt_tradeId task,
      followerOrderId = orderId, ch_pair = rt_pair task, masterSide = rt_side task,
      replicatedQuantity = quantity, replicatedPrice = price, ch_status = status, failureReason = reason,
      ch_createdAt = lockedAt te\<rparr>"

definition write_history :: "'o task_env \<Rightarrow> copy_order \<Rightarrow> copy_db \<Rightarrow> unit result \<times> copy_db" where
  "write_history te h db =
     (if historyAnswers te (ch_status h)
      then (case create_history h db of Inl e \<Rightarrow> (Inl e, db) | Inr (_, d) \<Rightarrow> (Inr (), d))
      else (Inl connection_lost, db))"

definition failure_text :: "exc \<Rightarrow> string" where
  "failure_text e = (let m = exc_message e in if m = [] then ''ORDER_SUBMISSION_FAILED'' else m)"

text \<open>
  Placing the order and recording it: an error of either, also of the recording, is recorded as
  a failed copy.
\<close>

definition place_copy ::
  "'o task_env \<Rightarrow> copy_subscription \<Rightarrow> replication_task \<Rightarrow> amount \<Rightarrow> amount \<Rightarrow> copy_db \<Rightarrow> 'o \<Rightarrow> unit result \<times> copy_db \<times> 'o" where
  "place_copy te subscriber task quantity price db s =
     (let failed = (\<lambda>e d. write_history te (history_row te subscriber task quantity price copy_order_status.FAILED None
                            (Some (failure_text e))) d)
      in (case placeOrder te (copy_order_request subscriber task price quantity) s of
            (Inl e, s1) \<Rightarrow> (let (r, d) = failed e db in (r, d, s1))
          | (Inr response, s1) \<Rightarrow>
              (case write_history te (history_row te subscriber task quantity price copy_order_status.COMPLETED
                       (map_option item_orderId response) None) db of
                 (Inr _, d) \<Rightarrow> (Inr (), d, s1)
               | (Inl e, d) \<Rightarrow> (let (r, d') = failed e d in (r, d', s1)))))"

text \<open>The steps under the lock.\<close>

definition replicate_locked ::
  "bignumber_api \<Rightarrow> min_lots \<Rightarrow> 'o task_env \<Rightarrow> replication_task \<Rightarrow> amount \<Rightarrow> copy_subscription \<Rightarrow> copy_db \<Rightarrow> 'o
   \<Rightarrow> unit result \<times> copy_db \<times> 'o" where
  "replicate_locked bn minLots te task masterBalance subscriber db s =
     (case target_quantity bn (positionAnswers te) subscriber task masterBalance db of
        Inl e \<Rightarrow> (Inl e, db, s)
      | Inr targetQuantity \<Rightarrow>
          if isDust (checkMinLot minLots (rt_pair task) targetQuantity)
          then (let (r, d) = write_history te (history_row te subscriber task targetQuantity (masterPrice task)
                                copy_order_status.SKIPPED None (Some ''BELOW_MIN_LOT'')) db
                in (r, d, s))
          else place_copy te subscriber task targetQuantity
                 (calculateProtectedPrice bn (masterPrice task) (maxSlippagePercent subscriber) (rt_side task)) db s)"

definition replicateForSubscriber ::
  "('a, 'o) replication_env \<Rightarrow> replication_task \<Rightarrow> amount \<Rightarrow> copy_subscription \<Rightarrow> ('a, 'o) copy_world
   \<Rightarrow> unit result \<times> ('a, 'o) copy_world" where
  "replicateForSubscriber env task masterBalance subscriber w =
     (let te = re_task env (rt_side task) (sub_id subscriber);
          lockKey = followerLock_key (followerUserId subscriber)
      in (case acquireLock (lockReply te) (lockToken te) (lockedAt te) lockKey defaultLockTtlMs (cw_locks w) of
            (None, locks) \<Rightarrow> (Inr (), w\<lparr>cw_locks := locks\<rparr>)
          | (Some tok, locks) \<Rightarrow>
              (let (r, d, s) = replicate_locked (re_bignumber env) (re_minLots env) te task masterBalance subscriber
                                 (cw_db w) (cw_orders w);
                   (_, locks') = releaseLock (releaseReply te) (releasedAt te) lockKey tok locks
               in (r, w\<lparr>cw_db := d, cw_orders := s, cw_locks := locks'\<rparr>))))"

section \<open>One side of a trade\<close>

definition followerBatchConcurrency :: int where
  "followerBatchConcurrency = 50"

definition replicateMasterTrade ::
  "('a, 'o) replication_env \<Rightarrow> replication_task \<Rightarrow> ('a, 'o) copy_world \<Rightarrow> unit result \<times> ('a, 'o) copy_world" where
  "replicateMasterTrade env task w =
     (let service = re_service env (rt_side task)
      in (case asked service FindActiveByMaster (findActiveByMaster (rt_masterId task) (cw_db w)) of
            Inl e \<Rightarrow> (Inl e, w)
          | Inr subscribers \<Rightarrow>
              if subscribers = [] then (Inr (), w)
              else
                let currency = (case rt_side task of BUY \<Rightarrow> ''USDT'' | SELL \<Rightarrow> symbol_base (rt_pair task));
                    (masterBalance, w1) = getMasterOrFollowerBalance service (rt_masterUserId task) currency w;
                    (rs, w2) = executeInBatches subscribers followerBatchConcurrency
                                 (replicateForSubscriber env task masterBalance) (re_order env (rt_side task))
                                 (re_heartbeat env (rt_side task)) w1
                in (bindR rs (\<lambda>_. Inr ()), w2)))"

section \<open>A message\<close>

definition side_task :: "trade_executed \<Rightarrow> order_side \<Rightarrow> uuid \<Rightarrow> replication_task" where
  "side_task trade side masterId =
     \<lparr>rt_masterId = masterId,
      rt_masterUserId = (case side of BUY \<Rightarrow> buyerUserId trade | SELL \<Rightarrow> sellerUserId trade),
      rt_side = side, masterPrice = trade_price trade, masterQuantity = trade_quantity trade,
      rt_pair = trade_symbol trade, rt_tradeId = tradeId trade\<rparr>"

definition side_tasks :: "trade_executed \<Rightarrow> uuid option \<Rightarrow> uuid option \<Rightarrow> replication_task list" where
  "side_tasks trade buyerMasterId sellerMasterId =
     (case buyerMasterId of None \<Rightarrow> [] | Some m \<Rightarrow> [side_task trade BUY m])
     @ (case sellerMasterId of None \<Rightarrow> [] | Some m \<Rightarrow> [side_task trade SELL m])"

fun replicate_sides ::
  "('a, 'o) replication_env \<Rightarrow> replication_task list \<Rightarrow> ('a, 'o) copy_world \<Rightarrow> unit result \<times> ('a, 'o) copy_world" where
  "replicate_sides env [] w = (Inr (), w)"
| "replicate_sides env (t # ts) w =
     (case replicateMasterTrade env t w of
        (Inl e, w1) \<Rightarrow> (Inl e, w1)
      | (Inr _, w1) \<Rightarrow> replicate_sides env ts w1)"

definition replicate_trade ::
  "('a, 'o) replication_env \<Rightarrow> trade_executed envelope \<Rightarrow> trade_executed \<Rightarrow> ('a, 'o) copy_world
   \<Rightarrow> unit result \<times> ('a, 'o) copy_world" where
  "replicate_trade env envl trade w =
     (let buyerMasterId = getActiveMasterId (buyerUserId trade) w;
          sellerMasterId = getActiveMasterId (sellerUserId trade) w;
          service = re_service env BUY
      in if buyerMasterId = None \<and> sellerMasterId = None then (Inr (), w)
         else
           (case asked service IsProcessed (isProcessed (env_eventId envl) (cw_db w)) of
              Inl e \<Rightarrow> (Inl e, w)
            | Inr True \<Rightarrow> (Inr (), w)
            | Inr False \<Rightarrow>
                (case replicate_sides env (side_tasks trade buyerMasterId sellerMasterId) w of
                   (Inl e, w1) \<Rightarrow> (Inl e, w1)
                 | (Inr _, w1) \<Rightarrow>
                     (case wrote service MarkProcessed (markProcessed
                             \<lparr>ce_eventId = env_eventId envl, ce_eventType = env_eventType envl,
                              ce_consumerGroup = ''copy-trading-replication-group'', ce_processedAt = cp_now service\<rparr>
                             (cw_db w1)) of
                        Inl e \<Rightarrow> (Inl e, w1)
                      | Inr d \<Rightarrow> (Inr (), w1\<lparr>cw_db := d\<rparr>)))))"

definition handleReplicationMessage ::
  "('a, 'o) replication_env \<Rightarrow> string option \<Rightarrow> trade_executed envelope option \<Rightarrow> ('a, 'o) copy_world
   \<Rightarrow> unit result \<times> ('a, 'o) copy_world" where
  "handleReplicationMessage env headerAction message w =
     (case message of
        None \<Rightarrow> (Inl (PlainError ''INVALID_EVENT_SCHEMA''), w)
      | Some envl \<Rightarrow>
          (case env_payload envl of
             None \<Rightarrow> (Inl (PlainError ''INVALID_EVENT_SCHEMA''), w)
           | Some trade \<Rightarrow>
               if env_eventId envl = [] then (Inl (PlainError ''INVALID_EVENT_SCHEMA''), w)
               else
                 let action = envelope_action envl headerAction
                 in if action \<noteq> [] \<and> action \<noteq> ''TRADE_EXECUTED'' then (Inr (), w)
                    else replicate_trade env envl trade w))"

end
