(* ===== verification/Copy_Inv.thy ===== *)
theory Copy_Inv
  imports Copy_Replication
begin

text \<open>
  The invariant of the copy trading database, its preservation by every operation, and the service
  as a transition system: requests, messages, restarts, and whatever happens at the other services,
  in any order and with any failures.
\<close>

section \<open>The invariant\<close>

definition subscriptions_ok :: "copy_db \<Rightarrow> bool" where
  "subscriptions_ok db \<longleftrightarrow>
     distinct (map mtr_id (masterTraders db)) \<and> distinct (map sub_id (copySubscriptions db))
     \<and> distinct (map (\<lambda>s. (followerUserId s, sub_masterId s)) (copySubscriptions db))
     \<and> sub_masterId ` set (copySubscriptions db) \<subseteq> mtr_id ` set (masterTraders db)"

definition history_ok :: "copy_db \<Rightarrow> bool" where
  "history_ok db \<longleftrightarrow>
     distinct (map (\<lambda>h. (ch_subscriptionId h, masterTradeId h)) (copyOrdersHistory db))
     \<and> (\<forall>s p. copied_total s p SELL db \<le> copied_total s p BUY db)"

definition copy_db_ok :: "copy_db \<Rightarrow> bool" where
  "copy_db_ok db \<longleftrightarrow> subscriptions_ok db \<and> history_ok db"

lemma copy_db_ok_empty: "copy_db_ok empty_copy_db"
  by (simp add: copy_db_ok_def subscriptions_ok_def history_ok_def copied_total_def empty_copy_db_def)

lemma subscriptions_ok_cong:
  "masterTraders d = masterTraders db \<Longrightarrow> copySubscriptions d = copySubscriptions db \<Longrightarrow> subscriptions_ok d = subscriptions_ok db"
  by (simp add: subscriptions_ok_def)

lemma history_ok_cong: "copyOrdersHistory d = copyOrdersHistory db \<Longrightarrow> history_ok d = history_ok db"
  by (simp add: history_ok_def copied_total_def)

lemma copy_db_ok_cong:
  "masterTraders d = masterTraders db \<Longrightarrow> copySubscriptions d = copySubscriptions db
   \<Longrightarrow> copyOrdersHistory d = copyOrdersHistory db \<Longrightarrow> copy_db_ok d = copy_db_ok db"
  unfolding copy_db_ok_def using subscriptions_ok_cong history_ok_cong by metis

section \<open>Masters and subscriptions\<close>

lemma create_master_Inr:
  assumes "create_master m db = Inr (x, d)"
  shows "x = m" and "d = db\<lparr>masterTraders := masterTraders db @ [m]\<rparr>" and "mtr_id m \<notin> mtr_id ` set (masterTraders db)"
    and "mtr_userId m \<notin> mtr_userId ` set (masterTraders db)"
  using assms by (auto simp: create_master_def split: if_splits)

lemma create_subscription_row_Inr:
  assumes "create_subscription_row s db = Inr (x, d)"
  shows "x = s" and "d = db\<lparr>copySubscriptions := copySubscriptions db @ [s]\<rparr>"
    and "sub_id s \<notin> sub_id ` set (copySubscriptions db)"
    and "(followerUserId s, sub_masterId s) \<notin> (\<lambda>x. (followerUserId x, sub_masterId x)) ` set (copySubscriptions db)"
    and "sub_masterId s \<in> mtr_id ` set (masterTraders db)"
  using assms by (auto simp: create_subscription_row_def findMasterById_def image_iff find_Some_iff split: if_splits)
    (metis nth_mem)

lemma update_subscription_Inr:
  assumes "update_subscription i f db = Inr (r, d)"
  shows "masterTraders d = masterTraders db" and "copyOrdersHistory d = copyOrdersHistory db"
    and "copyEvents d = copyEvents db"
    and "copySubscriptions d = update_rows (\<lambda>x. sub_id x = i) f (copySubscriptions db)"
    and "r = map_option f (findSubscriptionById i db)"
proof -
  have none: "findSubscriptionById i db = None \<Longrightarrow> update_rows (\<lambda>x. sub_id x = i) f (copySubscriptions db) = copySubscriptions db"
    by (intro update_rows_none) (auto simp: findSubscriptionById_def)
  with assms show "masterTraders d = masterTraders db" and "copyOrdersHistory d = copyOrdersHistory db"
    and "copyEvents d = copyEvents db"
    and "copySubscriptions d = update_rows (\<lambda>x. sub_id x = i) f (copySubscriptions db)"
    and "r = map_option f (findSubscriptionById i db)"
    by (auto simp: update_subscription_def split: option.splits if_splits)
qed

lemma update_subscription_ok:
  assumes "update_subscription i f db = Inr (r, d)" and "copy_db_ok db"
    and f: "\<And>s. sub_id (f s) = sub_id s \<and> followerUserId (f s) = followerUserId s \<and> sub_masterId (f s) = sub_masterId s"
  shows "copy_db_ok d"
proof -
  note u = update_subscription_Inr [OF assms(1)]
  have eq: "map sub_id (copySubscriptions d) = map sub_id (copySubscriptions db)"
    "map (\<lambda>s. (followerUserId s, sub_masterId s)) (copySubscriptions d) = map (\<lambda>s. (followerUserId s, sub_masterId s)) (copySubscriptions db)"
    "map sub_masterId (copySubscriptions d) = map sub_masterId (copySubscriptions db)"
    unfolding u(4) using f by (simp_all add: map_update_rows)
  have "sub_masterId ` set (copySubscriptions d) = sub_masterId ` set (copySubscriptions db)"
    using arg_cong [OF eq(3), of set] by simp
  then have "subscriptions_ok d"
    using assms(2) by (simp add: copy_db_ok_def subscriptions_ok_def eq u(1))
  with assms(2) history_ok_cong [OF u(2)] show ?thesis by (simp add: copy_db_ok_def)
qed

lemma incrementCopiers_ok:
  assumes "copy_db_ok db" shows "copy_db_ok (incrementCopiers m k now db)"
proof -
  have ids: "map mtr_id (masterTraders (incrementCopiers m k now db)) = map mtr_id (masterTraders db)"
    by (simp add: incrementCopiers_def map_update_rows)
  then have "mtr_id ` set (masterTraders (incrementCopiers m k now db)) = mtr_id ` set (masterTraders db)"
    by (metis list.set_map)
  with ids assms show ?thesis
    by (simp add: copy_db_ok_def subscriptions_ok_def history_ok_def copied_total_def)
      (simp add: incrementCopiers_def)
qed

lemma getBalance_db [simp]: "cw_db (snd (getMasterOrFollowerBalance env u c w)) = cw_db w"
  and getBalance_orders [simp]: "cw_orders (snd (getMasterOrFollowerBalance env u c w)) = cw_orders w"
  and getBalance_locks [simp]: "cw_locks (snd (getMasterOrFollowerBalance env u c w)) = cw_locks w"
  and getBalance_masters [simp]: "activeMastersMap (snd (getMasterOrFollowerBalance env u c w)) = activeMastersMap w"
  by (simp_all add: getMasterOrFollowerBalance_def Let_def split_beta split: option.splits sum.splits)

lemma store_subscription_ok:
  assumes "store_subscription env rq existing db = Inr (r, d)" and "copy_db_ok db"
  shows "copy_db_ok d"
proof (cases existing)
  case None
  then obtain s x where c: "create_subscription_row s db = Inr (x, d)"
    using assms(1) by (auto simp: store_subscription_def Let_def bind_simps)
  note c = create_subscription_row_Inr [OF c]
  have "subscriptions_ok d" using assms(2) c(3-) by (auto simp: copy_db_ok_def subscriptions_ok_def c(2))
  moreover have "history_ok d" using assms(2) by (simp add: copy_db_ok_def history_ok_def copied_total_def c(2))
  ultimately show ?thesis by (simp add: copy_db_ok_def)
next
  case (Some s)
  with assms(1) obtain slip where
    "update_subscription (sub_id s) (\<lambda>s. s\<lparr>sub_status := ACTIVE, allocatedBalance := cs_allocatedBalance rq,
       maxSlippagePercent := slip, sub_updatedAt := cp_now env\<rparr>) db = Inr (r, d)"
    by (auto simp: store_subscription_def Let_def reactivateSubscription_def)
  from update_subscription_ok [OF this assms(2)] show ?thesis by simp
qed

lemma createSubscription_ok:
  assumes "copy_db_ok (cw_db w)" shows "copy_db_ok (cw_db (snd (createSubscription env rq w)))"
  using assms
  by (auto simp: createSubscription_def asked_def wrote_def split_beta Let_def
      dest: store_subscription_ok incrementCopiers_ok split: sum.splits option.splits prod.splits if_splits)

lemma cancelSubscription_ok:
  assumes "copy_db_ok (cw_db w)" shows "copy_db_ok (cw_db (snd (cancelSubscription env i u w)))"
proof -
  have "copy_db_ok d" if "updateStatus j st now (cw_db w) = Inr (r, d)" for j st now r d
    using update_subscription_ok [OF that [unfolded updateStatus_def] assms] by simp
  with assms show ?thesis
    by (auto simp: cancelSubscription_def asked_def wrote_def split_beta Let_def
        intro: incrementCopiers_ok split: sum.splits option.splits prod.splits if_splits)
qed

lemma registerMaster_ok:
  assumes "copy_db_ok (cw_db w)" shows "copy_db_ok (cw_db (snd (registerMaster env rq w)))"
proof -
  have "copy_db_ok d" if "create_master m (cw_db w) = Inr (x, d)" for m x d
    using assms create_master_Inr [OF that]
    by (auto simp: copy_db_ok_def subscriptions_ok_def history_ok_def copied_total_def)
  with assms show ?thesis
    by (auto simp: registerMaster_def asked_def wrote_def split_beta Let_def
        split: sum.splits option.splits prod.splits if_splits)
qed

section \<open>Copied orders\<close>

lemma copied_total_snoc:
  "copied_total s p side (db\<lparr>copyOrdersHistory := copyOrdersHistory db @ [h]\<rparr>) = copied_total s p side db
     + (if ch_subscriptionId h = s \<and> ch_pair h = p \<and> ch_status h = copy_order_status.COMPLETED \<and> masterSide h = side
        then replicatedQuantity h else 0)"
  by (simp add: copied_total_def)

lemma create_history_cases:
  assumes "create_history h db = Inr (r, d)"
  obtains "r = None" and "d = db" | "r = Some h" and "d = db\<lparr>copyOrdersHistory := copyOrdersHistory db @ [h]\<rparr>"
    and "(ch_subscriptionId h, masterTradeId h) \<notin> (\<lambda>x. (ch_subscriptionId x, masterTradeId x)) ` set (copyOrdersHistory db)"
  using assms by (auto simp: create_history_def split: if_splits)

text \<open>Writing a row keeps the invariant if a completed sale is covered by the position.\<close>

definition covered_row :: "copy_order \<Rightarrow> copy_db \<Rightarrow> bool" where
  "covered_row h db \<longleftrightarrow>
     0 \<le> replicatedQuantity h
     \<and> (masterSide h = SELL \<and> ch_status h = copy_order_status.COMPLETED
        \<longrightarrow> copied_total (ch_subscriptionId h) (ch_pair h) SELL db + replicatedQuantity h
              \<le> copied_total (ch_subscriptionId h) (ch_pair h) BUY db)"

lemma create_history_ok:
  assumes c: "create_history h db = Inr (r, d)" and "copy_db_ok db" and "covered_row h db"
  shows "copy_db_ok d"
  using c
proof (cases rule: create_history_cases)
  case 2
  have "history_ok d"
    using assms(2,3) 2(3) by (auto simp: 2(2) history_ok_def copied_total_snoc covered_row_def copy_db_ok_def
        intro: order_trans add_increasing2)
  moreover have "subscriptions_ok d" using assms(2) by (simp add: 2(2) subscriptions_ok_def copy_db_ok_def)
  ultimately show ?thesis by (simp add: copy_db_ok_def)
qed (use assms(2) in simp)

lemma write_history_ok:
  assumes "copy_db_ok db" and "covered_row h db"
  shows "copy_db_ok (snd (write_history te h db))"
  using assms by (auto simp: write_history_def dest: create_history_ok split: sum.splits)

lemma write_history_Inl [simp]: "write_history te h db = (Inl e, d) \<Longrightarrow> d = db"
  by (auto simp: write_history_def split: if_splits sum.splits prod.splits)

text \<open>The size of a copied sale is within the position.\<close>

lemma target_quantity_covered:
  assumes "bignumber_ok bn" and "target_quantity bn up x task bal db = Inr q" and "0 \<le> q"
    and "history_ok db" and "h = history_row te x task q price st oid reason"
  shows "covered_row h db"
proof -
  have "copied_total (sub_id x) (rt_pair task) SELL db \<le> copied_total (sub_id x) (rt_pair task) BUY db"
    using assms(4) by (simp add: history_ok_def)
  moreover have "rt_side task = SELL \<Longrightarrow>
    q \<le> max 0 (copied_total (sub_id x) (rt_pair task) BUY db - copied_total (sub_id x) (rt_pair task) SELL db)"
    using assms(2) sell_quantity_bounds [OF assms(1), of "masterQuantity task" bal
        "max 0 (copied_total (sub_id x) (rt_pair task) BUY db - copied_total (sub_id x) (rt_pair task) SELL db)"]
    by (auto simp: target_quantity_def getSubscriptionPosition_def sub_position [OF assms(1)] split: if_splits)
  ultimately show ?thesis using assms(3) by (auto simp: covered_row_def assms(5) history_row_def)
qed

lemma place_copy_ok:
  assumes "copy_db_ok db" and "\<And>st oid reason. covered_row (history_row te x task q price st oid reason) db"
  shows "copy_db_ok (fst (snd (place_copy te x task q price db s)))"
proof -
  have w: "copy_db_ok (snd (write_history te (history_row te x task q price st oid reason) db))" for st oid reason
    using assms by (rule write_history_ok)
  show ?thesis
  proof (cases "placeOrder te (copy_order_request x task price q) s")
    case (Pair r s1)
    show ?thesis
    proof (cases r)
      case (Inl e)
      with Pair w show ?thesis by (simp add: place_copy_def Let_def split_beta)
    next
      case (Inr oid)
      let ?h = "history_row te x task q price copy_order_status.COMPLETED (map_option item_orderId oid) None"
      obtain r1 d1 where wr: "write_history te ?h db = (r1, d1)" by fastforce
      show ?thesis
      proof (cases r1)
        case (Inl e)
        with wr have "d1 = db" by simp
        with Pair Inr wr Inl w show ?thesis by (simp add: place_copy_def Let_def split_beta)
      next
        case r1: (Inr u)
        have "copy_db_ok d1" using w [of copy_order_status.COMPLETED "map_option item_orderId oid" None] wr by simp
        with Pair Inr wr r1 show ?thesis by (simp add: place_copy_def Let_def split_beta)
      qed
    qed
  qed
qed

lemma replicate_locked_ok:
  assumes bn: "bignumber_ok bn" and ok: "copy_db_ok db"
  shows "copy_db_ok (fst (snd (replicate_locked bn lots te task bal x db s)))"
proof (cases "target_quantity bn (positionAnswers te) x task bal db")
  case (Inr q)
  have q: "0 \<le> q" using Inr buy_quantity_nonneg [OF bn] sell_quantity_bounds [OF bn]
    by (auto simp: target_quantity_def split: order_side.splits if_splits prod.splits)
  have "covered_row (history_row te x task q price st oid reason) db" for price st oid reason
    using target_quantity_covered [OF bn Inr q _ refl] ok by (simp add: copy_db_ok_def)
  note keep = write_history_ok [OF ok this, where te = te] place_copy_ok [OF ok this]
  show ?thesis
    using keep by (simp add: Inr replicate_locked_def Let_def split_beta)
qed (use ok in \<open>simp add: replicate_locked_def\<close>)

section \<open>Runs\<close>

lemma replicateForSubscriber_ok:
  assumes "bignumber_ok (re_bignumber env)" and "copy_db_ok (cw_db w)"
  shows "copy_db_ok (cw_db (snd (replicateForSubscriber env task bal x w)))"
proof -
  let ?te = "re_task env (rt_side task) (sub_id x)"
  note keep = replicate_locked_ok [OF assms, where lots = "re_minLots env" and te = ?te and task = task and bal = bal
      and x = x and s = "cw_orders w"]
  show ?thesis
    using keep assms(2) by (simp add: replicateForSubscriber_def Let_def split_beta split: option.splits)
qed

lemma replicateMasterTrade_ok:
  assumes "bignumber_ok (re_bignumber env)" and "complete_order (re_order env (rt_side task))" and "copy_db_ok (cw_db w)"
  shows "copy_db_ok (cw_db (snd (replicateMasterTrade env task w)))"
proof -
  have "copy_db_ok (cw_db (snd (executeInBatches subs n (replicateForSubscriber env task bal) (re_order env (rt_side task)) hook v)))"
    if "copy_db_ok (cw_db v)" for subs n bal hook v
    using executeInBatches_keeps [where P = "\<lambda>w. copy_db_ok (cw_db w)" and task = "replicateForSubscriber env task bal",
        OF replicateForSubscriber_ok [OF assms(1)] assms(2) that] by simp
  with assms(3) show ?thesis
    by (simp add: replicateMasterTrade_def Let_def split_beta split: sum.splits)
qed

lemma replicate_sides_ok:
  assumes "bignumber_ok (re_bignumber env)" and "\<And>side. complete_order (re_order env side)" and "copy_db_ok (cw_db w)"
  shows "copy_db_ok (cw_db (snd (replicate_sides env ts w)))"
  using assms(3)
proof (induction ts arbitrary: w)
  case (Cons t ts)
  obtain r w1 where run: "replicateMasterTrade env t w = (r, w1)" by fastforce
  then have "copy_db_ok (cw_db w1)" using replicateMasterTrade_ok [OF assms(1,2) Cons.prems] by (metis snd_conv)
  then show ?case using Cons.IH by (simp add: run split: sum.splits)
qed simp

lemma markProcessed_ok: "markProcessed e db = Inr d \<Longrightarrow> copy_db_ok db \<Longrightarrow> copy_db_ok d"
  by (auto simp: markProcessed_def split: if_splits intro: copy_db_ok_cong [THEN iffD2, of _ db])

lemma handleReplicationMessage_ok:
  assumes "bignumber_ok (re_bignumber env)" and "\<And>side. complete_order (re_order env side)" and "copy_db_ok (cw_db w)"
  shows "copy_db_ok (cw_db (snd (handleReplicationMessage env hdr msg w)))"
proof -
  have "copy_db_ok (cw_db (snd (replicate_trade env envl trade w)))" for envl trade
  proof -
    let ?m1 = "getActiveMasterId (buyerUserId trade) w" and ?m2 = "getActiveMasterId (sellerUserId trade) w"
    obtain r w1 where run: "replicate_sides env (side_tasks trade ?m1 ?m2) w = (r, w1)" by fastforce
    have w1: "copy_db_ok (cw_db w1)" using replicate_sides_ok [OF assms] run by (metis snd_conv)
    show ?thesis
      using run w1 assms(3)
      by (auto simp: replicate_trade_def Let_def asked_def wrote_def
          dest: markProcessed_ok split: sum.splits bool.splits if_splits)
  qed
  with assms(3) show ?thesis
    by (simp add: handleReplicationMessage_def Let_def split: option.splits)
qed

section \<open>The service as a transition system\<close>

text \<open>
  One step: a message, a request, the reading of the masters at start-up, or anything at all outside
  the database: restarts, expiring keys, other clients of the accounts and the orders service.
\<close>

inductive copy_step :: "('a, 'o) copy_world \<Rightarrow> ('a, 'o) copy_world \<Rightarrow> bool" where
  Message: "bignumber_ok (re_bignumber env) \<Longrightarrow> (\<And>side. complete_order (re_order env side))
    \<Longrightarrow> copy_step w (snd (handleReplicationMessage env hdr msg w))"
| Register: "copy_step w (snd (registerMaster env rq w))"
| Subscribe: "copy_step w (snd (createSubscription env srq w))"
| Cancel: "copy_step w (snd (cancelSubscription env i u w))"
| Preload: "copy_step w (preloadActiveMasters env w)"
| Outside: "copy_step w (w\<lparr>activeMastersMap := f, activeMastersSet := S, cw_cache := c, cw_locks := l, cw_accounts := a, cw_orders := x\<rparr>)"

lemma preloadActiveMasters_db [simp]: "cw_db (preloadActiveMasters env w) = cw_db w"
  by (simp add: preloadActiveMasters_def asked_def)

lemma copy_step_ok: "copy_step w w' \<Longrightarrow> copy_db_ok (cw_db w) \<Longrightarrow> copy_db_ok (cw_db w')"
proof (induction rule: copy_step.induct)
  case (Message env w hdr msg)
  then show ?case by (intro handleReplicationMessage_ok)
qed (simp_all add: registerMaster_ok createSubscription_ok cancelSubscription_ok)

lemma copy_run_ok: "copy_step\<^sup>*\<^sup>* w w' \<Longrightarrow> copy_db_ok (cw_db w) \<Longrightarrow> copy_db_ok (cw_db w')"
  by (induction rule: rtranclp_induct) (auto intro: copy_step_ok)

text \<open>
  C18: a follower never sells more through a subscription than it has bought through it. In every
  state the service can reach from a consistent database, through any requests, messages,
  redeliveries, restarts and failures, the copied sales of a subscription in a pair are at most the
  copied purchases, and a trade is recorded once per subscription.
\<close>

theorem copies_never_oversell:
  assumes "copy_step\<^sup>*\<^sup>* w w'" and "copy_db_ok (cw_db w)"
  shows "copied_total subscription pair SELL (cw_db w') \<le> copied_total subscription pair BUY (cw_db w')
    \<and> distinct (map (\<lambda>h. (ch_subscriptionId h, masterTradeId h)) (copyOrdersHistory (cw_db w')))"
  using copy_run_ok [OF assms] by (simp add: copy_db_ok_def history_ok_def)

end
