(* ===== verification/Copy_Claims.thy ===== *)
theory Copy_Claims
  imports Copy_Inv Settlement_Claims Reservations
begin

text \<open>
  What subscribing guarantees: the allocations of a follower fit into the balance the accounts
  service reports, and the number of copiers a master shows. The balance query is an interface,
  \<open>balance_source\<close>, which the accounts service is shown to provide.
\<close>

section \<open>The balance query\<close>

locale balance_source =
  fixes query :: "account_request \<Rightarrow> 'a \<Rightarrow> balance_response option result \<times> 'a"
    and spendable :: "'a \<Rightarrow> uuid \<Rightarrow> string \<Rightarrow> amount"
    and ok :: "'a \<Rightarrow> bool"
  assumes query_ok: "ok a \<Longrightarrow> ok (snd (query rq a))"
    and query_keeps: "ok a \<Longrightarrow> spendable (snd (query rq a)) u c = spendable a u c"
    and query_answer: "ok a \<Longrightarrow> query rq a = (Inr (Some b), a') \<Longrightarrow> rq_currency rq \<in> set SUPPORTED_CURRENCIES
      \<Longrightarrow> br_availableBalance b = spendable a (rq_userId rq) (rq_currency rq)"
    and spendable_nonneg: "ok a \<Longrightarrow> 0 \<le> spendable a u c"
begin

text \<open>With a cold cache the service never believes in more than there is.\<close>

lemma fresh_balance_bounded:
  assumes "ok (cw_accounts w)" and "getBalanceRpc env = query" and "c \<in> set SUPPORTED_CURRENCIES"
    and cold: "cacheRead env = Replied \<Longrightarrow> live (cw_cache w) (cp_now env) (masterBalance_key u c) = None"
  shows "fst (getMasterOrFollowerBalance env u c w) \<le> spendable (cw_accounts w) u c"
proof -
  let ?rq = "\<lparr>rq_userId = u, rq_amount = [], rq_currency = c, rq_idempotencyKey = [], rq_referenceId = []\<rparr>"
  obtain r a where q: "query ?rq (cw_accounts w) = (r, a)" by fastforce
  have "(if cacheRead env = Replied then live (cw_cache w) (cp_now env) (masterBalance_key u c) else None) = None"
    using cold by simp
  then show ?thesis
    using q spendable_nonneg [OF assms(1)] query_answer [OF assms(1), of ?rq _ a] assms(2,3)
    by (auto simp: getMasterOrFollowerBalance_def Let_def split: sum.splits option.splits)
qed

end

definition accounts_balance_query ::
  "(string \<Rightarrow> bool) \<Rightarrow> uuid \<Rightarrow> time \<Rightarrow> account_request \<Rightarrow> accounts_db \<Rightarrow> balance_response option result \<times> accounts_db" where
  "accounts_balance_query isUuid newId now rq db =
     (let (r, db') = accounts_rpc GetBalance None isUuid quiet_pg newId now rq db in (bindR r (\<lambda>b. Inr (Some b)), db'))"

definition spendable_funds :: "accounts_db \<Rightarrow> uuid \<Rightarrow> string \<Rightarrow> amount" where
  "spendable_funds db u c = fst (funds db (u, c))"

lemma findOrCreate_answer:
  assumes "findOrCreate quiet_pg i now u c db = (Inr a, d)"
  shows "availableBalance a = fst (funds db (u, c))"
proof (cases "findByUserAndCurrency u c db")
  case (Some b)
  then show ?thesis using assms by (simp add: findOrCreate_def funds_def balance_view_def)
next
  case None
  show ?thesis
  proof (cases "insert_account i u c now db")
    case (Inr ad)
    with assms None have "insert_account i u c now db = Inr (a, d)" by (auto simp: findOrCreate_def split: prod.splits)
    from insert_account_Inr(5) [OF this] None show ?thesis by (simp add: funds_def balance_view_def)
  qed (use assms None in \<open>auto simp: findOrCreate_def split: option.splits\<close>)
qed

lemma findOrCreate_solid:
  assumes "accounts_solid db" shows "accounts_solid (snd (findOrCreate quiet_pg i now u c db))"
proof -
  obtain r d where eq: "findOrCreate quiet_pg i now u c db = (r, d)" by fastforce
  have "accounts_inv d" "no_overdraft d"
    using assms findOrCreate_keeps [where pg = quiet_pg and db = db and newId = i and now = now and u = u and c = c]
    by (simp_all add: accounts_solid_def race_keeps_def eq)
  moreover have "\<forall>a\<in>set (accounts d). numeric_28_8 (availableBalance a) \<and> numeric_28_8 (lockedBalance a)"
    using findOrCreate_cases [OF eq]
  proof (elim disjE exE)
    fix a assume "insert_account i u c now (race1 quiet_pg db) = Inr (a, d)"
    then have ins: "insert_account i u c now db = Inr (a, d)" by simp
    from insert_account_Inr(1,5,6) [OF ins] assms show ?thesis by (simp add: accounts_solid_def)
  qed (use assms in \<open>simp_all add: accounts_solid_def\<close>)
  ultimately show ?thesis by (simp add: eq accounts_solid_def)
qed

lemma accounts_balance_query_eq:
  "accounts_balance_query isUuid i now rq db =
     (case (if rq_userId rq = [] \<or> \<not> isUuid (rq_userId rq) then Inl (BadRequestException ''INVALID_USER_ID'')
            else normalizeCurrency (rq_currency rq)) of
        Inl e \<Rightarrow> (Inl e, db)
      | Inr c \<Rightarrow> (bindR (fst (findOrCreate quiet_pg i now (rq_userId rq) c db)) (\<lambda>a. Inr (Some (mapToBalanceResponse a))),
                  snd (findOrCreate quiet_pg i now (rq_userId rq) c db)))"
  by (cases "normalizeCurrency (rq_currency rq)"; cases "findOrCreate quiet_pg i now (rq_userId rq) (projr (normalizeCurrency (rq_currency rq))) db";
      cases "fst (findOrCreate quiet_pg i now (rq_userId rq) (projr (normalizeCurrency (rq_currency rq))) db)")
    (simp_all add: accounts_balance_query_def accounts_rpc_def getBalance_def validateUserId_def)

interpretation accounts_balance: balance_source "accounts_balance_query isUuid newId now" spendable_funds accounts_solid
proof unfold_locales
  fix rq a u c
  assume ok: "accounts_solid a"
  then show "accounts_solid (snd (accounts_balance_query isUuid newId now rq a))"
    by (simp add: accounts_balance_query_eq findOrCreate_solid split: sum.split)
  show "spendable_funds (snd (accounts_balance_query isUuid newId now rq a)) u c = spendable_funds a u c"
    by (simp add: accounts_balance_query_eq findOrCreate_funds spendable_funds_def split: sum.split)
  show "0 \<le> spendable_funds a u c"
    using ok
    by (auto simp: spendable_funds_def funds_def balance_view_def accounts_solid_def no_overdraft_def
        split: option.splits dest!: findByUserAndCurrency_Some)
next
  fix rq a b a'
  assume q: "accounts_balance_query isUuid newId now rq a = (Inr (Some b), a')"
    and c: "rq_currency rq \<in> set SUPPORTED_CURRENCIES"
  have "\<forall>c\<in>set SUPPORTED_CURRENCIES. normalizeCurrency c = Inr c" by code_simp
  with c have n: "normalizeCurrency (rq_currency rq) = Inr (rq_currency rq)" by blast
  obtain r d where f: "findOrCreate quiet_pg newId now (rq_userId rq) (rq_currency rq) a = (r, d)" by fastforce
  from q n f obtain x where "r = Inr x" "b = mapToBalanceResponse x"
    by (cases r) (auto simp: accounts_balance_query_eq split: if_splits)
  with findOrCreate_answer f show "br_availableBalance b = spendable_funds a (rq_userId rq) (rq_currency rq)"
    by (simp add: spendable_funds_def mapToBalanceResponse_def)
qed

section \<open>Allocations\<close>

lemma filter_key_single:
  "distinct (map k xs) \<Longrightarrow> x \<in> set xs \<Longrightarrow> filter (\<lambda>y. k y = k x) xs = [x]"
proof (induction xs)
  case (Cons y ys)
  then show ?case by (cases "y = x") (auto simp: filter_empty_conv image_iff)
qed simp

definition allocated :: "uuid \<Rightarrow> copy_db \<Rightarrow> amount" where
  "allocated follower db = sum_list (map allocatedBalance (findActiveByFollower follower db))"

lemma sum_list_filter_if: "sum_list (map v (filter P xs)) = sum_list (map (\<lambda>x. if P x then v x else (0::int)) xs)"
  by (induction xs) simp_all

lemma allocated_sum:
  "allocated u db = sum_list (map (\<lambda>s. if followerUserId s = u \<and> sub_status s = ACTIVE then allocatedBalance s else 0)
     (copySubscriptions db))"
  by (simp add: allocated_def findActiveByFollower_def sum_list_filter_if)

lemma allocated_incrementCopiers [simp]: "allocated u (incrementCopiers m k now db) = allocated u db"
  by (simp add: allocated_sum incrementCopiers_def)

text \<open>The sum the guard computes: an inactive subscription adds nothing to it.\<close>

lemma current_allocation_sum:
  assumes "\<forall>s\<in>set subs. \<forall>x. ex = Some x \<longrightarrow> sub_id s \<noteq> sub_id x"
  shows "foldl (\<lambda>acc s. if ex \<noteq> None \<and> sub_id s = sub_id (the ex) then acc else acc + allocatedBalance s) k subs
    = k + sum_list (map allocatedBalance subs)"
  using assms by (induction subs arbitrary: k) auto

lemma inactive_not_counted:
  assumes "copy_db_ok db" and "findByFollowerAndMaster u m db = ex" and "ex \<noteq> None \<longrightarrow> sub_status (the ex) \<noteq> ACTIVE"
  shows "current_allocation ex (findActiveByFollower u db) = allocated u db"
proof -
  have "sub_id s \<noteq> sub_id x" if "s \<in> set (findActiveByFollower u db)" and "ex = Some x" for s x
  proof
    assume eq: "sub_id s = sub_id x"
    have "x \<in> set (copySubscriptions db)" using assms(2) that(2) by (auto simp: findByFollowerAndMaster_def)
    moreover have "s \<in> set (copySubscriptions db)" "sub_status s = ACTIVE" using that(1) by (auto simp: findActiveByFollower_def)
    ultimately have "s = x" using assms(1) eq distinct_key_eq by (auto simp: copy_db_ok_def subscriptions_ok_def)
    with assms(3) that(2) \<open>sub_status s = ACTIVE\<close> show False by simp
  qed
  then show ?thesis
    unfolding current_allocation_def allocated_def by (subst current_allocation_sum) auto
qed

lemma store_subscription_effect:
  assumes st: "store_subscription env rq ex db = Inr (row, d)" and ok: "copy_db_ok db"
    and ex: "findByFollowerAndMaster (cs_followerUserId rq) (cs_masterId rq) db = ex"
    and inactive: "ex \<noteq> None \<longrightarrow> sub_status (the ex) \<noteq> ACTIVE"
  obtains s where "row = Some s" and "s \<in> set (copySubscriptions d)" and "sub_status s = ACTIVE"
    and "followerUserId s = cs_followerUserId rq" and "sub_masterId s = cs_masterId rq"
    and "allocatedBalance s = cs_allocatedBalance rq"
    and "allocated (cs_followerUserId rq) d = allocated (cs_followerUserId rq) db + cs_allocatedBalance rq"
    and "masterTraders d = masterTraders db"
    and "copySubscriptions d = copySubscriptions db @ [s]
       \<or> (\<exists>x f. x \<in> set (copySubscriptions db) \<and> sub_status x \<noteq> ACTIVE \<and> s = f x \<and> sub_masterId x = sub_masterId s
            \<and> copySubscriptions d = update_rows (\<lambda>y. sub_id y = sub_id x) f (copySubscriptions db))"
proof (cases ex)
  case None
  define s where "s = \<lparr>sub_id = cp_newId env, followerUserId = cs_followerUserId rq, sub_masterId = cs_masterId rq,
    allocatedBalance = cs_allocatedBalance rq,
    maxSlippagePercent = (case cs_maxSlippagePercent rq of None \<Rightarrow> maxSlippagePercentDefault | Some p \<Rightarrow> p), sub_status = ACTIVE,
    sub_createdAt = cp_now env, sub_updatedAt = cp_now env\<rparr>"
  have s: "sub_status s = ACTIVE" "followerUserId s = cs_followerUserId rq" "sub_masterId s = cs_masterId rq"
    "allocatedBalance s = cs_allocatedBalance rq" by (simp_all add: s_def)
  obtain y where y: "create_subscription_row s db = Inr (y, d)" "row = Some y"
    using st None by (auto simp: store_subscription_def Let_def bind_simps s_def)
  note c = create_subscription_row_Inr [OF y(1)]
  have row: "row = Some s" using y(2) c(1) by simp
  show thesis by (rule that [OF row _ s]) (use s in \<open>auto simp: c(2) allocated_sum\<close>)
next
  case (Some x)
  define f :: "copy_subscription \<Rightarrow> copy_subscription" where "f = (\<lambda>s. s\<lparr>sub_status := ACTIVE, allocatedBalance := cs_allocatedBalance rq,
    maxSlippagePercent := (case cs_maxSlippagePercent rq of None \<Rightarrow> maxSlippagePercentDefault | Some p \<Rightarrow> p), sub_updatedAt := cp_now env\<rparr>)"
  have x: "x \<in> set (copySubscriptions db)" "followerUserId x = cs_followerUserId rq" "sub_masterId x = cs_masterId rq"
    using ex Some by (auto simp: findByFollowerAndMaster_def)
  have d: "distinct (map sub_id (copySubscriptions db))" using ok by (simp add: copy_db_ok_def subscriptions_ok_def)
  have "update_subscription (sub_id x) f db = Inr (row, d)"
    using st Some by (simp add: store_subscription_def Let_def reactivateSubscription_def f_def)
  note u = update_subscription_Inr [OF this]
  have "findSubscriptionById (sub_id x) db = Some x"
    unfolding findSubscriptionById_def by (rule find_key_Some [OF d x(1)])
  with u(5) have row: "row = Some (f x)" by simp
  have fx: "sub_status (f x) = ACTIVE" "followerUserId (f x) = cs_followerUserId rq" "sub_masterId (f x) = cs_masterId rq"
    "allocatedBalance (f x) = cs_allocatedBalance rq" using x by (simp_all add: f_def)
  show thesis
  proof (rule that [OF row _ fx])
    show "f x \<in> set (copySubscriptions d)" using x(1) by (auto simp: u(4) set_update_rows)
    show "masterTraders d = masterTraders db" by (rule u(1))
    show "allocated (cs_followerUserId rq) d = allocated (cs_followerUserId rq) db + cs_allocatedBalance rq"
      using sum_update_row [OF d x(1), where f = f
          and v = "\<lambda>s. if followerUserId s = cs_followerUserId rq \<and> sub_status s = ACTIVE then allocatedBalance s else 0"]
        fx x inactive Some by (simp add: allocated_sum u(4))
    show "copySubscriptions d = copySubscriptions db @ [f x]
       \<or> (\<exists>y g. y \<in> set (copySubscriptions db) \<and> sub_status y \<noteq> ACTIVE \<and> f x = g y \<and> sub_masterId y = sub_masterId (f x)
            \<and> copySubscriptions d = update_rows (\<lambda>z. sub_id z = sub_id y) g (copySubscriptions db))"
      using x(1) inactive Some u(4) x(3) fx(3) by auto
  qed
qed

text \<open>A successful subscription, step by step.\<close>

lemma createSubscription_Inr:
  assumes run: "createSubscription env rq w = (Inr item, w')"
  obtains m ex bal w1 row d where "findMasterById (cs_masterId rq) (cw_db w) = Some m" and "mtr_isActive m"
    and "minDeposit m \<le> cs_allocatedBalance rq"
    and "findByFollowerAndMaster (cs_followerUserId rq) (cs_masterId rq) (cw_db w) = ex"
    and "ex \<noteq> None \<longrightarrow> sub_status (the ex) \<noteq> ACTIVE"
    and "getMasterOrFollowerBalance env (cs_followerUserId rq) ''USDT'' w = (bal, w1)"
    and "current_allocation ex (findActiveByFollower (cs_followerUserId rq) (cw_db w)) + cs_allocatedBalance rq \<le> bal"
    and "store_subscription env rq ex (cw_db w) = Inr (row, d)"
    and "cw_db w' = incrementCopiers (mtr_id m) 1 (cp_now env) d" and "item_or_undefined row = Inr item"
    and "answers env IncrementCopiers"
proof -
  obtain bal w1 where b: "getMasterOrFollowerBalance env (cs_followerUserId rq) ''USDT'' w = (bal, w1)" by fastforce
  have db: "cw_db w1 = cw_db w" using getBalance_db [of env "cs_followerUserId rq" "''USDT''" w] b by simp
  show thesis
    using run b db that
    by (simp add: createSubscription_def asked_def wrote_def Let_def
        split: sum.splits option.splits if_splits prod.splits) force+
qed


end
