(* ===== verification/Copy_Counts.thy ===== *)
theory Copy_Counts
  imports Copy_Claims
begin

text \<open>
  The number of copiers a master shows against its subscriptions. The two are written by separate
  statements without a transaction: the number is right exactly as long as both are answered.
\<close>

definition copiers :: "uuid \<Rightarrow> copy_db \<Rightarrow> int" where
  "copiers masterId db =
     sum_list (map (\<lambda>s. if sub_masterId s = masterId \<and> sub_status s = ACTIVE then 1 else 0) (copySubscriptions db))"

definition copiers_counted :: "copy_db \<Rightarrow> bool" where
  "copiers_counted db \<longleftrightarrow>
     (\<forall>s\<in>set (copySubscriptions db). sub_status s \<noteq> PAUSED)
     \<and> (\<forall>m\<in>set (masterTraders db). totalCopiers m = copiers (mtr_id m) db)"

lemma copiers_nonneg: "0 \<le> copiers m db"
  unfolding copiers_def by (rule sum_list_nonneg) auto

lemma copiers_pos:
  assumes "s \<in> set (copySubscriptions db)" and "sub_masterId s = m" and "sub_status s = ACTIVE"
  shows "1 \<le> copiers m db"
proof -
  let ?v = "\<lambda>s. if sub_masterId s = m \<and> sub_status s = ACTIVE then 1 else (0::int)"
  have "?v s \<le> sum_list (map ?v (copySubscriptions db))"
    by (rule member_le_sum_list) (use assms(1) in auto)
  then show ?thesis using assms by (simp add: copiers_def)
qed

lemma copiers_incrementCopiers [simp]: "copiers i (incrementCopiers m k now db) = copiers i db"
  by (simp add: copiers_def incrementCopiers_def)

text \<open>A change of one subscription's status, followed by the change of the counter or not.\<close>

lemma counted_after:
  assumes ok: "copy_db_ok db" and cnt: "copiers_counted db" and m: "i \<in> mtr_id ` set (masterTraders db)"
    and d: "masterTraders d = masterTraders db" "\<forall>s\<in>set (copySubscriptions d). sub_status s \<noteq> PAUSED"
    and c: "\<And>j. copiers j d = copiers j db + (if j = i then k else 0)" and k: "k \<noteq> 0"
  shows "copiers_counted (incrementCopiers i k now d)" and "\<not> copiers_counted d"
proof -
  have "totalCopiers x = copiers (mtr_id x) db" if "x \<in> set (masterTraders db)" for x
    using cnt that by (simp add: copiers_counted_def)
  moreover have "0 \<le> copiers i db + k" using c [of i] copiers_nonneg [of i d] by simp
  ultimately show "copiers_counted (incrementCopiers i k now d)"
    using d(2) unfolding copiers_counted_def copiers_incrementCopiers c
    by (simp add: incrementCopiers_def d(1) set_update_rows) (auto simp: image_iff)
  from m obtain x where "x \<in> set (masterTraders db)" "mtr_id x = i" by blast
  moreover from this cnt have "totalCopiers x = copiers i db" by (auto simp: copiers_counted_def)
  ultimately show "\<not> copiers_counted d"
    using c [of i] k d(1) unfolding copiers_counted_def by (metis add_cancel_left_right)
qed

lemma store_subscription_counts:
  assumes st: "store_subscription env rq ex db = Inr (row, d)" and ok: "copy_db_ok db"
    and ex: "findByFollowerAndMaster (cs_followerUserId rq) (cs_masterId rq) db = ex"
    and inactive: "ex \<noteq> None \<longrightarrow> sub_status (the ex) \<noteq> ACTIVE"
    and np: "\<forall>s\<in>set (copySubscriptions db). sub_status s \<noteq> PAUSED"
  shows "masterTraders d = masterTraders db" and "\<forall>s\<in>set (copySubscriptions d). sub_status s \<noteq> PAUSED"
    and "copiers j d = copiers j db + (if j = cs_masterId rq then 1 else 0)" and "row \<noteq> None"
proof -
  obtain s where s: "row = Some s" "sub_status s = ACTIVE" "sub_masterId s = cs_masterId rq"
    and mt: "masterTraders d = masterTraders db"
    and how: "copySubscriptions d = copySubscriptions db @ [s]
       \<or> (\<exists>x f. x \<in> set (copySubscriptions db) \<and> sub_status x \<noteq> ACTIVE \<and> s = f x \<and> sub_masterId x = sub_masterId s
            \<and> copySubscriptions d = update_rows (\<lambda>y. sub_id y = sub_id x) f (copySubscriptions db))"
    using store_subscription_effect [OF st ok ex inactive] by metis
  have d: "distinct (map sub_id (copySubscriptions db))" using ok by (simp add: copy_db_ok_def subscriptions_ok_def)
  show "masterTraders d = masterTraders db" and "row \<noteq> None" using mt s by simp_all
  from how show "copiers j d = copiers j db + (if j = cs_masterId rq then 1 else 0)"
  proof (elim disjE exE conjE)
    fix x f assume x: "x \<in> set (copySubscriptions db)" "sub_status x \<noteq> ACTIVE" "s = f x" "sub_masterId x = sub_masterId s"
      and u: "copySubscriptions d = update_rows (\<lambda>y. sub_id y = sub_id x) f (copySubscriptions db)"
    show ?thesis
      using sum_update_row [OF d x(1), where f = f and v = "\<lambda>s. if sub_masterId s = j \<and> sub_status s = ACTIVE then 1 else 0"]
        x s by (simp add: copiers_def u)
  qed (use s in \<open>simp add: copiers_def\<close>)
  from how show "\<forall>s\<in>set (copySubscriptions d). sub_status s \<noteq> PAUSED"
  proof (elim disjE exE conjE)
    fix x f assume x: "x \<in> set (copySubscriptions db)" "s = f x"
      and u: "copySubscriptions d = update_rows (\<lambda>y. sub_id y = sub_id x) f (copySubscriptions db)"
    have "y = x" if "y \<in> set (copySubscriptions db)" "sub_id y = sub_id x" for y
      using distinct_key_eq [OF d that(1) x(1) that(2)] .
    then have "z = s \<or> z \<in> set (copySubscriptions db)" if "z \<in> set (copySubscriptions d)" for z
      using that x by (auto simp: u set_update_rows)
    then show ?thesis using s(2) np by (metis subscription_status.distinct(1))
  qed (use s np in auto)
qed

lemma terminate_counts:
  assumes u: "updateStatus i TERMINATED now db = Inr (r, d)" and ok: "copy_db_ok db"
    and f: "findSubscriptionById i db = Some s" and act: "sub_status s = ACTIVE"
    and np: "\<forall>s\<in>set (copySubscriptions db). sub_status s \<noteq> PAUSED"
  shows "masterTraders d = masterTraders db" and "\<forall>s\<in>set (copySubscriptions d). sub_status s \<noteq> PAUSED"
    and "copiers j d = copiers j db + (if j = sub_masterId s then - 1 else 0)" and "r \<noteq> None"
proof -
  note u = update_subscription_Inr [OF u [unfolded updateStatus_def]]
  have d: "distinct (map sub_id (copySubscriptions db))" using ok by (simp add: copy_db_ok_def subscriptions_ok_def)
  have s: "s \<in> set (copySubscriptions db)" "sub_id s = i" using f by (auto simp: findSubscriptionById_def)
  show "masterTraders d = masterTraders db" "r \<noteq> None" using u f by simp_all
  show "\<forall>s\<in>set (copySubscriptions d). sub_status s \<noteq> PAUSED" using np by (auto simp: u(4) set_update_rows)
  show "copiers j d = copiers j db + (if j = sub_masterId s then - 1 else 0)"
    using sum_update_row [OF d s(1), where f = "\<lambda>s. s\<lparr>sub_status := TERMINATED, sub_updatedAt := now\<rparr>"
        and v = "\<lambda>s. if sub_masterId s = j \<and> sub_status s = ACTIVE then 1 else 0"] s act
    by (simp add: copiers_def u(4))
qed

text \<open>
  The number of copiers is right, as far as it can be without a transaction: subscribing and
  unsubscribing keep every master's number equal to its active subscriptions whenever they
  succeed or change nothing; when they fail after having changed the subscription, which happens
  when the update of the counter is not answered, the number is wrong.
\<close>

theorem copiers_counted_unless_torn:
  assumes "copy_db_ok (cw_db w)" and "copiers_counted (cw_db w)"
    and "(r, w') = createSubscription env rq w \<or> (r, w') = cancelSubscription env i u w"
  shows "copiers_counted (cw_db w') \<longleftrightarrow> (\<exists>item. r = Inr item) \<or> cw_db w' = cw_db w"
  using assms(3)
proof
  note np = assms(2) [unfolded copiers_counted_def, THEN conjunct1]
  assume run: "(r, w') = createSubscription env rq w"
  show ?thesis
  proof (cases "cw_db w' = cw_db w")
    case True
    then show ?thesis using assms(2) by simp
  next
    case False
    obtain bal w1 where b: "getMasterOrFollowerBalance env (cs_followerUserId rq) ''USDT'' w = (bal, w1)" by fastforce
    have db: "cw_db w1 = cw_db w" using getBalance_db [of env "cs_followerUserId rq" "''USDT''" w] b by simp
    obtain m ex row d where m: "findMasterById (cs_masterId rq) (cw_db w) = Some m"
      and ex: "findByFollowerAndMaster (cs_followerUserId rq) (cs_masterId rq) (cw_db w) = ex"
        "ex \<noteq> None \<longrightarrow> sub_status (the ex) \<noteq> ACTIVE"
      and st: "store_subscription env rq ex (cw_db w) = Inr (row, d)"
      and out: "(r, cw_db w') = (if answers env IncrementCopiers
         then (item_or_undefined row, incrementCopiers (mtr_id m) 1 (cp_now env) d) else (Inl connection_lost, d))"
      using run b db False
      by (simp add: createSubscription_def asked_def wrote_def Let_def
          split: sum.splits option.splits if_splits prod.splits) force+
    have mi: "mtr_id m = cs_masterId rq" "cs_masterId rq \<in> mtr_id ` set (masterTraders (cw_db w))"
      using m find_SomeD [of _ "masterTraders (cw_db w)" m] by (force simp: findMasterById_def)+
    note counts = store_subscription_counts [OF st assms(1) ex np]
    note after = counted_after [OF assms(1,2) mi(2) counts(1,2,3)]
    from counts(4) obtain s where "row = Some s" by auto
    with out after mi(1) False show ?thesis by (auto simp: item_or_undefined_def split: if_splits)
  qed
next
  note np = assms(2) [unfolded copiers_counted_def, THEN conjunct1]
  assume run: "(r, w') = cancelSubscription env i u w"
  show ?thesis
  proof (cases "cw_db w' = cw_db w")
    case True
    then show ?thesis using assms(2) by simp
  next
    case False
    obtain s row d where s: "findSubscriptionById i (cw_db w) = Some s" "sub_status s \<noteq> TERMINATED"
      and st: "updateStatus (sub_id s) TERMINATED (cp_now env) (cw_db w) = Inr (row, d)"
      and out: "(r, cw_db w') = (if answers env IncrementCopiers
         then (item_or_undefined row, incrementCopiers (sub_masterId s) (- 1) (cp_now env) d) else (Inl connection_lost, d))"
      using run False
      by (auto simp: cancelSubscription_def asked_def wrote_def Let_def
          split: sum.splits option.splits if_splits prod.splits)
    have si: "s \<in> set (copySubscriptions (cw_db w))" "sub_id s = i" using s(1) by (auto simp: findSubscriptionById_def)
    then have act: "sub_status s = ACTIVE" using s(2) np by (cases "sub_status s") auto
    have mi: "sub_masterId s \<in> mtr_id ` set (masterTraders (cw_db w))"
      using assms(1) si(1) by (auto simp: copy_db_ok_def subscriptions_ok_def)
    note counts = terminate_counts [OF st [unfolded si(2)] assms(1) s(1) act np]
    note after = counted_after [OF assms(1,2) mi counts(1,2,3)]
    from counts(4) obtain t where "row = Some t" by auto
    with out after False show ?thesis by (auto simp: item_or_undefined_def split: if_splits)
  qed
qed

end
