(* ===== verification/Copy_Spread.thy ===== *)
theory Copy_Spread
  imports Copy_Inv
begin

text \<open>
  What a replicated trade does to the followers: the copy of one follower is recorded whatever
  becomes of the others; and what happens when the master has nothing left.
\<close>

section \<open>What one copy touches\<close>

text \<open>The rows a copy may add are rows of its own.\<close>

definition own_row :: "'o task_env \<Rightarrow> copy_subscription \<Rightarrow> replication_task \<Rightarrow> copy_order \<Rightarrow> bool" where
  "own_row te x task h \<longleftrightarrow> ch_id h = historyId te \<and> ch_subscriptionId h = sub_id x \<and> masterTradeId h = rt_tradeId task"

lemma own_row_history [simp]: "own_row te x task (history_row te x task q p st oid reason)"
  by (simp add: own_row_def history_row_def)

definition grows_own :: "'o task_env \<Rightarrow> copy_subscription \<Rightarrow> replication_task \<Rightarrow> copy_db \<Rightarrow> copy_db \<Rightarrow> bool" where
  "grows_own te x task db d \<longleftrightarrow> copySubscriptions d = copySubscriptions db
     \<and> (\<exists>new. copyOrdersHistory d = copyOrdersHistory db @ new \<and> (\<forall>h\<in>set new. own_row te x task h))"

lemma grows_own_refl [simp]: "grows_own te x task db db"
  by (simp add: grows_own_def)

lemma grows_own_trans: "grows_own te x task db d \<Longrightarrow> grows_own te x task d d' \<Longrightarrow> grows_own te x task db d'"
  by (auto simp: grows_own_def)

lemma grows_own_write: "grows_own te x task db (snd (write_history te (history_row te x task q p st oid reason) db))"
proof (cases "create_history (history_row te x task q p st oid reason) db")
  case (Inr rd)
  then have "grows_own te x task db (snd rd)"
    by (cases rd) (auto simp: grows_own_def elim!: create_history_cases)
  with Inr show ?thesis by (cases rd) (simp add: write_history_def)
qed (simp add: write_history_def)

lemma place_copy_grows: "grows_own te x task db (fst (snd (place_copy te x task q p db s)))"
proof -
  note w = grows_own_write [of te x task _ q p]
  obtain r s1 where pl: "placeOrder te (copy_order_request x task p q) s = (r, s1)" by fastforce
  show ?thesis
  proof (cases r)
    case (Inr resp)
    obtain r2 d2 where "write_history te (history_row te x task q p copy_order_status.COMPLETED (map_option item_orderId resp) None) db = (r2, d2)"
      by fastforce
    note wr = this
    show ?thesis
    proof (cases r2)
      case (Inl e)
      with wr have "d2 = db" by simp
      with Inl wr pl Inr w show ?thesis by (simp add: place_copy_def Let_def split_beta)
    next
      case r2: (Inr u)
      have "grows_own te x task db d2" using w wr by (metis snd_conv)
      with r2 wr pl Inr show ?thesis by (simp add: place_copy_def Let_def split_beta)
    qed
  qed (use pl w in \<open>simp add: place_copy_def Let_def split_beta\<close>)
qed

lemma replicate_locked_grows: "grows_own te x task db (fst (snd (replicate_locked bn lots te task bal x db s)))"
  using grows_own_write [of te x task db] place_copy_grows [of te x task db]
  by (simp add: replicate_locked_def Let_def split_beta split: sum.split)

lemma replicateForSubscriber_touches:
  fixes env :: "('a, 'o) replication_env"
  defines "te x task \<equiv> re_task env (rt_side task) (sub_id x)"
  shows "grows_own (te x task) x task (cw_db w) (cw_db (snd (replicateForSubscriber env task bal x w)))"
    and "k \<noteq> followerLock_key (followerUserId x) \<Longrightarrow> cw_locks (snd (replicateForSubscriber env task bal x w)) k = cw_locks w k"
proof -
  let ?te = "te x task" and ?k = "followerLock_key (followerUserId x)"
  obtain got l where a: "acquireLock (lockReply ?te) (lockToken ?te) (lockedAt ?te) ?k defaultLockTtlMs (cw_locks w) = (got, l)"
    by fastforce
  note l = other_locks_unchanged(1) [where key = ?k and locks = "cw_locks w" and reply = "lockReply ?te" and tok = "lockToken ?te"
      and now = "lockedAt ?te" and ttl = defaultLockTtlMs]
  show "grows_own ?te x task (cw_db w) (cw_db (snd (replicateForSubscriber env task bal x w)))"
    using replicate_locked_grows [of ?te x task "cw_db w"] a
    by (simp add: replicateForSubscriber_def te_def Let_def split_beta split: option.split)
  assume k: "k \<noteq> ?k"
  with l a have "l k = cw_locks w k" by simp
  with k a show "cw_locks (snd (replicateForSubscriber env task bal x w)) k = cw_locks w k"
    using other_locks_unchanged(2) [where key = ?k and locks = l]
    by (simp add: replicateForSubscriber_def te_def Let_def split_beta split: option.split)
qed

section \<open>One follower among others\<close>

definition recorded :: "copy_subscription \<Rightarrow> uuid \<Rightarrow> copy_db \<Rightarrow> bool" where
  "recorded x trade db \<longleftrightarrow> findBySubscriptionAndTrade (sub_id x) trade db \<noteq> None"

lemma recorded_iff: "recorded x trade db \<longleftrightarrow> (\<exists>h\<in>set (copyOrdersHistory db). ch_subscriptionId h = sub_id x \<and> masterTradeId h = trade)"
  by (auto simp: recorded_def findBySubscriptionAndTrade_def find_None_iff)

lemma recorded_mono: "grows_own te y task db d \<Longrightarrow> recorded x trade db \<Longrightarrow> recorded x trade d"
  by (auto simp: recorded_iff grows_own_def)

lemma copied_total_other: "grows_own te y task db d \<Longrightarrow> sub_id y \<noteq> i \<Longrightarrow> copied_total i p side d = copied_total i p side db"
  by (auto simp: grows_own_def copied_total_def own_row_def filter_empty_conv)

lemma write_history_records:
  assumes "historyAnswers te st" and "length (rt_pair task) \<le> 20" and "numeric_28_8 q" and "numeric_28_8 p"
    and "historyId te \<notin> ch_id ` set (copyOrdersHistory db)" and "findSubscriptionById (sub_id x) db \<noteq> None"
  shows "\<exists>d. write_history te (history_row te x task q p st oid reason) db = (Inr (), d) \<and> recorded x (rt_tradeId task) d"
proof -
  let ?h = "history_row te x task q p st oid reason"
  have h: "ch_id ?h = historyId te" "ch_subscriptionId ?h = sub_id x" "masterTradeId ?h = rt_tradeId task" "ch_pair ?h = rt_pair task"
    "replicatedQuantity ?h = q" "replicatedPrice ?h = p" "ch_status ?h = st" by (simp_all add: history_row_def)
  have step: "write_history te ?h db = (Inr (), if recorded x (rt_tradeId task) db then db
      else db\<lparr>copyOrdersHistory := copyOrdersHistory db @ [?h]\<rparr>)"
  proof -
    have "((sub_id x, rt_tradeId task) \<in> (\<lambda>h. (ch_subscriptionId h, masterTradeId h)) ` set (copyOrdersHistory db))
      = recorded x (rt_tradeId task) db" unfolding recorded_iff image_iff by (metis prod.inject)
    then have "create_history ?h db = (if recorded x (rt_tradeId task) db then Inr (None, db)
        else Inr (Some ?h, db\<lparr>copyOrdersHistory := copyOrdersHistory db @ [?h]\<rparr>))"
      using assms(2-6) by (auto simp: create_history_def h)
    with assms(1) show ?thesis by (simp add: write_history_def h)
  qed
  have "recorded x (rt_tradeId task) (db\<lparr>copyOrdersHistory := copyOrdersHistory db @ [?h]\<rparr>)"
    by (simp add: recorded_iff h)
  with step show ?thesis by (cases "recorded x (rt_tradeId task) db") simp_all
qed

text \<open>
  Everything a copy needs for itself: the follower's lock is free, its own queries are answered,
  its row has an id of its own, and the sizes fit into the columns.
\<close>

definition copy_possible ::
  "('a, 'o) replication_env \<Rightarrow> replication_task \<Rightarrow> amount \<Rightarrow> copy_subscription \<Rightarrow> ('a, 'o) copy_world \<Rightarrow> bool" where
  "copy_possible env task bal x w \<longleftrightarrow>
     (let te = re_task env (rt_side task) (sub_id x)
      in lockReply te = Replied \<and> live (cw_locks w) (lockedAt te) (followerLock_key (followerUserId x)) = None
         \<and> positionAnswers te \<and> (\<forall>st. historyAnswers te st) \<and> length (rt_pair task) \<le> 20
         \<and> historyId te \<notin> ch_id ` set (copyOrdersHistory (cw_db w))
         \<and> findSubscriptionById (sub_id x) (cw_db w) \<noteq> None
         \<and> (\<forall>q. target_quantity (re_bignumber env) True x task bal (cw_db w) = Inr q \<longrightarrow> numeric_28_8 q)
         \<and> numeric_28_8 (masterPrice task)
         \<and> numeric_28_8 (calculateProtectedPrice (re_bignumber env) (masterPrice task) (maxSlippagePercent x) (rt_side task)))"

lemma replicate_locked_records:
  assumes "copy_possible env task bal x w"
  shows "recorded x (rt_tradeId task)
    (fst (snd (replicate_locked (re_bignumber env) lots (re_task env (rt_side task) (sub_id x)) task bal x (cw_db w) s)))"
proof -
  let ?te = "re_task env (rt_side task) (sub_id x)"
  let ?p = "calculateProtectedPrice (re_bignumber env) (masterPrice task) (maxSlippagePercent x) (rt_side task)"
  note c = assms [unfolded copy_possible_def Let_def]
  have "\<exists>q. target_quantity (re_bignumber env) True x task bal (cw_db w) = Inr q"
    by (simp add: target_quantity_def split_beta Let_def split: order_side.split)
  then obtain q where q: "target_quantity (re_bignumber env) (positionAnswers ?te) x task bal (cw_db w) = Inr q"
    and nq: "numeric_28_8 q" using c by auto
  have rec: "\<exists>d. write_history ?te (history_row ?te x task q p st oid reason) (cw_db w) = (Inr (), d) \<and> recorded x (rt_tradeId task) d"
    if "numeric_28_8 p" for p st oid reason
    by (rule write_history_records) (use c nq that in auto)
  obtain r s1 where pl: "placeOrder ?te (copy_order_request x task ?p q) s = (r, s1)" by fastforce
  have "recorded x (rt_tradeId task) (fst (snd (place_copy ?te x task q ?p (cw_db w) s)))"
  proof (cases r)
    case (Inl e)
    obtain d where "write_history ?te (history_row ?te x task q ?p copy_order_status.FAILED None (Some (failure_text e))) (cw_db w) = (Inr (), d)"
      and "recorded x (rt_tradeId task) d" using rec c by blast
    with Inl pl show ?thesis by (simp add: place_copy_def Let_def)
  next
    case (Inr resp)
    obtain d where "write_history ?te (history_row ?te x task q ?p copy_order_status.COMPLETED (map_option item_orderId resp) None) (cw_db w) = (Inr (), d)"
      and "recorded x (rt_tradeId task) d" using rec c by blast
    with Inr pl show ?thesis by (simp add: place_copy_def Let_def)
  qed
  moreover have "recorded x (rt_tradeId task)
    (snd (write_history ?te (history_row ?te x task q (masterPrice task) SKIPPED None (Some ''BELOW_MIN_LOT'')) (cw_db w)))"
    using rec [of "masterPrice task" SKIPPED None "Some ''BELOW_MIN_LOT''"] c by (metis snd_conv)
  ultimately show ?thesis by (simp add: replicate_locked_def q Let_def split_beta)
qed

lemma replicateForSubscriber_records:
  assumes "copy_possible env task bal x w"
  shows "recorded x (rt_tradeId task) (cw_db (snd (replicateForSubscriber env task bal x w)))"
proof -
  let ?te = "re_task env (rt_side task) (sub_id x)" and ?k = "followerLock_key (followerUserId x)"
  have "acquireLock (lockReply ?te) (lockToken ?te) (lockedAt ?te) ?k defaultLockTtlMs (cw_locks w)
      = (Some (lockToken ?te), (cw_locks w)(?k \<mapsto> (lockToken ?te, lockedAt ?te + defaultLockTtlMs)))"
    using assms by (simp add: copy_possible_def Let_def acquireLock_def)
  with replicate_locked_records [OF assms] show ?thesis
    by (simp add: replicateForSubscriber_def Let_def split_beta)
qed

section \<open>All followers\<close>

lemma followerLock_key_inj [simp]: "followerLock_key u = followerLock_key v \<longleftrightarrow> u = v"
  by (simp add: followerLock_key_def)

text \<open>What another follower's copy leaves to this one.\<close>

lemma copy_possible_other:
  assumes "copy_possible env task bal x w" and "followerUserId y \<noteq> followerUserId x" and "sub_id y \<noteq> sub_id x"
    and "historyId (re_task env (rt_side task) (sub_id y)) \<noteq> historyId (re_task env (rt_side task) (sub_id x))"
  shows "copy_possible env task bal x (snd (replicateForSubscriber env task bal y w))"
proof -
  note t = replicateForSubscriber_touches [where env = env and task = task and x = y and w = w and bal = bal]
  let ?w = "snd (replicateForSubscriber env task bal y w)"
  have "cw_locks ?w (followerLock_key (followerUserId x)) = cw_locks w (followerLock_key (followerUserId x))"
    by (rule t(2)) (use assms(2) in simp)
  moreover have "target_quantity (re_bignumber env) True x task bal (cw_db ?w) = target_quantity (re_bignumber env) True x task bal (cw_db w)"
    using copied_total_other [OF t(1) assms(3)]
    by (simp add: target_quantity_def getSubscriptionPosition_def split: order_side.split)
  moreover have "historyId (re_task env (rt_side task) (sub_id x)) \<notin> ch_id ` set (copyOrdersHistory (cw_db ?w))"
    using t(1) assms(1,4) by (auto simp: grows_own_def own_row_def copy_possible_def Let_def)
  moreover have "findSubscriptionById (sub_id x) (cw_db ?w) = findSubscriptionById (sub_id x) (cw_db w)"
    using t(1) by (simp add: grows_own_def findSubscriptionById_def)
  ultimately show ?thesis using assms(1) by (auto simp: copy_possible_def Let_def live_def)
qed


section \<open>A master with nothing left\<close>

lemma no_balance_no_order:
  assumes "rt_side task = SELL \<or> rt_side task = BUY" and "bal \<le> 0"
  shows "snd (snd (replicate_locked bn lots te task bal x db s)) = s
    \<and> (\<exists>new. copyOrdersHistory (fst (snd (replicate_locked bn lots te task bal x db s))) = copyOrdersHistory db @ new
         \<and> (\<forall>h\<in>set new. ch_status h = SKIPPED))"
proof -
  have q: "target_quantity bn up x task bal db = Inr q \<Longrightarrow> q = 0" for up q
    using assms(2) by (auto simp: target_quantity_def calculateBuyQuantity_def calculateSellQuantity_def split_beta Let_def
        split: order_side.splits if_splits)
  have w: "\<exists>new. copyOrdersHistory (snd (write_history te h db)) = copyOrdersHistory db @ new \<and> (\<forall>h\<in>set new. ch_status h = SKIPPED)"
    if "ch_status h = SKIPPED" for h
  proof (cases "create_history h db")
    case (Inr rd)
    then obtain r d where rd: "create_history h db = Inr (r, d)" by (cases rd) simp
    then have "\<exists>new. copyOrdersHistory d = copyOrdersHistory db @ new \<and> (\<forall>h\<in>set new. ch_status h = SKIPPED)"
      by (cases rule: create_history_cases) (use that in simp_all)
    then show ?thesis by (simp add: write_history_def rd)
  qed (simp add: write_history_def)
  show ?thesis
  proof (cases "target_quantity bn (positionAnswers te) x task bal db")
    case (Inr q)
    with q have "q = 0" by blast
    with Inr w show ?thesis
      by (simp add: replicate_locked_def checkMinLot_def Let_def split_beta history_row_def)
  qed (simp add: replicate_locked_def)
qed

text \<open>
  What a master sells out of is not sold for the followers. The balance the copies are scaled
  with is read after the trade: when the master has sold everything, or when the balance cannot be
  read at all, it is zero, and then no follower gets an order: every copy is recorded as skipped, and
  the followers keep their positions.
\<close>

theorem sold_out_master_is_not_copied:
  assumes "replicateMasterTrade env task w = (r, w')" and "complete_order (re_order env (rt_side task))"
    and "fst (getMasterOrFollowerBalance (re_service env (rt_side task)) (rt_masterUserId task)
           (case rt_side task of BUY \<Rightarrow> ''USDT'' | SELL \<Rightarrow> symbol_base (rt_pair task)) w) \<le> 0"
  shows "cw_orders w' = cw_orders w
    \<and> (\<exists>new. copyOrdersHistory (cw_db w') = copyOrdersHistory (cw_db w) @ new \<and> (\<forall>h\<in>set new. ch_status h = SKIPPED))"
proof -
  let ?cur = "case rt_side task of BUY \<Rightarrow> ''USDT'' | SELL \<Rightarrow> symbol_base (rt_pair task)"
  let ?bal = "getMasterOrFollowerBalance (re_service env (rt_side task)) (rt_masterUserId task) ?cur w"
  let ?P = "\<lambda>s. cw_orders s = cw_orders w
    \<and> (\<exists>new. copyOrdersHistory (cw_db s) = copyOrdersHistory (cw_db w) @ new \<and> (\<forall>h\<in>set new. ch_status h = SKIPPED))"
  have keep: "?P (snd (replicateForSubscriber env task (fst ?bal) x s))" if "?P s" for x s
  proof -
    note n = no_balance_no_order [OF _ assms(3), where bn = "re_bignumber env" and lots = "re_minLots env"
        and te = "re_task env (rt_side task) (sub_id x)" and x = x and db = "cw_db s" and s = "cw_orders s" and task = task]
    have "rt_side task = SELL \<or> rt_side task = BUY" by (cases "rt_side task") simp_all
    from n [OF this] that show ?thesis
      by (auto simp: replicateForSubscriber_def Let_def split_beta ball_Un split: option.split)
  qed
  have "?P (snd (executeInBatches subs k (replicateForSubscriber env task (fst ?bal)) (re_order env (rt_side task)) hook (snd ?bal)))" for subs k hook
    by (rule executeInBatches_keeps [where P = ?P, OF _ assms(2)]) (use keep in auto)
  with assms(1) show ?thesis
    by (auto simp: replicateMasterTrade_def Let_def split_beta asked_def split: if_splits)
qed

end
