(* ===== verification/Copy_Orders.thy ===== *)
theory Copy_Orders
  imports Copy_Inv Orders_Saga
begin

text \<open>
  Copy trading on top of the orders service. What the replication relies on is the interface
  \<open>order_placer\<close>: one order per user and idempotency key. The orders service is shown to provide it,
  so a trade is never copied twice into the book of a follower, however often it is delivered. The same
  key makes the two sides of a trade between two masters collide.
\<close>

section \<open>The replication on its orders service\<close>

text \<open>What placing copies keeps, handling a message keeps.\<close>

lemma place_copy_orders [simp]:
  "snd (snd (place_copy te x task q p db s)) = snd (placeOrder te (copy_order_request x task p q) s)"
  by (simp add: place_copy_def Let_def split_beta split: sum.split)

lemma copy_order_request_key [simp]:
  "co_idempotencyKey (copy_order_request x task p q) = copy_key (rt_tradeId task) (co_userId (copy_order_request x task p q))"
  by (simp add: copy_order_request_def)

lemma replicate_locked_orders:
  assumes "\<And>rq s. P s \<Longrightarrow> co_idempotencyKey rq = copy_key (rt_tradeId task) (co_userId rq) \<Longrightarrow> P (snd (placeOrder te rq s))" and "P s"
  shows "P (snd (snd (replicate_locked bn lots te task bal x db s)))"
  using assms by (simp add: replicate_locked_def Let_def split_beta split: sum.split)

lemma replicateForSubscriber_orders:
  assumes "\<And>side i rq s. P s \<Longrightarrow> co_idempotencyKey rq = copy_key (rt_tradeId task) (co_userId rq)
      \<Longrightarrow> P (snd (placeOrder (re_task env side i) rq s))"
    and "P (cw_orders w)"
  shows "P (cw_orders (snd (replicateForSubscriber env task bal x w)))"
proof -
  have "P (snd (snd (replicate_locked (re_bignumber env) (re_minLots env) (re_task env (rt_side task) (sub_id x)) task bal x (cw_db w) (cw_orders w))))"
    by (rule replicate_locked_orders [where P = P]) (use assms in auto)
  with assms(2) show ?thesis
    by (simp add: replicateForSubscriber_def Let_def split_beta split: option.split)
qed

lemma replicateMasterTrade_orders:
  assumes place: "\<And>side i rq s. P s \<Longrightarrow> co_idempotencyKey rq = copy_key (rt_tradeId task) (co_userId rq)
      \<Longrightarrow> P (snd (placeOrder (re_task env side i) rq s))"
    and "\<And>side. complete_order (re_order env side)" and "P (cw_orders w)"
  shows "P (cw_orders (snd (replicateMasterTrade env task w)))"
proof -
  have "P (cw_orders (snd (executeInBatches subs n (replicateForSubscriber env task bal) (re_order env (rt_side task)) hook v)))"
    if "P (cw_orders v)" for subs n bal hook v
    by (rule executeInBatches_keeps [where P = "\<lambda>w. P (cw_orders w)"])
      (use replicateForSubscriber_orders [where P = P, OF place] assms(2) that in auto)
  with assms(3) show ?thesis
    by (simp add: replicateMasterTrade_def Let_def split_beta split: sum.splits)
qed

lemma replicate_sides_orders:
  assumes "\<And>side i rq s. P s \<Longrightarrow> co_idempotencyKey rq = copy_key trade (co_userId rq)
      \<Longrightarrow> P (snd (placeOrder (re_task env side i) rq s))"
    and "\<And>side. complete_order (re_order env side)" and "\<forall>t\<in>set ts. rt_tradeId t = trade" and "P (cw_orders w)"
  shows "P (cw_orders (snd (replicate_sides env ts w)))"
  using assms(3,4)
proof (induction ts arbitrary: w)
  case (Cons t ts)
  obtain r w1 where run: "replicateMasterTrade env t w = (r, w1)" by fastforce
  have "rt_tradeId t = trade" using Cons.prems by simp
  have "P (cw_orders (snd (replicateMasterTrade env t w)))"
    by (rule replicateMasterTrade_orders [where P = P]) (use assms(1,2) Cons.prems \<open>rt_tradeId t = trade\<close> in auto)
  then have "P (cw_orders w1)" by (simp add: run)
  then show ?case using Cons by (simp add: run split: sum.splits)
qed simp

lemma handleReplicationMessage_orders:
  assumes "\<And>side i rq s t. P s \<Longrightarrow> co_idempotencyKey rq = copy_key t (co_userId rq)
      \<Longrightarrow> (\<exists>envl trade. msg = Some envl \<and> env_payload envl = Some trade \<and> tradeId trade = t)
      \<Longrightarrow> P (snd (placeOrder (re_task env side i) rq s))"
    and "\<And>side. complete_order (re_order env side)" and "P (cw_orders w)"
  shows "P (cw_orders (snd (handleReplicationMessage env hdr msg w)))"
proof -
  have "P (cw_orders (snd (replicate_trade env envl trade w)))" if m: "msg = Some envl" "env_payload envl = Some trade" for envl trade
  proof -
    let ?ts = "side_tasks trade (getActiveMasterId (buyerUserId trade) w) (getActiveMasterId (sellerUserId trade) w)"
    obtain r w1 where run: "replicate_sides env ?ts w = (r, w1)" by fastforce
    have "\<forall>t\<in>set ?ts. rt_tradeId t = tradeId trade" by (auto simp: side_tasks_def side_task_def split: option.splits)
    then have "P (cw_orders (snd (replicate_sides env ?ts w)))"
      by (intro replicate_sides_orders [where P = P and trade = "tradeId trade"]) (use assms m in auto)
    then have "P (cw_orders w1)" by (simp add: run)
    then show ?thesis
      using run assms(3)
      by (auto simp: replicate_trade_def Let_def asked_def wrote_def split: sum.splits bool.splits if_splits)
  qed
  with assms(3) show ?thesis
    by (simp add: handleReplicationMessage_def Let_def split: option.splits)
qed

section \<open>The interface\<close>

fun handle_all ::
  "(('a, 'o) replication_env \<times> string option \<times> trade_executed envelope option) list \<Rightarrow> ('a, 'o) copy_world \<Rightarrow> ('a, 'o) copy_world" where
  "handle_all [] w = w"
| "handle_all ((env, hdr, msg) # ms) w = handle_all ms (snd (handleReplicationMessage env hdr msg w))"

text \<open>A message that is handled with orders placed by \<open>place\<close>, in whatever environment each.\<close>

definition places_with ::
  "('e \<Rightarrow> create_order_request \<Rightarrow> 'o \<Rightarrow> order_item option result \<times> 'o) \<Rightarrow> ('a, 'o) replication_env \<Rightarrow> bool" where
  "places_with place env \<longleftrightarrow>
     (\<forall>side i. \<exists>e. placeOrder (re_task env side i) = place e) \<and> (\<forall>side. complete_order (re_order env side))"

locale order_placer =
  fixes place :: "'e \<Rightarrow> create_order_request \<Rightarrow> 'o \<Rightarrow> order_item option result \<times> 'o"
    and placed :: "'o \<Rightarrow> uuid \<Rightarrow> string \<Rightarrow> nat"
    and ok :: "'o \<Rightarrow> bool"
  assumes place_ok: "ok s \<Longrightarrow> ok (snd (place e rq s))"
    and placed_once: "ok s \<Longrightarrow> placed s u k \<le> 1"
    and placed_other: "ok s \<Longrightarrow> (u, k) \<noteq> (co_userId rq, co_idempotencyKey rq) \<Longrightarrow> placed (snd (place e rq s)) u k = placed s u k"
begin

lemma handled:
  assumes "places_with place env" and "ok (cw_orders w)"
  shows "ok (cw_orders (snd (handleReplicationMessage env hdr msg w)))"
    and "\<nexists>t. k = copy_key t u \<Longrightarrow> placed (cw_orders (snd (handleReplicationMessage env hdr msg w))) u k = placed (cw_orders w) u k"
proof -
  have pl: "\<exists>e. placeOrder (re_task env side i) = place e" and co: "complete_order (re_order env side)" for side i
    using assms(1) by (auto simp: places_with_def)
  show "ok (cw_orders (snd (handleReplicationMessage env hdr msg w)))"
    by (rule handleReplicationMessage_orders [where P = ok]) (use pl place_ok co assms(2) in metis)+
  assume k: "\<nexists>t. k = copy_key t u"
  have step: "ok (snd (placeOrder (re_task env side i) rq s)) \<and> placed (snd (placeOrder (re_task env side i) rq s)) u k = placed (cw_orders w) u k"
    if s: "ok s \<and> placed s u k = placed (cw_orders w) u k" and rq: "co_idempotencyKey rq = copy_key t (co_userId rq)" for side i rq s t
  proof -
    obtain e where e: "placeOrder (re_task env side i) = place e" using pl by blast
    have "(u, k) \<noteq> (co_userId rq, co_idempotencyKey rq)" using k rq by auto
    with s e place_ok placed_other show ?thesis by simp
  qed
  show "placed (cw_orders (snd (handleReplicationMessage env hdr msg w))) u k = placed (cw_orders w) u k"
    by (rule handleReplicationMessage_orders [where P = "\<lambda>s. ok s \<and> placed s u k = placed (cw_orders w) u k", THEN conjunct2])
      (use step co assms(2) in auto)
qed

lemma all_handled:
  assumes "\<forall>(env, hdr, msg)\<in>set ms. places_with place env" and "ok (cw_orders w)"
  shows "ok (cw_orders (handle_all ms w)) \<and> placed (cw_orders (handle_all ms w)) u k \<le> 1
    \<and> ((\<nexists>t. k = copy_key t u) \<longrightarrow> placed (cw_orders (handle_all ms w)) u k = placed (cw_orders w) u k)"
  using assms
proof (induction ms arbitrary: w)
  case (Cons m ms)
  obtain env hdr msg where m: "m = (env, hdr, msg)" by (metis prod.collapse)
  have "places_with place env" "\<forall>(env, hdr, msg)\<in>set ms. places_with place env" using Cons.prems(1) m by auto
  from Cons.IH [OF this(2) handled(1) [OF this(1) Cons.prems(2)]] handled(2) [OF this(1) Cons.prems(2)] show ?case
    by (simp add: m)
qed (use placed_once in auto)

end

section \<open>The orders service provides it\<close>

definition orders_place ::
  "'a orders_env \<Rightarrow> create_order_request \<Rightarrow> 'a orders_world \<Rightarrow> order_item option result \<times> 'a orders_world" where
  "orders_place env rq w = (let (r, w') = createOrder env rq w in (bindR r (\<lambda>x. Inr (Some x)), w'))"

definition orders_placed :: "'a orders_world \<Rightarrow> uuid \<Rightarrow> string \<Rightarrow> nat" where
  "orders_placed w u k = length (filter (\<lambda>x. ord_userId x = u \<and> ord_idempotencyKey x = k) (orders (ow_db w)))"

abbreviation order_key :: "order \<Rightarrow> uuid \<times> string" where
  "order_key x \<equiv> (ord_userId x, ord_idempotencyKey x)"

abbreviation record_key :: "order_item idempotency_record \<Rightarrow> uuid \<times> string \<times> string" where
  "record_key r \<equiv> (ir_userId r, ir_operation r, ir_key r)"

text \<open>Every order has the record of its creation, and there is one order per key.\<close>

definition orders_keyed :: "orders_db \<Rightarrow> bool" where
  "orders_keyed db \<longleftrightarrow> distinct (map order_key (orders db))
     \<and> (\<forall>(u, k)\<in>set (map order_key (orders db)). (u, ''CREATE_ORDER'', k) \<in> set (map record_key (idempotencyRecords db)))"

lemma update_order_keys:
  assumes "update_order P f db = Inr (x, d)" and "\<And>y. order_key (f y) = order_key y"
  shows "map order_key (orders d) = map order_key (orders db)"
  using assms map_update_rows [where g = order_key and f = f] by (auto simp: update_order_def split: option.splits if_splits)

lemma updateExecution_keys:
  "updateExecution i f r st now db = Inr (x, d) \<Longrightarrow> map order_key (orders d) = map order_key (orders db)"
  unfolding updateExecution_def by (erule update_order_keys) simp

lemma match_loop_keys:
  "match_loop tids now taker makers st = (r, st') \<Longrightarrow> map order_key (orders (ms_db st')) = map order_key (orders (ms_db st))"
proof (induction makers arbitrary: st)
  case (Cons m makers)
  have "map order_key (orders (ms_db s)) = map order_key (orders (ms_db st))" if "match_maker tids now taker m st = (q, s)" for q s
    using that by (auto simp: match_maker_def Let_def dest!: updateExecution_keys split: sum.splits prod.splits)
  with Cons show ?case by (auto split: if_splits sum.splits prod.splits)
qed simp

lemma executeMatch_keys:
  "executeMatch api tids now taker db book = (r, d, b) \<Longrightarrow> map order_key (orders d) = map order_key (orders db)"
  by (auto simp: executeMatch_def match_with_def finish_match_def Let_def
      dest!: match_loop_keys updateExecution_keys split: sum.splits prod.splits)

lemma create_order_tx_keys:
  assumes "create_order_tx env rq price amount db book = (r, d, b)"
  shows "map order_key (orders d) = map order_key (orders db)
    \<or> map order_key (orders d) = map order_key (orders db) @ [(co_userId rq, co_idempotencyKey rq)]"
  using assms
  by (auto simp: create_order_tx_def create_order_body_def create_order_row_def Let_def initial_order_def
      dest!: executeMatch_keys split: sum.splits prod.splits if_splits)

lemma set_record_keys [simp]:
  "map record_key (idempotencyRecords (completeRecord i y db)) = map record_key (idempotencyRecords db)"
  "map record_key (idempotencyRecords (failRecord i db)) = map record_key (idempotencyRecords db)"
  "orders (completeRecord i y db) = orders db" "orders (failRecord i db) = orders db"
  by (simp_all add: completeRecord_def failRecord_def map_update_rows)

text \<open>Creating an order adds at most one key, one that had no record.\<close>

lemma createOrder_keys:
  assumes "createOrder env rq w = (r, w')"
  shows "(map order_key (orders (ow_db w')) = map order_key (orders (ow_db w))
      \<and> set (map record_key (idempotencyRecords (ow_db w))) \<subseteq> set (map record_key (idempotencyRecords (ow_db w'))))
    \<or> (map order_key (orders (ow_db w')) = map order_key (orders (ow_db w)) @ [(co_userId rq, co_idempotencyKey rq)]
      \<and> (co_userId rq, ''CREATE_ORDER'', co_idempotencyKey rq) \<notin> set (map record_key (idempotencyRecords (ow_db w)))
      \<and> map record_key (idempotencyRecords (ow_db w'))
          = map record_key (idempotencyRecords (ow_db w)) @ [(co_userId rq, ''CREATE_ORDER'', co_idempotencyKey rq)])"
proof (cases "validateCreateOrderRequest rq")
  case (Inr terms)
  obtain price amount where v: "validateCreateOrderRequest rq = Inr (price, amount)" using Inr by (cases terms) simp
  show ?thesis
  proof (cases "idempotency_answer env rq (ow_db w)")
    case None
    show ?thesis
    proof (cases "createRecord (new_idempotency_record env rq) (ow_db w)")
      case (Inr yd)
      then obtain y d1 where cr: "createRecord (new_idempotency_record env rq) (ow_db w) = Inr (y, d1)" by (cases yd) simp
      then have d1: "orders d1 = orders (ow_db w)"
        "map record_key (idempotencyRecords d1) = map record_key (idempotencyRecords (ow_db w)) @ [(co_userId rq, ''CREATE_ORDER'', co_idempotencyKey rq)]"
        and new: "(co_userId rq, ''CREATE_ORDER'', co_idempotencyKey rq) \<notin> set (map record_key (idempotencyRecords (ow_db w)))"
        by (auto simp: createRecord_def new_idempotency_record_def split: if_splits)
      obtain l a1 where lk: "lock_rpc env (reserve_request ''lock:'' (co_userId rq) (lock_currency (co_pair rq) (co_side rq))
          (lock_amount (oe_toFixed env) (co_side rq) price amount) (co_idempotencyKey rq) (co_idempotencyKey rq)) (ow_accounts w) = (l, a1)"
        by fastforce
      obtain t d2 b2 where tx: "create_order_tx env rq price amount d1 (ow_book w) = (t, d2, b2)" by (metis prod.collapse)
      note keys = create_order_tx_keys [OF tx] and recs = create_order_tx_records [OF tx]
      have "\<exists>d. (d = d1 \<or> d = d2) \<and> orders (ow_db w') = orders d
          \<and> map record_key (idempotencyRecords (ow_db w')) = map record_key (idempotencyRecords d)"
        using assms v None cr lk tx
        by (cases l; cases t) (auto simp: createOrder_def Let_def split_beta)
      then obtain d where d: "d = d1 \<or> d = d2" and od: "orders (ow_db w') = orders d"
        and rd: "map record_key (idempotencyRecords (ow_db w')) = map record_key (idempotencyRecords d)" by blast
      from d recs rd d1(2) have r': "map record_key (idempotencyRecords (ow_db w'))
          = map record_key (idempotencyRecords (ow_db w)) @ [(co_userId rq, ''CREATE_ORDER'', co_idempotencyKey rq)]" by auto
      then have sub: "set (map record_key (idempotencyRecords (ow_db w))) \<subseteq> set (map record_key (idempotencyRecords (ow_db w')))"
        by (simp only: set_append Un_upper1)
      have "map order_key (orders (ow_db w')) = map order_key (orders (ow_db w))
          \<or> map order_key (orders (ow_db w')) = map order_key (orders (ow_db w)) @ [(co_userId rq, co_idempotencyKey rq)]"
        using keys d od d1(1) by auto
      then show ?thesis
      proof (elim disjE)
        assume keep: "map order_key (orders (ow_db w')) = map order_key (orders (ow_db w))"
        show ?thesis by (rule disjI1) (rule conjI [OF keep sub])
      next
        assume grow: "map order_key (orders (ow_db w')) = map order_key (orders (ow_db w)) @ [(co_userId rq, co_idempotencyKey rq)]"
        show ?thesis by (rule disjI2) (intro conjI grow new r')
      qed
    qed (use assms v None in \<open>simp add: createOrder_def\<close>)
  qed (use assms v in \<open>simp add: createOrder_def\<close>)
qed (use assms in \<open>simp add: createOrder_def\<close>)

lemma orders_placed_keys: "orders_placed w u k = length (filter (\<lambda>x. x = (u, k)) (map order_key (orders (ow_db w))))"
  by (simp add: orders_placed_def filter_map comp_def)

lemma distinct_filter_eq: "distinct xs \<Longrightarrow> length (filter (\<lambda>x. x = y) xs) \<le> 1"
  by (induction xs) (auto simp: filter_empty_conv)

interpretation orders_placer: order_placer orders_place orders_placed "\<lambda>w. orders_keyed (ow_db w)"
proof unfold_locales
  fix s :: "'a orders_world" and env rq
  assume ok: "orders_keyed (ow_db s)"
  obtain r w' where run: "createOrder env rq s = (r, w')" by fastforce
  have db: "snd (orders_place env rq s) = w'" by (simp add: orders_place_def run)
  from createOrder_keys [OF run]
  show "orders_keyed (ow_db (snd (orders_place env rq s)))"
  proof (elim disjE conjE)
    assume "map order_key (orders (ow_db w')) = map order_key (orders (ow_db s))"
      and "set (map record_key (idempotencyRecords (ow_db s))) \<subseteq> set (map record_key (idempotencyRecords (ow_db w')))"
    with ok show ?thesis unfolding orders_keyed_def db by auto
  next
    let ?k = "(co_userId rq, co_idempotencyKey rq)"
    assume o: "map order_key (orders (ow_db w')) = map order_key (orders (ow_db s)) @ [?k]"
      and new: "(co_userId rq, ''CREATE_ORDER'', co_idempotencyKey rq) \<notin> set (map record_key (idempotencyRecords (ow_db s)))"
      and r: "map record_key (idempotencyRecords (ow_db w'))
        = map record_key (idempotencyRecords (ow_db s)) @ [(co_userId rq, ''CREATE_ORDER'', co_idempotencyKey rq)]"
    from new ok have "?k \<notin> set (map order_key (orders (ow_db s)))" by (auto simp: orders_keyed_def)
    with ok show ?thesis unfolding orders_keyed_def db o r by auto
  qed
  fix u k
  show "orders_placed s u k \<le> 1"
    unfolding orders_placed_keys using ok by (intro distinct_filter_eq) (simp add: orders_keyed_def)
  assume ne: "(u, k) \<noteq> (co_userId rq, co_idempotencyKey rq)"
  from createOrder_keys [OF run] show "orders_placed (snd (orders_place env rq s)) u k = orders_placed s u k"
  proof (elim disjE conjE)
    assume o: "map order_key (orders (ow_db w')) = map order_key (orders (ow_db s))"
    show ?thesis unfolding orders_placed_keys db o ..
  next
    assume o: "map order_key (orders (ow_db w')) = map order_key (orders (ow_db s)) @ [(co_userId rq, co_idempotencyKey rq)]"
    show ?thesis unfolding orders_placed_keys db o filter_append using ne by auto
  qed
qed

section \<open>Properties\<close>


text \<open>
  The two sides of a trade between two masters collide. The key of a copy names the trade and the
  follower, not the side: when a follower copies both masters and the copy of the purchase has been
  placed, the copy of the sale is answered with that purchase; no order is placed, yet the history
  records a completed sale, so the follower's position shrinks by what was never sold.
\<close>

theorem second_side_is_answered_with_first:
  assumes "orders_place oenv (copy_order_request x1 t1 p1 q1) s = (Inr (Some item), s1)"
    and "idempotency_answer oenv (copy_order_request x1 t1 p1 q1) (ow_db s) = None"
    and "followerUserId x2 = followerUserId x1" and "rt_tradeId t2 = rt_tradeId t1" and "rt_side t2 = SELL"
    and "validateCreateOrderRequest (copy_order_request x2 t2 p2 q2) = Inr terms"
    and "placeOrder te = orders_place later_env" and "clock later_env < clock oenv + 24 * 60 * 60 * 1000"
    and "historyAnswers te copy_order_status.COMPLETED"
    and "create_history (history_row te x2 t2 q2 p2 copy_order_status.COMPLETED (Some (item_orderId item)) None) db = Inr (Some h, d)"
  shows "place_copy te x2 t2 q2 p2 db s1 = (Inr (), d, s1)
    \<and> followerOrderId h = Some (item_orderId item)
    \<and> copied_total (sub_id x2) (rt_pair t2) SELL d = copied_total (sub_id x2) (rt_pair t2) SELL db + q2"
proof -
  let ?rq1 = "copy_order_request x1 t1 p1 q1" and ?rq2 = "copy_order_request x2 t2 p2 q2"
  let ?h = "history_row te x2 t2 q2 p2 copy_order_status.COMPLETED (Some (item_orderId item)) None"
  have c1: "createOrder oenv ?rq1 s = (Inr item, s1)"
    using assms(1) by (auto simp: orders_place_def bind_simps split: prod.splits)
  have "createOrder later_env ?rq2 (s1\<lparr>ow_book := ow_book s1, ow_accounts := ow_accounts s1\<rparr>)
      = (Inr item, s1\<lparr>ow_book := ow_book s1, ow_accounts := ow_accounts s1\<rparr>)"
    by (rule completed_order_answered [OF c1 assms(2) _ _ assms(6,8)]) (simp_all add: copy_order_request_def assms(3,4))
  then have "orders_place later_env ?rq2 s1 = (Inr (Some item), s1)" by (simp add: orders_place_def)
  moreover have "h = ?h" and d: "d = db\<lparr>copyOrdersHistory := copyOrdersHistory db @ [?h]\<rparr>"
    using assms(10) by (auto elim!: create_history_cases)
  ultimately show ?thesis
    using assms(5,7,9,10)
    by (simp add: place_copy_def Let_def write_history_def copied_total_snoc) (simp add: history_row_def)
qed

end
