(* ===== verification/Copy_Demo.thy ===== *)
theory Copy_Demo
  imports Copy_Counts Copy_Spread Copy_Orders Orders_Demo
begin

text \<open>
  A master, a follower and the demo platform of the orders service, on which the properties of copy
  trading are applied.
\<close>

definition demo_master :: master_trader where
  "demo_master = \<lparr>mtr_id = ''m1'', mtr_userId = ''bob'', displayName = ''Bob'', bio = None, totalPnl = 0, winRate = 0,
     totalCopiers = 1, minDeposit = 10, mtr_isActive = True, mtr_createdAt = 0, mtr_updatedAt = 0\<rparr>"

definition demo_sub :: copy_subscription where
  "demo_sub = \<lparr>sub_id = ''s1'', followerUserId = ''alice'', sub_masterId = ''m1'', allocatedBalance = 50,
     maxSlippagePercent = 100, sub_status = ACTIVE, sub_createdAt = 0, sub_updatedAt = 0\<rparr>"

definition demo_copy_db :: copy_db where
  "demo_copy_db = empty_copy_db\<lparr>masterTraders := [demo_master], copySubscriptions := [demo_sub]\<rparr>"

text \<open>The master's balance is still in the cache.\<close>

definition demo_copy_world :: "(accounts_db, accounts_db orders_world) copy_world" where
  "demo_copy_world =
     \<lparr>cw_db = demo_copy_db, activeMastersMap = [''bob'' \<mapsto> ''m1''], activeMastersSet = {},
      cw_cache = [masterBalance_key ''bob'' ''USDT'' \<mapsto> (100, 6000)], cw_locks = Map.empty,
      cw_accounts = demo_db, cw_orders = \<lparr>ow_db = empty_orders_db, ow_book = empty_valkey, ow_accounts = demo_db\<rparr>\<rparr>"

definition demo_service :: "accounts_db copy_env" where
  "demo_service =
     \<lparr>answers = (\<lambda>_. True), saddReply = Replied, cacheRead = Replied, cacheWrite = Replied,
      getBalanceRpc = accounts_balance_query (\<lambda>_. True) ''i9'' 5, cp_now = 1000, cp_newId = ''s2''\<rparr>"

definition demo_task_env :: "order_side \<Rightarrow> accounts_db orders_world task_env" where
  "demo_task_env side =
     \<lparr>lockToken = ''tok'', lockReply = Replied, releaseReply = Replied, lockedAt = 1000, releasedAt = 1001,
      positionAnswers = True, placeOrder = orders_place demo_env,
      historyId = (case side of BUY \<Rightarrow> ''h1'' | SELL \<Rightarrow> ''h2''), historyAnswers = (\<lambda>_. True)\<rparr>"

definition demo_copy_env :: "(accounts_db, accounts_db orders_world) replication_env" where
  "demo_copy_env =
     \<lparr>re_service = (\<lambda>_. demo_service), re_bignumber = exact_bignumber, re_minLots = [''ETH_USDT'' \<mapsto> 1],
      re_task = (\<lambda>side _. demo_task_env side), re_order = (\<lambda>_ _ n. [0..<n]), re_heartbeat = (\<lambda>_ _. Inr ())\<rparr>"

definition demo_master_trade :: trade_executed where
  "demo_master_trade = demo_trade\<lparr>tradeId := ''t9'', buyerUserId := ''bob'', sellerUserId := ''carol'',
     trade_price := 200000000, trade_quantity := 60\<rparr>"

definition demo_copy_message :: "trade_executed envelope option" where
  "demo_copy_message = Some \<lparr>env_eventId = ''e9'', env_action = Some ''TRADE_EXECUTED'',
     env_eventType = ''matching.trade_executed'', env_payload = Some demo_master_trade\<rparr>"

definition demo_copied :: "(accounts_db, accounts_db orders_world) copy_world" where
  "demo_copied = snd (handleReplicationMessage demo_copy_env None demo_copy_message demo_copy_world)"

lemma demo_copy_ok: "copy_db_ok (cw_db demo_copy_world)"
  by (simp add: copy_db_ok_def subscriptions_ok_def history_ok_def copied_total_def demo_copy_world_def demo_copy_db_def
      empty_copy_db_def demo_sub_def demo_master_def)

lemma demo_order_complete: "complete_order (\<lambda>_ n. [0..<n])"
  by (simp add: complete_order_def)

text \<open>The same with an orders service that refuses every order.\<close>

definition refusing :: "(accounts_db, accounts_db orders_world) replication_env" where
  "refusing = demo_copy_env\<lparr>re_task := \<lambda>side _. (demo_task_env side)\<lparr>placeOrder := (\<lambda>rq s. (Inl (PlainError []), s))\<rparr>\<rparr>"

section \<open>The copied order at the orders service\<close>

definition demo_copy_task :: replication_task where
  "demo_copy_task = side_task demo_master_trade BUY ''m1''"

abbreviation demo_copy_request :: create_order_request where
  "demo_copy_request \<equiv> copy_order_request demo_sub demo_copy_task 202000000 30"

lemma demo_copy_request_simps:
  "co_userId demo_copy_request = ''alice''" "co_pair demo_copy_request = ''ETH_USDT''" "co_side demo_copy_request = BUY"
  "co_price demo_copy_request = Some 202000000" "co_amount demo_copy_request = Some 30"
  "co_idempotencyKey demo_copy_request = ''copy:t9:alice''"
  by (simp_all add: copy_order_request_def demo_sub_def demo_copy_task_def side_task_def demo_master_trade_def demo_trade_def copy_key_def)

lemma demo_copy_lock:
  "case lock_rpc demo_env (reserve_request ''lock:'' ''alice'' ''USDT'' 61 ''copy:t9:alice'' ''copy:t9:alice'') demo_db
   of (Inr b, a1) \<Rightarrow> True | (Inl e, a1) \<Rightarrow> False"
  by code_simp

lemma demo_copy_tx:
  "case create_order_tx demo_env demo_copy_request 202000000 30 (empty_orders_db\<lparr>idempotencyRecords := recs\<rparr>) empty_valkey
   of (Inr x, d2, b2) \<Rightarrow> ord_id x = ''o1'' | (Inl e, d2, b2) \<Rightarrow> False"
  by code_simp

lemma demo_copy_placed:
  obtains item s1 where "orders_place demo_env demo_copy_request (cw_orders demo_copy_world) = (Inr (Some item), s1)"
    and "item_orderId item = ''o1''"
proof -
  let ?w = "cw_orders demo_copy_world" and ?idem = "new_idempotency_record demo_env demo_copy_request"
  have w: "ow_db ?w = empty_orders_db" "ow_book ?w = empty_valkey" "ow_accounts ?w = demo_db" by (simp_all add: demo_copy_world_def)
  have v: "validateCreateOrderRequest demo_copy_request = Inr (202000000, 30)"
    by (simp add: validateCreateOrderRequest_def demo_copy_request_simps SUPPORTED_PAIRS_def)
  have a: "idempotency_answer demo_env demo_copy_request (ow_db ?w) = None"
    by (simp add: w idempotency_answer_def findRecord_def empty_orders_db_def)
  have c: "createRecord ?idem (ow_db ?w) = Inr (?idem, empty_orders_db\<lparr>idempotencyRecords := [?idem]\<rparr>)"
    by (simp add: w createRecord_def new_idempotency_record_def demo_copy_request_simps demo_env_def empty_orders_db_def
        del: copy_order_request_key)
  have cur: "lock_currency ''ETH_USDT'' BUY = ''USDT''" by code_simp
  have amt: "lock_amount (oe_toFixed demo_env) BUY 202000000 30 = 61"
    by (simp add: lock_amount_def demo_env_def fix_half_up_def)
  obtain b a1 where l: "lock_rpc demo_env (reserve_request ''lock:'' (co_userId demo_copy_request)
      (lock_currency (co_pair demo_copy_request) (co_side demo_copy_request))
      (lock_amount (oe_toFixed demo_env) (co_side demo_copy_request) 202000000 30)
      (co_idempotencyKey demo_copy_request) (co_idempotencyKey demo_copy_request)) (ow_accounts ?w) = (Inr b, a1)"
    using demo_copy_lock unfolding demo_copy_request_simps cur amt w by (auto split: prod.splits sum.splits)
  obtain x d2 b2 where t: "create_order_tx demo_env demo_copy_request 202000000 30 (empty_orders_db\<lparr>idempotencyRecords := [?idem]\<rparr>) (ow_book ?w)
      = (Inr x, d2, b2)" and x: "ord_id x = ''o1''"
    using demo_copy_tx [of "[?idem]"] unfolding w by (auto split: prod.splits sum.splits)
  from createOrder_success [OF v a c l t] x that show thesis
    by (simp add: orders_place_def mapOrderToItem_def)
qed

section \<open>Witnesses\<close>

lemma demo_places: "places_with orders_place demo_copy_env" "orders_keyed (ow_db (cw_orders demo_copy_world))"
  by (auto simp: places_with_def demo_copy_env_def demo_task_env_def demo_order_complete orders_keyed_def demo_copy_world_def
      empty_orders_db_def)

theorem copies_never_oversell_witness:
  "copied_total ''s1'' ''ETH_USDT'' SELL (cw_db demo_copied) \<le> copied_total ''s1'' ''ETH_USDT'' BUY (cw_db demo_copied)"
proof -
  have "copy_step demo_copy_world demo_copied"
    unfolding demo_copied_def
    by (rule copy_step.Message) (simp_all add: demo_copy_env_def exact_bignumber_ok demo_order_complete)
  then have "copy_step\<^sup>*\<^sup>* demo_copy_world demo_copied" by (rule r_into_rtranclp)
  from copies_never_oversell [OF this demo_copy_ok] show ?thesis by blast
qed


text \<open>Alice copies the buyer and the seller of one trade; the second subscription is \<open>s2\<close>.\<close>

theorem second_side_is_answered_with_first_witness:
  "\<exists>s1 d. place_copy (demo_task_env SELL) (demo_sub\<lparr>sub_id := ''s2''\<rparr>) (demo_copy_task\<lparr>rt_side := SELL\<rparr>) 30 198000000
       (demo_copy_db\<lparr>copySubscriptions := [demo_sub\<lparr>sub_id := ''s2''\<rparr>]\<rparr>) s1 = (Inr (), d, s1)
     \<and> copied_total ''s2'' ''ETH_USDT'' SELL d = 30"
proof -
  obtain item s1 where p: "orders_place demo_env demo_copy_request (cw_orders demo_copy_world) = (Inr (Some item), s1)"
    and i: "item_orderId item = ''o1''" using demo_copy_placed by blast
  let ?x = "demo_sub\<lparr>sub_id := ''s2''\<rparr>" and ?t = "demo_copy_task\<lparr>rt_side := SELL\<rparr>"
  let ?db = "demo_copy_db\<lparr>copySubscriptions := [?x]\<rparr>" and ?te = "demo_task_env SELL"
  let ?h = "history_row ?te ?x ?t 30 198000000 copy_order_status.COMPLETED (Some (item_orderId item)) None"
  have a: "idempotency_answer demo_env demo_copy_request (ow_db (cw_orders demo_copy_world)) = None"
    by (simp add: demo_copy_world_def idempotency_answer_def findRecord_def empty_orders_db_def)
  have v: "validateCreateOrderRequest (copy_order_request ?x ?t 198000000 30) = Inr (198000000, 30)"
    by (simp add: validateCreateOrderRequest_def copy_order_request_def demo_copy_task_def side_task_def demo_master_trade_def
        demo_trade_def SUPPORTED_PAIRS_def)
  have h: "create_history ?h ?db = Inr (Some ?h, ?db\<lparr>copyOrdersHistory := [?h]\<rparr>)"
    by (simp add: create_history_def history_row_def demo_copy_db_def empty_copy_db_def demo_copy_task_def side_task_def
        demo_master_trade_def demo_trade_def numeric_28_8_def findSubscriptionById_def demo_sub_def)
  have "place_copy ?te ?x ?t 30 198000000 ?db s1 = (Inr (), ?db\<lparr>copyOrdersHistory := [?h]\<rparr>, s1)
    \<and> followerOrderId ?h = Some (item_orderId item)
    \<and> copied_total (sub_id ?x) (rt_pair ?t) SELL (?db\<lparr>copyOrdersHistory := [?h]\<rparr>) = copied_total (sub_id ?x) (rt_pair ?t) SELL ?db + 30"
    by (rule second_side_is_answered_with_first [OF p a _ _ _ v _ _ _ h, where later_env = demo_env]) (simp_all add: demo_task_env_def)
  moreover have "copied_total (sub_id ?x) (rt_pair ?t) SELL ?db = 0" by (simp add: copied_total_def demo_copy_db_def empty_copy_db_def)
  moreover have "sub_id ?x = ''s2''" "rt_pair ?t = ''ETH_USDT''"
    by (simp_all add: demo_copy_task_def side_task_def demo_master_trade_def demo_trade_def)
  ultimately show ?thesis
    by (intro exI [of _ s1] exI [of _ "?db\<lparr>copyOrdersHistory := [?h]\<rparr>"]) simp
qed

section \<open>Subscribing and unsubscribing\<close>

definition demo_subscribe :: create_subscription_request where
  "demo_subscribe = \<lparr>cs_followerUserId = ''alice'', cs_masterId = ''m1'', cs_allocatedBalance = 60, cs_maxSlippagePercent = None\<rparr>"

definition demo_alone :: "(accounts_db, accounts_db orders_world) copy_world" where
  "demo_alone = demo_copy_world\<lparr>cw_db := empty_copy_db\<lparr>masterTraders := [demo_master\<lparr>totalCopiers := 0\<rparr>]\<rparr>\<rparr>"

lemma demo_balance_answer:
  "case accounts_balance_query (\<lambda>_. True) ''i9'' 5 \<lparr>rq_userId = ''alice'', rq_amount = [], rq_currency = ''USDT'',
     rq_idempotencyKey = [], rq_referenceId = []\<rparr> demo_db of
     (Inr (Some b), d) \<Rightarrow> br_availableBalance b = 100 | _ \<Rightarrow> False"
  by code_simp

lemma demo_balance: "\<exists>w1. getMasterOrFollowerBalance demo_service ''alice'' ''USDT'' demo_alone = (100, w1) \<and> cw_db w1 = cw_db demo_alone"
proof -
  obtain b d where "accounts_balance_query (\<lambda>_. True) ''i9'' 5 \<lparr>rq_userId = ''alice'', rq_amount = [], rq_currency = ''USDT'',
     rq_idempotencyKey = [], rq_referenceId = []\<rparr> demo_db = (Inr (Some b), d)" and "br_availableBalance b = 100"
    using demo_balance_answer by (auto split: prod.splits sum.splits option.splits)
  then show ?thesis
    by (simp add: getMasterOrFollowerBalance_def demo_service_def demo_alone_def demo_copy_world_def live_def masterBalance_key_def)
qed

lemma demo_subscribed: "\<exists>item w'. createSubscription demo_service demo_subscribe demo_alone = (Inr item, w')"
proof -
  obtain w1 where b: "getMasterOrFollowerBalance demo_service ''alice'' ''USDT'' demo_alone = (100, w1)"
    and w1: "cw_db w1 = cw_db demo_alone" using demo_balance by blast
  have a: "answers demo_service = (\<lambda>_. True)" by (simp add: demo_service_def)
  have db: "cw_db demo_alone = empty_copy_db\<lparr>masterTraders := [demo_master\<lparr>totalCopiers := 0\<rparr>]\<rparr>"
    by (simp add: demo_alone_def)
  show ?thesis
    by (simp add: createSubscription_def a b w1 db demo_subscribe_def asked_def wrote_def findMasterById_def empty_copy_db_def
        demo_master_def findByFollowerAndMaster_def findActiveByFollower_def current_allocation_def store_subscription_def
        create_subscription_row_def numeric_subscription_def numeric_28_8_def numeric_5_2_def maxSlippagePercentDefault_def
        item_or_undefined_def Let_def)
qed

lemma demo_alone_ok: "copy_db_ok (cw_db demo_alone)"
  by (simp add: copy_db_ok_def subscriptions_ok_def history_ok_def copied_total_def demo_alone_def empty_copy_db_def)


theorem copiers_counted_unless_torn_witness:
  "copiers_counted (cw_db (snd (createSubscription demo_service demo_subscribe demo_alone)))"
proof -
  obtain item w' where run: "createSubscription demo_service demo_subscribe demo_alone = (Inr item, w')" using demo_subscribed by blast
  have "copiers_counted (cw_db demo_alone)"
    by (simp add: copiers_counted_def copiers_def demo_alone_def empty_copy_db_def)
  from copiers_counted_unless_torn [OF demo_alone_ok this, of "Inr item" w' demo_service demo_subscribe] run show ?thesis by auto
qed

section \<open>Replicating one side\<close>

lemma demo_side: "rt_side demo_copy_task = BUY" "rt_masterId demo_copy_task = ''m1''" "rt_masterUserId demo_copy_task = ''bob''"
  "rt_tradeId demo_copy_task = ''t9''" "rt_pair demo_copy_task = ''ETH_USDT''" "masterPrice demo_copy_task = 200000000"
  "masterQuantity demo_copy_task = 60"
  by (simp_all add: demo_copy_task_def side_task_def demo_master_trade_def demo_trade_def)

lemma demo_followers: "findActiveByMaster ''m1'' (cw_db demo_copy_world) = [demo_sub]"
  by (simp add: findActiveByMaster_def demo_copy_world_def demo_copy_db_def demo_sub_def)

lemma demo_master_balance: "getMasterOrFollowerBalance demo_service ''bob'' ''USDT'' demo_copy_world = (100, demo_copy_world)"
  by (simp add: getMasterOrFollowerBalance_def demo_service_def demo_copy_world_def live_def)

lemma demo_replicated: "\<exists>w'. replicateMasterTrade demo_copy_env demo_copy_task demo_copy_world = (Inr (), w')"
  by (simp add: replicateMasterTrade_def demo_side demo_followers demo_copy_env_def asked_def demo_master_balance
      executeInBatches_def chunkArray_def followerBatchConcurrency_def chunks_single split_beta)
    (simp add: demo_service_def)

lemma demo_possible: "copy_possible demo_copy_env demo_copy_task 100 demo_sub demo_copy_world"
  by (simp add: copy_possible_def demo_copy_env_def demo_task_env_def demo_side demo_copy_world_def live_def demo_copy_db_def
      empty_copy_db_def findSubscriptionById_def demo_sub_def numeric_28_8_def calculateProtectedPrice_def exact_bignumber_def
      target_quantity_def calculateBuyQuantity_def)


text \<open>Bob sells; nothing is left in his base account, so the balance query answers zero.\<close>

theorem sold_out_master_is_not_copied_witness:
  "cw_orders (snd (replicateMasterTrade demo_copy_env (demo_copy_task\<lparr>rt_side := SELL\<rparr>) demo_copy_world)) = cw_orders demo_copy_world"
proof -
  let ?t = "demo_copy_task\<lparr>rt_side := SELL\<rparr>"
  obtain r w' where run: "replicateMasterTrade demo_copy_env ?t demo_copy_world = (r, w')" by fastforce
  have q: "case accounts_balance_query (\<lambda>_. True) ''i9'' 5 \<lparr>rq_userId = ''bob'', rq_amount = [], rq_currency = ''ETH'',
     rq_idempotencyKey = [], rq_referenceId = []\<rparr> demo_db of (Inr (Some b), d) \<Rightarrow> br_availableBalance b = 0 | _ \<Rightarrow> False" by code_simp
  have base: "symbol_base ''ETH_USDT'' = ''ETH''" by code_simp
  have "fst (getMasterOrFollowerBalance demo_service ''bob'' ''ETH'' demo_copy_world) = 0"
    using q by (auto simp: getMasterOrFollowerBalance_def demo_service_def demo_copy_world_def live_def masterBalance_key_def
        split: prod.splits sum.splits option.splits)
  then have "cw_orders w' = cw_orders demo_copy_world"
    by (intro sold_out_master_is_not_copied [OF run, THEN conjunct1])
      (simp_all add: demo_side demo_copy_env_def demo_order_complete base)
  then show ?thesis by (simp only: run snd_conv)
qed

end
