(* ===== verification/Ws_Rooms.thy ===== *)
theory Ws_Rooms
  imports Main
begin

text \<open>
  The rooms of the websocket gateway (\<open>apps/api-gateway/src/websockets/room-manager.service.ts\<close>): a
  two-way index between rooms and sockets, kept without empty entries. A \<open>Set\<close> is the list of its
  elements in insertion order, a \<open>Map\<close> a partial function.
\<close>

section \<open>Sets in insertion order\<close>

definition set_add :: "'a \<Rightarrow> 'a list \<Rightarrow> 'a list" where
  "set_add x xs = (if x \<in> set xs then xs else xs @ [x])"

definition set_delete :: "'a \<Rightarrow> 'a list \<Rightarrow> 'a list" where
  "set_delete x xs = filter (\<lambda>y. y \<noteq> x) xs"

lemma set_set_add [simp]: "set (set_add x xs) = insert x (set xs)"
  by (auto simp: set_add_def)

lemma set_set_delete [simp]: "set (set_delete x xs) = set xs - {x}"
  by (auto simp: set_delete_def)

lemma distinct_set_add [simp]: "distinct xs \<Longrightarrow> distinct (set_add x xs)"
  by (simp add: set_add_def)

lemma distinct_set_delete [simp]: "distinct xs \<Longrightarrow> distinct (set_delete x xs)"
  by (simp add: set_delete_def)

text \<open>A map of sets: an entry is created with its first element and removed with its last.\<close>

definition entry :: "('k \<rightharpoonup> 'v list) \<Rightarrow> 'k \<Rightarrow> 'v list" where
  "entry m k = (case m k of None \<Rightarrow> [] | Some xs \<Rightarrow> xs)"

definition index_add :: "'k \<Rightarrow> 'v \<Rightarrow> ('k \<rightharpoonup> 'v list) \<Rightarrow> ('k \<rightharpoonup> 'v list)" where
  "index_add k v m = m(k \<mapsto> set_add v (entry m k))"

definition index_delete :: "'k \<Rightarrow> 'v \<Rightarrow> ('k \<rightharpoonup> 'v list) \<Rightarrow> ('k \<rightharpoonup> 'v list)" where
  "index_delete k v m =
     (case m k of
        None \<Rightarrow> m
      | Some xs \<Rightarrow> (let ys = set_delete v xs in if length ys = 0 then m(k := None) else m(k \<mapsto> ys)))"

lemma set_entry_add [simp]: "set (entry (index_add k v m) k') = (if k' = k then insert v (set (entry m k)) else set (entry m k'))"
  by (cases "m k") (auto simp: entry_def index_add_def)

lemma set_entry_delete [simp]:
  "set (entry (index_delete k v m) k') = (if k' = k then set (entry m k) - {v} else set (entry m k'))"
  by (cases "m k") (auto simp: entry_def index_delete_def Let_def set_delete_def filter_empty_conv)

definition index_ok :: "('k \<rightharpoonup> 'v list) \<Rightarrow> bool" where
  "index_ok m \<longleftrightarrow> (\<forall>k xs. m k = Some xs \<longrightarrow> xs \<noteq> [] \<and> distinct xs)"

lemma index_ok_empty [simp]: "index_ok (\<lambda>_. None)"
  by (simp add: index_ok_def)

lemma index_ok_add: "index_ok m \<Longrightarrow> index_ok (index_add k v m)"
  by (auto simp: index_ok_def index_add_def entry_def set_add_def split: option.split)

lemma index_ok_delete: "index_ok m \<Longrightarrow> index_ok (index_delete k v m)"
  by (auto simp: index_ok_def index_delete_def Let_def split: option.split)

section \<open>The room manager\<close>

record 'c room_index =
  rooms :: "string \<rightharpoonup> 'c list"
  clientRooms :: "'c \<rightharpoonup> string list"

definition no_rooms :: "'c room_index" where
  "no_rooms = \<lparr>rooms = (\<lambda>_. None), clientRooms = (\<lambda>_. None)\<rparr>"

definition join_room :: "'c \<Rightarrow> string \<Rightarrow> 'c room_index \<Rightarrow> 'c room_index" where
  "join_room c r x = \<lparr>rooms = index_add r c (rooms x), clientRooms = index_add c r (clientRooms x)\<rparr>"

definition leave_room :: "'c \<Rightarrow> string \<Rightarrow> 'c room_index \<Rightarrow> 'c room_index" where
  "leave_room c r x = \<lparr>rooms = index_delete r c (rooms x), clientRooms = index_delete c r (clientRooms x)\<rparr>"

definition removeClient :: "'c \<Rightarrow> 'c room_index \<Rightarrow> 'c room_index" where
  "removeClient c x =
     (case clientRooms x c of
        None \<Rightarrow> x
      | Some rs \<Rightarrow> \<lparr>rooms = fold (\<lambda>r m. index_delete r c m) rs (rooms x), clientRooms = (clientRooms x)(c := None)\<rparr>)"

definition getClientCountInRoom :: "string \<Rightarrow> 'c room_index \<Rightarrow> nat" where
  "getClientCountInRoom r x = (case rooms x r of None \<Rightarrow> 0 | Some cs \<Rightarrow> length cs)"

definition getClientRooms :: "'c \<Rightarrow> 'c room_index \<Rightarrow> string list" where
  "getClientRooms c x = (case clientRooms x c of None \<Rightarrow> [] | Some rs \<Rightarrow> rs)"

definition getUserPrivateRoom :: "string \<Rightarrow> string \<Rightarrow> string" where
  "getUserPrivateRoom userId subTopic = ''user:'' @ userId @ '':'' @ subTopic"

section \<open>Both directions agree\<close>

definition members :: "'c room_index \<Rightarrow> (string \<times> 'c) set" where
  "members x = {(r, c). c \<in> set (entry (rooms x) r)}"

definition rooms_ok :: "'c room_index \<Rightarrow> bool" where
  "rooms_ok x \<longleftrightarrow> index_ok (rooms x) \<and> index_ok (clientRooms x) \<and>
     (\<forall>r c. c \<in> set (entry (rooms x) r) \<longleftrightarrow> r \<in> set (entry (clientRooms x) c))"

lemma no_rooms_ok [simp]: "rooms_ok no_rooms" and members_no_rooms [simp]: "members no_rooms = {}"
  by (simp_all add: rooms_ok_def no_rooms_def members_def entry_def)

lemma join_room_ok: "rooms_ok x \<Longrightarrow> rooms_ok (join_room c r x)"
  by (auto simp: rooms_ok_def join_room_def index_ok_add split: if_splits)

lemma leave_room_ok: "rooms_ok x \<Longrightarrow> rooms_ok (leave_room c r x)"
  by (auto simp: rooms_ok_def leave_room_def index_ok_delete split: if_splits)

lemma members_join [simp]: "members (join_room c r x) = insert (r, c) (members x)"
  by (auto simp: members_def join_room_def split: if_splits)

lemma members_leave [simp]: "members (leave_room c r x) = members x - {(r, c)}"
  by (auto simp: members_def leave_room_def split: if_splits)

lemma set_entry_fold_delete:
  "set (entry (fold (\<lambda>r m. index_delete r c m) rs m) r') = (if r' \<in> set rs then set (entry m r') - {c} else set (entry m r'))"
  by (induction rs arbitrary: m) auto

lemma index_ok_fold_delete: "index_ok m \<Longrightarrow> index_ok (fold (\<lambda>r m. index_delete r c m) rs m)"
  by (induction rs arbitrary: m) (simp_all add: index_ok_delete)

lemma removeClient_eq:
  assumes "rooms_ok x"
  shows "set (entry (rooms (removeClient c x)) r) = set (entry (rooms x) r) - {c}"
    and "entry (clientRooms (removeClient c x)) c' = (if c' = c then [] else entry (clientRooms x) c')"
proof -
  have both: "c \<in> set (entry (rooms x) r) \<longleftrightarrow> r \<in> set (entry (clientRooms x) c)"
    using assms by (simp add: rooms_ok_def)
  show "set (entry (rooms (removeClient c x)) r) = set (entry (rooms x) r) - {c}"
  proof (cases "clientRooms x c")
    case None
    then have "c \<notin> set (entry (rooms x) r)" using both by (simp add: entry_def)
    with None show ?thesis by (simp add: removeClient_def)
  next
    case (Some rs)
    then have "r \<notin> set rs \<Longrightarrow> c \<notin> set (entry (rooms x) r)"
      using both by (simp add: entry_def [of "clientRooms x"])
    with Some show ?thesis by (simp add: removeClient_def set_entry_fold_delete)
  qed
  show "entry (clientRooms (removeClient c x)) c' = (if c' = c then [] else entry (clientRooms x) c')"
    by (simp add: removeClient_def entry_def split: option.split)
qed

lemma removeClient_ok:
  assumes "rooms_ok x"
  shows "rooms_ok (removeClient c x)"
proof -
  have "index_ok (rooms (removeClient c x)) \<and> index_ok (clientRooms (removeClient c x))"
    using assms by (simp add: removeClient_def rooms_ok_def index_ok_fold_delete split: option.split)
      (simp add: index_ok_def)
  then show ?thesis
    using assms by (simp add: rooms_ok_def removeClient_eq)
qed

lemma members_remove [simp]: "rooms_ok x \<Longrightarrow> members (removeClient c x) = {(r, c') \<in> members x. c' \<noteq> c}"
  by (auto simp: members_def removeClient_eq)

end
