(* ===== verification/Ws_Bridge.thy ===== *)
theory Ws_Bridge
  imports TransfersDb Kafka Ws_Rooms
begin

text \<open>
  From Kafka to the websocket channels: the messages of \<open>libs/contracts/src/websockets/ws-messages.ts\<close>
  and what the bridge (\<open>apps/api-gateway/src/websockets/kafka-bridge.service.ts\<close>) publishes for an
  event. A message is carried through Valkey as the value it is the JSON text of; the trace id that
  is added to it is left out.
\<close>

section \<open>Messages\<close>

record ws_trade =
  wt_channel :: string
  wt_tradeId :: uuid
  wt_symbol :: string
  wt_price :: amount
  wt_quantity :: amount
  wt_timestamp :: time

record ws_delta =
  wd_channel :: string
  wd_sequenceId :: nat
  wd_side :: order_side
  wd_price :: amount
  wd_quantity :: amount
  wd_timestamp :: time

record ws_snapshot =
  wn_channel :: string
  wn_sequenceId :: nat
  wn_bids :: "(amount \<times> amount) list"
  wn_asks :: "(amount \<times> amount) list"
  wn_timestamp :: time

record ws_order_update =
  wo_orderId :: uuid
  wo_symbol :: string
  wo_side :: "order_side option"
  wo_status :: order_status
  wo_filledQuantity :: amount
  wo_remainingQuantity :: amount
  wo_timestamp :: time

datatype ws_transfer_type = DEPOSIT | WITHDRAWAL

datatype ws_transfer_status = DepositStatus deposit_status | WithdrawalStatus withdrawal_status

record ws_transfer_update =
  wx_transferId :: uuid
  wx_type :: ws_transfer_type
  wx_currency :: string
  wx_amount :: amount
  wx_status :: ws_transfer_status
  wx_txHash :: string
  wx_timestamp :: time

datatype ws_message =
    WsTrade ws_trade
  | WsDelta ws_delta
  | WsSnapshot ws_snapshot
  | WsUserOrder ws_order_update
  | WsUserTransfer ws_transfer_update
  | WsError "string option" time
  | WsAck string string time
  | WsPong time

definition orderbook_channel :: "string \<Rightarrow> string" where
  "orderbook_channel symbol = ''orderbook:'' @ symbol"

definition trades_channel :: "string \<Rightarrow> string" where
  "trades_channel symbol = ''trades:'' @ symbol"

definition userOrders :: string where
  "userOrders = ''user:orders''"

definition userTransfers :: string where
  "userTransfers = ''user:transfers''"

text \<open>The regular expression \<open>^[A-Z0-9]+_[A-Z0-9]+$\<close>.\<close>

definition upper_alnum :: "char \<Rightarrow> bool" where
  "upper_alnum c \<longleftrightarrow> is_digit c \<or> (65 \<le> (of_char c :: nat) \<and> (of_char c :: nat) \<le> 90)"

definition SYMBOL_REGEX :: "string \<Rightarrow> bool" where
  "SYMBOL_REGEX s \<longleftrightarrow>
     (case js_split (CHR ''_'') s of
        [b, q] \<Rightarrow> b \<noteq> [] \<and> q \<noteq> [] \<and> list_all upper_alnum b \<and> list_all upper_alnum q
      | _ \<Rightarrow> False)"

definition isValidChannel :: "string \<Rightarrow> bool" where
  "isValidChannel channel \<longleftrightarrow>
     channel \<noteq> [] \<and>
     (channel = userOrders \<or> channel = userTransfers \<or>
      (case js_split (CHR '':'') channel of
         [prefix, symbol] \<Rightarrow> (prefix = ''orderbook'' \<or> prefix = ''trades'') \<and> SYMBOL_REGEX symbol
       | _ \<Rightarrow> False))"

lemma own_channels_valid: "isValidChannel userOrders" "isValidChannel userTransfers"
proof -
  have "userOrders \<noteq> []" "userTransfers \<noteq> []" by (simp_all add: userOrders_def userTransfers_def)
  then show "isValidChannel userOrders" "isValidChannel userTransfers" by (simp_all add: isValidChannel_def)
qed

section \<open>The bridge\<close>

datatype bridge_kind =
    TradeKind | PlacedKind | CancelledKind | FilledKind | DepositKind | CompletedKind | FailedKind

datatype ws_payload = OrdersPayload orders_payload | TransfersPayload transfers_payload

definition bridge_kind_of :: "string \<Rightarrow> string \<Rightarrow> bridge_kind option" where
  "bridge_kind_of action eventType =
     (if action = ''TRADE_EXECUTED'' \<or> eventType = ''matching.trade_executed'' then Some TradeKind
      else if action = ''ORDER_PLACED'' \<or> eventType = ''order.placed'' then Some PlacedKind
      else if action = ''ORDER_CANCELLED'' \<or> eventType = ''order.cancelled'' then Some CancelledKind
      else if action = ''ORDER_FILLED'' \<or> eventType = ''order.filled'' then Some FilledKind
      else if action = ''DEPOSIT_CONFIRMED'' \<or> eventType = ''transfers.deposit_confirmed'' then Some DepositKind
      else if action = ''WITHDRAWAL_COMPLETED'' \<or> eventType = ''transfers.withdrawal_completed'' then Some CompletedKind
      else if action = ''WITHDRAWAL_FAILED'' \<or> eventType = ''transfers.withdrawal_failed'' then Some FailedKind
      else None)"

definition bridge_trade :: "trade_executed \<Rightarrow> (string \<times> ws_message) list" where
  "bridge_trade e =
     [(trades_channel (trade_symbol e),
       WsTrade \<lparr>wt_channel = trades_channel (trade_symbol e), wt_tradeId = tradeId e, wt_symbol = trade_symbol e,
         wt_price = trade_price e, wt_quantity = trade_quantity e, wt_timestamp = trade_timestamp e\<rparr>),
      (getUserPrivateRoom (buyerUserId e) ''orders'',
       WsUserOrder \<lparr>wo_orderId = buyOrderId e, wo_symbol = trade_symbol e, wo_side = Some BUY,
         wo_status = PARTIALLY_FILLED, wo_filledQuantity = trade_quantity e, wo_remainingQuantity = 0,
         wo_timestamp = trade_timestamp e\<rparr>),
      (getUserPrivateRoom (sellerUserId e) ''orders'',
       WsUserOrder \<lparr>wo_orderId = sellOrderId e, wo_symbol = trade_symbol e, wo_side = Some SELL,
         wo_status = PARTIALLY_FILLED, wo_filledQuantity = trade_quantity e, wo_remainingQuantity = 0,
         wo_timestamp = trade_timestamp e\<rparr>)]"

definition bridge_placed :: "order_placed \<Rightarrow> (string \<times> ws_message) list" where
  "bridge_placed e =
     [(orderbook_channel (op_symbol e),
       WsDelta \<lparr>wd_channel = orderbook_channel (op_symbol e), wd_sequenceId = op_sequenceId e, wd_side = op_side e,
         wd_price = op_price e, wd_quantity = op_levelTotalQuantity e, wd_timestamp = op_timestamp e\<rparr>),
      (getUserPrivateRoom (op_userId e) ''orders'',
       WsUserOrder \<lparr>wo_orderId = op_orderId e, wo_symbol = op_symbol e, wo_side = Some (op_side e), wo_status = OPEN,
         wo_filledQuantity = 0, wo_remainingQuantity = op_quantity e, wo_timestamp = op_timestamp e\<rparr>)]"

definition bridge_cancelled :: "order_cancelled \<Rightarrow> (string \<times> ws_message) list" where
  "bridge_cancelled e =
     [(orderbook_channel (oc_symbol e),
       WsDelta \<lparr>wd_channel = orderbook_channel (oc_symbol e), wd_sequenceId = oc_sequenceId e, wd_side = oc_side e,
         wd_price = oc_price e, wd_quantity = oc_levelTotalQuantity e, wd_timestamp = oc_timestamp e\<rparr>),
      (getUserPrivateRoom (oc_userId e) ''orders'',
       WsUserOrder \<lparr>wo_orderId = oc_orderId e, wo_symbol = oc_symbol e, wo_side = Some (oc_side e), wo_status = CANCELLED,
         wo_filledQuantity = 0, wo_remainingQuantity = oc_remainingQuantity e, wo_timestamp = oc_timestamp e\<rparr>)]"

definition bridge_filled :: "order_filled \<Rightarrow> (string \<times> ws_message) list" where
  "bridge_filled e =
     [(getUserPrivateRoom (of_userId e) ''orders'',
       WsUserOrder \<lparr>wo_orderId = of_orderId e, wo_symbol = of_symbol e, wo_side = None, wo_status = FILLED,
         wo_filledQuantity = of_filledQuantity e, wo_remainingQuantity = of_remainingQuantity e,
         wo_timestamp = of_timestamp e\<rparr>)]"

definition bridge_deposit :: "deposit_confirmed \<Rightarrow> (string \<times> ws_message) list" where
  "bridge_deposit e =
     [(getUserPrivateRoom (dc_userId e) ''transfers'',
       WsUserTransfer \<lparr>wx_transferId = dc_depositId e, wx_type = DEPOSIT, wx_currency = dc_currency e,
         wx_amount = dc_amount e, wx_status = DepositStatus CREDITED, wx_txHash = dc_txHash e,
         wx_timestamp = dc_timestamp e\<rparr>)]"

definition bridge_completed :: "withdrawal_completed \<Rightarrow> (string \<times> ws_message) list" where
  "bridge_completed e =
     [(getUserPrivateRoom (wc_userId e) ''transfers'',
       WsUserTransfer \<lparr>wx_transferId = wc_withdrawalId e, wx_type = WITHDRAWAL, wx_currency = wc_currency e,
         wx_amount = wc_amount e, wx_status = WithdrawalStatus withdrawal_status.COMPLETED, wx_txHash = wc_txHash e,
         wx_timestamp = wc_timestamp e\<rparr>)]"

definition bridge_failed :: "withdrawal_failed \<Rightarrow> (string \<times> ws_message) list" where
  "bridge_failed e =
     [(getUserPrivateRoom (wf_userId e) ''transfers'',
       WsUserTransfer \<lparr>wx_transferId = wf_withdrawalId e, wx_type = WITHDRAWAL, wx_currency = wf_currency e,
         wx_amount = wf_amount e, wx_status = WithdrawalStatus withdrawal_status.FAILED, wx_txHash = wf_txHash e,
         wx_timestamp = wf_timestamp e\<rparr>)]"

text \<open>
  The payload is read as that of the action; an event whose payload is of another kind is not
  represented.
\<close>

fun bridge_messages :: "bridge_kind \<Rightarrow> ws_payload \<Rightarrow> (string \<times> ws_message) list" where
  "bridge_messages TradeKind (OrdersPayload (TradeExecuted e)) = bridge_trade e"
| "bridge_messages PlacedKind (OrdersPayload (OrderPlaced e)) = bridge_placed e"
| "bridge_messages CancelledKind (OrdersPayload (OrderCancelled e)) = bridge_cancelled e"
| "bridge_messages FilledKind (OrdersPayload (OrderFilled e)) = bridge_filled e"
| "bridge_messages DepositKind (TransfersPayload (DepositConfirmed e)) = bridge_deposit e"
| "bridge_messages CompletedKind (TransfersPayload (WithdrawalCompleted e)) = bridge_completed e"
| "bridge_messages FailedKind (TransfersPayload (WithdrawalFailed e)) = bridge_failed e"
| "bridge_messages _ _ = []"

text \<open>The messages are published one after the other; the first failure is passed on.\<close>

fun publish_all ::
  "(string \<times> ws_message \<Rightarrow> 's \<Rightarrow> unit result \<times> 's) \<Rightarrow> (string \<times> ws_message) list \<Rightarrow> 's \<Rightarrow> unit result \<times> 's" where
  "publish_all publish [] s = (Inr (), s)"
| "publish_all publish (m # ms) s =
     (case publish m s of
        (Inl e, s1) \<Rightarrow> (Inl e, s1)
      | (Inr _, s1) \<Rightarrow> publish_all publish ms s1)"

definition handleBridgeMessage ::
  "(string \<times> ws_message \<Rightarrow> 's \<Rightarrow> unit result \<times> 's) \<Rightarrow> ws_payload envelope \<Rightarrow> string option \<Rightarrow> 's \<Rightarrow> unit result \<times> 's" where
  "handleBridgeMessage publish env header s =
     (case env_payload env of
        None \<Rightarrow> (Inr (), s)
      | Some p \<Rightarrow>
          (case bridge_kind_of (envelope_action env header) (env_eventType env) of
             None \<Rightarrow> (Inr (), s)
           | Some k \<Rightarrow> publish_all publish (bridge_messages k p) s))"

section \<open>Whom a private message is for\<close>

definition is_private :: "ws_message \<Rightarrow> bool" where
  "is_private m \<longleftrightarrow> (\<exists>x. m = WsUserOrder x) \<or> (\<exists>x. m = WsUserTransfer x)"

text \<open>The owner of the order or the transfer that the message tells about, as the event names it.\<close>

fun owners :: "ws_payload \<Rightarrow> ws_message \<Rightarrow> uuid set" where
  "owners (OrdersPayload (TradeExecuted e)) (WsUserOrder x) =
     (if wo_side x = Some BUY then {buyerUserId e} else {sellerUserId e})"
| "owners (OrdersPayload (OrderPlaced e)) (WsUserOrder x) = {op_userId e}"
| "owners (OrdersPayload (OrderCancelled e)) (WsUserOrder x) = {oc_userId e}"
| "owners (OrdersPayload (OrderFilled e)) (WsUserOrder x) = {of_userId e}"
| "owners (TransfersPayload (DepositConfirmed e)) (WsUserTransfer x) = {dc_userId e}"
| "owners (TransfersPayload (WithdrawalCompleted e)) (WsUserTransfer x) = {wc_userId e}"
| "owners (TransfersPayload (WithdrawalFailed e)) (WsUserTransfer x) = {wf_userId e}"
| "owners _ _ = {}"

lemmas bridge_defs = bridge_trade_def bridge_placed_def bridge_cancelled_def bridge_filled_def
  bridge_deposit_def bridge_completed_def bridge_failed_def

lemma bridge_private_room:
  "(ch, m) \<in> set (bridge_messages k p) \<Longrightarrow> is_private m \<Longrightarrow>
     \<exists>u topic. ch = getUserPrivateRoom u topic \<and> topic \<in> {''orders'', ''transfers''} \<and> owners p m = {u}"
  by (cases "(k, p)" rule: bridge_messages.cases) (auto simp: bridge_defs is_private_def)

lemma private_room_inj:
  assumes "getUserPrivateRoom u t = getUserPrivateRoom u' t'"
    and "t \<in> {''orders'', ''transfers''}" and "t' \<in> {''orders'', ''transfers''}"
  shows "u = u'" and "t = t'"
proof -
  have "rev t @ '':'' @ rev u = rev t' @ '':'' @ rev u'"
    using arg_cong [OF assms(1), of rev] by (simp add: getUserPrivateRoom_def)
  then show "u = u'" and "t = t'" using assms(2,3) by auto
qed

text \<open>A channel that a client may name and that is not its own stream is a market data channel.\<close>

lemma public_channel_not_private:
  assumes "isValidChannel ch" and "ch \<noteq> userOrders" and "ch \<noteq> userTransfers"
  shows "ch \<noteq> getUserPrivateRoom u t"
proof
  assume eq: "ch = getUserPrivateRoom u t"
  have "js_split (CHR '':'') ch = ''user'' # js_split (CHR '':'') (u @ '':'' @ t)"
    by (simp add: eq getUserPrivateRoom_def)
  with assms show False by (auto simp: isValidChannel_def split: list.splits)
qed

end
