(* ===== verification/IdentityDb.thy ===== *)
theory IdentityDb
  imports Copy_Lock Evm
begin

text \<open>
  The database of the identity service and what it calls: the tables \<open>users\<close> and \<open>refresh_tokens\<close>
  (\<open>apps/identity/src/database/schema\<close>), the users repository, and the functions of \<open>viem\<close>,
  \<open>argon2\<close> and the JWT library, which are arguments of the model. A time is in milliseconds.
\<close>

section \<open>Tables\<close>

datatype user_role = TRADER | ADMIN

fun role_text :: "user_role \<Rightarrow> string" where
  "role_text TRADER = ''trader''"
| "role_text ADMIN = ''admin''"

definition parse_role :: "string \<Rightarrow> user_role option" where
  "parse_role s = List.find (\<lambda>r. role_text r = s) [TRADER, ADMIN]"

record user =
  usr_id :: uuid
  walletAddress :: string
  role :: user_role
  usr_isActive :: bool
  usr_createdAt :: time
  usr_updatedAt :: time

record refresh_token =
  rt_id :: uuid
  rt_userId :: uuid
  tokenHash :: string
  userAgent :: "string option"
  ipAddress :: "string option"
  isRevoked :: bool
  expiresAt :: time
  rt_createdAt :: time

record identity_db =
  users :: "user list"
  refreshTokens :: "refresh_token list"

section \<open>What the service calls\<close>

text \<open>
  \<open>new Date(s)\<close> of a text that is no date is a date too, and every comparison with it is false.
\<close>

datatype js_date = ValidDate time | InvalidDate

fun js_after :: "time \<Rightarrow> js_date \<Rightarrow> bool" where
  "js_after now (ValidDate t) \<longleftrightarrow> t < now"
| "js_after now InvalidDate \<longleftrightarrow> False"

text \<open>The fields of a SIWE message that the service looks at; each may be missing.\<close>

record siwe_message =
  siwe_address :: "string option"
  siwe_nonce :: "string option"
  siwe_expirationTime :: "js_date option"

record jwt_payload =
  jwt_sub :: uuid
  jwt_walletAddress :: string
  jwt_role :: user_role

text \<open>
  \<open>verifyMessage\<close> raises where it is \<open>None\<close>, \<open>argon2.verify\<close> where it is \<open>Inl\<close>. A query without
  \<open>order by\<close> answers the rows in the order the database likes, \<open>rowOrder\<close>.
\<close>

record identity_env =
  isAddress :: "string \<Rightarrow> bool"
  getAddress :: "string \<Rightarrow> string"
  parseSiweMessage :: "string \<Rightarrow> siwe_message"
  verifyMessage :: "string \<Rightarrow> string \<Rightarrow> string \<Rightarrow> bool option"
  argon2_hash :: "string \<Rightarrow> string \<Rightarrow> string"
  argon2_verify :: "string \<Rightarrow> string \<Rightarrow> bool result"
  signAsync :: "jwt_payload \<Rightarrow> nat \<Rightarrow> string \<Rightarrow> time \<Rightarrow> string"
  verifyAsync :: "string \<Rightarrow> string \<Rightarrow> time \<Rightarrow> jwt_payload option"
  jwtSecret :: string
  rowOrder :: "refresh_token list \<Rightarrow> refresh_token list"

text \<open>What a call draws: the clock, fresh identifiers and random bytes, and how Valkey answers it.\<close>

record draw =
  clock :: time
  newUserId :: uuid
  newTokenId :: uuid
  newNonce :: string
  rawToken :: string
  salt :: string
  valkey :: valkey_reply

section \<open>The users repository\<close>

definition findUserById :: "uuid \<Rightarrow> identity_db \<Rightarrow> user option" where
  "findUserById i db = List.find (\<lambda>u. usr_id u = i) (users db)"

definition findByWalletAddress :: "string \<Rightarrow> identity_db \<Rightarrow> user option" where
  "findByWalletAddress w db = List.find (\<lambda>u. walletAddress u = w) (users db)"

definition createUser :: "draw \<Rightarrow> string \<Rightarrow> user_role \<Rightarrow> identity_db \<Rightarrow> (user \<times> identity_db) result" where
  "createUser d w r db =
     (if 42 < length w then Inl (DbException ''22001'')
      else if newUserId d \<in> usr_id ` set (users db) \<or> w \<in> walletAddress ` set (users db)
      then Inl (DbException ''23505'')
      else
        (let u = \<lparr>usr_id = newUserId d, walletAddress = w, role = r, usr_isActive = True,
                  usr_createdAt = clock d, usr_updatedAt = clock d\<rparr>
         in Inr (u, db\<lparr>users := users db @ [u]\<rparr>)))"

text \<open>The first query may see an older database than the one the insert meets.\<close>

definition findOrCreateByWalletAddress ::
  "draw \<Rightarrow> string \<Rightarrow> user_role \<Rightarrow> identity_db \<Rightarrow> identity_db \<Rightarrow> (user \<times> bool) result \<times> identity_db" where
  "findOrCreateByWalletAddress d w r seen db =
     (case findByWalletAddress w seen of
        Some u \<Rightarrow> (Inr (u, False), db)
      | None \<Rightarrow>
          (case createUser d w r db of
             Inr (u, db') \<Rightarrow> (Inr (u, True), db')
           | Inl _ \<Rightarrow>
               (case findByWalletAddress w db of
                  Some u \<Rightarrow> (Inr (u, False), db)
                | None \<Rightarrow> (Inl (PlainError ''Failed to create or find user''), db))))"

definition updateRole_row :: "time \<Rightarrow> uuid \<Rightarrow> user_role \<Rightarrow> identity_db \<Rightarrow> user option \<times> identity_db" where
  "updateRole_row now i r db =
     (let db' = db\<lparr>users := update_rows (\<lambda>u. usr_id u = i) (\<lambda>u. u\<lparr>role := r, usr_updatedAt := now\<rparr>) (users db)\<rparr>
      in (findUserById i db', db'))"

section \<open>Refresh tokens\<close>

definition too_long :: "nat \<Rightarrow> string option \<Rightarrow> bool" where
  "too_long n s \<longleftrightarrow> (case s of None \<Rightarrow> False | Some t \<Rightarrow> n < length t)"

definition insertRefreshToken :: "refresh_token \<Rightarrow> identity_db \<Rightarrow> identity_db result" where
  "insertRefreshToken r db =
     (if too_long 255 (userAgent r) \<or> too_long 45 (ipAddress r) then Inl (DbException ''22001'')
      else if rt_id r \<in> rt_id ` set (refreshTokens db) then Inl (DbException ''23505'')
      else if rt_userId r \<notin> usr_id ` set (users db) then Inl (DbException ''23503'')
      else Inr (db\<lparr>refreshTokens := refreshTokens db @ [r]\<rparr>))"

definition revoke_where :: "(refresh_token \<Rightarrow> bool) \<Rightarrow> identity_db \<Rightarrow> identity_db" where
  "revoke_where P db = db\<lparr>refreshTokens := update_rows P (\<lambda>r. r\<lparr>isRevoked := True\<rparr>) (refreshTokens db)\<rparr>"

section \<open>Well-formed databases\<close>

text \<open>The keys of the two tables, and the foreign key of a token.\<close>

definition identity_db_ok :: "identity_db \<Rightarrow> bool" where
  "identity_db_ok db \<longleftrightarrow>
     distinct (map usr_id (users db)) \<and> distinct (map walletAddress (users db)) \<and>
     distinct (map rt_id (refreshTokens db)) \<and>
     (\<forall>t \<in> set (refreshTokens db). rt_userId t \<in> usr_id ` set (users db))"

lemma createUser_ok:
  assumes "createUser d w r db = Inr (u, db')" and "identity_db_ok db"
  shows "identity_db_ok db'" and "findByWalletAddress w db' = Some u" and "walletAddress u = w"
    and "refreshTokens db' = refreshTokens db" and "users db' = users db @ [u]"
proof -
  have u: "walletAddress u = w" "usr_id u \<notin> usr_id ` set (users db)" "w \<notin> walletAddress ` set (users db)"
    and db': "db' = db\<lparr>users := users db @ [u]\<rparr>"
    using assms(1) by (auto simp: createUser_def Let_def split: if_splits)
  then show "walletAddress u = w" "refreshTokens db' = refreshTokens db" "users db' = users db @ [u]" by simp_all
  have none: "List.find (\<lambda>x. walletAddress x = w) (users db) = None"
    using u(3) by (auto simp: find_None_iff)
  then show "findByWalletAddress w db' = Some u"
    by (simp add: findByWalletAddress_def db' find_append u(1))
  show "identity_db_ok db'"
    using assms(2) u by (simp add: identity_db_ok_def db')
qed

lemma updateRole_row_ok:
  assumes "identity_db_ok db"
  shows "identity_db_ok (snd (updateRole_row now i r db))"
    and "refreshTokens (snd (updateRole_row now i r db)) = refreshTokens db"
    and "map usr_id (users (snd (updateRole_row now i r db))) = map usr_id (users db)"
    and "map walletAddress (users (snd (updateRole_row now i r db))) = map walletAddress (users db)"
proof -
  let ?rows = "update_rows (\<lambda>u. usr_id u = i) (\<lambda>u. u\<lparr>role := r, usr_updatedAt := now\<rparr>) (users db)"
  have m: "map usr_id ?rows = map usr_id (users db)" "map walletAddress ?rows = map walletAddress (users db)"
    by (simp_all add: map_update_rows)
  moreover have "usr_id ` set ?rows = usr_id ` set (users db)"
    using arg_cong [OF m(1), of set] by simp
  ultimately show "identity_db_ok (snd (updateRole_row now i r db))"
    using assms by (simp add: updateRole_row_def identity_db_ok_def Let_def)
  show "map usr_id (users (snd (updateRole_row now i r db))) = map usr_id (users db)"
    and "map walletAddress (users (snd (updateRole_row now i r db))) = map walletAddress (users db)"
    and "refreshTokens (snd (updateRole_row now i r db)) = refreshTokens db"
    using m by (simp_all add: updateRole_row_def Let_def)
qed

lemma insertRefreshToken_ok:
  assumes "insertRefreshToken r db = Inr db'"
  shows "db' = db\<lparr>refreshTokens := refreshTokens db @ [r]\<rparr>"
    and "identity_db_ok db \<Longrightarrow> identity_db_ok db'"
proof -
  show eq: "db' = db\<lparr>refreshTokens := refreshTokens db @ [r]\<rparr>"
    using assms by (simp add: insertRefreshToken_def split: if_splits)
  show "identity_db_ok db \<Longrightarrow> identity_db_ok db'"
    using assms by (simp add: insertRefreshToken_def identity_db_ok_def eq split: if_splits)
qed

lemma revoke_where_ok:
  assumes "identity_db_ok db"
  shows "identity_db_ok (revoke_where P db)"
proof -
  let ?rows = "update_rows P (\<lambda>r. r\<lparr>isRevoked := True\<rparr>) (refreshTokens db)"
  have "map rt_id ?rows = map rt_id (refreshTokens db)"
    by (simp add: map_update_rows)
  moreover have "rt_userId t \<in> usr_id ` set (users db)" if "t \<in> set ?rows" for t
    using that assms by (auto simp: set_update_rows identity_db_ok_def)
  ultimately show ?thesis
    using assms by (simp add: revoke_where_def identity_db_ok_def)
qed

lemma ids_revoke_where: "rt_id ` set (refreshTokens (revoke_where P db)) = rt_id ` set (refreshTokens db)"
proof -
  have "map rt_id (refreshTokens (revoke_where P db)) = map rt_id (refreshTokens db)"
    by (simp add: revoke_where_def map_update_rows)
  from arg_cong [OF this, of set] show ?thesis by simp
qed

lemma users_revoke_where [simp]: "users (revoke_where P db) = users db"
  by (simp add: revoke_where_def)

lemma findOrCreateByWallet_cases:
  assumes "findOrCreateByWalletAddress d w r seen db = (res, db')" and "identity_db_ok db"
  shows "identity_db_ok db'" and "refreshTokens db' = refreshTokens db"
    and "users db' = users db \<or> (\<exists>u. users db' = users db @ [u])"
proof -
  consider "db' = db" | u where "createUser d w r db = Inr (u, db')"
    using assms(1)
    by (auto simp: findOrCreateByWalletAddress_def split: option.splits sum.splits prod.splits)
  then show "identity_db_ok db'" "refreshTokens db' = refreshTokens db"
      "users db' = users db \<or> (\<exists>u. users db' = users db @ [u])"
    using createUser_ok [OF _ assms(2)] assms(2) by (cases; fastforce)+
qed

end
