(* ===== verification/Ws_Auth.thy ===== *)
theory Ws_Auth
  imports IdentityDb
begin

text \<open>
  Who a websocket belongs to: the handshake of \<open>apps/api-gateway/src/websockets/ws-auth.helper.ts\<close>.
  A token is looked for in the subprotocol, in the cookies and in the query of the URL, in this
  order, and its claims are those the JWT library answers with, an argument of the model.
\<close>

section \<open>\<open>decodeURIComponent\<close>\<close>

text \<open>
  Texts are sequences of bytes. An escape of a byte above 127 must be the start of the escapes of one
  well-formed UTF-8 sequence; everything else that starts with a percent sign raises.
\<close>

definition hex_value :: "char \<Rightarrow> nat option" where
  "hex_value c =
     (let n = of_char c
      in if 48 \<le> n \<and> n \<le> 57 then Some (n - 48)
         else if 65 \<le> n \<and> n \<le> 70 then Some (n - 55)
         else if 97 \<le> n \<and> n \<le> 102 then Some (n - 87)
         else None)"

text \<open>The characters, and the bytes that are escaped.\<close>

datatype uri_token = Plain char | Escaped nat

fun uri_tokens :: "string \<Rightarrow> uri_token list option" where
  "uri_tokens [] = Some []"
| "uri_tokens (c # s) =
     (if c \<noteq> CHR ''%'' then map_option (Cons (Plain c)) (uri_tokens s)
      else
        (case s of
           a # b # s' \<Rightarrow>
             (case (hex_value a, hex_value b) of
                (Some x, Some y) \<Rightarrow> map_option (Cons (Escaped (16 * x + y))) (uri_tokens s')
              | _ \<Rightarrow> None)
         | _ \<Rightarrow> None))"

definition continues :: "nat \<Rightarrow> bool" where
  "continues b \<longleftrightarrow> 128 \<le> b \<and> b < 192"

fun uri_bytes :: "uri_token list \<Rightarrow> string option" where
  "uri_bytes [] = Some []"
| "uri_bytes (Plain c # ts) = map_option (Cons c) (uri_bytes ts)"
| "uri_bytes (Escaped b # ts) =
     (if b < 128 then map_option (Cons (char_of b)) (uri_bytes ts)
      else if 194 \<le> b \<and> b < 224 then
        (case ts of
           Escaped c1 # ts1 \<Rightarrow>
             (if continues c1 then map_option (\<lambda>r. char_of b # char_of c1 # r) (uri_bytes ts1) else None)
         | _ \<Rightarrow> None)
      else if 224 \<le> b \<and> b < 240 then
        (case ts of
           Escaped c1 # Escaped c2 # ts2 \<Rightarrow>
             (if continues c1 \<and> continues c2 \<and> (b = 224 \<longrightarrow> 160 \<le> c1) \<and> (b = 237 \<longrightarrow> c1 < 160)
              then map_option (\<lambda>r. char_of b # char_of c1 # char_of c2 # r) (uri_bytes ts2) else None)
         | _ \<Rightarrow> None)
      else if 240 \<le> b \<and> b < 245 then
        (case ts of
           Escaped c1 # Escaped c2 # Escaped c3 # ts3 \<Rightarrow>
             (if continues c1 \<and> continues c2 \<and> continues c3 \<and> (b = 240 \<longrightarrow> 144 \<le> c1) \<and> (b = 244 \<longrightarrow> c1 < 144)
              then map_option (\<lambda>r. char_of b # char_of c1 # char_of c2 # char_of c3 # r) (uri_bytes ts3) else None)
         | _ \<Rightarrow> None)
      else None)"

definition decodeURIComponent :: "string \<Rightarrow> string result" where
  "decodeURIComponent s =
     (case uri_tokens s of
        None \<Rightarrow> Inl (PlainError ''URIError'')
      | Some ts \<Rightarrow> (case uri_bytes ts of None \<Rightarrow> Inl (PlainError ''URIError'') | Some r \<Rightarrow> Inr r))"

lemma decodeURIComponent_plain: "CHR ''%'' \<notin> set s \<Longrightarrow> decodeURIComponent s = Inr s"
proof -
  assume "CHR ''%'' \<notin> set s"
  then have "uri_tokens s = Some (map Plain s)" by (induction s) auto
  moreover have "uri_bytes (map Plain s) = Some s" by (induction s) auto
  ultimately show ?thesis by (simp add: decodeURIComponent_def)
qed

section \<open>The token of a handshake\<close>

text \<open>
  The headers, and the \<open>token\<close> parameter of the URL, \<open>None\<close> also where the URL does not parse.
\<close>

record handshake =
  hs_protocol :: "string option"
  hs_cookie :: "string option"
  hs_queryToken :: "string option"

fun join_with :: "char \<Rightarrow> string list \<Rightarrow> string" where
  "join_with sep [] = []"
| "join_with sep [w] = w"
| "join_with sep (w # ws) = w @ sep # join_with sep ws"

definition protocol_token :: "string option \<Rightarrow> (string \<times> string) option" where
  "protocol_token p =
     (case p of
        None \<Rightarrow> None
      | Some s \<Rightarrow>
          (if s = [] then None
           else
             (case map js_trim (js_split (CHR '','') s) of
                protoType # candidate # _ \<Rightarrow>
                  (if (js_toLowerCase protoType = ''access_token'' \<or> js_toLowerCase protoType = ''bearer'') \<and> candidate \<noteq> []
                   then Some (protoType, candidate) else None)
              | _ \<Rightarrow> None)))"

text \<open>The first cookie with the name, up to the next semicolon, undecoded.\<close>

fun find_cookie :: "string list \<Rightarrow> string option" where
  "find_cookie [] = None"
| "find_cookie (c # cs) =
     (case js_split (CHR ''='') (js_trim c) of
        name # valParts \<Rightarrow> (if name = ''accessToken'' then Some (join_with (CHR ''='') valParts) else find_cookie cs)
      | [] \<Rightarrow> find_cookie cs)"

definition cookie_token :: "string option \<Rightarrow> string result" where
  "cookie_token cookie =
     (case cookie of
        None \<Rightarrow> Inr []
      | Some s \<Rightarrow> (case find_cookie (js_split (CHR '';'') s) of None \<Rightarrow> Inr [] | Some v \<Rightarrow> decodeURIComponent v))"

text \<open>The empty text stands for no token.\<close>

definition handshake_token :: "handshake \<Rightarrow> string result" where
  "handshake_token h =
     (case protocol_token (hs_protocol h) of
        Some (_, t) \<Rightarrow> Inr t
      | None \<Rightarrow>
          bindR (cookie_token (hs_cookie h)) (\<lambda>t.
            if t \<noteq> [] then Inr t
            else (case hs_queryToken h of None \<Rightarrow> Inr [] | Some q \<Rightarrow> Inr q)))"

record ws_claims =
  cl_sub :: "string option"
  cl_walletAddress :: "string option"
  cl_role :: "string option"

record ws_user =
  wu_userId :: uuid
  wu_walletAddress :: string
  wu_role :: user_role

definition claims_user :: "ws_claims \<Rightarrow> ws_user option" where
  "claims_user c =
     (case (cl_sub c, cl_walletAddress c, cl_role c) of
        (Some i, Some w, Some r) \<Rightarrow>
          (if i = [] \<or> w = [] \<or> r = [] then None
           else (case parse_role r of None \<Rightarrow> None | Some ro \<Rightarrow> Some \<lparr>wu_userId = i, wu_walletAddress = w, wu_role = ro\<rparr>))
      | _ \<Rightarrow> None)"

text \<open>The user, if the token verifies, and the subprotocol that is selected.\<close>

definition extractAndVerifyWsToken ::
  "(string \<Rightarrow> ws_claims option) \<Rightarrow> handshake \<Rightarrow> (ws_user option \<times> string option) result" where
  "extractAndVerifyWsToken verify h =
     bindR (handshake_token h) (\<lambda>t.
       Inr (if t = [] then None else (case verify t of None \<Rightarrow> None | Some c \<Rightarrow> claims_user c),
            map_option fst (protocol_token (hs_protocol h))))"

lemma parse_role_text [simp]: "parse_role (role_text r) = Some r"
  by (cases r) (simp_all add: parse_role_def)

lemma role_text_nonempty [simp]: "role_text r \<noteq> []"
  by (cases r) simp_all

end
