(* ===== verification/Ws_Gateway.thy ===== *)
theory Ws_Gateway
  imports Ws_Bridge Ws_Auth
begin

text \<open>
  The websocket gateway (\<open>apps/api-gateway/src/websockets/trading.gateway.ts\<close>) with the broadcast of
  the room manager: connections, rate limit, subscriptions, order book snapshots and heartbeat.
  Sockets are numbered. The snapshot of a subscription arrives later, so it is remembered as
  pending; what the network does to a socket's send buffer is a step of its own.
\<close>

section \<open>Sockets\<close>

record ws_socket =
  sk_user :: "ws_user option"
  sk_open :: bool
  sk_alive :: bool
  sk_buffered :: nat
  sk_window :: "time option"
  sk_count :: nat
  sk_out :: "ws_message list"

record gateway_world =
  gw_rooms :: "nat room_index"
  gw_sockets :: "nat \<Rightarrow> ws_socket option"
  gw_pending :: "(nat \<times> string \<times> string) list"

definition empty_gateway :: gateway_world where
  "empty_gateway = \<lparr>gw_rooms = no_rooms, gw_sockets = (\<lambda>_. None), gw_pending = []\<rparr>"

definition MAX_WS_BUFFER_SIZE_BYTES :: nat where
  "MAX_WS_BUFFER_SIZE_BYTES = 1024 * 1024"

definition sock_send :: "ws_message \<Rightarrow> ws_socket \<Rightarrow> ws_socket" where
  "sock_send m s = (if sk_open s then s\<lparr>sk_out := sk_out s @ [m]\<rparr> else s)"

definition terminate :: "ws_socket \<Rightarrow> ws_socket" where
  "terminate s = s\<lparr>sk_open := False\<rparr>"

definition on_socket :: "nat \<Rightarrow> (ws_socket \<Rightarrow> ws_socket) \<Rightarrow> gateway_world \<Rightarrow> gateway_world" where
  "on_socket c f g = g\<lparr>gw_sockets := (gw_sockets g)(c := map_option f (gw_sockets g c))\<rparr>"

section \<open>Broadcast\<close>

definition broadcast_one :: "ws_message \<Rightarrow> ws_socket \<Rightarrow> ws_socket" where
  "broadcast_one m s =
     (if sk_open s then (if MAX_WS_BUFFER_SIZE_BYTES < sk_buffered s then terminate s else sock_send m s) else s)"

definition broadcastToRoom :: "string \<Rightarrow> ws_message \<Rightarrow> gateway_world \<Rightarrow> gateway_world" where
  "broadcastToRoom room m g =
     (case rooms (gw_rooms g) room of
        None \<Rightarrow> g
      | Some cs \<Rightarrow> fold (\<lambda>c. on_socket c (broadcast_one m)) cs g)"

text \<open>The subscriber listens to three patterns; what it receives is broadcast.\<close>

definition starts_with :: "string \<Rightarrow> string \<Rightarrow> bool" where
  "starts_with p s \<longleftrightarrow> take (length p) s = p"

definition onPubSubMessage :: "string \<Rightarrow> ws_message \<Rightarrow> gateway_world \<Rightarrow> gateway_world" where
  "onPubSubMessage channel m g =
     (if starts_with ''orderbook:'' channel \<or> starts_with ''trades:'' channel \<or> starts_with ''user:'' channel
      then broadcastToRoom channel m g else g)"

section \<open>Connections\<close>

definition handleConnection :: "(string \<Rightarrow> ws_claims option) \<Rightarrow> nat \<Rightarrow> handshake \<Rightarrow> gateway_world \<Rightarrow> gateway_world" where
  "handleConnection verify c h g =
     (let u = (case extractAndVerifyWsToken verify h of Inl _ \<Rightarrow> None | Inr (u, _) \<Rightarrow> u)
      in g\<lparr>gw_sockets := (gw_sockets g)(c \<mapsto>
             \<lparr>sk_user = u, sk_open = True, sk_alive = True, sk_buffered = 0, sk_window = None, sk_count = 0, sk_out = []\<rparr>)\<rparr>)"

definition handleDisconnect :: "nat \<Rightarrow> gateway_world \<Rightarrow> gateway_world" where
  "handleDisconnect c g =
     g\<lparr>gw_rooms := removeClient c (gw_rooms g), gw_sockets := (gw_sockets g)(c := None)\<rparr>"

definition handlePing :: "time \<Rightarrow> nat \<Rightarrow> gateway_world \<Rightarrow> gateway_world" where
  "handlePing now c = on_socket c (sock_send (WsPong now))"

definition handlePong :: "nat \<Rightarrow> gateway_world \<Rightarrow> gateway_world" where
  "handlePong c = on_socket c (\<lambda>s. s\<lparr>sk_alive := True\<rparr>)"

definition heartbeat_one :: "ws_socket \<Rightarrow> ws_socket" where
  "heartbeat_one s = (if \<not> sk_alive s then terminate s else s\<lparr>sk_alive := False\<rparr>)"

definition heartbeat :: "gateway_world \<Rightarrow> gateway_world" where
  "heartbeat g = g\<lparr>gw_sockets := (\<lambda>c. map_option heartbeat_one (gw_sockets g c))\<rparr>"

section \<open>Rate limit\<close>

definition RATE_LIMIT :: nat where
  "RATE_LIMIT = 50"

definition checkRateLimit :: "time \<Rightarrow> ws_socket \<Rightarrow> bool \<times> ws_socket" where
  "checkRateLimit now s =
     (if (case sk_window s of None \<Rightarrow> True | Some r \<Rightarrow> r = 0 \<or> r < now)
      then (True, s\<lparr>sk_window := Some (now + 1000), sk_count := 1\<rparr>)
      else
        (let s' = s\<lparr>sk_count := sk_count s + 1\<rparr>
         in if RATE_LIMIT < sk_count s' then (False, sock_send (WsError (Some ''WS_RATE_LIMITED'') now) s')
            else (True, s')))"

section \<open>Subscriptions\<close>

definition set_socket :: "nat \<Rightarrow> ws_socket \<Rightarrow> gateway_world \<Rightarrow> gateway_world" where
  "set_socket c s g = g\<lparr>gw_sockets := (gw_sockets g)(c \<mapsto> s)\<rparr>"

definition private_topic :: "string \<Rightarrow> string" where
  "private_topic channel = (if channel = userOrders then ''orders'' else ''transfers'')"

definition channel_symbol :: "string \<Rightarrow> string" where
  "channel_symbol channel = js_split (CHR '':'') channel ! 1"

definition subscribe_channel :: "time \<Rightarrow> nat \<Rightarrow> ws_socket \<Rightarrow> string \<Rightarrow> gateway_world \<Rightarrow> gateway_world" where
  "subscribe_channel now c s channel g =
     (if channel = userOrders \<or> channel = userTransfers then
        (case sk_user s of
           None \<Rightarrow> on_socket c (sock_send (WsError (Some ''WS_UNAUTHORIZED'') now)) g
         | Some u \<Rightarrow>
             on_socket c (sock_send (WsAck ''subscribed'' channel now))
               (g\<lparr>gw_rooms := join_room c (getUserPrivateRoom (wu_userId u) (private_topic channel)) (gw_rooms g)\<rparr>))
      else
        (let g1 = on_socket c (sock_send (WsAck ''subscribed'' channel now)) (g\<lparr>gw_rooms := join_room c channel (gw_rooms g)\<rparr>)
         in if starts_with ''orderbook:'' channel
            then g1\<lparr>gw_pending := gw_pending g1 @ [(c, channel, channel_symbol channel)]\<rparr>
            else g1))"

definition unsubscribe_channel :: "time \<Rightarrow> nat \<Rightarrow> ws_socket \<Rightarrow> string \<Rightarrow> gateway_world \<Rightarrow> gateway_world" where
  "unsubscribe_channel now c s channel g =
     (let g1 =
        (if channel = userOrders \<or> channel = userTransfers then
           (case sk_user s of
              None \<Rightarrow> g
            | Some u \<Rightarrow> g\<lparr>gw_rooms := leave_room c (getUserPrivateRoom (wu_userId u) (private_topic channel)) (gw_rooms g)\<rparr>)
         else g\<lparr>gw_rooms := leave_room c channel (gw_rooms g)\<rparr>)
      in on_socket c (sock_send (WsAck ''unsubscribed'' channel now)) g1)"

text \<open>Both handlers check the rate limit and the channel first.\<close>

definition guarded ::
  "(time \<Rightarrow> nat \<Rightarrow> ws_socket \<Rightarrow> string \<Rightarrow> gateway_world \<Rightarrow> gateway_world) \<Rightarrow>
   time \<Rightarrow> nat \<Rightarrow> string option \<Rightarrow> gateway_world \<Rightarrow> gateway_world" where
  "guarded act now c payload g =
     (case gw_sockets g c of
        None \<Rightarrow> g
      | Some s \<Rightarrow>
          (case checkRateLimit now s of
             (False, s1) \<Rightarrow> set_socket c s1 g
           | (True, s1) \<Rightarrow>
               (case payload of
                  Some channel \<Rightarrow>
                    (if isValidChannel channel then act now c s1 channel (set_socket c s1 g)
                     else set_socket c (sock_send (WsError None now) s1) g)
                | None \<Rightarrow> set_socket c (sock_send (WsError None now) s1) g)))"

definition handleSubscribe :: "time \<Rightarrow> nat \<Rightarrow> string option \<Rightarrow> gateway_world \<Rightarrow> gateway_world" where
  "handleSubscribe = guarded subscribe_channel"

definition handleUnsubscribe :: "time \<Rightarrow> nat \<Rightarrow> string option \<Rightarrow> gateway_world \<Rightarrow> gateway_world" where
  "handleUnsubscribe = guarded unsubscribe_channel"

text \<open>
  The answer of the orders service to a pending subscription: sequence number, bids, asks and
  timestamp, or an error.
\<close>

definition sendOrderBookSnapshot ::
  "time \<Rightarrow> nat \<times> string \<times> string \<Rightarrow> (nat \<times> (amount \<times> amount) list \<times> (amount \<times> amount) list \<times> time) result \<Rightarrow>
   gateway_world \<Rightarrow> gateway_world" where
  "sendOrderBookSnapshot now p answer g =
     (case p of (c, channel, symbol) \<Rightarrow>
        (case answer of
           Inl _ \<Rightarrow> on_socket c (sock_send (WsError None now)) (g\<lparr>gw_pending := remove1 p (gw_pending g)\<rparr>)
         | Inr (n, bids, asks, t) \<Rightarrow>
             on_socket c (sock_send (WsSnapshot
               \<lparr>wn_channel = channel, wn_sequenceId = n, wn_bids = bids, wn_asks = asks, wn_timestamp = t\<rparr>))
               (g\<lparr>gw_pending := remove1 p (gw_pending g)\<rparr>)))"

section \<open>Steps of the gateway\<close>

inductive gateway_step :: "(time \<Rightarrow> string \<Rightarrow> ws_claims option) \<Rightarrow> gateway_world \<Rightarrow> gateway_world \<Rightarrow> bool"
  for verify :: "time \<Rightarrow> string \<Rightarrow> ws_claims option" where
  Connect: "gw_sockets g c = None \<Longrightarrow> gateway_step verify g (handleConnection (verify now) c h g)"
| Disconnect: "gateway_step verify g (handleDisconnect c g)"
| Ping: "gateway_step verify g (handlePing now c g)"
| Pong: "gateway_step verify g (handlePong c g)"
| Heartbeat: "gateway_step verify g (heartbeat g)"
| Subscribe: "gateway_step verify g (handleSubscribe now c payload g)"
| Unsubscribe: "gateway_step verify g (handleUnsubscribe now c payload g)"
| Snapshot: "p \<in> set (gw_pending g) \<Longrightarrow> gateway_step verify g (sendOrderBookSnapshot now p answer g)"
| Published: "gateway_step verify g (onPubSubMessage channel m g)"
| Network: "gateway_step verify g (on_socket c (\<lambda>s. s\<lparr>sk_buffered := n\<rparr>) g)"

inductive gateway_reachable :: "(time \<Rightarrow> string \<Rightarrow> ws_claims option) \<Rightarrow> gateway_world \<Rightarrow> bool"
  for verify :: "time \<Rightarrow> string \<Rightarrow> ws_claims option" where
  Start: "gateway_reachable verify empty_gateway"
| Step: "gateway_reachable verify g \<Longrightarrow> gateway_step verify g g' \<Longrightarrow> gateway_reachable verify g'"

end
