(* ===== verification/Ws_Props.thy ===== *)
theory Ws_Props
  imports Ws_Gateway
begin

text \<open>
  What the websocket gateway keeps in every reachable state: the two directions of the room index
  agree and hold connected sockets only, a private room holds only sockets of its user, and a user
  is one whose token verified. With the bridge: private messages reach only the user they concern.
\<close>

section \<open>Users of sockets\<close>

definition user_of :: "gateway_world \<Rightarrow> nat \<Rightarrow> ws_user option option" where
  "user_of g c = map_option sk_user (gw_sockets g c)"

lemma user_of_on_socket:
  "(\<And>s. sk_user (f s) = sk_user s) \<Longrightarrow> user_of (on_socket c f g) = user_of g"
  by (auto simp: user_of_def on_socket_def fun_eq_iff option.map_comp o_def)

lemma sk_user_simps [simp]:
  "sk_user (sock_send m s) = sk_user s"
  "sk_user (terminate s) = sk_user s"
  "sk_user (broadcast_one m s) = sk_user s"
  "sk_user (heartbeat_one s) = sk_user s"
  by (simp_all add: sock_send_def terminate_def broadcast_one_def heartbeat_one_def)

lemma sk_user_rate [simp]: "checkRateLimit now s = (b, s1) \<Longrightarrow> sk_user s1 = sk_user s"
  by (auto simp: checkRateLimit_def Let_def split: if_splits)

lemma rooms_on_socket [simp]: "gw_rooms (on_socket c f g) = gw_rooms g"
  by (simp add: on_socket_def)

lemma user_of_send [simp]: "user_of (on_socket c (sock_send m) g) = user_of g"
  by (simp add: user_of_on_socket)

lemma user_of_fold [simp]:
  "user_of (fold (\<lambda>c. on_socket c (broadcast_one m)) cs g) = user_of g"
  "gw_rooms (fold (\<lambda>c. on_socket c (broadcast_one m)) cs g) = gw_rooms g"
  by (induction cs arbitrary: g) (simp_all add: user_of_on_socket)

lemma published_keeps [simp]:
  "user_of (onPubSubMessage ch m g) = user_of g"
  "gw_rooms (onPubSubMessage ch m g) = gw_rooms g"
  by (simp_all add: onPubSubMessage_def broadcastToRoom_def split: option.split)

lemma user_of_rooms [simp]: "user_of (g\<lparr>gw_rooms := x\<rparr>) = user_of g"
  by (simp add: user_of_def fun_eq_iff)

lemma user_of_pending [simp]: "user_of (g\<lparr>gw_pending := x\<rparr>) = user_of g"
  by (simp add: user_of_def fun_eq_iff)

lemma user_of_set_socket:
  "gw_sockets g c = Some s \<Longrightarrow> sk_user s1 = sk_user s \<Longrightarrow> user_of (set_socket c s1 g) = user_of g"
  by (auto simp: user_of_def set_socket_def fun_eq_iff)

lemma rooms_set_socket [simp]: "gw_rooms (set_socket c s g) = gw_rooms g"
  by (simp add: set_socket_def)

section \<open>The invariant\<close>

definition private_room :: "string \<Rightarrow> bool" where
  "private_room r \<longleftrightarrow> (\<exists>u t. r = getUserPrivateRoom u t)"

definition may_join :: "ws_user option \<Rightarrow> string \<Rightarrow> bool" where
  "may_join who r \<longleftrightarrow> \<not> private_room r \<or>
     (\<exists>u t. who = Some u \<and> t \<in> {''orders'', ''transfers''} \<and> r = getUserPrivateRoom (wu_userId u) t)"

definition gateway_ok :: "(time \<Rightarrow> string \<Rightarrow> ws_claims option) \<Rightarrow> gateway_world \<Rightarrow> bool" where
  "gateway_ok verify g \<longleftrightarrow> rooms_ok (gw_rooms g) \<and>
     (\<forall>(r, c) \<in> members (gw_rooms g). \<exists>who. user_of g c = Some who \<and> may_join who r) \<and>
     (\<forall>c u. user_of g c = Some (Some u) \<longrightarrow> (\<exists>now t cl. verify now t = Some cl \<and> claims_user cl = Some u))"

lemma gateway_ok_same:
  "gateway_ok verify g \<Longrightarrow> user_of g' = user_of g \<Longrightarrow> gw_rooms g' = gw_rooms g \<Longrightarrow> gateway_ok verify g'"
  by (simp add: gateway_ok_def)

lemma gateway_ok_join:
  assumes "gateway_ok verify g" and "user_of g c = Some who" and "may_join who r"
    and "user_of g' = user_of g" and "gw_rooms g' = join_room c r (gw_rooms g)"
  shows "gateway_ok verify g'"
  using assms by (auto simp: gateway_ok_def join_room_ok)

lemma gateway_ok_leave:
  assumes "gateway_ok verify g" and "user_of g' = user_of g" and "gw_rooms g' = leave_room c r (gw_rooms g)"
  shows "gateway_ok verify g'"
  using assms by (auto simp: gateway_ok_def leave_room_ok)

lemma handshake_user:
  "extractAndVerifyWsToken verify h = Inr (Some u, p) \<Longrightarrow> \<exists>t cl. verify t = Some cl \<and> claims_user cl = Some u"
  by (auto simp: extractAndVerifyWsToken_def bindR_eq_Inr split: if_splits option.splits)

lemma connect_ok:
  assumes "gateway_ok verify g" and "gw_sockets g c = None"
  shows "gateway_ok verify (handleConnection (verify now) c h g)"
proof -
  obtain who where who: "user_of (handleConnection (verify now) c h g) = (user_of g)(c \<mapsto> who)"
      and w: "who = (case extractAndVerifyWsToken (verify now) h of Inl _ \<Rightarrow> None | Inr (u, _) \<Rightarrow> u)"
    by (auto simp: user_of_def handleConnection_def Let_def fun_eq_iff)
  have "\<exists>now t cl. verify now t = Some cl \<and> claims_user cl = Some u" if "who = Some u" for u
    using that w handshake_user [of "verify now" h u] by (auto split: sum.splits prod.splits)
  moreover have "gw_rooms (handleConnection (verify now) c h g) = gw_rooms g"
    by (simp add: handleConnection_def Let_def)
  moreover have "user_of g c = None" using assms(2) by (simp add: user_of_def)
  ultimately show ?thesis
    using assms(1) unfolding gateway_ok_def who by (auto 4 4)
qed

lemma disconnect_ok:
  assumes "gateway_ok verify g"
  shows "gateway_ok verify (handleDisconnect c g)"
proof -
  have "user_of (handleDisconnect c g) = (user_of g)(c := None)"
    by (auto simp: user_of_def handleDisconnect_def fun_eq_iff)
  then show ?thesis
    using assms by (auto simp: gateway_ok_def handleDisconnect_def removeClient_ok)
qed

lemma subscribe_channel_ok:
  assumes "gateway_ok verify g" and "user_of g c = Some (sk_user s)" and "isValidChannel channel"
  shows "gateway_ok verify (subscribe_channel now c s channel g)"
proof (cases "channel = userOrders \<or> channel = userTransfers")
  case priv: True
  show ?thesis
  proof (cases "sk_user s")
    case None
    with priv show ?thesis
      by (intro gateway_ok_same [OF assms(1)]) (auto simp: subscribe_channel_def)
  next
    case (Some u)
    have "may_join (Some u) (getUserPrivateRoom (wu_userId u) (private_topic channel))"
      by (auto simp: may_join_def private_topic_def)
    with priv Some assms(2) show ?thesis
      by (intro gateway_ok_join [OF assms(1), of c "Some u"]) (auto simp: subscribe_channel_def)
  qed
next
  case False
  then have "may_join (sk_user s) channel"
    using public_channel_not_private [OF assms(3)] by (auto simp: may_join_def private_room_def)
  with False show ?thesis
    by (intro gateway_ok_join [OF assms(1,2)]) (auto simp: subscribe_channel_def Let_def)
qed

lemma unsubscribe_channel_ok:
  assumes "gateway_ok verify g"
  shows "gateway_ok verify (unsubscribe_channel now c s channel g)"
proof -
  let ?g' = "unsubscribe_channel now c s channel g"
  have "user_of ?g' = user_of g" by (simp add: unsubscribe_channel_def Let_def split: option.split)
  moreover have "gw_rooms ?g' = gw_rooms g \<or> (\<exists>r. gw_rooms ?g' = leave_room c r (gw_rooms g))"
    by (auto simp: unsubscribe_channel_def Let_def split: option.split)
  ultimately show ?thesis
    using gateway_ok_same [OF assms] gateway_ok_leave [OF assms] by blast
qed

lemma guarded_ok:
  assumes ok: "gateway_ok verify g"
    and act: "\<And>g' s channel. gateway_ok verify g' \<Longrightarrow> user_of g' c = Some (sk_user s) \<Longrightarrow> isValidChannel channel \<Longrightarrow>
                gateway_ok verify (act now c s channel g')"
  shows "gateway_ok verify (guarded act now c payload g)"
proof (cases "gw_sockets g c")
  case None
  then show ?thesis using ok by (simp add: guarded_def)
next
  case (Some s)
  obtain b s1 where rate: "checkRateLimit now s = (b, s1)" by fastforce
  have same: "gateway_ok verify (set_socket c s2 g)" if "sk_user s2 = sk_user s" for s2
    using gateway_ok_same [OF ok user_of_set_socket [OF Some that]] by simp
  have "gateway_ok verify (act now c s1 channel (set_socket c s1 g))" if "isValidChannel channel" for channel
    using act [OF same _ that] sk_user_rate [OF rate] by (simp add: user_of_def set_socket_def)
  then show ?thesis
    using same sk_user_rate [OF rate] by (simp add: guarded_def Some rate split: bool.split option.split)
qed

lemma gateway_step_ok:
  assumes "gateway_step verify g g'" and "gateway_ok verify g"
  shows "gateway_ok verify g'"
  using assms
proof (cases rule: gateway_step.cases)
  case (Connect c now h)
  then show ?thesis using connect_ok [OF assms(2)] by simp
next
  case (Disconnect c)
  then show ?thesis using disconnect_ok [OF assms(2)] by simp
next
  case Heartbeat
  then show ?thesis
    by (intro gateway_ok_same [OF assms(2)])
      (auto simp: heartbeat_def user_of_def fun_eq_iff option.map_comp o_def)
next
  case (Subscribe now c payload)
  then show ?thesis
    using guarded_ok [OF assms(2) subscribe_channel_ok] by (simp add: handleSubscribe_def)
next
  case (Unsubscribe now c payload)
  then show ?thesis
    using guarded_ok [OF assms(2) unsubscribe_channel_ok] by (simp add: handleUnsubscribe_def)
next
  case (Snapshot p now answer)
  then show ?thesis
    by (intro gateway_ok_same [OF assms(2)])
      (auto simp: sendOrderBookSnapshot_def split: prod.split sum.split)
qed (auto intro!: gateway_ok_same [OF assms(2)] simp: handlePing_def handlePong_def user_of_on_socket)

lemma gateway_reachable_ok: "gateway_reachable verify g \<Longrightarrow> gateway_ok verify g"
proof (induction rule: gateway_reachable.induct)
  case Start
  then show ?case by (simp add: gateway_ok_def empty_gateway_def user_of_def)
next
  case (Step g g')
  then show ?case using gateway_step_ok by blast
qed

text \<open>
  The rooms are consistent in every reachable state of the gateway. A socket is in the list of a
  room exactly if the room is in the list of the socket, no list is empty or has duplicates, and
  every socket in a room is connected: a disconnected client leaves nothing behind.
\<close>

theorem rooms_consistent:
  assumes "gateway_reachable verify g"
  shows "(\<forall>r c. c \<in> set (entry (rooms (gw_rooms g)) r) \<longleftrightarrow> r \<in> set (getClientRooms c (gw_rooms g))) \<and>
    (\<forall>r cs. rooms (gw_rooms g) r = Some cs \<longrightarrow> cs \<noteq> [] \<and> distinct cs \<and> (\<forall>c \<in> set cs. gw_sockets g c \<noteq> None))"
proof -
  have ok: "gateway_ok verify g" using gateway_reachable_ok [OF assms] .
  have "gw_sockets g c \<noteq> None" if "rooms (gw_rooms g) r = Some cs" "c \<in> set cs" for r cs c
  proof -
    have "(r, c) \<in> members (gw_rooms g)" using that by (simp add: members_def entry_def)
    then have "\<exists>who. user_of g c = Some who" using ok by (auto simp: gateway_ok_def)
    then show ?thesis by (auto simp: user_of_def)
  qed
  then show ?thesis
    using ok by (auto simp: gateway_ok_def rooms_ok_def index_ok_def entry_def getClientRooms_def)
qed

section \<open>Deliveries\<close>

lemma fold_on_socket:
  "distinct cs \<Longrightarrow> gw_sockets (fold (\<lambda>c. on_socket c f) cs g) c =
     (if c \<in> set cs then map_option f (gw_sockets g c) else gw_sockets g c)"
  by (induction cs arbitrary: g) (auto simp: on_socket_def)

lemma broadcast_sockets:
  assumes "rooms_ok (gw_rooms g)"
  shows "gw_sockets (broadcastToRoom r m g) c =
    (if (r, c) \<in> members (gw_rooms g) then map_option (broadcast_one m) (gw_sockets g c) else gw_sockets g c)"
proof (cases "rooms (gw_rooms g) r")
  case None
  then show ?thesis by (simp add: broadcastToRoom_def members_def entry_def)
next
  case (Some cs)
  then have "distinct cs" using assms by (auto simp: rooms_ok_def index_ok_def)
  then show ?thesis by (simp add: broadcastToRoom_def Some members_def entry_def fold_on_socket)
qed

text \<open>
  C25: a private message reaches only its user. In every reachable state of the gateway, and for
  every event the bridge handles: a socket that gets one of the event's order or transfer updates
  was authenticated by a token whose verified subject is the user whose order or transfer it is.
\<close>

theorem private_updates_reach_only_owner:
  assumes "gateway_reachable verify g" and "(ch, m) \<in> set (bridge_messages k p)" and "is_private m"
    and "gw_sockets g c = Some s" and "gw_sockets (onPubSubMessage ch m g) c = Some s'" and "sk_out s' \<noteq> sk_out s"
  shows "\<exists>u now t cl. sk_user s = Some u \<and> owners p m = {wu_userId u} \<and> verify now t = Some cl \<and>
    cl_sub cl = Some (wu_userId u)"
proof -
  have ok: "gateway_ok verify g" using gateway_reachable_ok [OF assms(1)] .
  obtain i topic where ch: "ch = getUserPrivateRoom i topic" and topic: "topic \<in> {''orders'', ''transfers''}"
      and own: "owners p m = {i}"
    using bridge_private_room [OF assms(2,3)] by blast
  have "(ch, c) \<in> members (gw_rooms g)"
    using broadcast_sockets [of g ch m c] ok assms(4-6)
    by (auto simp: onPubSubMessage_def gateway_ok_def split: if_splits)
  then have "may_join (sk_user s) ch" using ok assms(4) by (auto simp: gateway_ok_def user_of_def)
  then obtain u t where u: "sk_user s = Some u" "t \<in> {''orders'', ''transfers''}" "ch = getUserPrivateRoom (wu_userId u) t"
    using ch by (auto simp: may_join_def private_room_def)
  have "i = wu_userId u" using private_room_inj(1) [OF _ topic u(2)] ch u(3) by simp
  moreover have "user_of g c = Some (Some u)" using assms(4) u(1) by (simp add: user_of_def)
  then obtain now t cl where "verify now t = Some cl" "claims_user cl = Some u"
    using ok unfolding gateway_ok_def by blast
  moreover from this have "cl_sub cl = Some (wu_userId u)"
    by (auto simp: claims_user_def split: option.splits if_splits)
  ultimately show ?thesis using own u(1) by blast
qed

end
