(* ===== verification/Identity.thy ===== *)
theory Identity
  imports IdentityDb
begin

text \<open>
  The identity service (\<open>apps/identity/src\<close>): addresses and users (\<open>users/users.service.ts\<close>,
  \<open>users/users.controller.ts\<close>), the single-use nonces (\<open>auth/nonce.service.ts\<close>,
  \<open>redis/redis.service.ts\<close>), refresh tokens and their rotation (\<open>auth/token.service.ts\<close>), and the
  workflows on top of them (\<open>auth/auth.service.ts\<close>, \<open>auth/auth.controller.ts\<close>).
  Before them, running a service call by call, and permits that such a run hands out and takes back:
  whatever may be used once for each time it was granted (a nonce, a refresh token). That a whole run
  keeps the account of the permits when each step does is shown here once.
\<close>

section \<open>Runs\<close>

fun run_steps :: "('c \<Rightarrow> 's \<Rightarrow> 'r \<times> 's) \<Rightarrow> 'c list \<Rightarrow> 's \<Rightarrow> ('c \<times> 'r) list \<times> 's" where
  "run_steps step [] s = ([], s)"
| "run_steps step (c # cs) s =
     (case step c s of (r, s1) \<Rightarrow> (case run_steps step cs s1 of (tr, s2) \<Rightarrow> ((c, r) # tr, s2)))"

lemma run_steps_append:
  "run_steps step (cs @ ds) s =
     (case run_steps step cs s of (tr, s1) \<Rightarrow> (case run_steps step ds s1 of (tr', s2) \<Rightarrow> (tr @ tr', s2)))"
  by (induction cs arbitrary: s) (auto split: prod.splits)

lemma run_steps_calls: "map fst (fst (run_steps step cs s)) = cs"
  by (induction cs arbitrary: s) (auto split: prod.splits, metis fst_conv)

lemma run_steps_invariant:
  assumes "\<And>c s. I s \<Longrightarrow> I (snd (step c s))" and "I s"
  shows "I (snd (run_steps step cs s))"
  using assms(2)
proof (induction cs arbitrary: s)
  case (Cons c cs)
  show ?case
    using Cons.IH [OF assms(1) [OF Cons.prems]] by (simp add: split_beta)
qed simp

text \<open>How often something happened in a run.\<close>

definition times :: "('c \<times> 'r \<Rightarrow> bool) \<Rightarrow> ('c \<times> 'r) list \<Rightarrow> nat" where
  "times P tr = length (filter P tr)"

lemma times_simps [simp]:
  "times P [] = 0"
  "times P (x # tr) = (if P x then Suc (times P tr) else times P tr)"
  by (simp_all add: times_def)

section \<open>Permits\<close>

locale permits =
  fixes step :: "'c \<Rightarrow> 's \<Rightarrow> 'r \<times> 's"
    and good :: "'s \<Rightarrow> bool"
    and held :: "'s \<Rightarrow> nat"
    and granted :: "'c \<times> 'r \<Rightarrow> bool"
    and used :: "'c \<times> 'r \<Rightarrow> bool"
  assumes good: "good s \<Longrightarrow> good (snd (step c s))"
    and account: "good s \<Longrightarrow> of_bool (used (c, fst (step c s))) + held (snd (step c s))
                     \<le> of_bool (granted (c, fst (step c s))) + held s"
begin

lemma run_account:
  assumes "good s"
  shows "times used (fst (run_steps step cs s)) + held (snd (run_steps step cs s))
           \<le> times granted (fst (run_steps step cs s)) + held s"
  using assms
proof (induction cs arbitrary: s)
  case (Cons c cs)
  obtain r s1 where st: "step c s = (r, s1)" by fastforce
  obtain tr s2 where ru: "run_steps step cs s1 = (tr, s2)" by fastforce
  have "times used tr + held s2 \<le> times granted tr + held s1"
    using Cons.IH [of s1] good [OF Cons.prems, of c] by (simp add: st ru)
  then show ?case
    using account [OF Cons.prems, of c] by (cases "used (c, r)"; cases "granted (c, r)") (simp_all add: st ru)
qed simp

lemma used_at_most_granted:
  "good s \<Longrightarrow> held s = 0 \<Longrightarrow>
     times used (fst (run_steps step cs s)) \<le> times granted (fst (run_steps step cs s))"
  using run_account [of s cs] by simp

end

section \<open>State\<close>

record identity_world =
  iw_db :: identity_db
  iw_nonces :: "string expiring"

definition empty_identity :: identity_world where
  "empty_identity = \<lparr>iw_db = \<lparr>users = [], refreshTokens = []\<rparr>, iw_nonces = (\<lambda>_. None)\<rparr>"

section \<open>Users\<close>

definition normalizeAddress :: "identity_env \<Rightarrow> string \<Rightarrow> string result" where
  "normalizeAddress env address =
     (if address = [] \<or> \<not> isAddress env address then Inl (BadRequestException ''INVALID_WALLET_ADDRESS'')
      else Inr (getAddress env address))"

definition findById_user :: "uuid \<Rightarrow> identity_db \<Rightarrow> user result" where
  "findById_user i db =
     (case findUserById i db of None \<Rightarrow> Inl (NotFoundException ''USER_NOT_FOUND'') | Some u \<Rightarrow> Inr u)"

definition findByAddress :: "identity_env \<Rightarrow> string \<Rightarrow> identity_db \<Rightarrow> user result" where
  "findByAddress env address db =
     bindR (normalizeAddress env address) (\<lambda>w.
       case findByWalletAddress w db of None \<Rightarrow> Inl (NotFoundException ''USER_NOT_FOUND'') | Some u \<Rightarrow> Inr u)"

definition findOrCreate_user ::
  "identity_env \<Rightarrow> draw \<Rightarrow> string \<Rightarrow> identity_db \<Rightarrow> (user \<times> bool) result \<times> identity_db" where
  "findOrCreate_user env d address db =
     (case normalizeAddress env address of
        Inl e \<Rightarrow> (Inl e, db)
      | Inr w \<Rightarrow> findOrCreateByWalletAddress d w TRADER db db)"

definition updateRole :: "draw \<Rightarrow> uuid \<Rightarrow> user_role \<Rightarrow> identity_db \<Rightarrow> user result \<times> identity_db" where
  "updateRole d i r db =
     (case updateRole_row (clock d) i r db of
        (None, db') \<Rightarrow> (Inl (NotFoundException ''USER_NOT_FOUND''), db')
      | (Some u, db') \<Rightarrow> (Inr u, db'))"

section \<open>Nonces\<close>

definition DEFAULT_NONCE_TTL_SECONDS :: nat where
  "DEFAULT_NONCE_TTL_SECONDS = 300"

definition nonce_key :: "string \<Rightarrow> string" where
  "nonce_key w = ''siwe:nonce:'' @ js_toLowerCase w"

definition redis_error :: exc where
  "redis_error = PlainError ''Failed to connect to Redis''"

definition setNonce ::
  "draw \<Rightarrow> string \<Rightarrow> string \<Rightarrow> nat \<Rightarrow> string expiring \<Rightarrow> unit result \<times> string expiring" where
  "setNonce d w nonce ttlSeconds store =
     (case valkey d of
        RequestLost \<Rightarrow> (Inl redis_error, store)
      | reply \<Rightarrow>
          ((if reply = Replied then Inr () else Inl redis_error),
           store(nonce_key w \<mapsto> (nonce, clock d + ttlSeconds * 1000))))"

definition getAndDelNonce :: "draw \<Rightarrow> string \<Rightarrow> string expiring \<Rightarrow> string option result \<times> string expiring" where
  "getAndDelNonce d w store =
     (case valkey d of
        RequestLost \<Rightarrow> (Inl redis_error, store)
      | reply \<Rightarrow>
          ((if reply = Replied then Inr (live store (clock d) (nonce_key w)) else Inl redis_error),
           store(nonce_key w := None)))"

definition generateNonce ::
  "identity_env \<Rightarrow> draw \<Rightarrow> string \<Rightarrow> string expiring \<Rightarrow> (string \<times> nat) result \<times> string expiring" where
  "generateNonce env d address store =
     (case normalizeAddress env address of
        Inl e \<Rightarrow> (Inl e, store)
      | Inr w \<Rightarrow>
          (case setNonce d w (newNonce d) DEFAULT_NONCE_TTL_SECONDS store of
             (Inl e, store') \<Rightarrow> (Inl e, store')
           | (Inr _, store') \<Rightarrow> (Inr (newNonce d, clock d div 1000 + DEFAULT_NONCE_TTL_SECONDS), store')))"

definition consumeNonce ::
  "identity_env \<Rightarrow> draw \<Rightarrow> string \<Rightarrow> string \<Rightarrow> string expiring \<Rightarrow> bool result \<times> string expiring" where
  "consumeNonce env d address providedNonce store =
     (case normalizeAddress env address of
        Inl e \<Rightarrow> (Inl e, store)
      | Inr w \<Rightarrow>
          (case getAndDelNonce d w store of
             (Inl e, store') \<Rightarrow> (Inl e, store')
           | (Inr stored, store') \<Rightarrow>
               (if stored = None \<or> stored = Some [] then (Inr False, store')
                else if stored \<noteq> Some providedNonce then (Inr False, store')
                else (Inr True, store'))))"

section \<open>Tokens\<close>

definition ACCESS_TOKEN_EXPIRATION_SECONDS :: nat where
  "ACCESS_TOKEN_EXPIRATION_SECONDS = 900"

definition REFRESH_TOKEN_EXPIRATION_DAYS :: nat where
  "REFRESH_TOKEN_EXPIRATION_DAYS = 7"

record generated_tokens =
  accessToken :: string
  refreshToken :: string
  expiresIn :: nat

text \<open>The payload of an access token, and the row that is stored for the refresh token.\<close>

definition user_payload :: "user \<Rightarrow> jwt_payload" where
  "user_payload u = \<lparr>jwt_sub = usr_id u, jwt_walletAddress = walletAddress u, jwt_role = role u\<rparr>"

definition new_refresh_token :: "identity_env \<Rightarrow> draw \<Rightarrow> user \<Rightarrow> string option \<Rightarrow> string option \<Rightarrow> refresh_token" where
  "new_refresh_token env d u agent ip =
     \<lparr>rt_id = newTokenId d, rt_userId = usr_id u, tokenHash = argon2_hash env (salt d) (rawToken d),
      userAgent = agent, ipAddress = ip, isRevoked = False,
      expiresAt = clock d + REFRESH_TOKEN_EXPIRATION_DAYS * (24 * 60 * (60 * 1000)), rt_createdAt = clock d\<rparr>"

definition generateTokens ::
  "identity_env \<Rightarrow> draw \<Rightarrow> user \<Rightarrow> string option \<Rightarrow> string option \<Rightarrow> identity_db \<Rightarrow> generated_tokens result \<times> identity_db" where
  "generateTokens env d u agent ip db =
     (case insertRefreshToken (new_refresh_token env d u agent ip) db of
        Inl e \<Rightarrow> (Inl e, db)
      | Inr db' \<Rightarrow>
          (Inr \<lparr>accessToken = signAsync env (user_payload u) ACCESS_TOKEN_EXPIRATION_SECONDS (jwtSecret env) (clock d),
                refreshToken = rawToken d, expiresIn = ACCESS_TOKEN_EXPIRATION_SECONDS\<rparr>, db'))"

text \<open>The record whose hash the raw token verifies against; the rows are tried one by one.\<close>

fun match_token :: "identity_env \<Rightarrow> string \<Rightarrow> refresh_token list \<Rightarrow> refresh_token option result" where
  "match_token env raw [] = Inr None"
| "match_token env raw (r # rs) =
     (case argon2_verify env (tokenHash r) raw of
        Inl e \<Rightarrow> Inl e
      | Inr True \<Rightarrow> Inr (Some r)
      | Inr False \<Rightarrow> match_token env raw rs)"

definition revokeAllUserTokens :: "uuid \<Rightarrow> identity_db \<Rightarrow> identity_db" where
  "revokeAllUserTokens i = revoke_where (\<lambda>r. rt_userId r = i)"

text \<open>
  A rotation reads and judges the token, revokes its record, and issues a new pair to its user:
  three separate steps on the database, without a transaction around them.
\<close>

definition rotate_check ::
  "identity_env \<Rightarrow> time \<Rightarrow> string \<Rightarrow> identity_db \<Rightarrow> refresh_token result \<times> identity_db" where
  "rotate_check env now raw db =
     (if raw = [] then (Inl (UnauthorizedException ''REFRESH_TOKEN_REQUIRED''), db)
      else
        (case match_token env raw (rowOrder env (refreshTokens db)) of
           Inl e \<Rightarrow> (Inl e, db)
         | Inr None \<Rightarrow> (Inl (UnauthorizedException ''INVALID_REFRESH_TOKEN''), db)
         | Inr (Some r) \<Rightarrow>
             (if isRevoked r then
                (Inl (UnauthorizedException ''TOKEN_REUSE_DETECTED''), revokeAllUserTokens (rt_userId r) db)
              else if expiresAt r < now then (Inl (UnauthorizedException ''REFRESH_TOKEN_EXPIRED''), db)
              else (Inr r, db))))"

definition rotate_revoke :: "refresh_token \<Rightarrow> identity_db \<Rightarrow> identity_db" where
  "rotate_revoke r = revoke_where (\<lambda>x. rt_id x = rt_id r)"

definition non_empty :: "string option \<Rightarrow> string option" where
  "non_empty s = (if s = Some [] then None else s)"

definition rotate_issue ::
  "identity_env \<Rightarrow> draw \<Rightarrow> refresh_token \<Rightarrow> identity_db \<Rightarrow> (generated_tokens \<times> user) result \<times> identity_db" where
  "rotate_issue env d r db =
     (case findById_user (rt_userId r) db of
        Inl e \<Rightarrow> (Inl e, db)
      | Inr u \<Rightarrow>
          (case generateTokens env d u (non_empty (userAgent r)) (non_empty (ipAddress r)) db of
             (Inl e, db') \<Rightarrow> (Inl e, db')
           | (Inr tokens, db') \<Rightarrow> (Inr (tokens, u), db')))"

definition rotateTokens ::
  "identity_env \<Rightarrow> draw \<Rightarrow> string \<Rightarrow> identity_db \<Rightarrow> (generated_tokens \<times> user) result \<times> identity_db" where
  "rotateTokens env d raw db =
     (case rotate_check env (clock d) raw db of
        (Inl e, db') \<Rightarrow> (Inl e, db')
      | (Inr r, db') \<Rightarrow> rotate_issue env d r (rotate_revoke r db'))"

definition revokeToken ::
  "identity_env \<Rightarrow> string \<Rightarrow> string option \<Rightarrow> identity_db \<Rightarrow> bool result \<times> identity_db" where
  "revokeToken env raw userId db =
     (let rows = rowOrder env (case non_empty userId of
                    None \<Rightarrow> refreshTokens db
                  | Some i \<Rightarrow> filter (\<lambda>r. rt_userId r = i) (refreshTokens db))
      in case match_token env raw rows of
           Inl e \<Rightarrow> (Inl e, db)
         | Inr None \<Rightarrow> (Inr False, db)
         | Inr (Some r) \<Rightarrow> (Inr True, revoke_where (\<lambda>x. rt_id x = rt_id r) db))"

definition verifyAccessToken :: "identity_env \<Rightarrow> time \<Rightarrow> string \<Rightarrow> jwt_payload result" where
  "verifyAccessToken env now token =
     (case verifyAsync env token (jwtSecret env) now of
        None \<Rightarrow> Inl (UnauthorizedException ''INVALID_ACCESS_TOKEN'')
      | Some p \<Rightarrow> Inr p)"

section \<open>Workflows\<close>

record user_response =
  ur_id :: uuid
  ur_walletAddress :: string
  ur_role :: string
  ur_isActive :: bool
  ur_createdAt :: nat

record auth_response =
  ar_accessToken :: string
  ar_refreshToken :: string
  ar_expiresIn :: nat
  ar_user :: user_response

record validate_response =
  isValid :: bool
  vr_userId :: string
  vr_walletAddress :: string
  vr_role :: string

definition mapToUserResponse :: "user \<Rightarrow> user_response" where
  "mapToUserResponse u =
     \<lparr>ur_id = usr_id u, ur_walletAddress = walletAddress u, ur_role = role_text (role u),
      ur_isActive = usr_isActive u, ur_createdAt = usr_createdAt u div 1000\<rparr>"

definition mapToAuthResponse :: "generated_tokens \<Rightarrow> user \<Rightarrow> auth_response" where
  "mapToAuthResponse t u =
     \<lparr>ar_accessToken = accessToken t, ar_refreshToken = refreshToken t, ar_expiresIn = expiresIn t,
      ar_user = mapToUserResponse u\<rparr>"

definition issue_session :: "identity_env \<Rightarrow> draw \<Rightarrow> user \<Rightarrow> identity_db \<Rightarrow> auth_response result \<times> identity_db" where
  "issue_session env d u db =
     (case generateTokens env d u None None db of
        (Inl e, db') \<Rightarrow> (Inl e, db')
      | (Inr tokens, db') \<Rightarrow> (Inr (mapToAuthResponse tokens u), db'))"

text \<open>What is read off a SIWE message before the nonce is looked at: its wallet and its nonce.\<close>

definition siwe_claim :: "identity_env \<Rightarrow> time \<Rightarrow> string \<Rightarrow> (string \<times> string) result" where
  "siwe_claim env now rawMessage =
     (let parsed = parseSiweMessage env rawMessage
      in case (non_empty (siwe_address parsed), non_empty (siwe_nonce parsed)) of
           (Some a, Some n) \<Rightarrow>
             bindR (normalizeAddress env a) (\<lambda>w.
               if (case siwe_expirationTime parsed of None \<Rightarrow> False | Some t \<Rightarrow> js_after now t)
               then Inl (UnauthorizedException ''SIWE_MESSAGE_EXPIRED'')
               else Inr (w, n))
         | _ \<Rightarrow> Inl (BadRequestException ''MALFORMED_SIWE_MESSAGE''))"

definition login_wallet ::
  "identity_env \<Rightarrow> draw \<Rightarrow> string \<Rightarrow> identity_db \<Rightarrow> auth_response result \<times> identity_db" where
  "login_wallet env d w db =
     (case findOrCreate_user env d w db of
        (Inl e, db') \<Rightarrow> (Inl e, db')
      | (Inr (u, _), db') \<Rightarrow> issue_session env d u db')"

definition verifySiwe ::
  "identity_env \<Rightarrow> draw \<Rightarrow> string \<Rightarrow> string \<Rightarrow> identity_world \<Rightarrow> auth_response result \<times> identity_world" where
  "verifySiwe env d rawMessage signature w =
     (if rawMessage = [] \<or> signature = [] then (Inl (BadRequestException ''SIWE_CREDENTIALS_REQUIRED''), w)
      else
        (case siwe_claim env (clock d) rawMessage of
           Inl e \<Rightarrow> (Inl e, w)
         | Inr (wallet, nonce) \<Rightarrow>
             (case consumeNonce env d wallet nonce (iw_nonces w) of
                (Inl e, store) \<Rightarrow> (Inl e, w\<lparr>iw_nonces := store\<rparr>)
              | (Inr False, store) \<Rightarrow> (Inl (UnauthorizedException ''INVALID_NONCE''), w\<lparr>iw_nonces := store\<rparr>)
              | (Inr True, store) \<Rightarrow>
                  (if verifyMessage env wallet rawMessage signature \<noteq> Some True
                   then (Inl (UnauthorizedException ''INVALID_SIGNATURE''), w\<lparr>iw_nonces := store\<rparr>)
                   else
                     (case login_wallet env d wallet (iw_db w) of
                        (res, db') \<Rightarrow> (res, w\<lparr>iw_nonces := store, iw_db := db'\<rparr>))))))"

definition refreshTokens_call ::
  "identity_env \<Rightarrow> draw \<Rightarrow> string \<Rightarrow> identity_db \<Rightarrow> auth_response result \<times> identity_db" where
  "refreshTokens_call env d raw db =
     (case rotateTokens env d raw db of
        (Inl e, db') \<Rightarrow> (Inl e, db')
      | (Inr (tokens, u), db') \<Rightarrow> (Inr (mapToAuthResponse tokens u), db'))"

definition logout ::
  "identity_env \<Rightarrow> string \<Rightarrow> string option \<Rightarrow> identity_db \<Rightarrow> bool result \<times> identity_db" where
  "logout env raw userId db =
     (if raw = [] then (Inl (BadRequestException ''REFRESH_TOKEN_REQUIRED''), db)
      else revokeToken env raw userId db)"

definition validateToken :: "identity_env \<Rightarrow> time \<Rightarrow> string \<Rightarrow> validate_response" where
  "validateToken env now token =
     (case verifyAccessToken env now token of
        Inr p \<Rightarrow> \<lparr>isValid = True, vr_userId = jwt_sub p, vr_walletAddress = jwt_walletAddress p,
                   vr_role = role_text (jwt_role p)\<rparr>
      | Inl _ \<Rightarrow> \<lparr>isValid = False, vr_userId = [], vr_walletAddress = [], vr_role = []\<rparr>)"

definition DEFAULT_DEV_WALLET :: string where
  "DEFAULT_DEV_WALLET = ''0xf39Fd6e51aad88F6F4ce6aB8827279cffFb92266''"

text \<open>A role outside the enumeration is refused by the column it would be stored in.\<close>

definition change_role ::
  "draw \<Rightarrow> string option \<Rightarrow> user \<Rightarrow> identity_db \<Rightarrow> user result \<times> identity_db" where
  "change_role d r u db =
     (case non_empty r of
        None \<Rightarrow> (Inr u, db)
      | Some t \<Rightarrow>
          (if role_text (role u) = t then (Inr u, db)
           else (case parse_role t of
                   None \<Rightarrow> (Inl (DbException ''22P02''), db)
                 | Some new \<Rightarrow> updateRole d (usr_id u) new db)))"

definition sandboxLogin ::
  "identity_env \<Rightarrow> draw \<Rightarrow> string option \<Rightarrow> string option \<Rightarrow> identity_db \<Rightarrow> auth_response result \<times> identity_db" where
  "sandboxLogin env d address r db =
     (case normalizeAddress env (case non_empty address of None \<Rightarrow> DEFAULT_DEV_WALLET | Some a \<Rightarrow> a) of
        Inl e \<Rightarrow> (Inl e, db)
      | Inr w \<Rightarrow>
          (case findOrCreate_user env d w db of
             (Inl e, db1) \<Rightarrow> (Inl e, db1)
           | (Inr (u, _), db1) \<Rightarrow>
               (case change_role d r u db1 of
                  (Inl e, db2) \<Rightarrow> (Inl e, db2)
                | (Inr u', db2) \<Rightarrow> issue_session env d u' db2)))"

definition updateUserRole :: "draw \<Rightarrow> uuid \<Rightarrow> string \<Rightarrow> identity_db \<Rightarrow> user_response result \<times> identity_db" where
  "updateUserRole d i r db =
     (case parse_role r of
        None \<Rightarrow> (Inl (BadRequestException ''INVALID_ROLE''), db)
      | Some new \<Rightarrow>
          (case updateRole d i new db of
             (Inl e, db') \<Rightarrow> (Inl e, db')
           | (Inr u, db') \<Rightarrow> (Inr (mapToUserResponse u), db')))"

section \<open>The gRPC methods\<close>

datatype identity_call =
    GetNonce string
  | VerifySiwe string string
  | RefreshTokens string
  | Logout string "string option"
  | ValidateToken string
  | SandboxLogin "string option" "string option"
  | GetUserById uuid
  | GetUserByAddress string
  | UpdateUserRole uuid string

datatype identity_reply =
    NonceReply string nat
  | AuthReply auth_response
  | LogoutReply bool
  | ValidateReply validate_response
  | UserReply user_response

definition replying :: "('a \<Rightarrow> identity_reply) \<Rightarrow> 'a result \<Rightarrow> identity_reply result" where
  "replying f r = (case r of Inl e \<Rightarrow> Inl e | Inr x \<Rightarrow> Inr (f x))"

definition on_db ::
  "('a \<Rightarrow> identity_reply) \<Rightarrow> (identity_db \<Rightarrow> 'a result \<times> identity_db) \<Rightarrow> identity_world \<Rightarrow>
   identity_reply result \<times> identity_world" where
  "on_db f op w = (case op (iw_db w) of (r, db) \<Rightarrow> (replying f r, w\<lparr>iw_db := db\<rparr>))"

fun identity_rpc ::
  "identity_env \<Rightarrow> draw \<Rightarrow> identity_call \<Rightarrow> identity_world \<Rightarrow> identity_reply result \<times> identity_world" where
  "identity_rpc env d (GetNonce a) w =
     (case generateNonce env d a (iw_nonces w) of
        (r, store) \<Rightarrow> (replying (\<lambda>(n, t). NonceReply n t) r, w\<lparr>iw_nonces := store\<rparr>))"
| "identity_rpc env d (VerifySiwe m s) w =
     (case verifySiwe env d m s w of (r, w') \<Rightarrow> (replying AuthReply r, w'))"
| "identity_rpc env d (RefreshTokens t) w = on_db AuthReply (refreshTokens_call env d t) w"
| "identity_rpc env d (Logout t u) w = on_db LogoutReply (logout env t u) w"
| "identity_rpc env d (ValidateToken t) w = (Inr (ValidateReply (validateToken env (clock d) t)), w)"
| "identity_rpc env d (SandboxLogin a r) w = on_db AuthReply (sandboxLogin env d a r) w"
| "identity_rpc env d (GetUserById i) w = on_db UserReply (\<lambda>db. (map_sum id mapToUserResponse (findById_user i db), db)) w"
| "identity_rpc env d (GetUserByAddress a) w =
     on_db UserReply (\<lambda>db. (map_sum id mapToUserResponse (findByAddress env a db), db)) w"
| "identity_rpc env d (UpdateUserRole i r) w = on_db UserReply (updateUserRole d i r) w"

text \<open>Calls one after another, each with what it draws, answered in turn.\<close>

type_synonym identity_trace = "((draw \<times> identity_call) \<times> identity_reply result) list"

definition identity_step ::
  "identity_env \<Rightarrow> draw \<times> identity_call \<Rightarrow> identity_world \<Rightarrow> identity_reply result \<times> identity_world" where
  "identity_step env c = identity_rpc env (fst c) (snd c)"

definition identity_run ::
  "identity_env \<Rightarrow> (draw \<times> identity_call) list \<Rightarrow> identity_world \<Rightarrow> identity_trace \<times> identity_world" where
  "identity_run env = run_steps (identity_step env)"

end
