(* ===== verification/Identity_Nonces.thy ===== *)
theory Identity_Nonces
  imports Identity
begin

text \<open>
  Sign-in with Ethereum: what a login needs, and that a signed message cannot be replayed. A nonce
  is a permit: drawn for a wallet by \<open>GetNonce\<close>, used by the login whose message carries it.
\<close>

section \<open>What a login needs\<close>

text \<open>What \<open>viem\<close> documents of checksummed addresses, as far as the service relies on it.\<close>

definition address_laws :: "identity_env \<Rightarrow> bool" where
  "address_laws env \<longleftrightarrow>
     (\<forall>a. isAddress env a \<longrightarrow> getAddress env a \<noteq> [] \<and> isAddress env (getAddress env a) \<and>
        getAddress env (getAddress env a) = getAddress env a)"

lemma normalize_Inr:
  "normalizeAddress env a = Inr w \<longleftrightarrow> a \<noteq> [] \<and> isAddress env a \<and> w = getAddress env a"
  by (auto simp: normalizeAddress_def)

lemma normalize_normal:
  "address_laws env \<Longrightarrow> normalizeAddress env a = Inr w \<Longrightarrow> normalizeAddress env w = Inr w"
  by (auto simp: normalize_Inr address_laws_def)

lemma siwe_claim_Inr:
  "siwe_claim env now m = Inr (w, n) \<Longrightarrow>
     (\<exists>a. siwe_address (parseSiweMessage env m) = Some a \<and> normalizeAddress env a = Inr w) \<and>
     siwe_nonce (parseSiweMessage env m) = Some n \<and> n \<noteq> []"
  by (auto simp: siwe_claim_def Let_def non_empty_def bindR_eq_Inr split: option.splits if_splits)

lemma consumeNonce_True:
  assumes "consumeNonce env d a n store = (Inr True, store')"
  obtains w where "normalizeAddress env a = Inr w" and "live store (clock d) (nonce_key w) = Some n" and "n \<noteq> []"
    and "store' = store(nonce_key w := None)"
  using assms
  by (auto simp: consumeNonce_def getAndDelNonce_def split: sum.splits valkey_reply.splits if_splits)

lemma consumeNonce_store:
  "snd (consumeNonce env d a n store) = store \<or>
     (\<exists>w. normalizeAddress env a = Inr w \<and> snd (consumeNonce env d a n store) = store(nonce_key w := None))"
  by (auto simp: consumeNonce_def getAndDelNonce_def split: sum.splits valkey_reply.splits)

text \<open>The database steps of a login.\<close>

lemma findOrCreate_Inr:
  assumes "findOrCreate_user env d a db = (Inr (u, new), db')" and "identity_db_ok db" and "normalizeAddress env a = Inr w"
  shows "walletAddress u = w \<and> findByWalletAddress w db' = Some u \<and> identity_db_ok db' \<and>
    refreshTokens db' = refreshTokens db \<and> u \<in> set (users db')"
proof -
  have res: "findOrCreateByWalletAddress d w TRADER db db = (Inr (u, new), db')"
    using assms(1,3) by (simp add: findOrCreate_user_def)
  have "findByWalletAddress w db' = Some u"
  proof (cases "findByWalletAddress w db")
    case (Some v)
    then show ?thesis using res by (simp add: findOrCreateByWalletAddress_def)
  next
    case None
    then have "createUser d w TRADER db = Inr (u, db')"
      using res by (auto simp: findOrCreateByWalletAddress_def split: sum.splits)
    then show ?thesis by (rule createUser_ok(2) [OF _ assms(2)])
  qed
  then have "walletAddress u = w \<and> findByWalletAddress w db' = Some u"
    by (auto simp: findByWalletAddress_def)
  moreover have "identity_db_ok db' \<and> refreshTokens db' = refreshTokens db"
    using findOrCreateByWallet_cases [OF _ assms(2)] assms(1,3) by (simp add: findOrCreate_user_def)
  moreover have "u \<in> set (users db')"
    using calculation(1) by (auto simp: findByWalletAddress_def)
  ultimately show ?thesis by blast
qed

lemma generateTokens_Inr:
  assumes "generateTokens env d u agent ip db = (Inr t, db')"
  shows "db' = db\<lparr>refreshTokens := refreshTokens db @ [new_refresh_token env d u agent ip]\<rparr>"
    and "t = \<lparr>accessToken = signAsync env (user_payload u) 900 (jwtSecret env) (clock d),
              refreshToken = rawToken d, expiresIn = 900\<rparr>"
  using assms insertRefreshToken_ok(1) [of "new_refresh_token env d u agent ip" db]
  by (auto simp: generateTokens_def ACCESS_TOKEN_EXPIRATION_SECONDS_def split: sum.splits)

text \<open>
  C19: only the owner of a wallet logs in as that wallet. If \<open>VerifySiwe\<close> answers with a session, then
  the message names a wallet and a nonce, has not expired, the nonce is the one stored and still
  live for that wallet, and \<open>verifyMessage\<close> has accepted the signature of exactly this message
  under exactly this wallet; afterwards the nonce is gone, the session belongs to the one user
  with this wallet, and exactly one refresh token, of this user and unrevoked, has been added.
\<close>

theorem siwe_login_needs_signature:
  assumes "verifySiwe env d m sig w = (Inr resp, w')" and "address_laws env" and "identity_db_ok (iw_db w)"
  shows "\<exists>wallet n u. siwe_claim env (clock d) m = Inr (wallet, n) \<and>
    live (iw_nonces w) (clock d) (nonce_key wallet) = Some n \<and> verifyMessage env wallet m sig = Some True \<and>
    iw_nonces w' = (iw_nonces w)(nonce_key wallet := None) \<and>
    findByWalletAddress wallet (iw_db w') = Some u \<and> ur_id (ar_user resp) = usr_id u \<and>
    ur_walletAddress (ar_user resp) = wallet \<and>
    refreshTokens (iw_db w') = refreshTokens (iw_db w) @ [new_refresh_token env d u None None]"
proof -
  obtain wallet n where cl: "siwe_claim env (clock d) m = Inr (wallet, n)"
    using assms(1) by (auto simp: verifySiwe_def split: if_splits sum.splits prod.splits)
  have nn: "normalizeAddress env wallet = Inr wallet"
    using siwe_claim_Inr [OF cl] normalize_normal [OF assms(2)] by blast
  obtain store where co: "consumeNonce env d wallet n (iw_nonces w) = (Inr True, store)"
      and sig: "verifyMessage env wallet m sig = Some True"
      and lo: "login_wallet env d wallet (iw_db w) = (Inr resp, iw_db w')"
      and st: "iw_nonces w' = store"
    using assms(1) cl
    by (auto simp: verifySiwe_def split: if_splits sum.splits prod.splits bool.splits)
  have lv: "live (iw_nonces w) (clock d) (nonce_key wallet) = Some n" "store = (iw_nonces w)(nonce_key wallet := None)"
    using consumeNonce_True [OF co] nn by auto
  obtain u new db1 where fo: "findOrCreate_user env d wallet (iw_db w) = (Inr (u, new), db1)"
      and se: "issue_session env d u db1 = (Inr resp, iw_db w')"
    using lo by (auto simp: login_wallet_def split: sum.splits prod.splits)
  have u: "walletAddress u = wallet" "findByWalletAddress wallet db1 = Some u" "refreshTokens db1 = refreshTokens (iw_db w)"
    using findOrCreate_Inr [OF fo assms(3) nn] by auto
  obtain t where ge: "generateTokens env d u None None db1 = (Inr t, iw_db w')" and "resp = mapToAuthResponse t u"
    using se by (auto simp: issue_session_def split: sum.splits prod.splits)
  then have "ur_id (ar_user resp) = usr_id u" "ur_walletAddress (ar_user resp) = wallet"
    using u(1) by (simp_all add: mapToAuthResponse_def mapToUserResponse_def)
  moreover have "findByWalletAddress wallet (iw_db w') = Some u"
      "refreshTokens (iw_db w') = refreshTokens (iw_db w) @ [new_refresh_token env d u None None]"
    using generateTokens_Inr(1) [OF ge] u(2,3) by (simp_all add: findByWalletAddress_def)
  ultimately show ?thesis using cl lv sig st by blast
qed

section \<open>Nonces are used up\<close>

text \<open>The key and the nonce a message claims, whatever the time.\<close>

definition siwe_permit :: "identity_env \<Rightarrow> string \<Rightarrow> (string \<times> string) option" where
  "siwe_permit env m =
     (let p = parseSiweMessage env m
      in case (siwe_address p, siwe_nonce p) of
           (Some a, Some n) \<Rightarrow> Some (nonce_key (getAddress env (getAddress env a)), n)
         | _ \<Rightarrow> None)"

fun draws_nonce :: "identity_env \<Rightarrow> string \<Rightarrow> string \<Rightarrow> (draw \<times> identity_call) \<times> identity_reply result \<Rightarrow> bool" where
  "draws_nonce env k n ((d, GetNonce a), r) \<longleftrightarrow> nonce_key (getAddress env a) = k \<and> newNonce d = n"
| "draws_nonce env k n _ \<longleftrightarrow> False"

fun logs_in :: "identity_env \<Rightarrow> string \<Rightarrow> string \<Rightarrow> (draw \<times> identity_call) \<times> identity_reply result \<Rightarrow> bool" where
  "logs_in env k n ((d, VerifySiwe m s), Inr r) \<longleftrightarrow> siwe_permit env m = Some (k, n)"
| "logs_in env k n _ \<longleftrightarrow> False"

definition nonce_held :: "string \<Rightarrow> string \<Rightarrow> identity_world \<Rightarrow> nat" where
  "nonce_held k n w = of_bool (map_option fst (iw_nonces w k) = Some n)"

lemma held_del: "nonce_held k n (w\<lparr>iw_nonces := (iw_nonces w)(k' := None)\<rparr>) \<le> nonce_held k n w"
  by (simp add: nonce_held_def)

lemma held_db [simp]: "nonce_held k n (w\<lparr>iw_db := db\<rparr>) = nonce_held k n w"
  by (simp add: nonce_held_def)

lemma on_db_nonces [simp]: "iw_nonces (snd (on_db f op w)) = iw_nonces w"
  by (simp add: on_db_def split_beta)

lemma getNonce_account:
  "nonce_held k n (snd (identity_rpc env d (GetNonce a) w)) \<le>
     of_bool (nonce_key (getAddress env a) = k \<and> newNonce d = n) + nonce_held k n w"
  by (auto simp: nonce_held_def generateNonce_def setNonce_def normalize_Inr split: sum.splits valkey_reply.splits)

lemma verifySiwe_nonces:
  "iw_nonces (snd (verifySiwe env d m s w)) = iw_nonces w \<or>
     (\<exists>k. iw_nonces (snd (verifySiwe env d m s w)) = (iw_nonces w)(k := None))"
proof -
  have "iw_nonces (snd (verifySiwe env d m s w)) = iw_nonces w \<or>
    (\<exists>wallet n. iw_nonces (snd (verifySiwe env d m s w)) = snd (consumeNonce env d wallet n (iw_nonces w)))"
  proof (cases "m = [] \<or> s = [] \<or> (\<exists>e. siwe_claim env (clock d) m = Inl e)")
    case True
    then show ?thesis by (auto simp: verifySiwe_def)
  next
    case False
    then obtain wallet n where "siwe_claim env (clock d) m = Inr (wallet, n)"
      by (cases "siwe_claim env (clock d) m") auto
    with False have "iw_nonces (snd (verifySiwe env d m s w)) = snd (consumeNonce env d wallet n (iw_nonces w))"
      by (simp add: verifySiwe_def split_beta split: prod.split sum.split bool.split)
    then show ?thesis by blast
  qed
  then show ?thesis using consumeNonce_store by metis
qed

lemma verifySiwe_uses:
  assumes "fst (verifySiwe env d m s w) = Inr resp"
  shows "\<exists>k n. siwe_permit env m = Some (k, n) \<and> nonce_held k n w = 1 \<and>
    nonce_held k n (snd (verifySiwe env d m s w)) = 0"
proof -
  obtain wallet n where cl: "siwe_claim env (clock d) m = Inr (wallet, n)"
    using assms by (auto simp: verifySiwe_def split: if_splits sum.splits prod.splits)
  obtain store where co: "consumeNonce env d wallet n (iw_nonces w) = (Inr True, store)"
      and st: "iw_nonces (snd (verifySiwe env d m s w)) = store"
    using assms cl
    by (auto simp: verifySiwe_def split: if_splits sum.splits prod.splits bool.splits)
  obtain w2 where w2: "normalizeAddress env wallet = Inr w2" "live (iw_nonces w) (clock d) (nonce_key w2) = Some n"
      "store = (iw_nonces w)(nonce_key w2 := None)"
    using consumeNonce_True [OF co] by metis
  have "siwe_permit env m = Some (nonce_key w2, n)"
    using siwe_claim_Inr [OF cl] w2(1) by (auto simp: siwe_permit_def normalize_Inr)
  moreover have "nonce_held (nonce_key w2) n w = 1"
    using w2(2) by (auto simp: nonce_held_def live_def split: option.splits if_splits)
  ultimately show ?thesis using st w2(3) by (auto simp: nonce_held_def)
qed

lemma nonce_step_account:
  "of_bool (logs_in env k n (c, fst (identity_step env c w))) + nonce_held k n (snd (identity_step env c w))
     \<le> of_bool (draws_nonce env k n (c, fst (identity_step env c w))) + nonce_held k n w"
proof -
  obtain d call where c: "c = (d, call)" by fastforce
  show ?thesis
  proof (cases call)
    case (GetNonce a)
    then show ?thesis using getNonce_account [of k n env d a w] by (simp add: c identity_step_def)
  next
    case (VerifySiwe m s)
    have mono: "nonce_held k n (snd (verifySiwe env d m s w)) \<le> nonce_held k n w"
      using verifySiwe_nonces [of env d m s w] by (auto simp: nonce_held_def split: if_splits)
    show ?thesis
    proof (cases "fst (verifySiwe env d m s w)")
      case (Inl e)
      then show ?thesis using mono
        by (simp add: c VerifySiwe identity_step_def replying_def split_beta)
    next
      case (Inr resp)
      then show ?thesis using mono verifySiwe_uses [OF Inr]
        by (auto simp: c VerifySiwe identity_step_def replying_def split_beta)
    qed
  qed (simp_all add: c identity_step_def nonce_held_def)
qed

interpretation nonce_permits:
  permits "identity_step env" "\<lambda>_. True" "nonce_held k n" "draws_nonce env k n" "logs_in env k n" for env k n
  by unfold_locales (simp_all only: nonce_step_account TrueI)

text \<open>
  C20: a signed message logs in at most once. Over any sequence of calls of the service, whatever
  Valkey loses and whoever calls, the logins with messages that carry the nonce \<open>n\<close> for the wallet
  with the key \<open>k\<close> are at most as many as the times \<open>GetNonce\<close> drew \<open>n\<close> for that wallet.
\<close>

theorem siwe_message_not_replayed:
  "times (logs_in env k n) (fst (identity_run env cs empty_identity)) \<le>
     times (draws_nonce env k n) (fst (identity_run env cs empty_identity))"
  unfolding identity_run_def
  by (rule nonce_permits.used_at_most_granted) (simp_all add: nonce_held_def empty_identity_def)

end
