(* ===== verification/Identity_Tokens.thy ===== *)
theory Identity_Tokens
  imports Identity_Nonces
begin

text \<open>
  Refresh tokens: every method keeps the database well formed, a refresh token is exchanged at most
  as often as it was handed out, a reused one ends the sessions of its user, and an access token
  validates for as long as it was signed for. Tokens that are exchanged are permits again.
\<close>

section \<open>The calls keep the tables\<close>

lemma generateTokens_db:
  "snd (generateTokens env d u agent ip db) = db \<or>
   snd (generateTokens env d u agent ip db) =
     db\<lparr>refreshTokens := refreshTokens db @ [new_refresh_token env d u agent ip]\<rparr>"
  using insertRefreshToken_ok(1) [of "new_refresh_token env d u agent ip" db]
  by (auto simp: generateTokens_def split: sum.splits)

lemma generateTokens_ok:
  "identity_db_ok db \<Longrightarrow> identity_db_ok (snd (generateTokens env d u agent ip db))"
  using insertRefreshToken_ok(2) [of "new_refresh_token env d u agent ip" db]
  by (auto simp: generateTokens_def split: sum.splits)

lemma rotate_check_ok: "identity_db_ok db \<Longrightarrow> identity_db_ok (snd (rotate_check env t raw db))"
  by (simp add: rotate_check_def revokeAllUserTokens_def revoke_where_ok split: sum.split option.split)

lemma rotateTokens_ok:
  assumes "identity_db_ok db"
  shows "identity_db_ok (snd (rotateTokens env d raw db))"
proof (cases "rotate_check env (clock d) raw db")
  case (Pair res db1)
  have "identity_db_ok db1" using rotate_check_ok [OF assms, of env "clock d" raw] Pair by simp
  then have "identity_db_ok (rotate_revoke r db1)" for r by (simp add: rotate_revoke_def revoke_where_ok)
  then have "identity_db_ok (snd (rotate_issue env d r (rotate_revoke r db1)))" for r
    using generateTokens_ok
    by (auto simp: rotate_issue_def split_beta split: sum.split)
  with \<open>identity_db_ok db1\<close> show ?thesis by (simp add: rotateTokens_def Pair split: sum.split)
qed

lemma findOrCreate_user_ok:
  assumes "identity_db_ok db"
  shows "identity_db_ok (snd (findOrCreate_user env d a db))"
    and "refreshTokens (snd (findOrCreate_user env d a db)) = refreshTokens db"
  using findOrCreateByWallet_cases [OF _ assms, of d _ TRADER db]
  by (auto simp: findOrCreate_user_def assms split: sum.split) (metis prod.collapse)+

lemma issue_session_ok: "identity_db_ok db \<Longrightarrow> identity_db_ok (snd (issue_session env d u db))"
  using generateTokens_ok [of db env d u None None]
  by (auto simp: issue_session_def split_beta split: sum.split)

lemma login_wallet_ok: "identity_db_ok db \<Longrightarrow> identity_db_ok (snd (login_wallet env d a db))"
  using findOrCreate_user_ok(1) [of db env d a] issue_session_ok
  by (auto simp: login_wallet_def split_beta split: sum.split)

lemma updateRole_ok:
  assumes "identity_db_ok db"
  shows "identity_db_ok (snd (updateRole d i r db))" and "refreshTokens (snd (updateRole d i r db)) = refreshTokens db"
  using updateRole_row_ok [OF assms, of "clock d" i r]
  by (auto simp: updateRole_def split_beta split: option.split)

lemma change_role_ok:
  assumes "identity_db_ok db"
  shows "identity_db_ok (snd (change_role d r u db))" and "refreshTokens (snd (change_role d r u db)) = refreshTokens db"
  using updateRole_ok [OF assms] by (auto simp: change_role_def assms split: option.split)

lemma sandboxLogin_ok:
  assumes "identity_db_ok db"
  shows "identity_db_ok (snd (sandboxLogin env d a r db))"
  using findOrCreate_user_ok(1) [OF assms] change_role_ok(1) issue_session_ok assms
  by (simp add: sandboxLogin_def split_beta split: sum.split)

lemma revokeToken_ok: "identity_db_ok db \<Longrightarrow> identity_db_ok (snd (revokeToken env raw i db))"
  by (simp add: revokeToken_def Let_def revoke_where_ok split: sum.split option.split)

lemma verifySiwe_db:
  "iw_db (snd (verifySiwe env d m s w)) = iw_db w \<or>
   (\<exists>a. iw_db (snd (verifySiwe env d m s w)) = snd (login_wallet env d a (iw_db w)))"
proof (cases "m = [] \<or> s = [] \<or> (\<exists>e. siwe_claim env (clock d) m = Inl e)")
  case True
  then show ?thesis by (auto simp: verifySiwe_def)
next
  case False
  then obtain a n where cl: "siwe_claim env (clock d) m = Inr (a, n)"
    by (cases "siwe_claim env (clock d) m") auto
  obtain r store where co: "consumeNonce env d a n (iw_nonces w) = (r, store)" by fastforce
  have "iw_db (snd (verifySiwe env d m s w)) =
      (if r = Inr True \<and> verifyMessage env a m s = Some True then snd (login_wallet env d a (iw_db w)) else iw_db w)"
    using False by (simp add: verifySiwe_def cl co split_beta split: sum.split bool.split)
  then show ?thesis by auto
qed

lemma iw_db_on_db [simp]: "iw_db (snd (on_db f op w)) = snd (op (iw_db w))"
  by (simp add: on_db_def split_beta)

lemma rpc_tables_ok:
  assumes "identity_db_ok (iw_db w)"
  shows "identity_db_ok (iw_db (snd (identity_rpc env d c w)))"
proof (cases c)
  case (VerifySiwe m s)
  have "identity_db_ok (iw_db (snd (verifySiwe env d m s w)))"
    using verifySiwe_db [of env d m s w] login_wallet_ok [OF assms] assms by metis
  then show ?thesis by (simp add: VerifySiwe split_beta)
next
  case (RefreshTokens raw)
  then show ?thesis
    using rotateTokens_ok [OF assms, of env d raw] by (simp add: refreshTokens_call_def split_beta split: sum.split)
next
  case (Logout t u)
  then show ?thesis using revokeToken_ok [OF assms] assms by (simp add: logout_def)
next
  case (SandboxLogin a r)
  then show ?thesis using sandboxLogin_ok [OF assms] by simp
next
  case (UpdateUserRole i r)
  then show ?thesis using updateRole_ok(1) [OF assms] assms
    by (simp add: updateUserRole_def split_beta split: option.split sum.split)
qed (use assms in \<open>simp_all add: split_beta\<close>)

section \<open>Sessions that a raw token can be exchanged for\<close>

text \<open>
  A hash verifies against exactly the text it was made from, and a query without an order answers
  all rows of the table.
\<close>

definition argon2_laws :: "identity_env \<Rightarrow> bool" where
  "argon2_laws env \<longleftrightarrow> (\<forall>s x y. argon2_verify env (argon2_hash env s x) y = Inr (x = y))"

definition query_laws :: "identity_env \<Rightarrow> bool" where
  "query_laws env \<longleftrightarrow> (\<forall>rows. set (rowOrder env rows) = set rows)"

definition matches :: "identity_env \<Rightarrow> string \<Rightarrow> refresh_token \<Rightarrow> bool" where
  "matches env raw r \<longleftrightarrow> argon2_verify env (tokenHash r) raw = Inr True"

definition exchangeable :: "identity_env \<Rightarrow> string \<Rightarrow> identity_db \<Rightarrow> nat" where
  "exchangeable env raw db = length (filter (\<lambda>r. \<not> isRevoked r \<and> matches env raw r) (refreshTokens db))"

lemma match_token_Some:
  "match_token env raw rows = Inr (Some r) \<Longrightarrow> r \<in> set rows \<and> matches env raw r"
  by (induction rows) (auto simp: matches_def split: sum.splits bool.splits)

lemma matches_new [simp]:
  "argon2_laws env \<Longrightarrow> matches env raw (new_refresh_token env d u agent ip) \<longleftrightarrow> rawToken d = raw"
  by (simp add: matches_def new_refresh_token_def argon2_laws_def)

lemma not_revoked_new [simp]: "\<not> isRevoked (new_refresh_token env d u agent ip)"
  by (simp add: new_refresh_token_def)

lemma revoke_rows_mono:
  "length (filter (\<lambda>r. \<not> isRevoked r \<and> Q (tokenHash r)) (update_rows P (\<lambda>r. r\<lparr>isRevoked := True\<rparr>) rows))
     \<le> length (filter (\<lambda>r. \<not> isRevoked r \<and> Q (tokenHash r)) rows)"
  by (induction rows) auto

lemma revoke_rows_less:
  "r \<in> set rows \<Longrightarrow> P r \<Longrightarrow> \<not> isRevoked r \<Longrightarrow> Q (tokenHash r) \<Longrightarrow>
   length (filter (\<lambda>r. \<not> isRevoked r \<and> Q (tokenHash r)) (update_rows P (\<lambda>r. r\<lparr>isRevoked := True\<rparr>) rows))
     < length (filter (\<lambda>r. \<not> isRevoked r \<and> Q (tokenHash r)) rows)"
proof (induction rows)
  case (Cons x rows)
  then show ?case using revoke_rows_mono [of Q P rows] by (auto simp: less_Suc_eq_le)
qed simp

lemma exchangeable_revoke: "exchangeable env raw (revoke_where P db) \<le> exchangeable env raw db"
  unfolding exchangeable_def matches_def revoke_where_def
  using revoke_rows_mono [of "\<lambda>h. argon2_verify env h raw = Inr True" P "refreshTokens db"] by simp

lemma exchangeable_revoked:
  assumes "r \<in> set (refreshTokens db)" and "P r" and "\<not> isRevoked r" and "matches env raw r"
  shows "exchangeable env raw (revoke_where P db) < exchangeable env raw db"
  using assms revoke_rows_less [of r "refreshTokens db" P "\<lambda>h. argon2_verify env h raw = Inr True"]
  by (simp add: exchangeable_def matches_def revoke_where_def)

text \<open>The account of one raw token, operation by operation.\<close>

definition hands :: "string \<Rightarrow> auth_response result \<Rightarrow> bool" where
  "hands raw r \<longleftrightarrow> (\<exists>a. r = Inr a \<and> ar_refreshToken a = raw)"

lemma generate_account:
  assumes "argon2_laws env" and "generateTokens env d u agent ip db = (res, db')"
  shows "exchangeable env raw db' =
    of_bool (\<exists>t. res = Inr t \<and> refreshToken t = raw) + exchangeable env raw db"
proof (cases res)
  case (Inl e)
  then have "db' = db" using assms(2) by (auto simp: generateTokens_def split: sum.splits)
  with Inl show ?thesis by simp
next
  case (Inr t)
  then show ?thesis
    using generateTokens_Inr [of env d u agent ip db t db'] assms
    by (auto simp: exchangeable_def)
qed

lemma issue_account:
  assumes "argon2_laws env"
  shows "exchangeable env raw (snd (issue_session env d u db)) =
    of_bool (hands raw (fst (issue_session env d u db))) + exchangeable env raw db"
proof (cases "generateTokens env d u None None db")
  case (Pair res db')
  then show ?thesis using generate_account [OF assms Pair, of raw]
    by (cases res) (auto simp: issue_session_def hands_def mapToAuthResponse_def)
qed

lemma exchangeable_same:
  "refreshTokens db' = refreshTokens db \<Longrightarrow> exchangeable env raw db' = exchangeable env raw db"
  by (simp add: exchangeable_def)

lemma hands_Inl [simp]: "\<not> hands raw (Inl e)"
  by (simp add: hands_def)

lemma login_account:
  assumes "argon2_laws env" and "identity_db_ok db"
  shows "exchangeable env raw (snd (login_wallet env d a db)) =
    of_bool (hands raw (fst (login_wallet env d a db))) + exchangeable env raw db"
proof (cases "findOrCreate_user env d a db")
  case (Pair res db1)
  have "refreshTokens db1 = refreshTokens db" using findOrCreate_user_ok(2) [OF assms(2), of env d a] Pair by simp
  then show ?thesis
    using issue_account [OF assms(1)] exchangeable_same [of db1 db env raw]
    by (cases res) (auto simp: login_wallet_def Pair)
qed

lemma sandbox_account:
  assumes "argon2_laws env" and "identity_db_ok db"
  shows "exchangeable env raw (snd (sandboxLogin env d a r db)) =
    of_bool (hands raw (fst (sandboxLogin env d a r db))) + exchangeable env raw db"
proof (cases "normalizeAddress env (case non_empty a of None \<Rightarrow> DEFAULT_DEV_WALLET | Some a \<Rightarrow> a)")
  case (Inl e)
  then show ?thesis by (simp add: sandboxLogin_def)
next
  case (Inr w)
  obtain res db1 where fo: "findOrCreate_user env d w db = (res, db1)" by fastforce
  have db1: "identity_db_ok db1" "refreshTokens db1 = refreshTokens db"
    using findOrCreate_user_ok [OF assms(2), of env d w] fo by simp_all
  show ?thesis
  proof (cases res)
    case (Inl e)
    then show ?thesis using exchangeable_same [OF db1(2)] by (simp add: sandboxLogin_def Inr fo)
  next
    case res: (Inr x)
    obtain u new where x: "x = (u, new)" by fastforce
    obtain res2 db2 where ch: "change_role d r u db1 = (res2, db2)" by fastforce
    have "refreshTokens db2 = refreshTokens db" using change_role_ok(2) [OF db1(1), of d r u] ch db1(2) by simp
    then show ?thesis
      using issue_account [OF assms(1)] exchangeable_same [of db2 db env raw]
      by (cases res2) (simp_all add: sandboxLogin_def Inr fo res x ch)
  qed
qed

text \<open>A rotation that succeeds exchanges an unrevoked record for a new one.\<close>

lemma rotate_check_Inr:
  assumes "rotate_check env t raw db = (Inr r, db1)" and "query_laws env"
  shows "db1 = db" and "r \<in> set (refreshTokens db)" and "matches env raw r" and "\<not> isRevoked r" and "t \<le> expiresAt r"
    and "raw \<noteq> []"
proof -
  have m: "match_token env raw (rowOrder env (refreshTokens db)) = Inr (Some r)" and
    rest: "db1 = db" "\<not> isRevoked r" "t \<le> expiresAt r" "raw \<noteq> []"
    using assms(1) by (auto simp: rotate_check_def split: if_splits sum.splits option.splits)
  show "r \<in> set (refreshTokens db)" "matches env raw r"
    using match_token_Some [OF m] assms(2) by (auto simp: query_laws_def)
  show "db1 = db" "\<not> isRevoked r" "t \<le> expiresAt r" "raw \<noteq> []" using rest by simp_all
qed

lemma rotate_check_Inl:
  "rotate_check env t raw db = (Inl e, db1) \<Longrightarrow> exchangeable env raw' db1 \<le> exchangeable env raw' db"
  by (auto simp: rotate_check_def revokeAllUserTokens_def exchangeable_revoke
      split: if_splits sum.splits option.splits)

lemma rotate_issue_account:
  assumes "argon2_laws env"
  shows "exchangeable env raw (snd (rotate_issue env d r db)) =
    of_bool (\<exists>t u. fst (rotate_issue env d r db) = Inr (t, u) \<and> refreshToken t = raw) + exchangeable env raw db"
proof (cases "findById_user (rt_userId r) db")
  case (Inl e)
  then show ?thesis by (simp add: rotate_issue_def)
next
  case (Inr u)
  obtain res db' where ge: "generateTokens env d u (non_empty (userAgent r)) (non_empty (ipAddress r)) db = (res, db')"
    by fastforce
  then show ?thesis using generate_account [OF assms ge, of raw]
    by (cases res) (simp_all add: rotate_issue_def Inr)
qed

lemma refresh_account:
  assumes "argon2_laws env" and "query_laws env"
  shows "of_bool (raw' = raw \<and> (\<exists>a. fst (refreshTokens_call env d raw' db) = Inr a))
      + exchangeable env raw (snd (refreshTokens_call env d raw' db))
    \<le> of_bool (hands raw (fst (refreshTokens_call env d raw' db))) + exchangeable env raw db"
proof -
  obtain c db1 where ch: "rotate_check env (clock d) raw' db = (c, db1)" by fastforce
  show ?thesis
  proof (cases c)
    case (Inl e)
    then show ?thesis using rotate_check_Inl [of env "clock d" raw' db e db1 raw] ch
      by (simp add: refreshTokens_call_def rotateTokens_def)
  next
    case (Inr r)
    note r = rotate_check_Inr [OF ch [unfolded Inr] assms(2)]
    obtain res db2 where iss: "rotate_issue env d r (rotate_revoke r db) = (res, db2)" by fastforce
    have "of_bool (raw' = raw) + exchangeable env raw (rotate_revoke r db) \<le> exchangeable env raw db"
      using exchangeable_revoked [of r db "\<lambda>x. rt_id x = rt_id r" env raw] r
        exchangeable_revoke [of env raw "\<lambda>x. rt_id x = rt_id r" db]
      by (auto simp: rotate_revoke_def)
    moreover have "fst (refreshTokens_call env d raw' db) = map_sum id (\<lambda>(t, u). mapToAuthResponse t u) res"
        "snd (refreshTokens_call env d raw' db) = db2"
      by (cases res; simp add: refreshTokens_call_def rotateTokens_def ch Inr r(1) iss split_beta)+
    moreover have "exchangeable env raw db2 =
        of_bool (\<exists>t u. res = Inr (t, u) \<and> refreshToken t = raw) + exchangeable env raw (rotate_revoke r db)"
      using rotate_issue_account [OF assms(1), of raw d r "rotate_revoke r db"] iss by simp
    ultimately show ?thesis
      by (cases res) (auto simp: hands_def mapToAuthResponse_def)
  qed
qed

end
