(* ===== verification/Identity_Sessions.thy ===== *)
theory Identity_Sessions
  imports Identity_Tokens
begin

text \<open>
  Sessions over whole runs of the identity service: how often a refresh token is exchanged, what the
  reuse of a revoked one ends, how long an access token validates, and what concurrent calls see.
\<close>

section \<open>Refresh tokens are permits\<close>

fun hands_out :: "string \<Rightarrow> (draw \<times> identity_call) \<times> identity_reply result \<Rightarrow> bool" where
  "hands_out raw (c, Inr (AuthReply a)) \<longleftrightarrow> ar_refreshToken a = raw"
| "hands_out raw _ \<longleftrightarrow> False"

fun exchanges :: "string \<Rightarrow> (draw \<times> identity_call) \<times> identity_reply result \<Rightarrow> bool" where
  "exchanges raw ((d, RefreshTokens t), Inr r) \<longleftrightarrow> t = raw"
| "exchanges raw _ \<longleftrightarrow> False"

lemma hands_out_AuthReply [simp]: "hands_out raw (c, replying AuthReply r) = hands raw r"
  by (cases r) (simp_all add: replying_def hands_def)

definition tables_ok :: "identity_world \<Rightarrow> bool" where
  "tables_ok w \<longleftrightarrow> identity_db_ok (iw_db w)"

lemma step_tables_ok: "tables_ok w \<Longrightarrow> tables_ok (snd (identity_step env c w))"
  by (simp add: tables_ok_def identity_step_def rpc_tables_ok)


lemma fst_on_db [simp]: "fst (on_db f op w) = replying f (fst (op (iw_db w)))"
  by (simp add: on_db_def split_beta)

lemma replying_Inr: "replying f r = Inr x \<longleftrightarrow> (\<exists>y. r = Inr y \<and> x = f y)"
  by (cases r) (auto simp: replying_def)

lemma verifySiwe_account:
  assumes "argon2_laws env" and "identity_db_ok (iw_db w)"
  shows "exchangeable env raw (iw_db (snd (verifySiwe env d m s w))) \<le>
    of_bool (hands raw (fst (verifySiwe env d m s w))) + exchangeable env raw (iw_db w)"
proof (cases "m = [] \<or> s = [] \<or> (\<exists>e. siwe_claim env (clock d) m = Inl e)")
  case True
  then show ?thesis by (auto simp: verifySiwe_def)
next
  case False
  then obtain a n where cl: "siwe_claim env (clock d) m = Inr (a, n)"
    by (cases "siwe_claim env (clock d) m") auto
  obtain r store where co: "consumeNonce env d a n (iw_nonces w) = (r, store)" by fastforce
  show ?thesis
  proof (cases "r = Inr True \<and> verifyMessage env a m s = Some True")
    case True
    with False have "verifySiwe env d m s w =
        (fst (login_wallet env d a (iw_db w)), w\<lparr>iw_nonces := store, iw_db := snd (login_wallet env d a (iw_db w))\<rparr>)"
      by (simp add: verifySiwe_def cl co split_beta)
    then show ?thesis using login_account [OF assms, of raw d a] by simp
  next
    case no: False
    with False have "iw_db (snd (verifySiwe env d m s w)) = iw_db w"
      by (auto simp: verifySiwe_def cl co split_beta split: sum.split bool.split)
    then show ?thesis by simp
  qed
qed

lemma session_step_account:
  assumes laws: "argon2_laws env" "query_laws env" and "tables_ok w"
  shows "of_bool (exchanges raw (c, fst (identity_step env c w))) + exchangeable env raw (iw_db (snd (identity_step env c w)))
     \<le> of_bool (hands_out raw (c, fst (identity_step env c w))) + exchangeable env raw (iw_db w)"
proof -
  obtain d call where c: "c = (d, call)" by fastforce
  have ok: "identity_db_ok (iw_db w)" using assms(3) by (simp add: tables_ok_def)
  show ?thesis
  proof (cases call)
    case (VerifySiwe m s)
    then show ?thesis using verifySiwe_account [OF laws(1) ok, of raw d m s]
      by (simp add: c identity_step_def split_beta)
  next
    case (RefreshTokens t)
    have "exchanges raw (c, fst (identity_step env c w)) \<longleftrightarrow>
        t = raw \<and> (\<exists>a. fst (refreshTokens_call env d t (iw_db w)) = Inr a)"
      by (cases "fst (refreshTokens_call env d t (iw_db w))") (auto simp: c RefreshTokens identity_step_def replying_def)
    then show ?thesis using refresh_account [OF laws, of t raw d "iw_db w"]
      by (simp add: c RefreshTokens identity_step_def)
  next
    case (Logout t u)
    have "exchangeable env raw (snd (logout env t u (iw_db w))) \<le> exchangeable env raw (iw_db w)"
      by (simp add: logout_def revokeToken_def Let_def exchangeable_revoke split: sum.split option.split)
    then show ?thesis by (simp add: c Logout identity_step_def)
  next
    case (SandboxLogin a r)
    then show ?thesis using sandbox_account [OF laws(1) ok, of raw d a r] by (simp add: c identity_step_def)
  next
    case (UpdateUserRole i r)
    have "refreshTokens (snd (updateUserRole d i r (iw_db w))) = refreshTokens (iw_db w)"
      using updateRole_ok(2) [OF ok] by (simp add: updateUserRole_def split_beta split: option.split sum.split)
    then show ?thesis
      using exchangeable_same [of "snd (updateUserRole d i r (iw_db w))" "iw_db w" env raw]
      by (simp add: c UpdateUserRole identity_step_def)
  qed (simp_all add: c identity_step_def split_beta)
qed

text \<open>An environment that obeys the laws; the interpretation is for every one of them.\<close>

definition lawful :: "identity_env \<Rightarrow> bool" where
  "lawful env \<longleftrightarrow> argon2_laws env \<and> query_laws env"

interpretation session_permits:
  permits "identity_step env" "\<lambda>w. lawful env \<and> tables_ok w" "\<lambda>w. exchangeable env raw (iw_db w)"
    "hands_out raw" "exchanges raw" for env raw
proof (unfold_locales, goal_cases)
  case (1 s c)
  then show ?case by (simp add: step_tables_ok)
next
  case (2 s c)
  then show ?case unfolding lawful_def by (blast intro: session_step_account)
qed

text \<open>
  C22: a refresh token is exchanged at most once for each time it was handed out. Over any sequence of
  calls, from any well-formed state in which the token \<open>raw\<close> is not yet exchangeable, the successful
  \<open>RefreshTokens\<close> calls with \<open>raw\<close> are at most the replies that contained \<open>raw\<close> as a new refresh
  token; an intercepted token that its owner has already exchanged is worth nothing.
\<close>

theorem refresh_token_exchanged_once:
  assumes "argon2_laws env" and "query_laws env" and "identity_db_ok (iw_db w)"
    and "exchangeable env raw (iw_db w) = 0"
  shows "times (exchanges raw) (fst (identity_run env cs w)) \<le> times (hands_out raw) (fst (identity_run env cs w))"
  unfolding identity_run_def
  by (rule session_permits.used_at_most_granted) (use assms in \<open>simp_all add: lawful_def tables_ok_def\<close>)

text \<open>
  C23: the reuse of a revoked token ends every session of its user. If the record \<open>r\<close> that \<open>raw\<close>
  matches is revoked, \<open>RefreshTokens\<close> is answered with \<open>TOKEN_REUSE_DETECTED\<close>, exactly the tokens of
  that user are revoked, and in every later run no token whose records all belong to the user is
  exchanged more often than it is handed out anew.
\<close>

theorem token_reuse_ends_sessions:
  assumes laws: "argon2_laws env" "query_laws env" and ok: "identity_db_ok (iw_db w)" and "raw \<noteq> []"
    and m: "match_token env raw (rowOrder env (refreshTokens (iw_db w))) = Inr (Some r)" and "isRevoked r"
    and st: "identity_rpc env d (RefreshTokens raw) w = (res, w1)"
  shows "res = Inl (UnauthorizedException ''TOKEN_REUSE_DETECTED'') \<and> users (iw_db w1) = users (iw_db w) \<and>
    refreshTokens (iw_db w1) =
      map (\<lambda>t. if rt_userId t = rt_userId r then t\<lparr>isRevoked := True\<rparr> else t) (refreshTokens (iw_db w)) \<and>
    (\<forall>raw'. (\<forall>t \<in> set (refreshTokens (iw_db w)). matches env raw' t \<longrightarrow> rt_userId t = rt_userId r) \<longrightarrow>
       times (exchanges raw') (fst (identity_run env cs w1)) \<le> times (hands_out raw') (fst (identity_run env cs w1)))"
proof (intro conjI allI impI)
  have rc: "rotate_check env (clock d) raw (iw_db w) =
      (Inl (UnauthorizedException ''TOKEN_REUSE_DETECTED''), revokeAllUserTokens (rt_userId r) (iw_db w))"
    using assms by (simp add: rotate_check_def)
  then have eq: "res = Inl (UnauthorizedException ''TOKEN_REUSE_DETECTED'')"
      "iw_db w1 = revokeAllUserTokens (rt_userId r) (iw_db w)"
    using st by (auto simp: on_db_def refreshTokens_call_def rotateTokens_def replying_def)
  then show "res = Inl (UnauthorizedException ''TOKEN_REUSE_DETECTED'')" "users (iw_db w1) = users (iw_db w)"
      and rows: "refreshTokens (iw_db w1) =
        map (\<lambda>t. if rt_userId t = rt_userId r then t\<lparr>isRevoked := True\<rparr> else t) (refreshTokens (iw_db w))"
    by (simp_all add: revokeAllUserTokens_def revoke_where_def update_rows_def)
  have ok1: "identity_db_ok (iw_db w1)" using eq(2) ok by (simp add: revokeAllUserTokens_def revoke_where_ok)
  fix raw'
  assume own: "\<forall>t \<in> set (refreshTokens (iw_db w)). matches env raw' t \<longrightarrow> rt_userId t = rt_userId r"
  have "exchangeable env raw' (iw_db w1) = 0"
    using own by (auto simp: exchangeable_def rows filter_empty_conv matches_def split: if_splits)
  then show "times (exchanges raw') (fst (identity_run env cs w1)) \<le> times (hands_out raw') (fst (identity_run env cs w1))"
    unfolding identity_run_def
    by (intro session_permits.used_at_most_granted) (use laws ok1 in \<open>simp_all add: lawful_def tables_ok_def\<close>)
qed

section \<open>Access tokens\<close>

text \<open>A signed payload verifies under the same secret until it expires.\<close>

definition jwt_laws :: "identity_env \<Rightarrow> bool" where
  "jwt_laws env \<longleftrightarrow>
     (\<forall>p seconds s t t'. verifyAsync env (signAsync env p seconds s t) s t' =
        (if t' < t + seconds * 1000 then Some p else None))"

text \<open>Every reply with tokens comes out of \<open>generateTokens\<close>.\<close>

lemma issue_session_reply:
  assumes "fst (issue_session env d u db) = Inr resp"
  shows "\<exists>tokens u agent ip db db'. generateTokens env d u agent ip db = (Inr tokens, db') \<and> resp = mapToAuthResponse tokens u"
proof (cases "generateTokens env d u None None db")
  case (Pair r db')
  then obtain tokens where "r = Inr tokens" "resp = mapToAuthResponse tokens u"
    using assms by (cases r) (auto simp: issue_session_def)
  with Pair show ?thesis by blast
qed

lemma login_wallet_reply:
  "fst (login_wallet env d a db) = Inr resp \<Longrightarrow> \<exists>u db1. fst (issue_session env d u db1) = Inr resp"
  by (auto simp: login_wallet_def split: sum.splits prod.splits)

lemma sandboxLogin_reply:
  "fst (sandboxLogin env d a r db) = Inr resp \<Longrightarrow> \<exists>u db1. fst (issue_session env d u db1) = Inr resp"
  by (auto simp: sandboxLogin_def split: sum.splits prod.splits)

lemma verifySiwe_reply:
  assumes "fst (verifySiwe env d m s w) = Inr resp"
  shows "\<exists>a. fst (login_wallet env d a (iw_db w)) = Inr resp"
  using assms by (auto simp: verifySiwe_def split: if_splits sum.splits prod.splits bool.splits) (metis fst_conv)+

lemma refreshTokens_reply:
  assumes "fst (refreshTokens_call env d raw db) = Inr resp"
  shows "\<exists>tokens u agent ip db db'. generateTokens env d u agent ip db = (Inr tokens, db') \<and> resp = mapToAuthResponse tokens u"
proof -
  obtain tokens u db' where ro: "rotateTokens env d raw db = (Inr (tokens, u), db')" and resp: "resp = mapToAuthResponse tokens u"
    using assms by (auto simp: refreshTokens_call_def split: sum.splits prod.splits)
  obtain agent ip db1 where "generateTokens env d u agent ip db1 = (Inr tokens, db')"
    using ro by (auto simp: rotateTokens_def rotate_issue_def split: sum.splits prod.splits)
  with resp show ?thesis by blast
qed

lemma auth_reply_generated:
  assumes "identity_rpc env d c w = (Inr (AuthReply resp), w')"
  shows "\<exists>tokens u agent ip db db'. generateTokens env d u agent ip db = (Inr tokens, db') \<and> resp = mapToAuthResponse tokens u"
proof -
  have "fst (identity_rpc env d c w) = Inr (AuthReply resp)" using assms by simp
  then show ?thesis
  proof (cases c)
    case (VerifySiwe m s)
    then have "fst (verifySiwe env d m s w) = Inr resp"
      using assms by (auto simp: replying_Inr split_beta)
    then obtain u db1 where "fst (issue_session env d u db1) = Inr resp"
      using verifySiwe_reply login_wallet_reply by metis
    then show ?thesis by (rule issue_session_reply)
  next
    case (RefreshTokens raw)
    then have "fst (refreshTokens_call env d raw (iw_db w)) = Inr resp"
      using assms by (auto simp: on_db_def replying_Inr split_beta)
    then show ?thesis by (rule refreshTokens_reply)
  next
    case (SandboxLogin a r)
    then have "fst (sandboxLogin env d a r (iw_db w)) = Inr resp"
      using assms by (auto simp: on_db_def replying_Inr split_beta)
    then obtain u db1 where "fst (issue_session env d u db1) = Inr resp"
      using sandboxLogin_reply by metis
    then show ?thesis by (rule issue_session_reply)
  qed (auto simp: replying_Inr split_beta)
qed

text \<open>
  An access token validates as its user for fifteen minutes, and no longer. Whichever call handed
  it out (a login, an exchange, the sandbox), it names the user of that reply until 900 seconds
  after the call; from then on \<open>ValidateToken\<close> answers that it is invalid and names nobody.
\<close>

theorem access_token_validates:
  assumes "jwt_laws env" and "identity_rpc env d c w = (Inr (AuthReply resp), w')"
  shows "validateToken env t (ar_accessToken resp) =
    (if t < clock d + 900 * 1000
     then \<lparr>isValid = True, vr_userId = ur_id (ar_user resp), vr_walletAddress = ur_walletAddress (ar_user resp),
           vr_role = ur_role (ar_user resp)\<rparr>
     else \<lparr>isValid = False, vr_userId = [], vr_walletAddress = [], vr_role = []\<rparr>)"
proof -
  obtain tokens u agent ip db db' where ge: "generateTokens env d u agent ip db = (Inr tokens, db')"
      and resp: "resp = mapToAuthResponse tokens u"
    using auth_reply_generated [OF assms(2)] by blast
  have "accessToken tokens = signAsync env (user_payload u) 900 (jwtSecret env) (clock d)"
    using generateTokens_Inr(2) [OF ge] by simp
  then show ?thesis using assms(1)
    by (simp add: validateToken_def verifyAccessToken_def jwt_laws_def resp mapToAuthResponse_def mapToUserResponse_def
        user_payload_def)
qed

section \<open>Concurrent calls\<close>

text \<open>
  C24: a lost race of two first logins goes unnoticed. Whatever older state of the users table the
  lookup of \<open>findOrCreateByWalletAddress\<close> has seen, its result is that of a single atomic step on
  the table the insert meets: the user registered meanwhile is found, and none is created twice.
\<close>

theorem first_login_race_is_atomic:
  assumes "users db = users seen @ added"
  shows "findOrCreateByWalletAddress d wallet r seen db = findOrCreateByWalletAddress d wallet r db db"
proof (cases "findByWalletAddress wallet seen")
  case (Some u)
  then show ?thesis using assms(1) by (simp add: findOrCreateByWalletAddress_def findByWalletAddress_def find_append)
next
  case None
  show ?thesis
  proof (cases "findByWalletAddress wallet db")
    case (Some u)
    then have "wallet \<in> walletAddress ` set (users db)" by (auto simp: findByWalletAddress_def)
    then have "\<exists>e. createUser d wallet r db = Inl e" by (simp add: createUser_def)
    then show ?thesis using None Some by (auto simp: findOrCreateByWalletAddress_def)
  next
    case db: None
    then show ?thesis using None by (simp add: findOrCreateByWalletAddress_def)
  qed
qed

text \<open>
  The three steps of a rotation are not one transaction: a second call that has read the record
  before the first one revoked it gets a session of its own, and the reuse goes undetected.
\<close>

theorem concurrent_rotation_forks_session:
  assumes c1: "rotate_check env t1 raw db = (Inr r, db)" and c2: "rotate_check env t2 raw db = (Inr r, db)"
    and i1: "rotate_issue env d1 r (rotate_revoke r db) = (Inr s1, db1)"
    and fresh: "newTokenId d2 \<notin> rt_id ` set (refreshTokens db1)"
  shows "\<exists>s2 db2. rotate_issue env d2 r (rotate_revoke r db1) = (Inr s2, db2)"
proof -
  obtain u where u: "findById_user (rt_userId r) (rotate_revoke r db) = Inr u"
    using i1 by (auto simp: rotate_issue_def split: sum.splits)
  obtain t where g1: "generateTokens env d1 u (non_empty (userAgent r)) (non_empty (ipAddress r)) (rotate_revoke r db) = (Inr t, db1)"
    using i1 u by (auto simp: rotate_issue_def split: sum.splits prod.splits)
  have same: "users db1 = users db" using generateTokens_Inr(1) [OF g1] by (simp add: rotate_revoke_def)
  then have u2: "findById_user (rt_userId r) (rotate_revoke r db1) = Inr u"
    using u by (simp add: findById_user_def findUserById_def rotate_revoke_def)
  have fits: "\<not> too_long 255 (non_empty (userAgent r))" "\<not> too_long 45 (non_empty (ipAddress r))" "usr_id u \<in> usr_id ` set (users db)"
    using g1 by (auto simp: generateTokens_def insertRefreshToken_def new_refresh_token_def rotate_revoke_def
        split: sum.splits if_splits)
  have "newTokenId d2 \<notin> rt_id ` set (refreshTokens (rotate_revoke r db1))"
    using fresh by (simp add: rotate_revoke_def ids_revoke_where)
  then have "\<exists>db2. insertRefreshToken (new_refresh_token env d2 u (non_empty (userAgent r)) (non_empty (ipAddress r)))
      (rotate_revoke r db1) = Inr db2"
    using fits same by (simp add: insertRefreshToken_def new_refresh_token_def rotate_revoke_def)
  then show ?thesis by (auto simp: rotate_issue_def u2 generateTokens_def)
qed

end
