(* ===== verification/Ws_Flow.thy ===== *)
theory Ws_Flow
  imports Ws_Props Identity_Sessions
begin

text \<open>
  The websocket gateway together with what it is connected to: a session of the identity service
  opens the private stream of its user, a subscribed client gets its updates, and the rate limit.
\<close>

section \<open>From a session to the stream\<close>

text \<open>The claims of an access token, as the gateway's JWT library reads them with the shared secret.\<close>

definition claims_of :: "jwt_payload \<Rightarrow> ws_claims" where
  "claims_of p = \<lparr>cl_sub = Some (jwt_sub p), cl_walletAddress = Some (jwt_walletAddress p),
                 cl_role = Some (role_text (jwt_role p))\<rparr>"

definition gateway_verify :: "identity_env \<Rightarrow> time \<Rightarrow> string \<Rightarrow> ws_claims option" where
  "gateway_verify env now token = map_option claims_of (verifyAsync env token (jwtSecret env) now)"

text \<open>
  The access token of a session authenticates the websocket of its user. A handshake that
  carries the access token of any reply of the identity service, within fifteen minutes of the
  call, yields a socket of exactly the user of that reply; later it yields an anonymous one.
\<close>

theorem session_authenticates_socket:
  assumes "jwt_laws env" and "identity_rpc env d c w = (Inr (AuthReply resp), w')"
    and "handshake_token h = Inr (ar_accessToken resp)" and "ar_accessToken resp \<noteq> []"
    and "ur_id (ar_user resp) \<noteq> []" and "ur_walletAddress (ar_user resp) \<noteq> []"
  shows "\<exists>r. role_text r = ur_role (ar_user resp) \<and>
    user_of (handleConnection (gateway_verify env now) s h g) s =
      Some (if now < clock d + 900 * 1000
            then Some \<lparr>wu_userId = ur_id (ar_user resp), wu_walletAddress = ur_walletAddress (ar_user resp), wu_role = r\<rparr>
            else None)"
proof -
  obtain tokens u agent ip db db' where ge: "generateTokens env d u agent ip db = (Inr tokens, db')"
      and resp: "resp = mapToAuthResponse tokens u"
    using auth_reply_generated [OF assms(2)] by blast
  have token: "ar_accessToken resp = signAsync env (user_payload u) 900 (jwtSecret env) (clock d)"
    using generateTokens_Inr(2) [OF ge] by (simp add: resp mapToAuthResponse_def)
  have "gateway_verify env now (ar_accessToken resp) =
      (if now < clock d + 900 * 1000 then Some (claims_of (user_payload u)) else None)"
    using assms(1) by (simp add: gateway_verify_def token jwt_laws_def)
  moreover have "claims_user (claims_of (user_payload u)) =
      Some \<lparr>wu_userId = usr_id u, wu_walletAddress = walletAddress u, wu_role = role u\<rparr>"
    using assms(5,6) by (simp add: claims_user_def claims_of_def user_payload_def resp mapToAuthResponse_def mapToUserResponse_def)
  ultimately have "user_of (handleConnection (gateway_verify env now) s h g) s =
      Some (if now < clock d + 900 * 1000
            then Some \<lparr>wu_userId = usr_id u, wu_walletAddress = walletAddress u, wu_role = role u\<rparr> else None)"
    using assms(3,4) by (simp add: handleConnection_def user_of_def Let_def extractAndVerifyWsToken_def)
  then show ?thesis by (auto simp: resp mapToAuthResponse_def mapToUserResponse_def)
qed

lemma rate_passed:
  assumes "checkRateLimit now s = (True, s1)"
  shows "sk_user s1 = sk_user s" and "sk_open s1 = sk_open s" and "sk_out s1 = sk_out s" and "sk_buffered s1 = sk_buffered s"
  using assms unfolding checkRateLimit_def Let_def by (simp_all split: if_split_asm) auto

text \<open>
  C27: a subscriber gets the updates of its own stream. In every reachable state, an authenticated
  client within its rate limit that subscribes to its orders or transfers is acknowledged, and the
  next message published for it there is delivered right after, unless its send buffer has
  overflown.
\<close>

theorem subscriber_gets_own_updates:
  assumes "gateway_reachable verify g" and s: "gw_sockets g c = Some s" "sk_open s" "sk_user s = Some u"
    and rate: "fst (checkRateLimit now s)" and ch: "channel = userOrders \<or> channel = userTransfers"
    and slow: "sk_buffered s \<le> MAX_WS_BUFFER_SIZE_BYTES"
  shows "\<exists>s'. gw_sockets (onPubSubMessage (getUserPrivateRoom (wu_userId u) (private_topic channel)) m
      (handleSubscribe now c (Some channel) g)) c = Some s' \<and>
    sk_out s' = sk_out s @ [WsAck ''subscribed'' channel now, m]"
proof -
  let ?room = "getUserPrivateRoom (wu_userId u) (private_topic channel)"
  let ?g1 = "handleSubscribe now c (Some channel) g"
  obtain s1 where r: "checkRateLimit now s = (True, s1)"
    using rate by (cases "checkRateLimit now s") auto
  have s1: "sk_user s1 = Some u" "sk_open s1" "sk_out s1 = sk_out s" "sk_buffered s1 = sk_buffered s"
    using rate_passed [OF r] s by simp_all
  have valid: "isValidChannel channel" using ch own_channels_valid by blast
  have g1: "?g1 = on_socket c (sock_send (WsAck ''subscribed'' channel now))
      ((set_socket c s1 g)\<lparr>gw_rooms := join_room c ?room (gw_rooms g)\<rparr>)"
    using ch by (simp add: handleSubscribe_def guarded_def s(1) r valid subscribe_channel_def s1(1))
  have sock: "gw_sockets ?g1 c = Some (s1\<lparr>sk_out := sk_out s @ [WsAck ''subscribed'' channel now]\<rparr>)"
    by (simp add: g1 on_socket_def set_socket_def sock_send_def s1)
  have rooms: "gw_rooms ?g1 = join_room c ?room (gw_rooms g)" by (simp add: g1)
  have "rooms_ok (gw_rooms ?g1)"
    using gateway_reachable_ok [OF assms(1)] by (simp add: rooms gateway_ok_def join_room_ok)
  moreover have "starts_with ''user:'' ?room" by (simp add: starts_with_def getUserPrivateRoom_def)
  ultimately have "gw_sockets (onPubSubMessage ?room m ?g1) c = map_option (broadcast_one m) (gw_sockets ?g1 c)"
    by (simp add: onPubSubMessage_def broadcast_sockets rooms)
  then show ?thesis using slow by (simp add: sock broadcast_one_def sock_send_def s1)
qed

section \<open>The rate limit\<close>

fun rate_run :: "time list \<Rightarrow> ws_socket \<Rightarrow> nat \<times> ws_socket" where
  "rate_run [] s = (0, s)"
| "rate_run (t # ts) s =
     (case checkRateLimit t s of (b, s1) \<Rightarrow> (case rate_run ts s1 of (n, s2) \<Rightarrow> (of_bool b + n, s2)))"

definition window_started :: "ws_socket \<Rightarrow> bool" where
  "window_started s \<longleftrightarrow> sk_window s = None \<or> (1 \<le> sk_count s \<and> sk_window s \<noteq> Some 0)"

lemma sock_send_window [simp]: "sk_window (sock_send m s) = sk_window s" "sk_count (sock_send m s) = sk_count s"
  by (simp_all add: sock_send_def)

lemma rate_started: "window_started s \<Longrightarrow> window_started (snd (checkRateLimit t s))"
  by (auto simp: window_started_def checkRateLimit_def Let_def split: option.splits)

lemma rate_run_started: "window_started s \<Longrightarrow> window_started (snd (rate_run ts s))"
  by (induction ts arbitrary: s) (auto simp: split_beta dest: rate_started)

lemma rate_in_window:
  assumes "sk_window s = Some r" and "r \<noteq> 0" and "\<forall>t \<in> set ts. t \<le> r"
  shows "fst (rate_run ts s) \<le> RATE_LIMIT - sk_count s"
  using assms
proof (induction ts arbitrary: s)
  case (Cons t ts)
  have st: "sk_window (snd (checkRateLimit t s)) = Some r" "sk_count (snd (checkRateLimit t s)) = sk_count s + 1"
      "fst (checkRateLimit t s) \<longleftrightarrow> sk_count s + 1 \<le> RATE_LIMIT"
    using Cons.prems by (auto simp: checkRateLimit_def Let_def)
  have "fst (rate_run ts (snd (checkRateLimit t s))) \<le> RATE_LIMIT - (sk_count s + 1)"
    using Cons.IH [OF st(1) Cons.prems(2)] Cons.prems(3) st(2) by simp
  then show ?case using st(3) by (auto simp: split_beta)
qed simp

lemma rate_any_window:
  assumes "\<forall>t \<in> set ts. a \<le> t \<and> t \<le> a + 1000" and "window_started s"
  shows "fst (rate_run ts s) \<le> (RATE_LIMIT - 1) + RATE_LIMIT \<and>
    (sk_window s \<noteq> None \<longrightarrow> fst (rate_run ts s) \<le> (RATE_LIMIT - sk_count s) + RATE_LIMIT)"
  using assms
proof (induction ts arbitrary: s)
  case Nil
  then show ?case by simp
next
  case (Cons t ts)
  have le: "a \<le> t" "t \<le> a + 1000" "\<forall>x \<in> set ts. a \<le> x \<and> x \<le> a + 1000" using Cons.prems(1) by auto
  show ?case
  proof (cases "sk_window s = None \<or> (\<exists>r. sk_window s = Some r \<and> (r = 0 \<or> r < t))")
    case True
    then have ch: "checkRateLimit t s = (True, s\<lparr>sk_window := Some (t + 1000), sk_count := 1\<rparr>)"
      by (auto simp: checkRateLimit_def)
    have "\<forall>x \<in> set ts. x \<le> t + 1000" using le by force
    then have "fst (rate_run ts (s\<lparr>sk_window := Some (t + 1000), sk_count := 1\<rparr>)) \<le> RATE_LIMIT - 1"
      using rate_in_window [of "s\<lparr>sk_window := Some (t + 1000), sk_count := 1\<rparr>" "t + 1000" ts] by simp
    then show ?thesis by (simp add: ch split_beta RATE_LIMIT_def)
  next
    case False
    then obtain r where r: "sk_window s = Some r" "r \<noteq> 0" "t \<le> r"
      by (cases "sk_window s") (simp_all add: not_less)
    have st: "sk_window (snd (checkRateLimit t s)) = Some r" "sk_count (snd (checkRateLimit t s)) = sk_count s + 1"
        "fst (checkRateLimit t s) \<longleftrightarrow> sk_count s + 1 \<le> RATE_LIMIT"
      using r by (auto simp: checkRateLimit_def Let_def)
    have "fst (rate_run ts (snd (checkRateLimit t s))) \<le> (RATE_LIMIT - (sk_count s + 1)) + RATE_LIMIT"
      using Cons.IH [OF le(3) rate_started [OF Cons.prems(2)], of t] st by simp
    moreover have "1 \<le> sk_count s" using Cons.prems(2) r by (auto simp: window_started_def)
    ultimately show ?thesis using st(3) by (auto simp: split_beta)
  qed
qed


end
