(* ===== verification/Identity_Demo.thy ===== *)
theory Identity_Demo
  imports Identity_Sessions
begin

text \<open>
  The identity service at concrete inputs: functions in the place of \<open>viem\<close>, \<open>argon2\<close> and the JWT
  library that obey the laws assumed of them, and the properties applied to a login and what
  follows it.
\<close>

section \<open>Codings\<close>

text \<open>
  Numbers and texts coded one after the other in a text, for the functions that stand for libraries
  at concrete inputs: whatever is put in is read back, with what follows it.
\<close>

definition put_nat :: "nat \<Rightarrow> string" where
  "put_nat n = replicate n (CHR ''1'') @ ''0''"

definition put_string :: "string \<Rightarrow> string" where
  "put_string s = put_nat (length s) @ s"

definition get_nat :: "string \<Rightarrow> nat \<times> string" where
  "get_nat s = (length (takeWhile (\<lambda>c. c = CHR ''1'') s), tl (dropWhile (\<lambda>c. c = CHR ''1'') s))"

definition get_string :: "string \<Rightarrow> string \<times> string" where
  "get_string s = (case get_nat s of (n, rest) \<Rightarrow> (take n rest, drop n rest))"

lemma get_put_nat [simp]: "get_nat (put_nat n @ rest) = (n, rest)"
proof -
  have "takeWhile (\<lambda>c. c = CHR ''1'') (replicate n (CHR ''1'') @ ''0'' @ rest) = replicate n (CHR ''1'')"
    and "dropWhile (\<lambda>c. c = CHR ''1'') (replicate n (CHR ''1'') @ ''0'' @ rest) = ''0'' @ rest"
    by (induction n) auto
  then show ?thesis by (simp add: get_nat_def put_nat_def)
qed

lemma get_put_string [simp]: "get_string (put_string s @ rest) = (s, rest)"
  by (simp add: get_string_def put_string_def)

fun put_list :: "string list \<Rightarrow> string" where
  "put_list [] = []"
| "put_list (w # ws) = put_string w @ put_list ws"

primrec get_list :: "nat \<Rightarrow> string \<Rightarrow> string list \<times> string" where
  "get_list 0 s = ([], s)"
| "get_list (Suc n) s = (case get_string s of (w, r) \<Rightarrow> (case get_list n r of (ws, r') \<Rightarrow> (w # ws, r')))"

lemma get_put_list [simp]: "get_list (length ws) (put_list ws @ rest) = (ws, rest)"
  by (induction ws) simp_all

lemma get_put_end [simp]:
  "get_nat (put_nat n) = (n, [])" "get_string (put_string s) = (s, [])" "get_list (length ws) (put_list ws) = (ws, [])"
  using get_put_nat [of n "[]"] get_put_string [of s "[]"] get_put_list [of ws "[]"] by simp_all

section \<open>An environment\<close>

definition demo_sign :: "jwt_payload \<Rightarrow> nat \<Rightarrow> string \<Rightarrow> time \<Rightarrow> string" where
  "demo_sign p seconds s t =
     put_string s @ put_nat (t + seconds * 1000) @ put_string (jwt_sub p) @ put_string (jwt_walletAddress p) @
     (case jwt_role p of TRADER \<Rightarrow> ''t'' | ADMIN \<Rightarrow> ''a'')"

definition demo_verify :: "string \<Rightarrow> string \<Rightarrow> time \<Rightarrow> jwt_payload option" where
  "demo_verify token s t =
     (case get_string token of (s', r1) \<Rightarrow> case get_nat r1 of (e, r2) \<Rightarrow>
      case get_string r2 of (i, r3) \<Rightarrow> case get_string r3 of (w, r4) \<Rightarrow>
        if s' = s \<and> t < e
        then Some \<lparr>jwt_sub = i, jwt_walletAddress = w, jwt_role = (if r4 = ''a'' then ADMIN else TRADER)\<rparr>
        else None)"

text \<open>A message is its wallet (four characters) and its nonce, the signature of a wallet its name.\<close>

definition demo_env :: identity_env where
  "demo_env = \<lparr>isAddress = (\<lambda>a. length a = 4), getAddress = js_toLowerCase,
     parseSiweMessage = (\<lambda>m. \<lparr>siwe_address = Some (take 4 m), siwe_nonce = Some (drop 4 m), siwe_expirationTime = None\<rparr>),
     verifyMessage = (\<lambda>a m s. Some (s = a)), argon2_hash = (\<lambda>s x. x), argon2_verify = (\<lambda>h x. Inr (h = x)),
     signAsync = demo_sign, verifyAsync = demo_verify, jwtSecret = ''k'', rowOrder = rev\<rparr>"

lemma demo_laws: "argon2_laws demo_env" "query_laws demo_env"
  by (simp_all add: argon2_laws_def query_laws_def demo_env_def)

lemma demo_jwt_laws: "jwt_laws demo_env"
proof -
  have "demo_verify (demo_sign p n s t) s t' = (if t' < t + n * 1000 then Some p else None)" for p n s t t'
    by (cases p; cases "jwt_role p") (simp_all add: demo_verify_def demo_sign_def)
  then show ?thesis by (simp add: jwt_laws_def demo_env_def)
qed

lemma lower_char_idem: "js_lower_char (js_lower_char c) = js_lower_char c"
proof (cases "65 \<le> (of_char c :: nat) \<and> (of_char c :: nat) \<le> 90")
  case True
  then have "(of_char c + 32 :: nat) < 256" by simp
  then have "(of_char (char_of (of_char c + 32 :: nat) :: char) :: nat) = of_char c + 32"
    by (simp add: of_char_of)
  with True show ?thesis by (simp add: js_lower_char_def)
next
  case False
  then have "js_lower_char c = c" by (auto simp: js_lower_char_def)
  then show ?thesis by simp
qed

lemma demo_address_laws: "address_laws demo_env"
  by (auto simp: address_laws_def demo_env_def js_toLowerCase_def lower_char_idem)

section \<open>A login and what follows\<close>

definition demo_draw :: "time \<Rightarrow> string \<Rightarrow> draw" where
  "demo_draw t x = \<lparr>clock = t, newUserId = ''u'' @ x, newTokenId = ''t'' @ x, newNonce = ''n'' @ x,
     rawToken = ''r'' @ x, salt = [], valkey = Replied\<rparr>"

lemmas nonce_defs = generateNonce_def consumeNonce_def setNonce_def getAndDelNonce_def nonce_key_def
  DEFAULT_NONCE_TTL_SECONDS_def normalizeAddress_def live_def

lemmas login_defs = verifySiwe_def siwe_claim_def non_empty_def login_wallet_def findOrCreate_user_def
  findOrCreateByWalletAddress_def findByWalletAddress_def createUser_def issue_session_def generateTokens_def
  insertRefreshToken_def new_refresh_token_def too_long_def REFRESH_TOKEN_EXPIRATION_DAYS_def
  ACCESS_TOKEN_EXPIRATION_SECONDS_def Let_def

lemmas rotate_defs = refreshTokens_call_def rotateTokens_def rotate_check_def rotate_revoke_def rotate_issue_def
  revoke_where_def revokeAllUserTokens_def findById_user_def findUserById_def update_rows_def

lemma demo_lower: "js_toLowerCase ''0xAB'' = ''0xab''" "js_toLowerCase ''0xab'' = ''0xab''"
  by code_simp+

lemmas demo_defs = demo_draw_def demo_env_def demo_lower identity_step_def

definition demo_user :: user where
  "demo_user = \<lparr>usr_id = ''u2'', walletAddress = ''0xab'', role = TRADER, usr_isActive = True, usr_createdAt = 1, usr_updatedAt = 1\<rparr>"

definition demo_token :: refresh_token where
  "demo_token = \<lparr>rt_id = ''t2'', rt_userId = ''u2'', tokenHash = ''r2'', userAgent = None, ipAddress = None,
     isRevoked = False, expiresAt = 604800001, rt_createdAt = 1\<rparr>"

definition nonce_world :: identity_world where
  "nonce_world = empty_identity\<lparr>iw_nonces := (iw_nonces empty_identity)(''siwe:nonce:0xab'' \<mapsto> (''n1'', 300000))\<rparr>"

definition login_world :: identity_world where
  "login_world = \<lparr>iw_db = \<lparr>users = [demo_user], refreshTokens = [demo_token]\<rparr>, iw_nonces = (\<lambda>_. None)\<rparr>"

lemma demo_nonce:
  "identity_rpc demo_env (demo_draw 0 ''1'') (GetNonce ''0xAB'') empty_identity =
     (Inr (NonceReply ''n1'' 300), nonce_world)"
  by (simp add: demo_defs nonce_defs replying_def nonce_world_def)

definition demo_login_reply :: auth_response where
  "demo_login_reply = mapToAuthResponse
     \<lparr>accessToken = demo_sign (user_payload demo_user) 900 ''k'' 1, refreshToken = ''r2'', expiresIn = 900\<rparr> demo_user"

lemma demo_login:
  "verifySiwe demo_env (demo_draw 1 ''2'') ''0xABn1'' ''0xab'' nonce_world = (Inr demo_login_reply, login_world)"
  by (simp add: demo_defs nonce_defs login_defs demo_login_reply_def login_world_def nonce_world_def empty_identity_def
      demo_user_def demo_token_def fun_eq_iff)

lemma nonce_world_ok: "identity_db_ok (iw_db nonce_world)"
  by (simp add: nonce_world_def empty_identity_def identity_db_ok_def)

theorem siwe_login_needs_signature_witness:
  "\<exists>wallet n u. siwe_claim demo_env 1 ''0xABn1'' = Inr (wallet, n) \<and>
    live (iw_nonces nonce_world) 1 (nonce_key wallet) = Some n \<and> verifyMessage demo_env wallet ''0xABn1'' ''0xab'' = Some True \<and>
    findByWalletAddress wallet (iw_db login_world) = Some u \<and> ur_id (ar_user demo_login_reply) = usr_id u"
  using siwe_login_needs_signature [OF demo_login demo_address_laws nonce_world_ok]
  by (auto simp: demo_draw_def)

theorem refresh_token_exchanged_once_witness:
  "times (exchanges ''r2'') (fst (identity_run demo_env
      [(demo_draw 1 ''2'', VerifySiwe ''0xABn1'' ''0xab''), (demo_draw 3 ''4'', RefreshTokens ''r2''),
       (demo_draw 4 ''5'', RefreshTokens ''r2'')] nonce_world)) \<le>
    times (hands_out ''r2'') (fst (identity_run demo_env
      [(demo_draw 1 ''2'', VerifySiwe ''0xABn1'' ''0xab''), (demo_draw 3 ''4'', RefreshTokens ''r2''),
       (demo_draw 4 ''5'', RefreshTokens ''r2'')] nonce_world))"
  by (rule refresh_token_exchanged_once [OF demo_laws nonce_world_ok])
    (simp add: exchangeable_def nonce_world_def empty_identity_def)

text \<open>The session of the login after its token was exchanged for \<open>r4\<close>.\<close>

definition exchanged_world :: identity_world where
  "exchanged_world = login_world\<lparr>iw_db := \<lparr>users = [demo_user],
     refreshTokens = [demo_token\<lparr>isRevoked := True\<rparr>,
       demo_token\<lparr>rt_id := ''t4'', tokenHash := ''r4'', expiresAt := 604800003, rt_createdAt := 3\<rparr>]\<rparr>\<rparr>"

lemma demo_rotation:
  "snd (identity_rpc demo_env (demo_draw 3 ''4'') (RefreshTokens ''r2'') login_world) = exchanged_world"
  by (simp add: demo_defs login_defs rotate_defs on_db_def login_world_def demo_user_def demo_token_def exchanged_world_def)

lemma exchanged_world_ok: "identity_db_ok (iw_db exchanged_world)"
  by (simp add: exchanged_world_def identity_db_ok_def demo_token_def demo_user_def)

theorem token_reuse_ends_sessions_witness:
  "times (exchanges ''r4'') (fst (identity_run demo_env [(demo_draw 5 ''6'', RefreshTokens ''r4'')]
      (snd (identity_rpc demo_env (demo_draw 4 ''5'') (RefreshTokens ''r2'') exchanged_world)))) \<le>
   times (hands_out ''r4'') (fst (identity_run demo_env [(demo_draw 5 ''6'', RefreshTokens ''r4'')]
      (snd (identity_rpc demo_env (demo_draw 4 ''5'') (RefreshTokens ''r2'') exchanged_world))))"
proof -
  have m: "match_token demo_env ''r2'' (rowOrder demo_env (refreshTokens (iw_db exchanged_world)))
      = Inr (Some (demo_token\<lparr>isRevoked := True\<rparr>))"
    by (simp add: exchanged_world_def demo_env_def demo_token_def)
  have "\<forall>t \<in> set (refreshTokens (iw_db exchanged_world)). matches demo_env ''r4'' t \<longrightarrow>
      rt_userId t = rt_userId (demo_token\<lparr>isRevoked := True\<rparr>)"
    by (simp add: exchanged_world_def)
  with token_reuse_ends_sessions [OF demo_laws exchanged_world_ok _ m _ surjective_pairing, of "demo_draw 4 ''5''"]
  show ?thesis by simp
qed

theorem access_token_validates_witness:
  "validateToken demo_env 899000 (ar_accessToken demo_login_reply) =
     \<lparr>isValid = True, vr_userId = ''u2'', vr_walletAddress = ''0xab'', vr_role = ''trader''\<rparr>"
proof -
  have "identity_rpc demo_env (demo_draw 1 ''2'') (VerifySiwe ''0xABn1'' ''0xab'') nonce_world =
      (Inr (AuthReply demo_login_reply), login_world)"
    using demo_login by (simp add: replying_def)
  from access_token_validates [OF demo_jwt_laws this, of 899000] show ?thesis
    by (simp add: demo_draw_def demo_login_reply_def mapToAuthResponse_def mapToUserResponse_def demo_user_def)
qed

theorem first_login_race_is_atomic_witness:
  "findOrCreateByWalletAddress (demo_draw 9 ''9'') ''0xab'' TRADER \<lparr>users = [], refreshTokens = []\<rparr> (iw_db login_world) =
     (Inr (demo_user, False), iw_db login_world)"
proof -
  have "users (iw_db login_world) = users \<lparr>users = [], refreshTokens = []\<rparr> @ [demo_user]"
    by (simp add: login_world_def)
  from first_login_race_is_atomic [OF this] show ?thesis
    by (simp add: login_world_def findOrCreateByWalletAddress_def findByWalletAddress_def demo_user_def)
qed

end
