(* ===== verification/Error_Filters.thy ===== *)
theory Error_Filters
  imports Kafka
begin

text \<open>
  How an error travels from a service to the client: the filter of the gRPC services
  (\<open>libs/common/src/filters/grpc-exception.filter.ts\<close>), the one of the gateway
  (\<open>http-exception.filter.ts\<close>) and the details they exchange (\<open>utils/error.utils.ts\<close>). The JSON text
  of the details, the names of the HTTP statuses and what the gRPC transport makes of a status code
  are arguments of the model; spans and logs are left out.
\<close>

section \<open>Details\<close>

datatype err_message = OneText string | Texts "string list"

record error_details =
  ed_message :: err_message
  ed_errorCode :: "string option"

text \<open>
  A parsed JSON value as \<open>parseErrorDetails\<close> looks at it: no object, or an object with the fields
  \<open>message\<close> and \<open>errorCode\<close> (the latter where it is a text).
\<close>

datatype parsed_json = NoObject | JsonObject "err_message option" "string option"

record filter_env =
  json_stringify :: "error_details \<Rightarrow> string"
  json_parse :: "string \<Rightarrow> parsed_json option"
  status_name :: "nat \<Rightarrow> string option"
  wire_code :: "int \<Rightarrow> int"
  is_production :: bool

definition extractErrorCode :: "string option \<Rightarrow> string option" where
  "extractErrorCode c = (if c = Some [] then None else c)"

definition serializeErrorDetails :: "filter_env \<Rightarrow> err_message \<Rightarrow> string option \<Rightarrow> string" where
  "serializeErrorDetails env m c = json_stringify env \<lparr>ed_message = m, ed_errorCode = extractErrorCode c\<rparr>"

definition parseErrorDetails :: "filter_env \<Rightarrow> string \<Rightarrow> error_details option" where
  "parseErrorDetails env details =
     (case json_parse env details of
        Some (JsonObject (Some m) c) \<Rightarrow> Some \<lparr>ed_message = m, ed_errorCode = c\<rparr>
      | _ \<Rightarrow> None)"

fun join_text :: "string \<Rightarrow> string list \<Rightarrow> string" where
  "join_text sep [] = []"
| "join_text sep [w] = w"
| "join_text sep (w # ws) = w @ sep @ join_text sep ws"

fun message_text :: "err_message \<Rightarrow> string" where
  "message_text (OneText s) = s"
| "message_text (Texts ws) = join_text ''; '' ws"

section \<open>The filter of the services\<close>

text \<open>
  The body of an \<open>HttpException\<close> is a text, an object with a \<open>message\<close> or an object without one;
  an \<open>RpcException\<close> carries an object or something else.
\<close>

datatype http_body =
    BodyText string
  | BodyMessage "err_message option" "string option"
  | BodyObject "string option"

datatype thrown =
    ThrownRpcObject "int option" "err_message option" "string option" "string option"
  | ThrownRpcText string
  | ThrownHttp nat http_body string
  | ThrownError string
  | ThrownOther

record grpc_error =
  ge_code :: int
  ge_message :: string
  ge_details :: string

definition INTERNAL :: int where
  "INTERNAL = 13"

definition default_message :: string where
  "default_message = ''Internal server error''"

definition http_to_grpc :: "nat \<Rightarrow> int" where
  "http_to_grpc st =
     (if st = 400 then 3 else if st = 401 then 16 else if st = 403 then 7 else if st = 404 then 5
      else if st = 409 then 6 else if st = 429 then 8 else INTERNAL)"

text \<open>Code, message and error code of an exception.\<close>

fun grpc_parts :: "filter_env \<Rightarrow> thrown \<Rightarrow> int \<times> err_message \<times> string option" where
  "grpc_parts env (ThrownRpcObject code m details c) =
     ((case code of None \<Rightarrow> INTERNAL | Some k \<Rightarrow> k),
      (case m of None \<Rightarrow> OneText default_message | Some t \<Rightarrow> t),
      (case extractErrorCode c of
         Some k \<Rightarrow> Some k
       | None \<Rightarrow>
           (case extractErrorCode details of
              None \<Rightarrow> None
            | Some d \<Rightarrow> (case parseErrorDetails env d of None \<Rightarrow> None | Some p \<Rightarrow> ed_errorCode p))))"
| "grpc_parts env (ThrownRpcText s) = (INTERNAL, OneText s, None)"
| "grpc_parts env (ThrownHttp st body text) =
     (http_to_grpc st,
      (case body of
         BodyText s \<Rightarrow> OneText s
       | BodyMessage (Some m) _ \<Rightarrow> m
       | _ \<Rightarrow> OneText text),
      (case body of BodyMessage _ c \<Rightarrow> extractErrorCode c | _ \<Rightarrow> None))"
| "grpc_parts env (ThrownError text) = (INTERNAL, OneText text, None)"
| "grpc_parts env ThrownOther = (INTERNAL, OneText default_message, None)"

definition grpc_filter :: "filter_env \<Rightarrow> thrown \<Rightarrow> grpc_error" where
  "grpc_filter env e =
     (case grpc_parts env e of (code, m, c) \<Rightarrow>
        \<lparr>ge_code = code, ge_message = message_text m, ge_details = serializeErrorDetails env m c\<rparr>)"

section \<open>The filter of the gateway\<close>

text \<open>What the gateway catches; the name and the message of an error decide whether it is a timeout.\<close>

datatype gateway_thrown =
    GwHttp nat http_body string
  | GwGrpc int string "string option"
  | GwError string string
  | GwObject string string
  | GwOther

record http_reply =
  hr_status :: nat
  hr_message :: err_message
  hr_error :: string
  hr_errorCode :: "string option"

definition grpc_to_http :: "int \<Rightarrow> nat" where
  "grpc_to_http code =
     (case map_of
        [(0, 200), (1, 408), (2, 502), (3, 400), (4, 504), (5, 404), (6, 409), (7, 403), (8, 429), (9, 400),
         (10, 409), (11, 400), (12, 501), (13, 500), (14, 503), (15, 500), (16, 401)] code of
        Some st \<Rightarrow> st
      | None \<Rightarrow> 502)"

definition isConnectionRefused :: "string \<Rightarrow> string \<Rightarrow> bool" where
  "isConnectionRefused message details =
     (let str = message @ '' '' @ details
      in js_includes str ''ECONNREFUSED'' \<or> js_includes str ''No connection established'')"

definition isTimeoutError :: "string \<Rightarrow> string \<Rightarrow> bool" where
  "isTimeoutError name message \<longleftrightarrow> name = ''TimeoutError'' \<or> js_includes (js_toLowerCase message) ''timeout''"

text \<open>\<open>:(\d{5})\<close>\<close>

fun find_port :: "string \<Rightarrow> string option" where
  "find_port [] = None"
| "find_port (c # s) =
     (if c = CHR '':'' \<and> length (take 5 s) = 5 \<and> list_all is_digit (take 5 s) then Some (take 5 s) else find_port s)"

definition KNOWN_GRPC_SERVICES :: "(string \<times> string \<times> string) list" where
  "KNOWN_GRPC_SERVICES =
     [(''50051'', ''identity'', ''pnpm start:dev:identity''),
      (''50052'', ''accounts'', ''pnpm start:dev:accounts''),
      (''50053'', ''orders'', ''pnpm start:dev:orders'')]"

text \<open>\<open>String (Number (port))\<close> drops leading zeros.\<close>

definition number_text :: "string \<Rightarrow> string" where
  "number_text s = (let t = dropWhile (\<lambda>c. c = CHR ''0'') s in if t = [] then ''0'' else t)"

definition formatUnavailableMessage :: "string \<Rightarrow> string \<Rightarrow> string" where
  "formatUnavailableMessage message details =
     (case find_port (details @ '' '' @ message) of
        Some p \<Rightarrow>
          (case map_of KNOWN_GRPC_SERVICES p of
             Some (name, command) \<Rightarrow>
               ''Upstream microservice '' @ [char_of (39 :: nat)] @ name @ [char_of (39 :: nat)] @ '' (port '' @ number_text p @
               '') is unavailable. Please ensure '' @ [char_of (39 :: nat)] @ command @ [char_of (39 :: nat)] @ '' is running.''
           | None \<Rightarrow> ''Upstream microservice on port '' @ number_text p @ '' is unavailable (connection refused).'')
      | None \<Rightarrow> ''Upstream microservice is currently unavailable. Please verify downstream services are running.'')"

text \<open>\<open>/^\d+\s+[A-Z_]+:\s*/\<close>, removed from the front.\<close>

definition status_char :: "char \<Rightarrow> bool" where
  "status_char c \<longleftrightarrow> c = CHR ''_'' \<or> (65 \<le> (of_char c :: nat) \<and> (of_char c :: nat) \<le> 90)"

definition strip_status :: "string \<Rightarrow> string" where
  "strip_status s =
     (let s1 = dropWhile is_digit s; s2 = dropWhile js_space s1; s3 = dropWhile status_char s2
      in if s1 \<noteq> s \<and> s2 \<noteq> s1 \<and> s3 \<noteq> s2 \<and> take 1 s3 = '':'' then dropWhile js_space (drop 1 s3) else s)"

definition extractGrpcErrorPayload :: "filter_env \<Rightarrow> string \<Rightarrow> string option \<Rightarrow> err_message \<times> string option" where
  "extractGrpcErrorPayload env message details =
     (case extractErrorCode details of
        Some d \<Rightarrow>
          (case parseErrorDetails env d of
             Some p \<Rightarrow> (ed_message p, ed_errorCode p)
           | None \<Rightarrow> (OneText d, None))
      | None \<Rightarrow>
          (let cleaned = js_trim (strip_status message) in (OneText (if cleaned = [] then message else cleaned), None)))"

definition capitalize :: "string \<Rightarrow> string" where
  "capitalize s =
     (case s of [] \<Rightarrow> []
      | c # r \<Rightarrow> (if 97 \<le> (of_char c :: nat) \<and> (of_char c :: nat) \<le> 122 then char_of (of_char c - 32 :: nat) else c) # r)"

definition formatErrorName :: "string \<Rightarrow> string" where
  "formatErrorName name = join_text '' '' (map capitalize (js_split (CHR ''_'') (js_toLowerCase name)))"

definition option_text :: "string option \<Rightarrow> string" where
  "option_text s = (case s of None \<Rightarrow> [] | Some t \<Rightarrow> t)"

text \<open>Status, message and error code of what was caught.\<close>

fun http_parts :: "filter_env \<Rightarrow> gateway_thrown \<Rightarrow> nat \<times> err_message \<times> string option" where
  "http_parts env (GwHttp st body text) =
     (st,
      (case body of BodyText s \<Rightarrow> OneText s | BodyMessage (Some m) _ \<Rightarrow> m | _ \<Rightarrow> OneText text),
      (case body of BodyText _ \<Rightarrow> None | BodyMessage _ c \<Rightarrow> extractErrorCode c | BodyObject c \<Rightarrow> extractErrorCode c))"
| "http_parts env (GwGrpc code message details) =
     (if code = 14 \<or> isConnectionRefused message (option_text details)
      then (503, OneText (formatUnavailableMessage message (option_text details)), None)
      else (case extractGrpcErrorPayload env message details of (m, c) \<Rightarrow> (grpc_to_http code, m, c)))"
| "http_parts env (GwError name message) =
     (if isTimeoutError name message
      then (504, OneText ''Upstream microservice request timed out'', Some ''DEADLINE_EXCEEDED'')
      else if isConnectionRefused message [] then (503, OneText (formatUnavailableMessage message []), None)
      else (500, OneText (if is_production env then default_message else message), None))"
| "http_parts env (GwObject name message) =
     (if isTimeoutError name message
      then (504, OneText ''Upstream microservice request timed out'', Some ''DEADLINE_EXCEEDED'')
      else (500, OneText default_message, None))"
| "http_parts env GwOther = (500, OneText default_message, None)"

definition http_filter :: "filter_env \<Rightarrow> gateway_thrown \<Rightarrow> http_reply" where
  "http_filter env e =
     (case http_parts env e of (st, m, c) \<Rightarrow>
        \<lparr>hr_status = st, hr_message = m,
         hr_error = formatErrorName (case status_name env st of None \<Rightarrow> ''Error'' | Some n \<Rightarrow> n),
         hr_errorCode = extractErrorCode c\<rparr>)"

section \<open>From a service to the client\<close>

text \<open>
  The gRPC client raises an error with the code and the details of the status; its message repeats
  them.
\<close>

definition over_grpc :: "filter_env \<Rightarrow> (int \<Rightarrow> string \<Rightarrow> string) \<Rightarrow> grpc_error \<Rightarrow> gateway_thrown" where
  "over_grpc env text e = GwGrpc (wire_code env (ge_code e)) (text (wire_code env (ge_code e)) (ge_details e)) (Some (ge_details e))"

definition answered_with :: "filter_env \<Rightarrow> (int \<Rightarrow> string \<Rightarrow> string) \<Rightarrow> thrown \<Rightarrow> http_reply" where
  "answered_with env text e = http_filter env (over_grpc env text (grpc_filter env e))"

text \<open>JSON texts read back, and a status code is kept or, where it is none of gRPC's, made unknown.\<close>

definition filter_laws :: "filter_env \<Rightarrow> bool" where
  "filter_laws env \<longleftrightarrow>
     (\<forall>d. json_stringify env d \<noteq> [] \<and> json_parse env (json_stringify env d) = Some (JsonObject (Some (ed_message d)) (ed_errorCode d))) \<and>
     (\<forall>c. wire_code env c = (if 0 \<le> c \<and> c \<le> 16 then c else 2) \<or> wire_code env c = c)"

text \<open>The details do not look like a refused connection.\<close>

definition reachable_service :: "filter_env \<Rightarrow> (int \<Rightarrow> string \<Rightarrow> string) \<Rightarrow> thrown \<Rightarrow> bool" where
  "reachable_service env text e \<longleftrightarrow>
     (let g = grpc_filter env e
      in \<not> isConnectionRefused (text (wire_code env (ge_code g)) (ge_details g)) (ge_details g))"

lemma details_roundtrip:
  "filter_laws env \<Longrightarrow> parseErrorDetails env (serializeErrorDetails env m c) = Some \<lparr>ed_message = m, ed_errorCode = extractErrorCode c\<rparr>"
  by (simp add: filter_laws_def parseErrorDetails_def serializeErrorDetails_def)

lemma extract_twice [simp]: "extractErrorCode (extractErrorCode c) = extractErrorCode c"
  by (simp add: extractErrorCode_def)

lemma answered_parts:
  assumes "filter_laws env" and "reachable_service env text e" and "grpc_parts env e = (code, m, c)"
    and "wire_code env code \<noteq> 14"
  shows "hr_status (answered_with env text e) = grpc_to_http (wire_code env code)"
    and "hr_message (answered_with env text e) = m"
    and "hr_errorCode (answered_with env text e) = extractErrorCode c"
proof -
  let ?d = "serializeErrorDetails env m c"
  have ne: "extractErrorCode (Some ?d) = Some ?d"
    using assms(1) by (simp add: extractErrorCode_def serializeErrorDetails_def filter_laws_def)
  have "\<not> isConnectionRefused (text (wire_code env code) ?d) ?d"
    using assms(2,3) by (simp add: reachable_service_def grpc_filter_def Let_def)
  then have "http_parts env (over_grpc env text (grpc_filter env e)) = (grpc_to_http (wire_code env code), m, extractErrorCode c)"
    using assms(3,4) by (simp add: over_grpc_def grpc_filter_def option_text_def extractGrpcErrorPayload_def ne
        details_roundtrip [OF assms(1)])
  then show "hr_status (answered_with env text e) = grpc_to_http (wire_code env code)"
    and "hr_message (answered_with env text e) = m"
    and "hr_errorCode (answered_with env text e) = extractErrorCode c"
    by (simp_all add: answered_with_def http_filter_def)
qed

text \<open>
  C29: an error reaches the client as the service raised it. An \<open>HttpException\<close> of a service with the
  status 400, 401, 403, 404, 409 or 429 is answered by the gateway with the same status, message
  (a list stays a list) and error code; with any other status it is answered with 500.
\<close>

theorem http_errors_cross_services:
  assumes "filter_laws env" and "reachable_service env text (ThrownHttp st (BodyMessage (Some m) c) t)"
  shows "hr_status (answered_with env text (ThrownHttp st (BodyMessage (Some m) c) t)) =
      (if st \<in> {400, 401, 403, 404, 409, 429} then st else 500) \<and>
    hr_message (answered_with env text (ThrownHttp st (BodyMessage (Some m) c) t)) = m \<and>
    hr_errorCode (answered_with env text (ThrownHttp st (BodyMessage (Some m) c) t)) = extractErrorCode c"
proof -
  let ?e = "ThrownHttp st (BodyMessage (Some m) c) t"
  have "0 \<le> http_to_grpc st \<and> http_to_grpc st \<le> 16" by (simp add: http_to_grpc_def INTERNAL_def)
  then have w: "wire_code env (http_to_grpc st) = http_to_grpc st"
    using assms(1) unfolding filter_laws_def by (metis (full_types))
  have p: "grpc_parts env ?e = (http_to_grpc st, m, extractErrorCode c)" by simp
  have "http_to_grpc st \<noteq> 14" by (simp add: http_to_grpc_def INTERNAL_def)
  note parts = answered_parts [OF assms(1,2) p, unfolded w, OF this]
  have "hr_status (answered_with env text ?e) = (if st \<in> {400, 401, 403, 404, 409, 429} then st else 500)"
    unfolding parts(1) by (auto simp: grpc_to_http_def http_to_grpc_def INTERNAL_def)
  then show ?thesis using parts(2,3) by simp
qed

text \<open>
  An HTTP status is no gRPC status. An \<open>RpcException\<close> whose code is not one of gRPC's seventeen,
  as the orders service raises them with 400, 402, 404 and 409, is answered by the gateway with
  502 Bad Gateway, though with the message and the error code of the service.
\<close>

theorem foreign_rpc_codes_are_bad_gateway:
  assumes "filter_laws env" and "reachable_service env text (ThrownRpcObject (Some code) (Some m) None c)"
    and "code < 0 \<or> 16 < code"
  shows "hr_status (answered_with env text (ThrownRpcObject (Some code) (Some m) None c)) = 502 \<and>
    hr_message (answered_with env text (ThrownRpcObject (Some code) (Some m) None c)) = m \<and>
    hr_errorCode (answered_with env text (ThrownRpcObject (Some code) (Some m) None c)) = extractErrorCode c"
proof -
  let ?e = "ThrownRpcObject (Some code) (Some m) None c"
  have w: "wire_code env code = 2 \<or> wire_code env code = code"
    using assms(1,3) by (auto simp: filter_laws_def split: if_splits)
  have p: "grpc_parts env ?e = (code, m, extractErrorCode c)"
    by (simp add: extractErrorCode_def split: option.split)
  have "wire_code env code \<noteq> 14" using w assms(3) by auto
  note parts = answered_parts [OF assms(1,2) p this]
  have "grpc_to_http code = 502"
    using assms(3) by (auto simp: grpc_to_http_def)
  then have "hr_status (answered_with env text ?e) = 502"
    using w unfolding parts(1) by (auto simp: grpc_to_http_def)
  then show ?thesis using parts(2,3) by simp
qed

end
