(* ===== verification/Gateway.thy ===== *)
theory Gateway
  imports Ws_Auth Identity Balances Transfers
begin

text \<open>
  The HTTP edge of the gateway (\<open>apps/api-gateway/src\<close>): for every route its guards, the validation
  of its body and query, and the gRPC call it forwards, with the services that build these calls
  (\<open>orders\<close>, \<open>transfers\<close>, \<open>copy-trading\<close>, \<open>balances\<close>, \<open>auth\<close>, \<open>sandbox\<close>). A request has been parsed into its
  fields; addresses and UUIDs are judged by the validator library, an argument of the model.
\<close>

section \<open>Validation\<close>

text \<open>\<open>/^\d+(\.\d{1,8})?$/\<close>: unlike the accounts service, with leading zeros.\<close>

definition DTO_DECIMAL :: "nat \<Rightarrow> string \<Rightarrow> bool" where
  "DTO_DECIMAL digits s \<longleftrightarrow>
     integer_part s \<noteq> [] \<and>
     (dropWhile is_digit s = [] \<or>
      (hd (dropWhile is_digit s) = CHR ''.'' \<and> 1 \<le> length (fraction_part s) \<and> length (fraction_part s) \<le> digits \<and>
       list_all is_digit (fraction_part s)))"

text \<open>\<open>/^0x[a-fA-F0-9]{130}$/\<close>\<close>

definition SIGNATURE_REGEX :: "string \<Rightarrow> bool" where
  "SIGNATURE_REGEX s \<longleftrightarrow> take 2 s = ''0x'' \<and> length s = 132 \<and> list_all (\<lambda>c. hex_value c \<noteq> None) (drop 2 s)"

record gateway_env =
  ge_production :: bool
  ge_isEthereumAddress :: "string \<Rightarrow> bool"
  ge_isUUID :: "string \<Rightarrow> bool"
  ge_newKey :: uuid

record order_dto =
  od_pair :: string
  od_side :: order_side
  od_type :: order_type
  od_price :: string
  od_amount :: string

record withdrawal_dto =
  wd_currency :: string
  wd_amount :: string
  wd_destinationAddress :: string

record master_dto =
  md_displayName :: string
  md_bio :: "string option"
  md_minDeposit :: "string option"

record subscription_dto =
  sd_masterId :: uuid
  sd_allocatedBalance :: string
  sd_maxSlippagePercent :: "string option"

record faucet_dto =
  fd_amount :: string
  fd_currency :: "string option"
  fd_idempotencyKey :: "string option"
  fd_userId :: "uuid option"

definition optional :: "('a \<Rightarrow> bool) \<Rightarrow> 'a option \<Rightarrow> bool" where
  "optional P x \<longleftrightarrow> (case x of None \<Rightarrow> True | Some y \<Rightarrow> P y)"

definition valid_order :: "order_dto \<Rightarrow> bool" where
  "valid_order d \<longleftrightarrow> od_pair d \<noteq> [] \<and> DTO_DECIMAL 8 (od_price d) \<and> DTO_DECIMAL 8 (od_amount d)"

definition valid_withdrawal :: "gateway_env \<Rightarrow> withdrawal_dto \<Rightarrow> bool" where
  "valid_withdrawal env d \<longleftrightarrow>
     wd_currency d \<in> set SUPPORTED_CURRENCIES \<and> DTO_DECIMAL 8 (wd_amount d) \<and>
     ge_isEthereumAddress env (wd_destinationAddress d)"

definition valid_master :: "master_dto \<Rightarrow> bool" where
  "valid_master d \<longleftrightarrow>
     md_displayName d \<noteq> [] \<and> length (md_displayName d) \<le> 64 \<and> optional (\<lambda>b. length b \<le> 500) (md_bio d) \<and>
     optional (DTO_DECIMAL 8) (md_minDeposit d)"

definition valid_subscription :: "gateway_env \<Rightarrow> subscription_dto \<Rightarrow> bool" where
  "valid_subscription env d \<longleftrightarrow>
     ge_isUUID env (sd_masterId d) \<and> DTO_DECIMAL 8 (sd_allocatedBalance d) \<and>
     optional (DTO_DECIMAL 2) (sd_maxSlippagePercent d)"

definition valid_faucet :: "gateway_env \<Rightarrow> faucet_dto \<Rightarrow> bool" where
  "valid_faucet env d \<longleftrightarrow>
     DTO_DECIMAL 8 (fd_amount d) \<and> optional (\<lambda>c. c \<in> set SUPPORTED_CURRENCIES) (fd_currency d) \<and>
     optional (ge_isUUID env) (fd_userId d)"

definition valid_limit :: "nat option \<Rightarrow> bool" where
  "valid_limit l \<longleftrightarrow> optional (\<lambda>n. 1 \<le> n \<and> n \<le> 100) l"

section \<open>Routes and calls\<close>

text \<open>The routes with their parameters; keys are the \<open>x-idempotency-key\<close> header.\<close>

datatype http_call =
    PostOrder order_dto "string option"
  | DeleteOrder uuid "string option"
  | GetOrder uuid
  | GetOrders "string option" "string option" "nat option" "nat option"
  | GetOrderBook string "nat option"
  | GetDepositAddress
  | PostWithdraw withdrawal_dto "string option"
  | GetWithdrawal uuid
  | GetWithdrawals "string option" "nat option" "nat option"
  | PostMaster master_dto
  | GetMasters "nat option" "nat option"
  | PostSubscribe subscription_dto "string option"
  | DeleteSubscription uuid "bool option"
  | GetSubscriptions
  | GetBalance "string option"
  | GetNonceRoute string
  | PostVerify string string
  | PostRefresh "string option"
  | PostLogout "string option"
  | GetMe
  | PostSandboxLogin "string option" "user_role option"
  | PostFaucet faucet_dto
  | PostPromote "uuid option"

datatype grpc_call =
    CreateOrderCall uuid order_dto string
  | CancelOrderCall uuid uuid string
  | GetOrderCall uuid uuid
  | GetOrdersCall uuid "string option" "string option" "nat option" "nat option"
  | GetOrderBookCall string "nat option"
  | DepositAddressCall uuid
  | RequestWithdrawalCall withdrawal_input
  | GetWithdrawalCall uuid uuid
  | WithdrawalHistoryCall uuid "string option" nat nat
  | RegisterMasterCall uuid master_dto
  | GetMastersCall "nat option" "nat option"
  | CreateSubscriptionCall uuid subscription_dto string
  | CancelSubscriptionCall uuid uuid bool
  | GetSubscriptionsCall uuid
  | GetBalanceCall uuid string
  | DepositSandboxCall account_request
  | IdentityCall identity_call

definition not_found_route :: exc where
  "not_found_route = NotFoundException ''route''"

text \<open>What is forwarded: the call, and the caller that the metadata name. A logout without a token is
  answered without a call.\<close>

type_synonym forwarded = "(grpc_call \<times> uuid option) option"

definition key_required :: "string option \<Rightarrow> (string \<Rightarrow> grpc_call \<times> uuid option) \<Rightarrow> forwarded result" where
  "key_required key f =
     (case non_empty key of None \<Rightarrow> Inl (BadRequestException ''x-idempotency-key'') | Some k \<Rightarrow> Inr (Some (f k)))"

definition checked :: "bool \<Rightarrow> forwarded result \<Rightarrow> forwarded result" where
  "checked valid r = (if valid then r else Inl (BadRequestException ''validation''))"

definition forward :: "grpc_call \<Rightarrow> uuid option \<Rightarrow> forwarded result" where
  "forward c caller = Inr (Some (c, caller))"

definition or_default :: "string \<Rightarrow> string option \<Rightarrow> string" where
  "or_default d s = (case non_empty s of None \<Rightarrow> d | Some t \<Rightarrow> t)"

text \<open>The services, one function for each, for the authenticated user \<open>u\<close> where a route has one.\<close>

fun orders_route :: "uuid \<Rightarrow> http_call \<Rightarrow> forwarded result" where
  "orders_route u (PostOrder d key) =
     checked (valid_order d) (key_required key (\<lambda>k. (CreateOrderCall u d k, Some u)))"
| "orders_route u (DeleteOrder i key) = key_required key (\<lambda>k. (CancelOrderCall i u k, Some u))"
| "orders_route u (GetOrder i) = forward (GetOrderCall i u) (Some u)"
| "orders_route u (GetOrders pair status limit offset) =
     checked (valid_limit limit) (forward (GetOrdersCall u pair status limit offset) (Some u))"
| "orders_route u (GetOrderBook pair depth) = checked (valid_limit depth) (forward (GetOrderBookCall pair depth) None)"
| "orders_route u _ = Inl not_found_route"

fun transfers_route :: "gateway_env \<Rightarrow> uuid \<Rightarrow> http_call \<Rightarrow> forwarded result" where
  "transfers_route env u GetDepositAddress = forward (DepositAddressCall u) (Some u)"
| "transfers_route env u (PostWithdraw d key) =
     checked (valid_withdrawal env d) (key_required key (\<lambda>k.
       (RequestWithdrawalCall \<lparr>wi_userId = u, wi_amount = wd_amount d, wi_currency = wd_currency d,
          wi_destinationAddress = wd_destinationAddress d, wi_idempotencyKey = k\<rparr>, Some u)))"
| "transfers_route env u (GetWithdrawal i) = forward (GetWithdrawalCall u i) (Some u)"
| "transfers_route env u (GetWithdrawals currency limit offset) =
     checked (valid_limit limit \<and> optional (\<lambda>c. c \<in> set SUPPORTED_CURRENCIES) currency)
       (forward (WithdrawalHistoryCall u currency (case limit of None \<Rightarrow> 20 | Some l \<Rightarrow> l) (case offset of None \<Rightarrow> 0 | Some n \<Rightarrow> n))
         (Some u))"
| "transfers_route env u _ = Inl not_found_route"

fun copy_route :: "gateway_env \<Rightarrow> uuid \<Rightarrow> http_call \<Rightarrow> forwarded result" where
  "copy_route env u (PostMaster d) = checked (valid_master d) (forward (RegisterMasterCall u d) (Some u))"
| "copy_route env u (GetMasters limit offset) = checked (valid_limit limit) (forward (GetMastersCall limit offset) None)"
| "copy_route env u (PostSubscribe d key) =
     checked (valid_subscription env d) (key_required key (\<lambda>k. (CreateSubscriptionCall u d k, Some u)))"
| "copy_route env u (DeleteSubscription i close) = forward (CancelSubscriptionCall i u (close = Some True)) (Some u)"
| "copy_route env u GetSubscriptions = forward (GetSubscriptionsCall u) (Some u)"
| "copy_route env u _ = Inl not_found_route"

definition balance_route :: "uuid \<Rightarrow> string option \<Rightarrow> forwarded result" where
  "balance_route u currency =
     checked (optional (\<lambda>c. c \<in> set SUPPORTED_CURRENCIES) currency)
       (forward (GetBalanceCall u (or_default DEFAULT_CURRENCY currency)) (Some u))"

text \<open>\<open>POST /auth/logout\<close> has no guard, so it never knows the user and sends an empty user id.\<close>

fun auth_route :: "gateway_env \<Rightarrow> uuid \<Rightarrow> http_call \<Rightarrow> forwarded result" where
  "auth_route env u (GetNonceRoute a) =
     checked (a \<noteq> [] \<and> ge_isEthereumAddress env a) (forward (IdentityCall (GetNonce a)) None)"
| "auth_route env u (PostVerify m s) =
     checked (m \<noteq> [] \<and> SIGNATURE_REGEX s) (forward (IdentityCall (VerifySiwe m s)) None)"
| "auth_route env u (PostRefresh t) =
     (case non_empty t of
        None \<Rightarrow> Inl (UnauthorizedException ''Missing refresh token'')
      | Some r \<Rightarrow> forward (IdentityCall (RefreshTokens r)) None)"
| "auth_route env u (PostLogout t) =
     (case non_empty t of
        None \<Rightarrow> Inr None
      | Some r \<Rightarrow> forward (IdentityCall (Logout r (Some []))) None)"
| "auth_route env u GetMe = forward (IdentityCall (GetUserById u)) (Some u)"
| "auth_route env u _ = Inl not_found_route"

fun sandbox_route :: "gateway_env \<Rightarrow> uuid \<Rightarrow> http_call \<Rightarrow> forwarded result" where
  "sandbox_route env u (PostSandboxLogin a r) =
     checked (optional (ge_isEthereumAddress env) a)
       (forward (IdentityCall (SandboxLogin (Some (or_default DEFAULT_DEV_WALLET a))
          (Some (case r of None \<Rightarrow> [] | Some ro \<Rightarrow> role_text ro)))) None)"
| "sandbox_route env u (PostFaucet d) =
     checked (valid_faucet env d)
       (forward (DepositSandboxCall \<lparr>rq_userId = or_default u (fd_userId d), rq_amount = fd_amount d,
          rq_currency = or_default DEFAULT_CURRENCY (fd_currency d),
          rq_idempotencyKey = or_default (ge_newKey env) (fd_idempotencyKey d), rq_referenceId = []\<rparr>) (Some u))"
| "sandbox_route env u (PostPromote target) =
     checked (optional (ge_isUUID env) target)
       (forward (IdentityCall (UpdateUserRole (or_default u target) (role_text ADMIN))) (Some u))"
| "sandbox_route env u _ = Inl not_found_route"

text \<open>Which controller serves a route, and which routes carry no \<open>JwtAuthGuard\<close>.\<close>

datatype controller = Orders_C | Transfers_C | Copy_C | Balances_C | Auth_C | Sandbox_C

fun controller_of :: "http_call \<Rightarrow> controller" where
  "controller_of (PostOrder _ _) = Orders_C"
| "controller_of (DeleteOrder _ _) = Orders_C"
| "controller_of (GetOrder _) = Orders_C"
| "controller_of (GetOrders _ _ _ _) = Orders_C"
| "controller_of (GetOrderBook _ _) = Orders_C"
| "controller_of GetDepositAddress = Transfers_C"
| "controller_of (PostWithdraw _ _) = Transfers_C"
| "controller_of (GetWithdrawal _) = Transfers_C"
| "controller_of (GetWithdrawals _ _ _) = Transfers_C"
| "controller_of (PostMaster _) = Copy_C"
| "controller_of (GetMasters _ _) = Copy_C"
| "controller_of (PostSubscribe _ _) = Copy_C"
| "controller_of (DeleteSubscription _ _) = Copy_C"
| "controller_of GetSubscriptions = Copy_C"
| "controller_of (GetBalance _) = Balances_C"
| "controller_of (PostSandboxLogin _ _) = Sandbox_C"
| "controller_of (PostFaucet _) = Sandbox_C"
| "controller_of (PostPromote _) = Sandbox_C"
| "controller_of _ = Auth_C"

fun is_public :: "http_call \<Rightarrow> bool" where
  "is_public (GetOrderBook _ _) \<longleftrightarrow> True"
| "is_public (GetMasters _ _) \<longleftrightarrow> True"
| "is_public (GetNonceRoute _) \<longleftrightarrow> True"
| "is_public (PostVerify _ _) \<longleftrightarrow> True"
| "is_public (PostRefresh _) \<longleftrightarrow> True"
| "is_public (PostLogout _) \<longleftrightarrow> True"
| "is_public (PostSandboxLogin _ _) \<longleftrightarrow> True"
| "is_public _ \<longleftrightarrow> False"

definition user_route :: "gateway_env \<Rightarrow> uuid \<Rightarrow> http_call \<Rightarrow> forwarded result" where
  "user_route env u c =
     (case controller_of c of
        Orders_C \<Rightarrow> orders_route u c
      | Transfers_C \<Rightarrow> transfers_route env u c
      | Copy_C \<Rightarrow> copy_route env u c
      | Balances_C \<Rightarrow> (case c of GetBalance currency \<Rightarrow> balance_route u currency | _ \<Rightarrow> Inl not_found_route)
      | Auth_C \<Rightarrow> auth_route env u c
      | Sandbox_C \<Rightarrow> sandbox_route env u c)"

text \<open>\<open>SandboxGuard\<close>, and the user that \<open>JwtAuthGuard\<close> takes from the verified claims.\<close>

definition sandbox_allowed :: "gateway_env \<Rightarrow> bool" where
  "sandbox_allowed env \<longleftrightarrow> \<not> ge_production env"

definition jwt_user :: "ws_claims option \<Rightarrow> ws_user result" where
  "jwt_user claims =
     (case claims of
        None \<Rightarrow> Inl (UnauthorizedException ''Unauthorized'')
      | Some cl \<Rightarrow> (case claims_user cl of None \<Rightarrow> Inl (UnauthorizedException ''claims'') | Some u \<Rightarrow> Inr u))"

definition gateway_route :: "gateway_env \<Rightarrow> ws_claims option \<Rightarrow> http_call \<Rightarrow> forwarded result" where
  "gateway_route env claims c =
     (if controller_of c = Sandbox_C \<and> \<not> sandbox_allowed env then Inl (ForbiddenException ''sandbox'')
      else if is_public c then user_route env [] c
      else bindR (jwt_user claims) (\<lambda>u. user_route env (wu_userId u) c))"

section \<open>Whom a call acts for\<close>

fun call_user :: "grpc_call \<Rightarrow> uuid option" where
  "call_user (CreateOrderCall u _ _) = Some u"
| "call_user (CancelOrderCall _ u _) = Some u"
| "call_user (GetOrderCall _ u) = Some u"
| "call_user (GetOrdersCall u _ _ _ _) = Some u"
| "call_user (GetOrderBookCall _ _) = None"
| "call_user (DepositAddressCall u) = Some u"
| "call_user (RequestWithdrawalCall w) = Some (wi_userId w)"
| "call_user (GetWithdrawalCall u _) = Some u"
| "call_user (WithdrawalHistoryCall u _ _ _) = Some u"
| "call_user (RegisterMasterCall u _) = Some u"
| "call_user (GetMastersCall _ _) = None"
| "call_user (CreateSubscriptionCall u _ _) = Some u"
| "call_user (CancelSubscriptionCall _ u _) = Some u"
| "call_user (GetSubscriptionsCall u) = Some u"
| "call_user (GetBalanceCall u _) = Some u"
| "call_user (DepositSandboxCall r) = Some (rq_userId r)"
| "call_user (IdentityCall (GetUserById u)) = Some u"
| "call_user (IdentityCall (UpdateUserRole u _)) = Some u"
| "call_user (IdentityCall _) = None"

text \<open>The amounts in a call.\<close>

fun call_amounts :: "grpc_call \<Rightarrow> string list" where
  "call_amounts (CreateOrderCall _ d _) = [od_price d, od_amount d]"
| "call_amounts (RequestWithdrawalCall w) = [wi_amount w]"
| "call_amounts (RegisterMasterCall _ d) = (case md_minDeposit d of None \<Rightarrow> [] | Some m \<Rightarrow> [m])"
| "call_amounts (CreateSubscriptionCall _ d _) = [sd_allocatedBalance d]"
| "call_amounts (DepositSandboxCall r) = [rq_amount r]"
| "call_amounts _ = []"

lemmas route_defs = checked_def forward_def key_required_def user_route_def balance_route_def not_found_route_def

lemma public_route_call:
  "is_public c \<Longrightarrow> user_route env u c = Inr (Some (call, caller)) \<Longrightarrow> call_user call = None \<and> call_amounts call = []"
  by (cases c) (auto simp: route_defs split: if_splits option.splits)

lemma user_route_call:
  assumes "user_route env u c = Inr (Some (call, caller))" and "\<not> is_public c"
  shows "caller = Some u" and "controller_of c \<noteq> Sandbox_C \<Longrightarrow> call_user call = Some u"
    and "\<forall>s \<in> set (call_amounts call). DTO_DECIMAL 8 s"
  using assms
  by (cases c; auto simp: route_defs valid_order_def valid_withdrawal_def valid_master_def valid_subscription_def
      valid_faucet_def optional_def split: if_splits option.splits)+

lemma gateway_route_call:
  assumes "gateway_route env claims c = Inr (Some (call, caller))" and "call_user call \<noteq> None \<or> call_amounts call \<noteq> []"
  obtains cl u where "claims = Some cl" and "claims_user cl = Some u" and "\<not> is_public c"
    and "user_route env (wu_userId u) c = Inr (Some (call, caller))" and "controller_of c = Sandbox_C \<Longrightarrow> sandbox_allowed env"
proof -
  have np: "\<not> is_public c"
    using assms public_route_call [of c env "[]" call caller] by (auto simp: gateway_route_def split: if_splits)
  with assms(1) show ?thesis
    using that by (auto simp: gateway_route_def jwt_user_def bindR_eq_Inr split: if_splits option.splits)
qed

text \<open>
  C31: the gateway speaks for its caller only. A call that is forwarded and names a user names the
  user of the request's verified token, both in the call and in its metadata; the exceptions are
  the faucet and the promotion of the sandbox, and no sandbox route is forwarded in production.
\<close>

theorem calls_speak_for_their_caller:
  assumes "gateway_route env claims c = Inr (Some (call, caller))" and "call_user call = Some i"
  shows "\<exists>cl u. claims = Some cl \<and> claims_user cl = Some u \<and> caller = Some (wu_userId u) \<and>
    (i = wu_userId u \<or> (controller_of c = Sandbox_C \<and> \<not> ge_production env))"
proof -
  obtain cl u where cl: "claims = Some cl" "claims_user cl = Some u" "\<not> is_public c"
      and r: "user_route env (wu_userId u) c = Inr (Some (call, caller))"
      and p: "controller_of c = Sandbox_C \<Longrightarrow> sandbox_allowed env"
    using gateway_route_call [OF assms(1)] assms(2) by blast
  from user_route_call [OF r cl(3)] p cl assms(2) show ?thesis by (auto simp: sandbox_allowed_def)
qed

text \<open>The value of a text that passed validation.\<close>

lemma digit_value_nonneg: "is_digit c \<Longrightarrow> 0 \<le> digit_value c"
  by (simp add: digit_value_def is_digit_def of_nat_of_char [where 'a = int, symmetric] del: of_nat_of_char)

lemma read_digits_nonneg: "\<forall>c \<in> set s. is_digit c \<Longrightarrow> 0 \<le> read_digits s"
  by (induction s rule: rev_induct) (auto simp: digit_value_nonneg)

lemma AMOUNT_REGEX_DTO:
  "AMOUNT_REGEX s \<longleftrightarrow> DTO_DECIMAL 8 s \<and> (integer_part s = ''0'' \<or> hd (integer_part s) \<noteq> CHR ''0'')"
  by (auto simp: AMOUNT_REGEX_def DTO_DECIMAL_def)

text \<open>
  C32: only decimals pass the gateway. Every amount in a call it forwards (prices and amounts of
  orders, withdrawals, deposits and allocations) is a plain decimal with at most eight digits after
  the point and a non-negative value; it is one the accounts service accepts too exactly if it
  has no leading zero.
\<close>

theorem forwarded_amounts_are_decimals:
  assumes "gateway_route env claims c = Inr (Some (call, caller))" and "s \<in> set (call_amounts call)"
  shows "DTO_DECIMAL 8 s \<and> 0 \<le> units_of s \<and>
    (AMOUNT_REGEX s \<longleftrightarrow> integer_part s = ''0'' \<or> hd (integer_part s) \<noteq> CHR ''0'')"
proof -
  have "call_amounts call \<noteq> []" using assms(2) by auto
  then obtain i where r: "user_route env i c = Inr (Some (call, caller))" "\<not> is_public c"
    using gateway_route_call [OF assms(1)] by metis
  have d: "DTO_DECIMAL 8 s" using user_route_call(3) [OF r] assms(2) by blast
  have "dropWhile is_digit s = [] \<or> list_all is_digit (fraction_part s)"
    using d unfolding DTO_DECIMAL_def by blast
  then have "\<forall>c \<in> set (fraction_part s). is_digit c"
    unfolding list_all_iff by (elim disjE) (simp_all only: fraction_part_def list.sel list.set, simp_all)
  then have "0 \<le> read_digits (pad8 (fraction_part s))"
    by (intro read_digits_nonneg) (auto simp: pad8_def is_digit_def)
  moreover have "0 \<le> read_digits (integer_part s)"
    by (intro read_digits_nonneg) (auto simp: integer_part_def dest: set_takeWhileD)
  ultimately show ?thesis using d by (simp add: units_of_def AMOUNT_REGEX_DTO)
qed

end
