(* ===== verification/Edge_Demo.thy ===== *)
theory Edge_Demo
  imports Ws_Flow Identity_Demo Error_Filters Gateway
begin

text \<open>The gateway of the platform at concrete inputs: its websockets, its error filters, its HTTP routes.\<close>

section \<open>The websocket gateway\<close>

text \<open>
  The websocket gateway at concrete inputs: a client with the token \<open>tok\<close> connects as user \<open>u1\<close> and
  subscribes to its orders, and an order of that user is placed.
\<close>

definition demo_ws_verify :: "time \<Rightarrow> string \<Rightarrow> ws_claims option" where
  "demo_ws_verify now t =
     (if t = ''tok'' then Some \<lparr>cl_sub = Some ''u1'', cl_walletAddress = Some ''0xab'', cl_role = Some ''trader''\<rparr> else None)"

definition demo_handshake :: handshake where
  "demo_handshake = \<lparr>hs_protocol = None, hs_cookie = None, hs_queryToken = Some ''tok''\<rparr>"

definition demo_ws_user :: ws_user where
  "demo_ws_user = \<lparr>wu_userId = ''u1'', wu_walletAddress = ''0xab'', wu_role = TRADER\<rparr>"

definition fresh_socket :: ws_socket where
  "fresh_socket = \<lparr>sk_user = Some demo_ws_user, sk_open = True, sk_alive = True, sk_buffered = 0, sk_window = None,
     sk_count = 0, sk_out = []\<rparr>"

definition connected :: gateway_world where
  "connected = handleConnection (demo_ws_verify 0) 7 demo_handshake empty_gateway"

lemma connected_socket: "gw_sockets connected 7 = Some fresh_socket"
proof -
  have "parse_role ''trader'' = Some TRADER" using parse_role_text [of TRADER] by simp
  then show ?thesis
    by (simp add: connected_def handleConnection_def extractAndVerifyWsToken_def demo_handshake_def handshake_token_def
      protocol_token_def cookie_token_def demo_ws_verify_def claims_user_def fresh_socket_def demo_ws_user_def)
qed

lemma connected_reachable: "gateway_reachable demo_ws_verify connected"
proof -
  have "gateway_step demo_ws_verify empty_gateway connected"
    unfolding connected_def by (rule gateway_step.Connect) (simp add: empty_gateway_def)
  then show ?thesis by (rule gateway_reachable.Step [OF gateway_reachable.Start])
qed

definition subscribed :: gateway_world where
  "subscribed = handleSubscribe 5 7 (Some userOrders) connected"

lemma subscribed_reachable: "gateway_reachable demo_ws_verify subscribed"
  unfolding subscribed_def by (rule gateway_reachable.Step [OF connected_reachable]) (rule gateway_step.Subscribe)

definition subscribed_socket :: ws_socket where
  "subscribed_socket = fresh_socket\<lparr>sk_window := Some 1005, sk_count := 1, sk_out := [WsAck ''subscribed'' userOrders 5]\<rparr>"

lemma subscribed_eq:
  "gw_sockets subscribed 7 = Some subscribed_socket"
  "rooms (gw_rooms subscribed) (getUserPrivateRoom ''u1'' ''orders'') = Some [7]"
proof -
  have rate: "checkRateLimit 5 fresh_socket = (True, fresh_socket\<lparr>sk_window := Some 1005, sk_count := 1\<rparr>)"
    by (simp add: checkRateLimit_def fresh_socket_def)
  have rooms: "gw_rooms connected = no_rooms" by (simp add: connected_def handleConnection_def empty_gateway_def Let_def)
  show "gw_sockets subscribed 7 = Some subscribed_socket"
    by (simp add: subscribed_def handleSubscribe_def guarded_def connected_socket rate own_channels_valid subscribe_channel_def
        on_socket_def set_socket_def sock_send_def subscribed_socket_def)
      (simp add: fresh_socket_def sock_send_def on_socket_def)
  show "rooms (gw_rooms subscribed) (getUserPrivateRoom ''u1'' ''orders'') = Some [7]"
    by (simp add: subscribed_def handleSubscribe_def guarded_def connected_socket rate own_channels_valid subscribe_channel_def
        rooms join_room_def index_add_def entry_def no_rooms_def set_add_def private_topic_def)
      (simp add: fresh_socket_def demo_ws_user_def entry_def set_add_def rooms join_room_def index_add_def no_rooms_def
          private_topic_def)
qed

definition demo_placed :: order_placed where
  "demo_placed = \<lparr>op_orderId = ''o1'', op_userId = ''u1'', op_symbol = ''BTC_USDT'', op_side = BUY, op_type = LIMIT,
     op_price = 5, op_quantity = 7, op_levelTotalQuantity = 7, op_sequenceId = 1, op_timestamp = 3\<rparr>"

definition demo_update :: ws_message where
  "demo_update = WsUserOrder \<lparr>wo_orderId = ''o1'', wo_symbol = ''BTC_USDT'', wo_side = Some BUY, wo_status = OPEN,
     wo_filledQuantity = 0, wo_remainingQuantity = 7, wo_timestamp = 3\<rparr>"

theorem rooms_consistent_witness:
  "7 \<in> set (entry (rooms (gw_rooms subscribed)) (getUserPrivateRoom ''u1'' ''orders'')) \<and>
   getUserPrivateRoom ''u1'' ''orders'' \<in> set (getClientRooms 7 (gw_rooms subscribed))"
proof -
  have "7 \<in> set (entry (rooms (gw_rooms subscribed)) (getUserPrivateRoom ''u1'' ''orders''))"
    by (simp add: entry_def subscribed_eq(2))
  with rooms_consistent [OF subscribed_reachable] show ?thesis by blast
qed

theorem private_updates_reach_only_owner_witness:
  "owners (OrdersPayload (OrderPlaced demo_placed)) demo_update = {wu_userId demo_ws_user}"
proof -
  let ?ch = "getUserPrivateRoom ''u1'' ''orders''"
  have m: "(?ch, demo_update) \<in> set (bridge_messages PlacedKind (OrdersPayload (OrderPlaced demo_placed)))"
    by (simp add: bridge_placed_def demo_placed_def demo_update_def)
  have p: "is_private demo_update" by (simp add: is_private_def demo_update_def)
  have "starts_with ''user:'' ?ch" by (simp add: starts_with_def getUserPrivateRoom_def)
  then have s': "gw_sockets (onPubSubMessage ?ch demo_update subscribed) 7 =
      Some (subscribed_socket\<lparr>sk_out := sk_out subscribed_socket @ [demo_update]\<rparr>)"
    by (simp add: onPubSubMessage_def broadcastToRoom_def subscribed_eq on_socket_def broadcast_one_def sock_send_def
        MAX_WS_BUFFER_SIZE_BYTES_def) (simp add: subscribed_socket_def fresh_socket_def)
  have ne: "sk_out (subscribed_socket\<lparr>sk_out := sk_out subscribed_socket @ [demo_update]\<rparr>) \<noteq> sk_out subscribed_socket"
    by simp
  have u: "sk_user subscribed_socket = Some demo_ws_user" by (simp add: subscribed_socket_def fresh_socket_def)
  show ?thesis
    using private_updates_reach_only_owner [OF subscribed_reachable m p subscribed_eq(1) s' ne] u by auto
qed

theorem subscriber_gets_own_updates_witness:
  "\<exists>s'. gw_sockets (onPubSubMessage (getUserPrivateRoom ''u1'' (private_topic userOrders)) demo_update
      (handleSubscribe 5 7 (Some userOrders) connected)) 7 = Some s' \<and>
    sk_out s' = [WsAck ''subscribed'' userOrders 5, demo_update]"
proof -
  have "sk_open fresh_socket" "sk_user fresh_socket = Some demo_ws_user" "fst (checkRateLimit 5 fresh_socket)"
      "sk_buffered fresh_socket \<le> MAX_WS_BUFFER_SIZE_BYTES"
    by (simp_all add: fresh_socket_def checkRateLimit_def)
  from subscriber_gets_own_updates [OF connected_reachable connected_socket this(1-3) _ this(4), of userOrders demo_update]
  show ?thesis by (simp add: demo_ws_user_def fresh_socket_def)
qed


theorem session_authenticates_socket_witness:
  "user_of (handleConnection (gateway_verify demo_env 9) 7
      \<lparr>hs_protocol = None, hs_cookie = None, hs_queryToken = Some (ar_accessToken demo_login_reply)\<rparr> empty_gateway) 7 =
    Some (Some \<lparr>wu_userId = ''u2'', wu_walletAddress = ''0xab'', wu_role = TRADER\<rparr>)"
proof -
  let ?h = "\<lparr>hs_protocol = None, hs_cookie = None, hs_queryToken = Some (ar_accessToken demo_login_reply)\<rparr>"
  have rpc: "identity_rpc demo_env (demo_draw 1 ''2'') (VerifySiwe ''0xABn1'' ''0xab'') nonce_world =
      (Inr (AuthReply demo_login_reply), login_world)"
    using demo_login by (simp add: replying_def)
  have h: "handshake_token ?h = Inr (ar_accessToken demo_login_reply)"
    by (simp add: handshake_token_def protocol_token_def cookie_token_def)
  have ne: "ar_accessToken demo_login_reply \<noteq> []" "ur_id (ar_user demo_login_reply) = ''u2''"
      "ur_walletAddress (ar_user demo_login_reply) = ''0xab''" "ur_role (ar_user demo_login_reply) = role_text TRADER"
    by (simp_all add: demo_login_reply_def mapToAuthResponse_def mapToUserResponse_def demo_user_def demo_sign_def
        put_string_def put_nat_def)
  have inj: "r = TRADER" if "role_text r = role_text TRADER" for r using that by (cases r) simp_all
  show ?thesis
    using session_authenticates_socket [OF demo_jwt_laws rpc h ne(1), of 9 7 empty_gateway] ne(2-4) inj
    by (auto simp: demo_draw_def)
qed

section \<open>Errors\<close>

text \<open>The errors at concrete inputs: a coding of the details that reads back, and two errors.\<close>

fun put_message :: "err_message \<Rightarrow> string" where
  "put_message (OneText s) = ''s'' @ put_string s"
| "put_message (Texts ws) = ''l'' @ put_nat (length ws) @ put_list ws"

definition get_message :: "string \<Rightarrow> err_message \<times> string" where
  "get_message s =
     (if take 1 s = ''s'' then (case get_string (drop 1 s) of (t, r) \<Rightarrow> (OneText t, r))
      else (case get_nat (drop 1 s) of (n, r) \<Rightarrow> (case get_list n r of (ws, r') \<Rightarrow> (Texts ws, r'))))"

definition demo_stringify :: "error_details \<Rightarrow> string" where
  "demo_stringify d =
     put_message (ed_message d) @ (case ed_errorCode d of None \<Rightarrow> ''0'' | Some c \<Rightarrow> ''1'' @ put_string c)"

definition demo_parse :: "string \<Rightarrow> parsed_json option" where
  "demo_parse s =
     (case get_message s of (m, r) \<Rightarrow>
        Some (JsonObject (Some m) (if r = ''0'' then None else Some (fst (get_string (drop 1 r))))))"

definition demo_filters :: filter_env where
  "demo_filters = \<lparr>json_stringify = demo_stringify, json_parse = demo_parse, status_name = (\<lambda>_. None),
     wire_code = (\<lambda>c. if 0 \<le> c \<and> c \<le> 16 then c else 2), is_production = True\<rparr>"

lemma get_put_message [simp]: "get_message (put_message m @ r) = (m, r)"
  by (cases m) (simp_all add: get_message_def)

lemma demo_filter_laws: "filter_laws demo_filters"
proof -
  have "demo_stringify d \<noteq> []" for d
    by (cases "ed_message d") (simp_all add: demo_stringify_def)
  moreover have "demo_parse (demo_stringify d) = Some (JsonObject (Some (ed_message d)) (ed_errorCode d))" for d
    by (simp add: demo_parse_def demo_stringify_def split: option.split)
  ultimately show ?thesis by (simp add: filter_laws_def demo_filters_def)
qed

lemma demo_details:
  "\<not> isConnectionRefused ''s1110bad0'' ''s1110bad0''"
  by code_simp

definition demo_wire_text :: "int \<Rightarrow> string \<Rightarrow> string" where
  "demo_wire_text code details = details"

theorem http_errors_cross_services_witness:
  "hr_status (answered_with demo_filters demo_wire_text (ThrownHttp 404 (BodyMessage (Some (OneText ''bad'')) None) [])) = 404"
proof -
  have "reachable_service demo_filters demo_wire_text (ThrownHttp 404 (BodyMessage (Some (OneText ''bad'')) None) [])"
    using demo_details
    by (simp add: reachable_service_def grpc_filter_def Let_def serializeErrorDetails_def extractErrorCode_def
        demo_filters_def demo_stringify_def put_string_def put_nat_def demo_wire_text_def numeral_eq_Suc)
  from http_errors_cross_services [OF demo_filter_laws this] show ?thesis by simp
qed

theorem foreign_rpc_codes_are_bad_gateway_witness:
  "hr_status (answered_with demo_filters demo_wire_text (ThrownRpcObject (Some 400) (Some (OneText ''bad'')) None None)) = 502"
proof -
  have "reachable_service demo_filters demo_wire_text (ThrownRpcObject (Some 400) (Some (OneText ''bad'')) None None)"
    using demo_details
    by (simp add: reachable_service_def grpc_filter_def Let_def serializeErrorDetails_def extractErrorCode_def
        demo_filters_def demo_stringify_def put_string_def put_nat_def demo_wire_text_def numeral_eq_Suc)
  from foreign_rpc_codes_are_bad_gateway [OF demo_filter_laws this] show ?thesis by simp
qed

section \<open>The HTTP edge\<close>

text \<open>The HTTP edge at concrete inputs: an order of the user \<open>u1\<close>.\<close>

definition demo_gateway :: gateway_env where
  "demo_gateway = \<lparr>ge_production = True, ge_isEthereumAddress = (\<lambda>_. True), ge_isUUID = (\<lambda>_. True), ge_newKey = ''k''\<rparr>"

definition demo_claims :: ws_claims where
  "demo_claims = \<lparr>cl_sub = Some ''u1'', cl_walletAddress = Some ''0xab'', cl_role = Some ''trader''\<rparr>"

definition demo_order :: order_dto where
  "demo_order = \<lparr>od_pair = ''BTC_USDT'', od_side = BUY, od_type = LIMIT, od_price = ''10.5'', od_amount = ''2''\<rparr>"

lemma demo_user: "claims_user demo_claims = Some \<lparr>wu_userId = ''u1'', wu_walletAddress = ''0xab'', wu_role = TRADER\<rparr>"
  using parse_role_text [of TRADER] by (simp add: claims_user_def demo_claims_def)

lemma demo_order_valid: "valid_order demo_order"
  by code_simp

lemma demo_route:
  "gateway_route demo_gateway (Some demo_claims) (PostOrder demo_order (Some ''key'')) =
     Inr (Some (CreateOrderCall ''u1'' demo_order ''key'', Some ''u1''))"
  by (simp add: gateway_route_def jwt_user_def user_route_def demo_user demo_order_valid checked_def key_required_def non_empty_def)

theorem calls_speak_for_their_caller_witness:
  "\<exists>cl u. Some demo_claims = Some cl \<and> claims_user cl = Some u \<and> Some ''u1'' = Some (wu_userId u) \<and> ''u1'' = wu_userId u"
  using calls_speak_for_their_caller [OF demo_route, of "''u1''"] by auto

theorem forwarded_amounts_are_decimals_witness:
  "0 \<le> units_of ''10.5'' \<and> AMOUNT_REGEX ''10.5''"
proof -
  have "integer_part ''10.5'' = ''10''" by code_simp
  then show ?thesis
    using forwarded_amounts_are_decimals [OF demo_route, of "''10.5''"] by (simp add: demo_order_def)
qed

end
