(* ===== verification/Config.thy ===== *)
theory Config
  imports Decimal
begin

text \<open>
  How a service is configured before it starts: the cascade of \<open>.env\<close> files and the validation of the
  environment (\<open>libs/common/src/utils/env.utils.ts\<close> and each \<open>config/env.validation.ts\<close>), and the
  configuration objects read from it (each \<open>config/*.config.ts\<close>, \<open>kafka.config.ts\<close>). The environment is
  a map of texts; a number of JavaScript is kept as an integer and a power of ten.
\<close>

type_synonym environment = "string \<rightharpoonup> string"

section \<open>Numbers\<close>

text \<open>
  \<open>Number (s)\<close> and \<open>parseInt (s, 10)\<close> on texts, exact where a double is (up to fifteen digits);
  \<open>None\<close> is \<open>NaN\<close> or infinite. \<open>(m, e)\<close> stands for \<open>m * 10 ^ e\<close>.
\<close>

type_synonym js_number = "(int \<times> int) option"

definition signed :: "string \<Rightarrow> int \<times> string" where
  "signed s =
     (if s \<noteq> [] \<and> hd s = CHR ''-'' then (-1, tl s) else if s \<noteq> [] \<and> hd s = CHR ''+'' then (1, tl s) else (1, s))"

definition exponent_of :: "string \<Rightarrow> int option" where
  "exponent_of s =
     (if s = [] then Some 0
      else if hd s \<in> {CHR ''e'', CHR ''E''}
      then (case signed (tl s) of (sg, d) \<Rightarrow> if d \<noteq> [] \<and> list_all is_digit d then Some (sg * read_digits d) else None)
      else None)"

definition decimal_literal :: "string \<Rightarrow> js_number" where
  "decimal_literal s =
     (let i = takeWhile is_digit s; r = dropWhile is_digit s;
          dot = (r \<noteq> [] \<and> hd r = CHR ''.'');
          f = (if dot then takeWhile is_digit (tl r) else []);
          r' = (if dot then dropWhile is_digit (tl r) else r)
      in if i = [] \<and> f = [] then None
         else map_option (\<lambda>e. (read_digits (i @ f), e - int (length f))) (exponent_of r'))"

definition radix_digit :: "char \<Rightarrow> int" where
  "radix_digit c =
     (if is_digit c then digit_value c
      else if 97 \<le> (of_char (js_lower_char c) :: int) \<and> (of_char (js_lower_char c) :: int) \<le> 102
      then of_char (js_lower_char c) - 87 else 16)"

definition radix_literal :: "int \<Rightarrow> string \<Rightarrow> js_number" where
  "radix_literal b s =
     (if s \<noteq> [] \<and> list_all (\<lambda>c. radix_digit c < b) s then Some (foldl (\<lambda>v c. b * v + radix_digit c) 0 s, 0) else None)"

definition js_Number :: "string \<Rightarrow> js_number" where
  "js_Number s =
     (let t = js_trim s; p = js_toLowerCase (take 2 t)
      in if t = [] then Some (0, 0)
         else if p = ''0x'' then radix_literal 16 (drop 2 t)
         else if p = ''0o'' then radix_literal 8 (drop 2 t)
         else if p = ''0b'' then radix_literal 2 (drop 2 t)
         else (case signed t of (sg, u) \<Rightarrow> map_option (\<lambda>(m, e). (sg * m, e)) (decimal_literal u)))"

definition js_parseInt :: "string \<Rightarrow> int option" where
  "js_parseInt s =
     (case signed (js_trim s) of (sg, u) \<Rightarrow>
        (let d = takeWhile is_digit u in if d = [] then None else Some (sg * read_digits d)))"

text \<open>\<open>Number.isInteger\<close>, with the integer.\<close>

definition as_integer :: "js_number \<Rightarrow> int option" where
  "as_integer x =
     (case x of
        None \<Rightarrow> None
      | Some (m, e) \<Rightarrow>
          (if 0 \<le> e then Some (m * 10 ^ nat e)
           else if m mod 10 ^ nat (- e) = 0 then Some (m div 10 ^ nat (- e)) else None))"

section \<open>Loading\<close>

text \<open>
  The files in their order of priority, none of which overrides what is set already. \<open>file\<close> gives the
  assignments in the file of a name, if it exists.
\<close>

definition DEFAULT_ENV_FILES :: "string list" where
  "DEFAULT_ENV_FILES = [''.env.development.local'', ''.env.development'', ''.env'']"

fun loadEnv :: "(string \<Rightarrow> environment option) \<Rightarrow> string list \<Rightarrow> environment \<Rightarrow> environment" where
  "loadEnv file [] env = env"
| "loadEnv file (f # fs) env = loadEnv file fs (case file f of None \<Rightarrow> env | Some vars \<Rightarrow> vars ++ env)"

section \<open>Validation\<close>

text \<open>The decorators of a field: its check, whether it is \<open>@IsOptional\<close>, and its initial value.\<close>

datatype env_value = TextValue string | NumberValue js_number

datatype field_check =
    IsEnum "string list"
  | IsText
  | IsNotEmpty
  | IsIntFrom int
  | IsIntWithin int int

record env_field =
  ef_name :: string
  ef_check :: field_check
  ef_optional :: bool
  ef_default :: "env_value option"

fun field_accepts :: "field_check \<Rightarrow> env_value \<Rightarrow> bool" where
  "field_accepts (IsEnum vs) (TextValue s) \<longleftrightarrow> s \<in> set vs"
| "field_accepts IsText (TextValue s) \<longleftrightarrow> True"
| "field_accepts IsNotEmpty (TextValue s) \<longleftrightarrow> s \<noteq> []"
| "field_accepts (IsIntFrom lo) (NumberValue x) \<longleftrightarrow> (case as_integer x of None \<Rightarrow> False | Some n \<Rightarrow> lo \<le> n)"
| "field_accepts (IsIntWithin lo hi) (NumberValue x) \<longleftrightarrow> (case as_integer x of None \<Rightarrow> False | Some n \<Rightarrow> lo \<le> n \<and> n \<le> hi)"
| "field_accepts _ _ \<longleftrightarrow> False"

fun is_number_check :: "field_check \<Rightarrow> bool" where
  "is_number_check (IsIntFrom _) = True"
| "is_number_check (IsIntWithin _ _) = True"
| "is_number_check _ = False"

text \<open>\<open>plainToInstance\<close>: numeric fields (\<open>@Type (() => Number)\<close>) are converted, unset ones keep their initial value.\<close>

definition field_value :: "env_field \<Rightarrow> environment \<Rightarrow> env_value option" where
  "field_value fd env =
     (case env (ef_name fd) of
        None \<Rightarrow> ef_default fd
      | Some s \<Rightarrow> Some (if is_number_check (ef_check fd) then NumberValue (js_Number s) else TextValue s))"

definition field_ok :: "environment \<Rightarrow> env_field \<Rightarrow> bool" where
  "field_ok env fd \<longleftrightarrow> (case field_value fd env of None \<Rightarrow> ef_optional fd | Some v \<Rightarrow> field_accepts (ef_check fd) v)"

text \<open>The names of the fields that fail, or the validated instance.\<close>

definition validateEnv :: "env_field list \<Rightarrow> environment \<Rightarrow> string list + (string \<rightharpoonup> env_value)" where
  "validateEnv schema env =
     (let errors = filter (\<lambda>fd. \<not> field_ok env fd) schema
      in if errors \<noteq> [] then Inl (map ef_name errors)
         else Inr (\<lambda>k. case find (\<lambda>fd. ef_name fd = k) schema of None \<Rightarrow> None | Some fd \<Rightarrow> field_value fd env))"

definition loadAndValidateEnv ::
  "env_field list \<Rightarrow> (string \<Rightarrow> environment option) \<Rightarrow> environment \<Rightarrow> string list + (string \<rightharpoonup> env_value)" where
  "loadAndValidateEnv schema file env = validateEnv schema (loadEnv file DEFAULT_ENV_FILES env)"

section \<open>The schemas\<close>

definition text_default :: "string \<Rightarrow> env_value option" where "text_default s = Some (TextValue s)"

definition number_default :: "int \<Rightarrow> env_value option" where "number_default n = Some (NumberValue (Some (n, 0)))"

definition required :: "string \<Rightarrow> env_value option \<Rightarrow> env_field" where
  "required k d = \<lparr>ef_name = k, ef_check = IsNotEmpty, ef_optional = False, ef_default = d\<rparr>"

definition optional_text :: "string \<Rightarrow> env_value option \<Rightarrow> env_field" where
  "optional_text k d = \<lparr>ef_name = k, ef_check = IsText, ef_optional = True, ef_default = d\<rparr>"

definition number_field :: "string \<Rightarrow> bool \<Rightarrow> int \<Rightarrow> int \<Rightarrow> env_value option \<Rightarrow> env_field" where
  "number_field k opt lo hi d = \<lparr>ef_name = k, ef_check = IsIntWithin lo hi, ef_optional = opt, ef_default = d\<rparr>"

definition node_env_field :: env_field where
  "node_env_field = \<lparr>ef_name = ''NODE_ENV'', ef_check = IsEnum [''development'', ''production'', ''test''],
     ef_optional = True, ef_default = text_default ''development''\<rparr>"

definition database_fields :: "string \<Rightarrow> env_field list" where
  "database_fields dbName =
     [required ''DB_HOST'' (text_default ''localhost''),
      number_field ''DB_PORT'' False 0 65535 (number_default 5432),
      required ''DB_USER'' (text_default ''postgres''),
      required ''DB_PASSWORD'' None,
      required ''DB_NAME'' (text_default dbName),
      number_field ''DB_MAX_CONNECTIONS'' False 1 100 (number_default 10)]"

definition redis_fields :: "env_field list" where
  "redis_fields =
     [required ''REDIS_HOST'' (text_default ''localhost''),
      number_field ''REDIS_PORT'' False 0 65535 (number_default 6379),
      optional_text ''REDIS_PASSWORD'' None]"

definition kafka_fields :: "string \<Rightarrow> env_field list" where
  "kafka_fields client =
     [required ''KAFKA_BROKERS'' (text_default ''localhost:9094''),
      required ''KAFKA_CLIENT_ID'' (text_default client),
      required ''APP_ENV'' (text_default ''dev'')]"

definition accounts_schema :: "env_field list" where
  "accounts_schema =
     [node_env_field, required ''ACCOUNTS_GRPC_URL'' (text_default ''0.0.0.0:50052''), optional_text ''DATABASE_URL'' None]
     @ database_fields ''accounts_db'' @ kafka_fields ''accounts-service''"

definition orders_schema :: "env_field list" where
  "orders_schema =
     [node_env_field, required ''ORDERS_GRPC_URL'' (text_default ''0.0.0.0:50053''),
      required ''ACCOUNTS_GRPC_URL'' (text_default ''0.0.0.0:50052''), optional_text ''DATABASE_URL'' None]
     @ database_fields ''orders_db'' @ redis_fields @ kafka_fields ''orders-service''"

definition HARDHAT_PRIVATE_KEY :: string where
  "HARDHAT_PRIVATE_KEY = ''0xac0974bec39a17e36ba4a6b4d238ff944bacb478cbed5efcae784d7bf4f2ff80''"

definition transfers_schema :: "env_field list" where
  "transfers_schema =
     [node_env_field, required ''TRANSFERS_GRPC_URL'' (text_default ''0.0.0.0:50054''),
      required ''ACCOUNTS_GRPC_URL'' (text_default ''0.0.0.0:50052''), optional_text ''DATABASE_URL'' None]
     @ database_fields ''transfers_db''
     @ [required ''EVM_RPC_URL'' (text_default ''http://127.0.0.1:8545''),
        required ''HOT_WALLET_PRIVATE_KEY'' (text_default HARDHAT_PRIVATE_KEY),
        required ''DEPOSIT_VAULT_ADDRESS'' (text_default ''0x0165878a594ca255338adfa4d48449f69242eb8f''),
        required ''USDT_TOKEN_ADDRESS'' (text_default ''0xa513e6e4b8f2a923d98304ec87f64353c4d5c853''),
        \<lparr>ef_name = ''CONFIRMATIONS'', ef_check = IsIntFrom 0, ef_optional = False, ef_default = number_default 0\<rparr>]
     @ kafka_fields ''transfers-service''"

definition copy_trading_schema :: "env_field list" where
  "copy_trading_schema =
     [node_env_field, required ''COPY_TRADING_GRPC_URL'' (text_default ''0.0.0.0:50055''),
      required ''ACCOUNTS_GRPC_URL'' (text_default ''0.0.0.0:50052''),
      required ''ORDERS_GRPC_URL'' (text_default ''0.0.0.0:50053''), optional_text ''DATABASE_URL'' None,
      optional_text ''COPY_TRADING_DATABASE_URL'' None]
     @ database_fields ''copy_trading_db'' @ redis_fields @ kafka_fields ''copy-trading-service''"

definition identity_schema :: "env_field list" where
  "identity_schema =
     [node_env_field, required ''IDENTITY_GRPC_URL'' (text_default ''0.0.0.0:50051''), optional_text ''DATABASE_URL'' None]
     @ database_fields ''identity_db'' @ redis_fields
     @ [required ''JWT_SECRET'' None, optional_text ''JWT_EXPIRES_IN'' (text_default ''15m'')]"

definition gateway_schema :: "env_field list" where
  "gateway_schema =
     [node_env_field, number_field ''PORT'' True 1 65535 (number_default 4000),
      optional_text ''CORS_ORIGIN'' (text_default ''http://localhost:3000''),
      required ''IDENTITY_GRPC_URL'' (text_default ''0.0.0.0:50051''),
      required ''ACCOUNTS_GRPC_URL'' (text_default ''0.0.0.0:50052''),
      required ''ORDERS_GRPC_URL'' (text_default ''0.0.0.0:50053''),
      required ''TRANSFERS_GRPC_URL'' (text_default ''0.0.0.0:50054''),
      required ''COPY_TRADING_GRPC_URL'' (text_default ''0.0.0.0:50055''),
      required ''COOKIE_SECRET'' (text_default ''dev-cookie-secret-min-32-chars-long-local''),
      required ''JWT_SECRET'' None,
      number_field ''GRPC_DEFAULT_DEADLINE_MS'' True 1 120000 (number_default 5000),
      number_field ''WS_PORT'' True 1 65535 None,
      optional_text ''WS_PATH'' (text_default ''/ws''),
      required ''REDIS_HOST'' (text_default ''localhost''),
      number_field ''REDIS_PORT'' True 1 65535 (number_default 6379),
      optional_text ''REDIS_PASSWORD'' None,
      required ''KAFKA_BROKERS'' (text_default ''localhost:9094''),
      optional_text ''KAFKA_CLIENT_ID'' (text_default ''api-gateway''),
      optional_text ''APP_ENV'' (text_default ''dev'')]"

section \<open>The configuration objects\<close>

text \<open>\<open>env[k] ?? d\<close>, \<open>env[k] || undefined\<close> and \<open>env[k] ? Number (env[k]) : d\<close>.\<close>

definition or_else :: "string option \<Rightarrow> string \<Rightarrow> string" where
  "or_else x d = (case x of None \<Rightarrow> d | Some s \<Rightarrow> s)"

definition truthy :: "string option \<Rightarrow> string option" where
  "truthy x = (if x = Some [] then None else x)"

definition number_or :: "string option \<Rightarrow> js_number \<Rightarrow> js_number" where
  "number_or x d = (case truthy x of None \<Rightarrow> d | Some s \<Rightarrow> js_Number s)"

definition int_or :: "string option \<Rightarrow> int \<Rightarrow> int option" where
  "int_or x d = (case x of None \<Rightarrow> Some d | Some s \<Rightarrow> js_parseInt s)"

record database_config =
  dc_url :: "string option"
  dc_host :: string
  dc_port :: "int option"
  dc_user :: string
  dc_password :: "string option"
  dc_name :: string
  dc_maxConnections :: "int option"

definition databaseConfig :: "string \<Rightarrow> environment \<Rightarrow> database_config" where
  "databaseConfig dbName env =
     \<lparr>dc_url = env ''DATABASE_URL'', dc_host = or_else (env ''DB_HOST'') ''localhost'', dc_port = int_or (env ''DB_PORT'') 5432,
      dc_user = or_else (env ''DB_USER'') ''postgres'', dc_password = env ''DB_PASSWORD'',
      dc_name = or_else (env ''DB_NAME'') dbName, dc_maxConnections = int_or (env ''DB_MAX_CONNECTIONS'') 10\<rparr>"

text \<open>The copy trading service may have a database of its own.\<close>

definition copy_databaseConfig :: "environment \<Rightarrow> database_config" where
  "copy_databaseConfig env =
     (databaseConfig ''copy_trading_db'' env)
       \<lparr>dc_url := (case truthy (env ''COPY_TRADING_DATABASE_URL'') of None \<Rightarrow> env ''DATABASE_URL'' | Some u \<Rightarrow> Some u)\<rparr>"

definition show_parsed :: "int option \<Rightarrow> string" where
  "show_parsed n =
     (case n of None \<Rightarrow> ''NaN'' | Some i \<Rightarrow> (if i < 0 then CHR ''-'' # show_nat (nat (- i)) else show_nat (nat i)))"

definition connectionString :: "database_config \<Rightarrow> string" where
  "connectionString c =
     (case truthy (dc_url c) of
        Some u \<Rightarrow> u
      | None \<Rightarrow>
          ''postgres://'' @ dc_user c @ '':'' @ or_else (dc_password c) ''undefined'' @ ''@'' @ dc_host c @ '':''
          @ show_parsed (dc_port c) @ ''/'' @ dc_name c)"

record redis_config =
  rc_host :: string
  rc_port :: "int option"
  rc_password :: "string option"

definition redisConfig :: "environment \<Rightarrow> redis_config" where
  "redisConfig env =
     \<lparr>rc_host = or_else (env ''REDIS_HOST'') ''localhost'', rc_port = int_or (env ''REDIS_PORT'') 6379,
      rc_password = truthy (env ''REDIS_PASSWORD'')\<rparr>"

record kafka_config =
  kc_brokers :: "string list"
  kc_clientId :: string
  kc_appEnv :: string

definition kafkaConfig :: "environment \<Rightarrow> kafka_config" where
  "kafkaConfig env =
     \<lparr>kc_brokers = filter (\<lambda>b. b \<noteq> []) (map js_trim (js_split (CHR '','')
        (or_else (truthy (env ''KAFKA_BROKERS'')) ''localhost:9094''))),
      kc_clientId = or_else (truthy (env ''KAFKA_CLIENT_ID'')) ''ether-trade'',
      kc_appEnv = or_else (truthy (env ''APP_ENV'')) ''dev''\<rparr>"

text \<open>The brokers the producer and the consumers connect to, and the client ids they use.\<close>

definition brokers_used :: "kafka_config \<Rightarrow> string list" where
  "brokers_used c = (if kc_brokers c = [] then [''localhost:9094''] else kc_brokers c)"

definition consumer_clientId :: "kafka_config \<Rightarrow> string \<Rightarrow> string" where
  "consumer_clientId c groupId = or_else (truthy (Some (kc_clientId c))) ''ether-trade'' @ ''-'' @ groupId"

definition producer_clientId :: "kafka_config \<Rightarrow> string" where
  "producer_clientId c = or_else (truthy (Some (kc_clientId c))) ''ether-trade-producer''"

text \<open>The services' own: their address, those of the services they call, and the chain.\<close>

record service_config =
  sc_nodeEnv :: string
  sc_grpcUrl :: string
  sc_accountsGrpcUrl :: "string option"
  sc_ordersGrpcUrl :: "string option"

definition accounts_appConfig :: "environment \<Rightarrow> service_config" where
  "accounts_appConfig env =
     \<lparr>sc_nodeEnv = or_else (env ''NODE_ENV'') ''development'', sc_grpcUrl = or_else (env ''ACCOUNTS_GRPC_URL'') ''0.0.0.0:50052'',
      sc_accountsGrpcUrl = None, sc_ordersGrpcUrl = None\<rparr>"

definition identity_appConfig :: "environment \<Rightarrow> service_config" where
  "identity_appConfig env =
     \<lparr>sc_nodeEnv = or_else (env ''NODE_ENV'') ''development'', sc_grpcUrl = or_else (env ''IDENTITY_GRPC_URL'') ''0.0.0.0:50051'',
      sc_accountsGrpcUrl = None, sc_ordersGrpcUrl = None\<rparr>"

definition orders_appConfig :: "environment \<Rightarrow> service_config" where
  "orders_appConfig env =
     \<lparr>sc_nodeEnv = or_else (env ''NODE_ENV'') ''development'', sc_grpcUrl = or_else (env ''ORDERS_GRPC_URL'') ''0.0.0.0:50053'',
      sc_accountsGrpcUrl = Some (or_else (env ''ACCOUNTS_GRPC_URL'') ''0.0.0.0:50052''), sc_ordersGrpcUrl = None\<rparr>"

definition copy_appConfig :: "environment \<Rightarrow> service_config" where
  "copy_appConfig env =
     \<lparr>sc_nodeEnv = or_else (env ''NODE_ENV'') ''development'', sc_grpcUrl = or_else (env ''COPY_TRADING_GRPC_URL'') ''0.0.0.0:50055'',
      sc_accountsGrpcUrl = Some (or_else (env ''ACCOUNTS_GRPC_URL'') ''0.0.0.0:50052''),
      sc_ordersGrpcUrl = Some (or_else (env ''ORDERS_GRPC_URL'') ''0.0.0.0:50053'')\<rparr>"

record transfers_config = service_config +
  tc_evmRpcUrl :: string
  tc_hotWalletPrivateKey :: string
  tc_depositVaultAddress :: string
  tc_usdtTokenAddress :: string
  tc_confirmations :: "int option"

definition transfers_appConfig :: "environment \<Rightarrow> transfers_config" where
  "transfers_appConfig env =
     \<lparr>sc_nodeEnv = or_else (env ''NODE_ENV'') ''development'', sc_grpcUrl = or_else (env ''TRANSFERS_GRPC_URL'') ''0.0.0.0:50054'',
      sc_accountsGrpcUrl = Some (or_else (env ''ACCOUNTS_GRPC_URL'') ''0.0.0.0:50052''), sc_ordersGrpcUrl = None,
      tc_evmRpcUrl = or_else (env ''EVM_RPC_URL'') ''http://127.0.0.1:8545'',
      tc_hotWalletPrivateKey = or_else (env ''HOT_WALLET_PRIVATE_KEY'') HARDHAT_PRIVATE_KEY,
      tc_depositVaultAddress = or_else (env ''DEPOSIT_VAULT_ADDRESS'') ''0x0165878a594ca255338adfa4d48449f69242eb8f'',
      tc_usdtTokenAddress = or_else (env ''USDT_TOKEN_ADDRESS'') ''0xa513e6e4b8f2a923d98304ec87f64353c4d5c853'',
      tc_confirmations = int_or (env ''CONFIRMATIONS'') 0\<rparr>"

record auth_config =
  ac_jwtSecret :: "string option"
  ac_jwtExpiresIn :: string

definition authConfig :: "environment \<Rightarrow> auth_config" where
  "authConfig env = \<lparr>ac_jwtSecret = env ''JWT_SECRET'', ac_jwtExpiresIn = or_else (env ''JWT_EXPIRES_IN'') ''15m''\<rparr>"

record gateway_config =
  gc_nodeEnv :: string
  gc_port :: js_number
  gc_corsOrigin :: string
  gc_cookieSecret :: string
  gc_jwtSecret :: string
  gc_identityGrpcUrl :: string
  gc_accountsGrpcUrl :: string
  gc_ordersGrpcUrl :: string
  gc_transfersGrpcUrl :: string
  gc_copyTradingGrpcUrl :: string
  gc_grpcDefaultDeadlineMs :: js_number
  gc_ordersGrpcDeadlineMs :: js_number
  gc_wsPort :: "js_number option"
  gc_wsPath :: string
  gc_redisHost :: string
  gc_redisPort :: js_number
  gc_redisPassword :: "string option"
  gc_kafkaBrokers :: string
  gc_kafkaClientId :: string
  gc_appEnv :: string

definition gatewayConfig :: "environment \<Rightarrow> gateway_config" where
  "gatewayConfig env =
     \<lparr>gc_nodeEnv = or_else (env ''NODE_ENV'') ''development'',
      gc_port = number_or (env ''PORT'') (Some (4000, 0)),
      gc_corsOrigin = or_else (env ''CORS_ORIGIN'') ''http://localhost:3000'',
      gc_cookieSecret = or_else (env ''COOKIE_SECRET'') ''dev-cookie-secret-min-32-chars-long-local'',
      gc_jwtSecret = or_else (env ''JWT_SECRET'') [],
      gc_identityGrpcUrl = or_else (env ''IDENTITY_GRPC_URL'') ''0.0.0.0:50051'',
      gc_accountsGrpcUrl = or_else (env ''ACCOUNTS_GRPC_URL'') ''0.0.0.0:50052'',
      gc_ordersGrpcUrl = or_else (env ''ORDERS_GRPC_URL'') ''0.0.0.0:50053'',
      gc_transfersGrpcUrl = or_else (env ''TRANSFERS_GRPC_URL'') ''0.0.0.0:50054'',
      gc_copyTradingGrpcUrl = or_else (env ''COPY_TRADING_GRPC_URL'') ''0.0.0.0:50055'',
      gc_grpcDefaultDeadlineMs = number_or (env ''GRPC_DEFAULT_DEADLINE_MS'') (Some (5000, 0)),
      gc_ordersGrpcDeadlineMs = number_or (env ''ORDERS_GRPC_DEADLINE_MS'') (Some (2000, 0)),
      gc_wsPort = map_option js_Number (truthy (env ''WS_PORT'')),
      gc_wsPath = or_else (env ''WS_PATH'') ''/ws'',
      gc_redisHost = or_else (env ''REDIS_HOST'') ''localhost'',
      gc_redisPort = number_or (env ''REDIS_PORT'') (Some (6379, 0)),
      gc_redisPassword = truthy (env ''REDIS_PASSWORD''),
      gc_kafkaBrokers = or_else (env ''KAFKA_BROKERS'') ''localhost:9094'',
      gc_kafkaClientId = or_else (env ''KAFKA_CLIENT_ID'') ''api-gateway'',
      gc_appEnv = or_else (env ''APP_ENV'') ''dev''\<rparr>"

section \<open>The cascade\<close>

fun first_set :: "string \<Rightarrow> environment list \<Rightarrow> string option" where
  "first_set k [] = None"
| "first_set k (env # envs) = (case env k of None \<Rightarrow> first_set k envs | Some v \<Rightarrow> Some v)"

text \<open>
  A variable has its value in the process's environment, or else in the first of the files that
  exists and sets it.
\<close>

theorem loadEnv_first_wins: "loadEnv file fs env k = first_set k (env # List.map_filter file fs)"
  by (induction fs arbitrary: env) (auto simp: map_add_def split: option.split)

section \<open>What has passed the validation\<close>

lemma validateEnv_Inr:
  "validateEnv schema env = Inr vals \<longleftrightarrow>
     (\<forall>fd \<in> set schema. field_ok env fd) \<and>
     vals = (\<lambda>k. case find (\<lambda>fd. ef_name fd = k) schema of None \<Rightarrow> None | Some fd \<Rightarrow> field_value fd env)"
  by (auto simp: validateEnv_def filter_empty_conv)

lemma required_ok:
  "field_ok env (required k d) \<longleftrightarrow>
     (case env k of None \<Rightarrow> (case d of None \<Rightarrow> False | Some v \<Rightarrow> field_accepts IsNotEmpty v) | Some s \<Rightarrow> s \<noteq> [])"
  by (auto simp: field_ok_def field_value_def required_def split: option.split)

definition int_within :: "int \<Rightarrow> int \<Rightarrow> js_number \<Rightarrow> bool" where
  "int_within lo hi x \<longleftrightarrow> (\<exists>n. as_integer x = Some n \<and> lo \<le> n \<and> n \<le> hi)"

lemma number_field_ok:
  "field_ok env (number_field k opt lo hi d) \<longleftrightarrow>
     (case env k of
        None \<Rightarrow> (case d of None \<Rightarrow> opt | Some v \<Rightarrow> field_accepts (IsIntWithin lo hi) v)
      | Some s \<Rightarrow> int_within lo hi (js_Number s))"
  by (auto simp: field_ok_def field_value_def number_field_def int_within_def split: option.split)

lemmas schema_facts = validateEnv_Inr required_ok number_field_ok text_default_def number_default_def

lemma number_or_within:
  assumes "case x of None \<Rightarrow> True | Some s \<Rightarrow> int_within lo hi (js_Number s)" and "0 < lo" and "int_within lo hi d"
  shows "int_within lo hi (number_or x d)"
proof (cases "x = Some []")
  case True
  have "as_integer (js_Number []) = Some 0" by (simp add: js_Number_def js_trim_def as_integer_def)
  with assms(1,2) True show ?thesis by (simp add: int_within_def)
qed (use assms(1,3) in \<open>auto simp: number_or_def truthy_def split: option.splits\<close>)

text \<open>
  A gateway that starts has a usable configuration: its port, its Redis port and its default deadline
  are integers in their ranges, its websocket port, if it has one, too, and its JWT secret and the
  addresses of the services are not empty.
\<close>

theorem started_gateway_is_configured:
  assumes "validateEnv gateway_schema env = Inr vals"
  shows "int_within 1 65535 (gc_port (gatewayConfig env)) \<and> int_within 1 65535 (gc_redisPort (gatewayConfig env))
    \<and> int_within 1 120000 (gc_grpcDefaultDeadlineMs (gatewayConfig env))
    \<and> (\<forall>p. gc_wsPort (gatewayConfig env) = Some p \<longrightarrow> int_within 1 65535 p)
    \<and> gc_jwtSecret (gatewayConfig env) \<noteq> []
    \<and> [] \<notin> {gc_identityGrpcUrl (gatewayConfig env), gc_accountsGrpcUrl (gatewayConfig env), gc_ordersGrpcUrl (gatewayConfig env),
         gc_transfersGrpcUrl (gatewayConfig env), gc_copyTradingGrpcUrl (gatewayConfig env)}"
proof -
  have ok: "field_ok env fd" if "fd \<in> set gateway_schema" for fd
    using assms that by (simp add: validateEnv_Inr)
  have num: "case env k of None \<Rightarrow> True | Some s \<Rightarrow> int_within lo hi (js_Number s)"
    if "number_field k True lo hi d \<in> set gateway_schema" for k lo hi d
    using ok [OF that] by (auto simp: number_field_ok split: option.splits)
  have present: "or_else (env k) d \<noteq> []" if "required k (text_default d) \<in> set gateway_schema" for k d
    using ok [OF that] by (auto simp: required_ok or_else_def text_default_def split: option.splits)
  have "field_ok env (required ''JWT_SECRET'' None)" by (rule ok) (simp add: gateway_schema_def)
  then have "or_else (env ''JWT_SECRET'') [] \<noteq> []" by (auto simp: required_ok or_else_def split: option.splits)
  moreover have "int_within 1 65535 p" if "map_option js_Number (truthy (env ''WS_PORT'')) = Some p" for p
    using num [of "''WS_PORT''" 1 65535 None] that by (auto simp: gateway_schema_def truthy_def split: if_splits)
  moreover have "int_within 1 65535 (number_or (env ''PORT'') (Some (4000, 0)))"
    by (rule number_or_within [OF num [where d = "number_default 4000"]])
      (simp_all add: gateway_schema_def int_within_def as_integer_def)
  moreover have "int_within 1 65535 (number_or (env ''REDIS_PORT'') (Some (6379, 0)))"
    by (rule number_or_within [OF num [where d = "number_default 6379"]])
      (simp_all add: gateway_schema_def int_within_def as_integer_def)
  moreover have "int_within 1 120000 (number_or (env ''GRPC_DEFAULT_DEADLINE_MS'') (Some (5000, 0)))"
    by (rule number_or_within [OF num [where d = "number_default 5000"]])
      (simp_all add: gateway_schema_def int_within_def as_integer_def)
  moreover have "or_else (env ''IDENTITY_GRPC_URL'') ''0.0.0.0:50051'' \<noteq> []" "or_else (env ''ACCOUNTS_GRPC_URL'') ''0.0.0.0:50052'' \<noteq> []"
    "or_else (env ''ORDERS_GRPC_URL'') ''0.0.0.0:50053'' \<noteq> []" "or_else (env ''TRANSFERS_GRPC_URL'') ''0.0.0.0:50054'' \<noteq> []"
    "or_else (env ''COPY_TRADING_GRPC_URL'') ''0.0.0.0:50055'' \<noteq> []"
    by (rule present, simp add: gateway_schema_def)+
  ultimately show ?thesis
    unfolding gatewayConfig_def gateway_config.simps by simp
qed

text \<open>
  The deadline of the calls to the orders service is the exception: it is read but not validated, and
  a text that is no number, such as \<open>2s\<close>, starts the gateway with a deadline that is \<open>NaN\<close>.
\<close>

lemma validateEnv_unknown_variable:
  "\<forall>fd \<in> set schema. ef_name fd \<noteq> k \<Longrightarrow> validateEnv schema (env(k \<mapsto> s)) = validateEnv schema env"
proof -
  assume k: "\<forall>fd \<in> set schema. ef_name fd \<noteq> k"
  then have v: "\<forall>fd \<in> set schema. field_value fd (env(k \<mapsto> s)) = field_value fd env" by (simp add: field_value_def)
  then have "filter (\<lambda>fd. \<not> field_ok (env(k \<mapsto> s)) fd) schema = filter (\<lambda>fd. \<not> field_ok env fd) schema"
    by (intro filter_cong) (simp_all add: field_ok_def)
  moreover have "(\<lambda>j. case find (\<lambda>fd. ef_name fd = j) schema of None \<Rightarrow> None | Some fd \<Rightarrow> field_value fd (env(k \<mapsto> s)))
      = (\<lambda>j. case find (\<lambda>fd. ef_name fd = j) schema of None \<Rightarrow> None | Some fd \<Rightarrow> field_value fd env)"
    using v by (intro ext) (auto split: option.split dest: find_SomeD)
  ultimately show ?thesis by (simp only: validateEnv_def)
qed

theorem orders_deadline_not_validated:
  "validateEnv gateway_schema (env(''ORDERS_GRPC_DEADLINE_MS'' \<mapsto> ''2s'')) = validateEnv gateway_schema env
   \<and> gc_ordersGrpcDeadlineMs (gatewayConfig (env(''ORDERS_GRPC_DEADLINE_MS'' \<mapsto> ''2s''))) = None"
proof -
  have "js_Number ''2s'' = None" by code_simp
  then show ?thesis
    by (intro conjI validateEnv_unknown_variable)
      (simp_all add: gateway_schema_def node_env_field_def number_field_def required_def optional_text_def
        gatewayConfig_def number_or_def truthy_def)
qed

section \<open>Databases\<close>

lemma digits_not_space: "is_digit c \<Longrightarrow> \<not> js_space c"
  by (auto simp: is_digit_def js_space_def)

lemma plain_digits:
  assumes "s \<noteq> []" and "list_all is_digit s"
  shows "js_Number s = Some (read_digits s, 0)" and "js_parseInt s = Some (read_digits s)"
proof -
  have d: "\<forall>c \<in> set s. is_digit c" using assms(2) by (simp add: list_all_iff)
  have t: "js_trim s = s" using d digits_not_space by (blast intro: js_trim_id)
  obtain c r where s: "s = c # r" using assms(1) by (cases s) auto
  have c: "c \<noteq> CHR ''-''" "c \<noteq> CHR ''+''" using d s by (auto simp: is_digit_def)
  have p: "js_toLowerCase (take 2 s) \<noteq> [CHR ''0'', x]" if "\<not> is_digit x" for x
  proof (cases r)
    case (Cons b q)
    then have "is_digit b" using d s by simp
    then have "js_lower_char b = b" by (auto simp: js_lower_char_def is_digit_def)
    with \<open>is_digit b\<close> that s Cons show ?thesis by (auto simp: js_toLowerCase_def)
  qed (use s in \<open>simp add: js_toLowerCase_def\<close>)
  have w: "takeWhile is_digit s = s" "dropWhile is_digit s = []" using d by simp_all
  have sg: "signed s = (1, s)" using c s by (simp add: signed_def)
  have nx: "\<not> is_digit (CHR ''x'')" "\<not> is_digit (CHR ''o'')" "\<not> is_digit (CHR ''b'')" by (simp_all add: is_digit_def)
  have lit: "decimal_literal s = Some (read_digits s, 0)"
    using assms(1) by (simp add: decimal_literal_def w exponent_of_def Let_def)
  show "js_Number s = Some (read_digits s, 0)"
    using p [OF nx(1)] p [OF nx(2)] p [OF nx(3)] assms(1)
    by (simp add: js_Number_def t sg lit Let_def)
  show "js_parseInt s = Some (read_digits s)"
    using assms(1) by (simp add: js_parseInt_def t sg w Let_def)
qed

text \<open>The services that have a database, with its name.\<close>

definition database_services :: "(env_field list \<times> string) list" where
  "database_services =
     [(accounts_schema, ''accounts_db''), (orders_schema, ''orders_db''), (transfers_schema, ''transfers_db''),
      (copy_trading_schema, ''copy_trading_db''), (identity_schema, ''identity_db'')]"

lemma database_schema: "(schema, name) \<in> set database_services \<Longrightarrow> set (database_fields name) \<subseteq> set schema"
  by (auto simp: database_services_def accounts_schema_def orders_schema_def transfers_schema_def copy_trading_schema_def identity_schema_def)

lemma database_names_distinct: "(schema, name) \<in> set database_services \<Longrightarrow> distinct (map ef_name schema)"
proof -
  have "list_all (\<lambda>(schema, name). distinct (map ef_name schema)) database_services" by code_simp
  then show "(schema, name) \<in> set database_services \<Longrightarrow> distinct (map ef_name schema)" by (auto simp: list_all_iff)
qed

text \<open>
  Every service with a database refuses to start without \<open>DB_PASSWORD\<close>, and one that starts has, if the
  port is written in plain digits, a port between 0 and 65535.
\<close>

theorem database_is_configured:
  assumes "(schema, name) \<in> set database_services" and "validateEnv schema env = Inr vals"
    and "\<forall>s. env ''DB_PORT'' = Some s \<longrightarrow> s \<noteq> [] \<and> list_all is_digit s"
  shows "dc_password (databaseConfig name env) \<notin> {None, Some []} \<and> dc_host (databaseConfig name env) \<noteq> []
    \<and> (\<exists>n. dc_port (databaseConfig name env) = Some n \<and> 0 \<le> n \<and> n \<le> 65535)"
proof -
  have ok: "field_ok env fd" if "fd \<in> set (database_fields name)" for fd
    using database_schema [OF assms(1)] assms(2) that by (auto simp: validateEnv_Inr)
  have "field_ok env (required ''DB_PASSWORD'' None)" "field_ok env (required ''DB_HOST'' (text_default ''localhost''))"
    and port: "field_ok env (number_field ''DB_PORT'' False 0 65535 (number_default 5432))"
    by (rule ok, simp add: database_fields_def)+
  then have "env ''DB_PASSWORD'' \<notin> {None, Some []}" "or_else (env ''DB_HOST'') ''localhost'' \<noteq> []"
    by (auto simp: required_ok or_else_def text_default_def split: option.splits)
  moreover have "\<exists>n. int_or (env ''DB_PORT'') 5432 = Some n \<and> 0 \<le> n \<and> n \<le> 65535"
  proof (cases "env ''DB_PORT''")
    case (Some s)
    then have s: "s \<noteq> []" "list_all is_digit s" using assms(3) by simp_all
    show ?thesis
      using port Some plain_digits [OF s] by (simp add: number_field_ok int_within_def as_integer_def int_or_def)
  qed (simp add: int_or_def)
  ultimately show ?thesis by (simp add: databaseConfig_def)
qed

text \<open>
  Otherwise the port that is validated need not be the one that is used: the validation reads a number
  where the configuration reads the digits it starts with. \<open>5e3\<close> is validated as 5000 and used as 5.
\<close>

theorem validated_port_is_not_the_one_used:
  assumes "(schema, name) \<in> set database_services" and "\<forall>fd \<in> set schema. field_ok env fd"
  shows "\<exists>vals. validateEnv schema (env(''DB_PORT'' \<mapsto> ''5e3'')) = Inr vals
    \<and> vals ''DB_PORT'' = Some (NumberValue (Some (5, 3))) \<and> as_integer (Some (5, 3)) = Some 5000
    \<and> dc_port (databaseConfig name (env(''DB_PORT'' \<mapsto> ''5e3''))) = Some 5"
proof -
  let ?env = "env(''DB_PORT'' \<mapsto> ''5e3'')" and ?fd = "number_field ''DB_PORT'' False 0 65535 (number_default 5432)"
  have n: "js_Number ''5e3'' = Some (5, 3)" "js_parseInt ''5e3'' = Some 5" by code_simp+
  have i: "as_integer (Some (5, 3)) = Some 5000" by (simp add: as_integer_def)
  have d: "distinct (map ef_name schema)" and fd: "?fd \<in> set schema"
    using database_names_distinct [OF assms(1)] database_schema [OF assms(1)] by (auto simp: database_fields_def)
  have name: "ef_name ?fd = ''DB_PORT''" by (simp add: number_field_def)
  have f: "find (\<lambda>fd. ef_name fd = ''DB_PORT'') schema = Some ?fd"
    using find_key_Some [OF d fd] by (simp add: name)
  have u: "fd = ?fd" if "fd \<in> set schema" "ef_name fd = ''DB_PORT''" for fd
    using distinct_key_eq [OF d that(1) fd] that(2) name by simp
  have v: "field_value ?fd ?env = Some (NumberValue (Some (5, 3)))"
    using n(1) by (simp add: field_value_def number_field_def)
  have "field_ok ?env fd" if "fd \<in> set schema" for fd
  proof (cases "ef_name fd = ''DB_PORT''")
    case True
    have "field_accepts (IsIntWithin 0 65535) (NumberValue (Some (5, 3)))" by (simp add: i)
    with u [OF that True] v show ?thesis by (simp add: field_ok_def) (simp add: number_field_def)
  next
    case False
    then have "field_value fd ?env = field_value fd env" by (simp add: field_value_def)
    with assms(2) that show ?thesis by (simp add: field_ok_def)
  qed
  then have all: "\<forall>fd \<in> set schema. field_ok ?env fd" by blast
  have "dc_port (databaseConfig name ?env) = Some 5" by (simp add: databaseConfig_def int_or_def n(2))
  with f v i all show ?thesis by (simp only: validateEnv_Inr) simp
qed

section \<open>Keys and brokers\<close>

text \<open>
  Without \<open>HOT_WALLET_PRIVATE_KEY\<close> the transfers service starts, in production as well, with the key of
  the first account of the development chain, which everybody knows.
\<close>

theorem hot_wallet_defaults_to_public_key:
  assumes "\<forall>fd \<in> set transfers_schema. field_ok env fd" and "env ''HOT_WALLET_PRIVATE_KEY'' = None"
  shows "\<exists>vals. validateEnv transfers_schema (env(''NODE_ENV'' \<mapsto> ''production'')) = Inr vals
    \<and> sc_nodeEnv (transfers_appConfig (env(''NODE_ENV'' \<mapsto> ''production''))) = ''production''
    \<and> tc_hotWalletPrivateKey (transfers_appConfig (env(''NODE_ENV'' \<mapsto> ''production''))) = HARDHAT_PRIVATE_KEY"
proof -
  let ?env = "env(''NODE_ENV'' \<mapsto> ''production'')"
  have "field_ok ?env fd" if "fd \<in> set transfers_schema" for fd
  proof (cases "ef_name fd = ''NODE_ENV''")
    case True
    then have "fd = node_env_field" using that
      by (auto simp: transfers_schema_def database_fields_def kafka_fields_def number_field_def required_def optional_text_def)
    then show ?thesis by (simp add: field_ok_def field_value_def node_env_field_def)
  next
    case False
    then have "field_value fd ?env = field_value fd env" by (simp add: field_value_def)
    with assms(1) that show ?thesis by (simp add: field_ok_def)
  qed
  with assms(2) show ?thesis by (simp add: validateEnv_Inr transfers_appConfig_def or_else_def)
qed

text \<open>Whatever \<open>KAFKA_BROKERS\<close> is, the Kafka clients have brokers to connect to, none of them empty.\<close>

theorem brokers_never_empty: "brokers_used (kafkaConfig env) \<noteq> [] \<and> [] \<notin> set (brokers_used (kafkaConfig env))"
  by (auto simp: brokers_used_def kafkaConfig_def)

end
