(* ===== verification/Gateway_Replies.thy ===== *)
theory Gateway_Replies
  imports Gateway Orders_Saga Withdrawal_Request Copy_Trading Config
begin

text \<open>
  What the gateway makes of the answers of the services: the fields it passes on, with the defaults
  where a message or a field is missing. An empty text in a gRPC message stands for a missing one.
\<close>

section \<open>Orders\<close>

definition mapOrderItemToDto :: "order_item \<Rightarrow> order_item" where
  "mapOrderItemToDto i =
     \<lparr>item_orderId = item_orderId i, item_userId = item_userId i, item_pair = item_pair i, item_side = item_side i,
      item_type = item_type i, item_price = item_price i, item_amount = item_amount i,
      item_filledAmount = item_filledAmount i, item_remainingAmount = item_remainingAmount i,
      item_status = item_status i, item_createdAt = item_createdAt i, item_updatedAt = item_updatedAt i\<rparr>"

definition order_reply :: "string \<Rightarrow> order_item option \<Rightarrow> order_item result" where
  "order_reply text r = (case r of None \<Rightarrow> Inl (BadRequestException text) | Some i \<Rightarrow> Inr (mapOrderItemToDto i))"

definition orders_list_reply :: "order_item list option \<Rightarrow> nat option \<Rightarrow> order_item list \<times> nat" where
  "orders_list_reply items count =
     (map mapOrderItemToDto (case items of None \<Rightarrow> [] | Some xs \<Rightarrow> xs), (case count of None \<Rightarrow> 0 | Some n \<Rightarrow> n))"

section \<open>Transfers\<close>

record withdrawal_reply =
  wp_id :: uuid
  wp_userId :: uuid
  wp_currency :: string
  wp_amount :: amount
  wp_destinationAddress :: string
  wp_status :: withdrawal_status
  wp_txHash :: "string option"
  wp_errorMessage :: "string option"
  wp_createdAt :: time
  wp_updatedAt :: time

definition mapWithdrawalItem :: "withdrawal_item \<Rightarrow> withdrawal_reply" where
  "mapWithdrawalItem i =
     \<lparr>wp_id = wit_id i, wp_userId = wit_userId i, wp_currency = wit_currency i, wp_amount = wit_amount i,
      wp_destinationAddress = wit_destinationAddress i, wp_status = wit_status i,
      wp_txHash = non_empty (wit_txHash i), wp_errorMessage = non_empty (wit_errorMessage i),
      wp_createdAt = wit_createdAt i, wp_updatedAt = wit_updatedAt i\<rparr>"

definition withdrawal_reply_of :: "string \<Rightarrow> withdrawal_item option \<Rightarrow> withdrawal_reply result" where
  "withdrawal_reply_of text r =
     (case r of None \<Rightarrow> Inl (BadRequestException text) | Some i \<Rightarrow> Inr (mapWithdrawalItem i))"

definition withdrawals_list_reply :: "withdrawal_item list option \<Rightarrow> nat option \<Rightarrow> withdrawal_reply list \<times> nat" where
  "withdrawals_list_reply items count =
     (map mapWithdrawalItem (case items of None \<Rightarrow> [] | Some xs \<Rightarrow> xs), (case count of None \<Rightarrow> 0 | Some n \<Rightarrow> n))"

section \<open>Copy trading\<close>

record master_reply =
  mp_id :: uuid
  mp_userId :: uuid
  mp_displayName :: string
  mp_bio :: "string option"
  mp_totalPnl :: amount
  mp_winRate :: int
  mp_totalCopiers :: int
  mp_minDeposit :: amount
  mp_isActive :: bool

definition mapMasterToDto :: "master_item \<Rightarrow> master_reply" where
  "mapMasterToDto i =
     \<lparr>mp_id = mi_id i, mp_userId = mi_userId i, mp_displayName = mi_displayName i,
      mp_bio = (if mi_bio i = [] then None else Some (mi_bio i)), mp_totalPnl = mi_totalPnl i,
      mp_winRate = mi_winRate i, mp_totalCopiers = mi_totalCopiers i, mp_minDeposit = mi_minDeposit i,
      mp_isActive = mi_isActive i\<rparr>"

definition mapSubscriptionToDto :: "subscription_item \<Rightarrow> subscription_item" where
  "mapSubscriptionToDto i =
     \<lparr>si_id = si_id i, si_followerUserId = si_followerUserId i, si_masterId = si_masterId i,
      si_allocatedBalance = si_allocatedBalance i, si_maxSlippagePercent = si_maxSlippagePercent i,
      si_status = si_status i, si_createdAt = si_createdAt i\<rparr>"

definition subscription_reply :: "string \<Rightarrow> subscription_item option \<Rightarrow> subscription_item result" where
  "subscription_reply text r =
     (case r of None \<Rightarrow> Inl (BadRequestException text) | Some i \<Rightarrow> Inr (mapSubscriptionToDto i))"

definition masters_list_reply :: "master_item list option \<Rightarrow> nat option \<Rightarrow> master_reply list \<times> nat" where
  "masters_list_reply items count =
     (map mapMasterToDto (case items of None \<Rightarrow> [] | Some xs \<Rightarrow> xs), (case count of None \<Rightarrow> 0 | Some n \<Rightarrow> n))"

section \<open>Balances and users\<close>

definition balance_reply :: "balance_response option \<Rightarrow> balance_response" where
  "balance_reply b =
     (case b of
        None \<Rightarrow> \<lparr>accountId = [], br_userId = [], br_currency = [], br_availableBalance = 0, br_lockedBalance = 0,
                 totalBalance = 0, br_updatedAt = 0\<rparr>
      | Some r \<Rightarrow> r)"

definition auth_reply :: "string \<Rightarrow> auth_response \<Rightarrow> user_response option \<Rightarrow> (auth_response \<times> string) result" where
  "auth_reply text r u =
     (case u of
        None \<Rightarrow> Inl (UnauthorizedException text)
      | Some v \<Rightarrow> Inr (r\<lparr>ar_user := v\<rparr>, ar_refreshToken r))"

definition me_reply :: "user_response option \<Rightarrow> user_response" where
  "me_reply u =
     (case u of
        None \<Rightarrow> \<lparr>ur_id = [], ur_walletAddress = [], ur_role = role_text TRADER, ur_isActive = False, ur_createdAt = 0\<rparr>
      | Some v \<Rightarrow> v)"

definition promote_reply :: "user_response option \<Rightarrow> user_response" where
  "promote_reply u =
     (case u of
        None \<Rightarrow> \<lparr>ur_id = [], ur_walletAddress = [], ur_role = role_text ADMIN, ur_isActive = True, ur_createdAt = 0\<rparr>
      | Some v \<Rightarrow> v)"

text \<open>A sandbox login falls back, field by field, on the wallet that was asked for.\<close>

definition sandbox_login_reply :: "string \<Rightarrow> auth_response \<Rightarrow> user_response option \<Rightarrow> auth_response \<times> string" where
  "sandbox_login_reply wallet0 r u =
     (r\<lparr>ar_user :=
          (case u of
             None \<Rightarrow> \<lparr>ur_id = [], ur_walletAddress = wallet0, ur_role = role_text TRADER, ur_isActive = True,
                      ur_createdAt = 0\<rparr>
           | Some v \<Rightarrow> v\<lparr>ur_walletAddress := or_default wallet0 (Some (ur_walletAddress v)),
                         ur_role := or_default (role_text TRADER) (Some (ur_role v))\<rparr>)\<rparr>,
      ar_refreshToken r)"

section \<open>Headers and cookies\<close>

text \<open>The refresh token travels in a cookie that scripts cannot read and that only the auth routes get.\<close>

record cookie_options =
  ck_httpOnly :: bool
  ck_secure :: bool
  ck_sameSite :: string
  ck_path :: string
  ck_maxAge :: nat

definition getRefreshTokenCookieOptions :: "bool \<Rightarrow> cookie_options" where
  "getRefreshTokenCookieOptions isProduction =
     \<lparr>ck_httpOnly = True, ck_secure = isProduction, ck_sameSite = ''strict'', ck_path = ''/api/v1/auth'',
      ck_maxAge = 7 * 24 * 60 * 60 * 1000\<rparr>"

datatype cookie_effect = SetCookie string cookie_options | ClearCookie string string bool

text \<open>What a route does to the cookie, given the refresh token in the answer of its service, if that succeeded.\<close>

fun refresh_cookie :: "gateway_env \<Rightarrow> http_call \<Rightarrow> string result \<Rightarrow> cookie_effect option" where
  "refresh_cookie env (PostVerify _ _) (Inr token) = Some (SetCookie token (getRefreshTokenCookieOptions (ge_production env)))"
| "refresh_cookie env (PostRefresh _) (Inr token) = Some (SetCookie token (getRefreshTokenCookieOptions (ge_production env)))"
| "refresh_cookie env (PostSandboxLogin _ _) (Inr token) = Some (SetCookie token (getRefreshTokenCookieOptions (ge_production env)))"
| "refresh_cookie env (PostLogout _) (Inr _) =
     (let o1 = getRefreshTokenCookieOptions (ge_production env) in Some (ClearCookie (ck_path o1) (ck_sameSite o1) (ck_secure o1)))"
| "refresh_cookie env _ _ = None"

text \<open>
  The correlation id of a request, and the headers that let a client name its trace: \<open>None\<close> if there is
  no valid span; the flags are a byte.
\<close>

definition correlation_of :: "string option \<Rightarrow> uuid \<Rightarrow> string" where
  "correlation_of incoming fresh =
     (case incoming of None \<Rightarrow> fresh | Some s \<Rightarrow> (if js_trim s \<noteq> [] then js_trim s else fresh))"

definition hex_digit :: "nat \<Rightarrow> char" where
  "hex_digit d = (if d < 10 then digit d else char_of (87 + d))"

definition trace_headers :: "(string \<times> string \<times> nat) option \<Rightarrow> (string \<times> string) list" where
  "trace_headers active =
     (case active of
        None \<Rightarrow> []
      | Some (traceId, spanId, flags) \<Rightarrow>
          [(''x-trace-id'', traceId),
           (''traceparent'', ''00-'' @ traceId @ ''-'' @ spanId @ ''-'' @ [hex_digit (flags div 16), hex_digit (flags mod 16)])])"

text \<open>
  Cross-origin requests: the headers the gateway allows, and what a browser sends, which is nothing but
  those and the ones that are always allowed.
\<close>

definition CORS_ALLOWED_METHODS :: "string list" where
  "CORS_ALLOWED_METHODS = [''GET'', ''POST'', ''PUT'', ''PATCH'', ''DELETE'', ''OPTIONS'']"

definition CORS_ALLOWED_HEADERS :: "string list" where
  "CORS_ALLOWED_HEADERS = [''Content-Type'', ''Authorization'', ''x-request-id'', ''x-correlation-id'']"

record cors_config =
  cors_origin :: string
  cors_credentials :: bool
  cors_methods :: "string list"
  cors_allowedHeaders :: "string list"

definition getCorsConfig :: "string \<Rightarrow> cors_config" where
  "getCorsConfig origin =
     \<lparr>cors_origin = origin, cors_credentials = True, cors_methods = CORS_ALLOWED_METHODS, cors_allowedHeaders = CORS_ALLOWED_HEADERS\<rparr>"

definition SAFELISTED_HEADERS :: "string list" where
  "SAFELISTED_HEADERS = [''accept'', ''accept-language'', ''content-language'', ''content-type'', ''range'']"

definition browser_sends :: "cors_config \<Rightarrow> (string \<times> string) list \<Rightarrow> bool" where
  "browser_sends cors headers \<longleftrightarrow>
     (\<forall>h \<in> set headers. js_toLowerCase (fst h) \<in> set (map js_toLowerCase (cors_allowedHeaders cors) @ SAFELISTED_HEADERS))"

definition idempotency_header :: "(string \<times> string) list \<Rightarrow> string option" where
  "idempotency_header headers = map_of (map (\<lambda>(h, v). (js_toLowerCase h, v)) headers) ''x-idempotency-key''"

lemma cors_drops_idempotency_key: "browser_sends (getCorsConfig origin) headers \<Longrightarrow> idempotency_header headers = None"
proof -
  assume "browser_sends (getCorsConfig origin) headers"
  moreover have "''x-idempotency-key'' \<notin> set (map js_toLowerCase CORS_ALLOWED_HEADERS @ SAFELISTED_HEADERS)" by code_simp
  ultimately have "''x-idempotency-key'' \<notin> fst ` set (map (\<lambda>(h, v). (js_toLowerCase h, v)) headers)"
    by (auto simp: browser_sends_def getCorsConfig_def)
  then show ?thesis unfolding idempotency_header_def by (rule map_of_eq_None_iff [THEN iffD2])
qed

section \<open>Requests from end to end\<close>

text \<open>
  \<open>POST /orders\<close> and \<open>POST /transfers/withdraw\<close>: the gateway in front of the orders and the transfers
  service. The decimal texts of an order are read as numbers by its service.
\<close>

definition create_order_message :: "uuid \<Rightarrow> order_dto \<Rightarrow> string \<Rightarrow> create_order_request" where
  "create_order_message u d k =
     \<lparr>co_userId = u, co_pair = od_pair d, co_side = od_side d, co_type = od_type d,
      co_price = Some (units_of (od_price d)), co_amount = Some (units_of (od_amount d)), co_idempotencyKey = k\<rparr>"

definition post_order ::
  "gateway_env \<Rightarrow> 'a orders_env \<Rightarrow> ws_claims option \<Rightarrow> order_dto \<Rightarrow> string option \<Rightarrow> 'a orders_world \<Rightarrow>
   order_item result \<times> 'a orders_world" where
  "post_order genv env claims d key w =
     (case gateway_route genv claims (PostOrder d key) of
        Inl e \<Rightarrow> (Inl e, w)
      | Inr (Some (CreateOrderCall u dto k, _)) \<Rightarrow>
          (case createOrder env (create_order_message u dto k) w of
             (Inl e, w') \<Rightarrow> (Inl e, w')
           | (Inr item, w') \<Rightarrow> (order_reply ''Failed to create order'' (Some item), w'))
      | Inr _ \<Rightarrow> (Inl not_found_route, w))"

definition post_withdraw ::
  "gateway_env \<Rightarrow> ('a, 'c) transfers_env \<Rightarrow> ws_claims option \<Rightarrow> withdrawal_dto \<Rightarrow> string option \<Rightarrow> ('a, 'c) transfers_world \<Rightarrow>
   withdrawal_reply result \<times> ('a, 'c) transfers_world" where
  "post_withdraw genv env claims d key w =
     (case gateway_route genv claims (PostWithdraw d key) of
        Inl e \<Rightarrow> (Inl e, w)
      | Inr (Some (RequestWithdrawalCall data, _)) \<Rightarrow>
          (case requestWithdrawal env data w of
             (Inl e, w') \<Rightarrow> (Inl e, w')
           | (Inr item, w') \<Rightarrow> (withdrawal_reply_of ''Withdrawal response is empty'' (Some item), w'))
      | Inr _ \<Rightarrow> (Inl not_found_route, w))"

lemma reply_id [simp]: "order_reply text (Some i) = Inr i"
  by (simp add: order_reply_def mapOrderItemToDto_def)

lemmas edge_route_defs = gateway_route_def user_route_def checked_def key_required_def bindR_def

text \<open>
  \<open>POST /orders\<close> is \<open>CreateOrder\<close> for the caller. A request is refused before the orders service is
  called, and changes nothing there, if its token has no user, its fields do not validate or it has
  no idempotency key; otherwise its answer and its effect are those of \<open>createOrder\<close> for the
  token's user with the numbers its decimals stand for.
\<close>

theorem post_order_is_create_order:
  "post_order genv env claims d key w =
     (case jwt_user claims of
        Inl e \<Rightarrow> (Inl e, w)
      | Inr u \<Rightarrow>
          (if \<not> valid_order d then (Inl (BadRequestException ''validation''), w)
           else
             (case non_empty key of
                None \<Rightarrow> (Inl (BadRequestException ''x-idempotency-key''), w)
              | Some k \<Rightarrow> createOrder env (create_order_message (wu_userId u) d k) w)))"
  by (auto simp: post_order_def edge_route_defs split: sum.splits option.splits prod.splits)

lemma post_withdraw_cases:
  "post_withdraw genv env claims d key w = (r, w') \<Longrightarrow>
   (w' = w \<and> (\<exists>e. r = Inl e)) \<or>
   (\<exists>u k q. jwt_user claims = Inr u \<and> key = Some k \<and>
      requestWithdrawal env \<lparr>wi_userId = wu_userId u, wi_amount = wd_amount d, wi_currency = wd_currency d,
        wi_destinationAddress = wd_destinationAddress d, wi_idempotencyKey = k\<rparr> w = (q, w'))"
  by (auto simp: post_withdraw_def edge_route_defs non_empty_def withdrawal_reply_of_def
      split: sum.splits option.splits prod.splits if_splits)

section \<open>Whose funds a request can touch\<close>

text \<open>The wallets of everybody but the user of the token are as they were.\<close>

definition spares_others :: "ws_claims option \<Rightarrow> wallet \<Rightarrow> wallet \<Rightarrow> bool" where
  "spares_others claims f f' \<longleftrightarrow>
     (\<forall>v c. (case jwt_user claims of Inl _ \<Rightarrow> True | Inr u \<Rightarrow> v \<noteq> wu_userId u) \<longrightarrow> f' (v, c) = f (v, c))"

lemma spares_others_refl [simp]: "spares_others claims f f"
  by (simp add: spares_others_def)

lemma moved_spares_others:
  "jwt_user claims = Inr u \<Longrightarrow> moved (wu_userId u) c x y f f' \<Longrightarrow> spares_others claims f f'"
  by (auto simp: spares_others_def moved_def)


text \<open>The same for a withdrawal.\<close>

theorem http_withdrawal_reserves_callers_funds_only:
  assumes "transfers_wired env isUuid i now" and "accounts_solid (tw_accounts w)"
    and "\<forall>k. key = Some k \<longrightarrow> length k \<le> 103 \<and> withdraw_keys_fresh key_used (js_trim k) (tw_accounts w)"
    and "post_withdraw genv env claims d key w = (r, w')"
  shows "accounts_solid (tw_accounts w') \<and> spares_others claims (balance_view (tw_accounts w)) (balance_view (tw_accounts w'))"
  using post_withdraw_cases [OF assms(4)]
proof
  assume "\<exists>u k q. jwt_user claims = Inr u \<and> key = Some k \<and>
      requestWithdrawal env \<lparr>wi_userId = wu_userId u, wi_amount = wd_amount d, wi_currency = wd_currency d,
        wi_destinationAddress = wd_destinationAddress d, wi_idempotencyKey = k\<rparr> w = (q, w')"
  then obtain u k q where u: "jwt_user claims = Inr u" and k: "key = Some k"
    and run: "requestWithdrawal env \<lparr>wi_userId = wu_userId u, wi_amount = wd_amount d, wi_currency = wd_currency d,
        wi_destinationAddress = wd_destinationAddress d, wi_idempotencyKey = k\<rparr> w = (q, w')" by blast
  have rpc: "te_lock env = accounts_client ''transfers-service'' LockBalance isUuid i now"
    "te_unlock env = accounts_client ''transfers-service'' UnlockBalance isUuid i now"
    using assms(1) by (simp_all add: transfers_wired_def)
  have "request_effect balance_view accounts_solid env \<lparr>wi_userId = wu_userId u, wi_amount = wd_amount d,
      wi_currency = wd_currency d, wi_destinationAddress = wd_destinationAddress d, wi_idempotencyKey = k\<rparr> w q w'"
    by (rule transfers_accounts.request_withdrawal_effect [OF rpc assms(2) _ _ run]) (use assms(3) k in simp_all)
  then show ?thesis
    by (cases q) (auto simp: request_effect_def new_withdrawal_def transfers_validateUserId_def bindR_eq_Inr
        intro: moved_spares_others [OF u] split: option.splits if_splits)
qed (use assms(2) in simp)

text \<open>
  The header with the idempotency key is not among those that the gateway allows to other origins. So
  a page of another origin, such as the one configured in \<open>CORS_ORIGIN\<close>, gets no order and no
  withdrawal through: whatever it sends, the request is refused.
\<close>

theorem browsers_cannot_place_orders:
  assumes "browser_sends (getCorsConfig origin) headers"
  shows "\<exists>e. post_order genv env claims d (idempotency_header headers) w = (Inl e, w)"
    and "\<exists>e. post_withdraw genv tenv claims wd (idempotency_header headers) tw = (Inl e, tw)"
proof -
  have k: "idempotency_header headers = None" using cors_drops_idempotency_key [OF assms] .
  show "\<exists>e. post_order genv env claims d (idempotency_header headers) w = (Inl e, w)"
    by (auto simp: k post_order_is_create_order non_empty_def split: sum.split)
  show "\<exists>e. post_withdraw genv tenv claims wd (idempotency_header headers) tw = (Inl e, tw)"
    using post_withdraw_cases [of genv tenv claims wd None tw] unfolding k
    by (metis option.distinct(1) surj_pair)
qed

text \<open>The cookie lives as long as the token in it: seven days.\<close>

theorem cookie_lives_as_long_as_its_token:
  "ck_maxAge (getRefreshTokenCookieOptions isProduction) = REFRESH_TOKEN_EXPIRATION_DAYS * (24 * 60 * (60 * 1000))"
  by (simp add: getRefreshTokenCookieOptions_def REFRESH_TOKEN_EXPIRATION_DAYS_def)

end
