(* ===== verification/Http_Demo.thy ===== *)
theory Http_Demo
  imports Gateway_Replies Orders_Demo
begin

text \<open>An order of the small platform sent over HTTP: from the text of its amounts to the accounts.\<close>

definition alice_claims :: ws_claims where
  "alice_claims = \<lparr>cl_sub = Some ''alice'', cl_walletAddress = Some ''0xab'', cl_role = Some ''trader''\<rparr>"

definition alice_order :: order_dto where
  "alice_order = \<lparr>od_pair = ''ETH_USDT'', od_side = BUY, od_type = LIMIT, od_price = ''2'', od_amount = ''0.0000003''\<rparr>"

definition alice_gateway :: gateway_env where
  "alice_gateway = \<lparr>ge_production = True, ge_isEthereumAddress = (\<lambda>_. True), ge_isUUID = (\<lambda>_. True), ge_newKey = ''k''\<rparr>"

lemma alice_message: "create_order_message ''alice'' alice_order ''k1'' = demo_create"
proof -
  have "units_of ''2'' = 200000000" "units_of ''0.0000003'' = 30" by (simp_all add: units_of_def integer_part_def
      fraction_part_def read_digits_def pad8_def digit_value_def is_digit_def eval_nat_numeral)
  then show ?thesis by (simp add: create_order_message_def alice_order_def demo_create_def)
qed

lemma alice_user: "jwt_user (Some alice_claims) = Inr \<lparr>wu_userId = ''alice'', wu_walletAddress = ''0xab'', wu_role = TRADER\<rparr>"
  using parse_role_text [of TRADER] by (simp add: jwt_user_def claims_user_def alice_claims_def)

lemma alice_valid: "valid_order alice_order"
  by code_simp

lemma alice_posts:
  "post_order alice_gateway demo_env (Some alice_claims) alice_order (Some ''k1'') demo_world = createOrder demo_env demo_create demo_world"
  by (simp add: post_order_is_create_order alice_user alice_valid non_empty_def alice_message)

lemma alice_keys: "order_keys_fresh key_used (create_order_message u alice_order ''k1'') (ow_accounts demo_world)"
  using demo_keys by (simp add: order_keys_fresh_def create_order_message_def demo_create_def)


end
