(* ===== verification/Log_Redaction.thy ===== *)
theory Log_Redaction
  imports Kafka "HOL-Library.AList"
begin

text \<open>
  The logger of the services (\<open>libs/common/src/telemetry/pino-logger.service.ts\<close>): the line that is
  handed to \<open>pino\<close> for a message and its parameters, with the values under telling keys replaced. A
  value is what \<open>JSON\<close> can show of it; the fields of an object are in the order of \<open>Object.entries\<close>.
\<close>

section \<open>Scrubbing\<close>

datatype log_value =
    LNull
  | LBool bool
  | LNumber int
  | LText string
  | LArray "log_value list"
  | LObject "(string \<times> log_value) list"

type_synonym log_fields = "(string \<times> log_value) list"

definition SENSITIVE_KEYS :: "string list" where
  "SENSITIVE_KEYS =
     [''authorization'', ''cookie'', ''signature'', ''privatekey'', ''secret'', ''password'', ''token'', ''apikey'']"

definition sensitive :: "string \<Rightarrow> bool" where
  "sensitive key \<longleftrightarrow> list_ex (js_includes (js_toLowerCase key)) SENSITIVE_KEYS"

definition REDACTED :: log_value where "REDACTED = LText ''[REDACTED]''"

definition sanitizeValue :: "string \<Rightarrow> log_value \<Rightarrow> log_value" where
  "sanitizeValue key v = (if sensitive key then REDACTED else v)"

lemma field_smaller: "(k, v) \<in> set fs \<Longrightarrow> size v < size (LObject fs)"
  by (induction fs) auto

function sanitize :: "string \<Rightarrow> log_value \<Rightarrow> log_value" where
  "sanitize key (LObject fs) = LObject (map (\<lambda>(k, v). (k, sanitize k v)) fs)"
| "sanitize key LNull = sanitizeValue key LNull"
| "sanitize key (LBool b) = sanitizeValue key (LBool b)"
| "sanitize key (LNumber n) = sanitizeValue key (LNumber n)"
| "sanitize key (LText s) = sanitizeValue key (LText s)"
| "sanitize key (LArray vs) = sanitizeValue key (LArray vs)"
  by pat_completeness auto

termination
  by (relation "measure (\<lambda>(_, v). size v)") (auto dest: field_smaller)

definition sanitizeObject :: "log_fields \<Rightarrow> log_fields" where
  "sanitizeObject fs = map (\<lambda>(k, v). (k, sanitize k v)) fs"

section \<open>Lines\<close>

text \<open>The message and the further parameters of a call; an error has its stack and its own fields.\<close>

datatype log_message = TextMessage string | ErrorMessage string | OtherMessage log_value

datatype log_param = TextParam string | ErrorParam "string option" log_fields | ValueParam log_value

datatype log_level = INFO | ERROR | WARN | DEBUG | TRACE

record log_line =
  ll_level :: log_level
  ll_meta :: log_fields
  ll_text :: string

record span_context =
  sp_traceId :: string
  sp_spanId :: string
  sp_traceFlags :: int

record log_env =
  le_span :: "span_context option"
  le_stringify :: "log_value \<Rightarrow> string"

text \<open>\<open>Object.assign\<close> and the spread of an object: a new value for a key that is there, new keys at the end.\<close>

definition assign :: "log_fields \<Rightarrow> log_fields \<Rightarrow> log_fields" where
  "assign fs gs = fold (\<lambda>(k, v). AList.update k v) gs fs"

definition enrich :: "log_env \<Rightarrow> string option \<Rightarrow> string option \<Rightarrow> log_fields" where
  "enrich env contextName context =
     (''context'', LText (if context \<notin> {None, Some []} then the context
                          else if contextName \<notin> {None, Some []} then the contextName else ''Application'')) #
     (case le_span env of
        None \<Rightarrow> []
      | Some sp \<Rightarrow>
          (if sp_traceId sp = [] then []
           else [(''trace_id'', LText (sp_traceId sp)), (''span_id'', LText (sp_spanId sp)),
                 (''trace_flags'', LNumber (sp_traceFlags sp))]))"

fun formatMessage :: "log_env \<Rightarrow> log_message \<Rightarrow> string" where
  "formatMessage env (TextMessage s) = s"
| "formatMessage env (ErrorMessage s) = s"
| "formatMessage env (OtherMessage v) = le_stringify env v"

text \<open>What \<open>Object.entries\<close> gives for a parameter that is an object; those of an array are its indices.\<close>

fun param_fields :: "log_param \<Rightarrow> log_fields" where
  "param_fields (TextParam _) = []"
| "param_fields (ErrorParam _ fs) = fs"
| "param_fields (ValueParam (LObject fs)) = fs"
| "param_fields (ValueParam (LArray vs)) = zip (map show_nat [0..<length vs]) vs"
| "param_fields (ValueParam _) = []"

definition last_context :: "log_param list \<Rightarrow> string option" where
  "last_context ps = (if ps = [] then None else case last ps of TextParam s \<Rightarrow> Some s | _ \<Rightarrow> None)"

definition extra_fields :: "log_param list \<Rightarrow> log_fields" where
  "extra_fields ps = fold (\<lambda>p extra. assign extra (sanitizeObject (param_fields p))) ps []"

fun stack_of :: "log_param list \<Rightarrow> string option" where
  "stack_of [] = None"
| "stack_of (TextParam s # ps) = (if js_includes s [CHR 0x0A] then Some s else stack_of ps)"
| "stack_of (ErrorParam (Some s) fs # ps) = (if s = [] then stack_of ps else Some s)"
| "stack_of (_ # ps) = stack_of ps"

definition log_meta :: "log_env \<Rightarrow> string option \<Rightarrow> log_param list \<Rightarrow> log_fields" where
  "log_meta env contextName ps = assign (enrich env contextName (last_context ps)) (extra_fields ps)"

text \<open>\<open>log\<close>, \<open>error\<close>, \<open>warn\<close>, \<open>debug\<close> and \<open>verbose\<close>.\<close>

definition log_line_of :: "log_level \<Rightarrow> log_env \<Rightarrow> string option \<Rightarrow> log_message \<Rightarrow> log_param list \<Rightarrow> log_line" where
  "log_line_of level env contextName message ps =
     (let meta = log_meta env contextName ps
      in \<lparr>ll_level = level,
          ll_meta = (if level = ERROR
                     then (case stack_of ps of None \<Rightarrow> meta | Some s \<Rightarrow> assign meta [(''stack'', LText s)])
                     else meta),
          ll_text = formatMessage env message\<rparr>)"

section \<open>Which lines are written\<close>

text \<open>The levels of \<open>pino\<close>, in their order; a logger writes the lines that are not below its own.\<close>

instantiation log_level :: linorder
begin

fun level_number :: "log_level \<Rightarrow> nat" where
  "level_number TRACE = 10"
| "level_number DEBUG = 20"
| "level_number INFO = 30"
| "level_number WARN = 40"
| "level_number ERROR = 50"

definition less_eq_log_level :: "log_level \<Rightarrow> log_level \<Rightarrow> bool" where
  "less_eq_log_level a b \<longleftrightarrow> level_number a \<le> level_number b"

definition less_log_level :: "log_level \<Rightarrow> log_level \<Rightarrow> bool" where
  "less_log_level a b \<longleftrightarrow> level_number a < level_number b"

instance
proof
  fix a b :: log_level
  show "a \<le> b \<Longrightarrow> b \<le> a \<Longrightarrow> a = b" by (cases a; cases b) (simp_all add: less_eq_log_level_def)
qed (auto simp: less_eq_log_level_def less_log_level_def)

end

definition level_named :: "string \<Rightarrow> log_level option" where
  "level_named s = map_of [(''trace'', TRACE), (''debug'', DEBUG), (''info'', INFO), (''warn'', WARN), (''error'', ERROR)] s"

record logger_settings =
  lg_level :: string
  lg_pretty :: bool

text \<open>
  The constructor: \<open>level\<close> and \<open>pretty\<close> are its options, \<open>nodeEnv\<close> and \<open>LOG_LEVEL\<close> variables of the environment.
\<close>

definition logger_settings_of :: "string option \<Rightarrow> bool option \<Rightarrow> string option \<Rightarrow> string option \<Rightarrow> logger_settings" where
  "logger_settings_of level pretty nodeEnv logLevel =
     (let isDev = (nodeEnv \<noteq> Some ''production'' \<and> pretty \<noteq> Some False)
      in \<lparr>lg_level = (if level \<notin> {None, Some []} then the level
                     else if logLevel \<notin> {None, Some []} then the logLevel
                     else if isDev then ''debug'' else ''info''),
          lg_pretty = (isDev \<and> nodeEnv \<noteq> Some ''test'')\<rparr>)"

definition written :: "logger_settings \<Rightarrow> log_line \<Rightarrow> bool" where
  "written settings line \<longleftrightarrow> (case level_named (lg_level settings) of None \<Rightarrow> False | Some l \<Rightarrow> l \<le> ll_level line)"

text \<open>Raising the level writes fewer lines; in production only what is information or worse is written by default.\<close>

theorem written_monotone:
  assumes "level_named (lg_level s) = Some l" and "level_named (lg_level s') = Some l'" and "l \<le> l'" and "written s' line"
  shows "written s line"
  using assms by (auto simp: written_def)

theorem production_writes_from_info:
  "written (logger_settings_of None pretty (Some ''production'') None) line \<longleftrightarrow> INFO \<le> ll_level line"
  by (simp add: written_def logger_settings_of_def level_named_def)

section \<open>What a line hides\<close>

text \<open>The value that the keys of \<open>path\<close> lead to, from object to object.\<close>

fun value_at :: "string list \<Rightarrow> log_value \<Rightarrow> log_value option" where
  "value_at [] v = Some v"
| "value_at (k # ks) (LObject fs) = (case map_of fs k of None \<Rightarrow> None | Some v \<Rightarrow> value_at ks v)"
| "value_at (k # ks) _ = None"

definition is_object :: "log_value \<Rightarrow> bool" where
  "is_object v \<longleftrightarrow> (case v of LObject _ \<Rightarrow> True | _ \<Rightarrow> False)"

lemma redacted_no_object [simp]: "REDACTED \<noteq> LObject fs"
  by (simp add: REDACTED_def)

text \<open>A field that hides what is below it: redacted if its key is telling, unless it is an object of such fields.\<close>

definition hides :: "string \<times> log_value \<Rightarrow> bool" where
  "hides = (\<lambda>(k0, v0). \<forall>ks k v. value_at ks v0 = Some v \<longrightarrow> k = last (k0 # ks) \<longrightarrow> sensitive k \<longrightarrow> \<not> is_object v \<longrightarrow> v = REDACTED)"

lemma value_at_Cons: "value_at (k # ks) v = Some w \<Longrightarrow> \<exists>fs u. v = LObject fs \<and> map_of fs k = Some u \<and> value_at ks u = Some w"
  by (cases v) (auto split: option.splits)

lemma sanitize_hides: "hides (k, sanitize k v)"
proof (induction k v rule: sanitize.induct)
  case (1 key fs)
  show ?case
    unfolding hides_def prod.case
  proof (intro allI impI)
    fix ks k v
    assume at: "value_at ks (sanitize key (LObject fs)) = Some v" and k: "k = last (key # ks)" "sensitive k" "\<not> is_object v"
    then obtain k1 ks1 where ks: "ks = k1 # ks1" by (cases ks) (auto simp: is_object_def)
    with at obtain u where u: "map_of (map (\<lambda>(k, v). (k, sanitize k v)) fs) k1 = Some u" "value_at ks1 u = Some v"
      by (auto split: option.splits)
    then obtain x where x: "(k1, x) \<in> set fs" "u = sanitize k1 x" by (auto dest!: map_of_SomeD)
    with 1 [OF x(1) refl] u k ks show "v = REDACTED" by (auto simp: hides_def)
  qed
qed (auto simp: hides_def sanitizeValue_def elim!: value_at.elims split: option.splits)

lemma plain_hides: "\<not> sensitive k \<Longrightarrow> \<not> is_object v \<Longrightarrow> hides (k, v)"
  by (auto simp: hides_def is_object_def elim!: value_at.elims split: log_value.splits)

lemma set_assign: "set (assign fs gs) \<subseteq> set fs \<union> set gs"
proof -
  have upd: "set (AList.update k v al) \<subseteq> insert (k, v) (set al)" for k v and al :: log_fields
    by (induction al) auto
  show ?thesis
    unfolding assign_def
  proof (induction gs arbitrary: fs)
    case (Cons g gs)
    from Cons.IH [of "AList.update (fst g) (snd g) fs"] upd [of "fst g" "snd g" fs] show ?case by (auto simp: split_beta)
  qed simp
qed

lemma extra_hides: "\<forall>f \<in> set (extra_fields ps). hides f"
proof -
  have "\<forall>f \<in> set (fold (\<lambda>p extra. assign extra (sanitizeObject (param_fields p))) ps extra). hides f"
    if "\<forall>f \<in> set extra. hides f" for extra
    using that
  proof (induction ps arbitrary: extra)
    case (Cons p ps)
    have "\<forall>f \<in> set (sanitizeObject (param_fields p)). hides f" by (auto simp: sanitizeObject_def sanitize_hides)
    with Cons.prems set_assign have "\<forall>f \<in> set (assign extra (sanitizeObject (param_fields p))). hides f" by blast
    from Cons.IH [OF this] show ?case by simp
  qed simp
  from this [of "[]"] show ?thesis by (simp add: extra_fields_def)
qed

lemma own_keys_not_sensitive:
  "\<not> sensitive ''context''" "\<not> sensitive ''trace_id''" "\<not> sensitive ''span_id''" "\<not> sensitive ''trace_flags''" "\<not> sensitive ''stack''"
  by code_simp+

lemma enrich_hides: "\<forall>f \<in> set (enrich env contextName context). hides f"
  by (auto simp: enrich_def is_object_def own_keys_not_sensitive intro!: plain_hides split: option.splits)

lemma meta_hides: "\<forall>f \<in> set (log_meta env contextName ps). hides f"
  unfolding log_meta_def using set_assign extra_hides enrich_hides by blast

lemma line_hides: "\<forall>f \<in> set (ll_meta (log_line_of level env contextName message ps)). hides f"
proof -
  have "hides (''stack'', LText s)" for s by (intro plain_hides own_keys_not_sensitive) (simp add: is_object_def)
  then have "\<forall>f \<in> set (assign (log_meta env contextName ps) [(''stack'', LText s)]). hides f" for s
    using set_assign [of "log_meta env contextName ps" "[(''stack'', LText s)]"] meta_hides [of env contextName ps] by auto
  then show ?thesis using meta_hides [of env contextName ps] by (auto simp: log_line_of_def Let_def split: option.split)
qed


section \<open>What it keeps, and what it does not hide\<close>

lemma sanitize_twice: "sanitize k (sanitize k v) = sanitize k v"
  by (induction k v rule: sanitize.induct) (auto simp: sanitizeValue_def REDACTED_def)

text \<open>Scrubbing an object twice changes nothing more, and it keeps the keys and the values that are not telling.\<close>

theorem scrubbing_is_idempotent:
  "sanitizeObject (sanitizeObject fs) = sanitizeObject fs \<and> map fst (sanitizeObject fs) = map fst fs"
  by (auto simp: sanitizeObject_def sanitize_twice)

theorem scrubbing_keeps_plain_values:
  "(k, v) \<in> set fs \<Longrightarrow> \<not> sensitive k \<Longrightarrow> \<not> is_object v \<Longrightarrow> (k, v) \<in> set (sanitizeObject fs)"
  by (cases v) (force simp: sanitizeObject_def sanitizeValue_def is_object_def)+

text \<open>
  Two ways around it: the elements of an array are not looked at, and an object under a telling key is
  not redacted, only what it holds under telling keys is.
\<close>

theorem arrays_and_objects_leak_secrets:
  "sanitizeObject [(''sessions'', LArray [LObject [(''token'', LText secret)]])] = [(''sessions'', LArray [LObject [(''token'', LText secret)]])]
   \<and> sanitizeObject [(''token'', LObject [(''raw'', LText secret)])] = [(''token'', LObject [(''raw'', LText secret)])]"
proof -
  have "\<not> sensitive ''sessions''" "\<not> sensitive ''raw''" by code_simp+
  then show ?thesis by (simp add: sanitizeObject_def sanitizeValue_def)
qed

text \<open>At a concrete line: a request with a session whose token is logged.\<close>

definition demo_params :: "log_param list" where
  "demo_params =
     [ValueParam (LObject [(''user'', LText ''u1''), (''session'', LObject [(''accessToken'', LText ''eyJ''), (''id'', LNumber 7)])]),
      TextParam ''AuthService'']"

definition demo_line :: log_line where
  "demo_line = log_line_of WARN \<lparr>le_span = None, le_stringify = (\<lambda>_. ''?'')\<rparr> None (TextMessage ''late'') demo_params"

lemma demo_line_eq:
  "demo_line = \<lparr>ll_level = WARN,
     ll_meta = [(''context'', LText ''AuthService''), (''user'', LText ''u1''),
       (''session'', LObject [(''accessToken'', LText ''[REDACTED]''), (''id'', LNumber 7)])], ll_text = ''late''\<rparr>"
proof -
  have s: "\<not> sensitive ''user''" "sensitive ''accessToken''" "\<not> sensitive ''id''" by code_simp+
  show ?thesis
    by (simp add: demo_line_def demo_params_def log_line_of_def log_meta_def enrich_def extra_fields_def assign_def
        last_context_def sanitizeObject_def sanitizeValue_def s REDACTED_def)
qed


end
