(* ===== verification/Connections.thy ===== *)
theory Connections
  imports Config Kafka Contracts "HOL-Library.AList"
begin

text \<open>
  How the services hold on to what they talk to: the settings they look up when they start, the Valkey
  clients (\<open>redis/redis.service.ts\<close> of three services, \<open>websockets/valkey-pubsub.service.ts\<close>), the Kafka
  producer and the start and stop of a consumer with its dead letter queue (\<open>libs/common/src/kafka\<close>),
  and the listener for external signals (\<open>apps/copy-trading/src/consumers/exchange-listener.service.ts\<close>).
\<close>

section \<open>Settings looked up by name\<close>

text \<open>
  \<open>ConfigService.get\<close>, an argument: a name without a dot that is not the name of a registered
  namespace stands for a variable of the environment.
\<close>

definition config_laws :: "string set \<Rightarrow> (string \<Rightarrow> string option) \<Rightarrow> environment \<Rightarrow> bool" where
  "config_laws namespaces get env \<longleftrightarrow> (\<forall>k. k \<notin> namespaces \<longrightarrow> CHR ''.'' \<notin> set k \<longrightarrow> get k = env k)"

text \<open>The topics the bridge of the gateway subscribes to, and those the relay of a service publishes to.\<close>

definition bridge_topics :: "(string \<Rightarrow> string option) \<Rightarrow> string list" where
  "bridge_topics get =
     (let appEnv = js_toLowerCase (or_else (truthy (get ''appEnv'')) ''dev'')
      in map (getKafkaTopicName appEnv) [''matching'', ''orders'', ''transfers''])"

definition relay_topic :: "(string \<Rightarrow> string option) \<Rightarrow> string \<Rightarrow> string" where
  "relay_topic get domain = getKafkaTopicName (js_toLowerCase (or_else (truthy (get ''APP_ENV'')) ''dev'')) domain"

definition settlement_topics :: "(string \<Rightarrow> string option) \<Rightarrow> string list" where
  "settlement_topics get = [getKafkaTopicName (js_toLowerCase (or_else (truthy (get ''APP_ENV'')) ''dev'')) ''matching'']"

definition replication_topics :: "(string \<Rightarrow> string option) \<Rightarrow> string list" where
  "replication_topics get = [getKafkaTopicName (js_toLowerCase (or_else (truthy (get ''APP_ENV'')) ''dev'')) ''matching'']"

record valkey_address =
  va_host :: "string option"
  va_port :: "string option"
  va_password :: "string option"

definition pubsub_address :: "(string \<Rightarrow> string option) \<Rightarrow> valkey_address" where
  "pubsub_address get =
     \<lparr>va_host = get ''redisHost'', va_port = get ''redisPort'', va_password = truthy (get ''redisPassword'')\<rparr>"

lemma topic_names [simp]:
  "getKafkaTopicName env ''matching'' = js_toLowerCase (js_trim env) @ ''.matching.lifecycle''"
  "getKafkaTopicName env ''orders'' = js_toLowerCase (js_trim env) @ ''.orders.lifecycle''"
  "getKafkaTopicName env ''transfers'' = js_toLowerCase (js_trim env) @ ''.transfers.lifecycle''"
  by (simp_all add: getKafkaTopicName_def js_toLowerCase_def js_lower_char_def js_trim_def js_space_def)

lemma dev_topics:
  assumes "get ''appEnv'' = None"
  shows "bridge_topics get = [''dev.matching.lifecycle'', ''dev.orders.lifecycle'', ''dev.transfers.lifecycle'']"
  using assms by (simp add: bridge_topics_def or_else_def truthy_def js_toLowerCase_def js_lower_char_def js_trim_def js_space_def)

text \<open>
  The gateway reads its own settings by names that are not those of the variables: whatever \<open>APP_ENV\<close>
  and \<open>REDIS_HOST\<close> are, its bridge subscribes to the topics of \<open>dev\<close> and its Pub/Sub clients get no
  host. The relays of the services do follow \<open>APP_ENV\<close>, so in any other environment the gateway hears
  none of their events.
\<close>

theorem gateway_hears_dev_only:
  assumes "config_laws {''gateway'', ''kafka''} get env" and "config_laws {''app'', ''database'', ''redis'', ''kafka''} relay env'"
    and "env ''appEnv'' = None" and "env ''redisHost'' = None" and "env' ''APP_ENV'' = Some e"
    and "js_toLowerCase (js_trim (js_toLowerCase e)) \<noteq> ''dev''" and "e \<noteq> []" and "domain \<in> {''matching'', ''orders'', ''transfers''}"
  shows "relay_topic relay domain \<notin> set (bridge_topics get) \<and> va_host (pubsub_address get) = None"
proof -
  have g: "get ''appEnv'' = None" "get ''redisHost'' = None" "relay ''APP_ENV'' = Some e"
    using assms(1-5) by (simp_all add: config_laws_def)
  let ?e = "js_toLowerCase (js_trim (js_toLowerCase e))"
  have eq: "?e @ s = t \<longleftrightarrow> rev s @ rev ?e = rev t" for s t by (metis rev_append rev_rev_ident)
  have "?e @ ''.matching.lifecycle'' \<notin> set (bridge_topics get)" "?e @ ''.orders.lifecycle'' \<notin> set (bridge_topics get)"
    "?e @ ''.transfers.lifecycle'' \<notin> set (bridge_topics get)"
    using assms(6) by (simp_all add: dev_topics [of get, OF g(1)] eq rev_swap)
  then have "relay_topic relay domain \<notin> set (bridge_topics get)"
    using assms(7,8) g(3) by (auto simp: relay_topic_def or_else_def truthy_def)
  with g(2) show ?thesis by (simp add: pubsub_address_def)
qed

text \<open>
  The settlement and the copy trading consumers do listen where the relay of the orders service
  publishes its trades, provided the services have the same \<open>APP_ENV\<close>.
\<close>

theorem consumers_listen_to_relay:
  assumes "config_laws nr relay env" and "config_laws ns settle env'" and "config_laws nc copy env''"
    and "env ''APP_ENV'' = env' ''APP_ENV''" and "env' ''APP_ENV'' = env'' ''APP_ENV''"
    and "''APP_ENV'' \<notin> nr \<union> ns \<union> nc"
  shows "relay_topic relay ''matching'' \<in> set (settlement_topics settle) \<and> relay_topic relay ''matching'' \<in> set (replication_topics copy)"
proof -
  have "relay ''APP_ENV'' = env ''APP_ENV''" "settle ''APP_ENV'' = env ''APP_ENV''" "copy ''APP_ENV'' = env ''APP_ENV''"
    using assms by (simp_all add: config_laws_def)
  then show ?thesis by (simp add: relay_topic_def settlement_topics_def replication_topics_def)
qed

section \<open>Valkey clients\<close>

text \<open>
  The connections there are, by the number of the attempt that made them; \<open>reachable n\<close> is whether the
  \<open>n\<close>-th attempt succeeds.
\<close>

record connections =
  attempts :: nat
  open_clients :: "nat set"

record redis_service = connections +
  rs_client :: "nat option"

definition initClient :: "(nat \<Rightarrow> bool) \<Rightarrow> redis_service \<Rightarrow> redis_service" where
  "initClient reachable s =
     (let n = attempts s
      in if reachable n then s\<lparr>attempts := Suc n, open_clients := insert n (open_clients s), rs_client := Some n\<rparr>
         else s\<lparr>attempts := Suc n\<rparr>)"

definition getClient :: "(nat \<Rightarrow> bool) \<Rightarrow> redis_service \<Rightarrow> nat result \<times> redis_service" where
  "getClient reachable s =
     (let s' = (if rs_client s = None then initClient reachable s else s)
      in (case rs_client s' of None \<Rightarrow> (Inl (PlainError ''Failed to establish Redis/Valkey GLIDE connection''), s') | Some n \<Rightarrow> (Inr n, s')))"

definition onModuleDestroy_redis :: "redis_service \<Rightarrow> redis_service" where
  "onModuleDestroy_redis s =
     (case rs_client s of None \<Rightarrow> s | Some n \<Rightarrow> s\<lparr>open_clients := open_clients s - {n}, rs_client := None\<rparr>)"

text \<open>In the identity service the closed client stays where it is.\<close>

definition onModuleDestroy_identity :: "redis_service \<Rightarrow> redis_service" where
  "onModuleDestroy_identity s =
     (case rs_client s of None \<Rightarrow> s | Some n \<Rightarrow> s\<lparr>open_clients := open_clients s - {n}\<rparr>)"

text \<open>A command of the orders service runs on the client and is timed, whether it succeeds or not.\<close>

definition execute ::
  "(nat \<Rightarrow> bool) \<Rightarrow> (nat \<Rightarrow> 'w \<Rightarrow> 'x result \<times> 'w) \<Rightarrow> redis_service \<times> nat \<times> 'w \<Rightarrow> 'x result \<times> redis_service \<times> nat \<times> 'w" where
  "execute reachable command = (\<lambda>(s, timed, w).
     (case getClient reachable s of
        (Inl e, s') \<Rightarrow> (Inl e, s', timed, w)
      | (Inr n, s') \<Rightarrow> (case command n w of (r, w') \<Rightarrow> (r, s', Suc timed, w'))))"

datatype redis_call = Redis_Init | Redis_Get | Redis_Destroy

fun redis_op :: "(nat \<Rightarrow> bool) \<Rightarrow> redis_call \<Rightarrow> redis_service \<Rightarrow> redis_service" where
  "redis_op reachable Redis_Init s = (if rs_client s = None then initClient reachable s else s)"
| "redis_op reachable Redis_Get s = snd (getClient reachable s)"
| "redis_op reachable Redis_Destroy s = onModuleDestroy_redis s"

definition new_redis :: redis_service where
  "new_redis = \<lparr>attempts = 0, open_clients = {}, rs_client = None\<rparr>"

lemma redis_op_keeps: "open_clients s = set_option (rs_client s) \<Longrightarrow>
    open_clients (redis_op reachable op s) = set_option (rs_client (redis_op reachable op s))"
  by (cases op) (auto simp: getClient_def initClient_def onModuleDestroy_redis_def Let_def split: option.splits)

text \<open>
  The services of orders and copy trading never hold more than one connection and never lose one: after
  any sequence of starts, uses and shutdowns, with any failures between, the connections that are
  open are exactly the client they hold. So a client they hand out is open, and they answer without
  one only if the attempt they have just made failed.
\<close>

theorem redis_client_is_open:
  assumes "s = fold (redis_op reachable) ops new_redis" and "getClient reachable s = (r, s')"
  shows "open_clients s' = set_option (rs_client s')
    \<and> (case r of Inl _ \<Rightarrow> rs_client s = None \<and> \<not> reachable (attempts s) | Inr n \<Rightarrow> open_clients s' = {n})"
proof -
  have "open_clients s1 = set_option (rs_client s1) \<Longrightarrow>
      open_clients (fold (redis_op reachable) ops s1) = set_option (rs_client (fold (redis_op reachable) ops s1))" for s1
  proof (induction ops arbitrary: s1)
    case (Cons op ops)
    from Cons.IH [OF redis_op_keeps [OF Cons.prems]] show ?case by simp
  qed simp
  then have "open_clients s = set_option (rs_client s)" using assms(1) by (simp add: new_redis_def)
  with assms(2) show ?thesis by (auto simp: getClient_def initClient_def Let_def split: option.splits if_splits)
qed

text \<open>The identity service hands out a client that it has closed.\<close>

theorem identity_client_after_shutdown:
  assumes "getClient reachable s = (Inr n, s1)"
  shows "\<exists>s3. getClient reachable (onModuleDestroy_identity s1) = (Inr n, s3) \<and> n \<notin> open_clients s3"
  using assms by (auto simp: getClient_def initClient_def onModuleDestroy_identity_def Let_def split: option.splits if_splits)

subsection \<open>Publisher and subscriber\<close>

record pubsub_service = connections +
  ps_publisher :: "nat option"
  ps_subscriber :: "nat option"

definition initClients :: "(nat \<Rightarrow> bool) \<Rightarrow> pubsub_service \<Rightarrow> pubsub_service" where
  "initClients reachable s =
     (let n = attempts s; m = Suc n
      in if \<not> reachable n then s\<lparr>attempts := m\<rparr>
         else if \<not> reachable m
         then s\<lparr>attempts := Suc m, open_clients := insert n (open_clients s), ps_publisher := Some n\<rparr>
         else s\<lparr>attempts := Suc m, open_clients := insert m (insert n (open_clients s)), ps_publisher := Some n,
                ps_subscriber := Some m\<rparr>)"

definition getPublisher :: "(nat \<Rightarrow> bool) \<Rightarrow> pubsub_service \<Rightarrow> nat result \<times> pubsub_service" where
  "getPublisher reachable s =
     (let s' = (if ps_publisher s = None then initClients reachable s else s)
      in (case ps_publisher s' of
            None \<Rightarrow> (Inl (PlainError ''Failed to establish Redis/Valkey GLIDE connection''), s') | Some n \<Rightarrow> (Inr n, s')))"

definition getSubscriber :: "(nat \<Rightarrow> bool) \<Rightarrow> pubsub_service \<Rightarrow> nat result \<times> pubsub_service" where
  "getSubscriber reachable s =
     (let s' = (if ps_subscriber s = None then initClients reachable s else s)
      in (case ps_subscriber s' of
            None \<Rightarrow> (Inl (PlainError ''Failed to establish Redis/Valkey GLIDE connection''), s') | Some n \<Rightarrow> (Inr n, s')))"

definition onModuleDestroy_pubsub :: "pubsub_service \<Rightarrow> pubsub_service" where
  "onModuleDestroy_pubsub s =
     s\<lparr>open_clients := open_clients s - set_option (ps_publisher s) - set_option (ps_subscriber s),
       ps_publisher := None, ps_subscriber := None\<rparr>"

text \<open>
  Publishing asks for the publisher only. So if the subscriber could not be connected when the
  service started, it stays without one whatever is published, and the messages of all the gateways
  are not heard by this one.
\<close>

theorem gateway_stays_deaf:
  assumes "reachable (attempts s)" and "\<not> reachable (Suc (attempts s))" and "ps_subscriber s = None"
  shows "ps_subscriber (((\<lambda>s. snd (getPublisher reachable s)) ^^ k) (initClients reachable s)) = None"
proof -
  have i: "initClients reachable s = s\<lparr>attempts := Suc (Suc (attempts s)),
      open_clients := insert (attempts s) (open_clients s), ps_publisher := Some (attempts s)\<rparr>"
    using assms by (simp add: initClients_def Let_def)
  have "snd (getPublisher reachable (initClients reachable s)) = initClients reachable s"
    by (simp add: i getPublisher_def)
  then have "((\<lambda>s. snd (getPublisher reachable s)) ^^ k) (initClients reachable s) = initClients reachable s"
    by (induction k) simp_all
  with i assms(3) show ?thesis by simp
qed

text \<open>Asking for the subscriber then connects both anew, and the publisher there was is never closed.\<close>

theorem reconnecting_leaks_publisher:
  assumes "ps_publisher s = Some p" and "ps_subscriber s = None" and "p \<in> open_clients s" and "p < attempts s"
    and "reachable (attempts s)" and "reachable (Suc (attempts s))"
  shows "\<exists>n s'. getSubscriber reachable s = (Inr n, s') \<and> p \<in> open_clients (onModuleDestroy_pubsub s')"
  using assms by (simp add: getSubscriber_def initClients_def onModuleDestroy_pubsub_def Let_def)

section \<open>Kafka clients\<close>

text \<open>
  The producer connects when it is first needed; \<open>connect\<close> and \<open>disconnect\<close> are what the broker answers.
  A failed disconnect is only logged.
\<close>

definition producer_connect :: "unit result \<Rightarrow> bool \<Rightarrow> unit result \<times> bool" where
  "producer_connect connect isConnected =
     (if isConnected then (Inr (), True) else (case connect of Inl e \<Rightarrow> (Inl e, False) | Inr _ \<Rightarrow> (Inr (), True)))"

definition producer_disconnect :: "unit result \<Rightarrow> bool \<Rightarrow> bool" where
  "producer_disconnect disconnect isConnected = (isConnected \<and> (case disconnect of Inl _ \<Rightarrow> True | Inr _ \<Rightarrow> False))"

text \<open>The value of a message: what its text parses to, or the text. A text is sent as it is.\<close>

type_synonym 'j payload_value = "'j + string"

record 'j json_library =
  js_parse :: "string \<Rightarrow> 'j option"
  js_stringify :: "'j \<Rightarrow> string"
  js_null :: 'j
  js_string_of :: "'j \<Rightarrow> string option"

definition parse_value :: "'j json_library \<Rightarrow> string option \<Rightarrow> 'j payload_value" where
  "parse_value json v =
     (case v of
        None \<Rightarrow> Inl (js_null json)
      | Some s \<Rightarrow> (case js_parse json s of None \<Rightarrow> Inr s | Some j \<Rightarrow> Inl j))"

definition string_value :: "'j json_library \<Rightarrow> 'j payload_value \<Rightarrow> string" where
  "string_value json p =
     (case p of
        Inl j \<Rightarrow> (case js_string_of json j of Some s \<Rightarrow> s | None \<Rightarrow> js_stringify json j)
      | Inr s \<Rightarrow> s)"

definition producer_send ::
  "'j json_library \<Rightarrow> unit result \<Rightarrow> (string kafka_record \<Rightarrow> 'b \<Rightarrow> unit result \<times> 'b) \<Rightarrow> 'j payload_value kafka_record
   \<Rightarrow> bool \<times> 'b \<Rightarrow> unit result \<times> bool \<times> 'b" where
  "producer_send json connect broker r = (\<lambda>(isConnected, b).
     (case producer_connect connect isConnected of
        (Inl e, c) \<Rightarrow> (Inl e, c, b)
      | (Inr _, c) \<Rightarrow>
          (case broker \<lparr>kr_topic = kr_topic r, kr_key = kr_key r, kr_value = string_value json (kr_value r),
                  kr_headers = kr_headers r\<rparr> b of
             (q, b') \<Rightarrow> (q, c, b'))))"

text \<open>A message for the dead letter queue: where it comes from and what is wrong with it, in its headers.\<close>

record 'j consumer_payload =
  pl_offset :: nat
  pl_key :: "string option"
  pl_value :: "'j payload_value"
  pl_headers :: "(string \<times> string) list"

definition dead_letter :: "string \<Rightarrow> string \<Rightarrow> string \<Rightarrow> 'j consumer_payload \<Rightarrow> 'j payload_value kafka_record" where
  "dead_letter now originalTopic errorDetails p =
     \<lparr>kr_topic = originalTopic @ ''.dlq'', kr_key = or_else (truthy (pl_key p)) ''dlq'', kr_value = pl_value p,
      kr_headers = fold (\<lambda>(k, v). AList.update k v)
        [(''x-dlq-original-topic'', originalTopic), (''x-dlq-original-offset'', show_nat (pl_offset p)),
         (''x-dlq-error'', errorDetails), (''x-dlq-timestamp'', now)] (pl_headers p)\<rparr>"

definition routeToDlq where
  "routeToDlq json connect broker now originalTopic errorDetails p =
     producer_send json connect broker (dead_letter now originalTopic errorDetails p)"

text \<open>
  A dead letter can be replayed: it names the topic and the offset of its message, keeps the headers
  the message had, and its text gives a handler the value the message gave, unless that value was a
  text.
\<close>

theorem dead_letter_replays:
  assumes "\<forall>j. js_parse json (js_stringify json j) = Some j"
    and "pl_value p = parse_value json v" and "\<forall>j. pl_value p = Inl j \<longrightarrow> js_string_of json j = None"
  shows "parse_value json (Some (string_value json (kr_value (dead_letter now t e p)))) = pl_value p
    \<and> map_of (kr_headers (dead_letter now t e p)) ''x-dlq-original-topic'' = Some t
    \<and> map_of (kr_headers (dead_letter now t e p)) ''x-dlq-original-offset'' = Some (show_nat (pl_offset p))
    \<and> (\<forall>k \<in> {''x-event-id'', ''x-correlation-id'', ''x-action'', ''traceparent''}.
         map_of (kr_headers (dead_letter now t e p)) k = map_of (pl_headers p) k)"
proof -
  have "parse_value json (Some (string_value json (pl_value p))) = pl_value p"
    using assms by (auto simp: parse_value_def string_value_def split: option.splits sum.splits)
  then show ?thesis by (simp add: dead_letter_def update_conv')
qed

text \<open>
  Starting and stopping a consumer. It counts as running from before \<open>run\<close> is called; \<open>connect\<close>,
  \<open>subscribe\<close>, \<open>run\<close> and \<open>disconnect\<close> are the client's answers.
\<close>

fun subscribe_all :: "(string \<Rightarrow> unit result) \<Rightarrow> string list \<Rightarrow> unit result" where
  "subscribe_all subscribe [] = Inr ()"
| "subscribe_all subscribe (t # ts) = bindR (subscribe t) (\<lambda>_. subscribe_all subscribe ts)"

definition consumer_start ::
  "unit result \<Rightarrow> (string \<Rightarrow> unit result) \<Rightarrow> unit result \<Rightarrow> string list \<Rightarrow> bool \<Rightarrow> unit result \<times> bool" where
  "consumer_start connect subscribe run topics isRunning =
     (if isRunning then (Inr (), True)
      else (case bindR connect (\<lambda>_. subscribe_all subscribe topics) of
              Inl e \<Rightarrow> (Inl e, False)
            | Inr _ \<Rightarrow> (run, True)))"

definition consumer_stop :: "unit result \<Rightarrow> bool \<Rightarrow> bool" where
  "consumer_stop disconnect isRunning = (isRunning \<and> (case disconnect of Inl _ \<Rightarrow> True | Inr _ \<Rightarrow> False))"

definition resume_partition :: "bool \<Rightarrow> ('s, 'm) consumer \<Rightarrow> ('s, 'm) consumer" where
  "resume_partition isRunning c = (if isRunning then c\<lparr>paused := False\<rparr> else c)"

text \<open>
  A consumer that could not connect or subscribe can be started again; one whose \<open>run\<close> failed cannot:
  starting it again does nothing and succeeds.
\<close>

theorem failed_run_cannot_be_restarted:
  assumes "connect = Inr ()" and "subscribe_all subscribe topics = Inr ()" and "run = Inl e"
  shows "consumer_start connect subscribe run topics False = (Inl e, True)
    \<and> consumer_start connect' subscribe' run' topics True = (Inr (), True)"
  using assms by (simp add: consumer_start_def)

section \<open>External signals\<close>

record external_signal =
  sig_source :: string
  sig_symbol :: string
  sig_side :: order_side
  sig_price :: string
  sig_quantity :: string
  sig_timestamp :: time

text \<open>The stream is an \<open>rxjs\<close> subject: it passes a signal to whoever has subscribed, until it is completed.\<close>

record listener =
  ln_listening :: bool
  ln_completed :: bool
  ln_observers :: "external_signal list list"

datatype listener_call = Subscribe | IngestSignal external_signal | StartListening | StopListening | Destroy

fun listener_op :: "listener_call \<Rightarrow> listener \<Rightarrow> listener" where
  "listener_op Subscribe l = (if ln_completed l then l else l\<lparr>ln_observers := ln_observers l @ [[]]\<rparr>)"
| "listener_op (IngestSignal sg) l =
     (if ln_completed l then l else l\<lparr>ln_observers := map (\<lambda>seen. seen @ [sg]) (ln_observers l)\<rparr>)"
| "listener_op StartListening l = l\<lparr>ln_listening := True\<rparr>"
| "listener_op StopListening l = l\<lparr>ln_listening := False\<rparr>"
| "listener_op Destroy l = l\<lparr>ln_listening := False, ln_completed := True\<rparr>"

definition signals_in :: "listener_call list \<Rightarrow> external_signal list" where
  "signals_in ops = List.map_filter (\<lambda>op. case op of IngestSignal sg \<Rightarrow> Some sg | _ \<Rightarrow> None) ops"

text \<open>
  Until it is destroyed, the listener passes every signal on to everybody who has subscribed before, in
  order, whether it is listening or not.
\<close>

theorem signals_pass_without_listening:
  assumes "Destroy \<notin> set ops" and "\<not> ln_completed l" and "i < length (ln_observers l)"
  shows "ln_observers (fold listener_op ops l) ! i = ln_observers l ! i @ signals_in ops"
  using assms
proof (induction ops arbitrary: l)
  case (Cons op ops)
  have "\<not> ln_completed (listener_op op l)" "i < length (ln_observers (listener_op op l))"
    using Cons.prems by (cases op; simp)+
  moreover have "ln_observers (listener_op op l) ! i = ln_observers l ! i @ signals_in [op]"
    using Cons.prems by (cases op) (simp_all add: signals_in_def nth_append List.map_filter_simps)
  ultimately show ?case
    using Cons.IH [of "listener_op op l"] Cons.prems(1) by (cases op) (simp_all add: signals_in_def List.map_filter_simps)
qed (simp add: signals_in_def)

end
