(* ===== verification/Spec2Isabelle.thy ===== *)
theory Spec2Isabelle
  imports Balances_Props Orders_Demo Outbox_Props Retention Transfers_Demo Copy_Demo Edge_Demo Http_Demo Log_Redaction Connections
begin

text \<open>
  Verification library of ether-trade, a trading platform of NestJS microservices.

  The program. Every service has its own database and answers gRPC calls. \<open>apps/accounts\<close> keeps the
  balances and their ledger; \<open>apps/orders\<close> takes orders, reserves their funds at the accounts service,
  matches them on a book in Valkey and tells what happened through an outbox and Kafka;
  the accounts service settles the trades it reads from Kafka; \<open>apps/transfers\<close> credits deposits
  it scans from the chain and pays withdrawals out; \<open>apps/copy-trading\<close> replicates the trades of
  master traders for their followers, through the accounts and the orders service. \<open>apps/identity\<close>
  logs wallets in with signed messages and hands out tokens. \<open>apps/api-gateway\<close> is the edge: it
  turns HTTP requests into gRPC calls for the user of a token, errors into HTTP answers, and the
  events of Kafka into updates for websocket clients. \<open>libs/common\<close> and \<open>libs/contracts\<close> hold what
  they share.

  Conventions. Amounts are integers of units of the eighth decimal; where the code multiplies or
  divides, the finer units and the rounding back are written out. A table is the list of its rows,
  an operation of a repository a function on the tables with its unique indexes and column widths.
  Everything that raises returns a result (\<open>exc + 'a\<close>), with the state beside it. Operations of a service
  take an environment record: what the databases, Valkey, the broker, the chain and the libraries
  answer in this run, fresh ids and the clock. So every theorem that does not restrict its
  environment holds for all failures. What is not under \<open>src/\<close> is an argument there: what other
  transactions of PostgreSQL commit in between, which rows a \<open>limit\<close> picks, the range queries of
  Valkey, the roundings of \<open>bignumber.js\<close>, number and address parsers, the node and the wallet client.

  Theories and code.
  \<^item> \<open>Prelude\<close>, \<open>Decimal\<close>, \<open>Drain\<close>, \<open>Batches\<close>: results, tables, roundings; strings and decimal
    strings; the loop of the retention jobs (\<open>batch_delete\<close> is its interface); the batch runner
    \<open>libs/common/src/utils/async.utils.ts\<close>.
  \<^item> \<open>Ledger\<close>, \<open>Ledger_Inv\<close>, \<open>Ledger_Ops\<close>, \<open>Ledger_Props\<close>: \<open>balances.repository.ts\<close>, with the invariant
    that ties balances to ledger rows, kept under interference; conservation and idempotency.
  \<^item> \<open>Wallet\<close>, \<open>Balances\<close>, \<open>Balances_Props\<close>: the abstract wallet, \<open>balances.service.ts\<close> and its
    controller, and the refinement of the wallet by every gRPC method.
  \<^item> \<open>Settlement\<close> to \<open>Settlement_Safety\<close>, \<open>Retention\<close>: the settlement consumer
    (\<open>apps/accounts/src/consumers\<close>): books, conservation, exact amounts, at most once, solvency.
  \<^item> \<open>Kafka\<close>, \<open>Contracts\<close>, \<open>Outbox\<close>, \<open>Outbox_Props\<close>: \<open>libs/common/src/kafka\<close>, the events of
    \<open>libs/contracts\<close>, the outbox with its relay: nothing skipped, nothing lost, oldest first.
  \<^item> \<open>OrderBook\<close>, \<open>OrdersDb\<close>, \<open>Matching\<close> to \<open>Matching_Demo\<close>: the book in Valkey, the tables, the matching
    engine of \<open>apps/orders\<close>: consistency of book and tables, fairness, price priority, conservation.
  \<^item> \<open>Orders\<close>, \<open>Reservations\<close>, \<open>Orders_Saga\<close> to \<open>Orders_Demo\<close>: \<open>orders.service.ts\<close>: the saga with the
    accounts service, its compensation, idempotency, cancellation, cold start. \<open>reservation_service\<close> is
    the interface of the accounts service, interpreted on its model.
  \<^item> \<open>Evm\<close>, \<open>TransfersDb\<close>, \<open>Transfers\<close>, \<open>Deposits\<close>, \<open>Withdrawals\<close>, with \<open>Funding\<close>,
    \<open>Withdrawal_Request\<close> to \<open>Transfers_Demo\<close>: \<open>apps/transfers\<close>: codings, withdrawal saga and worker as a
    state machine, deposit pipeline: exactly once over a lossy connection, no block skipped.
  \<^item> \<open>Copy_Math\<close>, \<open>CopyDb\<close>, \<open>Copy_Lock\<close>, \<open>Copy_Trading\<close>, \<open>Copy_Replication\<close>, with \<open>Copy_Inv\<close> to
    \<open>Copy_Demo\<close>: \<open>apps/copy-trading\<close>: sizes and prices, the lock, subscriptions, replication; no
    overselling in any reachable state, one order per trade and follower on the model of the orders
    service (interface \<open>order_placer\<close>), allocations within the funds at the model of the accounts
    service (interface \<open>balance_source\<close>), isolation of the followers.
  \<^item> \<open>IdentityDb\<close>, \<open>Identity\<close>, \<open>Identity_Nonces\<close>, \<open>Identity_Tokens\<close>, \<open>Identity_Sessions\<close>, \<open>Identity_Demo\<close>:
    \<open>apps/identity\<close>: users, nonces, refresh tokens and their rotation, login; a message and a token are
    good once over any sequence of calls, a wallet has one user, reuse ends all sessions.
  \<^item> \<open>Ws_Rooms\<close>, \<open>Ws_Bridge\<close>, \<open>Ws_Auth\<close>, \<open>Ws_Gateway\<close>, with \<open>Ws_Props\<close>, \<open>Ws_Flow\<close>: the websockets of
    \<open>apps/api-gateway\<close>: rooms, the bridge from Kafka, the handshake, the handlers and their rate limit;
    in every reachable state private updates reach their owner only, and an owner's client gets its own.
  \<^item> \<open>Error_Filters\<close>, \<open>Gateway\<close>, \<open>Gateway_Replies\<close>, with \<open>Edge_Demo\<close>, \<open>Http_Demo\<close>: the exception filters
    of \<open>libs/common\<close>, the guards, validation and calls of every HTTP route, and what is made of the
    answers; errors cross services unchanged, calls speak for their caller, and an order sent over
    HTTP touches the caller's funds only, on the models of the orders and the accounts service.
  \<^item> \<open>Config\<close>, \<open>Connections\<close>, \<open>Log_Redaction\<close>: what the services start with and hold on to: the \<open>.env\<close>
    cascade, the schemas and the configuration objects; the Valkey clients, the Kafka producer, the
    start and stop of consumers, dead letters and the exchange listener; the lines of the logger.

  Interfaces. A locale stands wherever a service relies on another; it is interpreted on the
  definitions of the service that provides it, so the properties that cross services rest on both
  models: \<open>batch_delete\<close>, \<open>reservation_service\<close>, \<open>withdrawal_service\<close>, \<open>deposit_service\<close>, \<open>balance_source\<close>,
  \<open>order_placer\<close>. The witnesses apply each property to a small platform (the \<open>Demo\<close> theories).

  Bounds. No fuel is used. The retention loops are partial functions, shown to end when each round
  deletes what it reports; all other loops are structural or have a measure. Copied sizes are
  bounded for quantities up to \<open>10 ^ 12\<close> coins, because the quotient has twenty decimals. Keys
  of orders of up to 121 characters leave room for the prefixes of the ledger keys.

  Granularity. An operation is one step, split where it leaves its transaction or calls a remote
  service; interference is an argument where the code races (ledger, settlement, outbox) and
  an arbitrary step elsewhere (\<open>transfers_step\<close>, \<open>copy_step\<close>). Concurrent copies take effect
  in any order, each as one step.

  Not modelled. Metrics, spans and the propagation of traces beyond the fields that carry them;
  timers, whose steps are taken whenever; the wiring of modules, clients and decorators of the API
  documentation; the code generated from the protocol files, and so the encoding of messages; the
  parsing of URLs, headers and bodies before a route sees its fields; migrations and scripts; amounts
  that are no finite number, which the gateway keeps out. The JWT, signature, hashing, JSON, address
  and \<open>class-validator\<close> libraries are arguments, or stand as the checks that the decorators name.
\<close>

end
